(* ===== verification/Wcp_Prelude.thy ===== *)
theory Wcp_Prelude
  imports Complex_Main "HOL-Library.Char_ord" "HOL-Library.List_Lexorder" "HOL-Library.Sublist"
begin

text \<open>
  Shared vocabulary of the development: Python exceptions as values, the two result
  types the models use (a pure computation that may raise, and a computation over an
  explicit state that may raise and keeps what it wrote before raising), Python string
  helpers, and the contracts several components share as locales: a table with a
  primary key, a codec, and a hash-linked chain.

  A Python \<open>str\<close> and a Python \<open>bytes\<close> are both a \<open>string\<close> here: a list of 8-bit
  characters. The canonical JSON of the code base is pure ASCII (\<open>json.dumps\<close> escapes
  everything else), so encoding it as UTF-8 is the identity on this representation.
\<close>

named_theorems py_simps "unfolding of the result combinators"
named_theorems chain_intros "introduction rules for chains that verify"

type_synonym bytes = string

subsection \<open>Exceptions as values\<close>

text \<open>
  \<open>AnnotationMismatch\<close> is not an exception of the code: the dispatcher's model returns
  it for a request whose argument does not have the JSON type the handler annotates
  (the code does not check annotations, and what it then does is outside the model).
\<close>

datatype py_exc =
    TaskNotFound string
  | TaskStateInvalid string
  | AttestationFailed string
  | TaskPreempted string
  | ValueError string
  | DIDResolutionError string
  | SignatureVerificationError string
  | KeyError string
  | TypeError
  | AttributeError
  | IndexError
  | OverflowError
  | RuntimeError string
  | IntegrityError
  | StatementError
  | PeerTrustAnchorRevoked string
  | BufferOverflowError int int
  | PermissionError string
  | AssertionError string
  | TimeoutError
  | ZeroDivisionError
  | AnnotationMismatch

type_synonym 'a res = "py_exc + 'a"

text \<open>Sequencing of computations that may raise: the first exception wins.\<close>

definition bindE :: "'a res \<Rightarrow> ('a \<Rightarrow> 'b res) \<Rightarrow> 'b res" where
  "bindE m f = (case m of Inl e \<Rightarrow> Inl e | Inr x \<Rightarrow> f x)"

text \<open>\<open>if c: raise e\<close>\<close>

definition raise_if :: "bool \<Rightarrow> py_exc \<Rightarrow> unit res" where
  "raise_if c e = (if c then Inl e else Inr ())"

definition of_opt :: "py_exc \<Rightarrow> 'a option \<Rightarrow> 'a res" where
  "of_opt e x = (case x of None \<Rightarrow> Inl e | Some y \<Rightarrow> Inr y)"

fun forE :: "('a \<Rightarrow> unit res) \<Rightarrow> 'a list \<Rightarrow> unit res" where
  "forE f [] = Inr ()"
| "forE f (x # xs) = bindE (f x) (\<lambda>_. forE f xs)"

fun mapE :: "('a \<Rightarrow> 'b res) \<Rightarrow> 'a list \<Rightarrow> 'b list res" where
  "mapE f [] = Inr []"
| "mapE f (x # xs) = bindE (f x) (\<lambda>y. bindE (mapE f xs) (\<lambda>ys. Inr (y # ys)))"

fun filterE :: "('a \<Rightarrow> bool res) \<Rightarrow> 'a list \<Rightarrow> 'a list res" where
  "filterE f [] = Inr []"
| "filterE f (x # xs) = bindE (f x) (\<lambda>b. bindE (filterE f xs) (\<lambda>ys. Inr (if b then x # ys else ys)))"

lemma bindE_simps [simp]:
  "bindE (Inl e) f = Inl e"
  "bindE (Inr x) f = f x"
  by (simp_all add: bindE_def)

lemma bindE_Inr [simp]: "bindE m f = Inr y \<longleftrightarrow> (\<exists>x. m = Inr x \<and> f x = Inr y)"
  by (cases m) auto

lemma bindE_Inl: "bindE m f = Inl e \<longleftrightarrow> m = Inl e \<or> (\<exists>x. m = Inr x \<and> f x = Inl e)"
  by (cases m) auto

lemma bindE_assoc [simp]: "bindE (bindE m f) g = bindE m (\<lambda>x. bindE (f x) g)"
  by (cases m) auto

lemma raise_if_simps [simp]:
  "raise_if True e = Inl e"
  "raise_if False e = Inr ()"
  by (simp_all add: raise_if_def)

lemma raise_if_Inr [simp]: "raise_if c e = Inr u \<longleftrightarrow> \<not> c"
  by (cases c) auto

lemma raise_if_Inl [simp]: "raise_if c e = Inl e' \<longleftrightarrow> c \<and> e' = e"
  by (cases c) auto

lemma of_opt_simps [simp]:
  "of_opt e None = Inl e"
  "of_opt e (Some x) = Inr x"
  by (simp_all add: of_opt_def)

lemma of_opt_Inr [simp]: "of_opt e x = Inr y \<longleftrightarrow> x = Some y"
  by (cases x) auto

lemma forE_Inr: "forE f xs = Inr u \<longleftrightarrow> (\<forall>x \<in> set xs. f x = Inr ())"
  by (induction xs) auto

lemma filterE_total: "(\<And>x. x \<in> set xs \<Longrightarrow> f x = Inr (g x)) \<Longrightarrow> filterE f xs = Inr (filter g xs)"
  by (induction xs) auto

lemma filterE_set: "filterE f xs = Inr ys \<Longrightarrow> set ys = {x \<in> set xs. f x = Inr True}"
  by (induction xs arbitrary: ys) (auto split: if_splits)

lemma filterE_map:
  assumes "\<And>x. x \<in> set xs \<Longrightarrow> f (g x) = f x"
  shows "filterE f (map g xs) = bindE (filterE f xs) (\<lambda>ys. Inr (map g ys))"
  using assms
proof (induction xs)
  case (Cons x xs)
  then show ?case by (cases "f x"; cases "filterE f xs") auto
qed simp

lemma mapE_Inr_length: "mapE f xs = Inr ys \<Longrightarrow> length ys = length xs"
  by (induction xs arbitrary: ys) auto

lemma mapE_Inr_nth: "mapE f xs = Inr ys \<Longrightarrow> list_all2 (\<lambda>x y. f x = Inr y) xs ys"
  by (induction xs arbitrary: ys) auto

text \<open>Whatever a computation returns satisfies \<open>Q\<close>; nothing is said when it raises.\<close>

definition returns :: "('a \<Rightarrow> bool) \<Rightarrow> 'a res \<Rightarrow> bool" where
  "returns Q r \<longleftrightarrow> (\<forall>x. r = Inr x \<longrightarrow> Q x)"

lemma returnsD: "returns Q r \<Longrightarrow> r = Inr x \<Longrightarrow> Q x"
  by (simp add: returns_def)

lemma returns_simps [simp]:
  "returns Q (Inl e)"
  "returns Q (Inr x) \<longleftrightarrow> Q x"
  by (simp_all add: returns_def)

lemma returns_bindE: "(\<And>x. returns Q (f x)) \<Longrightarrow> returns Q (bindE m f)"
  by (cases m) auto

lemma returns_if: "returns Q a \<Longrightarrow> returns Q b \<Longrightarrow> returns Q (if c then a else b)"
  by simp

subsection \<open>Computations over a state\<close>

text \<open>
  A handler runs over the database session. When it raises, what it wrote before stays
  in the session; whether the session is committed or rolled back is the caller's
  decision (and the two transports of the router decide differently), so the state is
  part of the result in both cases.
\<close>

type_synonym ('s, 'a) py = "'s \<Rightarrow> 'a res \<times> 's"

definition ret :: "'a \<Rightarrow> ('s, 'a) py" where
  "ret x s = (Inr x, s)"

definition raise :: "py_exc \<Rightarrow> ('s, 'a) py" where
  "raise e s = (Inl e, s)"

definition bindS :: "('s, 'a) py \<Rightarrow> ('a \<Rightarrow> ('s, 'b) py) \<Rightarrow> ('s, 'b) py" where
  "bindS m f s = (case m s of (Inl e, t) \<Rightarrow> (Inl e, t) | (Inr x, t) \<Rightarrow> f x t)"

definition lift :: "'a res \<Rightarrow> ('s, 'a) py" where
  "lift r s = (r, s)"

definition gets :: "('s \<Rightarrow> 'a) \<Rightarrow> ('s, 'a) py" where
  "gets f s = (Inr (f s), s)"

definition modify :: "('s \<Rightarrow> 's) \<Rightarrow> ('s, unit) py" where
  "modify f s = (Inr (), f s)"

fun forS :: "('a \<Rightarrow> ('s, unit) py) \<Rightarrow> 'a list \<Rightarrow> ('s, unit) py" where
  "forS f [] = ret ()"
| "forS f (x # xs) = bindS (f x) (\<lambda>_. forS f xs)"

fun mapS :: "('a \<Rightarrow> ('s, 'b) py) \<Rightarrow> 'a list \<Rightarrow> ('s, 'b list) py" where
  "mapS f [] = ret []"
| "mapS f (x # xs) = bindS (f x) (\<lambda>y. bindS (mapS f xs) (\<lambda>ys. ret (y # ys)))"

lemma ret_run [simp]: "ret x s = (Inr x, s)"
  by (simp add: ret_def)

lemma raise_run [simp]: "raise e s = (Inl e, s)"
  by (simp add: raise_def)

lemma lift_run [simp]: "lift r s = (r, s)"
  by (simp add: lift_def)

lemma gets_run [simp]: "gets f s = (Inr (f s), s)"
  by (simp add: gets_def)

lemma modify_run [simp]: "modify f s = (Inr (), f s)"
  by (simp add: modify_def)

lemma bindS_Inr [simp]:
  "bindS m f s = (Inr y, t) \<longleftrightarrow> (\<exists>x u. m s = (Inr x, u) \<and> f x u = (Inr y, t))"
  by (auto simp: bindS_def split: prod.splits sum.splits)

lemma bindS_Inl:
  "bindS m f s = (Inl e, t) \<longleftrightarrow>
     m s = (Inl e, t) \<or> (\<exists>x u. m s = (Inr x, u) \<and> f x u = (Inl e, t))"
  by (auto simp: bindS_def split: prod.splits sum.splits)

lemma bindS_run:
  "m s = (Inr x, u) \<Longrightarrow> bindS m f s = f x u"
  "m s = (Inl e, u) \<Longrightarrow> bindS m f s = (Inl e, u)"
  by (simp_all add: bindS_def)

text \<open>
  One step of a computation. The continuation is written \<open>id f\<close> on the right because the
  simplifier does not take an equation whose right-hand side is headed by a variable.
\<close>

lemma bindS_step [simp]:
  "bindS (ret x) f s = id f x s"
  "bindS (raise e) k' s = (Inl e, s)"
  "bindS (gets g) f' s = id f' (g s) s"
  "bindS (modify h) k s = id k () (h s)"
  by (simp_all add: bindS_def)

lemma bindS_lift [simp]:
  "bindS (lift (Inr x)) f s = id f x s"
  "bindS (lift (Inl e)) f s = (Inl e, s)"
  by (simp_all add: bindS_def)

lemmas py_run [py_simps] =
  bindS_def bindE_def raise_if_def of_opt_def

text \<open>
  Frame reasoning: a computation keeps a predicate when the predicate holds of the state
  it leaves, whether it returns or raises.
\<close>

definition keeps :: "('s \<Rightarrow> bool) \<Rightarrow> ('s, 'a) py \<Rightarrow> bool" where
  "keeps P m \<longleftrightarrow> (\<forall>s. P s \<longrightarrow> P (snd (m s)))"

lemma keepsD: "keeps P m \<Longrightarrow> P s \<Longrightarrow> P (snd (m s))"
  by (simp add: keeps_def)

lemma keepsI: "(\<And>s. P s \<Longrightarrow> P (snd (m s))) \<Longrightarrow> keeps P m"
  by (simp add: keeps_def)

lemma keeps_ret [intro, simp]: "keeps P (ret x)"
  by (simp add: keeps_def)

lemma keeps_raise [intro, simp]: "keeps P (raise e)"
  by (simp add: keeps_def)

lemma keeps_lift [intro, simp]: "keeps P (lift r)"
  by (simp add: keeps_def)

lemma keeps_gets [intro, simp]: "keeps P (gets f)"
  by (simp add: keeps_def)

lemma keeps_modify: "(\<And>s. P s \<Longrightarrow> P (h s)) \<Longrightarrow> keeps P (modify h)"
  by (simp add: keeps_def)

lemma keeps_bindS [intro]:
  assumes "keeps P m" and "\<And>x. keeps P (f x)"
  shows "keeps P (bindS m f)"
proof (rule keepsI)
  fix s assume "P s"
  with assms(1) have "P (snd (m s))" by (rule keepsD)
  then show "P (snd (bindS m f s))"
    using assms(2) by (auto simp: bindS_def keeps_def split: prod.splits sum.splits)
qed

lemma keeps_forS [intro]: "(\<And>x. x \<in> set xs \<Longrightarrow> keeps P (f x)) \<Longrightarrow> keeps P (forS f xs)"
  by (induction xs) auto

lemma keeps_mapS [intro]: "(\<And>x. x \<in> set xs \<Longrightarrow> keeps P (f x)) \<Longrightarrow> keeps P (mapS f xs)"
  by (induction xs) auto

lemma mapS_list_all2:
  "mapS f xs s = (Inr ys, t) \<Longrightarrow> list_all2 (\<lambda>x y. \<exists>u v. f x u = (Inr y, v)) xs ys"
  by (induction xs arbitrary: s ys) auto

lemma keeps_Inr: "keeps P m \<Longrightarrow> m s = (Inr x, t) \<Longrightarrow> P s \<Longrightarrow> P t"
  by (metis keepsD snd_conv)

lemma keeps_conj: "keeps P m \<Longrightarrow> keeps Q m \<Longrightarrow> keeps (\<lambda>s. P s \<and> Q s) m"
  by (simp add: keeps_def)

text \<open>
  The same with two predicates: from a state where \<open>P\<close> holds, the computation ends in one
  where \<open>R\<close> holds, whether it returns or raises. The rules step through a handler and pick
  up what each guard lets through.
\<close>

definition leads :: "('s \<Rightarrow> bool) \<Rightarrow> ('s, 'a) py \<Rightarrow> ('s \<Rightarrow> bool) \<Rightarrow> bool" where
  "leads P m R \<longleftrightarrow> (\<forall>s. P s \<longrightarrow> R (snd (m s)))"

lemma leadsD: "leads P m R \<Longrightarrow> P s \<Longrightarrow> R (snd (m s))"
  by (simp add: leads_def)

lemma keeps_leads: "keeps P m \<longleftrightarrow> leads P m P"
  by (simp add: keeps_def leads_def)

lemma leads_keeps: "keeps R m \<Longrightarrow> (\<And>s. P s \<Longrightarrow> R s) \<Longrightarrow> leads P m R"
  by (auto simp: keeps_def leads_def)

lemma leads_pre: "leads P m R \<Longrightarrow> (\<And>s. P' s \<Longrightarrow> P s) \<Longrightarrow> leads P' m R"
  by (simp add: leads_def)

lemma leads_weaken: "leads P m R \<Longrightarrow> (\<And>s. R s \<Longrightarrow> R' s) \<Longrightarrow> leads P m R'"
  by (simp add: leads_def)

lemma leads_pure: "(A \<Longrightarrow> leads P m R) \<Longrightarrow> leads (\<lambda>s. A \<and> P s) m R"
  by (simp add: leads_def)

lemma leads_bind:
  assumes "leads P m P'" "\<And>x. leads P' (f x) R" "\<And>s. P' s \<Longrightarrow> R s"
  shows "leads P (bindS m f) R"
  unfolding leads_def
proof (intro allI impI)
  fix s assume "P s"
  with assms(1) have "P' (snd (m s))" by (rule leadsD)
  then show "R (snd (bindS m f s))"
    using assms(2,3) by (cases "m s"; cases "fst (m s)") (auto simp: bindS_def leads_def)
qed

lemma leads_bind_keeps:
  "keeps P m \<Longrightarrow> (\<And>x. leads P (f x) R) \<Longrightarrow> (\<And>s. P s \<Longrightarrow> R s) \<Longrightarrow> leads P (bindS m f) R"
  by (rule leads_bind) (simp add: keeps_leads)

lemma leads_bind_lift:
  "(\<And>x. r = Inr x \<Longrightarrow> leads P (f x) R) \<Longrightarrow> (\<And>s. P s \<Longrightarrow> R s) \<Longrightarrow> leads P (bindS (lift r) f) R"
  by (cases r) (auto simp: leads_def)

lemma leads_bind_gets:
  "(\<And>x. leads (\<lambda>s. P s \<and> g s = x) (f x) R) \<Longrightarrow> leads P (bindS (gets g) f) R"
  by (auto simp: leads_def)

subsection \<open>Python strings\<close>

definition startswith :: "string \<Rightarrow> string \<Rightarrow> bool" where
  "startswith s p \<longleftrightarrow> take (length p) s = p"

text \<open>\<open>s[len(p):]\<close>\<close>

definition drop_prefix :: "string \<Rightarrow> string \<Rightarrow> string" where
  "drop_prefix p s = drop (length p) s"

text \<open>\<open>s.split(sep, maxsplit=n)\<close> for a one-character separator.\<close>

fun split_max :: "nat \<Rightarrow> char \<Rightarrow> string \<Rightarrow> string list" where
  "split_max 0 c s = [s]"
| "split_max (Suc n) c s =
     (case dropWhile (\<lambda>x. x \<noteq> c) s of
        [] \<Rightarrow> [s]
      | _ # rest \<Rightarrow> takeWhile (\<lambda>x. x \<noteq> c) s # split_max n c rest)"

text \<open>\<open>len(s) - len(s.lstrip(c))\<close>: how many leading characters \<open>c\<close> there are.\<close>

definition lead_count :: "'a \<Rightarrow> 'a list \<Rightarrow> nat" where
  "lead_count c s = length s - length (dropWhile (\<lambda>x. x = c) s)"

lemma startswith_append [simp]: "startswith (p @ s) p"
  by (simp add: startswith_def)

lemma drop_prefix_append [simp]: "drop_prefix p (p @ s) = s"
  by (simp add: drop_prefix_def)

lemma startswith_iff: "startswith s p \<longleftrightarrow> (\<exists>r. s = p @ r)"
proof
  assume "startswith s p"
  then have "s = p @ drop (length p) s"
    unfolding startswith_def by (metis append_take_drop_id)
  then show "\<exists>r. s = p @ r" ..
qed auto

lemma lead_count_takeWhile: "lead_count c s = length (takeWhile (\<lambda>x. x = c) s)"
proof -
  have "length s = length (takeWhile (\<lambda>x. x = c) s) + length (dropWhile (\<lambda>x. x = c) s)"
    by (metis length_append takeWhile_dropWhile_id)
  then show ?thesis by (simp add: lead_count_def)
qed

lemma lead_count_replicate: "(s = [] \<or> hd s \<noteq> c) \<Longrightarrow> lead_count c (replicate n c @ s) = n"
  by (induction n) (cases s; auto simp: lead_count_takeWhile)+

lemma lead_split: "s = replicate (lead_count c s) c @ dropWhile (\<lambda>x. x = c) s"
proof -
  have "takeWhile (\<lambda>x. x = c) s = replicate (lead_count c s) c"
    unfolding lead_count_takeWhile
    by (metis (mono_tags, lifting) replicate_eqI set_takeWhileD)
  then show ?thesis by (metis takeWhile_dropWhile_id)
qed

subsection \<open>Contract: a codec\<close>

text \<open>
  An encoder and a decoder that may reject, on the values the encoder is meant for. The
  interpretations are base58, URL-safe base64, the DID strings and the canonical JSON
  printer's string escapes.
\<close>

locale codec =
  fixes enc :: "'a \<Rightarrow> 'b"
    and dec :: "'b \<Rightarrow> 'a option"
    and dom :: "'a \<Rightarrow> bool"
  assumes dec_enc: "dom x \<Longrightarrow> dec (enc x) = Some x"
begin

lemma enc_inject: "dom x \<Longrightarrow> dom y \<Longrightarrow> enc x = enc y \<longleftrightarrow> x = y"
  by (metis dec_enc option.inject)

lemma dec_enc_ne: "dom x \<Longrightarrow> dec (enc x) \<noteq> None"
  by (simp add: dec_enc)

end

subsection \<open>Contract: a table with a primary key\<close>

text \<open>
  The rows of a table in insertion order, its primary key, and the three operations of
  the session the services use: \<open>db.get\<close>, \<open>db.add\<close> followed by a flush (which fails on a
  duplicate key) and assignment to fields of a row already loaded.
\<close>

fun row_get :: "('r \<Rightarrow> 'k) \<Rightarrow> 'r list \<Rightarrow> 'k \<Rightarrow> 'r option" where
  "row_get key [] k = None"
| "row_get key (r # rs) k = (if key r = k then Some r else row_get key rs k)"

definition row_add :: "('r \<Rightarrow> 'k) \<Rightarrow> 'r \<Rightarrow> 'r list \<Rightarrow> 'r list res" where
  "row_add key r rs = (if key r \<in> key ` set rs then Inl IntegrityError else Inr (rs @ [r]))"

definition row_update :: "('r \<Rightarrow> 'k) \<Rightarrow> 'k \<Rightarrow> ('r \<Rightarrow> 'r) \<Rightarrow> 'r list \<Rightarrow> 'r list" where
  "row_update key k f rs = map (\<lambda>r. if key r = k then f r else r) rs"

locale keyed_table =
  fixes key :: "'r \<Rightarrow> 'k"
    and get :: "'r list \<Rightarrow> 'k \<Rightarrow> 'r option"
    and add :: "'r \<Rightarrow> 'r list \<Rightarrow> 'r list res"
    and upd :: "'k \<Rightarrow> ('r \<Rightarrow> 'r) \<Rightarrow> 'r list \<Rightarrow> 'r list"
  assumes get_Some: "get rs k = Some r \<Longrightarrow> r \<in> set rs \<and> key r = k"
    and get_None: "get rs k = None \<longleftrightarrow> k \<notin> key ` set rs"
    and add_ok: "add r rs = Inr rs' \<longleftrightarrow> key r \<notin> key ` set rs \<and> rs' = rs @ [r]"
    and get_snoc: "key r \<notin> key ` set rs \<Longrightarrow> get (rs @ [r]) k = (if k = key r then Some r else get rs k)"
    and upd_get: "(\<And>r. key (f r) = key r) \<Longrightarrow>
      get (upd k f rs) k' = (if k' = k then map_option f (get rs k) else get rs k')"
    and upd_keys: "(\<And>r. key (f r) = key r) \<Longrightarrow> map key (upd k f rs) = map key rs"
begin

lemma add_get: "add r rs = Inr rs' \<Longrightarrow> get rs' k = (if k = key r then Some r else get rs k)"
  by (auto simp: add_ok get_snoc)

lemma add_keeps: "add r rs = Inr rs' \<Longrightarrow> get rs k = Some x \<Longrightarrow> get rs' k = Some x"
  using get_None [of rs "key r"] by (auto simp: add_ok get_snoc)

lemma add_distinct: "add r rs = Inr rs' \<Longrightarrow> distinct (map key rs) \<Longrightarrow> distinct (map key rs')"
  by (auto simp: add_ok)

lemma upd_distinct:
  "(\<And>r. key (f r) = key r) \<Longrightarrow> distinct (map key (upd k f rs)) = distinct (map key rs)"
  by (simp add: upd_keys)

lemma upd_dom: "(\<And>r. key (f r) = key r) \<Longrightarrow> key ` set (upd k f rs) = key ` set rs"
  by (metis list.set_map upd_keys)

end

lemma row_get_append:
  "row_get key (rs @ [r]) k =
     (case row_get key rs k of Some x \<Rightarrow> Some x | None \<Rightarrow> if key r = k then Some r else None)"
  by (induction rs) auto

lemma row_get_None: "row_get key rs k = None \<longleftrightarrow> k \<notin> key ` set rs"
  by (induction rs) auto

lemma row_get_Some: "row_get key rs k = Some r \<Longrightarrow> r \<in> set rs \<and> key r = k"
  by (induction rs) (auto split: if_splits)

lemma row_get_unique: "distinct (map key rs) \<Longrightarrow> r \<in> set rs \<Longrightarrow> row_get key rs (key r) = Some r"
  by (induction rs) force+

lemma row_update_get:
  "(\<And>r. key (f r) = key r) \<Longrightarrow>
     row_get key (row_update key k f rs) k' =
       (if k' = k then map_option f (row_get key rs k) else row_get key rs k')"
  by (induction rs) (auto simp: row_update_def)

lemma row_update_keys:
  "(\<And>r. key (f r) = key r) \<Longrightarrow> map key (row_update key k f rs) = map key rs"
  by (simp add: row_update_def)

lemma row_update_mem:
  assumes "distinct (map key rs)" "row_get key rs k = Some t" "x \<in> set (row_update key k g rs)"
  shows "x = g t \<or> (x \<in> set rs \<and> key x \<noteq> k)"
proof -
  from assms(3) obtain r where r: "r \<in> set rs" "x = (if key r = k then g r else r)"
    by (auto simp: row_update_def)
  have "r = t" if "key r = k"
    using row_get_unique [OF assms(1) r(1)] that assms(2) by simp
  with r show ?thesis by auto
qed

text \<open>The list implementation meets the contract, whatever the key is.\<close>

lemma row_table: "keyed_table key (row_get key) (row_add key) (row_update key)"
proof
  fix rs :: "'a list" and k r
  show "row_get key rs k = Some r \<Longrightarrow> r \<in> set rs \<and> key r = k"
    by (rule row_get_Some)
  show "row_get key rs k = None \<longleftrightarrow> k \<notin> key ` set rs"
    by (rule row_get_None)
  show "key r \<notin> key ` set rs \<Longrightarrow> row_get key (rs @ [r]) k = (if k = key r then Some r else row_get key rs k)"
    using row_get_None [of key rs "key r"] by (auto simp: row_get_append split: option.splits)
qed (auto simp: row_add_def row_update_get row_update_keys)

subsection \<open>Contract: a hash-linked chain\<close>

text \<open>
  Three places of the code walk a chain the same way: the coordinator's audit chain, a
  peer's exported segment, and a worker's offline buffer. Each entry names its
  predecessor's hash and its own hash; \<open>good\<close> is the entry's own check (hash
  recomputation, payload binding, signature). The walk is \<open>chain_from\<close>: it starts from
  the hash the first entry has to name and fails at the first entry that does not fit.
\<close>

fun chain_from :: "('e \<Rightarrow> 'h option) \<Rightarrow> ('e \<Rightarrow> 'h) \<Rightarrow> ('e \<Rightarrow> bool) \<Rightarrow> 'h option \<Rightarrow> 'e list \<Rightarrow> bool" where
  "chain_from prv ths good p [] = True"
| "chain_from prv ths good p (e # es) =
     (prv e = p \<and> good e \<and> chain_from prv ths good (Some (ths e)) es)"

fun end_hash :: "('e \<Rightarrow> 'h) \<Rightarrow> 'h option \<Rightarrow> 'e list \<Rightarrow> 'h option" where
  "end_hash ths p [] = p"
| "end_hash ths p (e # es) = end_hash ths (Some (ths e)) es"

lemma end_hash_append [simp]: "end_hash ths p (es @ [e]) = Some (ths e)"
  by (induction es arbitrary: p) auto

lemma end_hash_last: "es \<noteq> [] \<Longrightarrow> end_hash ths p es = Some (ths (last es))"
  by (metis append_butlast_last_id end_hash_append)

lemma chain_from_weaken:
  "(\<And>e. e \<in> set es \<Longrightarrow> good e \<Longrightarrow> good' e) \<Longrightarrow> chain_from prv ths good p es \<Longrightarrow> chain_from prv ths good' p es"
  by (induction es arbitrary: p) auto

locale hash_chain =
  fixes prv :: "'e \<Rightarrow> 'h option"
    and ths :: "'e \<Rightarrow> 'h"
    and good :: "'e \<Rightarrow> bool"
    and link :: "'e \<Rightarrow> 'l"
    and digest :: "'l \<Rightarrow> 'h"
    and link_prv :: "'l \<Rightarrow> 'n"
    and nrm :: "'h option \<Rightarrow> 'n"
  assumes good_hash: "good e \<Longrightarrow> ths e = digest (link e)"
    and link_prv: "good e \<Longrightarrow> link_prv (link e) = nrm (prv e)"
    and nrm_Some: "nrm (Some h) = nrm (Some h') \<longleftrightarrow> h = h'"
begin

abbreviation verify :: "'h option \<Rightarrow> 'e list \<Rightarrow> bool" where
  "verify \<equiv> chain_from prv ths good"

lemma verify_append:
  "verify p (xs @ ys) \<longleftrightarrow> verify p xs \<and> verify (end_hash ths p xs) ys"
  by (induction xs arbitrary: p) auto

text \<open>Appending an entry that names the end of the chain and passes its own check.\<close>

lemma verify_snoc:
  "verify p (es @ [e]) \<longleftrightarrow> verify p es \<and> prv e = end_hash ths p es \<and> good e"
  by (simp add: verify_append)

text \<open>Every prefix of a chain that verifies verifies: truncation is not detected.\<close>

lemma verify_take: "verify p es \<Longrightarrow> verify p (take n es)"
  by (metis append_take_drop_id verify_append)

lemma verify_good: "verify p es \<Longrightarrow> e \<in> set es \<Longrightarrow> good e"
  by (induction es arbitrary: p) auto

text \<open>
  Two chains of the same length that both verify and end in the same hash agree on all
  their links, or two different links with the same digest have been exhibited. No
  assumption on the digest is made: the collision is the witness.
\<close>

lemma same_end_links:
  assumes "length xs = length ys" "verify p xs" "verify q ys"
    and "nrm (end_hash ths p xs) = nrm (end_hash ths q ys)"
  shows "map link xs = map link ys \<or>
    (\<exists>x \<in> set xs. \<exists>y \<in> set ys. link x \<noteq> link y \<and> digest (link x) = digest (link y))"
  using assms
proof (induction xs arbitrary: ys rule: rev_induct)
  case Nil
  then show ?case by simp
next
  case (snoc x xs)
  from snoc.prems(1) obtain y ys' where ys: "ys = ys' @ [y]"
    by (cases ys rule: rev_cases) auto
  from snoc.prems ys have len: "length xs = length ys'"
    and vx: "verify p xs" "prv x = end_hash ths p xs" "good x"
    and vy: "verify q ys'" "prv y = end_hash ths q ys'" "good y"
    and same: "ths x = ths y"
    by (auto simp: verify_snoc nrm_Some)
  from same vx(3) vy(3) have dig: "digest (link x) = digest (link y)"
    by (metis good_hash)
  show ?case
  proof (cases "link x = link y")
    case False
    with dig ys show ?thesis by auto
  next
    case True
    with vx(2,3) vy(2,3) have ends: "nrm (end_hash ths p xs) = nrm (end_hash ths q ys')"
      by (metis link_prv)
    from snoc.IH [OF len vx(1) vy(1) ends] ys True show ?thesis by auto
  qed
qed

end

subsection \<open>Sorting by a key\<close>

lemma sort_key_map: "sort_key f (map g xs) = map g (sort_key (f \<circ> g) xs)"
proof -
  have "insort_key f (g x) (map g ys) = map g (insort_key (f \<circ> g) x ys)" for x ys
    by (induction ys) auto
  then show ?thesis by (induction xs) simp_all
qed

lemma sorted_dict_eq:
  assumes "distinct (map fst a)" "distinct (map fst b)"
  shows "sort_key fst a = sort_key fst b \<longleftrightarrow> map_of a = map_of b"
proof
  assume "sort_key fst a = sort_key fst b"
  then have "set a = set b" by (metis set_sort)
  then show "map_of a = map_of b" by (rule map_of_inject_set [OF assms, THEN iffD2])
next
  assume "map_of a = map_of b"
  then have "set a = set b" by (rule map_of_inject_set [OF assms, THEN iffD1])
  moreover have "distinct (map fst (sort_key fst x))" if "distinct (map fst x)" for x :: "('a \<times> 'b) list"
    using that by (simp add: distinct_map)
  ultimately show "sort_key fst a = sort_key fst b"
    using assms by (intro map_sorted_distinct_set_unique [of fst]) (auto simp: distinct_map)
qed

end
