(* ===== verification/Py_Json.thy ===== *)
theory Py_Json
  imports Wcp_Prelude "HOL-Library.Multiset"
begin

text \<open>
  Python values that came from JSON, the operations the code uses on them (truthiness,
  \<open>dict.get\<close>, \<open>in\<close>, iteration, equality, \<open>repr\<close>), and the canonical serialisation
  \<open>json.dumps(payload, sort_keys=True, separators=(",", ":"))\<close> that every hash and every
  signature of the code base is computed over.

  A dict is an association list in insertion order; a dict value of Python has distinct
  keys (\<open>wf_json\<close>). A finite float is the rational it denotes; how CPython prints it is a
  parameter of the printer, because \<open>float.__repr__\<close> is not code of the repository.
  NaN, the infinities and negative zero are outside the model.
\<close>

datatype json =
    JNull
  | JBool bool
  | JInt int
  | JFloat rat
  | JStr string
  | JList "json list"
  | JDict "(string \<times> json) list"

subsection \<open>Python operations on JSON values\<close>

fun truthy :: "json \<Rightarrow> bool" where
  "truthy JNull = False"
| "truthy (JBool b) = b"
| "truthy (JInt i) = (i \<noteq> 0)"
| "truthy (JFloat r) = (r \<noteq> 0)"
| "truthy (JStr s) = (s \<noteq> [])"
| "truthy (JList xs) = (xs \<noteq> [])"
| "truthy (JDict d) = (d \<noteq> [])"

text \<open>\<open>x or y\<close>\<close>

definition py_or :: "json \<Rightarrow> json \<Rightarrow> json" where
  "py_or x y = (if truthy x then x else y)"

text \<open>\<open>d.get(k, default)\<close>; any value that is not a dict has no \<open>get\<close>.\<close>

fun j_get :: "json \<Rightarrow> string \<Rightarrow> json \<Rightarrow> json res" where
  "j_get (JDict d) k dflt = Inr (case map_of d k of None \<Rightarrow> dflt | Some v \<Rightarrow> v)"
| "j_get _ k dflt = Inl AttributeError"

text \<open>\<open>d[k]\<close> with a string key.\<close>

fun j_item :: "json \<Rightarrow> string \<Rightarrow> json res" where
  "j_item (JDict d) k = of_opt (KeyError k) (map_of d k)"
| "j_item _ k = Inl TypeError"

text \<open>\<open>d[k] = v\<close>: the key keeps its place if it is there, and goes to the end if not.\<close>

fun dict_set :: "string \<Rightarrow> 'a \<Rightarrow> (string \<times> 'a) list \<Rightarrow> (string \<times> 'a) list" where
  "dict_set k v [] = [(k, v)]"
| "dict_set k v ((k', v') # d) = (if k' = k then (k, v) # d else (k', v') # dict_set k v d)"

text \<open>
  Equality: numbers compare by value across \<open>bool\<close>, \<open>int\<close> and \<open>float\<close>, dicts without
  regard to order. Both sides are brought to a normal form first.
\<close>

fun py_norm :: "json \<Rightarrow> json" where
  "py_norm (JBool b) = JFloat (if b then 1 else 0)"
| "py_norm (JInt i) = JFloat (of_int i)"
| "py_norm (JList xs) = JList (map py_norm xs)"
| "py_norm (JDict d) = JDict (sort_key fst (map (\<lambda>(k, v). (k, py_norm v)) d))"
| "py_norm j = j"

definition py_eq :: "json \<Rightarrow> json \<Rightarrow> bool" where
  "py_eq a b \<longleftrightarrow> py_norm a = py_norm b"

lemma py_eq_refl [simp]: "py_eq a a"
  by (simp add: py_eq_def)

lemma py_eq_str [simp]: "py_eq (JStr s) (JStr t) \<longleftrightarrow> s = t"
  by (simp add: py_eq_def)

text \<open>\<open>x in y\<close> for a string \<open>x\<close>: key of a dict, element of a list, or substring.\<close>

fun py_in :: "string \<Rightarrow> json \<Rightarrow> bool res" where
  "py_in x (JDict d) = Inr (x \<in> fst ` set d)"
| "py_in x (JList ys) = Inr (\<exists>y \<in> set ys. py_eq (JStr x) y)"
| "py_in x (JStr s) = Inr (sublist x s)"
| "py_in x _ = Inl TypeError"

text \<open>Iteration: a list's elements, a dict's keys, a string's characters.\<close>

fun py_iter :: "json \<Rightarrow> json list res" where
  "py_iter (JList xs) = Inr xs"
| "py_iter (JDict d) = Inr (map (JStr \<circ> fst) d)"
| "py_iter (JStr s) = Inr (map (\<lambda>c. JStr [c]) s)"
| "py_iter _ = Inl TypeError"

text \<open>Lists and dicts are not hashable: putting one in a set or using it as a key raises.\<close>

fun hashable :: "json \<Rightarrow> bool" where
  "hashable (JList _) = False"
| "hashable (JDict _) = False"
| "hashable _ = True"

text \<open>
  Sets of hashable values. A set keeps the first of several equal elements; membership,
  inclusion and difference go by Python equality.
\<close>

definition eq_in :: "json \<Rightarrow> json list \<Rightarrow> bool" where
  "eq_in x ys \<longleftrightarrow> list_ex (py_eq x) ys"

fun dedup_eq :: "json list \<Rightarrow> json list \<Rightarrow> json list" where
  "dedup_eq acc [] = acc"
| "dedup_eq acc (x # xs) = dedup_eq (if eq_in x acc then acc else acc @ [x]) xs"

text \<open>\<open>set(x)\<close>\<close>

definition py_set :: "json \<Rightarrow> json list res" where
  "py_set j = bindE (py_iter j) (\<lambda>xs.
     if list_all hashable xs then Inr (dedup_eq [] xs) else Inl TypeError)"

definition set_diff :: "json list \<Rightarrow> json list \<Rightarrow> json list" where
  "set_diff xs ys = filter (\<lambda>x. \<not> eq_in x ys) xs"

text \<open>\<open>xs.issubset(ys)\<close>\<close>

definition set_sub :: "json list \<Rightarrow> json list \<Rightarrow> bool" where
  "set_sub xs ys = list_all (\<lambda>x. eq_in x ys) xs"

lemma py_eq_sym: "py_eq a b \<longleftrightarrow> py_eq b a"
  by (auto simp: py_eq_def)

lemma py_eq_trans: "py_eq a b \<Longrightarrow> py_eq b c \<Longrightarrow> py_eq a c"
  by (simp add: py_eq_def)

lemma eq_in_iff: "eq_in x ys \<longleftrightarrow> (\<exists>y \<in> set ys. py_eq x y)"
  by (simp add: eq_in_def list_ex_iff)

lemma eq_in_simps [simp]:
  "eq_in x [] = False"
  "eq_in x (y # ys) = (py_eq x y \<or> eq_in x ys)"
  "eq_in x (ys @ zs) = (eq_in x ys \<or> eq_in x zs)"
  by (auto simp: eq_in_def)

lemma eq_in_mem: "x \<in> set ys \<Longrightarrow> eq_in x ys"
  by (metis eq_in_iff py_eq_refl)

lemma eq_in_eq: "py_eq x y \<Longrightarrow> eq_in y ys \<Longrightarrow> eq_in x ys"
  by (metis eq_in_iff py_eq_trans)

lemma set_sub_diff: "set_sub xs ys \<longleftrightarrow> set_diff xs ys = []"
  by (auto simp: set_sub_def set_diff_def list_all_iff filter_empty_conv)

lemma set_sub_mono: "set_sub xs ys \<Longrightarrow> set ys \<subseteq> set zs \<Longrightarrow> set_sub xs zs"
  by (auto simp: set_sub_def list_all_iff eq_in_iff)

lemma set_sub_eq_in: "set_sub xs ys \<longleftrightarrow> (\<forall>x. eq_in x xs \<longrightarrow> eq_in x ys)"
proof
  show "set_sub xs ys \<Longrightarrow> \<forall>x. eq_in x xs \<longrightarrow> eq_in x ys"
    unfolding set_sub_def list_all_iff using eq_in_eq eq_in_iff by blast
qed (auto simp: set_sub_def list_all_iff eq_in_mem)

lemma eq_in_dedup: "eq_in x (dedup_eq acc xs) \<longleftrightarrow> eq_in x acc \<or> eq_in x xs"
  by (induction acc xs rule: dedup_eq.induct) (auto dest: eq_in_eq)

lemma dedup_eq_subset: "set (dedup_eq acc xs) \<subseteq> set acc \<union> set xs"
  by (induction acc xs rule: dedup_eq.induct) auto

text \<open>
  \<open>sorted(x)\<close> of a set's elements: strings among themselves and numbers among themselves
  compare; with two or more elements anything else raises.
\<close>

fun str_of :: "json \<Rightarrow> string" where
  "str_of (JStr s) = s"
| "str_of _ = []"

fun is_str :: "json \<Rightarrow> bool" where
  "is_str (JStr _) = True"
| "is_str _ = False"

fun num_of :: "json \<Rightarrow> rat option" where
  "num_of (JBool b) = Some (if b then 1 else 0)"
| "num_of (JInt i) = Some (of_int i)"
| "num_of (JFloat r) = Some r"
| "num_of _ = None"

definition py_sorted :: "json list \<Rightarrow> json list res" where
  "py_sorted xs =
     (if length xs \<le> 1 then Inr xs
      else if list_all is_str xs then Inr (sort_key str_of xs)
      else if list_all (\<lambda>x. num_of x \<noteq> None) xs then Inr (sort_key (\<lambda>x. the (num_of x)) xs)
      else Inl TypeError)"

text \<open>A string method called on a value: any other type has no such method.\<close>

fun as_str :: "json \<Rightarrow> string res" where
  "as_str (JStr s) = Inr s"
| "as_str _ = Inl AttributeError"

text \<open>\<open>str.strip()\<close>: the characters below 256 that Python counts as white space.\<close>

definition py_space :: "char \<Rightarrow> bool" where
  "py_space c \<longleftrightarrow> (let n = of_char c :: nat in (9 \<le> n \<and> n \<le> 13) \<or> (28 \<le> n \<and> n \<le> 32) \<or> n = 133 \<or> n = 160)"

definition py_strip :: "string \<Rightarrow> string" where
  "py_strip s = rev (dropWhile py_space (rev (dropWhile py_space s)))"

lemma map_of_dict_set: "map_of (dict_set k v d) k' = (if k' = k then Some v else map_of d k')"
  by (induction d) auto

lemma dict_set_same: "map_of d k = Some v \<Longrightarrow> dict_set k v d = d"
  by (induction d) (auto split: if_splits)

lemma dict_set_keys: "fst ` set (dict_set k v d) = insert k (fst ` set d)"
proof -
  have "dom (map_of (dict_set k v d)) = insert k (dom (map_of d))"
    by (auto simp: map_of_dict_set split: if_splits)
  then show ?thesis by (simp add: dom_map_of_conv_image_fst)
qed

lemma j_get_dict_set [simp]:
  "j_get (JDict (dict_set k v d)) k' w = (if k' = k then Inr v else j_get (JDict d) k' w)"
  by (simp add: map_of_dict_set)

subsection \<open>Numbers as text\<close>

definition digit :: "nat \<Rightarrow> char" where
  "digit n = char_of (48 + n)"

fun show_nat :: "nat \<Rightarrow> string" where
  "show_nat n = (if n < 10 then [digit n] else show_nat (n div 10) @ [digit (n mod 10)])"

declare show_nat.simps [simp del]

definition show_int :: "int \<Rightarrow> string" where
  "show_int i = (if i < 0 then ''-'' @ show_nat (nat (- i)) else show_nat (nat i))"

fun read_nat :: "string \<Rightarrow> nat" where
  "read_nat s = foldl (\<lambda>a c. 10 * a + (of_char c - 48)) 0 s"

lemma of_char_digit: "n < 10 \<Longrightarrow> (of_char (digit n) :: nat) = 48 + n"
  by (simp add: digit_def)

lemma read_show_nat: "read_nat (show_nat n) = n"
proof (induction n rule: show_nat.induct)
  case (1 n)
  show ?case
  proof (cases "n < 10")
    case True
    then show ?thesis by (subst show_nat.simps) (simp add: of_char_digit)
  next
    case False
    with 1 have "read_nat (show_nat (n div 10)) = n div 10" by simp
    with False show ?thesis
      by (subst show_nat.simps) (simp add: of_char_digit)
  qed
qed

lemma show_nat_inject [simp]: "show_nat m = show_nat n \<longleftrightarrow> m = n"
  by (metis read_show_nat)

lemma show_nat_nonempty [simp]: "show_nat n \<noteq> []"
  by (subst show_nat.simps) simp

definition digit_char :: "char \<Rightarrow> bool" where
  "digit_char c \<longleftrightarrow> 48 \<le> (of_char c :: nat) \<and> (of_char c :: nat) \<le> 57"

lemma digit_char_digit: "n < 10 \<Longrightarrow> digit_char (digit n)"
  by (simp add: digit_char_def of_char_digit)

lemma show_nat_digits: "c \<in> set (show_nat n) \<Longrightarrow> digit_char c"
proof (induction n rule: show_nat.induct)
  case (1 n)
  then show ?case
    by (subst (asm) show_nat.simps) (auto split: if_splits simp: digit_char_digit)
qed

text \<open>The characters a JSON number can have.\<close>

definition number_char :: "char \<Rightarrow> bool" where
  "number_char c \<longleftrightarrow> digit_char c \<or> c \<in> set ''+-.e''"

lemma show_int_chars: "c \<in> set (show_int i) \<Longrightarrow> number_char c"
  by (auto simp: show_int_def number_char_def dest: show_nat_digits split: if_splits)

lemma show_int_nonempty [simp]: "show_int i \<noteq> []"
  by (simp add: show_int_def)

lemma minus_not_in_show_nat: "CHR ''-'' \<notin> set (show_nat n)"
  by (auto dest: show_nat_digits simp: digit_char_def)

lemma show_int_inject [simp]: "show_int i = show_int j \<longleftrightarrow> i = j"
proof
  assume eq: "show_int i = show_int j"
  have h: "(CHR ''-'' \<in> set (show_int k)) = (k < 0)" for k
    using minus_not_in_show_nat by (simp add: show_int_def)
  from eq h [of i] h [of j] have "(i < 0) = (j < 0)" by simp
  with eq show "i = j"
    by (auto simp: show_int_def split: if_splits)
qed simp

text \<open>\<open>xs[n]\<close> on a JSON value.\<close>

fun j_nth :: "json \<Rightarrow> nat \<Rightarrow> json res" where
  "j_nth (JList xs) n = (if n < length xs then Inr (xs ! n) else Inl IndexError)"
| "j_nth (JStr s) n = (if n < length s then Inr (JStr [s ! n]) else Inl IndexError)"
| "j_nth (JDict d) n = Inl (KeyError (show_nat n))"
| "j_nth _ n = Inl TypeError"

text \<open>
  \<open>int(x)\<close>: numbers are truncated towards zero; a string is stripped and read as an optional
  sign and decimal digits, with single underscores allowed between digits.
\<close>

fun read_digits :: "bool \<Rightarrow> nat \<Rightarrow> string \<Rightarrow> nat option" where
  "read_digits after a [] = (if after then Some a else None)"
| "read_digits after a (c # s) =
     (if digit_char c then read_digits True (10 * a + (of_char c - 48)) s
      else if c = CHR ''_'' \<and> after then read_digits False a s
      else None)"

definition read_int :: "string \<Rightarrow> int option" where
  "read_int s =
     (case py_strip s of
        [] \<Rightarrow> None
      | c # r \<Rightarrow>
          if c = CHR ''-'' then map_option (\<lambda>n. - int n) (read_digits False 0 r)
          else if c = CHR ''+'' then map_option int (read_digits False 0 r)
          else map_option int (read_digits False 0 (c # r)))"

lemma read_digits_all:
  "\<forall>c \<in> set s. digit_char c \<Longrightarrow>
     read_digits b a s = (if s = [] \<and> \<not> b then None else Some (foldl (\<lambda>a c. 10 * a + (of_char c - 48)) a s))"
  by (induction s arbitrary: b a) auto

lemma read_digits_show: "read_digits False 0 (show_nat n) = Some n"
  using show_nat_digits read_show_nat [of n] by (simp add: read_digits_all)

lemma digit_plain: "digit_char c \<Longrightarrow> \<not> py_space c \<and> c \<noteq> CHR ''-'' \<and> c \<noteq> CHR ''+'' \<and> c \<noteq> CHR ''Z''"
  by (auto simp: digit_char_def py_space_def)

lemma py_strip_id: "\<forall>c \<in> set s. \<not> py_space c \<Longrightarrow> py_strip s = s"
  by (metis (no_types, opaque_lifting) dropWhile_eq_self_iff hd_in_set list.set_sel(1) py_strip_def rev_rev_ident set_rev)

text \<open>\<open>int(str(i))\<close> is \<open>i\<close>.\<close>

lemma read_int_show: "read_int (show_int i) = Some i"
proof -
  have sp: "\<forall>c \<in> set (show_int i). \<not> py_space c"
    using show_nat_digits digit_plain by (auto simp: show_int_def py_space_def)
  show ?thesis
  proof (cases "i < 0")
    case True
    then show ?thesis using sp by (simp add: read_int_def py_strip_id show_int_def read_digits_show)
  next
    case False
    obtain c r where c: "show_nat (nat i) = c # r" by (cases "show_nat (nat i)") auto
    have "digit_char c" using show_nat_digits [of c "nat i"] c by simp
    with False c digit_plain [of c] sp read_digits_show [of "nat i"] show ?thesis
      by (simp add: read_int_def py_strip_id show_int_def)
  qed
qed

fun py_int :: "json \<Rightarrow> int res" where
  "py_int (JBool b) = Inr (if b then 1 else 0)"
| "py_int (JInt i) = Inr i"
| "py_int (JFloat r) = Inr (if 0 \<le> r then \<lfloor>r\<rfloor> else \<lceil>r\<rceil>)"
| "py_int (JStr s) = of_opt (ValueError (''invalid literal for int() with base 10: '')) (read_int s)"
| "py_int _ = Inl TypeError"

subsection \<open>Strings as text: the escapes of \<open>json.dumps\<close>\<close>

definition hex_digit :: "nat \<Rightarrow> char" where
  "hex_digit n = char_of (if n < 10 then 48 + n else 87 + n)"

definition unhex_digit :: "char \<Rightarrow> nat" where
  "unhex_digit c = (if of_char c < (58 :: nat) then of_char c - 48 else of_char c - 87)"

lemma unhex_hex: "n < 16 \<Longrightarrow> unhex_digit (hex_digit n) = n"
  by (auto simp: unhex_digit_def hex_digit_def)

text \<open>
  The escape of one character under \<open>ensure_ascii\<close>: quote, backslash and the five short
  escapes, printable ASCII as itself, everything else as a four-digit \<open>u\<close> escape.
\<close>

definition esc_char :: "char \<Rightarrow> string" where
  "esc_char c =
     (if c = CHR 0x22 then [CHR 0x5C, CHR 0x22]
      else if c = CHR 0x5C then [CHR 0x5C, CHR 0x5C]
      else if c = CHR 0x0A then [CHR 0x5C, CHR ''n'']
      else if c = CHR 0x0D then [CHR 0x5C, CHR ''r'']
      else if c = CHR 0x09 then [CHR 0x5C, CHR ''t'']
      else if c = CHR 0x0C then [CHR 0x5C, CHR ''f'']
      else if c = CHR 0x08 then [CHR 0x5C, CHR ''b'']
      else if 32 \<le> (of_char c :: nat) \<and> (of_char c :: nat) \<le> 126 then [c]
      else [CHR 0x5C, CHR ''u'', CHR ''0'', CHR ''0'',
            hex_digit (of_char c div 16), hex_digit (of_char c mod 16)])"

fun read_esc :: "string \<Rightarrow> (char \<times> string) option" where
  "read_esc [] = None"
| "read_esc (x # xs) =
     (if x \<noteq> CHR 0x5C then Some (x, xs)
      else case xs of
        [] \<Rightarrow> None
      | y # ys \<Rightarrow>
          if y = CHR ''n'' then Some (CHR 0x0A, ys)
          else if y = CHR ''r'' then Some (CHR 0x0D, ys)
          else if y = CHR ''t'' then Some (CHR 0x09, ys)
          else if y = CHR ''f'' then Some (CHR 0x0C, ys)
          else if y = CHR ''b'' then Some (CHR 0x08, ys)
          else if y = CHR ''u'' then
            (case ys of a # b # h # l # zs \<Rightarrow>
               Some (char_of (16 * unhex_digit h + unhex_digit l), zs) | _ \<Rightarrow> None)
          else Some (y, ys))"

lemma read_esc_char: "read_esc (esc_char c @ r) = Some (c, r)"
proof -
  have "(of_char c :: nat) < 16 * 16"
    using nat_of_char_less_256 [of c] by simp
  then have "(of_char c :: nat) div 16 < 16" and "(of_char c :: nat) mod 16 < 16"
    by (simp_all add: less_mult_imp_div_less)
  then have hex: "char_of (16 * unhex_digit (hex_digit (of_char c div 16))
      + unhex_digit (hex_digit (of_char c mod 16))) = c"
    by (simp add: unhex_hex)
  show ?thesis by (auto simp: esc_char_def hex)
qed

definition print_string :: "string \<Rightarrow> string" where
  "print_string s = [CHR 0x22] @ concat (map esc_char s) @ [CHR 0x22]"

lemma esc_char_hd: "\<exists>x xs. esc_char c = x # xs \<and> x \<noteq> CHR 0x22"
  by (auto simp: esc_char_def)

lemma esc_body_inject:
  "concat (map esc_char s) @ CHR 0x22 # r = concat (map esc_char t) @ CHR 0x22 # r' \<Longrightarrow>
     s = t \<and> r = r'"
proof (induction s arbitrary: t)
  case Nil
  show ?case
  proof (cases t)
    case (Cons d t')
    with Nil esc_char_hd [of d] show ?thesis by auto
  qed (use Nil in simp)
next
  case (Cons c s)
  show ?case
  proof (cases t)
    case Nil
    with Cons.prems esc_char_hd [of c] show ?thesis by auto
  next
    case (Cons d t')
    with Cons.prems have
      "esc_char c @ (concat (map esc_char s) @ CHR 0x22 # r) =
       esc_char d @ (concat (map esc_char t') @ CHR 0x22 # r')"
      by simp
    then have "read_esc (esc_char c @ (concat (map esc_char s) @ CHR 0x22 # r)) =
      read_esc (esc_char d @ (concat (map esc_char t') @ CHR 0x22 # r'))"
      by simp
    then have "c = d" and
      "concat (map esc_char s) @ CHR 0x22 # r = concat (map esc_char t') @ CHR 0x22 # r'"
      by (simp_all add: read_esc_char)
    with Cons.IH Cons show ?thesis by blast
  qed
qed

lemma print_string_inject:
  "print_string s @ r = print_string t @ r' \<Longrightarrow> s = t \<and> r = r'"
  using esc_body_inject [of s r t r'] by (simp add: print_string_def)

subsection \<open>\<open>repr\<close>\<close>

text \<open>
  \<open>repr\<close> of a string, which the error messages of the code embed: single quotes unless the
  string has one and no double quote, short escapes for backslash, the quote, newline,
  carriage return and tab, \<open>x\<close> escapes for what Python does not count as printable.
\<close>

definition repr_char :: "char \<Rightarrow> char \<Rightarrow> string" where
  "repr_char q c =
     (let n = of_char c :: nat in
      if c = q \<or> c = CHR 0x5C then [CHR 0x5C, c]
      else if c = CHR 0x0A then [CHR 0x5C, CHR ''n'']
      else if c = CHR 0x0D then [CHR 0x5C, CHR ''r'']
      else if c = CHR 0x09 then [CHR 0x5C, CHR ''t'']
      else if n < 32 \<or> (127 \<le> n \<and> n \<le> 160) \<or> n = 173
        then [CHR 0x5C, CHR ''x'', hex_digit (n div 16), hex_digit (n mod 16)]
      else [c])"

definition repr_str :: "string \<Rightarrow> string" where
  "repr_str s =
     (let q = (if CHR 0x27 \<in> set s \<and> CHR 0x22 \<notin> set s then CHR 0x22 else CHR 0x27)
      in [q] @ concat (map (repr_char q) s) @ [q])"

fun comma_join :: "string list \<Rightarrow> string" where
  "comma_join [] = []"
| "comma_join [x] = x"
| "comma_join (x # y # ys) = x @ '', '' @ comma_join (y # ys)"

fun py_repr :: "(rat \<Rightarrow> string) \<Rightarrow> json \<Rightarrow> string" where
  "py_repr fr JNull = ''None''"
| "py_repr fr (JBool b) = (if b then ''True'' else ''False'')"
| "py_repr fr (JInt i) = show_int i"
| "py_repr fr (JFloat r) = fr r"
| "py_repr fr (JStr s) = repr_str s"
| "py_repr fr (JList xs) = ''['' @ comma_join (map (py_repr fr) xs) @ '']''"
| "py_repr fr (JDict d) =
     ''{'' @ comma_join (map (\<lambda>(k, v). repr_str k @ '': '' @ py_repr fr v) d) @ ''}''"

text \<open>\<open>str(x)\<close>: a string is itself, anything else its \<open>repr\<close>.\<close>

fun py_str :: "(rat \<Rightarrow> string) \<Rightarrow> json \<Rightarrow> string" where
  "py_str fr (JStr s) = s"
| "py_str fr j = py_repr fr j"

subsection \<open>The canonical serialisation\<close>

text \<open>
  \<open>json.dumps\<close> with separators \<open>(",", ":")\<close>: \<open>print_tail\<close> and \<open>print_mtail\<close> print what
  follows the first element of a list or the first member of a dict.
\<close>

fun print_json :: "(rat \<Rightarrow> string) \<Rightarrow> json \<Rightarrow> string"
  and print_tail :: "(rat \<Rightarrow> string) \<Rightarrow> json list \<Rightarrow> string"
  and print_mtail :: "(rat \<Rightarrow> string) \<Rightarrow> (string \<times> json) list \<Rightarrow> string" where
  "print_json fr JNull = ''null''"
| "print_json fr (JBool b) = (if b then ''true'' else ''false'')"
| "print_json fr (JInt i) = show_int i"
| "print_json fr (JFloat r) = fr r"
| "print_json fr (JStr s) = print_string s"
| "print_json fr (JList []) = ''[]''"
| "print_json fr (JList (x # xs)) = ''['' @ print_json fr x @ print_tail fr xs"
| "print_json fr (JDict []) = ''{}''"
| "print_json fr (JDict ((k, v) # d)) =
     ''{'' @ print_string k @ '':'' @ print_json fr v @ print_mtail fr d"
| "print_tail fr [] = '']''"
| "print_tail fr (x # xs) = '','' @ print_json fr x @ print_tail fr xs"
| "print_mtail fr [] = ''}''"
| "print_mtail fr ((k, v) # d) =
     '','' @ print_string k @ '':'' @ print_json fr v @ print_mtail fr d"

text \<open>\<open>sort_keys=True\<close>: every dict, at every depth, with its keys in code point order.\<close>

fun sort_json :: "json \<Rightarrow> json" where
  "sort_json (JList xs) = JList (map sort_json xs)"
| "sort_json (JDict d) = JDict (sort_key fst (map (\<lambda>(k, v). (k, sort_json v)) d))"
| "sort_json j = j"

definition canonical_json :: "(rat \<Rightarrow> string) \<Rightarrow> json \<Rightarrow> bytes" where
  "canonical_json fr j = print_json fr (sort_json j)"

text \<open>
  What the injectivity of the printer needs of \<open>float.__repr__\<close>: it is injective, its
  output is a JSON number, and it never prints what an int prints (it always shows a
  point or an exponent).
\<close>

definition float_repr_ok :: "(rat \<Rightarrow> string) \<Rightarrow> bool" where
  "float_repr_ok fr \<longleftrightarrow> inj fr \<and>
     (\<forall>r. fr r \<noteq> [] \<and> (\<forall>c \<in> set (fr r). number_char c) \<and> (\<forall>i. fr r \<noteq> show_int i))"

text \<open>
  The first character of a printed value tells which kind of value it is. \<open>char_class\<close> is that
  reading of the first character, \<open>json_kind\<close> the kind of the value.
\<close>

fun json_kind :: "json \<Rightarrow> nat" where
  "json_kind JNull = 0"
| "json_kind (JBool True) = 1"
| "json_kind (JBool False) = 2"
| "json_kind (JInt _) = 3"
| "json_kind (JFloat _) = 3"
| "json_kind (JStr _) = 4"
| "json_kind (JList _) = 5"
| "json_kind (JDict _) = 6"

definition char_class :: "char \<Rightarrow> nat" where
  "char_class c =
     (if c = CHR ''n'' then 0 else if c = CHR ''t'' then 1 else if c = CHR ''f'' then 2
      else if number_char c then 3 else if c = CHR 0x22 then 4 else if c = CHR ''['' then 5
      else if c = CHR ''{'' then 6 else 7)"

lemma cls_number: "number_char c \<Longrightarrow> char_class c = 3"
  by (auto simp: char_class_def number_char_def digit_char_def)

lemma cls_hd_chars:
  "xs \<noteq> [] \<Longrightarrow> (\<And>c. c \<in> set xs \<Longrightarrow> number_char c) \<Longrightarrow> char_class (hd xs) = 3"
  by (simp add: cls_number)

lemma print_json_nonempty: "float_repr_ok fr \<Longrightarrow> print_json fr j \<noteq> []"
  by (cases "(fr, j)" rule: print_json.cases) (auto simp: float_repr_ok_def print_string_def)

lemma cls_chars [simp]:
  "char_class (CHR ''n'') = 0" "char_class (CHR ''t'') = 1" "char_class (CHR ''f'') = 2" "char_class (CHR 0x22) = 4"
  "char_class (CHR ''['') = 5" "char_class (CHR ''{'') = 6"
  by (simp_all add: char_class_def number_char_def digit_char_def)

lemma cls_print:
  assumes "float_repr_ok fr"
  shows "char_class (hd (print_json fr j)) = json_kind j"
proof (cases j)
  case (JInt i)
  then show ?thesis using cls_hd_chars [OF show_int_nonempty show_int_chars] by simp
next
  case (JFloat r)
  with assms show ?thesis by (simp add: cls_hd_chars float_repr_ok_def)
next
  case (JBool b)
  then show ?thesis by (cases b) auto
next
  case (JList xs)
  then show ?thesis by (cases xs) auto
next
  case (JDict d)
  then show ?thesis by (cases d) auto
qed (simp_all add: print_string_def)

lemma print_same_kind:
  assumes "float_repr_ok fr" "print_json fr a @ r = print_json fr b @ r'"
  shows "json_kind a = json_kind b"
  by (metis assms cls_print hd_append2 print_json_nonempty)

text \<open>What may follow a value inside a document: nothing, or a character no number has.\<close>

definition delimited :: "string \<Rightarrow> bool" where
  "delimited r \<longleftrightarrow> r = [] \<or> \<not> number_char (hd r)"

lemma stops_simps [simp]:
  "delimited []"
  "delimited (CHR '','' # r)" "delimited (CHR '']'' # r)" "delimited (CHR ''}'' # r)"
  by (simp_all add: delimited_def number_char_def digit_char_def)

lemma stops_tail [simp]: "delimited (print_tail fr xs @ r)" "delimited (print_mtail fr d @ r)"
  by (cases xs; simp) (cases d; auto)

lemma number_unique:
  assumes "xs @ r = ys @ r'" "delimited r" "delimited r'"
    and "\<And>c. c \<in> set xs \<Longrightarrow> number_char c" "\<And>c. c \<in> set ys \<Longrightarrow> number_char c"
  shows "xs = ys \<and> r = r'"
proof -
  have tw: "takeWhile number_char (zs @ q) = zs"
    if "delimited q" "\<And>c. c \<in> set zs \<Longrightarrow> number_char c" for zs q
    using that by (cases q) (auto simp: delimited_def takeWhile_append)
  from assms have "xs = ys" by (metis tw)
  with assms(1) show ?thesis by simp
qed

lemma kind_number: "json_kind a = 3 \<Longrightarrow> (\<exists>i. a = JInt i) \<or> (\<exists>x. a = JFloat x)"
  by (cases a rule: json_kind.cases) auto

lemma print_number_unique:
  assumes "float_repr_ok fr" "json_kind a = 3" "json_kind b = 3"
    and "print_json fr a @ r = print_json fr b @ r'" "delimited r" "delimited r'"
  shows "a = b \<and> r = r'"
proof -
  have chars: "number_char c" if "json_kind x = 3" "c \<in> set (print_json fr x)" for x c
    using that assms(1) kind_number [of x] by (auto simp: float_repr_ok_def dest: show_int_chars)
  from number_unique [OF assms(4-6) chars [OF assms(2)] chars [OF assms(3)]]
  have "print_json fr a = print_json fr b" and "r = r'" by auto
  with assms(1) kind_number [OF assms(2)] kind_number [OF assms(3)] show ?thesis
    by (auto simp: float_repr_ok_def inj_eq) metis+
qed

lemma print_json_not_close: "float_repr_ok fr \<Longrightarrow> print_json fr j \<noteq> CHR '']'' # s"
proof
  assume ok: "float_repr_ok fr" and eq: "print_json fr j = CHR '']'' # s"
  have "json_kind j < 7" by (cases j rule: json_kind.cases) auto
  moreover from cls_print [OF ok, of j] eq have "json_kind j = 7"
    by (simp add: char_class_def number_char_def digit_char_def)
  ultimately show False by simp
qed

text \<open>
  One element of a list and one member of a dict are uniquely readable when the value and
  what follows it are: the two steps of the induction below.
\<close>

lemma unique_elem:
  assumes "\<And>b r r'. print_json fr x @ r = print_json fr b @ r' \<Longrightarrow> delimited r \<Longrightarrow> delimited r' \<Longrightarrow> x = b \<and> r = r'"
    and "\<And>ys r r'. print_tail fr xs @ r = print_tail fr ys @ r' \<Longrightarrow> xs = ys \<and> r = r'"
    and "print_json fr x @ print_tail fr xs @ r = print_json fr y @ print_tail fr ys @ r'"
  shows "x = y \<and> xs = ys \<and> r = r'"
proof -
  from assms(1) [OF assms(3)] have "x = y" "print_tail fr xs @ r = print_tail fr ys @ r'"
    by auto
  with assms(2) show ?thesis by blast
qed

lemma unique_member:
  assumes "\<And>b r r'. print_json fr v @ r = print_json fr b @ r' \<Longrightarrow> delimited r \<Longrightarrow> delimited r' \<Longrightarrow> v = b \<and> r = r'"
    and "\<And>d' r r'. print_mtail fr d @ r = print_mtail fr d' @ r' \<Longrightarrow> d = d' \<and> r = r'"
    and "print_string k @ CHR '':'' # print_json fr v @ print_mtail fr d @ r =
         print_string k' @ CHR '':'' # print_json fr v' @ print_mtail fr d' @ r'"
  shows "k = k' \<and> v = v' \<and> d = d' \<and> r = r'"
proof -
  from print_string_inject [OF assms(3)] have "k = k'"
    and eq: "print_json fr v @ print_mtail fr d @ r = print_json fr v' @ print_mtail fr d' @ r'"
    by auto
  from assms(1) [OF eq] have "v = v'" "print_mtail fr d @ r = print_mtail fr d' @ r'"
    by auto
  with assms(2) \<open>k = k'\<close> show ?thesis by blast
qed

lemma kind_cases:
  "json_kind a = json_kind b \<Longrightarrow> a = JStr s \<Longrightarrow> \<exists>t. b = JStr t"
  "json_kind a = json_kind b \<Longrightarrow> a = JList xs \<Longrightarrow> \<exists>ys. b = JList ys"
  "json_kind a = json_kind b \<Longrightarrow> a = JDict d \<Longrightarrow> \<exists>d'. b = JDict d'"
  "json_kind a = json_kind b \<Longrightarrow> a = JNull \<Longrightarrow> b = JNull"
  "json_kind a = json_kind b \<Longrightarrow> a = JBool x \<Longrightarrow> b = JBool x"
  by (cases b rule: json_kind.cases; cases x; simp)+

text \<open>
  The printer is uniquely readable: a printed value followed by a delimiter determines
  the value and the rest.
\<close>

lemma print_json_unique:
  "float_repr_ok fr \<Longrightarrow> print_json fr a @ r = print_json fr b @ r' \<Longrightarrow> delimited r \<Longrightarrow> delimited r' \<Longrightarrow>
     a = b \<and> r = r'"
  "float_repr_ok fr \<Longrightarrow> print_tail fr xs @ r = print_tail fr ys @ r' \<Longrightarrow> xs = ys \<and> r = r'"
  "float_repr_ok fr \<Longrightarrow> print_mtail fr d @ r = print_mtail fr d' @ r' \<Longrightarrow> d = d' \<and> r = r'"
proof (induction fr a and fr xs and fr d arbitrary: b r r' and ys r r' and d' r r'
    rule: print_json_print_tail_print_mtail.induct)
  case (1 fr)
  then show ?case using kind_cases(4) [OF print_same_kind [OF 1(1,2)]] by auto
next
  case (2 fr x)
  then show ?case using kind_cases(5) [OF print_same_kind [OF 2(1,2)]] by auto
next
  case (3 fr i)
  then show ?case using print_same_kind [OF 3(1,2)] print_number_unique [of fr "JInt i" b] by auto
next
  case (4 fr x)
  then show ?case using print_same_kind [OF 4(1,2)] print_number_unique [of fr "JFloat x" b] by auto
next
  case (5 fr s)
  from kind_cases(1) [OF print_same_kind [OF 5(1,2)] refl] obtain t where b: "b = JStr t" ..
  with 5(2) have "print_string s @ r = print_string t @ r'" by simp
  from print_string_inject [OF this] b show ?case by simp
next
  case (6 fr)
  from kind_cases(2) [OF print_same_kind [OF 6(1,2)] refl] obtain ys where "b = JList ys" ..
  with 6 show ?case
    by (cases ys) (auto simp: print_json_not_close [OF 6(1), THEN not_sym] Cons_eq_append_conv print_json_nonempty)
next
  case (7 fr x xs)
  from kind_cases(2) [OF print_same_kind [OF 7(3,4)] refl] obtain ys where b: "b = JList ys" ..
  with 7(3,4) have "ys \<noteq> []"
    by (auto simp: print_json_not_close append_eq_Cons_conv print_json_nonempty)
  then obtain y ys' where ys: "ys = y # ys'" by (cases ys) auto
  have "x = y \<and> xs = ys' \<and> r = r'"
    by (rule unique_elem [OF 7(1) [OF 7(3)] 7(2) [OF 7(3)]]) (use 7(4) b ys in simp_all)
  with b ys show ?case by simp
next
  case (8 fr)
  from kind_cases(3) [OF print_same_kind [OF 8(1,2)] refl] obtain d where "b = JDict d" ..
  with 8 show ?case by (cases d) (auto simp: print_string_def)
next
  case (9 fr k v d)
  from kind_cases(3) [OF print_same_kind [OF 9(3,4)] refl] obtain d' where b: "b = JDict d'" ..
  with 9(4) have "d' \<noteq> []" by (auto simp: print_string_def)
  then obtain k' v' d2 where d': "d' = (k', v') # d2" by (cases d') auto
  have "k = k' \<and> v = v' \<and> d = d2 \<and> r = r'"
    by (rule unique_member [OF 9(1) [OF 9(3)] 9(2) [OF 9(3)]]) (use 9(4) b d' in simp_all)
  with b d' show ?case by simp
next
  case (10 fr)
  then show ?case by (cases ys) auto
next
  case (11 fr x xs)
  from 11(4) obtain y ys' where ys: "ys = y # ys'" by (cases ys) auto
  have "x = y \<and> xs = ys' \<and> r = r'"
    by (rule unique_elem [OF 11(1) [OF 11(3)] 11(2) [OF 11(3)]]) (use 11(4) ys in simp_all)
  with ys show ?case by simp
next
  case (12 fr)
  then show ?case by (cases d') auto
next
  case (13 fr k v d)
  from 13(4) obtain k' v' d2 where d': "d' = (k', v') # d2" by (cases d') auto
  have "k = k' \<and> v = v' \<and> d = d2 \<and> r = r'"
    by (rule unique_member [OF 13(1) [OF 13(3)] 13(2) [OF 13(3)]]) (use 13(4) d' in simp_all)
  with d' show ?case by simp
qed

lemma print_json_inject: "float_repr_ok fr \<Longrightarrow> print_json fr a = print_json fr b \<longleftrightarrow> a = b"
  using print_json_unique(1) [of fr a "[]" b "[]"] by auto

lemma canonical_json_eq:
  "float_repr_ok fr \<Longrightarrow> canonical_json fr a = canonical_json fr b \<longleftrightarrow> sort_json a = sort_json b"
  by (simp add: canonical_json_def print_json_inject)

text \<open>The order in which a dict was built does not show in its canonical form.\<close>

lemma sort_json_perm:
  assumes "mset d = mset d'" "distinct (map fst d)"
  shows "sort_json (JDict d) = sort_json (JDict d')"
proof -
  let ?f = "\<lambda>(k, v). (k, sort_json v)"
  have keys: "map fst (map ?f d) = map fst d" by auto
  have "inj_on fst (set (map ?f d))"
    using assms(2) keys by (metis distinct_map)
  moreover have "mset (map ?f d) = mset (sort_key fst (map ?f d'))"
    using assms(1) by simp
  ultimately have "sort_key fst (map ?f d) = sort_key fst (map ?f d')"
    by (intro sort_key_inj_key_eq) auto
  then show ?thesis by simp
qed

end
