(* ===== verification/Codecs.thy ===== *)
theory Codecs
  imports Py_Json
begin

text \<open>
  The byte codecs of the code base: base58 (\<open>did_resolver.py\<close>, with copies in
  \<open>identity.py\<close> and \<open>multibase_identifier.py\<close>) and URL-safe base64 as the standard library
  has it. Both are modelled as the code runs them and both are shown to give back what
  was encoded. The positional numeral system they share comes first.
\<close>

subsection \<open>Digits of a number in a base\<close>

function digits :: "nat \<Rightarrow> nat \<Rightarrow> nat list" where
  "digits b n = (if n = 0 \<or> b < 2 then [] else digits b (n div b) @ [n mod b])"
  by pat_completeness auto
termination
  by (relation "measure snd") auto

declare digits.simps [simp del]

definition undigits :: "nat \<Rightarrow> nat list \<Rightarrow> nat" where
  "undigits b ds = foldl (\<lambda>a d. b * a + d) 0 ds"

lemma digits_0 [simp]: "digits b 0 = []"
  by (simp add: digits.simps)

lemma digits_step: "2 \<le> b \<Longrightarrow> 0 < n \<Longrightarrow> digits b n = digits b (n div b) @ [n mod b]"
  by (subst digits.simps) simp

lemma undigits_snoc [simp]: "undigits b (ds @ [d]) = b * undigits b ds + d"
  by (simp add: undigits_def)

lemma undigits_Nil [simp]: "undigits b [] = 0"
  by (simp add: undigits_def)

lemma undigits_single [simp]: "undigits b [d] = d"
  by (simp add: undigits_def)

lemma undigits_replicate_0 [simp]: "undigits b (replicate k 0 @ ds) = undigits b ds"
proof -
  have "foldl (\<lambda>a d. b * a + d) 0 (replicate k 0) = 0"
    by (induction k) (simp_all add: replicate_append_same [symmetric])
  then show ?thesis by (simp add: undigits_def)
qed

lemma undigits_digits [simp]: "2 \<le> b \<Longrightarrow> undigits b (digits b n) = n"
  by (induction b n rule: digits.induct) (subst digits.simps; auto)

lemma digits_less: "2 \<le> b \<Longrightarrow> d \<in> set (digits b n) \<Longrightarrow> d < b"
  by (induction b n rule: digits.induct) (subst (asm) (2) digits.simps; auto split: if_splits)

lemma digits_eq_Nil [simp]: "2 \<le> b \<Longrightarrow> digits b n = [] \<longleftrightarrow> n = 0"
  by (subst digits.simps) auto

lemma digits_hd: "2 \<le> b \<Longrightarrow> 0 < n \<Longrightarrow> hd (digits b n) \<noteq> 0"
proof (induction b n rule: digits.induct)
  case (1 b n)
  have step: "digits b n = digits b (n div b) @ [n mod b]"
    using 1 by (simp add: digits_step [of b n])
  show ?case
  proof (cases "n div b = 0")
    case True
    with 1 step show ?thesis by (auto simp: div_eq_0_iff)
  next
    case False
    with 1 step show ?thesis by (simp add: hd_append)
  qed
qed

lemma undigits_pos: "2 \<le> b \<Longrightarrow> ds \<noteq> [] \<Longrightarrow> hd ds \<noteq> 0 \<Longrightarrow> 0 < undigits b ds"
proof (induction ds rule: rev_induct)
  case (snoc d ds)
  then show ?case by (cases "ds = []") auto
qed simp

text \<open>A list of digits without leading zeros is the digits of its value.\<close>

lemma digits_undigits:
  assumes "2 \<le> b" "\<And>d. d \<in> set ds \<Longrightarrow> d < b" "ds = [] \<or> hd ds \<noteq> 0"
  shows "digits b (undigits b ds) = ds"
  using assms(2,3)
proof (induction ds rule: rev_induct)
  case (snoc d ds)
  then have "d < b" by simp
  have "ds = [] \<or> hd ds \<noteq> 0"
    using snoc.prems(2) by (cases ds) auto
  with snoc have IH: "digits b (undigits b ds) = ds" by simp
  have "0 < undigits b (ds @ [d])"
    using snoc.prems assms(1) by (intro undigits_pos) auto
  with assms(1) \<open>d < b\<close> IH show ?case
    by (simp add: digits_step)
qed simp

lemma of_char_eq_0 [simp]: "(of_char c :: nat) = 0 \<longleftrightarrow> c = CHR 0x00"
proof -
  have "of_char (CHR 0x00) = (0 :: nat)" by simp
  then show ?thesis by (metis of_char_eq_iff)
qed

subsection \<open>Bytes and integers\<close>

text \<open>\<open>int.from_bytes(b, "big")\<close>, \<open>n.bit_length()\<close> and \<open>n.to_bytes(k, "big")\<close>.\<close>

definition from_bytes :: "bytes \<Rightarrow> nat" where
  "from_bytes b = undigits 256 (map of_char b)"

fun bit_length :: "nat \<Rightarrow> nat" where
  "bit_length n = (if n = 0 then 0 else Suc (bit_length (n div 2)))"

declare bit_length.simps [simp del]

fun to_bytes :: "nat \<Rightarrow> nat \<Rightarrow> bytes" where
  "to_bytes 0 n = []"
| "to_bytes (Suc k) n = to_bytes k (n div 256) @ [char_of (n mod 256)]"

lemma bit_length_bounds: "0 < n \<Longrightarrow> 2 ^ (bit_length n - 1) \<le> n \<and> n < 2 ^ bit_length n"
proof (induction n rule: bit_length.induct)
  case (1 n)
  show ?case
  proof (cases "n = 1")
    case True
    then show ?thesis by (simp add: bit_length.simps)
  next
    case False
    with 1 have half: "2 ^ (bit_length (n div 2) - 1) \<le> n div 2 \<and> n div 2 < 2 ^ bit_length (n div 2)"
      and pos: "0 < n div 2" by auto
    from pos have "0 < bit_length (n div 2)" by (subst bit_length.simps) simp
    then obtain m where "bit_length (n div 2) = Suc m" by (cases "bit_length (n div 2)") auto
    with half 1(2) show ?thesis by (subst bit_length.simps, subst (2) bit_length.simps) auto
  qed
qed

lemma to_bytes_digits:
  assumes "256 ^ k \<le> n" "n < 256 ^ Suc k"
  shows "to_bytes (Suc k) n = map char_of (digits 256 n)"
  using assms
proof (induction k arbitrary: n)
  case 0
  then show ?case by (simp add: digits_step)
next
  case (Suc k)
  have "256 ^ k \<le> n div 256" "n div 256 < 256 ^ Suc k"
    using Suc.prems by (auto simp: less_mult_imp_div_less less_eq_div_iff_mult_less_eq)
  from Suc.IH [OF this] Suc.prems show ?case
    by (simp add: digits_step del: to_bytes.simps) (simp add: digits_step)
qed

text \<open>The byte count the code asks for is the number of base-256 digits.\<close>

lemma to_bytes_minimal:
  assumes "0 < n"
  shows "to_bytes ((bit_length n + 7) div 8) n = map char_of (digits 256 n)"
proof -
  let ?k = "(bit_length n - 1) div 8"
  have pos: "0 < bit_length n" using assms by (subst bit_length.simps) simp
  then have k: "(bit_length n + 7) div 8 = Suc ?k"
    by (cases "bit_length n") auto
  have "8 * ?k \<le> bit_length n - 1" "bit_length n \<le> 8 * Suc ?k"
    using pos by auto
  then have "(2::nat) ^ (8 * ?k) \<le> 2 ^ (bit_length n - 1)" "(2::nat) ^ bit_length n \<le> 2 ^ (8 * Suc ?k)"
    by (auto intro: power_increasing)
  with bit_length_bounds [OF assms] have "2 ^ (8 * ?k) \<le> n" "n < 2 ^ (8 * Suc ?k)"
    by (meson le_trans less_le_trans)+
  then have "256 ^ ?k \<le> n" "n < 256 ^ Suc ?k"
    by (simp_all add: power_mult power_add)
  then show ?thesis unfolding k by (rule to_bytes_digits)
qed

subsection \<open>Numbers and their bytes\<close>

lemma digits_length: "2 \<le> b \<Longrightarrow> n < b ^ k \<Longrightarrow> length (digits b n) \<le> k"
proof (induction k arbitrary: n)
  case (Suc k)
  show ?case
  proof (cases "n = 0")
    case False
    have "n div b < b ^ k" using Suc.prems by (simp add: less_mult_imp_div_less mult.commute)
    with Suc False show ?thesis by (simp add: digits_step)
  qed simp
qed simp

lemma char_of_low: "char_of (256 * x + of_char y :: nat) = y"
  by (metis char_of_mod_256 char_of_char mod_mult_self4)

lemma to_bytes_length: "length (to_bytes k n) = k"
  by (induction k arbitrary: n) simp_all

lemma to_bytes_from_bytes: "length b = k \<Longrightarrow> to_bytes k (from_bytes b) = b"
  by (induction k arbitrary: b) (auto simp: from_bytes_def length_Suc_conv_rev char_of_low)

lemma from_bytes_less: "from_bytes b < 256 ^ length b"
proof (induction b rule: rev_induct)
  case (snoc c b)
  then have "256 * Suc (from_bytes b) \<le> 256 * 256 ^ length b" by (intro mult_le_mono2) simp
  moreover have "from_bytes (b @ [c]) < 256 * Suc (from_bytes b)" by (simp add: from_bytes_def)
  ultimately have "from_bytes (b @ [c]) < 256 * 256 ^ length b" by (rule less_le_trans [rotated])
  then show ?case by simp
qed (simp add: from_bytes_def)

lemma from_bytes_zeros: "from_bytes (b @ replicate m (CHR 0x00)) = from_bytes b * 256 ^ m"
proof (induction m)
  case (Suc m)
  have "b @ replicate (Suc m) (CHR 0x00) = (b @ replicate m (CHR 0x00)) @ [CHR 0x00]" by (simp add: replicate_append_same)
  with Suc show ?case by (simp add: from_bytes_def del: replicate_Suc append_assoc)
qed simp

subsection \<open>Base58\<close>

definition B58 :: string where
  "B58 = ''123456789ABCDEFGHJKLMNPQRSTUVWXYZabcdefghijkmnopqrstuvwxyz''"

fun index_of :: "'a list \<Rightarrow> 'a \<Rightarrow> nat option" where
  "index_of [] x = None"
| "index_of (y # ys) x = (if y = x then Some 0 else map_option Suc (index_of ys x))"

lemma index_of_nth: "distinct xs \<Longrightarrow> i < length xs \<Longrightarrow> index_of xs (xs ! i) = Some i"
proof (induction xs arbitrary: i)
  case (Cons x xs)
  then show ?case by (cases i) (auto simp: nth_mem)
qed simp

lemma index_of_Some: "index_of xs x = Some i \<Longrightarrow> i < length xs \<and> xs ! i = x"
  by (induction xs arbitrary: i) (auto split: if_splits)

text \<open>\<open>while n: n, r = divmod(n, 58); out = _B58[r] + out\<close>\<close>

function b58_loop :: "nat \<Rightarrow> string \<Rightarrow> string" where
  "b58_loop n out = (if n = 0 then out else b58_loop (n div 58) (B58 ! (n mod 58) # out))"
  by pat_completeness auto
termination
  by (relation "measure fst") auto

declare b58_loop.simps [simp del]

definition b58encode :: "bytes \<Rightarrow> string" where
  "b58encode b =
     (let n = from_bytes b; pad = lead_count (CHR 0x00) b
      in replicate pad (CHR ''1'') @ b58_loop n [])"

text \<open>The decoding loop: \<open>for c in s: n = n * 58 + _B58_MAP[c]\<close>, with the error it raises.\<close>

fun b58_value :: "nat \<Rightarrow> string \<Rightarrow> nat res" where
  "b58_value n [] = Inr n"
| "b58_value n (c # s) =
     (case index_of B58 c of
        None \<Rightarrow> Inl (ValueError (''invalid base58 character: '' @ repr_str [c]))
      | Some i \<Rightarrow> b58_value (n * 58 + i) s)"

definition b58decode :: "string \<Rightarrow> bytes res" where
  "b58decode s = bindE (b58_value 0 s) (\<lambda>n.
     let full = (if n \<noteq> 0 then to_bytes ((bit_length n + 7) div 8) n else []);
         pad = lead_count (CHR ''1'') s
     in Inr (replicate pad (CHR 0x00) @ full))"

lemma B58_length [simp]: "length B58 = 58"
  by (simp add: B58_def)

lemma B58_distinct: "distinct B58"
  by (simp add: B58_def)

lemma B58_index [simp]: "i < 58 \<Longrightarrow> index_of B58 (B58 ! i) = Some i"
  by (simp add: index_of_nth B58_distinct)

lemma B58_zero: "B58 ! 0 = CHR ''1''"
  by (simp add: B58_def)

lemma B58_inject: "i < 58 \<Longrightarrow> j < 58 \<Longrightarrow> B58 ! i = B58 ! j \<longleftrightarrow> i = j"
  by (metis B58_index option.inject)

lemma b58_loop_digits: "b58_loop n out = map ((!) B58) (digits 58 n) @ out"
proof (induction n out rule: b58_loop.induct)
  case (1 n out)
  then show ?case
    by (cases "n = 0") (simp_all add: b58_loop.simps [of n out] b58_loop.simps [of 0 out] digits_step [of 58 n])
qed

lemma b58_value_digits:
  "(\<And>d. d \<in> set ds \<Longrightarrow> d < 58) \<Longrightarrow>
     b58_value n (map ((!) B58) ds) = Inr (foldl (\<lambda>a d. 58 * a + d) n ds)"
  by (induction ds arbitrary: n) (simp_all add: mult.commute)

lemma map_lead_zero:
  "map of_char b = replicate (lead_count (CHR 0x00) b) (0::nat) @ map of_char (dropWhile (\<lambda>x. x = CHR 0x00) b)"
  by (subst lead_split [of b "CHR 0x00"], subst map_append) simp

text \<open>The round trip, leading zero bytes included.\<close>

lemma b58decode_encode: "b58decode (b58encode b) = Inr b"
proof -
  define z where "z = lead_count (CHR 0x00) b"
  define rest where "rest = dropWhile (\<lambda>x. x = CHR 0x00) b"
  define n where "n = from_bytes b"
  have b: "b = replicate z (CHR 0x00) @ rest"
    unfolding z_def rest_def by (rule lead_split)
  have rest_hd: "rest = [] \<or> hd rest \<noteq> CHR 0x00"
    unfolding rest_def using hd_dropWhile [of "\<lambda>x. x = CHR 0x00" b] by blast
  let ?ds = "map of_char rest :: nat list"
  have n: "n = undigits 256 ?ds"
    unfolding n_def from_bytes_def by (subst b) simp
  have "?ds = [] \<or> hd ?ds \<noteq> 0"
    using rest_hd by (cases rest) (auto simp: of_char_eq_0)
  then have dig: "digits 256 n = ?ds"
    unfolding n by (intro digits_undigits) auto
  have enc: "b58encode b = map ((!) B58) (replicate z 0 @ digits 58 n)"
    by (simp add: b58encode_def Let_def z_def [symmetric] n_def [symmetric] b58_loop_digits B58_zero)
  have val: "b58_value 0 (b58encode b) = Inr n"
  proof -
    have "b58_value 0 (b58encode b) = Inr (foldl (\<lambda>a d. 58 * a + d) 0 (replicate z 0 @ digits 58 n))"
      unfolding enc by (rule b58_value_digits) (auto simp: digits_less [of 58 _ n])
    also have "foldl (\<lambda>a d. 58 * a + d) 0 (replicate z 0 @ digits 58 n) = n"
      using undigits_replicate_0 [of 58 z "digits 58 n"] by (simp add: undigits_def [symmetric] del: undigits_replicate_0 foldl_append)
    finally show ?thesis .
  qed
  have lead: "map ((!) B58) (digits 58 n) = [] \<or> hd (map ((!) B58) (digits 58 n)) \<noteq> CHR ''1''"
    using digits_hd [of 58 n] digits_less [of 58 "hd (digits 58 n)" n] B58_inject [of "hd (digits 58 n)" 0]
    by (auto simp: hd_map B58_zero [symmetric] simp del: B58_zero)
  have pad: "lead_count (CHR ''1'') (b58encode b) = z"
    unfolding enc using lead by (simp add: B58_zero lead_count_replicate del: map_is_Nil_conv)
  have full: "(if n \<noteq> 0 then to_bytes ((bit_length n + 7) div 8) n else []) = rest"
    using to_bytes_minimal [of n] dig by (auto simp: comp_def)
  show ?thesis
    using val pad full b by (simp add: b58decode_def)
qed

lemma b58_value_shift: "b58_value (n + k) s = map_sum id (\<lambda>m. m + k * 58 ^ length s) (b58_value n s)"
proof (induction s arbitrary: n k)
  case (Cons c s)
  show ?case
  proof (cases "index_of B58 c")
    case (Some i)
    have "(n + k) * 58 + i = (n * 58 + i) + k * 58" by (simp add: algebra_simps)
    with Some Cons [of "n * 58 + i" "k * 58"] show ?thesis by (simp add: ac_simps)
  qed simp
qed simp

lemma from_bytes_decode:
  assumes "b58decode s = Inr b"
  shows "b58_value 0 s = Inr (from_bytes b)"
proof -
  from assms obtain n where n: "b58_value 0 s = Inr n"
      "b = replicate (lead_count (CHR ''1'') s) (CHR 0x00) @ (if n \<noteq> 0 then to_bytes ((bit_length n + 7) div 8) n else [])"
    by (auto simp: b58decode_def Let_def)
  have "map of_char (map char_of (digits 256 n)) = digits 256 n"
    by (rule map_idI [THEN trans [rotated]]) (auto simp: digits_less)
  then have "from_bytes b = n"
    using to_bytes_minimal [of n] by (auto simp: n(2) from_bytes_def)
  with n(1) show ?thesis by simp
qed

interpretation b58: codec b58encode "\<lambda>s. case b58decode s of Inr b \<Rightarrow> Some b | Inl _ \<Rightarrow> None" "\<lambda>_. True"
  by unfold_locales (simp add: b58decode_encode)

subsection \<open>URL-safe base64\<close>

text \<open>
  \<open>base64.urlsafe_b64encode\<close>: three bytes to four characters, the last group padded.
\<close>

definition B64 :: string where
  "B64 = ''ABCDEFGHIJKLMNOPQRSTUVWXYZabcdefghijklmnopqrstuvwxyz0123456789-_''"

fun b64encode :: "bytes \<Rightarrow> string" where
  "b64encode [] = []"
| "b64encode [a] =
     [B64 ! (of_char a div 4), B64 ! (of_char a mod 4 * 16), CHR ''='', CHR ''='']"
| "b64encode [a, b] =
     [B64 ! (of_char a div 4), B64 ! (of_char a mod 4 * 16 + of_char b div 16),
      B64 ! (of_char b mod 16 * 4), CHR ''='']"
| "b64encode (a # b # c # bs) =
     B64 ! (of_char a div 4) # B64 ! (of_char a mod 4 * 16 + of_char b div 16)
     # B64 ! (of_char b mod 16 * 4 + of_char c div 64) # B64 ! (of_char c mod 64) # b64encode bs"

text \<open>\<open>.rstrip(b"=")\<close>\<close>

definition rstrip_eq :: "string \<Rightarrow> string" where
  "rstrip_eq s = rev (dropWhile (\<lambda>x. x = CHR ''='') (rev s))"

definition urlsafe_b64nopad :: "bytes \<Rightarrow> string" where
  "urlsafe_b64nopad b = rstrip_eq (b64encode b)"

text \<open>
  \<open>urlsafe_b64decode\<close> without validation, as \<open>binascii.a2b_base64\<close> runs it: \<open>q\<close> is the
  position in the group of four, \<open>l\<close> the bits left over, \<open>p\<close> the padding seen. Characters
  outside the alphabet are skipped, \<open>-\<close> and \<open>+\<close> both stand for 62, \<open>_\<close> and \<open>/\<close> for 63; a
  padding that completes the group ends the reading, and an incomplete group is an error.
\<close>

definition b64_val :: "char \<Rightarrow> nat option" where
  "b64_val c =
     (if c = CHR ''+'' then Some 62 else if c = CHR ''/'' then Some 63 else index_of B64 c)"

fun a2b :: "nat \<Rightarrow> nat \<Rightarrow> nat \<Rightarrow> string \<Rightarrow> bytes option" where
  "a2b q l p [] = (if q = 0 then Some [] else None)"
| "a2b q l p (c # cs) =
     (if c = CHR ''='' then
        (if 2 \<le> q then (if 4 \<le> q + Suc p then Some [] else a2b q l (Suc p) cs)
         else a2b q l p cs)
      else case b64_val c of
        None \<Rightarrow> a2b q l p cs
      | Some v \<Rightarrow>
          if q = 0 then a2b 1 v 0 cs
          else if q = 1 then map_option ((#) (char_of (l * 4 + v div 16))) (a2b 2 (v mod 16) 0 cs)
          else if q = 2 then map_option ((#) (char_of (l * 16 + v div 4))) (a2b 3 (v mod 4) 0 cs)
          else map_option ((#) (char_of (l * 64 + v))) (a2b 0 0 0 cs))"

definition ascii :: "string \<Rightarrow> bool" where
  "ascii s \<longleftrightarrow> list_all (\<lambda>c. (of_char c :: nat) < 128) s"

definition urlsafe_b64decode :: "string \<Rightarrow> bytes option" where
  "urlsafe_b64decode s = (if ascii s then a2b 0 0 0 s else None)"

lemma B64_length [simp]: "length B64 = 64"
  by (simp add: B64_def)

lemma B64_distinct: "distinct B64"
  by (simp add: B64_def)

lemma B64_set: "c \<in> set B64 \<Longrightarrow> c \<noteq> CHR ''='' \<and> c \<noteq> CHR ''+'' \<and> c \<noteq> CHR ''/'' \<and> (of_char c :: nat) < 128"
  by (auto simp: B64_def)

lemma B64_nth [simp]:
  assumes "i < 64"
  shows "B64 ! i \<noteq> CHR ''=''" "b64_val (B64 ! i) = Some i" "(of_char (B64 ! i) :: nat) < 128"
  using assms B64_set [of "B64 ! i"] nth_mem [of i B64]
  by (auto simp: b64_val_def index_of_nth B64_distinct)

lemma byte_bounds [simp]:
  fixes c d :: char
  shows "(of_char c :: nat) div 4 < 64" "of_char c mod 4 * 16 + of_char d div 16 < (64 :: nat)"
    "of_char c mod 4 * 16 < (64 :: nat)" "of_char c mod 16 * 4 < (64 :: nat)"
    "of_char c mod 16 * 4 + of_char d div 64 < (64 :: nat)"
  using nat_of_char_less_256 [of c] nat_of_char_less_256 [of d] by linarith+

text \<open>What is left after stripping: the encoding without its padding.\<close>

fun b64_body :: "bytes \<Rightarrow> string" where
  "b64_body [] = []"
| "b64_body [a] = [B64 ! (of_char a div 4), B64 ! (of_char a mod 4 * 16)]"
| "b64_body [a, b] =
     [B64 ! (of_char a div 4), B64 ! (of_char a mod 4 * 16 + of_char b div 16),
      B64 ! (of_char b mod 16 * 4)]"
| "b64_body (a # b # c # bs) =
     B64 ! (of_char a div 4) # B64 ! (of_char a mod 4 * 16 + of_char b div 16)
     # B64 ! (of_char b mod 16 * 4 + of_char c div 64) # B64 ! (of_char c mod 64) # b64_body bs"

lemma b64_body_chars: "c \<in> set (b64_body b) \<Longrightarrow> c \<noteq> CHR ''='' \<and> (of_char c :: nat) < 128"
  by (induction b rule: b64_body.induct) auto

lemma b64encode_body: "\<exists>k. b64encode b = b64_body b @ replicate k (CHR ''='')"
proof (induction b rule: b64_body.induct)
  case (2 a)
  show ?case by (rule exI [of _ 2]) (simp add: numeral_2_eq_2)
next
  case (3 a b)
  show ?case by (rule exI [of _ 1]) simp
qed auto

lemma rstrip_eq_pad:
  assumes "\<And>c. c \<in> set s \<Longrightarrow> c \<noteq> CHR ''=''"
  shows "rstrip_eq (s @ replicate k (CHR ''='')) = s"
proof -
  have "dropWhile (\<lambda>x. x = CHR ''='') (rev s) = rev s"
    using assms by (cases s rule: rev_cases) auto
  then show ?thesis by (simp add: rstrip_eq_def dropWhile_append)
qed

lemma urlsafe_b64nopad_body: "urlsafe_b64nopad b = b64_body b"
  using b64encode_body [of b] rstrip_eq_pad [of "b64_body b"] b64_body_chars [of _ b]
  by (auto simp: urlsafe_b64nopad_def)

lemma byte_div [simp]:
  fixes c :: char
  shows "(of_char c :: nat) div 16 div 16 = 0" "(of_char c :: nat) div 16 mod 16 = of_char c div 16"
    "(of_char c :: nat) div 64 div 4 = 0" "(of_char c :: nat) div 64 mod 4 = of_char c div 64"
proof -
  have "(of_char c :: nat) div 16 < 16" "(of_char c :: nat) div 64 < 4"
    using nat_of_char_less_256 [of c] by linarith+
  then show "(of_char c :: nat) div 16 div 16 = 0" "(of_char c :: nat) div 16 mod 16 = of_char c div 16"
    "(of_char c :: nat) div 64 div 4 = 0" "(of_char c :: nat) div 64 mod 4 = of_char c div 64"
    by simp_all
qed

text \<open>
  Reading a stripped encoding back, with the padding \<open>did_resolver\<close> adds (always two) and
  with the padding \<open>AuditSigner.verify\<close> computes (\<open>-len % 4\<close>).
\<close>

lemma a2b_body_two: "a2b 0 l p (b64_body b @ ''=='') = Some b"
  by (induction b arbitrary: l p rule: b64_body.induct) simp_all

lemma a2b_body_exact:
  "a2b 0 l p (b64_body b @ replicate ((4 - length (b64_body b) mod 4) mod 4) (CHR ''='')) = Some b"
  by (induction b arbitrary: l p rule: b64_body.induct) (simp_all add: numeral_2_eq_2)

lemma ascii_body: "ascii (b64_body b)"
  by (auto simp: ascii_def list_all_iff dest: b64_body_chars)

lemma b64_roundtrip_two: "urlsafe_b64decode (urlsafe_b64nopad b @ ''=='') = Some b"
  using ascii_body [of b]
  by (simp add: urlsafe_b64nopad_body urlsafe_b64decode_def a2b_body_two ascii_def)

lemma b64_roundtrip_exact:
  "urlsafe_b64decode (urlsafe_b64nopad b @
     replicate ((4 - length (urlsafe_b64nopad b) mod 4) mod 4) (CHR ''='')) = Some b"
  using ascii_body [of b] a2b_body_exact [of 0 0 b]
  by (auto simp: urlsafe_b64nopad_body urlsafe_b64decode_def ascii_def list_all_iff)

interpretation b64: codec urlsafe_b64nopad "\<lambda>s. urlsafe_b64decode (s @ ''=='')" "\<lambda>_. True"
  by unfold_locales (rule b64_roundtrip_two)

end
