(* ===== verification/Wcp_Env.thy ===== *)
theory Wcp_Env
  imports Codecs
begin

text \<open>
  What the program runs on and does not contain: the clock, fresh UUIDs, SHA-256, Ed25519,
  the ISO 8601 reader and writer of \<open>datetime\<close>, and the printing of floats. They are fields
  of one record that every definition using them takes as an argument; the theorems hold
  for every such record, and the ones that need something of it (a clock that advances,
  UUIDs that differ, signatures that verify) say so in a hypothesis.
\<close>

subsection \<open>Instants\<close>

text \<open>
  A \<open>datetime\<close>: without a time zone, the microseconds of its wall clock; with one, the
  microseconds of the instant in UTC and the offset of the zone. Comparing the two kinds
  raises \<open>TypeError\<close>.
\<close>

datatype datetime = Naive int | Aware int int

fun dt_less :: "datetime \<Rightarrow> datetime \<Rightarrow> bool res" where
  "dt_less (Naive a) (Naive b) = Inr (a < b)"
| "dt_less (Aware a _) (Aware b _) = Inr (a < b)"
| "dt_less _ _ = Inl TypeError"

fun dt_le :: "datetime \<Rightarrow> datetime \<Rightarrow> bool res" where
  "dt_le (Naive a) (Naive b) = Inr (a \<le> b)"
| "dt_le (Aware a _) (Aware b _) = Inr (a \<le> b)"
| "dt_le _ _ = Inl TypeError"

text \<open>\<open>if x.tzinfo is None: x = x.replace(tzinfo=timezone.utc)\<close>\<close>

fun as_utc :: "datetime \<Rightarrow> datetime" where
  "as_utc (Naive t) = Aware t 0"
| "as_utc (Aware t z) = Aware t z"

text \<open>The instant, with a naive time read as UTC.\<close>

fun utc_us :: "datetime \<Rightarrow> int" where
  "utc_us (Naive t) = t"
| "utc_us (Aware t _) = t"

lemma utc_us_as_utc [simp]: "utc_us (as_utc d) = utc_us d"
  by (cases d) auto

lemma dt_less_as_utc [simp]: "dt_less (as_utc a) (as_utc b) = Inr (utc_us a < utc_us b)"
  by (cases a; cases b) auto

lemma dt_le_as_utc [simp]: "dt_le (as_utc a) (as_utc b) = Inr (utc_us a \<le> utc_us b)"
  by (cases a; cases b) auto

subsection \<open>The environment\<close>

record env =
  sha256_hex :: "bytes \<Rightarrow> string"
  ed25519_sign :: "bytes \<Rightarrow> bytes \<Rightarrow> bytes"
  ed25519_pub :: "bytes \<Rightarrow> bytes"
  ed25519_verify :: "bytes \<Rightarrow> bytes \<Rightarrow> bytes \<Rightarrow> bool"
  signer_key :: bytes
  clock :: "nat \<Rightarrow> int"
  uuid4 :: "nat \<Rightarrow> string"
  fromisoformat :: "string \<Rightarrow> datetime option"
  isoformat :: "datetime \<Rightarrow> string"
  float_repr :: "rat \<Rightarrow> string"
  float_fixed1 :: "rat \<Rightarrow> string"

text \<open>
  \<open>ed25519_sign sk data\<close>, \<open>ed25519_pub sk\<close> and \<open>ed25519_verify pk data sig\<close> are the raw
  primitives; \<open>clock n\<close> is the \<open>n\<close>-th reading of the system clock in microseconds and
  \<open>uuid4 n\<close> the \<open>n\<close>-th UUID drawn. \<open>float_repr\<close> is \<open>float.__repr__\<close> and \<open>float_fixed1\<close> the
  format \<open>.1f\<close>.
\<close>

abbreviation canon :: "env \<Rightarrow> json \<Rightarrow> bytes" where
  "canon E j \<equiv> canonical_json (float_repr E) j"

text \<open>What the documentation of Ed25519 promises: a signature made with a key verifies.\<close>

definition sig_correct :: "env \<Rightarrow> bool" where
  "sig_correct E \<longleftrightarrow> (\<forall>sk data. ed25519_verify E (ed25519_pub E sk) data (ed25519_sign E sk data))"

text \<open>The wire form of a signature, and reading it back.\<close>

definition sig_prefix :: string where
  "sig_prefix = ''ed25519:''"

definition wire_sig :: "bytes \<Rightarrow> string" where
  "wire_sig sig = sig_prefix @ urlsafe_b64nopad sig"

text \<open>\<open>datetime.fromisoformat(s.replace("Z", "+00:00"))\<close>\<close>

definition replace_Z :: "string \<Rightarrow> string" where
  "replace_Z s = concat (map (\<lambda>c. if c = CHR ''Z'' then ''+00:00'' else [c]) s)"

definition parse_iso :: "env \<Rightarrow> string \<Rightarrow> datetime res" where
  "parse_iso E s =
     of_opt (ValueError (''Invalid isoformat string: '' @ repr_str (replace_Z s)))
       (fromisoformat E (replace_Z s))"

text \<open>The message of an exception, as \<open>str(exc)\<close> gives it to the handlers that embed it.\<close>

fun exc_message :: "py_exc \<Rightarrow> string" where
  "exc_message (TaskNotFound m) = m"
| "exc_message (TaskStateInvalid m) = m"
| "exc_message (AttestationFailed m) = m"
| "exc_message (TaskPreempted m) = m"
| "exc_message (ValueError m) = m"
| "exc_message (DIDResolutionError m) = m"
| "exc_message (SignatureVerificationError m) = m"
| "exc_message (KeyError k) = repr_str k"
| "exc_message (RuntimeError m) = m"
| "exc_message (PeerTrustAnchorRevoked m) = m"
| "exc_message (PermissionError m) = m"
| "exc_message (AssertionError m) = m"
| "exc_message (BufferOverflowError c n) =
     ''WCP-Lite buffer overflow: capacity '' @ show_int c @ '', attempted '' @ show_int n"
| "exc_message _ = []"

end
