(* ===== verification/Did_Resolver.thy ===== *)
theory Did_Resolver
  imports Wcp_Env
begin

text \<open>
  \<open>wcp_coordinator/did_resolver.py\<close>: the inline \<open>did:wcp\<close> resolver and the signature check
  every signed message of a worker goes through.
\<close>

record resolved_did =
  r_did :: string
  r_public_key :: bytes
  r_path :: "string option"

definition did_resolve :: "string \<Rightarrow> resolved_did res" where
  "did_resolve did =
     (if \<not> startswith did ''did:'' then
        Inl (DIDResolutionError (''not a DID: '' @ repr_str did))
      else
        let parts = split_max 3 (CHR '':'') did in
        if length parts < 3 \<or> parts ! 1 \<noteq> ''wcp'' then
          Inl (DIDResolutionError (''not a did:wcp: '' @ repr_str did))
        else
          let path = (if length parts = 4 then Some (parts ! 3) else None) in
          case b58decode (parts ! 2) of
            Inl exc \<Rightarrow> Inl (DIDResolutionError (''invalid identifier: '' @ exc_message exc))
          | Inr pubkey \<Rightarrow>
              if length pubkey \<noteq> 32 then
                Inl (DIDResolutionError
                  (''did:wcp identifier must decode to 32-byte Ed25519 pubkey, got '' @
                   show_nat (length pubkey) @ '' bytes''))
              else Inr \<lparr>r_did = did, r_public_key = pubkey, r_path = path\<rparr>)"

text \<open>
  \<open>verify\<close>: the scheme prefix, the base64 with two padding characters added, then Ed25519.
  A message the base64 reader attaches to its error is left out of ours.
\<close>

definition did_verify :: "env \<Rightarrow> resolved_did \<Rightarrow> bytes \<Rightarrow> string \<Rightarrow> unit res" where
  "did_verify E resolved payload signature =
     (if \<not> startswith signature sig_prefix then
        Inl (SignatureVerificationError
          (''unsupported signature scheme: '' @ repr_str (take 10 signature)))
      else
        case urlsafe_b64decode (drop_prefix sig_prefix signature @ ''=='') of
          None \<Rightarrow> Inl (SignatureVerificationError ''invalid base64 signature: '')
        | Some sig \<Rightarrow>
            if ed25519_verify E (r_public_key resolved) payload sig then Inr ()
            else Inl (SignatureVerificationError ''Ed25519 verify failed''))"

definition did_string :: "bytes \<Rightarrow> string" where
  "did_string pubkey = ''did:wcp:'' @ b58encode pubkey"

definition did_from_pubkey :: "bytes \<Rightarrow> string res" where
  "did_from_pubkey pubkey =
     (if length pubkey \<noteq> 32 then Inl (ValueError ''Ed25519 public key must be 32 bytes'')
      else Inr (did_string pubkey))"

lemma split_max_cut:
  "c \<notin> set xs \<Longrightarrow> split_max (Suc n) c (xs @ c # ys) = xs # split_max n c ys"
proof -
  assume c: "c \<notin> set xs"
  then have "dropWhile (\<lambda>x. x \<noteq> c) (xs @ c # ys) = c # ys"
    and "takeWhile (\<lambda>x. x \<noteq> c) (xs @ c # ys) = xs"
    by (induction xs) auto
  then show ?thesis by simp
qed

lemma split_max_whole: "c \<notin> set xs \<Longrightarrow> split_max n c xs = [xs]"
proof (cases n)
  case (Suc m)
  assume "c \<notin> set xs"
  then have d: "dropWhile (\<lambda>x. x \<noteq> c) xs = []" by (induction xs) auto
  show ?thesis unfolding Suc split_max.simps d by simp
qed simp

lemma B58_no_colon: "CHR '':'' \<notin> set B58"
  by (simp add: B58_def)

lemma b58encode_chars: "set (b58encode b) \<subseteq> set B58"
proof -
  have "B58 ! d \<in> set B58" if "d \<in> set (digits 58 n)" for d n
    using digits_less [OF _ that] by (intro nth_mem) simp
  moreover have "CHR ''1'' \<in> set B58" by (simp add: B58_def)
  ultimately show ?thesis
    by (auto simp: b58encode_def Let_def b58_loop_digits)
qed

lemma did_parts: "split_max 3 (CHR '':'') (did_string b) = [''did'', ''wcp'', b58encode b]"
proof -
  have no: "CHR '':'' \<notin> set (b58encode b)" using b58encode_chars B58_no_colon by blast
  have "split_max (Suc (Suc (Suc 0))) (CHR '':'') (''did'' @ CHR '':'' # (''wcp'' @ CHR '':'' # b58encode b)) =
      [''did'', ''wcp'', b58encode b]"
    using split_max_whole [OF no, of "Suc 0"]
    by (subst split_max_cut, simp, subst split_max_cut, simp, simp)
  then show ?thesis by (simp add: numeral_3_eq_3 did_string_def)
qed

lemma did_string_starts: "startswith (did_string b) ''did:''"
  by (simp add: did_string_def startswith_def)

lemma did_resolve_from_pubkey:
  "length pk = 32 \<Longrightarrow>
     did_resolve (did_string pk) =
       Inr \<lparr>r_did = did_string pk, r_public_key = pk, r_path = None\<rparr>"
  using did_parts [of pk]
  by (simp add: did_resolve_def did_string_starts b58decode_encode Let_def)

lemma did_resolve_key: "did_resolve did = Inr r \<Longrightarrow> length (r_public_key r) = 32 \<and> r_did r = did"
  by (auto simp: did_resolve_def Let_def split: if_splits sum.splits)

text \<open>The DID strings are a codec for 32-byte keys.\<close>

interpretation did: codec did_string
  "\<lambda>d. case did_resolve d of Inr r \<Rightarrow> Some (r_public_key r) | Inl _ \<Rightarrow> None" "\<lambda>pk. length pk = 32"
  by unfold_locales (simp add: did_resolve_from_pubkey)

lemma did_verify_ok:
  "did_verify E r payload s = Inr () \<longleftrightarrow>
     startswith s sig_prefix \<and>
     (\<exists>sig. urlsafe_b64decode (drop_prefix sig_prefix s @ ''=='') = Some sig \<and>
        ed25519_verify E (r_public_key r) payload sig)"
  by (auto simp: did_verify_def split: option.splits)

lemma did_verify_wire:
  "did_verify E r payload (wire_sig sig) = Inr () \<longleftrightarrow> ed25519_verify E (r_public_key r) payload sig"
  by (simp add: did_verify_ok wire_sig_def b64_roundtrip_two)

text \<open>The check raises nothing but a signature error.\<close>

lemma did_verify_error:
  "did_verify E r payload s = Inl e \<Longrightarrow> \<exists>m. e = SignatureVerificationError m"
  by (auto simp: did_verify_def split: if_splits option.splits)

text \<open>A message signed with a key is accepted from the DID of that key.\<close>

lemma signed_accepted:
  assumes "sig_correct E" "length (ed25519_pub E sk) = 32"
    and "did = did_string (ed25519_pub E sk)"
  shows "\<exists>r. did_resolve did = Inr r \<and>
    did_verify E r payload (wire_sig (ed25519_sign E sk payload)) = Inr ()"
  using assms did_resolve_from_pubkey [OF assms(2)]
  by (simp add: did_verify_wire sig_correct_def)

end
