(* ===== verification/Wcp_Models.thy ===== *)
theory Wcp_Models
  imports Did_Resolver
begin

text \<open>
  \<open>wcp_coordinator/models.py\<close>: the enumerations, one record per table, and the database
  session as a record of tables in insertion order. Field names carry the table's initial
  because Isabelle's record fields share one name space. Two counters say how often the
  clock has been read and how many UUIDs have been drawn.
\<close>

subsection \<open>Enumerations\<close>

datatype worker_class = HUMAN | AUTONOMOUS_ROBOT | TELEOPERATED_ROBOT | SEMI_AUTONOMOUS | HYBRID

fun worker_class_value :: "worker_class \<Rightarrow> string" where
  "worker_class_value HUMAN = ''human''"
| "worker_class_value AUTONOMOUS_ROBOT = ''autonomous_robot''"
| "worker_class_value TELEOPERATED_ROBOT = ''teleoperated_robot''"
| "worker_class_value SEMI_AUTONOMOUS = ''semi_autonomous''"
| "worker_class_value HYBRID = ''hybrid''"

datatype task_state =
    POSTED | CLAIMED | EXECUTING | SUPERVISING | ATTESTING | RECHECKING | COMPLETED | VOIDED | ABORTED

fun task_state_value :: "task_state \<Rightarrow> string" where
  "task_state_value POSTED = ''posted''"
| "task_state_value CLAIMED = ''claimed''"
| "task_state_value EXECUTING = ''executing''"
| "task_state_value SUPERVISING = ''supervising''"
| "task_state_value ATTESTING = ''attesting''"
| "task_state_value RECHECKING = ''rechecking''"
| "task_state_value COMPLETED = ''completed''"
| "task_state_value VOIDED = ''voided''"
| "task_state_value ABORTED = ''aborted''"

datatype attestation_mode =
    SENSOR_WITNESS | THIRD_PARTY_WITNESS | CRYPTOGRAPHIC_PRESENCE | OWNER_SIGN_OFF

fun attestation_mode_value :: "attestation_mode \<Rightarrow> string" where
  "attestation_mode_value SENSOR_WITNESS = ''sensor-witness''"
| "attestation_mode_value THIRD_PARTY_WITNESS = ''third-party-witness''"
| "attestation_mode_value CRYPTOGRAPHIC_PRESENCE = ''cryptographic-presence''"
| "attestation_mode_value OWNER_SIGN_OFF = ''owner-sign-off''"

datatype verifier_decision = FAIL | REVIEW | PASS

fun verifier_decision_value :: "verifier_decision \<Rightarrow> string" where
  "verifier_decision_value PASS = ''pass''"
| "verifier_decision_value FAIL = ''fail''"
| "verifier_decision_value REVIEW = ''review''"

text \<open>
  \<open>Enum(value)\<close>: the member with this value, or \<open>ValueError\<close>. The value may be any JSON
  value; only a string equals a member's value. The class name goes into the message.
\<close>

definition enum_of :: "(rat \<Rightarrow> string) \<Rightarrow> string \<Rightarrow> ('e \<Rightarrow> string) \<Rightarrow> 'e list \<Rightarrow> json \<Rightarrow> 'e res" where
  "enum_of fr nm value members j =
     of_opt (ValueError (py_repr fr j @ '' is not a valid '' @ nm))
       (case j of JStr s \<Rightarrow> find (\<lambda>m. value m = s) members | _ \<Rightarrow> None)"

definition worker_class_of :: "env \<Rightarrow> json \<Rightarrow> worker_class res" where
  "worker_class_of E =
     enum_of (float_repr E) ''WorkerClass'' worker_class_value
       [HUMAN, AUTONOMOUS_ROBOT, TELEOPERATED_ROBOT, SEMI_AUTONOMOUS, HYBRID]"

definition attestation_mode_of :: "env \<Rightarrow> json \<Rightarrow> attestation_mode res" where
  "attestation_mode_of E =
     enum_of (float_repr E) ''AttestationMode'' attestation_mode_value
       [SENSOR_WITNESS, THIRD_PARTY_WITNESS, CRYPTOGRAPHIC_PRESENCE, OWNER_SIGN_OFF]"

lemma worker_class_of_value [simp]: "worker_class_of E (JStr (worker_class_value c)) = Inr c"
  by (cases c) (simp_all add: worker_class_of_def enum_of_def)

lemma attestation_mode_of_value [simp]: "attestation_mode_of E (JStr (attestation_mode_value m)) = Inr m"
  by (cases m) (simp_all add: attestation_mode_of_def enum_of_def)

lemma enum_of_Inr: "enum_of fr nm val ms j = Inr m \<Longrightarrow> j = JStr (val m) \<and> m \<in> set ms"
  by (auto simp: enum_of_def find_Some_iff split: json.splits)

text \<open>The decisions are ordered: a pass is better than a review, a review than a failure.\<close>

instantiation verifier_decision :: linorder
begin

fun decision_rank :: "verifier_decision \<Rightarrow> nat" where
  "decision_rank FAIL = 0"
| "decision_rank REVIEW = 1"
| "decision_rank PASS = 2"

definition less_eq_verifier_decision :: "verifier_decision \<Rightarrow> verifier_decision \<Rightarrow> bool" where
  "a \<le> b \<longleftrightarrow> decision_rank a \<le> decision_rank b"

definition less_verifier_decision :: "verifier_decision \<Rightarrow> verifier_decision \<Rightarrow> bool" where
  "a < b \<longleftrightarrow> decision_rank a < decision_rank b"

lemma decision_rank_inject: "decision_rank a = decision_rank b \<longleftrightarrow> a = b"
  by (cases a; cases b) auto

instance
  by standard
    (auto simp: less_eq_verifier_decision_def less_verifier_decision_def decision_rank_inject
       simp flip: decision_rank_inject)

end

subsection \<open>Tables\<close>

record wcp_worker =
  w_worker_id :: string
  w_principal_id :: string
  w_worker_class :: worker_class
  w_capabilities_json :: json
  w_revision :: int
  w_ttl_seconds :: int
  w_as_of :: datetime
  w_created_at :: datetime

record wcp_task =
  t_task_id :: string
  t_posted_by :: string
  t_descriptor_type :: string
  t_task_json :: json
  t_expiry :: datetime
  t_state :: task_state
  t_attestation_attempts_used :: int
  t_posted_at :: datetime

record wcp_claim =
  c_claim_id :: string
  c_task_id :: string
  c_worker_id :: string
  c_bid_amount :: "string option"
  c_eta :: datetime
  c_acceptance_attestation_json :: json
  c_accepted :: bool
  c_claimed_at :: datetime
  c_last_heartbeat_at :: "datetime option"

record wcp_session =
  s_session_id :: string
  s_claim_id :: string
  s_opened_at :: datetime
  s_closed_at :: "datetime option"
  s_events_count :: int

record wcp_attestation =
  e_attestation_id :: string
  e_claim_id :: string
  e_mode :: attestation_mode
  e_kind :: json
  e_payload_hash :: json
  e_sig :: json
  e_worker_id :: string
  e_collected_at :: datetime
  e_verifier_decision :: verifier_decision
  e_verifier_reasons :: "string list"
  e_payload_json :: json

record wcp_audit =
  a_entry_id :: string
  a_claim_id :: "string option"
  a_task_id :: "string option"
  a_event_type :: string
  a_timestamp :: datetime
  a_actor_did :: string
  a_payload_json :: json
  a_payload_hash :: string
  a_prev_hash :: "string option"
  a_this_hash :: string
  a_sig :: string

record wcp_subscription =
  u_subscription_id :: string
  u_agent_did :: string
  u_filter_json :: json
  u_since_revision :: "int option"
  u_stream_endpoint :: string
  u_ttl_seconds :: int
  u_created_at :: datetime

record db =
  workers :: "wcp_worker list"
  tasks :: "wcp_task list"
  claims :: "wcp_claim list"
  sessions :: "wcp_session list"
  attestations :: "wcp_attestation list"
  audits :: "wcp_audit list"
  subscriptions :: "wcp_subscription list"
  n_now :: nat
  n_uuid :: nat

definition empty_db :: db where
  "empty_db = \<lparr>workers = [], tasks = [], claims = [], sessions = [], attestations = [],
     audits = [], subscriptions = [], n_now = 0, n_uuid = 0\<rparr>"

subsection \<open>Access\<close>

text \<open>\<open>datetime.now(timezone.utc)\<close> (also the column default \<open>_utcnow\<close>) and \<open>str(uuid.uuid4())\<close>.\<close>

definition utcnow :: "env \<Rightarrow> (db, datetime) py" where
  "utcnow E s = (Inr (Aware (clock E (n_now s)) 0), s\<lparr>n_now := Suc (n_now s)\<rparr>)"

definition uuid_str :: "env \<Rightarrow> (db, string) py" where
  "uuid_str E s = (Inr (uuid4 E (n_uuid s)), s\<lparr>n_uuid := Suc (n_uuid s)\<rparr>)"

text \<open>\<open>db.get\<close> by primary key, \<open>db.add\<close> and flush, and assignment to a loaded row.\<close>

abbreviation get_task :: "db \<Rightarrow> string \<Rightarrow> wcp_task option" where
  "get_task s \<equiv> row_get t_task_id (tasks s)"

abbreviation get_claim :: "db \<Rightarrow> string \<Rightarrow> wcp_claim option" where
  "get_claim s \<equiv> row_get c_claim_id (claims s)"

abbreviation get_worker :: "db \<Rightarrow> string \<Rightarrow> wcp_worker option" where
  "get_worker s \<equiv> row_get w_worker_id (workers s)"

definition add_task :: "wcp_task \<Rightarrow> (db, unit) py" where
  "add_task r s = (case row_add t_task_id r (tasks s) of
     Inl e \<Rightarrow> (Inl e, s) | Inr rs \<Rightarrow> (Inr (), s\<lparr>tasks := rs\<rparr>))"

definition add_claim :: "wcp_claim \<Rightarrow> (db, unit) py" where
  "add_claim r s = (case row_add c_claim_id r (claims s) of
     Inl e \<Rightarrow> (Inl e, s) | Inr rs \<Rightarrow> (Inr (), s\<lparr>claims := rs\<rparr>))"

definition add_worker :: "wcp_worker \<Rightarrow> (db, unit) py" where
  "add_worker r s = (case row_add w_worker_id r (workers s) of
     Inl e \<Rightarrow> (Inl e, s) | Inr rs \<Rightarrow> (Inr (), s\<lparr>workers := rs\<rparr>))"

definition add_session :: "wcp_session \<Rightarrow> (db, unit) py" where
  "add_session r s = (case row_add s_session_id r (sessions s) of
     Inl e \<Rightarrow> (Inl e, s) | Inr rs \<Rightarrow> (Inr (), s\<lparr>sessions := rs\<rparr>))"

definition add_attestation :: "wcp_attestation \<Rightarrow> (db, unit) py" where
  "add_attestation r s = (case row_add e_attestation_id r (attestations s) of
     Inl e \<Rightarrow> (Inl e, s) | Inr rs \<Rightarrow> (Inr (), s\<lparr>attestations := rs\<rparr>))"

definition add_audit :: "wcp_audit \<Rightarrow> (db, unit) py" where
  "add_audit r s = (case row_add a_entry_id r (audits s) of
     Inl e \<Rightarrow> (Inl e, s) | Inr rs \<Rightarrow> (Inr (), s\<lparr>audits := rs\<rparr>))"

definition add_subscription :: "wcp_subscription \<Rightarrow> (db, unit) py" where
  "add_subscription r s = (case row_add u_subscription_id r (subscriptions s) of
     Inl e \<Rightarrow> (Inl e, s) | Inr rs \<Rightarrow> (Inr (), s\<lparr>subscriptions := rs\<rparr>))"

definition set_task :: "string \<Rightarrow> (wcp_task \<Rightarrow> wcp_task) \<Rightarrow> (db, unit) py" where
  "set_task k f = modify (\<lambda>s. s\<lparr>tasks := row_update t_task_id k f (tasks s)\<rparr>)"

definition set_claim :: "string \<Rightarrow> (wcp_claim \<Rightarrow> wcp_claim) \<Rightarrow> (db, unit) py" where
  "set_claim k f = modify (\<lambda>s. s\<lparr>claims := row_update c_claim_id k f (claims s)\<rparr>)"

definition set_worker :: "string \<Rightarrow> (wcp_worker \<Rightarrow> wcp_worker) \<Rightarrow> (db, unit) py" where
  "set_worker k f = modify (\<lambda>s. s\<lparr>workers := row_update w_worker_id k f (workers s)\<rparr>)"

text \<open>
  \<open>db.flush()\<close> and the flush before a query: rows added since the last flush are written, and
  the database refuses an attestation whose \<open>kind\<close> or \<open>payload_hash\<close> is null or cannot be
  bound to a text column. Rows already written passed this check before.
\<close>

fun text_column :: "json \<Rightarrow> bool" where
  "text_column JNull = False"
| "text_column (JList _) = False"
| "text_column (JDict _) = False"
| "text_column _ = True"

definition attestation_storable :: "wcp_attestation \<Rightarrow> bool" where
  "attestation_storable r \<longleftrightarrow> text_column (e_kind r) \<and> text_column (e_payload_hash r)"

definition db_flush :: "(db, unit) py" where
  "db_flush s = (if list_all attestation_storable (attestations s) then Inr () else Inl IntegrityError, s)"

lemmas access_defs = db_flush_def utcnow_def uuid_str_def add_task_def add_claim_def add_worker_def
  add_session_def add_attestation_def add_audit_def add_subscription_def
  set_task_def set_claim_def set_worker_def

interpretation task_tbl: keyed_table t_task_id "row_get t_task_id" "row_add t_task_id" "row_update t_task_id"
  by (rule row_table)

interpretation claim_tbl: keyed_table c_claim_id "row_get c_claim_id" "row_add c_claim_id" "row_update c_claim_id"
  by (rule row_table)

interpretation worker_tbl: keyed_table w_worker_id "row_get w_worker_id" "row_add w_worker_id" "row_update w_worker_id"
  by (rule row_table)

text \<open>The primary keys of the tables that services look rows up in.\<close>

definition keys_ok :: "db \<Rightarrow> bool" where
  "keys_ok s \<longleftrightarrow> distinct (map t_task_id (tasks s)) \<and> distinct (map c_claim_id (claims s)) \<and>
     distinct (map w_worker_id (workers s)) \<and> distinct (map a_entry_id (audits s))"

end
