(* ===== verification/Audit_Chain.thy ===== *)
theory Audit_Chain
  imports Wcp_Models
begin

text \<open>
  \<open>wcp_coordinator/audit_chain.py\<close>: the hash-linked, signed audit log. \<open>audit_append\<close> is
  \<open>AuditChain.append\<close>, \<open>verify_chain\<close> its integrity walk, \<open>signer_sign\<close> and
  \<open>signer_verify\<close> the coordinator's \<open>AuditSigner\<close>.

  Entries are read back ordered by timestamp. SQL leaves the order of equal timestamps
  open; the model keeps insertion order there, and the theorems that rest on the order
  assume a clock that strictly advances, so that no two timestamps are equal.
\<close>

subsection \<open>The signer\<close>

definition signer_sign :: "env \<Rightarrow> bytes \<Rightarrow> string" where
  "signer_sign E data = wire_sig (ed25519_sign E (signer_key E) data)"

definition signer_verify :: "env \<Rightarrow> bytes \<Rightarrow> string \<Rightarrow> bool" where
  "signer_verify E data signature =
     (if signature = [] \<or> \<not> startswith signature sig_prefix then False
      else
        let sig_b64 = drop_prefix sig_prefix signature;
            pad = replicate ((4 - length sig_b64 mod 4) mod 4) (CHR ''='')
        in case urlsafe_b64decode (sig_b64 @ pad) of
             None \<Rightarrow> False
           | Some sig_bytes \<Rightarrow> ed25519_verify E (ed25519_pub E (signer_key E)) data sig_bytes)"

lemma signer_roundtrip: "sig_correct E \<Longrightarrow> signer_verify E data (signer_sign E data)"
  unfolding signer_verify_def signer_sign_def wire_sig_def Let_def
  using b64_roundtrip_exact [of "ed25519_sign E (signer_key E) data"]
  by (simp add: sig_correct_def sig_prefix_def startswith_def drop_prefix_def)

subsection \<open>Appending\<close>

record audit_append_result =
  ar_entry_id :: string
  ar_this_hash :: string
  ar_prev_hash :: "string option"

text \<open>\<open>x or ""\<close> for an optional string.\<close>

definition or_empty :: "string option \<Rightarrow> string" where
  "or_empty x = (case x of None \<Rightarrow> [] | Some s \<Rightarrow> s)"

text \<open>The dict whose canonical bytes are hashed and signed.\<close>

definition link_json ::
  "string \<Rightarrow> string \<Rightarrow> string \<Rightarrow> string \<Rightarrow> string option \<Rightarrow> string option \<Rightarrow> string option \<Rightarrow> json" where
  "link_json event_type actor_did ts payload_hash prev claim_id task_id =
     JDict [(''event_type'', JStr event_type), (''actor_did'', JStr actor_did),
            (''timestamp'', JStr ts), (''payload_hash'', JStr payload_hash),
            (''prev_hash'', JStr (or_empty prev)), (''claim_id'', JStr (or_empty claim_id)),
            (''task_id'', JStr (or_empty task_id))]"

text \<open>The entries of one claim, by timestamp.\<close>

definition claim_entries :: "string \<Rightarrow> wcp_audit list \<Rightarrow> wcp_audit list" where
  "claim_entries cid es =
     sort_key (\<lambda>e. utc_us (a_timestamp e)) (filter (\<lambda>e. a_claim_id e = Some cid) es)"

definition latest_hash_for_claim :: "db \<Rightarrow> string \<Rightarrow> string option" where
  "latest_hash_for_claim s cid =
     (case rev (claim_entries cid (audits s)) of [] \<Rightarrow> None | e # _ \<Rightarrow> Some (a_this_hash e))"

definition audit_append ::
  "env \<Rightarrow> string \<Rightarrow> string \<Rightarrow> json \<Rightarrow> string option \<Rightarrow> string option \<Rightarrow> datetime option \<Rightarrow>
   (db, audit_append_result) py" where
  "audit_append E event_type actor_did payload claim_id task_id timestamp =
     bindS (case timestamp of Some t \<Rightarrow> ret t | None \<Rightarrow> utcnow E) (\<lambda>ts.
     let ts_utc_naive = Naive (utc_us (as_utc ts));
         ts_canonical = isoformat E ts_utc_naive
     in
     bindS (gets (\<lambda>s. if or_empty claim_id \<noteq> [] then latest_hash_for_claim s (or_empty claim_id) else None))
       (\<lambda>prev_hash.
     let payload_hash = sha256_hex E (canon E payload);
         link_bytes = canon E (link_json event_type actor_did ts_canonical payload_hash prev_hash claim_id task_id);
         this_hash = sha256_hex E link_bytes
     in
     bindS (uuid_str E) (\<lambda>entry_id.
     bindS (add_audit
       \<lparr>a_entry_id = entry_id, a_claim_id = claim_id, a_task_id = task_id,
        a_event_type = event_type, a_timestamp = ts_utc_naive, a_actor_did = actor_did,
        a_payload_json = payload, a_payload_hash = payload_hash, a_prev_hash = prev_hash,
        a_this_hash = this_hash, a_sig = signer_sign E link_bytes\<rparr>) (\<lambda>_.
     ret \<lparr>ar_entry_id = entry_id, ar_this_hash = this_hash, ar_prev_hash = prev_hash\<rparr>))))"

subsection \<open>Verifying\<close>

definition entry_link :: "env \<Rightarrow> wcp_audit \<Rightarrow> json" where
  "entry_link E e =
     link_json (a_event_type e) (a_actor_did e) (isoformat E (Naive (utc_us (a_timestamp e))))
       (a_payload_hash e) (a_prev_hash e) (a_claim_id e) (a_task_id e)"

text \<open>
  Checks 3, 2 and 4 of the loop body, in the code's order: payload binding, link binding,
  signature. Check 1 (the entry names its predecessor) is the walk itself.
\<close>

definition entry_ok :: "env \<Rightarrow> wcp_audit \<Rightarrow> bool" where
  "entry_ok E e \<longleftrightarrow>
     sha256_hex E (canon E (a_payload_json e)) = a_payload_hash e \<and>
     sha256_hex E (canon E (entry_link E e)) = a_this_hash e \<and>
     signer_verify E (canon E (entry_link E e)) (a_sig e)"

definition verify_chain :: "env \<Rightarrow> db \<Rightarrow> string \<Rightarrow> bool" where
  "verify_chain E s cid =
     chain_from a_prev_hash a_this_hash (entry_ok E) None (claim_entries cid (audits s))"

definition link_prev_of :: "json \<Rightarrow> json" where
  "link_prev_of j = (case j of JDict d \<Rightarrow> (case map_of d ''prev_hash'' of Some v \<Rightarrow> v | None \<Rightarrow> JNull) | _ \<Rightarrow> JNull)"

lemma link_prev_of_entry: "link_prev_of (entry_link E e) = JStr (or_empty (a_prev_hash e))"
  by (simp add: link_prev_of_def entry_link_def link_json_def)

interpretation audit: hash_chain a_prev_hash a_this_hash "entry_ok E" "entry_link E"
  "\<lambda>j. sha256_hex E (canon E j)" link_prev_of "\<lambda>p. JStr (or_empty p)" for E
  by unfold_locales (auto simp: entry_ok_def link_prev_of_entry or_empty_def)

subsection \<open>The link determines the entry\<close>

text \<open>
  Two link dicts with the same canonical bytes are the same dict: the keys are the same
  seven, so sorting permutes both alike.
\<close>

lemma link_json_shape:
  "sort_json (link_json et ac ts ph pv ci ti) =
     JDict [(''actor_did'', JStr ac), (''claim_id'', JStr (or_empty ci)), (''event_type'', JStr et),
            (''payload_hash'', JStr ph), (''prev_hash'', JStr (or_empty pv)),
            (''task_id'', JStr (or_empty ti)), (''timestamp'', JStr ts)]"
  by (simp add: link_json_def)

lemma link_canonical_inject:
  assumes "float_repr_ok (float_repr E)"
    and "canon E (link_json et ac ts ph pv ci ti) = canon E (link_json et' ac' ts' ph' pv' ci' ti')"
  shows "et = et' \<and> ac = ac' \<and> ts = ts' \<and> ph = ph' \<and> or_empty pv = or_empty pv' \<and>
    or_empty ci = or_empty ci' \<and> or_empty ti = or_empty ti'"
  using assms by (simp add: canonical_json_eq link_json_shape)

lemma entry_link_canonical:
  assumes "float_repr_ok (float_repr E)"
  shows "canon E (entry_link E x) = canon E (entry_link E y) \<longleftrightarrow> entry_link E x = entry_link E y"
proof
  assume "canon E (entry_link E x) = canon E (entry_link E y)"
  from link_canonical_inject [OF assms this [unfolded entry_link_def]]
  show "entry_link E x = entry_link E y"
    by (simp add: entry_link_def link_json_def)
qed simp

subsection \<open>What every append keeps\<close>

text \<open>
  The invariant of the log: timestamps strictly increase in insertion order and lie before
  the next reading of the clock, and the entries of every claim form a chain that verifies
  from the empty predecessor.
\<close>

definition audit_inv :: "env \<Rightarrow> db \<Rightarrow> bool" where
  "audit_inv E s \<longleftrightarrow>
     sorted_wrt (<) (map (\<lambda>e. utc_us (a_timestamp e)) (audits s)) \<and>
     (\<forall>e \<in> set (audits s). utc_us (a_timestamp e) < clock E (n_now s)) \<and>
     (\<forall>cid. cid \<noteq> [] \<longrightarrow>
        chain_from a_prev_hash a_this_hash (entry_ok E) None
          (filter (\<lambda>e. a_claim_id e = Some cid) (audits s)))"

lemma audit_inv_cong: "audits s = audits t \<Longrightarrow> n_now s = n_now t \<Longrightarrow> audit_inv E s = audit_inv E t"
  by (simp add: audit_inv_def)

lemma audit_inv_tick:
  assumes "strict_mono (clock E)" "audit_inv E s" "audits t = audits s" "n_now s \<le> n_now t"
  shows "audit_inv E t"
proof -
  from assms(1,4) have "clock E (n_now s) \<le> clock E (n_now t)"
    by (simp add: strict_mono_less_eq)
  with assms(2,3) show ?thesis by (force simp: audit_inv_def)
qed

lemma sorted_filter_ts:
  "sorted_wrt (<) (map f xs) \<Longrightarrow> sorted (map (f :: 'a \<Rightarrow> int) (filter P xs))"
  by (metis sorted_filter sorted_wrt_mono_rel strict_sorted_iff strict_sorted_imp_sorted)

lemma claim_entries_sorted:
  "sorted_wrt (<) (map (\<lambda>e. utc_us (a_timestamp e)) es) \<Longrightarrow>
     claim_entries cid es = filter (\<lambda>e. a_claim_id e = Some cid) es"
  unfolding claim_entries_def by (intro sorted_sort_id sort_key_id_if_sorted sorted_filter_ts)

lemma latest_hash_end:
  "sorted_wrt (<) (map (\<lambda>e. utc_us (a_timestamp e)) (audits s)) \<Longrightarrow>
     latest_hash_for_claim s cid =
       end_hash a_this_hash None (filter (\<lambda>e. a_claim_id e = Some cid) (audits s))"
  unfolding latest_hash_for_claim_def claim_entries_sorted
  by (cases "filter (\<lambda>e. a_claim_id e = Some cid) (audits s)" rule: rev_cases)
    (simp_all add: claim_entries_sorted)

lemma verify_chain_inv: "audit_inv E s \<Longrightarrow> cid \<noteq> [] \<Longrightarrow> verify_chain E s cid"
  by (simp add: audit_inv_def verify_chain_def claim_entries_sorted)

text \<open>The entry an append makes, given the instant and the UUID it drew.\<close>

definition new_entry ::
  "env \<Rightarrow> string \<Rightarrow> string \<Rightarrow> json \<Rightarrow> string option \<Rightarrow> string option \<Rightarrow> db \<Rightarrow> wcp_audit" where
  "new_entry E event_type actor_did payload claim_id task_id s =
     (let ts = Naive (clock E (n_now s));
          prev = (if or_empty claim_id \<noteq> [] then latest_hash_for_claim s (or_empty claim_id) else None);
          ph = sha256_hex E (canon E payload);
          lb = canon E (link_json event_type actor_did (isoformat E ts) ph prev claim_id task_id)
      in \<lparr>a_entry_id = uuid4 E (n_uuid s), a_claim_id = claim_id, a_task_id = task_id,
          a_event_type = event_type, a_timestamp = ts, a_actor_did = actor_did,
          a_payload_json = payload, a_payload_hash = ph, a_prev_hash = prev,
          a_this_hash = sha256_hex E lb, a_sig = signer_sign E lb\<rparr>)"

lemma audit_append_run:
  "audit_append E et ac pl ci ti None s =
     (let e = new_entry E et ac pl ci ti s;
          s' = s\<lparr>n_now := Suc (n_now s), n_uuid := Suc (n_uuid s)\<rparr>
      in if a_entry_id e \<in> a_entry_id ` set (audits s) then (Inl IntegrityError, s')
         else (Inr \<lparr>ar_entry_id = a_entry_id e, ar_this_hash = a_this_hash e, ar_prev_hash = a_prev_hash e\<rparr>,
               s'\<lparr>audits := audits s @ [e]\<rparr>))"
  by (simp add: audit_append_def new_entry_def Let_def bindS_def utcnow_def uuid_str_def add_audit_def
      row_add_def latest_hash_for_claim_def)

lemma new_entry_ok: "sig_correct E \<Longrightarrow> entry_ok E (new_entry E et ac pl ci ti s)"
  by (simp add: entry_ok_def new_entry_def Let_def entry_link_def signer_roundtrip)

lemma new_entry_fields [simp]:
  "a_claim_id (new_entry E et ac pl ci ti s) = ci"
  "a_task_id (new_entry E et ac pl ci ti s) = ti"
  "a_event_type (new_entry E et ac pl ci ti s) = et"
  "a_actor_did (new_entry E et ac pl ci ti s) = ac"
  "a_payload_json (new_entry E et ac pl ci ti s) = pl"
  "a_timestamp (new_entry E et ac pl ci ti s) = Naive (clock E (n_now s))"
  "a_entry_id (new_entry E et ac pl ci ti s) = uuid4 E (n_uuid s)"
  by (simp_all add: new_entry_def Let_def)

lemma audit_inv_snoc:
  assumes mono: "strict_mono (clock E)" and sig: "sig_correct E" and inv: "audit_inv E s"
    and t: "audits t = audits s @ [new_entry E et ac pl ci ti s]" "n_now s < n_now t"
  shows "audit_inv E t"
proof -
  let ?e = "new_entry E et ac pl ci ti s"
  let ?f = "\<lambda>cid. filter (\<lambda>e. a_claim_id e = Some cid)"
  from inv have sorted: "sorted_wrt (<) (map (\<lambda>e. utc_us (a_timestamp e)) (audits s))"
    and before: "\<forall>e \<in> set (audits s). utc_us (a_timestamp e) < clock E (n_now s)"
    and chains: "\<And>cid. cid \<noteq> [] \<Longrightarrow> chain_from a_prev_hash a_this_hash (entry_ok E) None (?f cid (audits s))"
    by (auto simp: audit_inv_def)
  from mono t(2) have lt: "clock E (n_now s) < clock E (n_now t)"
    by (simp add: strict_mono_less)
  have "sorted_wrt (<) (map (\<lambda>e. utc_us (a_timestamp e)) (audits t))"
    using sorted before t(1) by (simp add: sorted_wrt_append)
  moreover have "\<forall>e \<in> set (audits t). utc_us (a_timestamp e) < clock E (n_now t)"
    using before lt t(1) by (auto intro: less_trans)
  moreover have "chain_from a_prev_hash a_this_hash (entry_ok E) None (?f cid (audits t))"
    if "cid \<noteq> []" for cid
  proof (cases "ci = Some cid")
    case True
    then have "a_prev_hash ?e = end_hash a_this_hash None (?f cid (audits s))"
      using that latest_hash_end [OF sorted] by (simp add: new_entry_def Let_def or_empty_def)
    with True t(1) chains [OF that] show ?thesis
      by (simp add: audit.verify_snoc new_entry_ok [OF sig])
  next
    case False
    with t(1) chains [OF that] show ?thesis by simp
  qed
  ultimately show ?thesis by (simp add: audit_inv_def)
qed

lemma keeps_audit_append [intro]:
  assumes "strict_mono (clock E)" "sig_correct E"
  shows "keeps (audit_inv E) (audit_append E et ac pl ci ti None)"
proof (rule keepsI)
  fix s assume inv: "audit_inv E s"
  have "audit_inv E (s\<lparr>n_now := Suc (n_now s), n_uuid := Suc (n_uuid s)\<rparr>)"
    by (rule audit_inv_tick [OF assms(1) inv]) auto
  moreover have "audit_inv E (s\<lparr>n_now := Suc (n_now s), n_uuid := Suc (n_uuid s),
      audits := audits s @ [new_entry E et ac pl ci ti s]\<rparr>)"
    by (rule audit_inv_snoc [OF assms inv]) auto
  ultimately show "audit_inv E (snd (audit_append E et ac pl ci ti None s))"
    by (simp add: audit_append_run Let_def)
qed

end
