(* ===== verification/Sample_Env.thy ===== *)
theory Sample_Env
  imports Wcp_Env
begin

text \<open>
  A concrete environment in which every hypothesis the theorems make about the environment
  holds at once: a clock that advances, UUIDs that differ, signatures that verify, a hash
  and a time format without collisions. It is what the examples run on; no definition of
  the program refers to it.
\<close>

definition sample_float :: "rat \<Rightarrow> string" where
  "sample_float r = show_int (fst (quotient_of r)) @ ''e'' @ show_int (snd (quotient_of r))"

text \<open>A time is written as its microseconds, after a letter that tells the two kinds apart.\<close>

fun sample_iso :: "datetime \<Rightarrow> string" where
  "sample_iso (Naive t) = ''n'' @ show_int t"
| "sample_iso (Aware t z) = ''a'' @ show_int t"

definition sample_read :: "string \<Rightarrow> datetime option" where
  "sample_read s =
     (case s of [] \<Rightarrow> None
      | c # r \<Rightarrow> (case read_int r of None \<Rightarrow> None
          | Some t \<Rightarrow> if c = CHR ''n'' then Some (Naive t)
                      else if c = CHR ''a'' then Some (Aware t 0) else None))"

definition sample_env :: env where
  "sample_env =
     \<lparr>sha256_hex = (\<lambda>b. b), ed25519_sign = (\<lambda>sk d. sk @ d), ed25519_pub = (\<lambda>sk. sk),
      ed25519_verify = (\<lambda>pk d sig. sig = pk @ d), signer_key = replicate 32 (CHR ''K''),
      clock = (\<lambda>n. 1000000 * int n), uuid4 = (\<lambda>n. CHR ''u'' # show_nat n),
      fromisoformat = sample_read, isoformat = sample_iso, float_repr = sample_float,
      float_fixed1 = sample_float\<rparr>"

lemma sample_simps [simp]:
  "sha256_hex sample_env b = b"
  "ed25519_sign sample_env sk d = sk @ d"
  "ed25519_pub sample_env sk = sk"
  "ed25519_verify sample_env pk d sig \<longleftrightarrow> sig = pk @ d"
  "signer_key sample_env = replicate 32 (CHR ''K'')"
  "clock sample_env n = 1000000 * int n"
  "uuid4 sample_env n = CHR ''u'' # show_nat n"
  "fromisoformat sample_env = sample_read"
  "isoformat sample_env = sample_iso"
  "float_repr sample_env = sample_float"
  "float_fixed1 sample_env = sample_float"
  by (simp_all add: sample_env_def)

lemma sample_sig_correct [simp]: "sig_correct sample_env"
  by (simp add: sig_correct_def)

lemma sample_clock [simp]: "strict_mono (clock sample_env)"
  by (simp add: strict_mono_def)

lemma sample_uuid [simp]: "inj (uuid4 sample_env)"
  by (simp add: inj_def)

lemma e_not_in_int: "CHR ''e'' \<notin> set (show_int i)"
  using show_nat_digits [of "CHR ''e''"] by (auto simp: show_int_def digit_char_def)

lemma sample_float_inj: "sample_float x = sample_float y \<Longrightarrow> x = y"
proof -
  assume "sample_float x = sample_float y"
  then have "show_int (fst (quotient_of x)) = show_int (fst (quotient_of y)) \<and>
      show_int (snd (quotient_of x)) = show_int (snd (quotient_of y))"
    by (simp add: sample_float_def append_Cons_eq_iff e_not_in_int)
  then have "quotient_of x = quotient_of y"
    by (simp add: prod_eq_iff)
  then show "x = y" by (rule quotient_of_inject)
qed

lemma sample_float_ok [simp]: "float_repr_ok sample_float"
proof -
  have "number_char c" if "c \<in> set (sample_float r)" for c r
    using that show_int_chars by (auto simp: sample_float_def number_char_def)
  moreover have "sample_float r \<noteq> show_int i" for r i
  proof
    assume "sample_float r = show_int i"
    then have "CHR ''e'' \<in> set (show_int i)"
      unfolding sample_float_def by (metis in_set_conv_decomp append_Cons append_Nil)
    then show False using e_not_in_int by blast
  qed
  moreover have "sample_float r \<noteq> []" for r
    by (simp add: sample_float_def)
  ultimately show ?thesis
    by (auto simp: float_repr_ok_def intro: injI sample_float_inj)
qed

text \<open>A signing key of the sample environment, its DID, and the wire form of its signatures.\<close>

definition sample_key :: "char \<Rightarrow> bytes" where
  "sample_key c = replicate 32 c"

lemma sample_key_length [simp]: "length (sample_key c) = 32"
  by (simp add: sample_key_def)

lemma replace_Z_id: "CHR ''Z'' \<notin> set s \<Longrightarrow> replace_Z s = s"
  by (induction s) (auto simp: replace_Z_def)

lemma sample_time: "parse_iso sample_env (sample_iso (Aware t z)) = Inr (Aware t 0)"
proof -
  have "CHR ''Z'' \<notin> set (show_int t)" using show_nat_digits digit_plain by (auto simp: show_int_def)
  then show ?thesis using replace_Z_id [of "sample_iso (Aware t z)"]
    by (simp add: parse_iso_def sample_read_def read_int_show)
qed

end
