(* ===== verification/Attestation_Verifier.thy ===== *)
theory Attestation_Verifier
  imports Wcp_Models Sample_Env
begin

text \<open>
  \<open>wcp_coordinator/attestation_verifier/\<close>: one verifier per attestation mode, the dispatch
  \<open>verify_single\<close> by mode and kind, and the aggregation \<open>evaluate_threshold\<close>. The
  contract of a per-mode verifier is the locale \<open>mode_verifier\<close>; it is interpreted on all
  four.

  Durations and thresholds are compared as exact rationals where the code compares
  floats.
\<close>

record outcome =
  vo_decision :: verifier_decision
  vo_residual :: "(string \<times> json) list"
  vo_reasons :: "string list"

definition pass_outcome :: outcome where
  "pass_outcome = \<lparr>vo_decision = PASS, vo_residual = [], vo_reasons = []\<rparr>"

definition fail_outcome :: "string list \<Rightarrow> outcome" where
  "fail_outcome rs = \<lparr>vo_decision = FAIL, vo_residual = [], vo_reasons = rs\<rparr>"

definition review_outcome :: "string list \<Rightarrow> outcome" where
  "review_outcome rs = \<lparr>vo_decision = REVIEW, vo_residual = [], vo_reasons = rs\<rparr>"

lemma outcome_simps [simp]:
  "vo_decision pass_outcome = PASS" "vo_reasons pass_outcome = []"
  "vo_decision (fail_outcome rs) = FAIL" "vo_reasons (fail_outcome rs) = rs"
  "vo_decision (review_outcome rs) = REVIEW" "vo_reasons (review_outcome rs) = rs"
  by (simp_all add: pass_outcome_def fail_outcome_def review_outcome_def)

text \<open>
  \<open>for r in fields: if r not in payload: return fail\<close>: the first field that is not there.
\<close>

fun first_missing :: "string list \<Rightarrow> json \<Rightarrow> string option res" where
  "first_missing [] p = Inr None"
| "first_missing (r # rs) p = bindE (py_in r p) (\<lambda>b. if b then first_missing rs p else Inr (Some r))"

text \<open>Fail on the first missing field, with the message the caller prefixes; else go on.\<close>

definition need_fields :: "string \<Rightarrow> string list \<Rightarrow> json \<Rightarrow> (unit \<Rightarrow> outcome res) \<Rightarrow> outcome res" where
  "need_fields msg rs p k =
     bindE (first_missing rs p) (\<lambda>m. case m of
       Some r \<Rightarrow> Inr (fail_outcome [msg @ r])
     | None \<Rightarrow> k ())"

subsection \<open>sensor-witness\<close>

fun check_track :: "json list \<Rightarrow> outcome res" where
  "check_track [] = Inr pass_outcome"
| "check_track (sample # rest) =
     (case sample of
        JDict _ \<Rightarrow>
          need_fields ''track sample missing field: '' [''t'', ''x'', ''y''] sample (\<lambda>_. check_track rest)
      | _ \<Rightarrow> Inr (fail_outcome [''track sample must be an object'']))"

fun is_number :: "json \<Rightarrow> bool" where
  "is_number (JBool _) = True"
| "is_number (JInt _) = True"
| "is_number (JFloat _) = True"
| "is_number _ = False"

definition sensor_witness :: "env \<Rightarrow> string \<Rightarrow> json \<Rightarrow> json \<Rightarrow> outcome res" where
  "sensor_witness E kind payload task_payload =
     (if kind \<in> {''gps_track'', ''indoor_pose_track''} then
        bindE (j_get payload ''track'' JNull) (\<lambda>track. case track of
          JList (x # xs) \<Rightarrow> check_track (x # xs)
        | _ \<Rightarrow> Inr (fail_outcome [''empty or missing track'']))
      else if kind = ''weight_delta'' then
        bindE (j_get payload ''before_kg'' JNull) (\<lambda>before.
        bindE (j_get payload ''after_kg'' JNull) (\<lambda>after.
          if before = JNull \<or> after = JNull then
            Inr (fail_outcome [''weight_delta requires before_kg and after_kg''])
          else if \<not> is_number before \<or> \<not> is_number after then
            Inr (fail_outcome [''before_kg and after_kg must be numeric''])
          else Inr pass_outcome))
      else if kind = ''photo_with_exif'' then
        bindE (j_get payload ''photo_hash'' JNull) (\<lambda>hash_hex.
        bindE (j_get payload ''exif'' JNull) (\<lambda>exif.
          if \<not> truthy hash_hex \<or> \<not> truthy exif then
            Inr (fail_outcome [''photo_with_exif requires photo_hash and exif''])
          else bindE (py_in ''datetime'' exif) (\<lambda>b.
            if \<not> b then Inr (review_outcome [''exif missing datetime'']) else Inr pass_outcome)))
      else if kind = ''signed_sensor_recording'' then
        bindE (py_in ''recording_hash'' payload) (\<lambda>a.
        bindE (if a then py_in ''duration_seconds'' payload else Inr False) (\<lambda>b.
          if b then Inr pass_outcome
          else Inr (fail_outcome
            [''signed_sensor_recording requires recording_hash and duration_seconds''])))
      else if kind \<in> {''coverage_map'', ''gps_stamped_checkpoint_coverage''} then
        bindE (py_in ''covered_polygon'' payload) (\<lambda>a.
        bindE (if a then Inr True else py_in ''checkpoints'' payload) (\<lambda>b.
          if b then Inr pass_outcome
          else Inr (fail_outcome [''coverage evidence requires covered_polygon or checkpoints''])))
      else Inr (fail_outcome [''sensor-witness verifier: unknown kind '' @ kind]))"

subsection \<open>third-party-witness\<close>

definition third_party_witness :: "env \<Rightarrow> string \<Rightarrow> json \<Rightarrow> json \<Rightarrow> outcome res" where
  "third_party_witness E kind payload task_payload =
     (if kind = ''customer_signature'' then
        need_fields ''customer_signature missing field: '' [''signed_text'', ''signature_image_hash'']
          payload (\<lambda>_.
          bindE (j_item payload ''signed_text'') (\<lambda>st.
          bindE (as_str st) (\<lambda>txt.
            if py_strip txt = [] then Inr (fail_outcome [''signed_text is empty''])
            else Inr pass_outcome)))
      else if kind = ''phone_app_attestation'' then
        need_fields ''phone_app_attestation missing field: ''
          [''attesting_app_did'', ''attestation_payload_hash''] payload (\<lambda>_. Inr pass_outcome)
      else if kind = ''iot_beacon_proximity'' then
        need_fields ''iot_beacon_proximity missing field: ''
          [''beacon_id'', ''rssi'', ''observed_at''] payload (\<lambda>_. Inr pass_outcome)
      else Inr (fail_outcome [''third-party-witness verifier: unknown kind '' @ kind]))"

subsection \<open>cryptographic-presence\<close>

text \<open>Catching \<open>ValueError\<close> only.\<close>

definition catch_value_error :: "'a res \<Rightarrow> (string \<Rightarrow> 'b res) \<Rightarrow> ('a \<Rightarrow> 'b res) \<Rightarrow> 'b res" where
  "catch_value_error m h k =
     (case m of Inl (ValueError msg) \<Rightarrow> h msg | Inl e \<Rightarrow> Inl e | Inr x \<Rightarrow> k x)"

text \<open>
  The conversion of an \<open>int\<close> to a float, which raises above the range of doubles.
\<close>

definition int_to_float :: "int \<Rightarrow> rat res" where
  "int_to_float i = (if \<bar>i\<bar> \<ge> 2 ^ 1024 - 2 ^ 970 then Inl OverflowError else Inr (of_int i))"

fun as_int :: "json \<Rightarrow> int option" where
  "as_int (JBool b) = Some (if b then 1 else 0)"
| "as_int (JInt i) = Some i"
| "as_int _ = None"

definition duration_check :: "env \<Rightarrow> datetime \<Rightarrow> datetime \<Rightarrow> json \<Rightarrow> outcome res" where
  "duration_check E t_in t_out required_minutes =
     (case as_int required_minutes of
        None \<Rightarrow> Inr pass_outcome
      | Some i \<Rightarrow>
          let actual_minutes = of_int (utc_us t_out - utc_us t_in) / 60000000 in
          bindE (int_to_float i) (\<lambda>req.
            if actual_minutes + 1 / 1000000 < req * 9 / 10 then
              Inr (review_outcome
                [''presence duration '' @ float_fixed1 E actual_minutes @ '' minutes '' @
                 ''is below 90% of required '' @ py_str (float_repr E) required_minutes])
            else Inr pass_outcome))"

definition cryptographic_presence :: "env \<Rightarrow> string \<Rightarrow> json \<Rightarrow> json \<Rightarrow> outcome res" where
  "cryptographic_presence E kind payload task_payload =
     (if kind \<in> {''pose_bounded_presence_proof'', ''geofence_check_in_out''} then
        need_fields (kind @ '' missing field: '') [''check_in_at'', ''check_out_at'', ''region'']
          payload (\<lambda>_.
          catch_value_error
            (bindE (j_item payload ''check_in_at'') (\<lambda>i.
             bindE (as_str i) (\<lambda>i_str.
             bindE (parse_iso E i_str) (\<lambda>t_in.
             bindE (j_item payload ''check_out_at'') (\<lambda>u.
             bindE (as_str u) (\<lambda>o_str.
             bindE (parse_iso E o_str) (\<lambda>t_out. Inr (t_in, t_out))))))))
            (\<lambda>msg. Inr (fail_outcome [''check_in/out timestamp parse: '' @ msg]))
            (\<lambda>(t_in, t_out).
              bindE (dt_le t_out t_in) (\<lambda>b.
                if b then Inr (fail_outcome [''check_out_at must be strictly after check_in_at''])
                else bindE (j_get task_payload ''duration_minutes'' JNull) (duration_check E t_in t_out))))
      else Inr (fail_outcome [''cryptographic-presence verifier: unknown kind '' @ kind]))"

subsection \<open>owner-sign-off\<close>

definition owner_signoff :: "env \<Rightarrow> string \<Rightarrow> json \<Rightarrow> json \<Rightarrow> outcome res" where
  "owner_signoff E kind payload task_payload =
     (if kind = ''whatsapp_business_signed_link'' then
        need_fields ''whatsapp_business_signed_link missing field: ''
          [''signing_party_did'', ''signed_token'', ''issued_at''] payload (\<lambda>_. Inr pass_outcome)
      else if kind = ''self_attestation_with_waiver'' then
        bindE (j_get task_payload ''self_attestation_explicitly_allowed'' JNull) (\<lambda>flag.
          if \<not> truthy flag then
            Inr (fail_outcome
              [''self_attestation_with_waiver requires explicit '' @
               ''self_attestation_explicitly_allowed flag in task_payload''])
          else need_fields ''self_attestation_with_waiver missing field: ''
            [''waiver_text'', ''signed_by_worker''] payload (\<lambda>_. Inr pass_outcome))
      else Inr (fail_outcome [''owner-sign-off verifier: unknown kind '' @ kind]))"

subsection \<open>Dispatch by mode and kind\<close>

fun mode_verify :: "attestation_mode \<Rightarrow> env \<Rightarrow> string \<Rightarrow> json \<Rightarrow> json \<Rightarrow> outcome res" where
  "mode_verify SENSOR_WITNESS = sensor_witness"
| "mode_verify THIRD_PARTY_WITNESS = third_party_witness"
| "mode_verify CRYPTOGRAPHIC_PRESENCE = cryptographic_presence"
| "mode_verify OWNER_SIGN_OFF = owner_signoff"

text \<open>The keys of \<open>_DISPATCH\<close> are the values of the modes; anything unhashable raises.\<close>

definition dispatch_mode :: "json \<Rightarrow> attestation_mode option res" where
  "dispatch_mode mode =
     (if \<not> hashable mode then Inl TypeError
      else Inr (case mode of
        JStr m \<Rightarrow> find (\<lambda>a. attestation_mode_value a = m)
          [SENSOR_WITNESS, THIRD_PARTY_WITNESS, CRYPTOGRAPHIC_PRESENCE, OWNER_SIGN_OFF]
      | _ \<Rightarrow> None))"

type_synonym registry = "(string \<times> string list) list"

text \<open>\<open>registry.get(mode, set())\<close> and membership of a value in a set of strings.\<close>

definition registry_get :: "registry \<Rightarrow> json \<Rightarrow> string list res" where
  "registry_get reg mode =
     (if \<not> hashable mode then Inl TypeError
      else Inr (case mode of JStr m \<Rightarrow> (case map_of reg m of Some ks \<Rightarrow> ks | None \<Rightarrow> []) | _ \<Rightarrow> []))"

definition kind_in :: "json \<Rightarrow> string list \<Rightarrow> bool res" where
  "kind_in kind ks =
     (if \<not> hashable kind then Inl TypeError
      else Inr (case kind of JStr k \<Rightarrow> k \<in> set ks | _ \<Rightarrow> False))"

definition verify_single ::
  "env \<Rightarrow> registry \<Rightarrow> json \<Rightarrow> json \<Rightarrow> json \<Rightarrow> json \<Rightarrow> outcome res" where
  "verify_single E reg mode kind payload task_payload =
     bindE (dispatch_mode mode) (\<lambda>d. case d of
       None \<Rightarrow> Inr (fail_outcome [''unknown mode: '' @ py_str (float_repr E) mode])
     | Some m \<Rightarrow>
         bindE (registry_get reg mode) (\<lambda>allowed_kinds.
         bindE (kind_in kind allowed_kinds) (\<lambda>known.
           if \<not> known then
             Inr (fail_outcome
               [''kind '' @ py_repr (float_repr E) kind @ '' not registered for mode '' @
                py_repr (float_repr E) mode])
           else mode_verify m E (str_of kind) payload task_payload)))"

definition DEFAULT_REGISTRY :: registry where
  "DEFAULT_REGISTRY =
     [(''sensor-witness'',
        [''gps_track'', ''indoor_pose_track'', ''manipulator_pose_track'', ''weight_delta'',
         ''photo_with_exif'', ''signed_sensor_recording'', ''coverage_map'',
         ''gps_stamped_checkpoint_coverage'', ''thermal_image_capture_manifest'']),
      (''third-party-witness'',
        [''customer_signature'', ''phone_app_attestation'', ''iot_beacon_proximity'',
         ''inspection_checklist_signed'']),
      (''cryptographic-presence'',
        [''pose_bounded_presence_proof'', ''geofence_check_in_out'', ''cryptographic_nonce_exchange'']),
      (''owner-sign-off'',
        [''self_attestation_with_waiver'', ''whatsapp_business_signed_link''])]"

subsection \<open>Aggregation\<close>

definition count_decision :: "verifier_decision \<Rightarrow> (json \<times> outcome) list \<Rightarrow> int" where
  "count_decision d outs = int (length (filter (\<lambda>p. vo_decision (snd p) = d) outs))"

definition all_reasons :: "(json \<times> outcome) list \<Rightarrow> string list" where
  "all_reasons outs = concat (map (\<lambda>p. vo_reasons (snd p)) outs)"

text \<open>\<open>{m for m, o in outcomes if o.decision == "pass"}\<close>\<close>

definition passing_modes :: "(json \<times> outcome) list \<Rightarrow> json list res" where
  "passing_modes outs = py_set (JList (map fst (filter (\<lambda>p. vo_decision (snd p) = PASS) outs)))"

definition threshold_any :: "(json \<times> outcome) list \<Rightarrow> outcome res" where
  "threshold_any outs =
     (if count_decision PASS outs \<ge> 1 then Inr pass_outcome
      else if count_decision REVIEW outs \<ge> 1 \<and> count_decision FAIL outs = 0 then
        Inr (review_outcome (all_reasons outs))
      else Inr (fail_outcome (all_reasons outs)))"

definition threshold_all :: "env \<Rightarrow> json \<Rightarrow> (json \<times> outcome) list \<Rightarrow> outcome res" where
  "threshold_all E requirement outs =
     bindE (j_get requirement ''modes'' JNull) (\<lambda>modes.
     bindE (py_set (py_or modes (JList []))) (\<lambda>required_modes.
     bindE (passing_modes outs) (\<lambda>passing.
       if required_modes \<noteq> [] \<and> set_sub required_modes passing \<and> count_decision FAIL outs = 0 then
         Inr pass_outcome
       else if count_decision FAIL outs > 0 \<or> set_diff required_modes passing \<noteq> [] then
         bindE (py_sorted (set_diff required_modes passing)) (\<lambda>missing.
           Inr (fail_outcome (all_reasons outs @
             (if missing \<noteq> [] then
                [''required mode(s) without passing evidence: '' @ py_repr (float_repr E) (JList missing)]
              else []))))
       else Inr (review_outcome (all_reasons outs)))))"

text \<open>\<open>int(requirement["M"])\<close> and \<open>N\<close>, with \<open>KeyError\<close>, \<open>ValueError\<close> and \<open>TypeError\<close> caught.\<close>

definition threshold_ints :: "json \<Rightarrow> (int \<times> int) res" where
  "threshold_ints requirement =
     bindE (bindE (j_item requirement ''M'') py_int) (\<lambda>m.
     bindE (bindE (j_item requirement ''N'') py_int) (\<lambda>n. Inr (m, n)))"

definition threshold_m_of_n :: "json \<Rightarrow> (json \<times> outcome) list \<Rightarrow> outcome res" where
  "threshold_m_of_n requirement outs =
     (case threshold_ints requirement of
        Inl _ \<Rightarrow> Inr (fail_outcome [''M-of-N threshold requires integer M and N''])
      | Inr (m, n) \<Rightarrow>
          if m > n then
            Inr (fail_outcome [''M > N ('' @ show_int m @ '' > '' @ show_int n @ '')''])
          else if count_decision PASS outs \<ge> m then Inr pass_outcome
          else if count_decision PASS outs + count_decision REVIEW outs \<ge> m \<and>
                  count_decision FAIL outs = 0 then
            Inr (review_outcome (all_reasons outs))
          else Inr (fail_outcome (all_reasons outs)))"

definition evaluate_threshold :: "env \<Rightarrow> json \<Rightarrow> (json \<times> outcome) list \<Rightarrow> outcome res" where
  "evaluate_threshold E requirement outs =
     bindE (j_get requirement ''threshold'' (JStr ''all'')) (\<lambda>threshold.
       if py_eq threshold (JStr ''any'') then threshold_any outs
       else if py_eq threshold (JStr ''all'') then threshold_all E requirement outs
       else if py_eq threshold (JStr ''M-of-N'') then threshold_m_of_n requirement outs
       else Inr (fail_outcome [''unknown threshold: '' @ py_str (float_repr E) threshold]))"


text \<open>What the code's \<open>except\<close> clause lists is all that can be raised there.\<close>

lemma threshold_ints_errors:
  "threshold_ints r = Inl e \<Longrightarrow> (\<exists>k. e = KeyError k) \<or> (\<exists>m. e = ValueError m) \<or> e = TypeError"
proof -
  have int: "py_int j = Inl x \<Longrightarrow> (\<exists>m. x = ValueError m) \<or> x = TypeError" for j x
    by (cases j) (auto simp: of_opt_def split: option.splits)
  have item: "j_item r k = Inl x \<Longrightarrow> (\<exists>k. x = KeyError k) \<or> x = TypeError" for k x
    by (cases r) (auto simp: of_opt_def split: option.splits)
  show "threshold_ints r = Inl e \<Longrightarrow> (\<exists>k. e = KeyError k) \<or> (\<exists>m. e = ValueError m) \<or> e = TypeError"
    by (auto simp: threshold_ints_def bindE_Inl dest!: int item)
qed

subsection \<open>The contract of a per-mode verifier\<close>

text \<open>
  A kind the verifier does not handle fails with one reason, and an outcome passes exactly
  when it gives no reason: a rejection is always explained, an acceptance never qualified.
\<close>

definition explains :: "outcome \<Rightarrow> bool" where
  "explains out \<longleftrightarrow> (vo_decision out = PASS \<longleftrightarrow> vo_reasons out = [])"

lemma explains_simps [simp]:
  "explains pass_outcome"
  "explains (fail_outcome rs) \<longleftrightarrow> rs \<noteq> []"
  "explains (review_outcome rs) \<longleftrightarrow> rs \<noteq> []"
  by (simp_all add: explains_def)

locale mode_verifier =
  fixes vf :: "string \<Rightarrow> json \<Rightarrow> json \<Rightarrow> outcome res"
    and handled :: "string list"
  assumes unhandled: "k \<notin> set handled \<Longrightarrow> \<exists>m. vf k p t = Inr (fail_outcome [m])"
    and explained: "vf k p t = Inr out \<Longrightarrow> explains out"
begin

lemma pass_handled: "vf k p t = Inr out \<Longrightarrow> vo_decision out = PASS \<Longrightarrow> k \<in> set handled"
  using unhandled [of k p t] by fastforce

lemma raise_handled: "vf k p t = Inl e \<Longrightarrow> k \<in> set handled"
  using unhandled [of k p t] by fastforce

end

lemma need_fields_explained: "returns explains (f ()) \<Longrightarrow> returns explains (need_fields msg rs p f)"
  unfolding need_fields_def by (rule returns_bindE) (simp split: option.splits)

lemma catch_explained:
  "(\<And>m. returns Q (h m)) \<Longrightarrow> (\<And>x. returns Q (k x)) \<Longrightarrow> returns Q (catch_value_error m h k)"
  by (auto simp: catch_value_error_def split: sum.splits py_exc.splits)

lemma check_track_explained: "returns explains (check_track xs)"
proof (induction xs)
  case (Cons x xs)
  then show ?case by (cases x) (simp_all add: need_fields_explained)
qed simp

lemma duration_check_explained: "returns explains (duration_check E a b j)"
  by (auto simp: duration_check_def Let_def intro!: returns_bindE split: option.splits)

lemma track_case_explained:
  "returns explains (case j of JList (x # xs) \<Rightarrow> check_track (x # xs) | _ \<Rightarrow> Inr (fail_outcome [m]))"
  by (simp add: check_track_explained split: json.splits list.splits del: check_track.simps)

lemma pair_case_explained: "(\<And>a b. returns Q (f a b)) \<Longrightarrow> returns Q (case p of (a, b) \<Rightarrow> f a b)"
  by (cases p) simp

lemmas explained_rules =
  returns_if track_case_explained pair_case_explained returns_bindE need_fields_explained catch_explained check_track_explained duration_check_explained

interpretation sensor: mode_verifier "sensor_witness E"
  "[''gps_track'', ''indoor_pose_track'', ''weight_delta'', ''photo_with_exif'',
    ''signed_sensor_recording'', ''coverage_map'', ''gps_stamped_checkpoint_coverage'']" for E
proof
  fix k p t
  have "returns explains (sensor_witness E k p t)"
    unfolding sensor_witness_def
    by (intro explained_rules) simp_all
  then show "sensor_witness E k p t = Inr out \<Longrightarrow> explains out" for out
    by (rule returnsD)
qed (auto simp: sensor_witness_def)

interpretation third_party: mode_verifier "third_party_witness E"
  "[''customer_signature'', ''phone_app_attestation'', ''iot_beacon_proximity'']" for E
proof
  fix k p t
  have "returns explains (third_party_witness E k p t)"
    unfolding third_party_witness_def by (intro explained_rules) simp_all
  then show "third_party_witness E k p t = Inr out \<Longrightarrow> explains out" for out
    by (rule returnsD)
qed (auto simp: third_party_witness_def)

interpretation presence: mode_verifier "cryptographic_presence E"
  "[''pose_bounded_presence_proof'', ''geofence_check_in_out'']" for E
proof
  fix k p t
  have "returns explains (cryptographic_presence E k p t)"
    unfolding cryptographic_presence_def by (intro explained_rules) simp_all
  then show "cryptographic_presence E k p t = Inr out \<Longrightarrow> explains out" for out
    by (rule returnsD)
qed (auto simp: cryptographic_presence_def)

interpretation signoff: mode_verifier "owner_signoff E"
  "[''whatsapp_business_signed_link'', ''self_attestation_with_waiver'']" for E
proof
  fix k p t
  have "returns explains (owner_signoff E k p t)"
    unfolding owner_signoff_def by (intro explained_rules) simp_all
  then show "owner_signoff E k p t = Inr out \<Longrightarrow> explains out" for out
    by (rule returnsD)
qed (auto simp: owner_signoff_def)

subsection \<open>One piece of evidence\<close>

text \<open>The kinds a mode's verifier has a branch for.\<close>

fun handled_kinds :: "attestation_mode \<Rightarrow> string list" where
  "handled_kinds SENSOR_WITNESS =
     [''gps_track'', ''indoor_pose_track'', ''weight_delta'', ''photo_with_exif'',
      ''signed_sensor_recording'', ''coverage_map'', ''gps_stamped_checkpoint_coverage'']"
| "handled_kinds THIRD_PARTY_WITNESS =
     [''customer_signature'', ''phone_app_attestation'', ''iot_beacon_proximity'']"
| "handled_kinds CRYPTOGRAPHIC_PRESENCE = [''pose_bounded_presence_proof'', ''geofence_check_in_out'']"
| "handled_kinds OWNER_SIGN_OFF = [''whatsapp_business_signed_link'', ''self_attestation_with_waiver'']"

definition all_modes :: "attestation_mode list" where
  "all_modes = [SENSOR_WITNESS, THIRD_PARTY_WITNESS, CRYPTOGRAPHIC_PRESENCE, OWNER_SIGN_OFF]"

text \<open>The kinds a registry admits for a mode whose verifier has no branch for them.\<close>

definition unhandled_kinds :: "registry \<Rightarrow> (attestation_mode \<times> string) list" where
  "unhandled_kinds reg =
     concat (map (\<lambda>m. map (\<lambda>k. (m, k))
       (filter (\<lambda>k. k \<notin> set (handled_kinds m))
         (case map_of reg (attestation_mode_value m) of Some ks \<Rightarrow> ks | None \<Rightarrow> []))) all_modes)"

text \<open>So every mode's verifier meets the contract.\<close>

interpretation modes: mode_verifier "mode_verify m E" "handled_kinds m" for m E
  by (cases m; simp; unfold_locales)

lemma dispatch_mode_Some: "dispatch_mode j = Inr (Some m) \<Longrightarrow> j = JStr (attestation_mode_value m)"
  by (auto simp: dispatch_mode_def find_Some_iff split: if_splits json.splits)

lemma dispatch_mode_value [simp]: "dispatch_mode (JStr (attestation_mode_value m)) = Inr (Some m)"
  by (cases m) (simp_all add: dispatch_mode_def)

lemma kind_in_True: "kind_in j ks = Inr True \<Longrightarrow> j = JStr (str_of j) \<and> str_of j \<in> set ks"
  by (auto simp: kind_in_def split: if_splits json.splits)

lemma verify_single_explained: "returns explains (verify_single E reg mode kind payload task_payload)"
proof -
  have "returns explains (mode_verify m E k payload task_payload)" for m k
    by (auto simp: returns_def dest: modes.explained)
  then show ?thesis
    unfolding verify_single_def
    by (intro returns_bindE) (auto split: option.splits intro!: returns_bindE)
qed

lemma verify_single_pass:
  assumes "verify_single E reg mode kind payload task_payload = Inr out" "vo_decision out = PASS"
  shows "\<exists>m k ks. mode = JStr (attestation_mode_value m) \<and> kind = JStr k \<and>
    map_of reg (attestation_mode_value m) = Some ks \<and> k \<in> set ks \<and> k \<in> set (handled_kinds m)"
proof -
  from assms obtain m ks where m: "dispatch_mode mode = Inr (Some m)" and ks: "registry_get reg mode = Inr ks"
    and k: "kind_in kind ks = Inr True" and run: "mode_verify m E (str_of kind) payload task_payload = Inr out"
    by (auto simp: verify_single_def split: option.splits if_splits)
  from dispatch_mode_Some [OF m] have mode: "mode = JStr (attestation_mode_value m)" .
  from kind_in_True [OF k] have kind: "kind = JStr (str_of kind)" "str_of kind \<in> set ks" by auto
  from modes.pass_handled [OF run assms(2)] have "str_of kind \<in> set (handled_kinds m)" .
  moreover from ks mode kind(2) have "map_of reg (attestation_mode_value m) = Some ks"
    by (auto simp: registry_get_def split: option.splits)
  ultimately show ?thesis using mode kind by blast
qed

subsection \<open>Better evidence\<close>

definition no_worse :: "(json \<times> outcome) list \<Rightarrow> (json \<times> outcome) list \<Rightarrow> bool" where
  "no_worse outs outs' \<longleftrightarrow>
     list_all2 (\<lambda>p q. fst p = fst q \<and> vo_decision (snd p) \<le> vo_decision (snd q)) outs outs'"

lemma decision_le [simp]:
  "FAIL \<le> d" "d \<le> PASS" "PASS \<le> d \<longleftrightarrow> d = PASS" "d \<le> FAIL \<longleftrightarrow> d = FAIL"
  "REVIEW \<le> d \<longleftrightarrow> d \<noteq> FAIL"
  by (cases d; simp add: less_eq_verifier_decision_def)+

lemma count_nonneg: "0 \<le> count_decision d outs"
  by (simp add: count_decision_def)

lemma count_total:
  "count_decision PASS outs + count_decision REVIEW outs + count_decision FAIL outs = int (length outs)"
proof (induction outs)
  case (Cons p outs)
  then show ?case by (cases "vo_decision (snd p)") (auto simp: count_decision_def)
qed (simp add: count_decision_def)

lemma count_zero: "count_decision d outs = 0 \<longleftrightarrow> (\<forall>p \<in> set outs. vo_decision (snd p) \<noteq> d)"
  by (auto simp: count_decision_def filter_empty_conv)

lemma count_pos: "1 \<le> count_decision d outs \<longleftrightarrow> (\<exists>p \<in> set outs. vo_decision (snd p) = d)"
proof -
  have "1 \<le> count_decision d outs \<longleftrightarrow> count_decision d outs \<noteq> 0"
    using count_nonneg [of d outs] by linarith
  then show ?thesis by (auto simp: count_zero)
qed

lemma no_worse_counts:
  "no_worse outs outs' \<Longrightarrow>
     count_decision PASS outs \<le> count_decision PASS outs' \<and>
     count_decision FAIL outs' \<le> count_decision FAIL outs \<and> length outs = length outs'"
  unfolding no_worse_def
proof (induction rule: list_all2_induct)
  case (Cons p ps q qs)
  then show ?case
    by (cases "vo_decision (snd p)"; cases "vo_decision (snd q)") (auto simp: count_decision_def)
qed (simp add: count_decision_def)

lemma no_worse_pass:
  "no_worse outs outs' \<Longrightarrow>
     set (map fst (filter (\<lambda>p. vo_decision (snd p) = PASS) outs)) \<subseteq>
     set (map fst (filter (\<lambda>p. vo_decision (snd p) = PASS) outs'))"
  unfolding no_worse_def
proof (induction rule: list_all2_induct)
  case (Cons p ps q qs)
  then show ?case by (auto; metis fst_conv)
qed simp

lemma passing_modes_mono:
  assumes "no_worse outs outs'" "passing_modes outs = Inr ms" "passing_modes outs' = Inr ms'" "set_sub rs ms"
  shows "set_sub rs ms'"
proof -
  have eq: "eq_in x m \<longleftrightarrow> eq_in x (map fst (filter (\<lambda>p. vo_decision (snd p) = PASS) os))"
    if "passing_modes os = Inr m" for x os m
    using that by (auto simp: passing_modes_def py_set_def eq_in_dedup split: if_splits)
  have "eq_in x ms'" if "eq_in x ms" for x
    using that no_worse_pass [OF assms(1)] unfolding eq [OF assms(2)] eq [OF assms(3)]
    by (meson eq_in_iff subsetD)
  with assms(4) show ?thesis by (simp add: set_sub_def list_all_iff)
qed

lemma threshold_any_mono:
  assumes "no_worse outs outs'" "threshold_any outs = Inr a" "threshold_any outs' = Inr b"
  shows "vo_decision a \<le> vo_decision b"
  using assms(2,3) no_worse_counts [OF assms(1)] count_total [of outs] count_total [of outs']
    count_nonneg [of FAIL outs'] count_nonneg [of PASS outs]
  by (auto simp: threshold_any_def split: if_splits)

lemma threshold_m_of_n_mono:
  assumes "no_worse outs outs'" "threshold_m_of_n r outs = Inr a" "threshold_m_of_n r outs' = Inr b"
  shows "vo_decision a \<le> vo_decision b"
  using assms(2,3) no_worse_counts [OF assms(1)] count_total [of outs] count_total [of outs']
    count_nonneg [of FAIL outs'] count_nonneg [of FAIL outs]
  by (auto simp: threshold_m_of_n_def split: if_splits sum.splits prod.splits)

lemma threshold_all_mono:
  assumes "no_worse outs outs'" "threshold_all E r outs = Inr a" "threshold_all E r outs' = Inr b"
  shows "vo_decision a \<le> vo_decision b"
proof -
  from assms(2) obtain mo rs ms where run: "j_get r ''modes'' JNull = Inr mo"
      "py_set (py_or mo (JList [])) = Inr rs" "passing_modes outs = Inr ms"
    by (auto simp: threshold_all_def)
  from assms(3) run obtain ms' where ms': "passing_modes outs' = Inr ms'"
    by (auto simp: threshold_all_def)
  have sub: "set_sub rs ms \<Longrightarrow> set_sub rs ms'"
    using passing_modes_mono [OF assms(1) run(3) ms'] .
  show ?thesis
    using assms(2,3) run ms' sub no_worse_counts [OF assms(1)] count_nonneg [of FAIL outs']
    by (auto simp: threshold_all_def set_sub_diff split: if_splits)
qed

lemma evaluate_threshold_split:
  assumes "evaluate_threshold E r outs = Inr a"
  obtains t where "j_get r ''threshold'' (JStr ''all'') = Inr t"
    "py_eq t (JStr ''any'')" "threshold_any outs = Inr a"
  | t where "j_get r ''threshold'' (JStr ''all'') = Inr t"
    "\<not> py_eq t (JStr ''any'')" "py_eq t (JStr ''all'')" "threshold_all E r outs = Inr a"
  | t where "j_get r ''threshold'' (JStr ''all'') = Inr t"
    "\<not> py_eq t (JStr ''any'')" "\<not> py_eq t (JStr ''all'')" "py_eq t (JStr ''M-of-N'')"
    "threshold_m_of_n r outs = Inr a"
  | t where "j_get r ''threshold'' (JStr ''all'') = Inr t"
    "\<not> py_eq t (JStr ''any'')" "\<not> py_eq t (JStr ''all'')" "\<not> py_eq t (JStr ''M-of-N'')"
    "vo_decision a = FAIL"
proof -
  from assms obtain t where "j_get r ''threshold'' (JStr ''all'') = Inr t"
    unfolding evaluate_threshold_def by (simp only: bindE_Inr) blast
  with assms show ?thesis
    unfolding evaluate_threshold_def
    by (cases "py_eq t (JStr ''any'')"; cases "py_eq t (JStr ''all'')";
        cases "py_eq t (JStr ''M-of-N'')") (auto intro: that)
qed

text \<open>What an aggregate that passes rests on.\<close>

lemma threshold_all_pass:
  assumes "threshold_all E r outs = Inr a" "vo_decision a = PASS"
  obtains modes req ps where "j_get r ''modes'' JNull = Inr modes" "py_set (py_or modes (JList [])) = Inr req"
    "passing_modes outs = Inr ps" "req \<noteq> []" "set_sub req ps"
proof -
  from assms(1) obtain modes req ps where get: "j_get r ''modes'' JNull = Inr modes"
      "py_set (py_or modes (JList [])) = Inr req" "passing_modes outs = Inr ps"
    unfolding threshold_all_def by (simp only: bindE_Inr) blast
  have "req \<noteq> [] \<and> set_sub req ps \<and> count_decision FAIL outs = 0"
  proof (rule ccontr)
    assume n: "\<not> (req \<noteq> [] \<and> set_sub req ps \<and> count_decision FAIL outs = 0)"
    have "vo_decision a \<noteq> PASS"
      using assms(1) unfolding threshold_all_def get bindE_simps if_not_P [OF n] by (auto split: if_splits)
    with assms(2) show False by simp
  qed
  with get that show ?thesis by blast
qed

lemma pass_needs_piece:
  assumes "evaluate_threshold E r outs = Inr a" "vo_decision a = PASS"
    and "\<And>m n. threshold_ints r = Inr (m, n) \<Longrightarrow> 1 \<le> m"
  shows "\<exists>p \<in> set outs. vo_decision (snd p) = PASS"
  using assms(1)
proof (cases rule: evaluate_threshold_split)
  case (1 t)
  with assms(2) show ?thesis by (auto simp: threshold_any_def count_pos split: if_splits)
next
  case (2 t)
  from threshold_all_pass [OF 2(4) assms(2)] obtain req ps where ps: "passing_modes outs = Inr ps"
    "req \<noteq> []" "set_sub req ps" by metis
  then have "ps \<noteq> []" by (cases req) (auto simp: set_sub_def)
  with ps(1) have "filter (\<lambda>p. vo_decision (snd p) = PASS) outs \<noteq> []"
    by (auto simp: passing_modes_def py_set_def split: if_splits)
  then show ?thesis by (auto simp: filter_empty_conv)
next
  case (3 t)
  with assms(2,3) show ?thesis
    by (fastforce simp: threshold_m_of_n_def count_pos [symmetric] split: sum.splits if_splits prod.splits)
next
  case (4 t)
  with assms(2) show ?thesis by simp
qed

lemma pass_covers_modes:
  assumes "evaluate_threshold E (JDict r) outs = Inr a" "vo_decision a = PASS"
    and "j_get (JDict r) ''threshold'' (JStr ''all'') = Inr (JStr ''all'')" "map_of r ''modes'' = Some (JList (map JStr ms))"
    and "m \<in> set ms"
  shows "\<exists>p \<in> set outs. vo_decision (snd p) = PASS \<and> fst p = JStr m"
proof -
  let ?pm = "map fst (filter (\<lambda>p. vo_decision (snd p) = PASS) outs)"
  have "threshold_all E (JDict r) outs = Inr a"
    using assms(1,3) by (simp add: evaluate_threshold_def)
  from threshold_all_pass [OF this assms(2)] obtain modes req ps where get: "j_get (JDict r) ''modes'' JNull = Inr modes"
      "py_set (py_or modes (JList [])) = Inr req" and ps: "passing_modes outs = Inr ps" and "set_sub req ps"
    by metis
  moreover have "modes = JList (map JStr ms)" using get(1) assms(4) by simp
  with get(2) have "req = dedup_eq [] (map JStr ms)"
    by (cases ms) (auto simp: py_or_def py_set_def list_all_iff)
  ultimately have sub: "set_sub (dedup_eq [] (map JStr ms)) ps" by simp
  from ps have "ps = dedup_eq [] ?pm" by (auto simp: passing_modes_def py_set_def split: if_splits)
  with sub have "set_sub (map JStr ms) ?pm" by (simp add: set_sub_eq_in eq_in_dedup)
  with assms(5) have "eq_in (JStr m) ?pm" by (auto simp: set_sub_def list_all_iff)
  moreover have "py_eq (JStr m) a \<Longrightarrow> a = JStr m" for a by (cases a) (simp_all add: py_eq_def)
  ultimately show ?thesis by (force simp: eq_in_iff)
qed

subsection \<open>Properties\<close>

text \<open>
  C11: Aggregation is monotone. If the same requirement is evaluated on two lists of outcomes
  for the same modes and every outcome of the second is at least as good (fail below review
  below pass), then the aggregate decision of the second is at least as good, for every
  threshold a requirement can name.
\<close>

theorem evaluate_threshold_mono:
  assumes "no_worse outs outs'"
    and "evaluate_threshold E r outs = Inr a" "evaluate_threshold E r outs' = Inr b"
  shows "vo_decision a \<le> vo_decision b"
  using assms(2)
proof (cases rule: evaluate_threshold_split)
  case (1 t)
  with assms show ?thesis by (auto simp: evaluate_threshold_def intro: threshold_any_mono)
next
  case (2 t)
  with assms show ?thesis by (auto simp: evaluate_threshold_def intro: threshold_all_mono)
next
  case (3 t)
  with assms show ?thesis by (auto simp: evaluate_threshold_def intro: threshold_m_of_n_mono)
next
  case (4 t)
  then show ?thesis by simp
qed

theorem evaluate_threshold_mono_witness:
  "\<exists>a b. evaluate_threshold sample_env (JDict [(''threshold'', JStr ''any'')])
        [(JStr ''sensor-witness'', review_outcome [''r''])] = Inr a \<and>
      evaluate_threshold sample_env (JDict [(''threshold'', JStr ''any'')])
        [(JStr ''sensor-witness'', pass_outcome)] = Inr b \<and> vo_decision a \<le> vo_decision b"
proof (intro exI conjI)
  let ?r = "JDict [(''threshold'', JStr ''any'')]"
  let ?x = "[(JStr ''sensor-witness'', review_outcome [''r''])]" and ?y = "[(JStr ''sensor-witness'', pass_outcome)]"
  show a: "evaluate_threshold sample_env ?r ?x = Inr (review_outcome [''r''])"
    by (simp add: evaluate_threshold_def threshold_any_def count_decision_def all_reasons_def)
  show b: "evaluate_threshold sample_env ?r ?y = Inr pass_outcome"
    by (simp add: evaluate_threshold_def threshold_any_def count_decision_def)
  have "no_worse ?x ?y" by (simp add: no_worse_def)
  from evaluate_threshold_mono [OF this a b]
  show "vo_decision (review_outcome [''r'']) \<le> vo_decision pass_outcome" .
qed

text \<open>
  C12: Under the threshold \<open>all\<close>, with a requirement naming modes and outcomes for modes given as
  strings, the aggregate passes exactly when the requirement names at least one mode, every
  required mode has a passing piece of evidence, and no submitted piece failed. It always
  returns: no submission makes the aggregation raise.
\<close>

theorem threshold_all_spec:
  assumes "map_of r ''threshold'' = Some (JStr ''all'')" "map_of r ''modes'' = Some (JList (map JStr ms))"
    and "outs = map (\<lambda>(m, out). (JStr m, out)) os"
  shows "\<exists>a. evaluate_threshold E (JDict r) outs = Inr a \<and>
    (vo_decision a = PASS \<longleftrightarrow>
       ms \<noteq> [] \<and> (\<forall>m \<in> set ms. \<exists>out. (m, out) \<in> set os \<and> vo_decision out = PASS) \<and>
       (\<forall>(m, out) \<in> set os. vo_decision out \<noteq> FAIL))"
proof -
  let ?pm = "map (JStr \<circ> fst) (filter (\<lambda>p. vo_decision (snd p) = PASS) os)"
  have req: "py_set (py_or (JList (map JStr ms)) (JList [])) = Inr (dedup_eq [] (map JStr ms))"
    by (auto simp: py_or_def py_set_def list_all_iff)
  have pass: "passing_modes outs = Inr (dedup_eq [] ?pm)"
    by (auto simp: passing_modes_def py_set_def assms(3) filter_map o_def list_all_iff split_def)
  have mem: "eq_in (JStr m) ?pm \<longleftrightarrow> (\<exists>out. (m, out) \<in> set os \<and> vo_decision out = PASS)" for m
    by (auto simp: eq_in_iff)
  have "set_sub (dedup_eq [] (map JStr ms)) (dedup_eq [] ?pm) \<longleftrightarrow> set_sub (map JStr ms) ?pm"
    by (simp add: set_sub_eq_in eq_in_dedup)
  also have "\<dots> \<longleftrightarrow> (\<forall>m \<in> set ms. \<exists>out. (m, out) \<in> set os \<and> vo_decision out = PASS)"
    by (simp add: set_sub_def list_all_iff mem)
  finally have sub: "set_sub (dedup_eq [] (map JStr ms)) (dedup_eq [] ?pm) \<longleftrightarrow>
      (\<forall>m \<in> set ms. \<exists>out. (m, out) \<in> set os \<and> vo_decision out = PASS)" .
  have empty: "dedup_eq [] (map JStr ms) = [] \<longleftrightarrow> ms = []"
    using eq_in_dedup [of "JStr (hd ms)" "[]" "map JStr ms"] by (cases ms) auto
  have strs: "\<forall>j \<in> set (dedup_eq [] (map JStr ms)). is_str j"
    using dedup_eq_subset [of "[]" "map JStr ms"] by auto
  have sorted: "\<exists>xs. py_sorted (set_diff (dedup_eq [] (map JStr ms)) ys) = Inr xs" for ys
    using strs by (auto simp: py_sorted_def set_diff_def list_all_iff)
  have fails: "count_decision FAIL outs = 0 \<longleftrightarrow> (\<forall>(m, out) \<in> set os. vo_decision out \<noteq> FAIL)"
    by (auto simp: count_zero assms(3))
  obtain xs where xs: "py_sorted (set_diff (dedup_eq [] (map JStr ms)) (dedup_eq [] ?pm)) = Inr xs"
    using sorted by blast
  show ?thesis
    using assms(1,2) req pass xs count_nonneg [of FAIL outs]
    by (auto simp: evaluate_threshold_def threshold_all_def fails [symmetric] sub [symmetric] empty)
qed

theorem threshold_all_spec_witness:
  "\<exists>a. evaluate_threshold sample_env
       (JDict [(''threshold'', JStr ''all''), (''modes'', JList (map JStr [''sensor-witness'', ''owner-sign-off'']))])
       (map (\<lambda>(m, out). (JStr m, out)) [(''sensor-witness'', pass_outcome)]) = Inr a \<and>
     vo_decision a \<noteq> PASS"
  using threshold_all_spec [of
      "[(''threshold'', JStr ''all''), (''modes'', JList (map JStr [''sensor-witness'', ''owner-sign-off'']))]"
      "[''sensor-witness'', ''owner-sign-off'']" _ "[(''sensor-witness'', pass_outcome)]" sample_env,
      OF _ _ refl]
  by auto

text \<open>
  Under the threshold \<open>M-of-N\<close> with integers \<open>M\<close> and \<open>N\<close>, the aggregate passes exactly when
  \<open>M\<close> is at most \<open>N\<close> and at least \<open>M\<close> of the submitted pieces pass, however many pieces are
  submitted and whatever \<open>N\<close> is beyond that bound; when it does not pass, it is sent to
  review exactly when no piece failed and the reviewed ones could still make up the number.
\<close>

theorem m_of_n_spec:
  assumes "map_of r ''threshold'' = Some (JStr ''M-of-N'')" "map_of r ''M'' = Some (JInt m)" "map_of r ''N'' = Some (JInt n)"
  shows "\<exists>a. evaluate_threshold E (JDict r) outs = Inr a \<and>
    (vo_decision a = PASS \<longleftrightarrow> m \<le> n \<and> m \<le> count_decision PASS outs) \<and>
    (vo_decision a = REVIEW \<longleftrightarrow> m \<le> n \<and> count_decision PASS outs < m \<and>
       count_decision FAIL outs = 0 \<and> m \<le> count_decision PASS outs + count_decision REVIEW outs)"
  using assms by (auto simp: evaluate_threshold_def threshold_m_of_n_def threshold_ints_def)

theorem m_of_n_spec_witness:
  "\<exists>a. evaluate_threshold sample_env
       (JDict [(''threshold'', JStr ''M-of-N''), (''M'', JInt 0), (''N'', JInt 2)]) [] = Inr a \<and>
     vo_decision a = PASS"
  using m_of_n_spec [of "[(''threshold'', JStr ''M-of-N''), (''M'', JInt 0), (''N'', JInt 2)]" 0 2 sample_env "[]"]
  by (auto simp: count_decision_def)

text \<open>
  A piece of evidence passes only if its mode is one of the four, its kind is registered for
  that mode and the mode's verifier has a branch for the kind; and the outcome of one piece
  gives a reason exactly when it does not pass.
\<close>

theorem verify_single_sound:
  assumes "verify_single E reg mode kind payload task_payload = Inr out"
  shows "(vo_decision out = PASS \<longleftrightarrow> vo_reasons out = []) \<and>
    (vo_decision out = PASS \<longrightarrow>
      (\<exists>m k ks. mode = JStr (attestation_mode_value m) \<and> kind = JStr k \<and>
        map_of reg (attestation_mode_value m) = Some ks \<and> k \<in> set ks \<and> k \<in> set (handled_kinds m)))"
  using verify_single_pass [OF assms] returnsD [OF verify_single_explained assms]
  by (simp add: explains_def)

lemma sample_weight_ok:
  "verify_single sample_env DEFAULT_REGISTRY (JStr ''sensor-witness'') (JStr ''weight_delta'')
     (JDict [(''before_kg'', JInt 4), (''after_kg'', JInt 3)]) (JDict []) = Inr pass_outcome"
  by (simp add: verify_single_def dispatch_mode_def registry_get_def kind_in_def DEFAULT_REGISTRY_def
      sensor_witness_def)

theorem verify_single_sound_witness:
  "vo_reasons pass_outcome = [] \<and>
   verify_single sample_env DEFAULT_REGISTRY (JStr ''sensor-witness'') (JStr ''weight_delta'')
     (JDict [(''before_kg'', JInt 4), (''after_kg'', JInt 3)]) (JDict []) = Inr pass_outcome"
  using verify_single_sound [OF sample_weight_ok] sample_weight_ok by simp

text \<open>
  C13: Of the kinds the default registry admits, exactly four have no branch in the verifier of their
  mode: manipulator_pose_track and thermal_image_capture_manifest (sensor-witness),
  inspection_checklist_signed (third-party-witness) and cryptographic_nonce_exchange
  (cryptographic-presence). Evidence of these kinds is rejected whatever its payload is.
\<close>

theorem unhandled_kinds_fail:
  "unhandled_kinds DEFAULT_REGISTRY =
     [(SENSOR_WITNESS, ''manipulator_pose_track''), (SENSOR_WITNESS, ''thermal_image_capture_manifest''),
      (THIRD_PARTY_WITNESS, ''inspection_checklist_signed''),
      (CRYPTOGRAPHIC_PRESENCE, ''cryptographic_nonce_exchange'')] \<and>
   (\<forall>(m, k) \<in> set (unhandled_kinds DEFAULT_REGISTRY). \<exists>msg.
      verify_single E DEFAULT_REGISTRY (JStr (attestation_mode_value m)) (JStr k) payload task_payload =
        Inr (fail_outcome [msg]))"
proof
  show ks: "unhandled_kinds DEFAULT_REGISTRY =
     [(SENSOR_WITNESS, ''manipulator_pose_track''), (SENSOR_WITNESS, ''thermal_image_capture_manifest''),
      (THIRD_PARTY_WITNESS, ''inspection_checklist_signed''),
      (CRYPTOGRAPHIC_PRESENCE, ''cryptographic_nonce_exchange'')]"
    by (simp add: unhandled_kinds_def all_modes_def DEFAULT_REGISTRY_def)
  show "\<forall>(m, k) \<in> set (unhandled_kinds DEFAULT_REGISTRY). \<exists>msg.
      verify_single E DEFAULT_REGISTRY (JStr (attestation_mode_value m)) (JStr k) payload task_payload =
        Inr (fail_outcome [msg])"
  proof clarify
    fix m k assume mk: "(m, k) \<in> set (unhandled_kinds DEFAULT_REGISTRY)"
    then obtain ks where reg: "map_of DEFAULT_REGISTRY (attestation_mode_value m) = Some ks" "k \<in> set ks"
      and no: "k \<notin> set (handled_kinds m)"
      by (cases "map_of DEFAULT_REGISTRY (attestation_mode_value m)") (auto simp: unhandled_kinds_def)
    from modes.unhandled [OF no] reg
    show "\<exists>msg. verify_single E DEFAULT_REGISTRY (JStr (attestation_mode_value m)) (JStr k) payload task_payload =
        Inr (fail_outcome [msg])"
      by (simp add: verify_single_def registry_get_def kind_in_def)
  qed
qed

theorem unhandled_kinds_fail_witness:
  "\<exists>msg. verify_single sample_env DEFAULT_REGISTRY (JStr ''sensor-witness'')
     (JStr ''manipulator_pose_track'') (JDict []) (JDict []) = Inr (fail_outcome [msg])"
proof -
  have "(SENSOR_WITNESS, ''manipulator_pose_track'') \<in> set (unhandled_kinds DEFAULT_REGISTRY)"
    by (simp add: unhandled_kinds_def all_modes_def DEFAULT_REGISTRY_def)
  with unhandled_kinds_fail [of sample_env "JDict []" "JDict []"] show ?thesis by fastforce
qed

end
