(* ===== verification/Capabilities_Service.thy ===== *)
theory Capabilities_Service
  imports Wcp_Models Sample_Env
begin

text \<open>
  \<open>wcp_coordinator/capabilities_service.py\<close>: publishing, reading and subscribing to worker
  capabilities, and the matching engine over the workers' required blocks.
\<close>

subsection \<open>Publishing and reading\<close>

text \<open>
  Resolving a DID at the service boundary: \<open>except DIDResolutionError\<close> becomes a \<open>ValueError\<close>
  whose message starts with the protocol's error name.
\<close>

definition resolve_or_value_error :: "string \<Rightarrow> string \<Rightarrow> resolved_did res" where
  "resolve_or_value_error pre did =
     (case did_resolve did of
        Inl exc \<Rightarrow> Inl (ValueError (pre @ exc_message exc))
      | Inr r \<Rightarrow> Inr r)"

definition capability_result :: "string \<Rightarrow> json \<Rightarrow> int \<Rightarrow> int \<Rightarrow> json" where
  "capability_result worker_id capabilities ttl_seconds revision =
     JDict [(''worker_id'', JStr worker_id), (''capabilities'', capabilities),
            (''ttl_seconds'', JInt ttl_seconds), (''revision'', JInt revision)]"

definition upsert_capabilities ::
  "env \<Rightarrow> string \<Rightarrow> json \<Rightarrow> string \<Rightarrow> int \<Rightarrow> (db, json) py" where
  "upsert_capabilities E worker_id capabilities principal_id ttl_seconds =
     bindS (lift (resolve_or_value_error ''DID_NOT_RESOLVED: '' worker_id)) (\<lambda>_.
     bindS (lift (j_get capabilities ''schema_version'' JNull)) (\<lambda>ver.
     bindS (lift (raise_if (\<not> eq_in ver [JStr ''wcp/0.1'', JStr ''wcp/0.2''])
       (ValueError (''INVALID_PARAMS: capabilities.schema_version must be '' @ ''wcp/0.1 or wcp/0.2''))))
       (\<lambda>_.
     bindS (lift (j_get capabilities ''class'' JNull)) (\<lambda>worker_class_str.
     bindS (lift (case worker_class_of E worker_class_str of
         Inl _ \<Rightarrow> Inl (ValueError
           (''INVALID_PARAMS: invalid worker class '' @ py_repr (float_repr E) worker_class_str))
       | Inr c \<Rightarrow> Inr c)) (\<lambda>worker_class.
     bindS (gets (\<lambda>s. get_worker s worker_id)) (\<lambda>existing.
       case existing of
         None \<Rightarrow>
           bindS (utcnow E) (\<lambda>as_of.
           bindS (utcnow E) (\<lambda>created.
           bindS (add_worker
             \<lparr>w_worker_id = worker_id, w_principal_id = principal_id,
              w_worker_class = worker_class, w_capabilities_json = capabilities,
              w_revision = 1, w_ttl_seconds = ttl_seconds, w_as_of = as_of, w_created_at = created\<rparr>) (\<lambda>_.
           ret (capability_result worker_id capabilities ttl_seconds 1))))
       | Some row \<Rightarrow>
           bindS (utcnow E) (\<lambda>as_of.
           bindS (set_worker worker_id (\<lambda>w. w\<lparr>w_capabilities_json := capabilities,
             w_principal_id := principal_id, w_worker_class := worker_class,
             w_ttl_seconds := ttl_seconds, w_revision := w_revision w + 1, w_as_of := as_of\<rparr>)) (\<lambda>_.
           ret (capability_result worker_id capabilities ttl_seconds (w_revision row + 1))))))))))"

definition list_capabilities :: "string \<Rightarrow> (db, json) py" where
  "list_capabilities worker_id =
     bindS (gets (\<lambda>s. get_worker s worker_id)) (\<lambda>row. case row of
       None \<Rightarrow> raise (ValueError (''DID_NOT_RESOLVED: worker '' @ repr_str worker_id @ '' unknown''))
     | Some w \<Rightarrow>
         ret (capability_result (w_worker_id w) (w_capabilities_json w) (w_ttl_seconds w) (w_revision w)))"

subsection \<open>Subscribing\<close>

definition create_subscription ::
  "env \<Rightarrow> string \<Rightarrow> json \<Rightarrow> int option \<Rightarrow> string \<Rightarrow> int \<Rightarrow> (db, json) py" where
  "create_subscription E agent_did filter_dict since_revision stream_endpoint_base ttl_seconds =
     bindS (lift (resolve_or_value_error ''DID_NOT_RESOLVED: '' agent_did)) (\<lambda>_.
     bindS (uuid_str E) (\<lambda>sub_id.
     let endpoint = stream_endpoint_base @ ''/'' @ sub_id in
     bindS (utcnow E) (\<lambda>created.
     bindS (add_subscription
       \<lparr>u_subscription_id = sub_id, u_agent_did = agent_did, u_filter_json = filter_dict,
        u_since_revision = since_revision, u_stream_endpoint = endpoint,
        u_ttl_seconds = ttl_seconds, u_created_at = created\<rparr>) (\<lambda>_.
     ret (JDict [(''subscription_id'', JStr sub_id), (''stream_endpoint'', JStr endpoint),
                 (''ttl_seconds'', JInt ttl_seconds)])))))"

subsection \<open>Matching\<close>

fun worker_class_name :: "worker_class \<Rightarrow> string" where
  "worker_class_name HUMAN = ''HUMAN''"
| "worker_class_name AUTONOMOUS_ROBOT = ''AUTONOMOUS_ROBOT''"
| "worker_class_name TELEOPERATED_ROBOT = ''TELEOPERATED_ROBOT''"
| "worker_class_name SEMI_AUTONOMOUS = ''SEMI_AUTONOMOUS''"
| "worker_class_name HYBRID = ''HYBRID''"

text \<open>
  \<open>WcpWorker.worker_class.in_(xs)\<close>: the column stores the member's name, and a bound string
  is looked up among the members (which equal their values, being strings) and their
  names. Only a list of strings can be bound.
\<close>

definition bind_classes :: "json \<Rightarrow> string list res" where
  "bind_classes xs =
     (case xs of
        JList ys \<Rightarrow> if list_all is_str ys then Inr (map str_of ys) else Inl StatementError
      | _ \<Rightarrow> Inl StatementError)"

definition class_in :: "string list \<Rightarrow> worker_class \<Rightarrow> bool" where
  "class_in xs c \<longleftrightarrow> worker_class_value c \<in> set xs \<or> worker_class_name c \<in> set xs"

text \<open>\<open>set(d.get(k, []) or [])\<close>\<close>

definition get_set :: "json \<Rightarrow> string \<Rightarrow> json list res" where
  "get_set d k = bindE (j_get d k (JList [])) (\<lambda>v. py_set (py_or v (JList [])))"

text \<open>\<open>(w.capabilities_json or {}).get("required") or {}\<close>\<close>

definition required_block :: "wcp_worker \<Rightarrow> json res" where
  "required_block w =
     bindE (j_get (py_or (w_capabilities_json w) (JDict [])) ''required'' JNull)
       (\<lambda>r. Inr (py_or r (JDict [])))"

text \<open>\<open>{(c or {}).get("id") for c in (required.get("certifications", []) or [])}\<close>\<close>

definition cert_ids :: "json \<Rightarrow> json list res" where
  "cert_ids required =
     bindE (j_get required ''certifications'' (JList [])) (\<lambda>cs.
     bindE (py_iter (py_or cs (JList []))) (\<lambda>xs.
     bindE (mapE (\<lambda>c. j_get (py_or c (JDict [])) ''id'' JNull) xs) (\<lambda>ids.
       py_set (JList ids))))"

text \<open>The four checks of the loop body, each of which may skip the worker.\<close>

definition methods_ok :: "json list \<Rightarrow> json \<Rightarrow> bool res" where
  "methods_ok wanted required =
     (if wanted = [] then Inr True
      else bindE (get_set required ''attestation_methods_supported'') (\<lambda>sup. Inr (set_sub wanted sup)))"

definition descs_ok :: "json list \<Rightarrow> json \<Rightarrow> bool res" where
  "descs_ok wanted required =
     (if wanted = [] then Inr True
      else bindE (py_in ''descriptor_types_supported'' required) (\<lambda>declared.
        if \<not> declared then Inr True
        else bindE (get_set required ''descriptor_types_supported'') (\<lambda>sup. Inr (set_sub wanted sup))))"

definition certs_ok :: "json list \<Rightarrow> json \<Rightarrow> bool res" where
  "certs_ok wanted required =
     (if wanted = [] then Inr True
      else bindE (cert_ids required) (\<lambda>ids. Inr (set_sub wanted ids)))"

definition venue_ok :: "json \<Rightarrow> json \<Rightarrow> bool res" where
  "venue_ok wanted required =
     (if wanted = JNull then Inr True
      else bindE (j_get required ''current_location'' JNull) (\<lambda>loc.
           bindE (j_get (py_or loc (JDict [])) ''venue_id'' JNull) (\<lambda>v. Inr (py_eq v wanted))))"

definition andE :: "bool res \<Rightarrow> bool res \<Rightarrow> bool res" where
  "andE a b = bindE a (\<lambda>x. if x then b else Inr False)"

definition required_matches :: "json list \<Rightarrow> json list \<Rightarrow> json list \<Rightarrow> json \<Rightarrow> json \<Rightarrow> bool res" where
  "required_matches methods descs certs venue required =
     andE (methods_ok methods required)
       (andE (descs_ok descs required) (andE (certs_ok certs required) (venue_ok venue required)))"

definition worker_matches :: "json list \<Rightarrow> json list \<Rightarrow> json list \<Rightarrow> json \<Rightarrow> wcp_worker \<Rightarrow> bool res" where
  "worker_matches methods descs certs venue w =
     bindE (required_block w) (required_matches methods descs certs venue)"

definition matching_workers :: "json \<Rightarrow> json \<Rightarrow> db \<Rightarrow> wcp_worker list res" where
  "matching_workers capability_query worker_class_filter s =
     bindE (if truthy worker_class_filter
            then bindE (bind_classes worker_class_filter) (\<lambda>cs.
              Inr (filter (\<lambda>w. class_in cs (w_worker_class w)) (workers s)))
            else Inr (workers s)) (\<lambda>candidates.
       if \<not> truthy capability_query then Inr candidates
       else
         bindE (get_set capability_query ''attestation_methods'') (\<lambda>wanted_methods.
         bindE (get_set capability_query ''descriptor_types'') (\<lambda>wanted_descs.
         bindE (get_set capability_query ''certifications'') (\<lambda>wanted_certs.
         bindE (j_get capability_query ''location_venue_id'' JNull) (\<lambda>wanted_venue.
           filterE (worker_matches wanted_methods wanted_descs wanted_certs wanted_venue) candidates)))))"

subsection \<open>What a successful publication leaves\<close>

lemma upsert_ok:
  assumes "upsert_capabilities E wid caps pid ttl s = (Inr r, t)"
  shows "\<exists>row. get_worker t wid = Some row \<and> w_worker_id row = wid \<and> w_capabilities_json row = caps \<and>
    w_principal_id row = pid \<and> w_ttl_seconds row = ttl \<and>
    w_revision row = (case get_worker s wid of None \<Rightarrow> 1 | Some old \<Rightarrow> w_revision old + 1) \<and>
    r = capability_result wid caps ttl (w_revision row) \<and>
    (\<forall>v. v \<noteq> wid \<longrightarrow> get_worker t v = get_worker s v)"
proof (cases "get_worker s wid")
  case None
  then have new: "wid \<notin> w_worker_id ` set (workers s)" by (simp add: row_get_None)
  with assms None show ?thesis
    by (auto simp: upsert_capabilities_def utcnow_def add_worker_def row_add_def worker_tbl.get_snoc)
next
  case (Some old)
  then have "w_worker_id old = wid" by (auto dest: row_get_Some)
  with assms Some show ?thesis
    by (auto simp: upsert_capabilities_def utcnow_def set_worker_def row_update_get)
qed

lemma list_capabilities_run:
  "get_worker t wid = Some row \<Longrightarrow>
     list_capabilities wid t =
       (Inr (capability_result (w_worker_id row) (w_capabilities_json row) (w_ttl_seconds row) (w_revision row)), t)"
  by (simp add: list_capabilities_def)

lemma upsert_succeeds:
  assumes "did_resolve wid = Inr rd" "map_of caps ''schema_version'' = Some (JStr ''wcp/0.2'')"
    and "map_of caps ''class'' = Some (JStr (worker_class_value c))"
  shows "\<exists>r t. upsert_capabilities E wid (JDict caps) pid ttl s = (Inr r, t)"
proof (cases "get_worker s wid")
  case None
  then have "wid \<notin> w_worker_id ` set (workers s)" by (simp add: row_get_None)
  with assms None show ?thesis
    by (simp add: upsert_capabilities_def resolve_or_value_error_def utcnow_def bindS_def add_worker_def
        row_add_def raise_if_def)
next
  case (Some old)
  with assms show ?thesis
    by (simp add: upsert_capabilities_def resolve_or_value_error_def utcnow_def bindS_def set_worker_def
        raise_if_def)
qed

subsection \<open>Matching looks at the required block and the class only\<close>

lemma required_block_cong:
  assumes "w_capabilities_json w = JDict d"
  shows "required_block (w\<lparr>w_capabilities_json := JDict (dict_set ''class_extension'' v d)\<rparr>) = required_block w"
proof -
  have "dict_set ''class_extension'' v d \<noteq> []" by (cases d) (auto split: if_splits)
  with assms show ?thesis
    by (cases d) (auto simp: required_block_def py_or_def map_of_dict_set)
qed

text \<open>Overwriting the opaque block of a worker.\<close>

definition set_extension :: "(string \<Rightarrow> json) \<Rightarrow> wcp_worker \<Rightarrow> wcp_worker" where
  "set_extension v w =
     (case w_capabilities_json w of
        JDict d \<Rightarrow> w\<lparr>w_capabilities_json := JDict (dict_set ''class_extension'' (v (w_worker_id w)) d)\<rparr>
      | _ \<Rightarrow> w)"

lemma set_extension_required [simp]: "required_block (set_extension v w) = required_block w"
  by (auto simp: set_extension_def required_block_cong split: json.splits)

lemma set_extension_class [simp]: "w_worker_class (set_extension v w) = w_worker_class w"
  by (auto simp: set_extension_def split: json.splits)

lemma filter_map_ext:
  "(\<And>x. P (g x) = P x) \<Longrightarrow> filter P (map g xs) = map g (filter P xs)"
  by (induction xs) auto

lemma matching_workers_map:
  assumes g: "\<And>w. required_block (g w) = required_block w" "\<And>w. w_worker_class (g w) = w_worker_class w"
  shows "matching_workers q f (s\<lparr>workers := map g (workers s)\<rparr>) =
    bindE (matching_workers q f s) (\<lambda>ws. Inr (map g ws))"
proof -
  have m: "filterE (worker_matches a b c d) (map g ws) =
      bindE (filterE (worker_matches a b c d) ws) (\<lambda>ws. Inr (map g ws))" for a b c d ws
    by (rule filterE_map) (simp add: worker_matches_def g)
  show ?thesis
    by (cases "bind_classes f") (simp_all add: matching_workers_def filter_map_ext g m)
qed

subsection \<open>Asking for more matches less\<close>

lemma set_sub_trans: "set_sub xs ys \<Longrightarrow> set_sub ys zs \<Longrightarrow> set_sub xs zs"
  by (simp add: set_sub_eq_in)

lemma set_sub_Nil: "set_sub xs [] \<Longrightarrow> xs = []"
  by (cases xs) (auto simp: set_sub_def)

lemma andE_True [simp]: "andE a b = Inr True \<longleftrightarrow> a = Inr True \<and> b = Inr True"
  by (auto simp: andE_def split: if_splits)

lemma checks_True:
  "methods_ok w r = Inr True \<longleftrightarrow>
     w = [] \<or> (\<exists>sup. get_set r ''attestation_methods_supported'' = Inr sup \<and> set_sub w sup)"
  "descs_ok w r = Inr True \<longleftrightarrow>
     w = [] \<or> py_in ''descriptor_types_supported'' r = Inr False \<or>
     (py_in ''descriptor_types_supported'' r = Inr True \<and>
      (\<exists>sup. get_set r ''descriptor_types_supported'' = Inr sup \<and> set_sub w sup))"
  "certs_ok w r = Inr True \<longleftrightarrow> w = [] \<or> (\<exists>ids. cert_ids r = Inr ids \<and> set_sub w ids)"
  by (auto simp: methods_ok_def descs_ok_def certs_ok_def split: if_splits)

lemma required_matches_antitone:
  assumes "set_sub ms ms'" "set_sub ds ds'" "set_sub cs cs'" "v = JNull \<or> v = v'"
    and "required_matches ms' ds' cs' v' r = Inr True"
  shows "required_matches ms ds cs v r = Inr True"
proof -
  have less: "a = [] \<or> (\<exists>x. m = Inr x \<and> set_sub a x)"
    if "set_sub a b" "b = [] \<or> (\<exists>x. m = Inr x \<and> set_sub b x)" for a b and m :: "json list res"
    using that set_sub_Nil set_sub_trans by blast
  from assms(5) have parts: "methods_ok ms' r = Inr True" "descs_ok ds' r = Inr True"
    "certs_ok cs' r = Inr True" "venue_ok v' r = Inr True"
    by (simp_all add: required_matches_def)
  have "methods_ok ms r = Inr True"
    using parts(1) less [OF assms(1)] unfolding checks_True by blast
  moreover have "descs_ok ds r = Inr True"
    using parts(2) less [OF assms(2)] unfolding checks_True by blast
  moreover have "certs_ok cs r = Inr True"
    using parts(3) less [OF assms(3)] unfolding checks_True by blast
  moreover have "venue_ok v r = Inr True"
    using parts(4) assms(4) by (auto simp: venue_ok_def)
  ultimately show ?thesis by (simp add: required_matches_def)
qed

subsection \<open>Properties\<close>

text \<open>
  Publishing then reading a worker's capabilities returns what was published: after a successful
  capabilities/upsert, capabilities/list for the same worker gives back the same document,
  time to live and revision, the revision is one more than before (one for a new worker),
  and what capabilities/list answers for every other worker is unchanged.
\<close>

theorem upsert_then_list:
  assumes "upsert_capabilities E wid caps pid ttl s = (Inr r, t)"
  shows "list_capabilities wid t = (Inr r, t) \<and>
    r = capability_result wid caps ttl
      (case get_worker s wid of None \<Rightarrow> 1 | Some old \<Rightarrow> w_revision old + 1) \<and>
    (\<forall>v. v \<noteq> wid \<longrightarrow> fst (list_capabilities v t) = fst (list_capabilities v s))"
proof -
  from upsert_ok [OF assms] obtain row where row: "get_worker t wid = Some row" "w_worker_id row = wid"
      "w_capabilities_json row = caps" "w_ttl_seconds row = ttl"
      "w_revision row = (case get_worker s wid of None \<Rightarrow> 1 | Some old \<Rightarrow> w_revision old + 1)"
      "r = capability_result wid caps ttl (w_revision row)"
    and other: "\<And>v. v \<noteq> wid \<Longrightarrow> get_worker t v = get_worker s v"
    by auto
  have "fst (list_capabilities v t) = fst (list_capabilities v s)" if "v \<noteq> wid" for v
    using other [OF that] by (cases "get_worker s v") (simp_all add: list_capabilities_def)
  with row show ?thesis by (simp add: list_capabilities_run)
qed

definition sample_caps :: "(string \<times> json) list" where
  "sample_caps = [(''schema_version'', JStr ''wcp/0.2''), (''class'', JStr ''human'')]"

lemma sample_upsert:
  "\<exists>r t. upsert_capabilities sample_env (did_string (sample_key (CHR ''w''))) (JDict sample_caps) pid 3600 s = (Inr r, t)"
  by (rule upsert_succeeds [where c = HUMAN, OF did_resolve_from_pubkey]) (simp_all add: sample_caps_def)

theorem upsert_then_list_witness:
  "\<exists>r t. upsert_capabilities sample_env (did_string (sample_key (CHR ''w''))) (JDict sample_caps) ''p'' 3600 empty_db
       = (Inr r, t) \<and>
     list_capabilities (did_string (sample_key (CHR ''w''))) t = (Inr r, t)"
  using sample_upsert [of "''p''" empty_db] upsert_then_list by blast

text \<open>
  The matching engine is blind to the opaque class_extension block: rewriting that block of every
  worker's capabilities arbitrarily, worker by worker, changes neither which workers match
  nor whether matching raises, for every query and class filter.
\<close>

theorem matching_ignores_class_extension:
  "matching_workers q f (s\<lparr>workers := map (set_extension v) (workers s)\<rparr>) =
     bindE (matching_workers q f s) (\<lambda>ws. Inr (map (set_extension v) ws))"
  by (rule matching_workers_map) simp_all

text \<open>
  C14: Matching is antitone in the query: a worker whose required block meets a set of demands also meets
  every weaker set (fewer attestation methods, descriptor types and certifications, the
  same venue or none), and the weaker match raises nothing.
\<close>

theorem worker_matches_antitone:
  assumes "set_sub ms ms'" "set_sub ds ds'" "set_sub cs cs'" "v = JNull \<or> v = v'"
    and "worker_matches ms' ds' cs' v' w = Inr True"
  shows "worker_matches ms ds cs v w = Inr True"
  using assms(5) required_matches_antitone [OF assms(1-4)] by (auto simp: worker_matches_def)

theorem worker_matches_antitone_witness:
  "worker_matches [] [] [] JNull
     \<lparr>w_worker_id = ''w'', w_principal_id = ''p'', w_worker_class = HUMAN,
      w_capabilities_json = JDict [(''required'', JDict [(''attestation_methods_supported'', JList [JStr ''m''])])],
      w_revision = 1, w_ttl_seconds = 1, w_as_of = Naive 0, w_created_at = Naive 0\<rparr> = Inr True"
  by (rule worker_matches_antitone [where ms' = "[JStr ''m'']" and ds' = "[]" and cs' = "[]" and v' = JNull])
    (simp_all add: worker_matches_def required_block_def py_or_def required_matches_def methods_ok_def
      descs_ok_def certs_ok_def venue_ok_def andE_def get_set_def py_set_def set_sub_def)

end
