(* ===== verification/Tasks_Service.thy ===== *)
theory Tasks_Service
  imports Audit_Chain Attestation_Verifier Capabilities_Service
begin

text \<open>
  \<open>wcp_coordinator/tasks_service.py\<close>: the task lifecycle. One definition per handler, in the
  order of the source; every guard, every exception and every audit entry of a handler is
  in its definition. Handlers run in the state monad of the prelude, so what was written
  before an exception is part of the result.
\<close>

definition HEARTBEAT_SECONDS :: int where
  "HEARTBEAT_SECONDS = 15"

definition MISSED_HEARTBEATS :: int where
  "MISSED_HEARTBEATS = 3"

definition coordinator_did :: string where
  "coordinator_did = ''did:wcp:coordinator''"

text \<open>An optional string as a JSON value.\<close>

definition opt_str :: "string option \<Rightarrow> json" where
  "opt_str x = (case x of None \<Rightarrow> JNull | Some s \<Rightarrow> JStr s)"

text \<open>A value the code stores in a column annotated \<open>str\<close>.\<close>

fun str_column :: "json \<Rightarrow> string res" where
  "str_column (JStr s) = Inr s"
| "str_column _ = Inl AnnotationMismatch"

subsection \<open>tasks/post\<close>

definition legacy_fields :: "string list" where
  "legacy_fields = [''override_authority'', ''override_audit_required'', ''override_allowed'']"

definition out_of_scope :: "json list" where
  "out_of_scope = [JStr ''medical'', JStr ''defense'', JStr ''minor_involving'', JStr ''hazmat_above_consumer'']"

definition reject_legacy :: "json \<Rightarrow> unit res" where
  "reject_legacy req = forE (\<lambda>legacy. bindE (py_in legacy req) (\<lambda>b.
     raise_if b (ValueError
       (''INVALID_DESCRIPTOR: attestation_requirement.'' @ legacy @ '' removed at v0.955'')))) legacy_fields"

definition validate_kinds :: "env \<Rightarrow> registry \<Rightarrow> json \<Rightarrow> unit res" where
  "validate_kinds E reg entry =
     bindE (j_get entry ''mode'' JNull) (\<lambda>mode.
     bindE (j_get entry ''kinds'' JNull) (\<lambda>kinds.
     bindE (registry_get reg mode) (\<lambda>allowed.
     bindE (py_iter (py_or kinds (JList []))) (\<lambda>ks.
       forE (\<lambda>k. bindE (kind_in k allowed) (\<lambda>known.
         raise_if (\<not> known) (ValueError
           (''INVALID_ATTESTATION_REQUIREMENT: kind '' @ py_repr (float_repr E) k @ '' not '' @
            ''registered for mode '' @ py_repr (float_repr E) mode)))) ks))))"

definition validate_attestation_requirement :: "env \<Rightarrow> registry \<Rightarrow> json \<Rightarrow> unit res" where
  "validate_attestation_requirement E reg req =
     bindE (raise_if (\<not> truthy req)
       (ValueError ''INVALID_ATTESTATION_REQUIREMENT: attestation_requirement missing'')) (\<lambda>_.
     bindE (j_get req ''modes'' JNull) (\<lambda>modes.
     bindE (raise_if (\<not> truthy modes) (ValueError ''INVALID_ATTESTATION_REQUIREMENT: modes empty'')) (\<lambda>_.
     bindE (j_get req ''threshold'' JNull) (\<lambda>threshold.
     bindE (raise_if (\<not> eq_in threshold [JStr ''any'', JStr ''all'', JStr ''M-of-N''])
       (ValueError (''INVALID_ATTESTATION_REQUIREMENT: unknown threshold '' @
          py_repr (float_repr E) threshold))) (\<lambda>_.
     bindE (if py_eq threshold (JStr ''M-of-N'') then
              bindE (j_get req ''M'' JNull) (\<lambda>m.
              bindE (j_get req ''N'' JNull) (\<lambda>n.
                case (as_int m, as_int n) of
                  (Some mi, Some ni) \<Rightarrow>
                    raise_if (mi > ni) (ValueError
                      (''INVALID_ATTESTATION_REQUIREMENT: M > N ('' @ py_str (float_repr E) m @ '' > '' @
                       py_str (float_repr E) n @ '')''))
                | _ \<Rightarrow> Inl (ValueError
                    ''INVALID_ATTESTATION_REQUIREMENT: M and N must be integers'')))
            else Inr ()) (\<lambda>_.
     bindE (j_get req ''evidence_schema'' JNull) (\<lambda>schema.
     bindE (py_iter (py_or schema (JList []))) (\<lambda>entries.
       forE (validate_kinds E reg) entries))))))))"

text \<open>
  \<open>_count_eligible\<close>: the class filter and the capability query derived from the task, then
  the matching engine. The query is a dict built by assignment.
\<close>

definition task_venue :: "json \<Rightarrow> json \<Rightarrow> json res" where
  "task_venue task constraints =
     bindE (j_get constraints ''location'' JNull) (\<lambda>loc.
     bindE (j_get (py_or loc (JDict [])) ''venue_id'' JNull) (\<lambda>v.
       if truthy v then Inr v
       else bindE (j_get task ''descriptor_payload'' JNull) (\<lambda>p.
         j_get (py_or p (JDict [])) ''venue_id'' JNull)))"

definition capability_query_of :: "json \<Rightarrow> json \<Rightarrow> json res" where
  "capability_query_of task constraints =
     bindE (j_get task ''attestation_requirement'' JNull) (\<lambda>ar.
     bindE (j_get (py_or ar (JDict [])) ''modes'' JNull) (\<lambda>modes.
     bindE (if truthy modes
            then bindE (py_iter modes) (\<lambda>ms. Inr [(''attestation_methods'', JList ms)])
            else Inr []) (\<lambda>q1.
     bindE (j_get task ''descriptor_type'' JNull) (\<lambda>dt.
     let q2 = (if truthy dt then dict_set ''descriptor_types'' (JList [dt]) q1 else q1) in
     bindE (task_venue task constraints) (\<lambda>venue.
     let q3 = (if truthy venue then dict_set ''location_venue_id'' venue q2 else q2) in
     bindE (j_get constraints ''required_certifications'' JNull) (\<lambda>certs.
     let q4 = (if truthy certs then dict_set ''certifications'' certs q3 else q3) in
       Inr (JDict q4)))))))"

definition class_filter_of :: "json \<Rightarrow> json res" where
  "class_filter_of constraints =
     bindE (j_get constraints ''worker_class_filter'' JNull) (\<lambda>f.
     bindE (j_get (py_or f (JDict [])) ''allowed'' JNull) (\<lambda>a. Inr (py_or a (JList []))))"

definition count_eligible :: "json \<Rightarrow> db \<Rightarrow> int res" where
  "count_eligible task s =
     bindE (j_get task ''constraints'' (JDict [])) (\<lambda>c.
     let constraints = py_or c (JDict []) in
     bindE (class_filter_of constraints) (\<lambda>wcf.
     bindE (capability_query_of task constraints) (\<lambda>query.
     bindE (matching_workers query wcf s) (\<lambda>ws. Inr (int (length ws))))))"

text \<open>The checks of \<open>post\<close> before anything is written or drawn.\<close>

definition post_checks :: "env \<Rightarrow> registry \<Rightarrow> (string \<times> json) list \<Rightarrow> unit res" where
  "post_checks E reg task =
     bindE (raise_if (''settlement'' \<in> fst ` set task)
       (ValueError (''INVALID_DESCRIPTOR: task.settlement removed at v0.955 '' @
          ''(settlement is no longer a protocol concern)''))) (\<lambda>_.
     bindE (j_get (JDict task) ''attestation_requirement'' (JDict [])) (\<lambda>req.
     bindE (reject_legacy req) (\<lambda>_.
     bindE (validate_attestation_requirement E reg req) (\<lambda>_.
     bindE (j_get (JDict task) ''descriptor_type'' (JStr [])) (\<lambda>descriptor_type.
     bindE (raise_if (eq_in descriptor_type out_of_scope)
       (ValueError (''OUT_OF_SCOPE_TASK_CLASS: reference coordinator refuses '' @
          ''descriptor_type='' @ py_repr (float_repr E) descriptor_type))) (\<lambda>_.
     bindE (j_get (JDict task) ''x-subcontract-allowed'' JNull) (\<lambda>sub.
       raise_if (sub = JBool True)
         (ValueError (''SUBCONTRACT_FORBIDDEN: x-subcontract-allowed=true not '' @
            ''WCP-conformant at v0.1'')))))))))"

definition audit_payload_of :: "string \<Rightarrow> (string \<times> json) list \<Rightarrow> (string \<times> json) list \<Rightarrow> (string \<times> json) list" where
  "audit_payload_of task_id task informational =
     (let p0 = [(''task_id'', JStr task_id),
                (''accounting_ref'', (case map_of task ''accounting_ref'' of Some v \<Rightarrow> v | None \<Rightarrow> JNull))];
          p1 = (if informational \<noteq> [] then dict_set ''informational'' (JDict informational) p0 else p0)
      in case map_of task ''continuation_of'' of
           Some v \<Rightarrow> dict_set ''continuation_of'' v p1
         | None \<Rightarrow> p1)"

definition task_post ::
  "env \<Rightarrow> registry \<Rightarrow> (string \<times> json) list \<Rightarrow> string \<Rightarrow> (string \<times> json) list \<Rightarrow> (db, json) py" where
  "task_post E reg task0 expiry informational =
     bindS (lift (post_checks E reg task0)) (\<lambda>_.
     bindS (lift (j_get (JDict task0) ''task_id'' JNull)) (\<lambda>given_id.
     bindS (if truthy given_id then ret given_id else bindS (uuid_str E) (\<lambda>u. ret (JStr u))) (\<lambda>task_id_j.
     let task = dict_set ''task_id'' task_id_j task0 in
     bindS (lift (j_get (JDict task) ''posted_by'' JNull)) (\<lambda>posted_by_j.
     bindS (lift (raise_if (\<not> truthy posted_by_j) (ValueError ''INVALID_PARAMS: task.posted_by required''))) (\<lambda>_.
     bindS (lift (as_str posted_by_j)) (\<lambda>posted_by.
     bindS (lift (resolve_or_value_error ''DID_NOT_RESOLVED: posted_by: '' posted_by)) (\<lambda>_.
     bindS (lift (parse_iso E expiry)) (\<lambda>expiry_dt.
     bindS (lift (str_column task_id_j)) (\<lambda>task_id.
     bindS (lift (j_get (JDict task) ''descriptor_type'' (JStr []))) (\<lambda>descriptor_type.
     bindS (lift (str_column (py_or descriptor_type (JStr ''unknown'')))) (\<lambda>dtype.
     bindS (utcnow E) (\<lambda>posted_at.
     bindS (add_task
       \<lparr>t_task_id = task_id, t_posted_by = posted_by, t_descriptor_type = dtype,
        t_task_json = JDict task, t_expiry = expiry_dt, t_state = POSTED,
        t_attestation_attempts_used = 0, t_posted_at = posted_at\<rparr>) (\<lambda>_.
     bindS (audit_append E ''task_posted'' posted_by (JDict (audit_payload_of task_id task informational))
       None (Some task_id) None) (\<lambda>_.
     bindS (gets (count_eligible (JDict task))) (\<lambda>n.
     bindS (lift n) (\<lambda>eligible.
     ret (JDict [(''task_id'', JStr task_id), (''eligible_workers_count'', JInt eligible),
                 (''posted_at'', JStr (isoformat E posted_at))])))))))))))))))))"

subsection \<open>tasks/claim\<close>

definition acceptance_json ::
  "string \<Rightarrow> string \<Rightarrow> string \<Rightarrow> string option \<Rightarrow> json \<Rightarrow> json \<Rightarrow> json" where
  "acceptance_json task_id worker_id eta bid payload_hash signed_at =
     JDict [(''task_id'', JStr task_id), (''worker_id'', JStr worker_id), (''eta'', JStr eta),
            (''bid'', opt_str bid), (''payload_hash'', payload_hash), (''signed_at'', signed_at)]"

text \<open>
  \<open>except (DIDResolutionError, SignatureVerificationError)\<close>: both become \<open>UNAUTHENTICATED\<close>,
  anything else passes through.
\<close>

definition unauthenticated :: "'a res \<Rightarrow> 'a res" where
  "unauthenticated r =
     (case r of
        Inl (DIDResolutionError m) \<Rightarrow> Inl (ValueError (''UNAUTHENTICATED: '' @ m))
      | Inl (SignatureVerificationError m) \<Rightarrow> Inl (ValueError (''UNAUTHENTICATED: '' @ m))
      | _ \<Rightarrow> r)"

definition claim_guard :: "string \<Rightarrow> wcp_task \<Rightarrow> unit res" where
  "claim_guard task_id task =
     (if t_state task = POSTED then Inr ()
      else if t_state task = CLAIMED then
        Inl (TaskPreempted (''task '' @ task_id @ '' already claimed by another worker''))
      else Inl (TaskStateInvalid
        (''task '' @ task_id @ '' state is '' @ task_state_value (t_state task) @ '', not posted'')))"

definition self_dealing_check :: "wcp_task \<Rightarrow> wcp_worker \<Rightarrow> unit res" where
  "self_dealing_check task worker =
     (if t_posted_by task = w_principal_id worker then
        bindE (j_get (t_task_json task) ''attestation_requirement'' (JDict [])) (\<lambda>req.
        bindE (j_get req ''modes'' JNull) (\<lambda>modes.
        bindE (py_in ''third-party-witness'' (py_or modes (JList []))) (\<lambda>b.
          raise_if (\<not> b) (ValueError
            (''POLICY_VIOLATION: self-dealing detected '' @
             ''(posted_by == worker.principal_id) and '' @
             ''attestation_requirement lacks third-party-witness'')))))
      else Inr ())"

definition check_acceptance ::
  "env \<Rightarrow> string \<Rightarrow> string \<Rightarrow> string \<Rightarrow> json \<Rightarrow> string option \<Rightarrow> unit res" where
  "check_acceptance E task_id worker_id eta acceptance bid =
     bindE (j_get acceptance ''sig'' JNull) (\<lambda>sig.
     bindE (j_get acceptance ''payload_hash'' JNull) (\<lambda>payload_hash.
     bindE (j_get acceptance ''signed_at'' JNull) (\<lambda>signed_at.
     bindE (raise_if (\<not> (truthy sig \<and> truthy payload_hash \<and> truthy signed_at))
       (ValueError ''UNAUTHENTICATED: acceptance_attestation incomplete'')) (\<lambda>_.
       unauthenticated
         (bindE (did_resolve worker_id) (\<lambda>resolved.
          bindE (as_str sig) (\<lambda>sig_s.
            did_verify E resolved
              (canon E (acceptance_json task_id worker_id eta bid payload_hash signed_at)) sig_s)))))))"

definition task_claim ::
  "env \<Rightarrow> string \<Rightarrow> string \<Rightarrow> string \<Rightarrow> json \<Rightarrow> string option \<Rightarrow> (db, json) py" where
  "task_claim E task_id worker_id eta acceptance bid =
     bindS (gets (\<lambda>s. get_task s task_id)) (\<lambda>found.
     bindS (lift (of_opt (TaskNotFound task_id) found)) (\<lambda>task.
     bindS (lift (claim_guard task_id task)) (\<lambda>_.
     bindS (utcnow E) (\<lambda>now.
     bindS (lift (dt_less (as_utc (t_expiry task)) now)) (\<lambda>expired.
     bindS (lift (raise_if expired (TaskStateInvalid (''task '' @ task_id @ '' expired'')))) (\<lambda>_.
     bindS (gets (\<lambda>s. get_worker s worker_id)) (\<lambda>w.
     bindS (lift (of_opt (ValueError (''DID_NOT_RESOLVED: worker '' @ repr_str worker_id)) w)) (\<lambda>worker.
     bindS (lift (self_dealing_check task worker)) (\<lambda>_.
     bindS (lift (check_acceptance E task_id worker_id eta acceptance bid)) (\<lambda>_.
     bindS (gets (\<lambda>s. list_ex (\<lambda>c. c_task_id c = task_id \<and> c_accepted c) (claims s))) (\<lambda>taken.
     bindS (lift (raise_if taken (TaskPreempted ''another worker already claimed''))) (\<lambda>_.
     bindS (lift (parse_iso E eta)) (\<lambda>eta_dt.
     bindS (utcnow E) (\<lambda>hb.
     bindS (uuid_str E) (\<lambda>claim_id.
     bindS (utcnow E) (\<lambda>claimed_at.
     bindS (add_claim
       \<lparr>c_claim_id = claim_id, c_task_id = task_id, c_worker_id = worker_id, c_bid_amount = bid,
        c_eta = eta_dt, c_acceptance_attestation_json = acceptance, c_accepted = True,
        c_claimed_at = claimed_at, c_last_heartbeat_at = Some hb\<rparr>) (\<lambda>_.
     bindS (set_task task_id (\<lambda>t. t\<lparr>t_state := CLAIMED\<rparr>)) (\<lambda>_.
     bindS (audit_append E ''task_claimed'' worker_id
       (JDict [(''task_id'', JStr task_id), (''claim_id'', JStr claim_id), (''bid'', opt_str bid)])
       (Some claim_id) (Some task_id) None) (\<lambda>_.
     ret (JDict [(''claim_id'', JStr claim_id), (''accepted'', JBool True),
                 (''counter'', JNull), (''reason'', JNull)]))))))))))))))))))))"

subsection \<open>tasks/execute\<close>

definition claim_and_task :: "string \<Rightarrow> (db, wcp_claim \<times> wcp_task) py" where
  "claim_and_task claim_id =
     bindS (gets (\<lambda>s. get_claim s claim_id)) (\<lambda>c.
     bindS (lift (of_opt (TaskNotFound (''claim '' @ claim_id @ '' not found'')) c)) (\<lambda>claim.
     bindS (gets (\<lambda>s. get_task s (c_task_id claim))) (\<lambda>t.
     bindS (lift (of_opt (TaskNotFound (''task '' @ c_task_id claim @ '' not found'')) t)) (\<lambda>task.
     ret (claim, task)))))"

definition set_state :: "wcp_task \<Rightarrow> task_state \<Rightarrow> (db, unit) py" where
  "set_state task st = set_task (t_task_id task) (\<lambda>t. t\<lparr>t_state := st\<rparr>)"

definition execute_open :: "env \<Rightarrow> string \<Rightarrow> (db, json) py" where
  "execute_open E claim_id =
     bindS (claim_and_task claim_id) (\<lambda>(claim, task).
     bindS (lift (raise_if (t_state task \<notin> {CLAIMED, SUPERVISING})
       (TaskStateInvalid (''task state is '' @ task_state_value (t_state task) @ '', cannot open execute'')))) (\<lambda>_.
     bindS (uuid_str E) (\<lambda>session_id.
     bindS (utcnow E) (\<lambda>opened.
     bindS (add_session
       \<lparr>s_session_id = session_id, s_claim_id = claim_id, s_opened_at = opened,
        s_closed_at = None, s_events_count = 0\<rparr>) (\<lambda>_.
     bindS (set_state task EXECUTING) (\<lambda>_.
     bindS (audit_append E ''execution_started'' (c_worker_id claim)
       (JDict [(''claim_id'', JStr claim_id), (''session_id'', JStr session_id)])
       (Some claim_id) (Some (t_task_id task)) None) (\<lambda>_.
     ret (JDict [(''session_id'', JStr session_id), (''state'', JStr (task_state_value EXECUTING))]))))))))"

definition event_json :: "string \<Rightarrow> string \<Rightarrow> string \<Rightarrow> json \<Rightarrow> json" where
  "event_json claim_id event_type timestamp payload =
     JDict [(''claim_id'', JStr claim_id), (''event_type'', JStr event_type),
            (''timestamp'', JStr timestamp), (''payload'', payload)]"

text \<open>\<open>except SignatureVerificationError\<close> alone.\<close>

definition signature_value_error :: "'a res \<Rightarrow> 'a res" where
  "signature_value_error r =
     (case r of
        Inl (SignatureVerificationError m) \<Rightarrow> Inl (ValueError (''UNAUTHENTICATED: '' @ m))
      | _ \<Rightarrow> r)"

definition execute_event ::
  "env \<Rightarrow> string \<Rightarrow> string \<Rightarrow> string \<Rightarrow> json \<Rightarrow> string \<Rightarrow> (db, json) py" where
  "execute_event E claim_id event_type timestamp payload sig =
     bindS (claim_and_task claim_id) (\<lambda>(claim, task).
     bindS (lift (raise_if (t_state task \<noteq> EXECUTING)
       (TaskStateInvalid (''cannot accept execute event in state '' @ task_state_value (t_state task))))) (\<lambda>_.
     bindS (lift (did_resolve (c_worker_id claim))) (\<lambda>resolved.
     bindS (lift (signature_value_error
       (did_verify E resolved (canon E (event_json claim_id event_type timestamp payload)) sig))) (\<lambda>_.
     bindS (if event_type = ''heartbeat'' then
              bindS (lift (parse_iso E timestamp)) (\<lambda>t.
                set_claim claim_id (\<lambda>c. c\<lparr>c_last_heartbeat_at := Some t\<rparr>))
            else ret ()) (\<lambda>_.
     bindS (audit_append E event_type (c_worker_id claim) payload
       (Some claim_id) (Some (t_task_id task)) None) (\<lambda>_.
     ret (JDict [(''accepted'', JBool True)])))))))"

subsection \<open>Heartbeats\<close>

text \<open>\<open>now - timedelta(seconds=n)\<close>\<close>

fun dt_minus_s :: "datetime \<Rightarrow> int \<Rightarrow> datetime" where
  "dt_minus_s (Naive t) n = Naive (t - n * 1000000)"
| "dt_minus_s (Aware t z) n = Aware (t - n * 1000000) z"

text \<open>The join of claims and their tasks in state executing, read before the loop.\<close>

definition executing_claims :: "db \<Rightarrow> (wcp_claim \<times> wcp_task) list" where
  "executing_claims s =
     concat (map (\<lambda>c. map (\<lambda>t. (c, t))
       (filter (\<lambda>t. t_task_id t = c_task_id c \<and> t_state t = EXECUTING) (tasks s))) (claims s))"

text \<open>One iteration: the claim's id if it was promoted.\<close>

definition promote_stale :: "env \<Rightarrow> datetime \<Rightarrow> wcp_claim \<times> wcp_task \<Rightarrow> (db, string list) py" where
  "promote_stale E cutoff p =
     (case p of (claim, task) \<Rightarrow>
      case c_last_heartbeat_at claim of
        None \<Rightarrow> ret []
      | Some hb \<Rightarrow>
          bindS (lift (dt_le cutoff (as_utc hb))) (\<lambda>fresh.
            if fresh then ret []
            else
              bindS (set_state task SUPERVISING) (\<lambda>_.
              bindS (audit_append E ''heartbeat_timeout'' coordinator_did
                (JDict [(''claim_id'', JStr (c_claim_id claim)),
                        (''last_heartbeat_at'', JStr (isoformat E hb)),
                        (''handoff_reason'', JStr ''connectivity_lost'')])
                (Some (c_claim_id claim)) (Some (t_task_id task)) None) (\<lambda>_.
              ret [c_claim_id claim]))))"

definition check_heartbeats :: "env \<Rightarrow> datetime option \<Rightarrow> (db, string list) py" where
  "check_heartbeats E now0 =
     bindS (case now0 of Some t \<Rightarrow> ret t | None \<Rightarrow> utcnow E) (\<lambda>now.
     bindS (gets executing_claims) (\<lambda>stale_rows.
     bindS (mapS (promote_stale E (dt_minus_s now (HEARTBEAT_SECONDS * MISSED_HEARTBEATS))) stale_rows) (\<lambda>ps.
     ret (concat ps))))"

subsection \<open>tasks/attest\<close>

definition evidence_json :: "json \<Rightarrow> json \<Rightarrow> json \<Rightarrow> string \<Rightarrow> string \<Rightarrow> json \<Rightarrow> json" where
  "evidence_json mode kind payload_hash worker_id claim_id collected_at =
     JDict [(''mode'', mode), (''kind'', kind), (''payload_hash'', payload_hash),
            (''worker_id'', JStr worker_id), (''claim_id'', JStr claim_id), (''collected_at'', collected_at)]"

text \<open>The row of one verified piece; the columns are computed in the order of the call.\<close>

definition store_attestation ::
  "env \<Rightarrow> string \<Rightarrow> string \<Rightarrow> json \<Rightarrow> json \<Rightarrow> json \<Rightarrow> json \<Rightarrow> string \<Rightarrow> outcome \<Rightarrow> (db, unit) py" where
  "store_attestation E claim_id worker_id ev mode kind payload sig outc =
     bindS (lift (attestation_mode_of E mode)) (\<lambda>m.
     bindS (lift (j_get ev ''payload_hash'' (JStr []))) (\<lambda>ph.
     bindS (lift (bindE (j_item ev ''collected_at'') as_str)) (\<lambda>collected.
     bindS (lift (parse_iso E collected)) (\<lambda>collected_at.
     bindS (uuid_str E) (\<lambda>aid.
     add_attestation
       \<lparr>e_attestation_id = aid, e_claim_id = claim_id, e_mode = m, e_kind = kind, e_payload_hash = ph,
        e_sig = JStr sig, e_worker_id = worker_id, e_collected_at = collected_at,
        e_verifier_decision = vo_decision outc, e_verifier_reasons = vo_reasons outc,
        e_payload_json = payload\<rparr>)))))"

text \<open>The body of the loop over the submitted evidence.\<close>

definition attest_one ::
  "env \<Rightarrow> registry \<Rightarrow> string \<Rightarrow> string \<Rightarrow> resolved_did \<Rightarrow> json \<Rightarrow> json \<Rightarrow> (db, json \<times> outcome) py" where
  "attest_one E reg claim_id worker_id resolved task_payload ev =
     bindS (lift (j_get ev ''mode'' JNull)) (\<lambda>mode.
     bindS (lift (j_get ev ''kind'' JNull)) (\<lambda>kind.
     bindS (lift (j_get ev ''payload'' (JDict []))) (\<lambda>payload.
     bindS (lift (j_get ev ''payload_hash'' JNull)) (\<lambda>ph.
     bindS (lift (j_get ev ''collected_at'' JNull)) (\<lambda>ca.
     bindS (lift (bindE (j_get ev ''sig'' (JStr [])) as_str)) (\<lambda>sig.
       case did_verify E resolved (canon E (evidence_json mode kind ph worker_id claim_id ca)) sig of
         Inl exc \<Rightarrow> ret (py_or mode (JStr ''?''), fail_outcome [''signature: '' @ exc_message exc])
       | Inr _ \<Rightarrow>
           bindS (lift (verify_single E reg mode kind payload task_payload)) (\<lambda>outc.
           bindS (store_attestation E claim_id worker_id ev mode kind payload sig outc) (\<lambda>_.
           ret (mode, outc)))))))))"

definition max_attempts_of :: "wcp_task \<Rightarrow> int res" where
  "max_attempts_of task =
     bindE (j_get (t_task_json task) ''max_attestation_attempts'' (JInt 1)) (\<lambda>m. py_int (py_or m (JInt 1)))"

definition attest_guard :: "wcp_task \<Rightarrow> unit res" where
  "attest_guard task =
     (if t_state task = VOIDED then
        Inl (ValueError (''RECHECK_MAX_ATTEMPTS_REACHED: claim is voided; '' @
          ''post a new task with continuation_of if work should continue''))
      else raise_if (t_state task \<notin> {EXECUTING, SUPERVISING, RECHECKING})
        (TaskStateInvalid (''cannot attest in state '' @ task_state_value (t_state task))))"

text \<open>
  The routing after the verifier's decision. Before it the attempt has been counted and the
  task is attesting; a pass completes it, a failure sends it to rechecking while attempts
  remain and voids it after that, a review leaves it where it is.
\<close>

definition attest_route ::
  "env \<Rightarrow> string \<Rightarrow> wcp_task \<Rightarrow> json \<Rightarrow> int \<Rightarrow> int \<Rightarrow> outcome \<Rightarrow> (db, unit) py" where
  "attest_route E claim_id task accounting_ref attempt_number attempts_remaining agg =
     (case vo_decision agg of
        PASS \<Rightarrow>
          bindS (set_state task COMPLETED) (\<lambda>_.
          bindS (audit_append E ''task_completed'' coordinator_did
            (JDict [(''claim_id'', JStr claim_id), (''task_id'', JStr (t_task_id task)),
                    (''accounting_ref'', accounting_ref)])
            (Some claim_id) (Some (t_task_id task)) None) (\<lambda>_. ret ()))
      | FAIL \<Rightarrow>
          if attempts_remaining > 0 then
            bindS (set_state task RECHECKING) (\<lambda>_.
            bindS (audit_append E ''recheck_requested'' coordinator_did
              (JDict [(''claim_id'', JStr claim_id), (''attempt_number_just_failed'', JInt attempt_number),
                      (''attempts_remaining'', JInt attempts_remaining),
                      (''verifier_reasons'', JList (map JStr (vo_reasons agg)))])
              (Some claim_id) (Some (t_task_id task)) None) (\<lambda>_. ret ()))
          else
            bindS (set_state task VOIDED) (\<lambda>_.
            bindS (audit_append E ''task_voided'' coordinator_did
              (JDict [(''claim_id'', JStr claim_id), (''task_id'', JStr (t_task_id task)),
                      (''attempts_used'', JInt attempt_number),
                      (''verifier_reasons'', JList (map JStr (vo_reasons agg))),
                      (''accounting_ref'', accounting_ref)])
              (Some claim_id) (Some (t_task_id task)) None) (\<lambda>_. ret ()))
      | REVIEW \<Rightarrow> ret ())"

definition task_attest :: "env \<Rightarrow> registry \<Rightarrow> string \<Rightarrow> json list \<Rightarrow> (db, json) py" where
  "task_attest E reg claim_id evidence =
     bindS (claim_and_task claim_id) (\<lambda>(claim, task).
     bindS (lift (attest_guard task)) (\<lambda>_.
     bindS (lift (j_get (t_task_json task) ''attestation_requirement'' (JDict []))) (\<lambda>req.
     bindS (lift (j_get (t_task_json task) ''descriptor_payload'' (JDict []))) (\<lambda>task_payload.
     bindS (lift (max_attempts_of task)) (\<lambda>max_attempts.
     bindS (lift (did_resolve (c_worker_id claim))) (\<lambda>resolved.
     bindS (mapS (attest_one E reg claim_id (c_worker_id claim) resolved task_payload) evidence) (\<lambda>outs.
     bindS (lift (evaluate_threshold E req outs)) (\<lambda>agg.
     let attempt_number = t_attestation_attempts_used task + 1;
         attempts_remaining = max 0 (max_attempts - attempt_number)
     in
     bindS (set_task (t_task_id task)
       (\<lambda>t. t\<lparr>t_attestation_attempts_used := attempt_number, t_state := ATTESTING\<rparr>)) (\<lambda>_.
     bindS db_flush (\<lambda>_.
     bindS (audit_append E ''attestation_attempt'' (c_worker_id claim)
       (JDict [(''claim_id'', JStr claim_id), (''attempt_number'', JInt attempt_number),
               (''decision'', JStr (verifier_decision_value (vo_decision agg)))])
       (Some claim_id) (Some (t_task_id task)) None) (\<lambda>_.
     bindS (lift (j_get (t_task_json task) ''accounting_ref'' JNull)) (\<lambda>accounting_ref.
     bindS (attest_route E claim_id task accounting_ref attempt_number attempts_remaining agg) (\<lambda>_.
     ret (JDict [(''verifier_decision'', JStr (verifier_decision_value (vo_decision agg))),
                 (''residual'', JDict (vo_residual agg)),
                 (''reasons'', JList (map JStr (vo_reasons agg))),
                 (''attempt_number'', JInt attempt_number),
                 (''attempts_remaining'', JInt attempts_remaining)]))))))))))))))"

subsection \<open>tasks/supervise and tasks/abort\<close>

definition task_supervise :: "env \<Rightarrow> string \<Rightarrow> string \<Rightarrow> json \<Rightarrow> string \<Rightarrow> (db, json) py" where
  "task_supervise E claim_id handoff_reason state_snapshot urgency =
     bindS (claim_and_task claim_id) (\<lambda>(claim, task).
     bindS (lift (raise_if (t_state task \<notin> {EXECUTING, SUPERVISING})
       (TaskStateInvalid (''cannot supervise from state '' @ task_state_value (t_state task))))) (\<lambda>_.
     let new_state = (if t_state task = EXECUTING then SUPERVISING else EXECUTING) in
     bindS (set_state task new_state) (\<lambda>_.
     bindS (uuid_str E) (\<lambda>u.
     bindS (audit_append E ''supervision_handoff'' (c_worker_id claim)
       (JDict [(''claim_id'', JStr claim_id), (''handoff_reason'', JStr handoff_reason),
               (''urgency'', JStr urgency), (''new_state'', JStr (task_state_value new_state))])
       (Some claim_id) (Some (t_task_id task)) None) (\<lambda>_.
     ret (JDict [(''supervisor_id'', JStr ''did:wcp:rentably-ops''),
                 (''session_url'', JStr (''wss://localhost/wcp/sup/'' @ u)),
                 (''takeover_authority'', JStr ''full'')]))))))"

definition terminal_states :: "task_state list" where
  "terminal_states = [COMPLETED, VOIDED, ABORTED]"

definition task_abort :: "env \<Rightarrow> string \<Rightarrow> string \<Rightarrow> json \<Rightarrow> (db, json) py" where
  "task_abort E claim_id reason state_snapshot =
     bindS (claim_and_task claim_id) (\<lambda>(claim, task).
     bindS (lift (raise_if (t_state task \<in> set terminal_states)
       (TaskStateInvalid (''cannot abort from terminal state '' @ task_state_value (t_state task))))) (\<lambda>_.
     bindS (set_state task ABORTED) (\<lambda>_.
     bindS (lift (j_get (t_task_json task) ''accounting_ref'' JNull)) (\<lambda>accounting_ref.
     bindS (audit_append E ''task_aborted'' (c_worker_id claim)
       (JDict [(''claim_id'', JStr claim_id), (''task_id'', JStr (t_task_id task)),
               (''reason'', JStr reason), (''state_snapshot'', py_or state_snapshot (JDict [])),
               (''accounting_ref'', accounting_ref)])
       (Some claim_id) (Some (t_task_id task)) None) (\<lambda>_.
     bindS (uuid_str E) (\<lambda>u.
     ret (JDict [(''abort_id'', JStr u)])))))))"

subsection \<open>audit/observe\<close>

definition observed_rows :: "string \<Rightarrow> string \<Rightarrow> db \<Rightarrow> wcp_audit list" where
  "observed_rows claim_id task_id s =
     sort_key (\<lambda>e. utc_us (a_timestamp e))
       (filter (\<lambda>e. if claim_id \<noteq> [] then a_claim_id e = Some claim_id else a_task_id e = Some task_id)
         (audits s))"

definition observed_entry :: "env \<Rightarrow> wcp_audit \<Rightarrow> json" where
  "observed_entry E r =
     JDict [(''event_type'', JStr (a_event_type r)), (''actor_did'', JStr (a_actor_did r)),
            (''timestamp'', JStr (isoformat E (Naive (utc_us (a_timestamp r))))),
            (''payload'', a_payload_json r), (''payload_hash'', JStr (a_payload_hash r)),
            (''prev_hash'', opt_str (a_prev_hash r)), (''this_hash'', JStr (a_this_hash r)),
            (''claim_id'', opt_str (a_claim_id r)), (''task_id'', opt_str (a_task_id r))]"

definition first_payload :: "string \<Rightarrow> wcp_audit list \<Rightarrow> json" where
  "first_payload ev rows =
     (case find (\<lambda>r. a_event_type r = ev) rows of Some r \<Rightarrow> a_payload_json r | None \<Rightarrow> JNull)"

fun payload_decision :: "json \<Rightarrow> json list" where
  "payload_decision (JDict d) = [case map_of d ''decision'' of Some v \<Rightarrow> v | None \<Rightarrow> JNull]"
| "payload_decision _ = []"

definition observe_audit :: "env \<Rightarrow> string option \<Rightarrow> string option \<Rightarrow> (db, json) py" where
  "observe_audit E claim_id0 task_id0 =
     (let claim_id = or_empty claim_id0; task_id = or_empty task_id0 in
      bindS (lift (raise_if (claim_id = [] \<and> task_id = [])
        (ValueError ''INVALID_PARAMS: claim_id or task_id required''))) (\<lambda>_.
      bindS (gets (observed_rows claim_id task_id)) (\<lambda>rows.
      bindS (gets (\<lambda>s. if claim_id \<noteq> [] then JBool (verify_chain E s claim_id) else JNull)) (\<lambda>verify_ok.
      let attempts = filter (\<lambda>r. a_event_type r = ''attestation_attempt'') rows in
      ret (JDict
        [(''entries'', JList (map (observed_entry E) rows)),
         (''event_types'', JList (map (\<lambda>r. JStr (a_event_type r)) rows)),
         (''verify_chain_ok'', verify_ok),
         (''task_completed_payload'', first_payload ''task_completed'' rows),
         (''task_voided_payload'', first_payload ''task_voided'' rows),
         (''task_aborted_payload'', first_payload ''task_aborted'' rows),
         (''attestation_attempts'', JInt (int (length attempts))),
         (''attempt_verifier_decisions'',
            JList (concat (map (\<lambda>r. payload_decision (a_payload_json r)) attempts)))])))))"

end
