(* ===== verification/Lifecycle.thy ===== *)
theory Lifecycle
  imports Tasks_Service
begin

text \<open>
  The task state machine as a step relation on task rows, and the contract under which every
  handler of the task and capability services keeps a predicate on the database: the locale
  \<open>db_invariant\<close>. Its assumptions are the few ways handlers change the database (the clock
  and the UUID source advance, an audit entry is appended, a row is added, a task takes one
  step of the state machine); its lemmas go through every handler once. Each invariant of
  the development is an interpretation.
\<close>

inductive task_step :: "wcp_task \<Rightarrow> wcp_task \<Rightarrow> bool" where
  claim: "t_state t = POSTED \<Longrightarrow> task_step t (t\<lparr>t_state := CLAIMED\<rparr>)"
| open_or_release: "t_state t \<in> {CLAIMED, SUPERVISING} \<Longrightarrow> task_step t (t\<lparr>t_state := EXECUTING\<rparr>)"
| handoff: "t_state t \<in> {EXECUTING, SUPERVISING} \<Longrightarrow> task_step t (t\<lparr>t_state := SUPERVISING\<rparr>)"
| attempt: "t_state t \<in> {EXECUTING, SUPERVISING, RECHECKING} \<Longrightarrow> max_attempts_of t = Inr m \<Longrightarrow>
    task_step t (t\<lparr>t_attestation_attempts_used := t_attestation_attempts_used t + 1, t_state := ATTESTING\<rparr>)"
| complete: "t_state t = ATTESTING \<Longrightarrow> task_step t (t\<lparr>t_state := COMPLETED\<rparr>)"
| recheck: "t_state t = ATTESTING \<Longrightarrow> max_attempts_of t = Inr m \<Longrightarrow> t_attestation_attempts_used t < m \<Longrightarrow>
    task_step t (t\<lparr>t_state := RECHECKING\<rparr>)"
| void: "t_state t = ATTESTING \<Longrightarrow> max_attempts_of t = Inr m \<Longrightarrow> m \<le> t_attestation_attempts_used t \<Longrightarrow>
    task_step t (t\<lparr>t_state := VOIDED\<rparr>)"
| abort: "t_state t \<notin> set terminal_states \<Longrightarrow> task_step t (t\<lparr>t_state := ABORTED\<rparr>)"

inductive_cases task_step_elim: "task_step t t'"

lemma task_step_static:
  "task_step t t' \<Longrightarrow> t_task_id t' = t_task_id t \<and> t_task_json t' = t_task_json t \<and>
     t_posted_by t' = t_posted_by t \<and> t_expiry t' = t_expiry t"
  by (auto elim: task_step_elim)

lemma task_step_nonterminal: "task_step t t' \<Longrightarrow> t_state t \<notin> set terminal_states"
  by (auto elim!: task_step_elim simp: terminal_states_def)

lemma task_step_irreversible: "task_step\<^sup>*\<^sup>* t t' \<Longrightarrow> t_state t \<in> set terminal_states \<Longrightarrow> t' = t"
  by (auto elim: converse_rtranclpE dest: task_step_nonterminal)

text \<open>A task row as \<open>tasks/post\<close> creates it.\<close>

definition fresh_task :: "wcp_task \<Rightarrow> bool" where
  "fresh_task t \<longleftrightarrow> t_state t = POSTED \<and> t_attestation_attempts_used t = 0"

definition has_claim :: "db \<Rightarrow> string \<Rightarrow> bool" where
  "has_claim s k \<longleftrightarrow> k \<in> c_task_id ` set (claims s)"

definition unclaimed :: "db \<Rightarrow> string \<Rightarrow> bool" where
  "unclaimed s k \<longleftrightarrow> \<not> list_ex (\<lambda>c. c_task_id c = k \<and> c_accepted c) (claims s)"

subsection \<open>What does not touch tasks and claims\<close>

definition tc_pred :: "(db \<Rightarrow> bool) \<Rightarrow> bool" where
  "tc_pred Q \<longleftrightarrow> (\<forall>s s'. tasks s = tasks s' \<longrightarrow> claims s = claims s' \<longrightarrow> Q s = Q s')"

lemma tc_pred_row [simp]: "tc_pred (\<lambda>s. get_task s k = Some t)"
  by (simp add: tc_pred_def)

lemma tc_pred_conj [simp]: "tc_pred Q \<Longrightarrow> tc_pred Q' \<Longrightarrow> tc_pred (\<lambda>s. Q s \<and> Q' s)"
  unfolding tc_pred_def by blast

lemma tc_pred_unclaimed [simp]: "tc_pred (\<lambda>s. unclaimed s k)"
  by (simp add: tc_pred_def unclaimed_def)

lemma tc_pred_has_claim [simp]: "tc_pred (\<lambda>s. has_claim s k)"
  by (simp add: tc_pred_def has_claim_def)

lemma keeps_tc:
  assumes "tc_pred Q" "\<And>s. tasks (snd (m s)) = tasks s \<and> claims (snd (m s)) = claims s"
  shows "keeps Q m"
  using assms unfolding keeps_def tc_pred_def by blast

lemma keeps_tc_basic:
  assumes "tc_pred Q"
  shows "keeps Q (utcnow E)" "keeps Q (uuid_str E)" "keeps Q (add_session x)" "keeps Q (add_attestation a)"
    "keeps Q db_flush" "keeps Q (audit_append E et ac pl ci ti None)"
  by (auto intro!: keeps_tc [OF assms]
      simp: access_defs audit_append_run Let_def row_add_def)

lemma keeps_tc_attest_one:
  assumes "tc_pred Q"
  shows "keeps Q (attest_one E reg cid wid r tp ev)"
  unfolding attest_one_def store_attestation_def
  by (intro keeps_bindS keeps_lift)
    (auto split: sum.splits intro!: keeps_bindS keeps_tc_basic [OF assms])

text \<open>After \<open>_claim_and_task\<close> the handler holds the rows of the database.\<close>

definition holds_rows :: "string \<Rightarrow> wcp_claim \<Rightarrow> wcp_task \<Rightarrow> db \<Rightarrow> bool" where
  "holds_rows cid c t s \<longleftrightarrow>
     get_claim s cid = Some c \<and> c_task_id c = t_task_id t \<and> get_task s (t_task_id t) = Some t"

lemma tc_pred_holds [simp]: "tc_pred (holds_rows cid c t)"
  by (simp add: tc_pred_def holds_rows_def)

lemma holds_rows_claim: "holds_rows cid c t s \<Longrightarrow> has_claim s (t_task_id t)"
  unfolding holds_rows_def has_claim_def by (metis image_eqI row_get_Some)

lemma claim_and_task_run:
  "claim_and_task cid s =
     (case get_claim s cid of
        None \<Rightarrow> (Inl (TaskNotFound (''claim '' @ cid @ '' not found'')), s)
      | Some c \<Rightarrow> (case get_task s (c_task_id c) of
          None \<Rightarrow> (Inl (TaskNotFound (''task '' @ c_task_id c @ '' not found'')), s)
        | Some t \<Rightarrow> (Inr (c, t), s)))"
  by (simp add: claim_and_task_def split: option.splits)

lemma claim_and_task_ok:
  "claim_and_task cid s = (Inr (c, t), u) \<longleftrightarrow> u = s \<and> holds_rows cid c t s"
proof
  assume "claim_and_task cid s = (Inr (c, t), u)"
  then have "u = s" "get_claim s cid = Some c" and row: "get_task s (c_task_id c) = Some t"
    by (auto simp: claim_and_task_run split: option.splits)
  moreover from row_get_Some [OF row] have "t_task_id t = c_task_id c" by simp
  ultimately show "u = s \<and> holds_rows cid c t s" by (simp add: holds_rows_def)
qed (simp add: claim_and_task_run holds_rows_def)

lemma leads_claim_task:
  assumes "\<And>c t. leads (\<lambda>s. P s \<and> holds_rows cid c t s) (f (c, t)) R" "\<And>s. P s \<Longrightarrow> R s"
  shows "leads P (bindS (claim_and_task cid) f) R"
  unfolding leads_def
proof (intro allI impI)
  fix s assume "P s"
  consider (err) e where "claim_and_task cid s = (Inl e, s)" | (ok) c t where "claim_and_task cid s = (Inr (c, t), s)"
    unfolding claim_and_task_run
    by (cases "get_claim s cid"; cases "get_task s (c_task_id (the (get_claim s cid)))") auto
  then show "R (snd (bindS (claim_and_task cid) f s))"
  proof cases
    case err
    with \<open>P s\<close> assms(2) show ?thesis by (simp add: bindS_run)
  next
    case ok
    then have "holds_rows cid c t s" by (simp add: claim_and_task_ok)
    with ok \<open>P s\<close> leadsD [OF assms(1)] show ?thesis by (simp add: bindS_run)
  qed
qed

definition live_rows :: "(wcp_claim \<times> wcp_task) list \<Rightarrow> db \<Rightarrow> bool" where
  "live_rows rows s \<longleftrightarrow>
     (\<forall>(c, t) \<in> set rows. \<exists>r. get_task s (t_task_id t) = Some r \<and> t_state r \<in> {EXECUTING, SUPERVISING} \<and>
       has_claim s (t_task_id t))"

subsection \<open>The contract\<close>

locale db_invariant =
  fixes E :: env and P :: "db \<Rightarrow> bool"
  assumes keys: "P s \<Longrightarrow> distinct (map t_task_id (tasks s))"
    and tick: "P s \<Longrightarrow> P (s\<lparr>n_now := Suc (n_now s)\<rparr>)"
    and draw: "P s \<Longrightarrow> P (s\<lparr>n_uuid := Suc (n_uuid s)\<rparr>)"
    and log: "P s \<Longrightarrow> uuid4 E (n_uuid s) \<notin> a_entry_id ` set (audits s) \<Longrightarrow>
      P (s\<lparr>n_now := Suc (n_now s), n_uuid := Suc (n_uuid s),
           audits := audits s @ [new_entry E et ac (JDict pl) ci ti s]\<rparr>)"
    and new_worker: "P s \<Longrightarrow> w_worker_id w \<notin> w_worker_id ` set (workers s) \<Longrightarrow>
      P (s\<lparr>workers := workers s @ [w]\<rparr>)"
    and upd_worker: "P s \<Longrightarrow> (\<And>w. w_worker_id (f w) = w_worker_id w) \<Longrightarrow>
      P (s\<lparr>workers := row_update w_worker_id k f (workers s)\<rparr>)"
    and new_session: "P s \<Longrightarrow> P (s\<lparr>sessions := sessions s @ [x]\<rparr>)"
    and new_attestation: "P s \<Longrightarrow> P (s\<lparr>attestations := attestations s @ [a]\<rparr>)"
    and new_subscription: "P s \<Longrightarrow> P (s\<lparr>subscriptions := subscriptions s @ [u]\<rparr>)"
    and new_task: "P s \<Longrightarrow> t_task_id t \<notin> t_task_id ` set (tasks s) \<Longrightarrow> fresh_task t \<Longrightarrow>
      P (s\<lparr>tasks := tasks s @ [t]\<rparr>)"
    and new_claim: "P s \<Longrightarrow> get_task s (c_task_id c) = Some t \<Longrightarrow> t_state t = POSTED \<Longrightarrow>
      unclaimed s (c_task_id c) \<Longrightarrow> c_accepted c \<Longrightarrow> c_claim_id c \<notin> c_claim_id ` set (claims s) \<Longrightarrow>
      P (s\<lparr>claims := claims s @ [c],
           tasks := row_update t_task_id (c_task_id c) (\<lambda>t. t\<lparr>t_state := CLAIMED\<rparr>) (tasks s)\<rparr>)"
    and heartbeat: "P s \<Longrightarrow>
      P (s\<lparr>claims := row_update c_claim_id k (\<lambda>c. c\<lparr>c_last_heartbeat_at := Some d\<rparr>) (claims s)\<rparr>)"
    and move: "P s \<Longrightarrow> get_task s k = Some t \<Longrightarrow> has_claim s k \<Longrightarrow> task_step t (g t) \<Longrightarrow>
      (\<And>r. t_task_id (g r) = t_task_id r) \<Longrightarrow> P (s\<lparr>tasks := row_update t_task_id k g (tasks s)\<rparr>)"
begin

lemma keeps_utcnow: "keeps P (utcnow E)"
  by (simp add: keeps_def utcnow_def tick)

lemma keeps_uuid: "keeps P (uuid_str E)"
  by (simp add: keeps_def uuid_str_def draw)

lemma keeps_log: "keeps P (audit_append E et ac (JDict pl) ci ti None)"
proof (rule keepsI)
  fix s assume "P s"
  then have "P (s\<lparr>n_now := Suc (n_now s), n_uuid := Suc (n_uuid s)\<rparr>)"
    using draw [OF tick] by simp
  with \<open>P s\<close> log [of s et ac pl ci ti]
  show "P (snd (audit_append E et ac (JDict pl) ci ti None s))"
    by (simp add: audit_append_run Let_def)
qed

lemma keeps_add_worker: "keeps P (add_worker w)"
  by (simp add: keeps_def add_worker_def row_add_def new_worker)

lemma keeps_set_worker: "(\<And>w. w_worker_id (f w) = w_worker_id w) \<Longrightarrow> keeps P (set_worker k f)"
  by (simp add: keeps_def set_worker_def upd_worker)

lemma keeps_add_session: "keeps P (add_session x)"
  by (simp add: keeps_def add_session_def row_add_def new_session)

lemma keeps_add_attestation: "keeps P (add_attestation a)"
  by (simp add: keeps_def add_attestation_def row_add_def new_attestation)

lemma keeps_add_subscription: "keeps P (add_subscription u)"
  by (simp add: keeps_def add_subscription_def row_add_def new_subscription)

lemma keeps_add_task: "fresh_task t \<Longrightarrow> keeps P (add_task t)"
  by (simp add: keeps_def add_task_def row_add_def new_task)

lemma keeps_flush: "keeps P db_flush"
  by (simp add: keeps_def db_flush_def)

lemma keeps_heartbeat: "keeps P (set_claim k (\<lambda>c. c\<lparr>c_last_heartbeat_at := Some d\<rparr>))"
  by (simp add: keeps_def set_claim_def heartbeat)

lemmas keeps_basic = keeps_bindS keeps_ret keeps_raise keeps_lift keeps_gets keeps_utcnow keeps_uuid
  keeps_log keeps_add_worker keeps_set_worker keeps_add_session keeps_add_attestation
  keeps_add_subscription keeps_flush keeps_heartbeat

lemma keeps_upsert: "keeps P (upsert_capabilities E wid caps pid ttl)"
  unfolding upsert_capabilities_def
  by (intro keeps_basic) (auto split: option.splits intro!: keeps_basic)

lemma keeps_list: "keeps P (list_capabilities wid)"
  unfolding list_capabilities_def by (intro keeps_basic) (auto split: option.splits)

lemma keeps_subscribe: "keeps P (create_subscription E did f r base ttl)"
  unfolding create_subscription_def Let_def by (intro keeps_basic)

lemma keeps_observe: "keeps P (observe_audit E ci ti)"
  unfolding observe_audit_def Let_def by (intro keeps_basic)

lemma keeps_post: "keeps P (task_post E reg task expiry info)"
  unfolding task_post_def Let_def
  by (intro keeps_basic keeps_add_task) (auto simp: fresh_task_def intro!: keeps_basic)

text \<open>Handlers that move the task they loaded: guard, write, then log.\<close>

lemma leads_set_state:
  assumes "task_step t (t\<lparr>t_state := st\<rparr>)"
  shows "leads (\<lambda>s. P s \<and> holds_rows cid c t s) (set_state t st) P"
  unfolding leads_def set_state_def set_task_def
  using move [where k = "t_task_id t" and t = t and g = "\<lambda>r. r\<lparr>t_state := st\<rparr>"] assms holds_rows_claim
  by (fastforce simp: holds_rows_def)

lemma keeps_held: "keeps P m \<Longrightarrow> (\<And>Q. tc_pred Q \<Longrightarrow> keeps Q m) \<Longrightarrow> keeps (\<lambda>s. P s \<and> holds_rows cid c t s) m"
  by (rule keeps_conj) simp_all

lemma keeps_open: "keeps P (execute_open E cid)"
  unfolding keeps_leads execute_open_def
proof (rule leads_claim_task, unfold prod.case, rule leads_bind_lift, goal_cases)
  case (1 c t u)
  then have step: "task_step t (t\<lparr>t_state := EXECUTING\<rparr>)"
    by (intro task_step.open_or_release) simp
  show ?case
    by (intro leads_bind_keeps keeps_held keeps_basic keeps_tc_basic leads_bind [OF leads_set_state [OF step]]
        leads_keeps [OF keeps_bindS]) simp_all
qed simp_all

lemma keeps_event: "keeps P (execute_event E cid et ts (JDict pl) sig)"
  unfolding keeps_leads execute_event_def
proof (rule leads_claim_task, unfold prod.case, goal_cases)
  case (1 c t)
  have "keeps P (if et = ''heartbeat'' then bindS (lift (parse_iso E ts))
      (\<lambda>x. set_claim cid (\<lambda>c. c\<lparr>c_last_heartbeat_at := Some x\<rparr>)) else ret ())"
    by (simp add: keeps_basic)
  then show ?case by (intro leads_keeps keeps_basic) simp_all
qed simp

lemma keeps_supervise: "keeps P (task_supervise E cid reason snap urg)"
  unfolding keeps_leads task_supervise_def
proof (rule leads_claim_task, unfold prod.case Let_def, rule leads_bind_lift, goal_cases)
  case (1 c t u)
  then have step: "task_step t (t\<lparr>t_state := if t_state t = EXECUTING then SUPERVISING else EXECUTING\<rparr>)"
    by (auto intro: task_step.intros)
  show ?case
    by (intro leads_bind [OF leads_set_state [OF step]] leads_keeps [OF keeps_bindS] keeps_basic) simp_all
qed simp_all

lemma keeps_abort: "keeps P (task_abort E cid reason snap)"
  unfolding keeps_leads task_abort_def
proof (rule leads_claim_task, unfold prod.case, rule leads_bind_lift, goal_cases)
  case (1 c t u)
  then have step: "task_step t (t\<lparr>t_state := ABORTED\<rparr>)"
    by (intro task_step.abort) simp
  show ?case
    by (intro leads_bind [OF leads_set_state [OF step]] leads_keeps [OF keeps_bindS] keeps_basic) simp_all
qed simp_all

lemma leads_new_claim:
  assumes "c_task_id c = k" "c_accepted c" "t_state t = POSTED" "\<And>u. keeps P (f u)"
  shows "leads (\<lambda>s. P s \<and> get_task s k = Some t \<and> unclaimed s k)
    (bindS (add_claim c) (\<lambda>_. bindS (set_task k (\<lambda>t. t\<lparr>t_state := CLAIMED\<rparr>)) f)) P"
  unfolding leads_def
proof (intro allI impI)
  fix s assume pre: "P s \<and> get_task s k = Some t \<and> unclaimed s k"
  show "P (snd (bindS (add_claim c) (\<lambda>_. bindS (set_task k (\<lambda>t. t\<lparr>t_state := CLAIMED\<rparr>)) f) s))"
  proof (cases "c_claim_id c \<in> c_claim_id ` set (claims s)")
    case True
    with pre show ?thesis by (simp add: bindS_def add_claim_def row_add_def)
  next
    case False
    with pre assms new_claim [of s c t]
    have "P (s\<lparr>claims := claims s @ [c], tasks := row_update t_task_id k (\<lambda>t. t\<lparr>t_state := CLAIMED\<rparr>) (tasks s)\<rparr>)"
      by simp
    with False assms(4) show ?thesis
      by (simp add: bindS_def add_claim_def row_add_def set_task_def keepsD)
  qed
qed

lemma keeps_claim: "keeps P (task_claim E tid wid eta acc bid)"
  unfolding keeps_leads task_claim_def
proof (rule leads_bind_gets, rule leads_bind_lift, rule leads_bind_lift, goal_cases)
  case (1 found t u)
  then have found: "found = Some t" and posted: "t_state t = POSTED"
    by (auto simp: claim_guard_def split: if_splits)
  have row: "keeps (\<lambda>s. P s \<and> get_task s tid = Some t) (utcnow E)"
    by (intro keeps_conj keeps_basic keeps_tc_basic) simp
  have held: "keeps (\<lambda>s. P s \<and> get_task s tid = Some t \<and> unclaimed s tid) (utcnow E)"
    "keeps (\<lambda>s. P s \<and> get_task s tid = Some t \<and> unclaimed s tid) (uuid_str E)"
    by (intro keeps_conj keeps_basic keeps_tc_basic; simp)+
  show ?case
    unfolding found
  proof (rule leads_bind_keeps [OF row], rule leads_bind_lift, rule leads_bind_lift,
      rule leads_bind_keeps [OF keeps_gets], rule leads_bind_lift, rule leads_bind_lift,
      rule leads_bind_lift, rule leads_bind_gets, rule leads_bind_lift, goal_cases)
    case (1 now expired e w worker sd ca taken g)
    then have "\<not> taken" by simp
    show ?case
      by (rule leads_pre [where P = "\<lambda>s. P s \<and> get_task s tid = Some t \<and> unclaimed s tid"],
          intro leads_bind_lift leads_bind_keeps held leads_new_claim)
        (use \<open>\<not> taken\<close> posted in \<open>auto simp: unclaimed_def intro!: keeps_basic\<close>)
  qed simp_all
qed simp_all

text \<open>
  The heartbeat sweep: its rows were read before the loop, so the loop invariant says that
  each of them still names a task that is executing or has just been handed off.
\<close>

lemma keeps_promote:
  assumes "p \<in> set rows"
  shows "keeps (\<lambda>s. P s \<and> live_rows rows s) (promote_stale E cutoff p)"
proof -
  obtain c t where p: "p = (c, t)" by (cases p)
  have set: "keeps (\<lambda>s. P s \<and> live_rows rows s) (set_state t SUPERVISING)"
  proof (rule keepsI)
    fix s assume J: "P s \<and> live_rows rows s"
    with assms p obtain r where r: "get_task s (t_task_id t) = Some r" "t_state r \<in> {EXECUTING, SUPERVISING}"
        "has_claim s (t_task_id t)"
      by (auto simp: live_rows_def)
    from J r(1,3) task_step.handoff [OF r(2)]
    have "P (s\<lparr>tasks := row_update t_task_id (t_task_id t) (\<lambda>t. t\<lparr>t_state := SUPERVISING\<rparr>) (tasks s)\<rparr>)"
      by (intro move) auto
    with J r show "P (snd (set_state t SUPERVISING s)) \<and> live_rows rows (snd (set_state t SUPERVISING s))"
      by (auto simp: set_state_def set_task_def live_rows_def row_update_get has_claim_def)
  qed
  have log: "keeps (\<lambda>s. P s \<and> live_rows rows s) (audit_append E et ac (JDict pl) ci ti None)" for et ac pl ci ti
    by (intro keeps_conj keeps_basic keeps_tc_basic) (simp add: tc_pred_def live_rows_def has_claim_def)
  show ?thesis
    unfolding promote_stale_def p
    by (cases "c_last_heartbeat_at c") (auto intro!: keeps_bindS set log)
qed

lemma keeps_heartbeats: "keeps P (check_heartbeats E now)"
  unfolding keeps_leads check_heartbeats_def
proof (rule leads_bind_keeps, goal_cases)
  case 1
  show ?case by (cases now) (simp_all add: keeps_basic)
next
  case (2 t)
  show ?case
  proof (rule leads_bind_gets, goal_cases)
    case (1 rows)
    have "live_rows rows s" if "P s" "executing_claims s = rows" for s
    proof -
      have "get_task s (t_task_id x) = Some x" if "x \<in> set (tasks s)" for x
        using that keys [OF \<open>P s\<close>] by (rule row_get_unique [rotated])
      with that(2) show ?thesis by (fastforce simp: live_rows_def executing_claims_def has_claim_def)
    qed
    then show ?case
      by (intro leads_weaken [OF leads_keeps [where R = "\<lambda>s. P s \<and> live_rows rows s"]]
          keeps_bindS keeps_mapS keeps_promote) auto
  qed
qed simp

text \<open>
  Attestation: the evidence loop leaves the loaded rows alone, the attempt is counted on
  them, and the routing takes the second step from the row the first one wrote.
\<close>

lemma keeps_attest_one: "keeps P (attest_one E reg cid wid r tp ev)"
  unfolding attest_one_def store_attestation_def
  by (intro keeps_bindS keeps_lift) (auto split: sum.splits intro!: keeps_basic)

lemma keeps_route:
  assumes "max_attempts_of t = Inr m" and "n = t_attestation_attempts_used t + 1"
    and "t' = t\<lparr>t_attestation_attempts_used := n, t_state := ATTESTING\<rparr>"
  shows "leads (\<lambda>s. P s \<and> get_task s (t_task_id t) = Some t' \<and> has_claim s (t_task_id t))
    (attest_route E cid t acct n (max 0 (m - n)) agg) P"
proof -
  have max: "max_attempts_of t' = Inr m"
    using assms by (simp add: max_attempts_of_def)
  have go: "leads (\<lambda>s. P s \<and> get_task s (t_task_id t) = Some t' \<and> has_claim s (t_task_id t)) (bindS (set_state t st)
      (\<lambda>_. bindS (audit_append E et coordinator_did (JDict pl) (Some cid) (Some (t_task_id t)) None) (\<lambda>_. ret ()))) P"
    if "task_step t' (t'\<lparr>t_state := st\<rparr>)" for st et pl
  proof (rule leads_bind)
    show "leads (\<lambda>s. P s \<and> get_task s (t_task_id t) = Some t' \<and> has_claim s (t_task_id t)) (set_state t st) P"
      unfolding leads_def set_state_def set_task_def
      using move [where k = "t_task_id t" and t = t' and g = "\<lambda>r. r\<lparr>t_state := st\<rparr>"] that by auto
  qed (auto intro!: leads_keeps keeps_basic)
  from assms(3) have att: "t_state t' = ATTESTING" "t_attestation_attempts_used t' = n" by simp_all
  show ?thesis
  proof (cases "vo_decision agg")
    case FAIL
    show ?thesis
    proof (cases "n < m")
      case True
      with att max have "task_step t' (t'\<lparr>t_state := RECHECKING\<rparr>)" by (intro task_step.recheck) auto
      with True show ?thesis by (simp add: attest_route_def FAIL go)
    next
      case False
      with att max have "task_step t' (t'\<lparr>t_state := VOIDED\<rparr>)" by (intro task_step.void) auto
      with False show ?thesis by (simp add: attest_route_def FAIL go)
    qed
  next
    case REVIEW
    then show ?thesis by (simp add: attest_route_def leads_def)
  next
    case PASS
    from task_step.complete [OF att(1)] show ?thesis by (simp add: attest_route_def PASS go)
  qed
qed

lemma keeps_attest: "keeps P (task_attest E reg cid evidence)"
  unfolding keeps_leads task_attest_def
proof (rule leads_claim_task, unfold prod.case Let_def, rule leads_bind_lift, rule leads_bind_lift,
    rule leads_bind_lift, rule leads_bind_lift, rule leads_bind_lift, rule leads_bind_keeps, goal_cases)
  case (1 c t u req tp m r)
  show ?case by (intro keeps_held keeps_mapS keeps_attest_one keeps_tc_attest_one)
next
  case (2 c t u req tp m r outs)
  define n where "n = t_attestation_attempts_used t + 1"
  define t' where "t' = t\<lparr>t_attestation_attempts_used := n, t_state := ATTESTING\<rparr>"
  from 2 have "t_state t \<in> {EXECUTING, SUPERVISING, RECHECKING}"
    by (auto simp: attest_guard_def split: if_splits)
  from task_step.attempt [OF this 2(4)] have step: "task_step t t'"
    by (simp add: t'_def n_def)
  have counted: "leads (\<lambda>s. P s \<and> holds_rows cid c t s)
      (set_task (t_task_id t) (\<lambda>t. t\<lparr>t_attestation_attempts_used := n, t_state := ATTESTING\<rparr>))
      (\<lambda>s. P s \<and> get_task s (t_task_id t) = Some t' \<and> has_claim s (t_task_id t))"
    unfolding leads_def set_task_def
    using move [where k = "t_task_id t" and t = t and
        g = "\<lambda>t. t\<lparr>t_attestation_attempts_used := n, t_state := ATTESTING\<rparr>"] step
      holds_rows_claim [of cid c t]
    by (auto simp: holds_rows_def row_update_get t'_def has_claim_def)
  have held: "keeps (\<lambda>s. P s \<and> get_task s (t_task_id t) = Some t' \<and> has_claim s (t_task_id t)) db_flush"
    "keeps (\<lambda>s. P s \<and> get_task s (t_task_id t) = Some t' \<and> has_claim s (t_task_id t)) (audit_append E et ac (JDict pl) ci ti None)" for et ac pl ci ti
    by (intro keeps_conj keeps_basic keeps_tc_basic; simp)+
  show ?case
    unfolding n_def [symmetric]
    by (rule leads_bind_lift, rule leads_bind [OF counted], intro leads_bind_keeps held leads_bind_lift
        leads_bind [OF keeps_route [OF 2(4) n_def t'_def]]) (auto intro!: leads_keeps)
qed simp_all

end

subsection \<open>Keys stay unique\<close>

interpretation keys: db_invariant E keys_ok for E
proof
  fix s k and g :: "wcp_task \<Rightarrow> wcp_task"
  show "keys_ok s \<Longrightarrow> (\<And>r. t_task_id (g r) = t_task_id r) \<Longrightarrow>
      keys_ok (s\<lparr>tasks := row_update t_task_id k g (tasks s)\<rparr>)"
    by (simp add: keys_ok_def row_update_keys)
qed (simp_all add: keys_ok_def row_update_keys)

subsection \<open>The audit log stays verifiable\<close>

definition log_inv :: "env \<Rightarrow> db \<Rightarrow> bool" where
  "log_inv E s \<longleftrightarrow> keys_ok s \<and> (strict_mono (clock E) \<and> sig_correct E \<longrightarrow> audit_inv E s)"

lemma audit_inv_frame:
  "audit_inv E s \<Longrightarrow> audits t = audits s \<Longrightarrow> n_now t = n_now s \<Longrightarrow> audit_inv E t"
  by (simp add: audit_inv_def)

interpretation logged: db_invariant E "log_inv E" for E
proof
  fix s
  show "log_inv E s \<Longrightarrow> log_inv E (s\<lparr>n_now := Suc (n_now s)\<rparr>)"
    using keys.tick by (auto simp: log_inv_def intro: audit_inv_tick)
next
  fix s et ac and pl :: "(string \<times> json) list" and ci ti
  assume inv: "log_inv E s" and new: "uuid4 E (n_uuid s) \<notin> a_entry_id ` set (audits s)"
  let ?t = "s\<lparr>n_now := Suc (n_now s), n_uuid := Suc (n_uuid s), audits := audits s @ [new_entry E et ac (JDict pl) ci ti s]\<rparr>"
  have "audit_inv E ?t" if "strict_mono (clock E)" "sig_correct E"
    proof (rule audit_inv_snoc [OF that])
    show "audit_inv E s" using inv that by (simp add: log_inv_def)
  qed simp_all
  with inv keys.log [OF _ new] show "log_inv E ?t" by (simp add: log_inv_def)
qed (auto simp: log_inv_def audit_inv_def keys_ok_def row_update_keys)

text \<open>Every entry the handlers write has a JSON object as its payload.\<close>

definition payloads_inv :: "db \<Rightarrow> bool" where
  "payloads_inv s \<longleftrightarrow> keys_ok s \<and> (\<forall>e \<in> set (audits s). \<exists>d. a_payload_json e = JDict d)"

interpretation payloads: db_invariant E payloads_inv for E
  by unfold_locales (auto simp: payloads_inv_def keys_ok_def row_update_keys)

subsection \<open>Tasks move along the state machine\<close>

definition task_sim :: "db \<Rightarrow> db \<Rightarrow> bool" where
  "task_sim s0 s \<longleftrightarrow> keys_ok s \<and>
     (\<forall>k a. get_task s0 k = Some a \<longrightarrow> (\<exists>b. get_task s k = Some b \<and> task_step\<^sup>*\<^sup>* a b))"

lemma task_sim_move:
  assumes "task_sim s0 s" "get_task s k = Some t" "task_step t (g t)"
    and "\<And>r. t_task_id (g r) = t_task_id r" "tasks s' = row_update t_task_id k g (tasks s)" "keys_ok s'"
  shows "task_sim s0 s'"
proof -
  have "\<exists>b. get_task s' j = Some b \<and> task_step\<^sup>*\<^sup>* a b" if "get_task s0 j = Some a" for j a
  proof -
    from that assms(1) obtain b where b: "get_task s j = Some b" "task_step\<^sup>*\<^sup>* a b"
      by (auto simp: task_sim_def)
    show ?thesis
    proof (cases "j = k")
      case True
      with b assms(2,3) have "task_step\<^sup>*\<^sup>* a (g t)" by auto
      with True assms(2,4,5) show ?thesis by (simp add: row_update_get)
    next
      case False
      with b assms(4,5) show ?thesis by (simp add: row_update_get)
    qed
  qed
  with assms(6) show ?thesis by (simp add: task_sim_def)
qed

interpretation sim: db_invariant E "task_sim s0" for E s0
proof
  fix s t
  assume sim: "task_sim s0 s" and new: "t_task_id t \<notin> t_task_id ` set (tasks s)" and "fresh_task t"
  then have "keys_ok (s\<lparr>tasks := tasks s @ [t]\<rparr>)"
    by (intro keys.new_task) (simp_all add: task_sim_def)
  moreover have "get_task (s\<lparr>tasks := tasks s @ [t]\<rparr>) k = Some b" if "get_task s k = Some b" for k b
    using that by (simp add: row_get_append)
  ultimately show "task_sim s0 (s\<lparr>tasks := tasks s @ [t]\<rparr>)"
    using sim unfolding task_sim_def by blast
next
  fix s and c :: wcp_claim and t
  assume a: "task_sim s0 s" "get_task s (c_task_id c) = Some t" "t_state t = POSTED"
    "unclaimed s (c_task_id c)" "c_accepted c" "c_claim_id c \<notin> c_claim_id ` set (claims s)"
  then have "keys_ok (s\<lparr>claims := claims s @ [c],
      tasks := row_update t_task_id (c_task_id c) (\<lambda>t. t\<lparr>t_state := CLAIMED\<rparr>) (tasks s)\<rparr>)"
    by (intro keys.new_claim [of s c t]) (simp_all add: task_sim_def)
  with task_step.claim [OF a(3)] show "task_sim s0 (s\<lparr>claims := claims s @ [c],
      tasks := row_update t_task_id (c_task_id c) (\<lambda>t. t\<lparr>t_state := CLAIMED\<rparr>) (tasks s)\<rparr>)"
    by (elim task_sim_move [OF a(1,2)]) simp_all
next
  fix s k t and g :: "wcp_task \<Rightarrow> wcp_task"
  assume a: "task_sim s0 s" "get_task s k = Some t" "has_claim s k" "task_step t (g t)" "\<And>r. t_task_id (g r) = t_task_id r"
  then have "keys_ok (s\<lparr>tasks := row_update t_task_id k g (tasks s)\<rparr>)"
    by (intro keys.move) (simp_all add: task_sim_def)
  then show "task_sim s0 (s\<lparr>tasks := row_update t_task_id k g (tasks s)\<rparr>)"
    by (elim task_sim_move [OF a(1,2,4,5), rotated]) simp_all
qed (auto simp: task_sim_def intro: keys.tick keys.draw keys.log keys.new_worker keys.upd_worker
    keys.new_session keys.new_attestation keys.new_subscription keys.heartbeat dest: keys.keys)

lemma task_sim_refl: "keys_ok s \<Longrightarrow> task_sim s s"
  by (auto simp: task_sim_def)

subsection \<open>Attestation attempts are bounded\<close>

text \<open>The most attempts a task can use: what its JSON allows, and one if that is less.\<close>

definition attempts_bound :: "wcp_task \<Rightarrow> int" where
  "attempts_bound t = (case max_attempts_of t of Inr m \<Rightarrow> max 1 m | Inl _ \<Rightarrow> 0)"

definition attempts_ok :: "wcp_task \<Rightarrow> bool" where
  "attempts_ok t \<longleftrightarrow>
     (let n = t_attestation_attempts_used t in
      0 \<le> n \<and> n \<le> attempts_bound t \<and>
      (t_state t \<in> {POSTED, CLAIMED, EXECUTING, SUPERVISING} \<longrightarrow> n = 0) \<and>
      (t_state t \<in> {ATTESTING, RECHECKING, COMPLETED, VOIDED} \<longrightarrow> 1 \<le> n) \<and>
      (t_state t = RECHECKING \<longrightarrow> (\<exists>m. max_attempts_of t = Inr m \<and> n < m)) \<and>
      (t_state t = VOIDED \<longrightarrow> (\<exists>m. max_attempts_of t = Inr m \<and> m \<le> n)))"

lemma max_attempts_cong [simp]:
  "max_attempts_of (t\<lparr>t_state := st\<rparr>) = max_attempts_of t"
  "max_attempts_of (t\<lparr>t_attestation_attempts_used := n\<rparr>) = max_attempts_of t"
  "attempts_bound (t\<lparr>t_state := st\<rparr>) = attempts_bound t"
  "attempts_bound (t\<lparr>t_attestation_attempts_used := n\<rparr>) = attempts_bound t"
  by (simp_all add: max_attempts_of_def attempts_bound_def)

lemma attempts_ok_step: "task_step t t' \<Longrightarrow> attempts_ok t \<Longrightarrow> attempts_ok t'"
proof (induction rule: task_step.induct)
  case (attempt t m)
  have bound: "attempts_bound t = max 1 m" using attempt(2) by (simp add: attempts_bound_def)
  from attempt have "0 \<le> t_attestation_attempts_used t"
    and "t_attestation_attempts_used t = 0 \<or> t_attestation_attempts_used t < m"
    by (auto simp: attempts_ok_def Let_def)
  then show ?case by (simp add: attempts_ok_def Let_def bound) linarith
qed (auto simp: attempts_ok_def Let_def)

lemma attempts_ok_fresh: "fresh_task t \<Longrightarrow> attempts_ok t"
  by (auto simp: fresh_task_def attempts_ok_def Let_def attempts_bound_def split: sum.splits)

definition attempts_inv :: "db \<Rightarrow> bool" where
  "attempts_inv s \<longleftrightarrow> keys_ok s \<and> (\<forall>t \<in> set (tasks s). attempts_ok t)"

lemma attempts_inv_move:
  assumes "attempts_inv s" "get_task s k = Some t" "task_step t (g t)"
    and "x \<in> set (row_update t_task_id k g (tasks s))"
  shows "attempts_ok x"
proof -
  from assms(1) have "distinct (map t_task_id (tasks s))" by (simp add: attempts_inv_def keys_ok_def)
  from row_update_mem [OF this assms(2,4)] show ?thesis
    using assms(1,2) attempts_ok_step [OF assms(3)] by (auto simp: attempts_inv_def dest: row_get_Some)
qed

interpretation attempts: db_invariant E attempts_inv for E
proof
  fix s t
  show "attempts_inv s \<Longrightarrow> t_task_id t \<notin> t_task_id ` set (tasks s) \<Longrightarrow> fresh_task t \<Longrightarrow>
      attempts_inv (s\<lparr>tasks := tasks s @ [t]\<rparr>)"
    by (auto simp: attempts_inv_def attempts_ok_fresh intro: keys.new_task)
next
  fix s and c :: wcp_claim and t
  assume a: "attempts_inv s" "get_task s (c_task_id c) = Some t" "t_state t = POSTED"
    "unclaimed s (c_task_id c)" "c_accepted c" "c_claim_id c \<notin> c_claim_id ` set (claims s)"
  from attempts_inv_move [OF a(1,2), of "\<lambda>t. t\<lparr>t_state := CLAIMED\<rparr>", OF task_step.claim [OF a(3)]] a
  show "attempts_inv (s\<lparr>claims := claims s @ [c],
      tasks := row_update t_task_id (c_task_id c) (\<lambda>t. t\<lparr>t_state := CLAIMED\<rparr>) (tasks s)\<rparr>)"
    using keys.new_claim [of s c t] by (auto simp: attempts_inv_def)
next
  fix s k t and g :: "wcp_task \<Rightarrow> wcp_task"
  assume a: "attempts_inv s" "get_task s k = Some t" "has_claim s k" "task_step t (g t)" "\<And>r. t_task_id (g r) = t_task_id r"
  from attempts_inv_move [OF a(1,2), of g, OF a(4)] a
  show "attempts_inv (s\<lparr>tasks := row_update t_task_id k g (tasks s)\<rparr>)"
    using keys.move [of s k t g] by (auto simp: attempts_inv_def)
qed (auto simp: attempts_inv_def keys_ok_def row_update_keys)

subsection \<open>One accepted claim per task\<close>

definition claims_inv :: "db \<Rightarrow> bool" where
  "claims_inv s \<longleftrightarrow> keys_ok s \<and> distinct (map c_task_id (claims s)) \<and>
     (\<forall>c \<in> set (claims s). c_accepted c \<and> c_task_id c \<in> t_task_id ` set (tasks s)) \<and>
     (\<forall>t \<in> set (tasks s). t_state t = POSTED \<longleftrightarrow> \<not> has_claim s (t_task_id t))"

lemma unclaimed_iff: "claims_inv s \<Longrightarrow> unclaimed s k \<longleftrightarrow> \<not> has_claim s k"
  by (auto simp: claims_inv_def unclaimed_def has_claim_def list_ex_iff)

lemma row_update_heartbeat [simp]:
  "map c_task_id (row_update c_claim_id k (\<lambda>c. c\<lparr>c_last_heartbeat_at := d\<rparr>) cs) = map c_task_id cs"
  "c_task_id ` set (row_update c_claim_id k (\<lambda>c. c\<lparr>c_last_heartbeat_at := d\<rparr>) cs) = c_task_id ` set cs"
  by (induction cs) (auto simp: row_update_def)

lemma row_update_accepted:
  "(\<forall>c \<in> set (row_update c_claim_id k (\<lambda>c. c\<lparr>c_last_heartbeat_at := d\<rparr>) cs). c_accepted c \<and> c_task_id c \<in> A) \<longleftrightarrow>
     (\<forall>c \<in> set cs. c_accepted c \<and> c_task_id c \<in> A)"
  by (induction cs) (simp_all add: row_update_def)

lemma task_step_posted: "task_step t t' \<Longrightarrow> t_state t' \<noteq> POSTED"
  by (auto elim: task_step_elim)

interpretation claims: db_invariant E claims_inv for E
proof
  fix s t
  assume a: "claims_inv s" "t_task_id t \<notin> t_task_id ` set (tasks s)" "fresh_task t"
  then have "\<not> has_claim s (t_task_id t)" by (auto simp: claims_inv_def has_claim_def)
  with a show "claims_inv (s\<lparr>tasks := tasks s @ [t]\<rparr>)"
    using keys.new_task [of s t] by (auto simp: claims_inv_def has_claim_def fresh_task_def)
next
  fix s and c :: wcp_claim and t
  assume a: "claims_inv s" "get_task s (c_task_id c) = Some t" "t_state t = POSTED"
    "unclaimed s (c_task_id c)" "c_accepted c" "c_claim_id c \<notin> c_claim_id ` set (claims s)"
  let ?g = "\<lambda>t. t\<lparr>t_state := CLAIMED\<rparr>"
  let ?t = "s\<lparr>claims := claims s @ [c], tasks := row_update t_task_id (c_task_id c) ?g (tasks s)\<rparr>"
  have keys: "keys_ok ?t" using a by (intro keys.new_claim [of s c t]) (simp_all add: claims_inv_def)
  have free: "c_task_id c \<notin> c_task_id ` set (claims s)"
    using a(1,4) by (simp add: unclaimed_iff has_claim_def)
  have ids: "t_task_id ` set (tasks ?t) = t_task_id ` set (tasks s)"
    by (simp add: task_tbl.upd_dom)
  have rows: "t_state x = POSTED \<longleftrightarrow> \<not> has_claim ?t (t_task_id x)" if x: "x \<in> set (tasks ?t)" for x
  proof -
    from a(1) have d: "distinct (map t_task_id (tasks s))" by (simp add: claims_inv_def keys_ok_def)
    from a(2) have "t_task_id t = c_task_id c" by (auto dest: row_get_Some)
    with row_update_mem [OF d a(2), of x ?g] x a(1) show ?thesis
      by (auto simp: claims_inv_def has_claim_def)
  qed
  from a(2) have "c_task_id c \<in> t_task_id ` set (tasks s)" by (metis image_eqI row_get_Some)
  with keys free ids rows a(1,5) show "claims_inv ?t" by (auto simp: claims_inv_def)
next
  fix s k t and g :: "wcp_task \<Rightarrow> wcp_task"
  assume a: "claims_inv s" "get_task s k = Some t" "has_claim s k" "task_step t (g t)" "\<And>r. t_task_id (g r) = t_task_id r"
  let ?t = "s\<lparr>tasks := row_update t_task_id k g (tasks s)\<rparr>"
  have keys: "keys_ok ?t" using a by (intro keys.move) (simp_all add: claims_inv_def)
  have ids: "t_task_id ` set (tasks ?t) = t_task_id ` set (tasks s)"
    using a(5) by (simp add: task_tbl.upd_dom)
  from a(1) have d: "distinct (map t_task_id (tasks s))" by (simp add: claims_inv_def keys_ok_def)
  have tk: "t_task_id (g t) = k" using a(2,5) by (auto dest: row_get_Some)
  have rows: "t_state x = POSTED \<longleftrightarrow> \<not> has_claim ?t (t_task_id x)" if "x \<in> set (tasks ?t)" for x
    using row_update_mem [OF d a(2), of x g] that a(1,3) tk task_step_posted [OF a(4)]
    by (auto simp: claims_inv_def has_claim_def)
  from keys ids rows a(1) show "claims_inv ?t" by (auto simp: claims_inv_def)
next
  fix s k d
  show "claims_inv s \<Longrightarrow>
      claims_inv (s\<lparr>claims := row_update c_claim_id k (\<lambda>c. c\<lparr>c_last_heartbeat_at := Some d\<rparr>) (claims s)\<rparr>)"
    by (simp add: claims_inv_def keys_ok_def row_update_keys has_claim_def row_update_accepted)
qed (simp_all add: claims_inv_def keys_ok_def row_update_keys has_claim_def)

end
