(* ===== verification/Rpc_Dispatch.thy ===== *)
theory Rpc_Dispatch
  imports Lifecycle
begin

text \<open>
  \<open>wcp_coordinator/rpc_dispatch.py\<close>: the eleven methods, the binding of a request's params to
  the keyword arguments of a method, and the translation of exceptions into the error codes
  of the protocol.
\<close>

subsection \<open>Error codes\<close>

definition "METHOD_NOT_FOUND = (-32601 :: int)"

definition "INVALID_PARAMS = (-32602 :: int)"

definition "INTERNAL_ERROR = (-32603 :: int)"

definition "UNAUTHENTICATED = (-40001 :: int)"

definition "UNAUTHORIZED = (-40002 :: int)"

definition "DID_NOT_RESOLVED = (-40003 :: int)"

definition "INVALID_ATTESTATION_REQUIREMENT = (-41001 :: int)"

definition "ATTESTATION_FAILED_CODE = (-41002 :: int)"

definition "TASK_NOT_FOUND = (-42001 :: int)"

definition "TASK_PREEMPTED = (-42002 :: int)"

definition "TASK_STATE_INVALID = (-42004 :: int)"

definition "INVALID_DESCRIPTOR = (-42010 :: int)"

definition "SUBCONTRACT_FORBIDDEN = (-45001 :: int)"

definition "OUT_OF_SCOPE_TASK_CLASS = (-45002 :: int)"

definition "POLICY_VIOLATION = (-46001 :: int)"

definition "RECHECK_MAX_ATTEMPTS_REACHED = (-47001 :: int)"

definition "RECHECK_NOT_AVAILABLE_FOR_TASK = (-47002 :: int)"

text \<open>
  What a dispatched call ends in: a result, a \<open>JsonRpcError\<close>, or an exception the dispatcher
  does not catch.
\<close>

datatype rpc_outcome = Result json | RpcError int string | Raised py_exc

text \<open>The prefixes of \<open>_map_value_error\<close> in the order it tests them.\<close>

definition error_prefixes :: "(string \<times> int) list" where
  "error_prefixes =
     [(''DID_NOT_RESOLVED'', DID_NOT_RESOLVED),
      (''UNAUTHENTICATED'', UNAUTHENTICATED),
      (''UNAUTHORIZED'', UNAUTHORIZED),
      (''INVALID_ATTESTATION_REQUIREMENT'', INVALID_ATTESTATION_REQUIREMENT),
      (''ATTESTATION_FAILED'', ATTESTATION_FAILED_CODE),
      (''SUBCONTRACT_FORBIDDEN'', SUBCONTRACT_FORBIDDEN),
      (''OUT_OF_SCOPE_TASK_CLASS'', OUT_OF_SCOPE_TASK_CLASS),
      (''POLICY_VIOLATION'', POLICY_VIOLATION),
      (''INVALID_DESCRIPTOR'', INVALID_DESCRIPTOR),
      (''RECHECK_MAX_ATTEMPTS_REACHED'', RECHECK_MAX_ATTEMPTS_REACHED),
      (''RECHECK_NOT_AVAILABLE_FOR_TASK'', RECHECK_NOT_AVAILABLE_FOR_TASK)]"

definition map_value_error :: "string \<Rightarrow> rpc_outcome" where
  "map_value_error msg =
     (case find (\<lambda>(p, c). startswith msg p) error_prefixes of
        Some (p, c) \<Rightarrow> RpcError c msg
      | None \<Rightarrow> RpcError INVALID_PARAMS msg)"

text \<open>The \<open>except\<close> clauses of \<open>dispatch\<close>.\<close>

fun map_exception :: "py_exc \<Rightarrow> rpc_outcome" where
  "map_exception (TaskNotFound m) = RpcError TASK_NOT_FOUND m"
| "map_exception (TaskPreempted m) = RpcError TASK_PREEMPTED m"
| "map_exception (TaskStateInvalid m) = RpcError TASK_STATE_INVALID m"
| "map_exception (AttestationFailed m) = RpcError ATTESTATION_FAILED_CODE m"
| "map_exception (ValueError m) = map_value_error m"
| "map_exception e = Raised e"

subsection \<open>Keyword arguments\<close>

type_synonym params = "(string \<times> json) list"

text \<open>
  Calling \<open>f(**params)\<close>: a missing required argument and, unless \<open>f\<close> collects extras, an
  unexpected one raise \<open>TypeError\<close>.
\<close>

definition check_kwargs :: "string list \<Rightarrow> string list \<Rightarrow> bool \<Rightarrow> params \<Rightarrow> unit res" where
  "check_kwargs required optional extras p =
     raise_if (\<not> list_all (\<lambda>k. k \<in> fst ` set p) required \<or>
       (\<not> extras \<and> \<not> list_all (\<lambda>(k, v). k \<in> set required \<or> k \<in> set optional) p)) TypeError"

text \<open>
  An argument of the annotated type. The code does not check annotations; a request that
  violates one is outside the model and gives \<open>AnnotationMismatch\<close>.
\<close>

definition arg :: "string \<Rightarrow> params \<Rightarrow> json" where
  "arg k p = (case map_of p k of Some v \<Rightarrow> v | None \<Rightarrow> JNull)"

fun to_opt_str :: "json \<Rightarrow> string option res" where
  "to_opt_str JNull = Inr None"
| "to_opt_str (JStr s) = Inr (Some s)"
| "to_opt_str _ = Inl AnnotationMismatch"

fun to_opt_int :: "json \<Rightarrow> int option res" where
  "to_opt_int JNull = Inr None"
| "to_opt_int (JInt i) = Inr (Some i)"
| "to_opt_int _ = Inl AnnotationMismatch"

fun to_dict :: "json \<Rightarrow> params res" where
  "to_dict (JDict d) = Inr d"
| "to_dict _ = Inl AnnotationMismatch"

fun to_list :: "json \<Rightarrow> json list res" where
  "to_list (JList xs) = Inr xs"
| "to_list _ = Inl AnnotationMismatch"

definition opt_dict_ok :: "json \<Rightarrow> unit res" where
  "opt_dict_ok j = (case j of JNull \<Rightarrow> Inr () | JDict _ \<Rightarrow> Inr () | _ \<Rightarrow> Inl AnnotationMismatch)"

definition str_arg :: "string \<Rightarrow> params \<Rightarrow> string res" where
  "str_arg k p = str_column (arg k p)"

subsection \<open>Method bodies\<close>

definition rpc_capabilities_list :: "params \<Rightarrow> (db, json) py" where
  "rpc_capabilities_list p =
     bindS (lift (check_kwargs [''worker_id''] [] False p)) (\<lambda>_.
     bindS (lift (str_arg ''worker_id'' p)) list_capabilities)"

definition rpc_capabilities_upsert :: "env \<Rightarrow> params \<Rightarrow> (db, json) py" where
  "rpc_capabilities_upsert E p =
     bindS (lift (check_kwargs [''worker_id'', ''capabilities'', ''principal_id''] [''ttl_seconds''] False p)) (\<lambda>_.
     bindS (lift (str_arg ''worker_id'' p)) (\<lambda>worker_id.
     bindS (lift (to_dict (arg ''capabilities'' p))) (\<lambda>caps.
     bindS (lift (str_arg ''principal_id'' p)) (\<lambda>principal_id.
     bindS (lift (if ''ttl_seconds'' \<in> fst ` set p then
         bindE (to_opt_int (arg ''ttl_seconds'' p)) (of_opt AnnotationMismatch) else Inr 3600)) (\<lambda>ttl.
     upsert_capabilities E worker_id (JDict caps) principal_id ttl)))))"

definition rpc_capabilities_subscribe :: "env \<Rightarrow> params \<Rightarrow> (db, json) py" where
  "rpc_capabilities_subscribe E p =
     bindS (lift (check_kwargs [''agent_did''] [''filter'', ''since_revision''] False p)) (\<lambda>_.
     bindS (lift (str_arg ''agent_did'' p)) (\<lambda>agent_did.
     bindS (lift (opt_dict_ok (arg ''filter'' p))) (\<lambda>_.
     bindS (lift (to_opt_int (arg ''since_revision'' p))) (\<lambda>since.
     create_subscription E agent_did (arg ''filter'' p) since ''wss://localhost/wcp/sub'' 3600))))"

definition rpc_tasks_post :: "env \<Rightarrow> registry \<Rightarrow> params \<Rightarrow> (db, json) py" where
  "rpc_tasks_post E reg p =
     bindS (lift (check_kwargs [''task'', ''expiry''] [''supervision''] True p)) (\<lambda>_.
     bindS (lift (to_dict (arg ''task'' p))) (\<lambda>task.
     bindS (lift (str_arg ''expiry'' p)) (\<lambda>expiry.
     task_post E reg task expiry
       (filter (\<lambda>(k, v). k \<notin> {''task'', ''expiry'', ''supervision''}) p))))"

definition rpc_tasks_claim :: "env \<Rightarrow> params \<Rightarrow> (db, json) py" where
  "rpc_tasks_claim E p =
     bindS (lift (check_kwargs [''task_id'', ''worker_id'', ''eta'', ''acceptance_attestation''] [''bid''] False p)) (\<lambda>_.
     bindS (lift (str_arg ''task_id'' p)) (\<lambda>task_id.
     bindS (lift (str_arg ''worker_id'' p)) (\<lambda>worker_id.
     bindS (lift (str_arg ''eta'' p)) (\<lambda>eta.
     bindS (lift (to_dict (arg ''acceptance_attestation'' p))) (\<lambda>acc.
     bindS (lift (to_opt_str (arg ''bid'' p))) (\<lambda>bid.
     task_claim E task_id worker_id eta (JDict acc) bid))))))"

definition rpc_tasks_execute_open :: "env \<Rightarrow> params \<Rightarrow> (db, json) py" where
  "rpc_tasks_execute_open E p =
     bindS (lift (check_kwargs [''claim_id''] [] False p)) (\<lambda>_.
     bindS (lift (str_arg ''claim_id'' p)) (execute_open E))"

definition rpc_tasks_execute_event :: "env \<Rightarrow> params \<Rightarrow> (db, json) py" where
  "rpc_tasks_execute_event E p =
     bindS (lift (check_kwargs [''claim_id'', ''event_type'', ''timestamp'', ''payload'', ''sig''] [] False p)) (\<lambda>_.
     bindS (lift (str_arg ''claim_id'' p)) (\<lambda>claim_id.
     bindS (lift (str_arg ''event_type'' p)) (\<lambda>event_type.
     bindS (lift (str_arg ''timestamp'' p)) (\<lambda>timestamp.
     bindS (lift (to_dict (arg ''payload'' p))) (\<lambda>payload.
     bindS (lift (str_arg ''sig'' p)) (\<lambda>sig.
     execute_event E claim_id event_type timestamp (JDict payload) sig))))))"

definition rpc_tasks_attest :: "env \<Rightarrow> registry \<Rightarrow> params \<Rightarrow> (db, json) py" where
  "rpc_tasks_attest E reg p =
     bindS (lift (check_kwargs [''claim_id'', ''attestations''] [''compensating_action''] False p)) (\<lambda>_.
     bindS (lift (str_arg ''claim_id'' p)) (\<lambda>claim_id.
     bindS (lift (to_list (arg ''attestations'' p))) (\<lambda>evidence.
     task_attest E reg claim_id evidence)))"

definition rpc_tasks_supervise :: "env \<Rightarrow> params \<Rightarrow> (db, json) py" where
  "rpc_tasks_supervise E p =
     bindS (lift (check_kwargs [''claim_id'', ''handoff_reason'', ''state_snapshot'', ''urgency''] [] False p)) (\<lambda>_.
     bindS (lift (str_arg ''claim_id'' p)) (\<lambda>claim_id.
     bindS (lift (str_arg ''handoff_reason'' p)) (\<lambda>reason.
     bindS (lift (str_arg ''urgency'' p)) (\<lambda>urgency.
     task_supervise E claim_id reason (arg ''state_snapshot'' p) urgency))))"

definition rpc_tasks_abort :: "env \<Rightarrow> params \<Rightarrow> (db, json) py" where
  "rpc_tasks_abort E p =
     bindS (lift (check_kwargs [''claim_id'', ''reason''] [''state_snapshot''] False p)) (\<lambda>_.
     bindS (lift (str_arg ''claim_id'' p)) (\<lambda>claim_id.
     bindS (lift (str_arg ''reason'' p)) (\<lambda>reason.
     bindS (lift (opt_dict_ok (arg ''state_snapshot'' p))) (\<lambda>_.
     task_abort E claim_id reason (arg ''state_snapshot'' p)))))"

definition rpc_audit_observe :: "env \<Rightarrow> params \<Rightarrow> (db, json) py" where
  "rpc_audit_observe E p =
     bindS (lift (check_kwargs [] [''claim_id'', ''task_id''] True p)) (\<lambda>_.
     bindS (lift (to_opt_str (arg ''claim_id'' p))) (\<lambda>claim_id.
     bindS (lift (to_opt_str (arg ''task_id'' p))) (\<lambda>task_id.
     observe_audit E claim_id task_id)))"

subsection \<open>Dispatch\<close>

definition methods :: "env \<Rightarrow> (string \<times> (params \<Rightarrow> (db, json) py)) list" where
  "methods E =
     [(''capabilities/list'', rpc_capabilities_list),
      (''capabilities/upsert'', rpc_capabilities_upsert E),
      (''capabilities/subscribe'', rpc_capabilities_subscribe E),
      (''tasks/post'', rpc_tasks_post E DEFAULT_REGISTRY),
      (''tasks/claim'', rpc_tasks_claim E),
      (''tasks/execute'', rpc_tasks_execute_open E),
      (''tasks/execute.event'', rpc_tasks_execute_event E),
      (''tasks/attest'', rpc_tasks_attest E DEFAULT_REGISTRY),
      (''tasks/supervise'', rpc_tasks_supervise E),
      (''tasks/abort'', rpc_tasks_abort E),
      (''audit/observe'', rpc_audit_observe E)]"

text \<open>
  \<open>dispatch(method, params)\<close>. The method is any JSON value the transport passed on: looking
  up an unhashable one raises. Params that are not a mapping cannot be unpacked.
\<close>

definition dispatch :: "env \<Rightarrow> json \<Rightarrow> json \<Rightarrow> db \<Rightarrow> rpc_outcome \<times> db" where
  "dispatch E method params0 s =
     (let params = py_or params0 (JDict []) in
      if \<not> hashable method then (Raised TypeError, s)
      else case (case method of JStr m \<Rightarrow> map_of (methods E) m | _ \<Rightarrow> None) of
        None \<Rightarrow> (RpcError METHOD_NOT_FOUND (''no such method: '' @ py_str (float_repr E) method), s)
      | Some h \<Rightarrow>
          (case params of
             JDict p \<Rightarrow> (case h p s of
                 (Inr r, t) \<Rightarrow> (Result r, t)
               | (Inl e, t) \<Rightarrow> (map_exception e, t))
           | _ \<Rightarrow> (Raised TypeError, s)))"

subsection \<open>Every method keeps every invariant\<close>

context db_invariant
begin

lemma keeps_rpc:
  "keeps P (rpc_capabilities_list p)" "keeps P (rpc_capabilities_upsert E p)"
  "keeps P (rpc_capabilities_subscribe E p)" "keeps P (rpc_tasks_post E reg p)"
  "keeps P (rpc_tasks_claim E p)" "keeps P (rpc_tasks_execute_open E p)"
  "keeps P (rpc_tasks_execute_event E p)" "keeps P (rpc_tasks_attest E reg p)"
  "keeps P (rpc_tasks_supervise E p)" "keeps P (rpc_tasks_abort E p)" "keeps P (rpc_audit_observe E p)"
  unfolding rpc_capabilities_list_def rpc_capabilities_upsert_def rpc_capabilities_subscribe_def
    rpc_tasks_post_def rpc_tasks_claim_def rpc_tasks_execute_open_def rpc_tasks_execute_event_def
    rpc_tasks_attest_def rpc_tasks_supervise_def rpc_tasks_abort_def rpc_audit_observe_def
  by (intro keeps_bindS keeps_lift keeps_list keeps_upsert keeps_subscribe keeps_post keeps_claim keeps_open
      keeps_event keeps_attest keeps_supervise keeps_abort keeps_observe)+

lemma keeps_method: "map_of (methods E) m = Some h \<Longrightarrow> keeps P (h p)"
  by (auto simp: methods_def keeps_rpc split: if_splits)

lemma dispatch_keeps: "P s \<Longrightarrow> P (snd (dispatch E method params s))"
proof -
  assume "P s"
  then have "P (snd (h p s))" if "map_of (methods E) m = Some h" for m h p
    using keeps_method [OF that, of p] by (simp add: keeps_def)
  with \<open>P s\<close> show ?thesis
    by (auto simp: dispatch_def Let_def split: option.splits json.splits prod.splits sum.splits)
      (metis snd_conv)+
qed

end

end
