(* ===== verification/Router.thy ===== *)
theory Router
  imports Rpc_Dispatch
begin

text \<open>
  \<open>wcp_coordinator/router.py\<close>: the HTTP endpoint, the WebSocket loop body, and the read-only
  endpoints, each with its own session discipline. The HTTP endpoint turns every exception
  of a call into a response, after which the session dependency commits; the WebSocket
  loop commits a result and rolls back an error.

  \<open>session_factory\<close> gives sessions over one database; the model serves requests one at a time.
\<close>

subsection \<open>Ending a session\<close>

text \<open>
  Rolling back restores the tables. The clock and the UUID source are not part of the
  database and do not go back.
\<close>

definition db_rollback :: "db \<Rightarrow> db \<Rightarrow> db" where
  "db_rollback s t = s\<lparr>n_now := n_now t, n_uuid := n_uuid t\<rparr>"

text \<open>
  Committing flushes first; a flush the database refuses, now or during the call, undoes the
  transaction.
\<close>

definition db_commit :: "db \<Rightarrow> db \<Rightarrow> bool \<times> db" where
  "db_commit s t =
     (case fst (db_flush t) of Inr _ \<Rightarrow> (True, t) | Inl _ \<Rightarrow> (False, db_rollback s t))"

subsection \<open>HTTP\<close>

datatype http_response = Response int json | ServerError

fun error_body :: "json \<Rightarrow> int \<Rightarrow> string \<Rightarrow> json" where
  "error_body req_id code msg =
     JDict [(''jsonrpc'', JStr ''2.0''), (''id'', req_id),
            (''error'', JDict [(''code'', JInt code), (''message'', JStr msg)])]"

definition result_body :: "json \<Rightarrow> json \<Rightarrow> json" where
  "result_body req_id r = JDict [(''jsonrpc'', JStr ''2.0''), (''id'', req_id), (''result'', r)]"

fun http_body :: "json \<Rightarrow> rpc_outcome \<Rightarrow> http_response" where
  "http_body req_id (Result r) = Response 200 (result_body req_id r)"
| "http_body req_id (RpcError code msg) = Response 200 (error_body req_id code msg)"
| "http_body req_id (Raised e) =
     Response 500 (error_body req_id INTERNAL_ERROR (''Internal error: '' @ exc_message e))"

text \<open>
  \<open>POST /wcp/rpc\<close> on a JSON object. After the response the dependency \<open>_get_session\<close> commits,
  whatever the response was; if the database refused a flush during the call, the commit
  fails.
\<close>

definition http_rpc :: "env \<Rightarrow> params \<Rightarrow> db \<Rightarrow> http_response \<times> db" where
  "http_rpc E payload s =
     (let req_id = arg ''id'' payload; method = arg ''method'' payload in
      if \<not> py_eq (arg ''jsonrpc'' payload) (JStr ''2.0'') \<or> \<not> is_str method then
        (Response 400 (error_body req_id (-32600) ''Invalid Request''), s)
      else
        let (out, t) = dispatch E method (py_or (arg ''params'' payload) (JDict [])) s;
            (ok, u) = (if out = Raised IntegrityError then (False, db_rollback s t) else db_commit s t)
        in (if ok then http_body req_id out else ServerError, u))"

subsection \<open>WebSocket\<close>

fun exc_name :: "py_exc \<Rightarrow> string" where
  "exc_name (TaskNotFound _) = ''TaskNotFound''"
| "exc_name (TaskStateInvalid _) = ''TaskStateInvalid''"
| "exc_name (AttestationFailed _) = ''AttestationFailed''"
| "exc_name (TaskPreempted _) = ''TaskPreempted''"
| "exc_name (ValueError _) = ''ValueError''"
| "exc_name (DIDResolutionError _) = ''DIDResolutionError''"
| "exc_name (SignatureVerificationError _) = ''SignatureVerificationError''"
| "exc_name (KeyError _) = ''KeyError''"
| "exc_name TypeError = ''TypeError''"
| "exc_name AttributeError = ''AttributeError''"
| "exc_name IndexError = ''IndexError''"
| "exc_name OverflowError = ''OverflowError''"
| "exc_name (RuntimeError _) = ''RuntimeError''"
| "exc_name IntegrityError = ''IntegrityError''"
| "exc_name StatementError = ''StatementError''"
| "exc_name (PeerTrustAnchorRevoked _) = ''PeerTrustAnchorRevoked''"
| "exc_name (BufferOverflowError _ _) = ''BufferOverflowError''"
| "exc_name (PermissionError _) = ''PermissionError''"
| "exc_name (AssertionError _) = ''AssertionError''"
| "exc_name TimeoutError = ''TimeoutError''"
| "exc_name ZeroDivisionError = ''ZeroDivisionError''"
| "exc_name AnnotationMismatch = ''AnnotationMismatch''"

datatype ws_reply = Send json | Close

text \<open>
  One turn of the WebSocket loop on the text received: \<open>None\<close> is text \<open>json.loads\<close> rejects. A
  JSON value that is not an object has no \<open>get\<close>, which ends the connection.
\<close>

definition ws_message :: "env \<Rightarrow> json option \<Rightarrow> db \<Rightarrow> ws_reply \<times> db" where
  "ws_message E raw s =
     (case raw of
        None \<Rightarrow> (Send (error_body JNull (-32700) ''Parse error''), s)
      | Some (JDict req) \<Rightarrow>
          let req_id = arg ''id'' req;
              (out, t) = dispatch E (arg ''method'' req) (py_or (arg ''params'' req) (JDict [])) s
          in (case out of
                Result r \<Rightarrow>
                  let (ok, u) = db_commit s t in
                  if ok then (Send (result_body req_id r), u)
                  else (Send (error_body req_id INTERNAL_ERROR (''Internal error: IntegrityError: '')), u)
              | RpcError code msg \<Rightarrow> (Send (error_body req_id code msg), db_rollback s t)
              | Raised e \<Rightarrow>
                  (Send (error_body req_id INTERNAL_ERROR
                    (''Internal error: '' @ exc_name e @ '': '' @ exc_message e)), db_rollback s t))
      | Some _ \<Rightarrow> (Close, s))"

subsection \<open>Read-only endpoints\<close>

definition health :: json where
  "health = JDict [(''status'', JStr ''ok''), (''schema_version'', JStr ''wcp/0.2'')]"

definition did_doc :: "string \<Rightarrow> json" where
  "did_doc identifier =
     JDict [(''@context'', JList [JStr ''https://www.w3.org/ns/did/v1'']),
            (''id'', JStr (''did:wcp:'' @ identifier)),
            (''verificationMethod'', JList []),
            (''service'', JList [JDict [(''id'', JStr ''#wcp-coordinator''),
               (''type'', JStr ''WcpCoordinator''),
               (''serviceEndpoint'', JStr ''ws://localhost/wcp/ws'')]])]"

definition exported_entry :: "env \<Rightarrow> wcp_audit \<Rightarrow> json" where
  "exported_entry E r =
     JDict [(''event_type'', JStr (a_event_type r)), (''actor_did'', JStr (a_actor_did r)),
            (''timestamp'', JStr (isoformat E (Naive (utc_us (a_timestamp r))))),
            (''payload_json'', a_payload_json r), (''payload_hash'', JStr (a_payload_hash r)),
            (''prev_hash'', opt_str (a_prev_hash r)), (''this_hash'', JStr (a_this_hash r)),
            (''claim_id'', opt_str (a_claim_id r)), (''task_id'', opt_str (a_task_id r)),
            (''sig'', JStr (a_sig r))]"

definition federation_audit_chain :: "env \<Rightarrow> string \<Rightarrow> db \<Rightarrow> json" where
  "federation_audit_chain E claim_id s =
     JDict [(''claim_id'', JStr claim_id),
            (''entries'', JList (map (exported_entry E) (claim_entries claim_id (audits s))))]"

subsection \<open>Runs of the coordinator\<close>

text \<open>What can reach a coordinator: an HTTP request, a WebSocket message, the heartbeat sweep.\<close>

datatype event = Http params | Ws "json option" | Sweep

fun serve :: "env \<Rightarrow> event \<Rightarrow> db \<Rightarrow> db" where
  "serve E (Http p) s = snd (http_rpc E p s)"
| "serve E (Ws m) s = snd (ws_message E m s)"
| "serve E Sweep s =
     (case check_heartbeats E None s of (Inr _, t) \<Rightarrow> snd (db_commit s t) | (Inl _, t) \<Rightarrow> db_rollback s t)"

inductive reachable :: "env \<Rightarrow> db \<Rightarrow> bool" for E where
  start: "reachable E empty_db"
| step: "reachable E s \<Longrightarrow> reachable E (serve E ev s)"

inductive_cases reachable_elim: "reachable E s"

subsection \<open>Every run keeps every invariant\<close>

definition counters_from :: "db \<Rightarrow> db \<Rightarrow> bool" where
  "counters_from s0 s \<longleftrightarrow> keys_ok s \<and> n_now s0 \<le> n_now s \<and> n_uuid s0 \<le> n_uuid s"

interpretation counters: db_invariant E "counters_from s0" for E s0
  by unfold_locales (auto simp: counters_from_def keys_ok_def row_update_keys)

context db_invariant
begin

lemma ticks: "P s \<Longrightarrow> P (s\<lparr>n_now := n_now s + i\<rparr>)"
proof (induction i)
  case (Suc i)
  then show ?case using tick [of "s\<lparr>n_now := n_now s + i\<rparr>"] by simp
qed simp

lemma draws: "P s \<Longrightarrow> P (s\<lparr>n_uuid := n_uuid s + j\<rparr>)"
proof (induction j)
  case (Suc j)
  then show ?case using draw [of "s\<lparr>n_uuid := n_uuid s + j\<rparr>"] by simp
qed simp

lemma rollback_keeps:
  assumes "P s" "counters_from s t"
  shows "P (db_rollback s t)"
proof -
  from assms(2) obtain i j where t: "n_now t = n_now s + i" "n_uuid t = n_uuid s + j"
    by (metis counters_from_def le_iff_add)
  from draws [OF ticks [OF assms(1), of i], of j] show ?thesis
    by (simp add: db_rollback_def t)
qed

lemma commit_keeps: "P s \<Longrightarrow> P t \<Longrightarrow> counters_from s t \<Longrightarrow> P (snd (db_commit s t))"
  by (auto simp: db_commit_def rollback_keeps split: sum.splits)

lemma serve_keeps:
  assumes "P s" "keys_ok s"
  shows "P (serve E ev s)"
proof -
  have from0: "counters_from s s" using assms(2) by (simp add: counters_from_def)
  have d: "P (snd (dispatch E m p s))" "counters_from s (snd (dispatch E m p s))" for m p
    using dispatch_keeps [OF assms(1)] counters.dispatch_keeps [OF from0] by blast+
  then have end_ok: "P (db_rollback s (snd (dispatch E m p s)))" "P (snd (db_commit s (snd (dispatch E m p s))))" for m p
    using assms(1) by (simp_all add: rollback_keeps commit_keeps)
  show ?thesis
  proof (cases ev)
    case (Http p)
    then show ?thesis
      using assms(1) end_ok by (auto simp: http_rpc_def Let_def split: prod.splits if_splits)
        (metis snd_conv)+
  next
    case (Ws m)
    show ?thesis
    proof (cases m)
      case None
      with Ws assms(1) show ?thesis by (simp add: ws_message_def)
    next
      case (Some j)
      with Ws assms(1) end_ok show ?thesis
        by (cases j) (auto simp: ws_message_def Let_def split: prod.splits rpc_outcome.splits if_splits,
          (metis snd_conv)+)
    qed
  next
    case Sweep
    have "P (snd (check_heartbeats E None s))" "counters_from s (snd (check_heartbeats E None s))"
      using keeps_heartbeats counters.keeps_heartbeats assms(1) from0 by (blast dest: keepsD)+
    with Sweep assms(1) show ?thesis
      by (auto simp: rollback_keeps commit_keeps split: prod.splits sum.splits)
  qed
qed

end

lemma empty_keys: "keys_ok empty_db"
  by (simp add: keys_ok_def empty_db_def)

lemma reachable_keys: "reachable E s \<Longrightarrow> keys_ok s"
  by (induction rule: reachable.induct) (simp_all add: empty_keys keys.serve_keeps)

context db_invariant
begin

lemma reachable_invariant: "reachable E s \<Longrightarrow> P empty_db \<Longrightarrow> P s"
  by (induction rule: reachable.induct) (auto intro: serve_keeps reachable_keys)

end

end
