(* ===== verification/Federation.thy ===== *)
theory Federation
  imports Router Sample_Env
begin

text \<open>
  \<open>wcp_coordinator/federation/\<close>: bilateral trust anchors and their store
  (\<open>trust_anchor.py\<close>), the router that forwards a task to a peer (\<open>router.py\<close>), the record
  of a peer's capability (\<open>capability_sync.py\<close>), the import of a peer's audit segment
  (\<open>audit_export.py\<close>) and the JSON-RPC part of the WebSocket forwarder (\<open>transport.py\<close>).

  The forwarder and the fetcher are arguments, as they are in the code. A \<open>float\<close> is a
  rational; \<open>time.time()\<close> is a reading of the same clock the audit log uses, in seconds.
\<close>

subsection \<open>Trust anchors\<close>

record trust_anchor =
  peer_coordinator_did :: string
  peer_public_key :: bytes
  peer_endpoint_url :: string
  anchor_scope :: "string set"
  established_at :: rat
  expires_at :: rat
  anchor_signature :: string

definition SUPPORTED_TRUST_CLASSES :: "string set" where
  "SUPPORTED_TRUST_CLASSES = {''capability_discovery'', ''reputation_query'', ''audit_chain_export''}"

text \<open>\<open>"=" * (-len(s) % 4)\<close>\<close>

definition b64_pad :: "string \<Rightarrow> string" where
  "b64_pad s = replicate ((4 - length s mod 4) mod 4) (CHR ''='')"

text \<open>
  A key that is not 32 bytes long is refused when it is loaded, which the code catches.
\<close>

definition peer_verify :: "env \<Rightarrow> bytes \<Rightarrow> bytes \<Rightarrow> string \<Rightarrow> bool" where
  "peer_verify E pubkey data signature =
     (if signature = [] \<or> \<not> startswith signature sig_prefix then False
      else
        let sig_b64 = drop_prefix sig_prefix signature in
        case urlsafe_b64decode (sig_b64 @ b64_pad sig_b64) of
          None \<Rightarrow> False
        | Some sig \<Rightarrow> length pubkey = 32 \<and> ed25519_verify E pubkey data sig)"

definition time_now :: "env \<Rightarrow> (db, rat) py" where
  "time_now E s = (Inr (of_int (clock E (n_now s)) / 1000000), s\<lparr>n_now := Suc (n_now s)\<rparr>)"

definition is_expired :: "rat \<Rightarrow> trust_anchor \<Rightarrow> bool" where
  "is_expired now a \<longleftrightarrow> expires_at a \<le> now"

text \<open>\<open>allows\<close> reads the clock only when the class is in scope.\<close>

definition allows :: "env \<Rightarrow> string \<Rightarrow> trust_anchor \<Rightarrow> (db, bool) py" where
  "allows E trust_class a =
     (if trust_class \<in> anchor_scope a
      then bindS (time_now E) (\<lambda>now. ret (\<not> is_expired now a))
      else ret False)"

definition signed_json :: "trust_anchor \<Rightarrow> json" where
  "signed_json a =
     JDict [(''peer_coordinator_did'', JStr (peer_coordinator_did a)),
            (''peer_endpoint_url'', JStr (peer_endpoint_url a)),
            (''scope'', JList (map JStr (sorted_list_of_set (anchor_scope a)))),
            (''established_at'', JFloat (established_at a)),
            (''expires_at'', JFloat (expires_at a))]"

definition signed_body :: "env \<Rightarrow> trust_anchor \<Rightarrow> bytes" where
  "signed_body E a = canon E (signed_json a)"

definition verify_signature :: "env \<Rightarrow> trust_anchor \<Rightarrow> bool" where
  "verify_signature E a = peer_verify E (peer_public_key a) (signed_body E a) (anchor_signature a)"

text \<open>
  \<open>from_dict\<close>. \<open>binascii.Error\<close> is a \<open>ValueError\<close>; its message is left out. A value that is
  not of the field's type (a timestamp that is not a number) is outside the model.
\<close>

definition anchor_float :: "json \<Rightarrow> rat res" where
  "anchor_float j = of_opt AnnotationMismatch (num_of j)"

definition supported_json :: "json list" where
  "supported_json = map JStr (sorted_list_of_set SUPPORTED_TRUST_CLASSES)"

definition anchor_from_dict :: "env \<Rightarrow> (string \<times> json) list \<Rightarrow> trust_anchor res" where
  "anchor_from_dict E d =
     bindE (bindE (j_item (JDict d) ''scope'') py_set) (\<lambda>scope.
     let bad = set_diff scope supported_json in
     bindE (if bad \<noteq> [] then
              bindE (py_sorted bad) (\<lambda>bs. Inl (ValueError
                (''unknown trust classes in scope: '' @ py_repr (float_repr E) (JList bs) @ ''; '' @
                 ''supported: '' @ py_repr (float_repr E) (JList supported_json))))
            else Inr ()) (\<lambda>_.
     bindE (bindE (j_item (JDict d) ''peer_coordinator_did'') str_column) (\<lambda>did.
     bindE (bindE (j_item (JDict d) ''peer_public_key_b64'') str_column) (\<lambda>pk64.
     bindE (of_opt (ValueError []) (urlsafe_b64decode pk64)) (\<lambda>pk.
     bindE (bindE (j_item (JDict d) ''peer_endpoint_url'') str_column) (\<lambda>url.
     bindE (bindE (j_item (JDict d) ''established_at'') anchor_float) (\<lambda>est.
     bindE (bindE (j_item (JDict d) ''expires_at'') anchor_float) (\<lambda>exp.
     bindE (bindE (j_item (JDict d) ''signature'') str_column) (\<lambda>sig.
       Inr \<lparr>peer_coordinator_did = did, peer_public_key = pk, peer_endpoint_url = url,
            anchor_scope = set (map str_of scope), established_at = est, expires_at = exp,
            anchor_signature = sig\<rparr>)))))))))"

definition anchor_to_dict :: "trust_anchor \<Rightarrow> (string \<times> json) list" where
  "anchor_to_dict a =
     [(''peer_coordinator_did'', JStr (peer_coordinator_did a)),
      (''peer_public_key_b64'', JStr (urlsafe_b64nopad (peer_public_key a))),
      (''peer_endpoint_url'', JStr (peer_endpoint_url a)),
      (''scope'', JList (map JStr (sorted_list_of_set (anchor_scope a)))),
      (''established_at'', JFloat (established_at a)),
      (''expires_at'', JFloat (expires_at a)),
      (''signature'', JStr (anchor_signature a))]"

subsection \<open>The anchor store\<close>

text \<open>
  The store's dict in insertion order, whether an audit chain was given at construction, and
  the coordinator's database session the audit chain writes to.
\<close>

record fed =
  by_did :: "(string \<times> trust_anchor) list"
  audited :: bool
  session :: db

definition on_db :: "(db, 'a) py \<Rightarrow> (fed, 'a) py" where
  "on_db m s = (case m (session s) of (r, t) \<Rightarrow> (r, s\<lparr>session := t\<rparr>))"

definition anchor_add :: "env \<Rightarrow> trust_anchor \<Rightarrow> (fed, unit) py" where
  "anchor_add E a =
     bindS (lift (raise_if (\<not> verify_signature E a)
       (ValueError (''trust anchor signature invalid for peer '' @ peer_coordinator_did a)))) (\<lambda>_.
     bindS (on_db (time_now E)) (\<lambda>now.
     bindS (lift (raise_if (is_expired now a) (ValueError ''trust anchor already expired''))) (\<lambda>_.
     modify (\<lambda>s. s\<lparr>by_did := dict_set (peer_coordinator_did a) a (by_did s)\<rparr>))))"

definition anchor_get :: "fed \<Rightarrow> string \<Rightarrow> trust_anchor option" where
  "anchor_get s peer_did = map_of (by_did s) peer_did"

definition anchor_all :: "fed \<Rightarrow> trust_anchor list" where
  "anchor_all s = map snd (by_did s)"

text \<open>\<open>[x for x in xs if f(x)]\<close> for a test that reads the clock.\<close>

fun filterS :: "('a \<Rightarrow> ('s, bool) py) \<Rightarrow> 'a list \<Rightarrow> ('s, 'a list) py" where
  "filterS f [] = ret []"
| "filterS f (x # xs) = bindS (f x) (\<lambda>b. bindS (filterS f xs) (\<lambda>ys. ret (if b then x # ys else ys)))"

definition anchors_for_class :: "env \<Rightarrow> string \<Rightarrow> (fed, trust_anchor list) py" where
  "anchors_for_class E trust_class =
     bindS (gets anchor_all) (\<lambda>as. filterS (\<lambda>a. on_db (allows E trust_class a)) as)"

text \<open>\<open>dict.pop\<close>\<close>

definition dict_pop :: "string \<Rightarrow> (string \<times> 'a) list \<Rightarrow> (string \<times> 'a) list" where
  "dict_pop k d = filter (\<lambda>p. fst p \<noteq> k) d"

definition anchor_remove :: "env \<Rightarrow> string \<Rightarrow> string \<Rightarrow> (fed, trust_anchor option) py" where
  "anchor_remove E peer_did reason =
     bindS (gets (\<lambda>s. anchor_get s peer_did)) (\<lambda>removed.
       case removed of
         None \<Rightarrow> ret None
       | Some a \<Rightarrow>
           bindS (modify (\<lambda>s. s\<lparr>by_did := dict_pop peer_did (by_did s)\<rparr>)) (\<lambda>_.
           bindS (gets audited) (\<lambda>has_audit.
             if has_audit then
               bindS (on_db (time_now E)) (\<lambda>now.
               bindS (on_db (audit_append E ''federation_trust_anchor_revoked'' peer_did
                 (JDict [(''peer_coordinator_did'', JStr peer_did), (''revoked_at'', JFloat now),
                         (''reason'', JStr reason)]) None None None)) (\<lambda>_.
               ret (Some a)))
             else ret (Some a))))"

subsection \<open>Forwarding a task\<close>

text \<open>
  \<open>allowed\<close> is \<open>allowed_descriptor_types_per_peer\<close>; the code never reads
  \<open>worker_class_filter\<close>.
\<close>

definition peer_accepts :: "(string \<times> string list) list option \<Rightarrow> string \<Rightarrow> trust_anchor \<Rightarrow> bool" where
  "peer_accepts allowed descriptor_type a =
     (case allowed of
        None \<Rightarrow> True
      | Some m \<Rightarrow>
          let accepted = (case map_of m (peer_coordinator_did a) of Some xs \<Rightarrow> xs | None \<Rightarrow> []) in
          \<not> (descriptor_type \<noteq> [] \<and> descriptor_type \<notin> set accepted))"

definition pick_peer ::
  "env \<Rightarrow> string \<Rightarrow> json \<Rightarrow> (string \<times> string list) list option \<Rightarrow> (fed, trust_anchor option) py" where
  "pick_peer E descriptor_type worker_class_filter allowed =
     bindS (anchors_for_class E ''capability_discovery'') (\<lambda>as.
       ret (find (peer_accepts allowed descriptor_type) as))"

type_synonym forwarder = "string \<Rightarrow> string \<Rightarrow> (string \<times> json) list \<Rightarrow> json res"

definition forward_params ::
  "(string \<times> json) list \<Rightarrow> string \<Rightarrow> (string \<times> json) list \<Rightarrow> (string \<times> json) list" where
  "forward_params task expiry informational =
     fold (\<lambda>(k, v) p. dict_set k v p) informational [(''task'', JDict task), (''expiry'', JStr expiry)]"

text \<open>\<open>except Exception\<close>: any failure of the forwarder becomes the recorded result.\<close>

definition forward_result :: "json res \<Rightarrow> json \<times> string" where
  "forward_result r =
     (case r of
        Inr v \<Rightarrow> (v, ''accepted'')
      | Inl e \<Rightarrow> (JDict [(''error'', JStr (exc_message e))], ''rejected''))"

definition forward_task ::
  "env \<Rightarrow> forwarder option \<Rightarrow> trust_anchor \<Rightarrow> (string \<times> json) list \<Rightarrow> string \<Rightarrow> (string \<times> json) list \<Rightarrow>
   (fed, json) py" where
  "forward_task E fwd peer task expiry informational =
     (case fwd of
        None \<Rightarrow> raise (RuntimeError
          (''FederationRouter has no forwarder configured; '' @
           ''set one at construction or via .with_forwarder()''))
      | Some send \<Rightarrow>
          bindS (gets (\<lambda>s. anchor_get s (peer_coordinator_did peer))) (\<lambda>current.
          bindS (lift (raise_if (current = None) (PeerTrustAnchorRevoked
            (''trust anchor for peer '' @ peer_coordinator_did peer @
             '' has been revoked since pick_peer; refusing to forward'')))) (\<lambda>_.
          let (result, status) =
            forward_result (send (peer_endpoint_url peer) ''tasks/post'' (forward_params task expiry informational))
          in
          bindS (lift (j_get (JDict task) ''task_id'' JNull)) (\<lambda>task_id.
          bindS (lift (to_opt_str task_id)) (\<lambda>tid.
          bindS (on_db (audit_append E ''federation_task_forwarded'' (peer_coordinator_did peer)
            (JDict [(''peer_coordinator_did'', JStr (peer_coordinator_did peer)),
                    (''peer_endpoint_url'', JStr (peer_endpoint_url peer)),
                    (''task_id'', task_id), (''status'', JStr status), (''peer_response'', result)])
            None tid None)) (\<lambda>_.
          ret result))))))"

subsection \<open>A peer's capabilities\<close>

definition advertise_peer_capability ::
  "env \<Rightarrow> trust_anchor \<Rightarrow> string \<Rightarrow> (string \<times> json) list \<Rightarrow> (db, unit) py" where
  "advertise_peer_capability E peer peer_worker_id capability_summary =
     bindS (allows E ''capability_discovery'' peer) (\<lambda>ok.
       if \<not> ok then ret ()
       else
         bindS (audit_append E ''federation_capability_advertised'' (peer_coordinator_did peer)
           (JDict [(''peer_coordinator_did'', JStr (peer_coordinator_did peer)),
                   (''peer_worker_id'', JStr peer_worker_id),
                   (''capability_summary'', JDict capability_summary)]) None None None) (\<lambda>_.
         ret ()))"

subsection \<open>A peer's audit segment\<close>

definition segment_link :: "json \<Rightarrow> json res" where
  "segment_link e =
     bindE (j_get e ''event_type'' JNull) (\<lambda>et.
     bindE (j_get e ''actor_did'' JNull) (\<lambda>ac.
     bindE (j_get e ''timestamp'' JNull) (\<lambda>ts.
     bindE (j_get e ''payload_hash'' JNull) (\<lambda>ph.
     bindE (j_get e ''prev_hash'' JNull) (\<lambda>pv.
     bindE (j_get e ''claim_id'' JNull) (\<lambda>ci.
     bindE (j_get e ''task_id'' JNull) (\<lambda>ti.
       Inr (JDict [(''event_type'', et), (''actor_did'', ac), (''timestamp'', ts), (''payload_hash'', ph),
                   (''prev_hash'', py_or pv (JStr [])), (''claim_id'', py_or ci (JStr [])),
                   (''task_id'', py_or ti (JStr []))]))))))))"

text \<open>
  The loop of \<open>verify_chain_segment\<close>: \<open>prev\<close> is \<open>None\<close> (null) at the start. The checks of one
  entry come in the code's order and an entry that is no dict raises.
\<close>

fun segment_from :: "env \<Rightarrow> json \<Rightarrow> json list \<Rightarrow> bool res" where
  "segment_from E prev [] = Inr True"
| "segment_from E prev (e # es) =
     bindE (j_get e ''prev_hash'' JNull) (\<lambda>pv.
     if \<not> py_eq (py_or pv JNull) prev then Inr False
     else
       bindE (j_get e ''payload_json'' JNull) (\<lambda>payload.
       bindE (j_get e ''payload_hash'' JNull) (\<lambda>ph.
       if \<not> py_eq (JStr (sha256_hex E (canon E (py_or payload (JDict []))))) ph then Inr False
       else
         bindE (segment_link e) (\<lambda>link.
         bindE (j_get e ''this_hash'' JNull) (\<lambda>th.
         if \<not> py_eq (JStr (sha256_hex E (canon E link))) th then Inr False
         else segment_from E th es)))))"

definition verify_chain_segment :: "env \<Rightarrow> json list \<Rightarrow> bool res" where
  "verify_chain_segment E entries = segment_from E JNull entries"

text \<open>\<open>next((e["event_type"] for e in reversed(entries) if ...), None)\<close>\<close>

definition completion_kinds :: "json list" where
  "completion_kinds = [JStr ''task_completed'', JStr ''task_voided'', JStr ''task_aborted'']"

fun first_completion :: "json list \<Rightarrow> json res" where
  "first_completion [] = Inr JNull"
| "first_completion (e # es) =
     bindE (j_get e ''event_type'' JNull) (\<lambda>et.
       if eq_in et completion_kinds then j_item e ''event_type'' else first_completion es)"

type_synonym chain_fetcher = "string \<Rightarrow> string \<Rightarrow> json list res"

definition import_peer_chain ::
  "env \<Rightarrow> chain_fetcher option \<Rightarrow> trust_anchor \<Rightarrow> string \<Rightarrow> (db, json) py" where
  "import_peer_chain E fetcher peer claim_id =
     bindS (allows E ''audit_chain_export'' peer) (\<lambda>allowed.
       if \<not> allowed then
         ret (JDict [(''ok'', JBool False),
                     (''reason'', JStr ''peer trust anchor does not allow audit_chain_export''),
                     (''entries'', JInt 0), (''terminal_hash'', JNull), (''completion_event'', JNull)])
       else case fetcher of
         None \<Rightarrow> raise (RuntimeError ''AuditExport has no fetcher configured'')
       | Some fetch \<Rightarrow>
           bindS (lift (fetch (peer_endpoint_url peer) claim_id)) (\<lambda>entries.
           bindS (lift (verify_chain_segment E entries)) (\<lambda>ok.
           bindS (lift (if entries \<noteq> [] then j_item (last entries) ''this_hash'' else Inr JNull)) (\<lambda>terminal_hash.
           bindS (lift (first_completion (rev entries))) (\<lambda>completion_event.
           bindS (audit_append E ''federation_audit_chain_imported'' (peer_coordinator_did peer)
             (JDict [(''peer_coordinator_did'', JStr (peer_coordinator_did peer)),
                     (''claim_id'', JStr claim_id), (''entries'', JInt (int (length entries))),
                     (''terminal_hash'', terminal_hash), (''completion_event'', completion_event),
                     (''ok'', JBool ok)])
             (Some claim_id) None None) (\<lambda>_.
           ret (JDict [(''ok'', JBool ok), (''entries'', JInt (int (length entries))),
                       (''terminal_hash'', terminal_hash), (''completion_event'', completion_event)])))))))"

subsection \<open>Transport\<close>

text \<open>
  \<open>WsForwarder\<close>: \<open>call\<close> stands for the connection, which carries one request and returns the
  parsed reply or fails.
\<close>

definition forwarder_request :: "string \<Rightarrow> (string \<times> json) list \<Rightarrow> (string \<times> json) list" where
  "forwarder_request method params =
     [(''jsonrpc'', JStr ''2.0''), (''id'', JInt 1), (''method'', JStr method), (''params'', JDict params)]"

definition ws_forwarder :: "env \<Rightarrow> (string \<Rightarrow> json \<Rightarrow> json res) \<Rightarrow> forwarder" where
  "ws_forwarder E call peer_url method params =
     bindE (call peer_url (JDict (forwarder_request method params))) (\<lambda>resp.
     bindE (py_in ''error'' resp) (\<lambda>has_error.
       if has_error then
         bindE (j_item resp ''error'') (\<lambda>err.
         bindE (j_get err ''code'' JNull) (\<lambda>code.
         bindE (j_get err ''message'' JNull) (\<lambda>msg.
           Inl (RuntimeError (''peer error '' @ py_str (float_repr E) code @ '': '' @ py_str (float_repr E) msg)))))
       else bindE (j_get resp ''result'' JNull) (\<lambda>r. Inr (py_or r (JDict [])))))"

text \<open>\<open>HttpChainFetcher._fetch_sync\<close> after the body has been parsed.\<close>

definition fetched_entries :: "json \<Rightarrow> json list res" where
  "fetched_entries body =
     bindE (j_get body ''entries'' JNull) (\<lambda>es. to_list (py_or es (JList [])))"

subsection \<open>Anchors as dicts\<close>

lemma a2b_body_bare: "a2b 0 l p (b64_body b) = (if length b mod 3 = 0 then Some b else None)"
  by (induction b arbitrary: l p rule: b64_body.induct) simp_all

lemma b64_bare: "urlsafe_b64decode (urlsafe_b64nopad b) = (if length b mod 3 = 0 then Some b else None)"
  using ascii_body [of b] by (simp add: urlsafe_b64nopad_body urlsafe_b64decode_def a2b_body_bare)

lemma py_eq_JStr: "py_eq (JStr s) j \<longleftrightarrow> j = JStr s" "py_eq j (JStr s) \<longleftrightarrow> j = JStr s"
  by (cases j; auto simp: py_eq_def)+

lemma eq_in_strs: "eq_in (JStr s) (map JStr xs) \<longleftrightarrow> s \<in> set xs"
  by (auto simp: eq_in_iff)

lemma dedup_strs: "distinct xs \<Longrightarrow> dedup_eq (map JStr ys) (map JStr xs) = map JStr (ys @ filter (\<lambda>x. x \<notin> set ys) xs)"
proof (induction xs arbitrary: ys)
  case (Cons x xs)
  then have "filter (\<lambda>z. z \<notin> set (ys @ [x])) xs = filter (\<lambda>z. z \<notin> set ys) xs"
    by (intro filter_cong) auto
  with Cons Cons.IH [of "ys @ [x]"] show ?case by (simp add: eq_in_strs)
qed simp

lemma py_set_strs: "distinct xs \<Longrightarrow> py_set (JList (map JStr xs)) = Inr (map JStr xs)"
  using dedup_strs [of xs "[]"] by (simp add: py_set_def list_all_iff)

text \<open>
  C34: An anchor written with to_dict is read back by from_dict exactly when the length of its
  public key is a multiple of three: to_dict strips the base64 padding and from_dict does
  not put it back. An Ed25519 key has 32 bytes, so no anchor with such a key survives the
  round trip: from_dict raises ValueError.
\<close>

theorem anchor_dict_roundtrip:
  assumes "anchor_scope a \<subseteq> SUPPORTED_TRUST_CLASSES"
  shows "anchor_from_dict E (anchor_to_dict a) =
    (if length (peer_public_key a) mod 3 = 0 then Inr a else Inl (ValueError []))"
proof -
  have fin: "finite (anchor_scope a)" "finite SUPPORTED_TRUST_CLASSES"
    using assms finite_subset by (auto simp: SUPPORTED_TRUST_CLASSES_def)
  have "set_diff (map JStr (sorted_list_of_set (anchor_scope a))) supported_json = []"
    using assms fin by (auto simp: set_diff_def supported_json_def filter_empty_conv eq_in_strs)
  moreover have "str_of ` JStr ` X = X" for X by (simp add: image_image)
  ultimately show ?thesis
    using fin py_set_strs [of "sorted_list_of_set (anchor_scope a)"]
    by (simp add: anchor_from_dict_def anchor_to_dict_def Let_def b64_bare anchor_float_def)
qed

definition sample_anchor :: trust_anchor where
  "sample_anchor = \<lparr>peer_coordinator_did = ''did:wcp:peer'', peer_public_key = sample_key (CHR ''p''),
     peer_endpoint_url = ''wss://peer'', anchor_scope = SUPPORTED_TRUST_CLASSES, established_at = 0, expires_at = 1000,
     anchor_signature = []\<rparr>"

theorem anchor_dict_roundtrip_witness:
  "anchor_from_dict sample_env (anchor_to_dict sample_anchor) = Inl (ValueError [])"
  using anchor_dict_roundtrip [of sample_anchor sample_env] by (simp add: sample_anchor_def)

subsection \<open>What an anchor's signature covers\<close>

lemma signed_json_shape:
  "sort_json (signed_json a) =
     JDict [(''established_at'', JFloat (established_at a)), (''expires_at'', JFloat (expires_at a)),
            (''peer_coordinator_did'', JStr (peer_coordinator_did a)),
            (''peer_endpoint_url'', JStr (peer_endpoint_url a)),
            (''scope'', JList (map JStr (sorted_list_of_set (anchor_scope a))))]"
  by (simp add: signed_json_def)

lemma sorted_list_inject: "finite A \<Longrightarrow> finite B \<Longrightarrow> sorted_list_of_set A = sorted_list_of_set B \<longleftrightarrow> A = B"
  by (metis sorted_list_of_set.set_sorted_key_list_of_set)

lemma signed_body_inject:
  assumes "float_repr_ok (float_repr E)" "finite (anchor_scope a)" "finite (anchor_scope b)"
  shows "signed_body E a = signed_body E b \<longleftrightarrow>
    peer_coordinator_did a = peer_coordinator_did b \<and> peer_endpoint_url a = peer_endpoint_url b \<and>
    anchor_scope a = anchor_scope b \<and> established_at a = established_at b \<and> expires_at a = expires_at b"
  using assms by (auto simp: signed_body_def canonical_json_eq signed_json_shape sorted_list_inject inj_map_eq_map inj_def)

lemma peer_verify_wire:
  "peer_verify E pk data (wire_sig sig) \<longleftrightarrow> length pk = 32 \<and> ed25519_verify E pk data sig"
  using b64_roundtrip_exact [of sig]
  by (simp add: peer_verify_def wire_sig_def b64_pad_def sig_prefix_def startswith_def drop_prefix_def Let_def)

lemma on_db_run: "on_db m s = (fst (m (session s)), s\<lparr>session := snd (m (session s))\<rparr>)"
  by (simp add: on_db_def split: prod.splits)

lemma anchor_add_run:
  "anchor_add E a s =
     (if \<not> verify_signature E a then
        (Inl (ValueError (''trust anchor signature invalid for peer '' @ peer_coordinator_did a)), s)
      else let s' = s\<lparr>session := (session s)\<lparr>n_now := Suc (n_now (session s))\<rparr>\<rparr> in
        if expires_at a \<le> of_int (clock E (n_now (session s))) / 1000000
        then (Inl (ValueError ''trust anchor already expired''), s')
        else (Inr (), s'\<lparr>by_did := dict_set (peer_coordinator_did a) a (by_did s)\<rparr>))"
  by (simp add: anchor_add_def bindS_def on_db_run time_now_def is_expired_def Let_def raise_if_def)


subsection \<open>The store\<close>

definition store_inv :: "env \<Rightarrow> fed \<Rightarrow> bool" where
  "store_inv E s \<longleftrightarrow> (\<forall>(k, a) \<in> set (by_did s). k = peer_coordinator_did a \<and> verify_signature E a)"

lemma dict_set_mem: "p \<in> set (dict_set k v d) \<Longrightarrow> p = (k, v) \<or> p \<in> set d"
  by (induction d) (auto split: if_splits)

lemma keeps_add: "keeps (store_inv E) (anchor_add E a)"
proof (rule keepsI)
  fix s assume "store_inv E s"
  then show "store_inv E (snd (anchor_add E a s))"
    by (auto simp: anchor_add_run Let_def store_inv_def dest!: dict_set_mem)
qed

lemma keeps_on_db: "keeps (store_inv E) (on_db m)"
  by (simp add: keeps_def on_db_run store_inv_def)

lemma keeps_remove: "keeps (store_inv E) (anchor_remove E did reason)"
proof -
  have "keeps (store_inv E) (modify (\<lambda>s. s\<lparr>by_did := dict_pop did (by_did s)\<rparr>))"
    by (auto simp: keeps_def store_inv_def dict_pop_def)
  then show ?thesis unfolding anchor_remove_def
    by (intro keeps_bindS) (auto split: option.splits intro!: keeps_bindS keeps_on_db)
qed

lemma keeps_forward: "keeps (store_inv E) (forward_task E fwd peer task expiry info)"
  unfolding forward_task_def
  by (auto split: option.splits prod.splits intro!: keeps_bindS keeps_on_db)

lemma keeps_filterS: "(\<And>x. keeps P (f x)) \<Longrightarrow> keeps P (filterS f xs)"
  by (induction xs) (auto intro!: keeps_bindS)

lemma keeps_pick: "keeps (store_inv E) (pick_peer E dt wcf al)"
  unfolding pick_peer_def anchors_for_class_def
  by (intro keeps_bindS keeps_filterS keeps_on_db keeps_gets keeps_ret)

text \<open>The stores an operator and the router can bring about.\<close>

inductive fed_reachable :: "env \<Rightarrow> fed \<Rightarrow> bool" for E where
  empty: "by_did s = [] \<Longrightarrow> fed_reachable E s"
| add: "fed_reachable E s \<Longrightarrow> fed_reachable E (snd (anchor_add E a s))"
| remove: "fed_reachable E s \<Longrightarrow> fed_reachable E (snd (anchor_remove E did reason s))"
| pick: "fed_reachable E s \<Longrightarrow> fed_reachable E (snd (pick_peer E dt wcf al s))"
| forward: "fed_reachable E s \<Longrightarrow> fed_reachable E (snd (forward_task E fwd peer task expiry info s))"
| elsewhere: "fed_reachable E s \<Longrightarrow> fed_reachable E (s\<lparr>session := d\<rparr>)"

lemma fed_reachable_inv: "fed_reachable E s \<Longrightarrow> store_inv E s"
proof (induction rule: fed_reachable.induct)
  case (add s a)
  from add.IH show ?case by (rule keepsD [OF keeps_add])
next
  case (remove s did reason)
  from remove.IH show ?case by (rule keepsD [OF keeps_remove])
next
  case (pick s dt wcf al)
  from pick.IH show ?case by (rule keepsD [OF keeps_pick])
next
  case (forward s fwd peer task expiry info)
  from forward.IH show ?case by (rule keepsD [OF keeps_forward])
qed (simp_all add: store_inv_def)

lemma filterS_sub: "filterS f xs s = (Inr ys, t) \<Longrightarrow> set ys \<subseteq> set xs"
  by (induction xs arbitrary: s ys) (force split: if_splits)+

lemma filterS_test:
  "filterS f xs s = (Inr ys, t) \<Longrightarrow> y \<in> set ys \<Longrightarrow> \<exists>u v. f y u = (Inr True, v)"
  by (induction xs arbitrary: s ys) (fastforce split: if_splits)+

lemma pick_peer_ok:
  assumes "pick_peer E dt wcf al s = (Inr (Some a), t)"
  shows "a \<in> set (anchor_all s) \<and> ''capability_discovery'' \<in> anchor_scope a \<and>
    (\<exists>n. \<not> is_expired (of_int (clock E n) / 1000000) a) \<and> peer_accepts al dt a"
proof -
  from assms obtain as where as: "filterS (\<lambda>a. on_db (allows E ''capability_discovery'' a)) (anchor_all s) s = (Inr as, t)"
      "find (peer_accepts al dt) as = Some a"
    by (auto simp: pick_peer_def anchors_for_class_def)
  from as(2) have a: "a \<in> set as" "peer_accepts al dt a" by (auto simp: find_Some_iff)
  from filterS_test [OF as(1) a(1)] have "''capability_discovery'' \<in> anchor_scope a"
      "\<exists>n. \<not> is_expired (of_int (clock E n) / 1000000) a"
    by (auto simp: on_db_run allows_def time_now_def bindS_def split: if_splits)
  with a filterS_sub [OF as(1)] show ?thesis by auto
qed

lemma anchor_remove_gone: "anchor_remove E did reason s = (Inr r, t) \<Longrightarrow> anchor_get t did = None"
  by (auto simp: anchor_remove_def anchor_get_def dict_pop_def on_db_run map_of_eq_None_iff
     split: option.splits if_splits)

text \<open>
  C17: In every store that adding, removing, picking and forwarding can bring about, a revoked peer is
  out: after remove, pick_peer cannot return an anchor of that peer whatever the task is,
  and forward_task with an anchor picked earlier raises PeerTrustAnchorRevoked before it
  calls the forwarder and changes nothing.
\<close>

theorem revoked_peer_out:
  assumes "fed_reachable E s" "anchor_remove E did reason s = (Inr r, t)" "peer_coordinator_did peer = did"
  shows "(\<exists>m. forward_task E (Some send) peer task expiry info t = (Inl (PeerTrustAnchorRevoked m), t)) \<and>
    (\<forall>dt wcf al a u. pick_peer E dt wcf al t = (Inr (Some a), u) \<longrightarrow> peer_coordinator_did a \<noteq> did)"
proof -
  from anchor_remove_gone [OF assms(2)] have gone: "anchor_get t did = None" .
  have "store_inv E t"
    using fed_reachable_inv [OF fed_reachable.remove [OF assms(1), of did reason]] assms(2) by simp
  with gone have "peer_coordinator_did a \<noteq> did" if "a \<in> set (anchor_all t)" for a
    using that by (force simp: anchor_all_def store_inv_def anchor_get_def map_of_eq_None_iff)
  with pick_peer_ok [of E _ _ _ t] gone assms(3) show ?thesis
    by (auto simp: forward_task_def)
qed


lemma self_signed_verifies:
  assumes "sig_correct E" "length (ed25519_pub E sk) = 32" "peer_public_key a = ed25519_pub E sk"
    and "anchor_signature a = wire_sig (ed25519_sign E sk (signed_body E a))"
  shows "verify_signature E a"
  using assms by (simp add: verify_signature_def peer_verify_wire sig_correct_def)

text \<open>
  An anchor's signature is checked against the key the anchor itself carries, and neither the
  signed body nor the store relates that key to the peer's DID: whoever holds any key pair
  can have an anchor for any DID accepted, and it replaces the anchor the store had for that
  DID.
\<close>

theorem any_key_vouches_for_any_did:
  assumes "sig_correct E" "length (ed25519_pub E sk) = 32"
    and "of_int (clock E (n_now (session s))) / 1000000 < till"
    and "a = (let b = \<lparr>peer_coordinator_did = victim, peer_public_key = ed25519_pub E sk, peer_endpoint_url = url,
        anchor_scope = sc, established_at = est, expires_at = till, anchor_signature = []\<rparr>
      in b\<lparr>anchor_signature := wire_sig (ed25519_sign E sk (signed_body E b))\<rparr>)"
  shows "\<exists>t. anchor_add E a s = (Inr (), t) \<and> anchor_get t victim = Some a"
proof -
  from assms(4) have "verify_signature E a"
    by (intro self_signed_verifies [OF assms(1,2)]) (simp_all add: Let_def signed_body_def signed_json_def)
  with assms(3,4) show ?thesis
    by (simp add: anchor_add_run Let_def anchor_get_def map_of_dict_set)
qed

definition sample_fed :: fed where
  "sample_fed = \<lparr>by_did = [], audited = True, session = empty_db\<rparr>"

theorem any_key_vouches_for_any_did_witness:
  "\<exists>a t. anchor_add sample_env a sample_fed = (Inr (), t) \<and> anchor_get t ''did:wcp:peer'' = Some a"
  using any_key_vouches_for_any_did [of sample_env "sample_key (CHR ''x'')" sample_fed 1000, OF _ _ _ refl, of "''did:wcp:peer''" "''wss://x''" "{}" 0]
  by (auto simp: sample_fed_def empty_db_def)

theorem revoked_peer_out_witness:
  "\<exists>t m. anchor_remove sample_env ''did:wcp:peer'' [] sample_fed = (Inr None, t) \<and>
     forward_task sample_env (Some (\<lambda>_ _ _. Inr JNull)) sample_anchor [] [] [] t = (Inl (PeerTrustAnchorRevoked m), t)"
  using revoked_peer_out [of sample_env sample_fed "''did:wcp:peer''" "[]" None sample_fed sample_anchor "\<lambda>_ _ _. Inr JNull" "[]" "[]" "[]"]
  by (simp add: fed_reachable.empty sample_fed_def sample_anchor_def anchor_remove_def anchor_get_def)

text \<open>
  Forwarding to a peer that is still trusted always leaves exactly one audit entry
  federation_task_forwarded naming the peer, whether the forwarder returned or failed: its
  status is accepted exactly when the forwarder returned, and the caller gets the peer's
  response, or the forwarder's error as a value, never the exception.
\<close>

theorem forward_always_recorded:
  assumes "anchor_get s (peer_coordinator_did peer) = Some b" "map_of task ''task_id'' = Some (JStr tid)"
    and "uuid4 E (n_uuid (session s)) \<notin> a_entry_id ` set (audits (session s))"
    and "answer = send (peer_endpoint_url peer) ''tasks/post'' (forward_params task expiry info)"
  shows "\<exists>t e d. forward_task E (Some send) peer task expiry info s = (Inr (fst (forward_result answer)), t) \<and>
    audits (session t) = audits (session s) @ [e] \<and> a_event_type e = ''federation_task_forwarded'' \<and>
    a_actor_did e = peer_coordinator_did peer \<and> a_task_id e = Some tid \<and> a_payload_json e = JDict d \<and>
    map_of d ''status'' = Some (JStr (if isl answer then ''rejected'' else ''accepted'')) \<and>
    map_of d ''peer_response'' = Some (case answer of Inr v \<Rightarrow> v | Inl e \<Rightarrow> JDict [(''error'', JStr (exc_message e))])"
proof -
  obtain res st where fr: "forward_result answer = (res, st)" by fastforce
  then have st: "st = (if isl answer then ''rejected'' else ''accepted'')"
      "res = (case answer of Inr v \<Rightarrow> v | Inl e \<Rightarrow> JDict [(''error'', JStr (exc_message e))])"
    by (auto simp: forward_result_def split: sum.splits)
  have "forward_task E (Some send) peer task expiry info s =
      (Inr res, s\<lparr>session := snd (audit_append E ''federation_task_forwarded'' (peer_coordinator_did peer)
         (JDict [(''peer_coordinator_did'', JStr (peer_coordinator_did peer)),
                 (''peer_endpoint_url'', JStr (peer_endpoint_url peer)),
                 (''task_id'', JStr tid), (''status'', JStr st), (''peer_response'', res)])
            None (Some tid) None (session s))\<rparr>)"
    using assms fr by (simp add: forward_task_def bindS_def on_db_run audit_append_run Let_def)
  with assms(3) fr st show ?thesis by (simp add: audit_append_run Let_def)
qed

theorem forward_always_recorded_witness:
  "\<exists>t. forward_task sample_env (Some (\<lambda>_ _ _. Inl TypeError)) sample_anchor [(''task_id'', JStr ''T'')] [] []
      (sample_fed\<lparr>by_did := [(''did:wcp:peer'', sample_anchor)]\<rparr>) = (Inr (JDict [(''error'', JStr [])]), t) \<and>
     length (audits (session t)) = 1"
  using forward_always_recorded [of "sample_fed\<lparr>by_did := [(''did:wcp:peer'', sample_anchor)]\<rparr>" sample_anchor sample_anchor
     "[(''task_id'', JStr ''T'')]" "''T''" sample_env _ "\<lambda>_ _ _. Inl TypeError" "[]" "[]", OF _ _ _ refl]
  by (auto simp: sample_fed_def sample_anchor_def anchor_get_def empty_db_def forward_result_def)

end
