(* ===== verification/Federation_Audit.thy ===== *)
theory Federation_Audit
  imports Federation
begin

text \<open>
  What \<open>verify_chain_segment\<close> and \<open>import_peer_chain\<close> establish about a peer's audit segment:
  the segment is an instance of the hash chain contract, its terminal hash binds its
  content, a segment exported by this coordinator passes, and so does one nobody signed.
\<close>

subsection \<open>Segments as hash chains\<close>

lemma py_eq_JNull: "py_eq j JNull \<longleftrightarrow> j = JNull"
  by (cases j) (auto simp: py_eq_def)

definition field :: "string \<Rightarrow> json \<Rightarrow> json" where
  "field k e = (case j_get e k JNull of Inr v \<Rightarrow> v | Inl _ \<Rightarrow> JNull)"

definition seg_prev :: "json \<Rightarrow> string option" where
  "seg_prev e = (case py_or (field ''prev_hash'' e) JNull of JStr h \<Rightarrow> Some h | _ \<Rightarrow> None)"

definition seg_this :: "json \<Rightarrow> string" where
  "seg_this e = str_of (field ''this_hash'' e)"

definition seg_link :: "json \<Rightarrow> json" where
  "seg_link e = (case segment_link e of Inr l \<Rightarrow> l | Inl _ \<Rightarrow> JNull)"

definition seg_good :: "env \<Rightarrow> json \<Rightarrow> bool" where
  "seg_good E e \<longleftrightarrow> (\<exists>d. e = JDict d) \<and>
     (\<not> truthy (field ''prev_hash'' e) \<or> is_str (field ''prev_hash'' e)) \<and>
     field ''payload_hash'' e = JStr (sha256_hex E (canon E (py_or (field ''payload_json'' e) (JDict [])))) \<and>
     field ''this_hash'' e = JStr (sha256_hex E (canon E (seg_link e)))"

lemma segment_step:
  "segment_from E prev (JDict d # es) =
     (if py_eq (py_or (field ''prev_hash'' (JDict d)) JNull) prev \<and>
         field ''payload_hash'' (JDict d) =
           JStr (sha256_hex E (canon E (py_or (field ''payload_json'' (JDict d)) (JDict [])))) \<and>
         field ''this_hash'' (JDict d) = JStr (sha256_hex E (canon E (seg_link (JDict d))))
      then segment_from E (field ''this_hash'' (JDict d)) es else Inr False)"
  by (auto simp: field_def seg_link_def segment_link_def py_eq_JStr)

lemma not_dict: "(\<And>d. e \<noteq> JDict d) \<Longrightarrow> segment_from E prev (e # es) = Inl AttributeError"
  by (cases e) auto

lemma prev_cases: "py_eq (py_or v JNull) (case p of None \<Rightarrow> JNull | Some h \<Rightarrow> JStr h) \<longleftrightarrow>
    (\<not> truthy v \<or> is_str v) \<and> (case py_or v JNull of JStr h \<Rightarrow> Some h | _ \<Rightarrow> None) = p"
  by (cases v; cases p) (auto simp: py_eq_JStr py_eq_JNull py_or_def)

lemma segment_dict:
  "segment_from E (case p of None \<Rightarrow> JNull | Some h \<Rightarrow> JStr h) (JDict d # es) =
     (if seg_prev (JDict d) = p \<and> seg_good E (JDict d) then segment_from E (JStr (seg_this (JDict d))) es else Inr False)"
  unfolding segment_step prev_cases seg_good_def seg_prev_def seg_this_def
  by (simp del: segment_from.simps) metis

lemma segment_chain:
  "segment_from E (case p of None \<Rightarrow> JNull | Some h \<Rightarrow> JStr h) es = Inr True \<longleftrightarrow>
     chain_from seg_prev seg_this (seg_good E) p es"
proof (induction es arbitrary: p)
  case (Cons e es)
  show ?case
  proof (cases "\<exists>d. e = JDict d")
    case True
    with Cons.IH [of "Some (seg_this e)"] show ?thesis
      by (auto simp: segment_dict simp del: segment_from.simps split: if_splits)
  next
    case False
    then show ?thesis by (auto simp: not_dict seg_good_def simp del: segment_from.simps)
  qed
qed simp

text \<open>The link of an entry that is a dict, and its canonical form, whose keys are in order.\<close>

lemma seg_link_dict:
  "seg_link (JDict d) = JDict
    [(''event_type'', field ''event_type'' (JDict d)), (''actor_did'', field ''actor_did'' (JDict d)),
     (''timestamp'', field ''timestamp'' (JDict d)), (''payload_hash'', field ''payload_hash'' (JDict d)),
     (''prev_hash'', py_or (field ''prev_hash'' (JDict d)) (JStr [])), (''claim_id'', py_or (field ''claim_id'' (JDict d)) (JStr [])),
     (''task_id'', py_or (field ''task_id'' (JDict d)) (JStr []))]"
  by (simp add: seg_link_def segment_link_def field_def)

lemma seg_link_sorted:
  "sort_json (seg_link (JDict d)) = JDict
    [(''actor_did'', sort_json (field ''actor_did'' (JDict d))), (''claim_id'', sort_json (py_or (field ''claim_id'' (JDict d)) (JStr []))),
     (''event_type'', sort_json (field ''event_type'' (JDict d))), (''payload_hash'', sort_json (field ''payload_hash'' (JDict d))),
     (''prev_hash'', sort_json (py_or (field ''prev_hash'' (JDict d)) (JStr []))),
     (''task_id'', sort_json (py_or (field ''task_id'' (JDict d)) (JStr []))), (''timestamp'', sort_json (field ''timestamp'' (JDict d)))]"
  unfolding seg_link_dict by (simp add: sort_key_def)

text \<open>
  The chain of the canonical links: two links are the same when they have the same bytes, in whatever order
  the keys of a nested dict were written.
\<close>

interpretation segment: hash_chain seg_prev seg_this "seg_good E" "\<lambda>e. sort_json (seg_link e)"
  "\<lambda>j. sha256_hex E (print_json (float_repr E) j)" link_prev_of "\<lambda>p. JStr (or_empty p)" for E
proof
  fix e assume good: "seg_good E e"
  then obtain d where e: "e = JDict d" by (auto simp: seg_good_def)
  from good show "seg_this e = sha256_hex E (print_json (float_repr E) (sort_json (seg_link e)))"
    by (simp add: seg_good_def seg_this_def canonical_json_def)
  from good show "link_prev_of (sort_json (seg_link e)) = JStr (or_empty (seg_prev e))"
    unfolding e seg_link_sorted
    by (cases "field ''prev_hash'' (JDict d)")
      (auto simp: seg_good_def seg_prev_def link_prev_of_def py_or_def or_empty_def split: option.splits)
qed (simp add: or_empty_def)

lemma verify_segment_chain:
  "verify_chain_segment E es = Inr True \<longleftrightarrow> chain_from seg_prev seg_this (seg_good E) None es"
  using segment_chain [of E None es] by (simp add: verify_chain_segment_def)

text \<open>
  What an entry of a segment tells: event type, actor, time, payload, claim and task, each as its
  canonical bytes; and the bytes its two hashes are taken of.
\<close>

definition told :: "env \<Rightarrow> json \<Rightarrow> bytes list" where
  "told E e = map (canon E) [field ''event_type'' e, field ''actor_did'' e, field ''timestamp'' e,
     py_or (field ''payload_json'' e) (JDict []), py_or (field ''claim_id'' e) (JStr []), py_or (field ''task_id'' e) (JStr [])]"

definition hashed_bytes :: "env \<Rightarrow> json \<Rightarrow> bytes set" where
  "hashed_bytes E e = {canon E (seg_link e), canon E (py_or (field ''payload_json'' e) (JDict []))}"

lemma same_link_told:
  assumes "float_repr_ok (float_repr E)" "seg_good E x" "seg_good E y" "sort_json (seg_link x) = sort_json (seg_link y)"
    and "\<not> (\<exists>a \<in> hashed_bytes E x. \<exists>b \<in> hashed_bytes E y. a \<noteq> b \<and> sha256_hex E a = sha256_hex E b)"
  shows "told E x = told E y"
proof -
  from assms(2,3) obtain c d where d: "x = JDict c" "y = JDict d" by (auto simp: seg_good_def)
  from assms(4) have eq: "sort_json (field ''event_type'' x) = sort_json (field ''event_type'' y)"
      "sort_json (field ''actor_did'' x) = sort_json (field ''actor_did'' y)" "sort_json (field ''timestamp'' x) = sort_json (field ''timestamp'' y)"
      "sort_json (field ''payload_hash'' x) = sort_json (field ''payload_hash'' y)"
      "sort_json (py_or (field ''claim_id'' x) (JStr [])) = sort_json (py_or (field ''claim_id'' y) (JStr []))"
      "sort_json (py_or (field ''task_id'' x) (JStr [])) = sort_json (py_or (field ''task_id'' y) (JStr []))"
    unfolding d seg_link_sorted by simp_all
  from eq(4) assms(2,3) have "sha256_hex E (canon E (py_or (field ''payload_json'' x) (JDict []))) =
      sha256_hex E (canon E (py_or (field ''payload_json'' y) (JDict [])))" by (simp add: seg_good_def)
  with assms(5) have "canon E (py_or (field ''payload_json'' x) (JDict [])) = canon E (py_or (field ''payload_json'' y) (JDict []))"
    by (auto simp: hashed_bytes_def)
  with eq show ?thesis by (simp add: told_def canonical_json_eq [OF assms(1)])
qed

text \<open>
  C16: A peer's segment is bound by its length and its terminal hash: if two segments verify, are equally
  long and end in the same this_hash, then entry by entry they tell the same (event type, actor,
  timestamp, payload, claim, task, each with the same canonical bytes), or two different byte strings that the check
  of an entry of each hashes (its link or its payload) have the same SHA-256.
\<close>

theorem segment_terminal_hash_binds:
  assumes "float_repr_ok (float_repr E)"
    and "verify_chain_segment E xs = Inr True" "verify_chain_segment E ys = Inr True"
    and "length xs = length ys" "xs \<noteq> []"
    and "j_item (last xs) ''this_hash'' = j_item (last ys) ''this_hash''"
  shows "map (told E) xs = map (told E) ys \<or>
    (\<exists>x \<in> set xs. \<exists>y \<in> set ys. \<exists>a \<in> hashed_bytes E x. \<exists>b \<in> hashed_bytes E y. a \<noteq> b \<and> sha256_hex E a = sha256_hex E b)"
proof (rule disjCI)
  assume none: "\<not> (\<exists>x \<in> set xs. \<exists>y \<in> set ys. \<exists>a \<in> hashed_bytes E x. \<exists>b \<in> hashed_bytes E y. a \<noteq> b \<and> sha256_hex E a = sha256_hex E b)"
  note v = assms(2,3) [unfolded verify_segment_chain]
  from assms(4,5) have "ys \<noteq> []" by auto
  have "seg_this (last xs) = seg_this (last ys)"
    using assms(6) segment.verify_good [OF v(1), of "last xs"] segment.verify_good [OF v(2), of "last ys"] assms(5) \<open>ys \<noteq> []\<close>
    by (auto simp: seg_good_def seg_this_def field_def split: option.splits)
  with assms(5) \<open>ys \<noteq> []\<close> have "end_hash seg_this None xs = end_hash seg_this None ys"
    by (simp add: end_hash_last)
  with segment.same_end_links [OF assms(4) v]
  have "map (\<lambda>e. sort_json (seg_link e)) xs = map (\<lambda>e. sort_json (seg_link e)) ys \<or>
      (\<exists>x \<in> set xs. \<exists>y \<in> set ys. sort_json (seg_link x) \<noteq> sort_json (seg_link y) \<and>
        sha256_hex E (canon E (seg_link x)) = sha256_hex E (canon E (seg_link y)))"
    by (simp add: canonical_json_def)
  then have links: "map (\<lambda>e. sort_json (seg_link e)) xs = map (\<lambda>e. sort_json (seg_link e)) ys"
    using none canonical_json_eq [OF assms(1)] by (fastforce simp: hashed_bytes_def)
  show "map (told E) xs = map (told E) ys"
  proof (rule nth_equalityI)
    fix i assume "i < length (map (told E) xs)"
    then have i: "i < length xs" "i < length ys" using assms(4) by simp_all
    with links have "sort_json (seg_link (xs ! i)) = sort_json (seg_link (ys ! i))" by (metis nth_map)
    moreover have "xs ! i \<in> set xs" "ys ! i \<in> set ys" using i by simp_all
    ultimately show "map (told E) xs ! i = map (told E) ys ! i"
      using same_link_told [OF assms(1) segment.verify_good [OF v(1)] segment.verify_good [OF v(2)]] none i by auto
  qed (use assms(4) in simp)
qed

subsection \<open>Exported chains import\<close>

text \<open>SHA-256 prints as 64 hexadecimal digits, never as the empty string.\<close>

definition hash_nonempty :: "env \<Rightarrow> bool" where
  "hash_nonempty E \<longleftrightarrow> (\<forall>j. sha256_hex E (canon E j) \<noteq> [])"

lemma sample_hash [simp]: "hash_nonempty sample_env"
  by (simp add: hash_nonempty_def canonical_json_def print_json_nonempty)

lemma exported_fields:
  "field ''prev_hash'' (exported_entry E r) = opt_str (a_prev_hash r)"
  "field ''this_hash'' (exported_entry E r) = JStr (a_this_hash r)"
  "field ''payload_hash'' (exported_entry E r) = JStr (a_payload_hash r)"
  "field ''payload_json'' (exported_entry E r) = a_payload_json r"
  "seg_link (exported_entry E r) = entry_link E r"
  by (auto simp: field_def exported_entry_def seg_link_def segment_link_def entry_link_def link_json_def
      py_or_def opt_str_def or_empty_def split: option.splits)

text \<open>What the check of a segment needs of an entry: everything but the signature.\<close>

definition entry_bound :: "env \<Rightarrow> wcp_audit \<Rightarrow> bool" where
  "entry_bound E e \<longleftrightarrow> (\<exists>d. a_payload_json e = JDict d) \<and>
     sha256_hex E (canon E (a_payload_json e)) = a_payload_hash e \<and>
     sha256_hex E (canon E (entry_link E e)) = a_this_hash e"

lemma exported_segment:
  assumes "hash_nonempty E" "p \<noteq> Some []"
    and "chain_from a_prev_hash a_this_hash (entry_bound E) p es"
  shows "chain_from seg_prev seg_this (seg_good E) p (map (exported_entry E) es)"
  using assms(2,3)
proof (induction es arbitrary: p)
  case (Cons e es)
  then have e: "a_prev_hash e = p" "entry_bound E e" by simp_all
  with assms(1) have nonempty: "a_this_hash e \<noteq> []" by (auto simp: entry_bound_def hash_nonempty_def)
  have "\<exists>d. exported_entry E e = JDict d" by (simp add: exported_entry_def)
  with e Cons.prems(1) have "seg_good E (exported_entry E e)" "seg_prev (exported_entry E e) = p"
      "seg_this (exported_entry E e) = a_this_hash e"
    by (auto simp: seg_good_def seg_prev_def seg_this_def exported_fields entry_bound_def opt_str_def py_or_def
        split: option.splits)
  with Cons.IH [of "Some (a_this_hash e)"] Cons.prems(2) nonempty show ?case by simp
qed simp


subsection \<open>Segments nobody signed\<close>

text \<open>A segment that tells any story (event type, actor, instant, payload), with empty signatures.\<close>

fun forge ::
  "env \<Rightarrow> string \<Rightarrow> string option \<Rightarrow> (string \<times> string \<times> datetime \<times> (string \<times> json) list) list \<Rightarrow> wcp_audit list" where
  "forge E cid p [] = []"
| "forge E cid p ((et, ac, ts, pl) # evs) =
     (let e = \<lparr>a_entry_id = [], a_claim_id = Some cid, a_task_id = None, a_event_type = et, a_timestamp = ts,
               a_actor_did = ac, a_payload_json = JDict pl, a_payload_hash = sha256_hex E (canon E (JDict pl)),
               a_prev_hash = p, a_this_hash = [], a_sig = []\<rparr>;
          h = sha256_hex E (canon E (entry_link E e))
      in e\<lparr>a_this_hash := h\<rparr> # forge E cid (Some h) evs)"

lemma entry_link_this [simp]: "entry_link E (e\<lparr>a_this_hash := h\<rparr>) = entry_link E e"
  by (simp add: entry_link_def)

lemma forge_chain: "chain_from a_prev_hash a_this_hash (entry_bound E) p (forge E cid p evs)"
  by (induction E cid p evs rule: forge.induct) (simp_all add: Let_def entry_bound_def entry_link_def)

lemma forge_events: "map a_event_type (forge E cid p evs) = map fst evs"
  by (induction E cid p evs rule: forge.induct) (simp_all add: Let_def)

lemma forge_unsigned: "e \<in> set (forge E cid p evs) \<Longrightarrow> a_sig e = []"
  by (induction E cid p evs rule: forge.induct) (auto simp: Let_def)

definition forged_segment :: "env \<Rightarrow> string \<Rightarrow> (string \<times> string \<times> datetime \<times> (string \<times> json) list) list \<Rightarrow> json list" where
  "forged_segment E cid evs = map (exported_entry E) (forge E cid None evs)"

lemma forged_verifies: "hash_nonempty E \<Longrightarrow> verify_chain_segment E (forged_segment E cid evs) = Inr True"
  unfolding forged_segment_def verify_segment_chain by (rule exported_segment [OF _ _ forge_chain]) simp_all

lemma completed_last:
  assumes "es \<noteq> []" "a_event_type (last es) = ''task_completed''"
  shows "first_completion (rev (map (exported_entry E) es)) = Inr (JStr ''task_completed'')"
  using assms by (cases es rule: rev_cases) (simp_all add: exported_entry_def completion_kinds_def)

text \<open>
  No key is needed to make a coordinator record a peer's completion: for every claim and every story
  ending in task_completed there is a segment, with empty signatures throughout, that
  import_peer_chain accepts as ok with completion event task_completed once the peer's
  anchor allows the export. The signatures in a fetched segment are never checked.
\<close>

theorem unsigned_segment_imported:
  assumes "hash_nonempty E" "''audit_chain_export'' \<in> anchor_scope peer"
    and "\<not> is_expired (of_int (clock E (n_now s)) / 1000000) peer"
    and "evs \<noteq> []" "fst (last evs) = ''task_completed''"
    and "fetch (peer_endpoint_url peer) cid = Inr (forged_segment E cid evs)"
    and "uuid4 E (n_uuid s) \<notin> a_entry_id ` set (audits s)"
  shows "list_all (\<lambda>e. j_get e ''sig'' JNull = Inr (JStr [])) (forged_segment E cid evs) \<and>
    (\<exists>t r. import_peer_chain E (Some fetch) peer cid s = (Inr r, t) \<and> j_get r ''ok'' JNull = Inr (JBool True) \<and>
       j_get r ''completion_event'' JNull = Inr (JStr ''task_completed'') \<and>
       (\<exists>e. audits t = audits s @ [e] \<and> a_event_type e = ''federation_audit_chain_imported'' \<and> a_claim_id e = Some cid))"
proof -
  let ?es = "forge E cid None evs"
  have "map a_event_type ?es = map fst evs" by (rule forge_events)
  then have es: "?es \<noteq> []" "a_event_type (last ?es) = ''task_completed''"
    using assms(4,5) by (metis list.map_disc_iff, metis last_map list.map_disc_iff)
  have "list_all (\<lambda>e. j_get e ''sig'' JNull = Inr (JStr [])) (forged_segment E cid evs)"
    by (auto simp: forged_segment_def list_all_iff exported_entry_def dest: forge_unsigned)
  moreover have "j_item (last (forged_segment E cid evs)) ''this_hash'' = Inr (JStr (a_this_hash (last ?es)))"
    using es(1) by (simp add: forged_segment_def last_map exported_entry_def)
  ultimately show ?thesis
    using assms(2,3,6,7) es forged_verifies [OF assms(1), of cid evs] completed_last [OF es, of E]
    by (simp add: import_peer_chain_def allows_def time_now_def bindS_def audit_append_run Let_def
        forged_segment_def [symmetric])
qed

theorem unsigned_segment_imported_witness:
  "\<exists>t r. import_peer_chain sample_env
      (Some (\<lambda>_ c. Inr (forged_segment sample_env c [(''task_completed'', [], Naive 0, [])]))) sample_anchor ''c'' empty_db = (Inr r, t) \<and>
     j_get r ''completion_event'' JNull = Inr (JStr ''task_completed'')"
  using unsigned_segment_imported [of sample_env sample_anchor empty_db "[(''task_completed'', [], Naive 0, [])]"
     "\<lambda>_ c. Inr (forged_segment sample_env c [(''task_completed'', [], Naive 0, [])])" "''c''"]
  by (auto simp: sample_anchor_def SUPPORTED_TRUST_CLASSES_def is_expired_def empty_db_def)

text \<open>Naming another actor in an entry of a segment, its hash left as it is, is found out.\<close>

definition one_claimed :: "string \<Rightarrow> json list" where
  "one_claimed actor = forged_segment sample_env ''c'' [(''task_claimed'', actor, Naive 0, [])]"

definition with_hash :: "json \<Rightarrow> json \<Rightarrow> json" where
  "with_hash h e = (case e of JDict d \<Rightarrow> JDict (dict_set ''this_hash'' h d) | _ \<Rightarrow> e)"

theorem segment_terminal_hash_binds_witness:
  "verify_chain_segment sample_env (one_claimed ''w'') = Inr True \<and>
   verify_chain_segment sample_env (map (with_hash (field ''this_hash'' (hd (one_claimed ''w'')))) (one_claimed ''x'')) \<noteq> Inr True"
proof -
  let ?ys = "map (with_hash (field ''this_hash'' (hd (one_claimed ''w'')))) (one_claimed ''x'')"
  have ok: "verify_chain_segment sample_env (one_claimed ''w'') = Inr True"
    unfolding one_claimed_def by (rule forged_verifies) simp
  have len: "length (one_claimed ''w'') = length ?ys" "one_claimed ''w'' \<noteq> []"
    by (simp_all add: one_claimed_def forged_segment_def Let_def)
  have last: "j_item (last (one_claimed ''w'')) ''this_hash'' = j_item (last ?ys) ''this_hash''"
    by (simp add: one_claimed_def forged_segment_def Let_def exported_entry_def with_hash_def field_def)
  have "map (told sample_env) (one_claimed ''w'') \<noteq> map (told sample_env) ?ys"
    by (simp add: one_claimed_def forged_segment_def Let_def exported_entry_def with_hash_def field_def told_def canonical_json_eq [OF sample_float_ok])
  moreover have "sha256_hex sample_env a = sha256_hex sample_env b \<longleftrightarrow> a = b" for a b by simp
  ultimately show ?thesis
    using segment_terminal_hash_binds [OF _ ok _ len last] ok by auto
qed

end
