(* ===== verification/Wcp_Lite.thy ===== *)
theory Wcp_Lite
  imports Audit_Chain Sample_Env
begin

text \<open>
  \<open>wcp_sdk/preview/wcp_lite.py\<close>: the audit buffer a worker fills while it is disconnected, and
  the two builders of the WCP-Lite declarations. The warning each call may emit is output
  only and left out. The buffer reads the same kind of clock as the coordinator; how often
  it has is part of its state.

  Entries and the payload dicts they refer to are objects that the caller holds too: \<open>append\<close> keeps the dict it
  is given and returns the entry it buffers, and \<open>replay_on_reconnect\<close> hands out the entries themselves. The
  model has them in a store by address, so that a change made by the caller shows in the buffer. A dict is changed
  as a whole: a change inside a nested value gives the dict another value. The attributes of the buffer itself are changed
  by its methods only, and those of an entry to values of their declared types.
\<close>

definition CONNECTIVITY_INTERMITTENT :: string where
  "CONNECTIVITY_INTERMITTENT = ''intermittent''"

text \<open>An \<open>AuditEntry\<close>, with the address of its payload.\<close>

record lite_entry =
  l_entry_id :: string
  l_task_id :: string
  l_claim_id :: "string option"
  l_timestamp :: string
  l_signer_did :: string
  l_payload :: nat
  l_previous_entry_hash :: "string option"
  l_entry_hash :: string
  l_signature :: string

text \<open>The objects by address, and the buffer with the addresses of its entries.\<close>

record lite_store =
  h_dicts :: "(string \<times> json) list list"
  h_entries :: "lite_entry list"

record lite_buffer = lite_store +
  b_worker_did :: string
  b_capacity :: int
  b_entries :: "nat list"
  b_last_hash :: "string option"
  b_now :: nat

definition new_buffer :: "string \<Rightarrow> int \<Rightarrow> lite_buffer" where
  "new_buffer worker_did capacity =
     \<lparr>h_dicts = [], h_entries = [], b_worker_did = worker_did, b_capacity = capacity, b_entries = [], b_last_hash = None,
      b_now = 0\<rparr>"

definition lite_len :: "lite_buffer \<Rightarrow> int" where
  "lite_len b = int (length (b_entries b))"

definition is_full :: "lite_buffer \<Rightarrow> bool" where
  "is_full b \<longleftrightarrow> b_capacity b \<le> lite_len b"

definition null_str :: "string option \<Rightarrow> json" where
  "null_str x = (case x of None \<Rightarrow> JNull | Some s \<Rightarrow> JStr s)"

text \<open>The dict an entry's hash covers; the signature is not in it.\<close>

definition entry_body ::
  "string \<Rightarrow> string \<Rightarrow> string option \<Rightarrow> string \<Rightarrow> string \<Rightarrow> (string \<times> json) list \<Rightarrow> string option \<Rightarrow> json" where
  "entry_body entry_id task_id claim_id ts signer_did payload previous =
     JDict [(''entry_id'', JStr entry_id), (''task_id'', JStr task_id), (''claim_id'', null_str claim_id),
            (''timestamp'', JStr ts), (''signer_did'', JStr signer_did), (''payload'', JDict payload),
            (''previous_entry_hash'', null_str previous)]"

text \<open>What is read of an entry at an address now: the object and the dict its payload refers to.\<close>

type_synonym lite_value = "lite_entry \<times> (string \<times> json) list"

definition live :: "lite_buffer \<Rightarrow> nat \<Rightarrow> lite_value" where
  "live b a = (let e = h_entries b ! a in (e, h_dicts b ! l_payload e))"

definition body_of :: "lite_value \<Rightarrow> json" where
  "body_of x = (let e = fst x in
     entry_body (l_entry_id e) (l_task_id e) (l_claim_id e) (l_timestamp e) (l_signer_did e) (snd x) (l_previous_entry_hash e))"

definition lite_now :: "env \<Rightarrow> (lite_buffer, datetime) py" where
  "lite_now E b = (Inr (Aware (clock E (b_now b)) 0), b\<lparr>b_now := Suc (b_now b)\<rparr>)"

text \<open>The address of the new entry is returned; \<open>payload\<close> is the address of the caller's dict.\<close>

definition lite_append ::
  "env \<Rightarrow> string \<Rightarrow> string \<Rightarrow> string option \<Rightarrow> string \<Rightarrow> nat \<Rightarrow> string \<Rightarrow> string option \<Rightarrow> (lite_buffer, nat) py" where
  "lite_append E entry_id task_id claim_id signer_did payload signature timestamp =
     bindS (gets is_full) (\<lambda>full.
     bindS (gets (\<lambda>b. (b_capacity b, lite_len b))) (\<lambda>(capacity, n).
     bindS (lift (raise_if full (BufferOverflowError capacity (n + 1)))) (\<lambda>_.
     bindS (if or_empty timestamp \<noteq> [] then ret (or_empty timestamp)
            else bindS (lite_now E) (\<lambda>t. ret (isoformat E t))) (\<lambda>ts.
     bindS (gets (\<lambda>b. (b_last_hash b, h_dicts b ! payload, length (h_entries b)))) (\<lambda>(last_hash, dict, address).
     let canonical = canon E (entry_body entry_id task_id claim_id ts signer_did dict last_hash);
         entry_hash = sha256_hex E canonical;
         entry = \<lparr>l_entry_id = entry_id, l_task_id = task_id, l_claim_id = claim_id, l_timestamp = ts,
           l_signer_did = signer_did, l_payload = payload, l_previous_entry_hash = last_hash,
           l_entry_hash = entry_hash, l_signature = signature\<rparr>
     in
     bindS (modify (\<lambda>b. b\<lparr>h_entries := h_entries b @ [entry]\<rparr>)) (\<lambda>_.
     bindS (modify (\<lambda>b. b\<lparr>b_entries := b_entries b @ [address], b_last_hash := Some entry_hash\<rparr>)) (\<lambda>_.
     ret address)))))))"

text \<open>
  The walk of \<open>verify_chain_integrity\<close>: each entry hashes to its \<open>entry_hash\<close> and names its
  predecessor's, as the objects are now.
\<close>

definition lite_good :: "env \<Rightarrow> lite_value \<Rightarrow> bool" where
  "lite_good E x \<longleftrightarrow> l_entry_hash (fst x) = sha256_hex E (canon E (body_of x))"

definition value_prev :: "lite_value \<Rightarrow> string option" where
  "value_prev x = l_previous_entry_hash (fst x)"

definition value_hash :: "lite_value \<Rightarrow> string" where
  "value_hash x = l_entry_hash (fst x)"

definition entries_for_replay :: "lite_buffer \<Rightarrow> lite_value list" where
  "entries_for_replay b = map (live b) (b_entries b)"

definition verify_chain_integrity :: "env \<Rightarrow> lite_buffer \<Rightarrow> bool" where
  "verify_chain_integrity E b = chain_from value_prev value_hash (lite_good E) None (entries_for_replay b)"

definition lite_clear :: "(lite_buffer, unit) py" where
  "lite_clear = modify (\<lambda>b. b\<lparr>b_entries := [], b_last_hash := None\<rparr>)"

text \<open>What comes after the wait for \<open>submit_fn\<close>.\<close>

definition replay_finish :: "bool \<Rightarrow> (lite_buffer, bool) py" where
  "replay_finish accepted = bindS (if accepted then lite_clear else ret ()) (\<lambda>_. ret accepted)"

text \<open>
  \<open>submit_fn\<close> is awaited: what it is given are the addresses of the entries, and what it leaves is the state after
  everything that went on meanwhile, appends and changes by other tasks included.
\<close>

definition replay_on_reconnect :: "env \<Rightarrow> (nat list \<Rightarrow> (lite_buffer, bool) py) \<Rightarrow> (lite_buffer, bool) py" where
  "replay_on_reconnect E submit_fn =
     bindS (gets b_entries) (\<lambda>entries.
       if entries = [] then ret True
       else
         bindS (gets (verify_chain_integrity E)) (\<lambda>ok.
           if \<not> ok then ret False
           else bindS (submit_fn entries) replay_finish))"

subsection \<open>Declarations\<close>

definition build_intermittent_capability_extension :: "int \<Rightarrow> string \<Rightarrow> int \<Rightarrow> json res" where
  "build_intermittent_capability_extension max_offline pattern buffer_capacity =
     bindE (raise_if (pattern \<notin> {''predictable'', ''unpredictable''})
       (ValueError (''expected_disconnect_pattern must be '' @ repr_str ''predictable'' @ '' or '' @
          repr_str ''unpredictable'' @ '', got '' @ repr_str pattern))) (\<lambda>_.
     bindE (raise_if (max_offline \<le> 0)
       (ValueError (''max_offline_duration_seconds must be positive, got '' @ show_int max_offline))) (\<lambda>_.
     Inr (JDict [(''connectivity_profile'', JStr CONNECTIVITY_INTERMITTENT),
                 (''max_offline_duration_seconds'', JInt max_offline),
                 (''expected_disconnect_pattern'', JStr pattern),
                 (''buffer_capacity_audit_entries'', JInt buffer_capacity)])))"

definition build_task_constraint_for_intermittent_executor :: "bool \<Rightarrow> int option \<Rightarrow> json res" where
  "build_task_constraint_for_intermittent_executor accepts max_offline =
     (let out = [(''accepts_intermittent_executor'', JBool accepts)] in
      case max_offline of
        None \<Rightarrow> Inr (JDict out)
      | Some m \<Rightarrow>
          bindE (raise_if (m \<le> 0) (ValueError ''max_acceptable_offline_seconds must be positive when set'')) (\<lambda>_.
          Inr (JDict (dict_set ''max_acceptable_offline_seconds'' (JInt m) out))))"

subsection \<open>What the integrity check finds\<close>

text \<open>
  A run of a worker: the caller makes dicts, changes dicts and entries wherever they are, appends, clears, and a
  replay's wait ends at any time, with a verdict or an exception. Beside the buffer stand the values of its entries as they were appended.
\<close>

inductive lite_run :: "env \<Rightarrow> string \<Rightarrow> int \<Rightarrow> lite_buffer \<Rightarrow> lite_value list \<Rightarrow> bool" for E w c where
  new: "lite_run E w c (new_buffer w c) []"
| new_dict: "lite_run E w c b xs \<Longrightarrow> lite_run E w c (b\<lparr>h_dicts := h_dicts b @ [d]\<rparr>) xs"
| set_dict: "lite_run E w c b xs \<Longrightarrow> lite_run E w c (b\<lparr>h_dicts := (h_dicts b)[p := d]\<rparr>) xs"
| set_entry: "lite_run E w c b xs \<Longrightarrow> l_payload e < length (h_dicts b) \<Longrightarrow> lite_run E w c (b\<lparr>h_entries := (h_entries b)[a := e]\<rparr>) xs"
| append: "lite_run E w c b xs \<Longrightarrow> p < length (h_dicts b) \<Longrightarrow> lite_append E ei ti ci sd p sig ts b = (Inr a, b') \<Longrightarrow>
    lite_run E w c b' (xs @ [live b' a])"
| refused: "lite_run E w c b xs \<Longrightarrow> lite_append E ei ti ci sd p sig ts b = (Inl x, b') \<Longrightarrow> lite_run E w c b' xs"
| clear: "lite_run E w c b xs \<Longrightarrow> lite_run E w c (snd (lite_clear b)) []"
| finish: "lite_run E w c b xs \<Longrightarrow> lite_run E w c (snd (replay_finish accepted b)) (if accepted then [] else xs)"

lemma lite_append_run:
  "lite_append E ei ti ci sd p sig ts b =
     (if is_full b then (Inl (BufferOverflowError (b_capacity b) (lite_len b + 1)), b)
      else let b' = (if or_empty ts \<noteq> [] then b else b\<lparr>b_now := Suc (b_now b)\<rparr>);
               t = (if or_empty ts \<noteq> [] then or_empty ts else isoformat E (Aware (clock E (b_now b)) 0));
               h = sha256_hex E (canon E (entry_body ei ti ci t sd (h_dicts b ! p) (b_last_hash b)));
               e = \<lparr>l_entry_id = ei, l_task_id = ti, l_claim_id = ci, l_timestamp = t, l_signer_did = sd,
                 l_payload = p, l_previous_entry_hash = b_last_hash b, l_entry_hash = h, l_signature = sig\<rparr>
        in (Inr (length (h_entries b)), b'\<lparr>h_entries := h_entries b @ [e], b_entries := b_entries b @ [length (h_entries b)], b_last_hash := Some h\<rparr>))"
  by (simp add: lite_append_def Let_def bindS_def lite_now_def raise_if_def)

lemma replay_finish_run:
  "replay_finish accepted b = (Inr accepted, if accepted then b\<lparr>b_entries := [], b_last_hash := None\<rparr> else b)"
  by (simp add: replay_finish_def lite_clear_def bindS_def)

text \<open>The chain of the canonical bodies, as with the segments of a peer.\<close>

definition body_prev :: "json \<Rightarrow> json" where
  "body_prev j = (case j of JDict d \<Rightarrow>
     (case map_of d ''previous_entry_hash'' of Some v \<Rightarrow> v | None \<Rightarrow> JNull) | _ \<Rightarrow> JNull)"

lemma body_sorted:
  "sort_json (body_of x) = JDict
     [(''claim_id'', null_str (l_claim_id (fst x))), (''entry_id'', JStr (l_entry_id (fst x))), (''payload'', sort_json (JDict (snd x))),
      (''previous_entry_hash'', null_str (value_prev x)), (''signer_did'', JStr (l_signer_did (fst x))),
      (''task_id'', JStr (l_task_id (fst x))), (''timestamp'', JStr (l_timestamp (fst x)))]"
  by (simp add: body_of_def entry_body_def value_prev_def Let_def null_str_def sort_key_def split: option.split)

interpretation lite: hash_chain value_prev value_hash "lite_good E" "\<lambda>x. sort_json (body_of x)"
  "\<lambda>j. sha256_hex E (print_json (float_repr E) j)" body_prev null_str for E
  by unfold_locales (auto simp: lite_good_def value_hash_def canonical_json_def body_sorted body_prev_def null_str_def split: option.splits)

text \<open>What an entry tells, in the fields its hash covers; the payload by its canonical bytes, which do not see the order of keys.\<close>

definition lite_told :: "env \<Rightarrow> lite_value \<Rightarrow> string \<times> string \<times> string option \<times> string \<times> string \<times> bytes \<times> string option" where
  "lite_told E x = (case x of (e, d) \<Rightarrow>
     (l_entry_id e, l_task_id e, l_claim_id e, l_timestamp e, l_signer_did e, canon E (JDict d), l_previous_entry_hash e))"

lemma null_str_inject [simp]: "null_str a = null_str b \<longleftrightarrow> a = b"
  by (simp add: null_str_def split: option.splits)

lemma body_told:
  assumes "float_repr_ok (float_repr E)"
  shows "canon E (body_of x) = canon E (body_of y) \<longleftrightarrow> lite_told E x = lite_told E y"
  unfolding canonical_json_eq [OF assms] body_sorted
  by (auto simp: lite_told_def value_prev_def canonical_json_eq [OF assms] split: prod.splits)

text \<open>The values as appended form a chain that verifies, and the buffer's last hash is its end.\<close>

definition run_inv :: "env \<Rightarrow> int \<Rightarrow> lite_buffer \<Rightarrow> lite_value list \<Rightarrow> bool" where
  "run_inv E c b xs \<longleftrightarrow> b_capacity b = c \<and> lite_len b \<le> max 0 c \<and> length xs = length (b_entries b) \<and> (\<forall>a \<in> set (b_entries b). a < length (h_entries b)) \<and>
     b_last_hash b = end_hash value_hash None xs \<and> lite.verify E None xs"

lemma append_value:
  assumes "lite_append E ei ti ci sd p sig ts b = (Inr a, b')"
  shows "\<not> is_full b" "value_prev (live b' a) = b_last_hash b" "lite_good E (live b' a)" "b_last_hash b' = Some (value_hash (live b' a))"
    "b_entries b' = b_entries b @ [a]" "b_capacity b' = b_capacity b" "a = length (h_entries b)" "length (h_entries b') = Suc a"
  using assms
  by (auto simp: lite_append_run Let_def live_def value_prev_def value_hash_def lite_good_def body_of_def split: if_splits)

lemma lite_run_inv: "lite_run E w c b xs \<Longrightarrow> run_inv E c b xs"
proof (induction rule: lite_run.induct)
  case (append b xs p ei ti ci sd sig ts a b')
  note v = append_value [OF append.hyps(3)]
  have "lite.verify E None (xs @ [live b' a])" using append.IH v(2,3) by (simp add: run_inv_def lite.verify_snoc)
  with append.IH v show ?case by (auto simp: run_inv_def lite_len_def is_full_def)
next
  case (refused b xs ei ti ci sd p sig ts x b')
  then show ?case by (auto simp: lite_append_run Let_def split: if_splits)
qed (auto simp: run_inv_def new_buffer_def lite_len_def lite_clear_def replay_finish_run)

lemma unchanged_verifies:
  assumes "float_repr_ok (float_repr E)" "map (lite_told E) ys = map (lite_told E) xs" "map value_hash ys = map value_hash xs"
    "chain_from value_prev value_hash (lite_good E) p xs"
  shows "chain_from value_prev value_hash (lite_good E) p ys"
  using assms(2-4)
proof (induction xs arbitrary: ys p)
  case (Cons x xs)
  then obtain y zs where y: "ys = y # zs" "lite_told E y = lite_told E x" "value_hash y = value_hash x"
      "map (lite_told E) zs = map (lite_told E) xs" "map value_hash zs = map value_hash xs" by auto
  from y(2) body_told [OF assms(1), of y x] have "canon E (body_of y) = canon E (body_of x)" by simp
  with y(3) Cons.prems(3) have "lite_good E y" by (simp add: lite_good_def value_hash_def)
  moreover have "value_prev y = value_prev x" using y(2) by (simp add: lite_told_def value_prev_def split: prod.splits)
  ultimately show ?case using Cons.IH [OF y(4,5)] Cons.prems(3) y(1,3) by simp
qed simp

text \<open>
  C35: Whatever the caller does, with the entries and payloads it shares with the buffer too, the buffer
  holds at most its capacity and its last hash is that of the last entry as it was appended. As long as the
  buffered entries tell what they told when they were appended, under the same hashes, the buffer verifies. And if it verifies while its last entry
  still has the hash it was given, then every entry tells what it told when it was appended (ids, time, signer, payload, predecessor), or
  two different byte strings, bodies of a buffered entry now and of one as appended, have the same SHA-256.
\<close>

theorem buffer_change_detected:
  assumes "float_repr_ok (float_repr E)" "lite_run E w c b xs"
  shows "lite_len b \<le> max 0 c \<and> b_last_hash b = (if xs = [] then None else Some (value_hash (last xs))) \<and>
    (map (lite_told E) (entries_for_replay b) = map (lite_told E) xs \<and> map value_hash (entries_for_replay b) = map value_hash xs \<longrightarrow> verify_chain_integrity E b) \<and>
    (verify_chain_integrity E b \<and> (entries_for_replay b \<noteq> [] \<longrightarrow> Some (value_hash (last (entries_for_replay b))) = b_last_hash b) \<longrightarrow>
       map (lite_told E) (entries_for_replay b) = map (lite_told E) xs \<or>
       (\<exists>x \<in> set (entries_for_replay b). \<exists>y \<in> set xs. canon E (body_of x) \<noteq> canon E (body_of y) \<and>
          sha256_hex E (canon E (body_of x)) = sha256_hex E (canon E (body_of y))))"
proof (intro conjI impI)
  let ?now = "entries_for_replay b"
  note inv = lite_run_inv [OF assms(2), unfolded run_inv_def]
  show "lite_len b \<le> max 0 c" "b_last_hash b = (if xs = [] then None else Some (value_hash (last xs)))"
    using inv by (simp_all add: end_hash_last)
  show "verify_chain_integrity E b" if "map (lite_told E) ?now = map (lite_told E) xs \<and> map value_hash ?now = map value_hash xs"
    using that unchanged_verifies [OF assms(1)] inv by (auto simp: verify_chain_integrity_def)
  assume v: "verify_chain_integrity E b \<and> (?now \<noteq> [] \<longrightarrow> Some (value_hash (last ?now)) = b_last_hash b)"
  have len: "length ?now = length xs" using inv by (simp add: entries_for_replay_def)
  from v len inv have ends: "end_hash value_hash None ?now = end_hash value_hash None xs" by (cases "?now = []") (auto simp: end_hash_last)
  have "lite.verify E None ?now" using v by (simp add: verify_chain_integrity_def)
  from lite.same_end_links [OF len this, of None] inv ends
  have "map (\<lambda>x. sort_json (body_of x)) ?now = map (\<lambda>x. sort_json (body_of x)) xs \<or>
      (\<exists>x \<in> set ?now. \<exists>y \<in> set xs. sort_json (body_of x) \<noteq> sort_json (body_of y) \<and>
        sha256_hex E (canon E (body_of x)) = sha256_hex E (canon E (body_of y)))" by (simp add: canonical_json_def)
  moreover have "map (lite_told E) ?now = map (lite_told E) xs"
    if "map (\<lambda>x. sort_json (body_of x)) ?now = map (\<lambda>x. sort_json (body_of x)) xs"
    using that len body_told [OF assms(1)] canonical_json_eq [OF assms(1)] by (simp add: list_eq_iff_nth_eq)
  ultimately show "map (lite_told E) ?now = map (lite_told E) xs \<or>
       (\<exists>x \<in> set ?now. \<exists>y \<in> set xs. canon E (body_of x) \<noteq> canon E (body_of y) \<and>
          sha256_hex E (canon E (body_of x)) = sha256_hex E (canon E (body_of y)))"
    using canonical_json_eq [OF assms(1)] by auto
qed

text \<open>
  The caller appends an entry, which verifies, and then changes the dict it passed: the check finds out, and a replay
  returns False without offering the batch.
\<close>

definition sample_buffer :: lite_buffer where
  "sample_buffer = snd (lite_append sample_env ''e1'' ''T'' None ''w'' 0 [] (Some ''now'')
     ((new_buffer ''w'' 1)\<lparr>h_dicts := [[(''x'', JInt 1)]]\<rparr>))"

definition tampered_buffer :: lite_buffer where
  "tampered_buffer = sample_buffer\<lparr>h_dicts := (h_dicts sample_buffer)[0 := [(''x'', JInt 2)]]\<rparr>"

lemma sample_append:
  "lite_append sample_env ''e1'' ''T'' None ''w'' 0 [] (Some ''now'') ((new_buffer ''w'' 1)\<lparr>h_dicts := [[(''x'', JInt 1)]]\<rparr>) =
     (Inr 0, sample_buffer)"
  by (simp add: sample_buffer_def lite_append_run Let_def is_full_def lite_len_def new_buffer_def or_empty_def)

lemma sample_buffer_run: "lite_run sample_env ''w'' 1 sample_buffer [live sample_buffer 0]"
proof -
  have "lite_run sample_env ''w'' 1 ((new_buffer ''w'' 1)\<lparr>h_dicts := h_dicts (new_buffer ''w'' 1) @ [[(''x'', JInt 1)]]\<rparr>) []"
    by (rule lite_run.new_dict [OF lite_run.new])
  then have "lite_run sample_env ''w'' 1 ((new_buffer ''w'' 1)\<lparr>h_dicts := [[(''x'', JInt 1)]]\<rparr>) []" by (simp add: new_buffer_def)
  from lite_run.append [OF this _ sample_append] show ?thesis by simp
qed

lemma sample_buffer_fields: "b_entries sample_buffer = [0]" "h_dicts sample_buffer = [[(''x'', JInt 1)]]"
  by (simp_all add: sample_buffer_def lite_append_run Let_def is_full_def lite_len_def new_buffer_def or_empty_def)

theorem buffer_change_detected_witness:
  "verify_chain_integrity sample_env sample_buffer \<and> lite_len sample_buffer = 1 \<and> \<not> verify_chain_integrity sample_env tampered_buffer"
proof -
  have ok: "verify_chain_integrity sample_env sample_buffer"
    using buffer_change_detected [OF _ sample_buffer_run] by (simp add: entries_for_replay_def sample_buffer_fields)
  have run: "lite_run sample_env ''w'' 1 tampered_buffer [live sample_buffer 0]"
    unfolding tampered_buffer_def by (rule lite_run.set_dict [OF sample_buffer_run])
  have t: "entries_for_replay tampered_buffer = [(fst (live sample_buffer 0), [(''x'', JInt 2)])]"
      "snd (live sample_buffer 0) = [(''x'', JInt 1)]" "b_last_hash tampered_buffer = Some (value_hash (live sample_buffer 0))"
    by (simp_all add: entries_for_replay_def value_hash_def tampered_buffer_def sample_buffer_def live_def lite_append_run Let_def is_full_def
        lite_len_def new_buffer_def or_empty_def)
  have "lite_told sample_env (fst (live sample_buffer 0), [(''x'', JInt 2)]) \<noteq> lite_told sample_env (live sample_buffer 0)"
    using t(2) by (cases "live sample_buffer 0") (simp add: lite_told_def canonical_json_eq)
  then have "\<not> verify_chain_integrity sample_env tampered_buffer"
    using buffer_change_detected [OF _ run] unfolding t by (simp add: value_hash_def)
  with ok show ?thesis by (simp add: lite_len_def sample_buffer_fields)
qed

subsection \<open>Replay\<close>

text \<open>
  With a buffer that verifies, the coordinator is offered the buffered entries in append order. If the call fails or
  the batch is refused, what is buffered by then stays; if it is accepted, everything buffered by then is gone.
\<close>

lemma replay_run:
  "replay_on_reconnect E submit b =
    (if b_entries b = [] then (Inr True, b)
     else if \<not> verify_chain_integrity E b then (Inr False, b)
     else case submit (b_entries b) b of
       (Inl e, b') \<Rightarrow> (Inl e, b')
     | (Inr ok, b') \<Rightarrow> (Inr ok, if ok then b'\<lparr>b_entries := [], b_last_hash := None\<rparr> else b'))"
  by (auto simp: replay_on_reconnect_def bindS_def replay_finish_run split: sum.splits prod.splits)

text \<open>A replay is a part of a run, if what goes on during the wait is.\<close>

lemma replay_lite_run:
  assumes "lite_run E w c b xs" "lite_run E w c (snd (submit (b_entries b) b)) ys"
  shows "\<exists>zs \<in> {xs, ys, []}. lite_run E w c (snd (replay_on_reconnect E submit b)) zs"
proof -
  obtain r v where v: "submit (b_entries b) b = (r, v)" by fastforce
  with assms(2) have "lite_run E w c (v\<lparr>b_entries := [], b_last_hash := None\<rparr>) []"
    using lite_run.finish [of E w c v ys True] by (simp add: replay_finish_run)
  with assms v show ?thesis
    by (cases r) (auto simp: replay_run)
qed

text \<open>
  An entry appended while an accepted batch is under way is lost: it was not in the batch, and it is not in the
  buffer afterwards.
\<close>

lemma append_during_replay_lost:
  assumes "lite_run E w c b xs" "b_entries b \<noteq> []" "verify_chain_integrity E b"
    and "lite_append E ei ti ci sd p sig ts b = (Inr a, b')"
  shows "\<exists>v. replay_on_reconnect E (\<lambda>batch b. (Inr True, snd (lite_append E ei ti ci sd p sig ts b))) b = (Inr True, v) \<and>
    a \<notin> set (b_entries b) \<and> a \<notin> set (b_entries v)"
proof -
  have "a \<notin> set (b_entries b)" using lite_run_inv [OF assms(1)] append_value(7) [OF assms(4)] by (auto simp: run_inv_def)
  with assms(2-4) show ?thesis by (simp add: replay_run)
qed

text \<open>
  Batches are not linked to each other: after an accepted replay the next entry names no
  predecessor, so a coordinator that received two batches cannot tell from the hashes
  whether a batch between them is missing.
\<close>

lemma batches_not_linked:
  assumes "lite_run E w c b xs" "0 < c" "replay_on_reconnect E submit b = (Inr True, b')" "b_capacity b' = c"
  shows "\<exists>a b''. lite_append E ei ti ci sd p sig ts b' = (Inr a, b'') \<and> value_prev (live b'' a) = None"
proof -
  from lite_run_inv [OF assms(1)] have "b_last_hash b = None" if "b_entries b = []" using that by (auto simp: run_inv_def)
  with assms(3) have "b_entries b' = [] \<and> b_last_hash b' = None" by (auto simp: replay_run split: if_splits sum.splits prod.splits)
  with assms(2,4) show ?thesis by (simp add: lite_append_run Let_def is_full_def lite_len_def live_def value_prev_def)
qed

end
