(* ===== verification/Trust_Classes.thy ===== *)
theory Trust_Classes
  imports Wcp_Models Sample_Env
begin

text \<open>
  \<open>wcp_sdk/preview/trust_classes.py\<close>: the trust classes of attestation keys, the comparison of
  a declared class with a required minimum, the check of a worker's keys against a task, and
  the builder that puts the minimum into the task.
\<close>

datatype trust_class =
    SOFTWARE_KEYPAIR | HARDWARE_ATTESTED_TPM2 | HARDWARE_ATTESTED_WEBAUTHN
  | HARDWARE_ATTESTED_SECURE_ENCLAVE | HARDWARE_ATTESTED_TEE | DELEGATED

fun trust_class_value :: "trust_class \<Rightarrow> string" where
  "trust_class_value SOFTWARE_KEYPAIR = ''software-keypair''"
| "trust_class_value HARDWARE_ATTESTED_TPM2 = ''hardware-attested-tpm2''"
| "trust_class_value HARDWARE_ATTESTED_WEBAUTHN = ''hardware-attested-webauthn''"
| "trust_class_value HARDWARE_ATTESTED_SECURE_ENCLAVE = ''hardware-attested-secure-enclave''"
| "trust_class_value HARDWARE_ATTESTED_TEE = ''hardware-attested-tee''"
| "trust_class_value DELEGATED = ''delegated''"

definition trust_class_of :: "env \<Rightarrow> json \<Rightarrow> trust_class res" where
  "trust_class_of E =
     enum_of (float_repr E) ''TrustClass'' trust_class_value
       [SOFTWARE_KEYPAIR, HARDWARE_ATTESTED_TPM2, HARDWARE_ATTESTED_WEBAUTHN,
        HARDWARE_ATTESTED_SECURE_ENCLAVE, HARDWARE_ATTESTED_TEE, DELEGATED]"

definition hardware_attested :: "trust_class list" where
  "hardware_attested =
     [HARDWARE_ATTESTED_TPM2, HARDWARE_ATTESTED_WEBAUTHN, HARDWARE_ATTESTED_SECURE_ENCLAVE, HARDWARE_ATTESTED_TEE]"

definition is_hardware_attested :: "trust_class \<Rightarrow> bool" where
  "is_hardware_attested tc \<longleftrightarrow> tc \<in> set hardware_attested"

definition is_at_least :: "trust_class \<Rightarrow> trust_class \<Rightarrow> bool \<Rightarrow> bool" where
  "is_at_least declared minimum strict =
     (if declared = minimum then True
      else if minimum = SOFTWARE_KEYPAIR then True
      else if is_hardware_attested minimum then
        if strict then False
        else if is_hardware_attested declared then True
        else if declared = DELEGATED then True
        else False
      else if minimum = DELEGATED then declared = DELEGATED
      else False)"

record attestation_key_entry =
  k_key_id :: string
  k_did :: string
  k_public_key_multibase :: string
  k_algorithm :: string
  k_trust_class :: trust_class

definition key_entry_to_dict :: "attestation_key_entry \<Rightarrow> (string \<times> json) list" where
  "key_entry_to_dict k =
     [(''key_id'', JStr (k_key_id k)), (''did'', JStr (k_did k)),
      (''public_key_multibase'', JStr (k_public_key_multibase k)),
      (''algorithm'', JStr (k_algorithm k)), (''trust_class'', JStr (trust_class_value (k_trust_class k)))]"

definition declare_trust_class :: "(string \<times> json) list \<Rightarrow> trust_class \<Rightarrow> (string \<times> json) list" where
  "declare_trust_class key_entry tc = dict_set ''trust_class'' (JStr (trust_class_value tc)) key_entry"

text \<open>The loop over the worker's keys: the first key that qualifies ends it.\<close>

fun any_key :: "env \<Rightarrow> trust_class \<Rightarrow> bool \<Rightarrow> string option \<Rightarrow> json list \<Rightarrow> bool res" where
  "any_key E minimum strict key_id [] = Inr False"
| "any_key E minimum strict key_id (k # ks) =
     bindE (case key_id of
              None \<Rightarrow> Inr True
            | Some i \<Rightarrow> bindE (j_get k ''key_id'' JNull) (\<lambda>v. Inr (py_eq v (JStr i)))) (\<lambda>considered.
     if \<not> considered then any_key E minimum strict key_id ks
     else
       bindE (j_get k ''trust_class'' (JStr (trust_class_value SOFTWARE_KEYPAIR))) (\<lambda>declared_str.
       case trust_class_of E declared_str of
         Inl _ \<Rightarrow> any_key E minimum strict key_id ks
       | Inr declared \<Rightarrow>
           if is_at_least declared minimum strict then Inr True
           else any_key E minimum strict key_id ks))"

definition worker_keys :: "json \<Rightarrow> json res" where
  "worker_keys cap =
     bindE (j_get cap ''attestation_keys'' (JList [])) (\<lambda>ks.
       if truthy ks then Inr ks
       else bindE (j_get cap ''required'' (JDict [])) (\<lambda>r. j_get r ''attestation_keys'' (JList [])))"

definition verify_minimum_trust_class :: "env \<Rightarrow> json \<Rightarrow> json \<Rightarrow> string option \<Rightarrow> bool res" where
  "verify_minimum_trust_class E task_descriptor worker_capability key_id =
     bindE (j_get task_descriptor ''attestation_requirement'' (JDict [])) (\<lambda>req.
     bindE (j_get req ''minimum_trust_class'' JNull) (\<lambda>minimum_str.
       if \<not> truthy minimum_str then Inr True
       else case trust_class_of E minimum_str of
         Inl _ \<Rightarrow> Inr False
       | Inr minimum \<Rightarrow>
           bindE (j_get req ''minimum_trust_class_strict'' (JBool False)) (\<lambda>st.
           bindE (worker_keys worker_capability) (\<lambda>keys.
             if \<not> truthy keys then Inr False
             else bindE (py_iter keys) (any_key E minimum (truthy st) key_id)))))"

text \<open>
  \<open>TaskBuilder.with_minimum_trust_class\<close>: \<open>setdefault\<close>, then assignment to the dict found, which
  is the one inside the task. Assigning to anything but a dict raises.
\<close>

definition with_minimum_trust_class :: "(string \<times> json) list \<Rightarrow> trust_class \<Rightarrow> bool \<Rightarrow> (string \<times> json) list res" where
  "with_minimum_trust_class task tc strict =
     (case (case map_of task ''attestation_requirement'' of Some v \<Rightarrow> v | None \<Rightarrow> JDict []) of
        JDict req \<Rightarrow>
          let req1 = dict_set ''minimum_trust_class'' (JStr (trust_class_value tc)) req;
              req2 = (if strict then dict_set ''minimum_trust_class_strict'' (JBool True) req1 else req1)
          in Inr (dict_set ''attestation_requirement'' (JDict req2) task)
      | _ \<Rightarrow> Inl TypeError)"

subsection \<open>The ordering\<close>

text \<open>The classes in the order RFC 0033 gives: software, then hardware of any make, then delegated.\<close>

instantiation trust_class :: preorder
begin

definition trust_rank :: "trust_class \<Rightarrow> nat" where
  "trust_rank c = (if c = SOFTWARE_KEYPAIR then 0 else if c = DELEGATED then 2 else 1)"

definition less_eq_trust_class :: "trust_class \<Rightarrow> trust_class \<Rightarrow> bool" where
  "a \<le> b \<longleftrightarrow> trust_rank a \<le> trust_rank b"

definition less_trust_class :: "trust_class \<Rightarrow> trust_class \<Rightarrow> bool" where
  "a < b \<longleftrightarrow> trust_rank a < trust_rank b"

instance
  by standard (auto simp: less_eq_trust_class_def less_trust_class_def)

end

text \<open>
  The comparison is the documented ordering: without strict, a declared class satisfies a minimum
  exactly when it is at least as high in the order software-keypair, hardware-attested (any
  make), delegated; with strict, exactly when it is the minimum itself or the minimum is the
  floor software-keypair. Hence strict acceptance implies acceptance.
\<close>

theorem is_at_least_spec:
  "(is_at_least d m False \<longleftrightarrow> m \<le> d) \<and> (is_at_least d m True \<longleftrightarrow> d = m \<or> m = SOFTWARE_KEYPAIR)"
  by (cases d; cases m)
    (simp_all add: is_at_least_def is_hardware_attested_def hardware_attested_def less_eq_trust_class_def trust_rank_def)

lemma trust_class_of_value [simp]: "trust_class_of E (JStr (trust_class_value c)) = Inr c"
  by (cases c) (simp_all add: trust_class_of_def enum_of_def)

lemma any_key_dicts:
  "any_key E m st None (map (\<lambda>k. JDict (key_entry_to_dict k)) ks) = Inr (\<exists>k \<in> set ks. is_at_least (k_trust_class k) m st)"
  by (induction ks) (auto simp: key_entry_to_dict_def)

lemma value_nonempty [simp]: "trust_class_value c \<noteq> []"
  by (cases c) simp_all

text \<open>
  Builder and verifier agree: a task whose minimum trust class was set by the builder, on a task
  without an earlier strict flag, accepts a worker whose capability lists key entries made by
  to_dict exactly when one of the keys has a class that is_at_least the minimum in the mode
  asked for.
\<close>

theorem builder_verifier_agree:
  assumes "with_minimum_trust_class task tc strict = Inr task'"
    and "\<forall>req. map_of task ''attestation_requirement'' = Some (JDict req) \<longrightarrow> map_of req ''minimum_trust_class_strict'' = None"
    and "map_of cap ''attestation_keys'' = Some (JList (map (\<lambda>k. JDict (key_entry_to_dict k)) ks))" "ks \<noteq> []"
  shows "verify_minimum_trust_class E (JDict task') (JDict cap) None =
    Inr (\<exists>k \<in> set ks. is_at_least (k_trust_class k) tc strict)"
proof -
  from assms(1,2) obtain req where task': "task' = dict_set ''attestation_requirement'' (JDict
      (if strict then dict_set ''minimum_trust_class_strict'' (JBool True)
         (dict_set ''minimum_trust_class'' (JStr (trust_class_value tc)) req)
       else dict_set ''minimum_trust_class'' (JStr (trust_class_value tc)) req)) task"
    and req: "map_of req ''minimum_trust_class_strict'' = None"
    by (auto simp: with_minimum_trust_class_def Let_def split: json.splits option.splits)
  have "worker_keys (JDict cap) = Inr (JList (map (\<lambda>k. JDict (key_entry_to_dict k)) ks))"
    using assms(3,4) by (simp add: worker_keys_def)
  then show ?thesis
    using assms(4) req by (cases strict) (simp_all add: task' verify_minimum_trust_class_def map_of_dict_set any_key_dicts)
qed

theorem builder_verifier_agree_witness:
  "with_minimum_trust_class [] HARDWARE_ATTESTED_TEE False =
     Inr [(''attestation_requirement'', JDict [(''minimum_trust_class'', JStr ''hardware-attested-tee'')])] \<and>
   verify_minimum_trust_class sample_env
     (JDict [(''attestation_requirement'', JDict [(''minimum_trust_class'', JStr ''hardware-attested-tee'')])])
     (JDict [(''attestation_keys'', JList (map (\<lambda>k. JDict (key_entry_to_dict k))
        [\<lparr>k_key_id = ''k'', k_did = ''d'', k_public_key_multibase = ''z'', k_algorithm = ''Ed25519'',
          k_trust_class = HARDWARE_ATTESTED_TPM2\<rparr>]))]) None = Inr True"
proof -
  let ?k = "\<lparr>k_key_id = ''k'', k_did = ''d'', k_public_key_multibase = ''z'', k_algorithm = ''Ed25519'',
    k_trust_class = HARDWARE_ATTESTED_TPM2\<rparr>"
  have b: "with_minimum_trust_class [] HARDWARE_ATTESTED_TEE False =
      Inr [(''attestation_requirement'', JDict [(''minimum_trust_class'', JStr ''hardware-attested-tee'')])]"
    by (simp add: with_minimum_trust_class_def)
  show ?thesis
    using b builder_verifier_agree [OF b, of "[(''attestation_keys'', JList (map (\<lambda>k. JDict (key_entry_to_dict k)) [?k]))]" "[?k]" sample_env]
    by (simp add: is_at_least_def is_hardware_attested_def hardware_attested_def)
qed

end
