(* ===== verification/Sdk.thy ===== *)
theory Sdk
  imports Router
begin

text \<open>
  \<open>wcp_sdk/\<close>: identities (\<open>identity.py\<close>), the wire objects (\<open>types.py\<close>), the JSON-RPC client
  (\<open>rpc_client.py\<close>) and the worker and agent sessions (\<open>session.py\<close>).

  A session method that calls the coordinator is modelled by the call it makes: the method
  name and the params. What the method reads from the clock and from \<open>uuid4\<close> is an argument.
  The dict of heartbeat tasks a worker session keeps is explicit state. The sockets, the
  reconnect delays and the 15 seconds between two beats are not modelled.
\<close>

subsection \<open>Identities\<close>

text \<open>The SDK carries its own copy of the base58 codec and of the DID functions.\<close>

definition sdk_b58encode :: "bytes \<Rightarrow> string" where
  "sdk_b58encode b =
     (let out = b58_loop (from_bytes b) []; pad = lead_count (CHR 0x00) b
      in replicate pad (CHR ''1'') @ out)"

definition sdk_b58decode :: "string \<Rightarrow> bytes res" where
  "sdk_b58decode s = bindE (b58_value 0 s) (\<lambda>n.
     let body = (if n \<noteq> 0 then to_bytes ((bit_length n + 7) div 8) n else []);
         pad = lead_count (CHR ''1'') s
     in Inr (replicate pad (CHR 0x00) @ body))"

definition sdk_did_from_pubkey :: "bytes \<Rightarrow> string res" where
  "sdk_did_from_pubkey pubkey =
     (if length pubkey \<noteq> 32 then Inl (ValueError ''Ed25519 public key must be 32 bytes'')
      else Inr (''did:wcp:'' @ sdk_b58encode pubkey))"

definition pubkey_from_did :: "string \<Rightarrow> bytes res" where
  "pubkey_from_did did =
     (if \<not> startswith did ''did:wcp:'' then Inl (ValueError (''not a did:wcp: '' @ repr_str did))
      else
        let parts = split_max 3 (CHR '':'') did in
        if length parts < 3 then Inl (ValueError (''malformed DID: '' @ repr_str did))
        else
          bindE (sdk_b58decode (parts ! 2)) (\<lambda>pk.
            if length pk \<noteq> 32 then
              Inl (ValueError (''did:wcp identifier must decode to 32-byte Ed25519 pubkey, '' @
                ''got '' @ show_nat (length pk) @ '' bytes''))
            else Inr pk))"

record sdk_identity =
  i_did :: string
  i_public_key_b64url :: string
  i_key :: bytes

definition identity_from_sk :: "env \<Rightarrow> bytes \<Rightarrow> sdk_identity res" where
  "identity_from_sk E sk =
     (let pub = ed25519_pub E sk in
      bindE (sdk_did_from_pubkey pub) (\<lambda>did.
        Inr \<lparr>i_did = did, i_public_key_b64url = urlsafe_b64nopad pub, i_key = sk\<rparr>))"

definition identity_sign_bytes :: "env \<Rightarrow> sdk_identity \<Rightarrow> bytes \<Rightarrow> string" where
  "identity_sign_bytes E i data = ''ed25519:'' @ urlsafe_b64nopad (ed25519_sign E (i_key i) data)"

definition identity_sign :: "env \<Rightarrow> sdk_identity \<Rightarrow> json \<Rightarrow> string" where
  "identity_sign E i payload = ''ed25519:'' @ urlsafe_b64nopad (ed25519_sign E (i_key i) (canon E payload))"

text \<open>The SDK's own signature check; what the base64 reader says is left out of the message.\<close>

definition sdk_verify_signature :: "env \<Rightarrow> string \<Rightarrow> bytes \<Rightarrow> string \<Rightarrow> unit res" where
  "sdk_verify_signature E did payload signature =
     (if \<not> startswith signature ''ed25519:'' then
        Inl (ValueError (''unsupported signature scheme: '' @ repr_str (take 10 signature)))
      else
        case urlsafe_b64decode (drop_prefix ''ed25519:'' signature @ ''=='') of
          None \<Rightarrow> Inl (ValueError ''invalid base64 signature: '')
        | Some sig \<Rightarrow>
            bindE (pubkey_from_did did) (\<lambda>pub.
              if ed25519_verify E pub payload sig then Inr ()
              else Inl (ValueError ''Ed25519 verify failed'')))"

subsection \<open>Wire objects\<close>

definition SCHEMA_VERSION :: string where
  "SCHEMA_VERSION = ''wcp/0.2''"

record capability_descriptor =
  cd_worker_id :: string
  cd_principal_id :: string
  cd_worker_class :: worker_class
  cd_current_location :: params
  cd_attestation_methods_supported :: "string list"
  cd_attestation_keys :: "json list"
  cd_available_windows :: "json list"
  cd_certifications :: "json list"
  cd_policy_windows :: "json list"
  cd_class_extension :: params
  cd_as_of :: "string option"
  cd_schema_version :: string

definition capability_to_dict :: "env \<Rightarrow> datetime \<Rightarrow> capability_descriptor \<Rightarrow> params" where
  "capability_to_dict E now d =
     (let as_of = (if or_empty (cd_as_of d) \<noteq> [] then or_empty (cd_as_of d) else isoformat E now) in
      [(''schema_version'', JStr (cd_schema_version d)), (''worker_id'', JStr (cd_worker_id d)),
       (''principal_id'', JStr (cd_principal_id d)), (''class'', JStr (worker_class_value (cd_worker_class d))),
       (''required'', JDict
          [(''current_location'', JDict (cd_current_location d)),
           (''available_windows'', JList (cd_available_windows d)),
           (''attestation_methods_supported'', JList (map JStr (cd_attestation_methods_supported d))),
           (''certifications'', JList (cd_certifications d)), (''policy_windows'', JList (cd_policy_windows d)),
           (''attestation_keys'', JList (cd_attestation_keys d)), (''as_of'', JStr as_of)]),
       (''class_extension'', JDict (cd_class_extension d))])"

record attestation_requirement =
  ar_modes :: "attestation_mode list"
  ar_threshold :: string
  ar_M :: int
  ar_N :: int
  ar_evidence_schema :: "json list"

definition requirement_to_dict :: "attestation_requirement \<Rightarrow> params" where
  "requirement_to_dict r =
     [(''modes'', JList (map (JStr \<circ> attestation_mode_value) (ar_modes r))), (''threshold'', JStr (ar_threshold r)),
      (''M'', JInt (ar_M r)), (''N'', JInt (ar_N r)), (''evidence_schema'', JList (ar_evidence_schema r))]"

record task_descriptor =
  td_task_id :: string
  td_posted_by :: string
  td_descriptor_type :: string
  td_descriptor_payload :: params
  td_constraints :: params
  td_attestation_requirement :: attestation_requirement
  td_max_attestation_attempts :: int
  td_accounting_ref :: "string option"
  td_supervision :: params
  td_x_subcontract_allowed :: bool
  td_schema_version :: string

definition task_to_dict :: "task_descriptor \<Rightarrow> params" where
  "task_to_dict t =
     (let out =
        [(''schema_version'', JStr (td_schema_version t)), (''task_id'', JStr (td_task_id t)),
         (''posted_by'', JStr (td_posted_by t)), (''descriptor_type'', JStr (td_descriptor_type t)),
         (''descriptor_payload'', JDict (td_descriptor_payload t)), (''constraints'', JDict (td_constraints t)),
         (''attestation_requirement'', JDict (requirement_to_dict (td_attestation_requirement t))),
         (''max_attestation_attempts'', JInt (td_max_attestation_attempts t)),
         (''supervision'', JDict (td_supervision t)),
         (''x-subcontract-allowed'', JBool (td_x_subcontract_allowed t))]
      in case td_accounting_ref t of
           None \<Rightarrow> out
         | Some a \<Rightarrow> dict_set ''accounting_ref'' (JStr a) out)"

record attestation_evidence =
  ev_mode :: attestation_mode
  ev_kind :: string
  ev_payload :: params
  ev_payload_hash :: string
  ev_sig :: string
  ev_worker_id :: string
  ev_claim_id :: string
  ev_collected_at :: string
  ev_schema_version :: string

definition evidence_to_dict :: "attestation_evidence \<Rightarrow> params" where
  "evidence_to_dict e =
     [(''schema_version'', JStr (ev_schema_version e)), (''mode'', JStr (attestation_mode_value (ev_mode e))),
      (''kind'', JStr (ev_kind e)), (''payload'', JDict (ev_payload e)), (''payload_hash'', JStr (ev_payload_hash e)),
      (''sig'', JStr (ev_sig e)), (''worker_id'', JStr (ev_worker_id e)), (''claim_id'', JStr (ev_claim_id e)),
      (''collected_at'', JStr (ev_collected_at e))]"

subsection \<open>The JSON-RPC client\<close>

text \<open>
  The client numbers its calls and keeps the numbers of the unanswered ones. \<open>reader_step\<close> is
  one turn of the reader loop on the text received (\<open>None\<close>: no JSON): it says which call is
  resolved and how. An exception inside the loop ends the reader.
\<close>

record rpc_client =
  rc_next_id :: int
  rc_pending :: "int list"

definition new_client :: rpc_client where
  "new_client = \<lparr>rc_next_id = 1, rc_pending = []\<rparr>"

datatype reply = Resolved json | Failed json json json

fun is_retryable :: "reply \<Rightarrow> bool" where
  "is_retryable (Failed code msg (JDict d)) =
     (case map_of d ''retry'' of
        Some (JDict r) \<Rightarrow> truthy (case map_of r ''retryable'' of Some v \<Rightarrow> v | None \<Rightarrow> JBool False)
      | _ \<Rightarrow> False)"
| "is_retryable _ = False"

definition client_call :: "string \<Rightarrow> params \<Rightarrow> rpc_client \<Rightarrow> params \<times> rpc_client" where
  "client_call method params c =
     ([(''jsonrpc'', JStr ''2.0''), (''id'', JInt (rc_next_id c)), (''method'', JStr method),
       (''params'', JDict params)],
      c\<lparr>rc_next_id := rc_next_id c + 1, rc_pending := rc_pending c @ [rc_next_id c]\<rparr>)"

definition reader_step :: "json option \<Rightarrow> (rpc_client, (int \<times> reply) option) py" where
  "reader_step raw =
     (case raw of
        None \<Rightarrow> ret None
      | Some data \<Rightarrow>
          bindS (lift (case data of JDict d \<Rightarrow> Inr (''event_type'' \<in> fst ` set d) | _ \<Rightarrow> Inr False)) (\<lambda>stream.
          if stream then ret None
          else
            bindS (lift (j_get data ''id'' JNull)) (\<lambda>req_id.
            if req_id = JNull then ret None
            else
              bindS (lift (py_int req_id)) (\<lambda>i.
              bindS (gets (\<lambda>c. i \<in> set (rc_pending c))) (\<lambda>waiting.
              bindS (modify (\<lambda>c. c\<lparr>rc_pending := filter (\<lambda>j. j \<noteq> i) (rc_pending c)\<rparr>)) (\<lambda>_.
              if \<not> waiting then ret None
              else
                bindS (lift (py_in ''error'' data)) (\<lambda>err.
                if err then
                  bindS (lift (j_item data ''error'')) (\<lambda>e.
                  bindS (lift (j_get e ''code'' (JInt (-32603)))) (\<lambda>code.
                  bindS (lift (j_get e ''message'' (JStr []))) (\<lambda>msg.
                  bindS (lift (j_get e ''data'' JNull)) (\<lambda>dat.
                  ret (Some (i, Failed code msg dat))))))
                else bindS (lift (j_get data ''result'' JNull)) (\<lambda>r. ret (Some (i, Resolved r))))))))))"

subsection \<open>Sessions\<close>

type_synonym rpc_call = "string \<times> params"

definition publish_capabilities :: "env \<Rightarrow> sdk_identity \<Rightarrow> datetime \<Rightarrow> capability_descriptor \<Rightarrow> rpc_call" where
  "publish_capabilities E i now descriptor =
     (''capabilities/list'',
      [(''worker_id'', JStr (i_did i)), (''capabilities'', JDict (capability_to_dict E now descriptor))])"

definition sdk_acceptance ::
  "env \<Rightarrow> sdk_identity \<Rightarrow> datetime \<Rightarrow> string \<Rightarrow> string \<Rightarrow> string option \<Rightarrow> params" where
  "sdk_acceptance E i now task_id eta bid =
     (let payload_hash = sha256_hex E (canon E (JDict [(''task_id'', JStr task_id)]));
          signed_at = isoformat E now;
          canonical = JDict [(''task_id'', JStr task_id), (''worker_id'', JStr (i_did i)), (''eta'', JStr eta),
            (''bid'', opt_str bid), (''payload_hash'', JStr payload_hash), (''signed_at'', JStr signed_at)]
      in [(''sig'', JStr (identity_sign E i canonical)), (''alg'', JStr ''Ed25519''),
          (''payload_hash'', JStr payload_hash), (''signed_at'', JStr signed_at)])"

definition sdk_claim ::
  "env \<Rightarrow> sdk_identity \<Rightarrow> datetime \<Rightarrow> string \<Rightarrow> string \<Rightarrow> string option \<Rightarrow> rpc_call" where
  "sdk_claim E i now task_id eta bid =
     (''tasks/claim'',
      [(''task_id'', JStr task_id), (''worker_id'', JStr (i_did i)), (''eta'', JStr eta), (''bid'', opt_str bid),
       (''acceptance_attestation'', JDict (sdk_acceptance E i now task_id eta bid))])"

definition sdk_execute_open :: "string \<Rightarrow> rpc_call" where
  "sdk_execute_open claim_id = (''tasks/execute'', [(''claim_id'', JStr claim_id)])"

definition emit_event ::
  "env \<Rightarrow> sdk_identity \<Rightarrow> datetime \<Rightarrow> string \<Rightarrow> string \<Rightarrow> params \<Rightarrow> rpc_call" where
  "emit_event E i now claim_id event_type payload =
     (let ts = isoformat E now;
          sig = identity_sign E i (JDict [(''claim_id'', JStr claim_id), (''event_type'', JStr event_type),
            (''timestamp'', JStr ts), (''payload'', JDict payload)])
      in (''tasks/execute.event'',
          [(''claim_id'', JStr claim_id), (''event_type'', JStr event_type), (''timestamp'', JStr ts),
           (''payload'', JDict payload), (''sig'', JStr sig)]))"

text \<open>
  \<open>_heartbeat_tasks\<close> maps a claim to its asyncio task; tasks are numbered in the order of
  \<open>create_task\<close>, and \<open>hb_running\<close> holds those neither cancelled nor finished. \<open>execute_opened\<close>
  is what \<open>execute_open\<close> does once the coordinator has answered.
\<close>

record worker_session =
  hb_tasks :: "(string \<times> nat) list"
  hb_running :: "nat list"
  hb_next :: nat

definition new_worker_session :: worker_session where
  "new_worker_session = \<lparr>hb_tasks = [], hb_running = [], hb_next = 0\<rparr>"

definition execute_opened :: "string \<Rightarrow> worker_session \<Rightarrow> worker_session" where
  "execute_opened claim_id w =
     w\<lparr>hb_tasks := dict_set claim_id (hb_next w) (hb_tasks w), hb_running := hb_running w @ [hb_next w],
       hb_next := hb_next w + 1\<rparr>"

definition session_exit :: "worker_session \<Rightarrow> worker_session" where
  "session_exit w = w\<lparr>hb_running := filter (\<lambda>n. n \<notin> snd ` set (hb_tasks w)) (hb_running w)\<rparr>"

text \<open>One beat of \<open>_heartbeat_loop\<close>.\<close>

definition heartbeat :: "env \<Rightarrow> sdk_identity \<Rightarrow> datetime \<Rightarrow> string \<Rightarrow> rpc_call" where
  "heartbeat E i now claim_id = emit_event E i now claim_id ''heartbeat'' [(''claim_id'', JStr claim_id)]"

definition sdk_attest :: "string \<Rightarrow> attestation_evidence list \<Rightarrow> params option \<Rightarrow> rpc_call" where
  "sdk_attest claim_id evidence compensating_action =
     (let params = [(''claim_id'', JStr claim_id),
                    (''attestations'', JList (map (JDict \<circ> evidence_to_dict) evidence))]
      in (''tasks/attest'',
          case compensating_action of None \<Rightarrow> params
          | Some a \<Rightarrow> dict_set ''compensating_action'' (JDict a) params))"

definition sdk_supervise :: "string \<Rightarrow> string \<Rightarrow> params \<Rightarrow> string \<Rightarrow> rpc_call" where
  "sdk_supervise claim_id handoff_reason state_snapshot urgency =
     (''tasks/supervise'',
      [(''claim_id'', JStr claim_id), (''handoff_reason'', JStr handoff_reason),
       (''state_snapshot'', JDict state_snapshot), (''urgency'', JStr urgency)])"

definition sdk_abort :: "string \<Rightarrow> string \<Rightarrow> params \<Rightarrow> worker_session \<Rightarrow> rpc_call \<times> worker_session" where
  "sdk_abort claim_id reason state_snapshot w =
     ((''tasks/abort'',
       [(''claim_id'', JStr claim_id), (''reason'', JStr reason), (''state_snapshot'', JDict state_snapshot)]),
      case map_of (hb_tasks w) claim_id of
        None \<Rightarrow> w
      | Some ht \<Rightarrow> w\<lparr>hb_tasks := filter (\<lambda>e. fst e \<noteq> claim_id) (hb_tasks w),
                      hb_running := filter (\<lambda>n. n \<noteq> ht) (hb_running w)\<rparr>)"

definition build_evidence ::
  "env \<Rightarrow> sdk_identity \<Rightarrow> datetime \<Rightarrow> string \<Rightarrow> attestation_mode \<Rightarrow> string \<Rightarrow> params \<Rightarrow> string option \<Rightarrow>
   attestation_evidence" where
  "build_evidence E i now claim_id mode kind payload collected_at0 =
     (let collected_at = (if or_empty collected_at0 \<noteq> [] then or_empty collected_at0 else isoformat E now);
          payload_hash = sha256_hex E (canon E (JDict payload));
          canonical = JDict [(''mode'', JStr (attestation_mode_value mode)), (''kind'', JStr kind),
            (''payload_hash'', JStr payload_hash), (''worker_id'', JStr (i_did i)), (''claim_id'', JStr claim_id),
            (''collected_at'', JStr collected_at)]
      in \<lparr>ev_mode = mode, ev_kind = kind, ev_payload = payload, ev_payload_hash = payload_hash,
          ev_sig = identity_sign E i canonical, ev_worker_id = i_did i, ev_claim_id = claim_id,
          ev_collected_at = collected_at, ev_schema_version = SCHEMA_VERSION\<rparr>)"

definition sdk_post :: "task_descriptor \<Rightarrow> string \<Rightarrow> params option \<Rightarrow> rpc_call" where
  "sdk_post task expiry supervision =
     (let params = [(''task'', JDict (task_to_dict task)), (''expiry'', JStr expiry)]
      in (''tasks/post'',
          case supervision of None \<Rightarrow> params | Some v \<Rightarrow> dict_set ''supervision'' (JDict v) params))"

definition sdk_subscribe :: "sdk_identity \<Rightarrow> params option \<Rightarrow> int option \<Rightarrow> rpc_call" where
  "sdk_subscribe i filter_dict since_revision =
     (let p0 = [(''agent_did'', JStr (i_did i))];
          p1 = (case filter_dict of None \<Rightarrow> p0 | Some f \<Rightarrow> dict_set ''filter'' (JDict f) p0);
          p2 = (case since_revision of None \<Rightarrow> p1 | Some n \<Rightarrow> dict_set ''since_revision'' (JInt n) p1)
      in (''capabilities/subscribe'', p2))"

definition make_task_descriptor ::
  "string \<Rightarrow> string \<Rightarrow> string \<Rightarrow> params \<Rightarrow> attestation_mode list \<Rightarrow> (string \<times> string list) list \<Rightarrow> int \<Rightarrow> int \<Rightarrow>
   worker_class list option \<Rightarrow> string option \<Rightarrow> params option \<Rightarrow> int \<Rightarrow> string option \<Rightarrow> task_descriptor" where
  "make_task_descriptor uuid posted_by descriptor_type descriptor_payload modes kinds m n classes task_id time_window
     max_attempts accounting_ref =
     (let allowed = (case classes of None \<Rightarrow> [HUMAN] | Some cs \<Rightarrow> if cs = [] then [HUMAN] else cs)
      in \<lparr>td_task_id = (if or_empty task_id \<noteq> [] then or_empty task_id else uuid), td_posted_by = posted_by,
          td_descriptor_type = descriptor_type, td_descriptor_payload = descriptor_payload,
          td_constraints =
            [(''time_window'', JDict (case time_window of None \<Rightarrow> [] | Some w \<Rightarrow> w)),
             (''worker_class_filter'', JDict [(''allowed'', JList (map (JStr \<circ> worker_class_value) allowed))])],
          td_attestation_requirement =
            \<lparr>ar_modes = modes, ar_threshold = ''M-of-N'', ar_M = m, ar_N = n,
             ar_evidence_schema = map (\<lambda>mode. JDict
               [(''mode'', JStr (attestation_mode_value mode)),
                (''kinds'', JList (map JStr (case map_of kinds (attestation_mode_value mode) of
                   Some ks \<Rightarrow> ks | None \<Rightarrow> [])))]) modes\<rparr>,
          td_max_attestation_attempts = max_attempts, td_accounting_ref = accounting_ref,
          td_supervision = [(''default'', JStr ''autonomous'')], td_x_subcontract_allowed = False,
          td_schema_version = SCHEMA_VERSION\<rparr>)"

end
