(* ===== verification/Task_Results.thy ===== *)
theory Task_Results
  imports Lifecycle
begin

text \<open>
  What each task handler leaves in the database and returns when it succeeds, and what had to
  hold for it to succeed.
\<close>

lemma audit_append_ok:
  "audit_append E et ac pl ci ti None s = (Inr r, t) \<longleftrightarrow>
     uuid4 E (n_uuid s) \<notin> a_entry_id ` set (audits s) \<and>
     r = \<lparr>ar_entry_id = uuid4 E (n_uuid s), ar_this_hash = a_this_hash (new_entry E et ac pl ci ti s),
          ar_prev_hash = a_prev_hash (new_entry E et ac pl ci ti s)\<rparr> \<and>
     t = s\<lparr>n_now := Suc (n_now s), n_uuid := Suc (n_uuid s), audits := audits s @ [new_entry E et ac pl ci ti s]\<rparr>"
  by (auto simp: audit_append_run Let_def)

lemma add_ok:
  "add_task x s = (Inr u, t) \<longleftrightarrow> t_task_id x \<notin> t_task_id ` set (tasks s) \<and> t = s\<lparr>tasks := tasks s @ [x]\<rparr>"
  "add_claim y s = (Inr u, t) \<longleftrightarrow> c_claim_id y \<notin> c_claim_id ` set (claims s) \<and> t = s\<lparr>claims := claims s @ [y]\<rparr>"
  "add_session z s = (Inr u, t) \<longleftrightarrow>
     s_session_id z \<notin> s_session_id ` set (sessions s) \<and> t = s\<lparr>sessions := sessions s @ [z]\<rparr>"
  "utcnow E s = (Inr d, t) \<longleftrightarrow> d = Aware (clock E (n_now s)) 0 \<and> t = s\<lparr>n_now := Suc (n_now s)\<rparr>"
  "uuid_str E s = (Inr w, t) \<longleftrightarrow> w = uuid4 E (n_uuid s) \<and> t = s\<lparr>n_uuid := Suc (n_uuid s)\<rparr>"
  by (auto simp: access_defs row_add_def)

lemma lift_ok [simp]: "lift r s = (Inr x, t) \<longleftrightarrow> r = Inr x \<and> t = s"
  by (auto simp: lift_def)

text \<open>Only the tables named change.\<close>

definition same_but_tasks :: "db \<Rightarrow> db \<Rightarrow> bool" where
  "same_but_tasks s t \<longleftrightarrow> workers t = workers s \<and> sessions t = sessions s \<and>
     attestations t = attestations s \<and> subscriptions t = subscriptions s"

subsection \<open>tasks/post\<close>

lemma post_ok:
  assumes "task_post E reg task expiry info s = (Inr r, t)"
  shows "\<exists>row e. post_checks E reg task = Inr () \<and> (\<exists>rd. did_resolve (t_posted_by row) = Inr rd) \<and>
    fresh_task row \<and> t_task_id row \<notin> t_task_id ` set (tasks s) \<and>
    t_task_json row = JDict (dict_set ''task_id'' (JStr (t_task_id row)) task) \<and>
    map_of task ''posted_by'' = Some (JStr (t_posted_by row)) \<and>
    tasks t = tasks s @ [row] \<and> audits t = audits s @ [e] \<and>
    a_event_type e = ''task_posted'' \<and> a_actor_did e = t_posted_by row \<and> a_claim_id e = None \<and>
    a_task_id e = Some (t_task_id row) \<and>
    a_payload_json e = JDict (audit_payload_of (t_task_id row) (dict_set ''task_id'' (JStr (t_task_id row)) task) info) \<and>
    (\<forall>u. map_of task ''task_id'' = Some (JStr u) \<and> u \<noteq> [] \<longrightarrow> t_task_id row = u) \<and>
    claims t = claims s \<and> same_but_tasks s t"
proof -
  have pb: "map_of task ''posted_by'' = Some (JStr pb)"
    if "j_get (JDict (dict_set ''task_id'' k task)) ''posted_by'' JNull = Inr j" "as_str j = Inr pb" for j k pb
    using that by (cases j) (auto simp: map_of_dict_set split: option.splits)
  have ids: "str_column j = Inr k \<Longrightarrow> j = JStr k" for j k by (cases j) auto
  from assms obtain gid k tj pb j rd x dt d where
    run: "post_checks E reg task = Inr ()"
    "j_get (JDict (dict_set ''task_id'' tj task)) ''posted_by'' JNull = Inr j" "as_str j = Inr pb"
    "resolve_or_value_error ''DID_NOT_RESOLVED: posted_by: '' pb = Inr rd" "str_column tj = Inr k"
    "truthy (case map_of task ''task_id'' of None \<Rightarrow> JNull | Some v \<Rightarrow> v) \<longrightarrow>
      tj = (case map_of task ''task_id'' of None \<Rightarrow> JNull | Some v \<Rightarrow> v)"
    and t: "k \<notin> t_task_id ` set (tasks s)"
      "tasks t = tasks s @ [\<lparr>t_task_id = k, t_posted_by = pb, t_descriptor_type = d,
        t_task_json = JDict (dict_set ''task_id'' tj task), t_expiry = x, t_state = POSTED,
        t_attestation_attempts_used = 0, t_posted_at = dt\<rparr>]"
      "\<exists>e. audits t = audits s @ [e] \<and> a_event_type e = ''task_posted'' \<and> a_actor_did e = pb \<and>
         a_claim_id e = None \<and> a_task_id e = Some k \<and> a_payload_json e = JDict (audit_payload_of k (dict_set ''task_id'' tj task) info)"
      "claims t = claims s" "same_but_tasks s t"
    unfolding task_post_def Let_def
    by (auto simp: add_ok audit_append_ok same_but_tasks_def split: if_splits)
  obtain e where e: "audits t = audits s @ [e]" "a_event_type e = ''task_posted''" "a_actor_did e = pb"
      "a_claim_id e = None" "a_task_id e = Some k" "a_payload_json e = JDict (audit_payload_of k (dict_set ''task_id'' tj task) info)"
    using t(3) by blast
  from run(4) have "did_resolve pb = Inr rd" by (simp add: resolve_or_value_error_def split: sum.splits)
  with run t e pb [OF run(2,3)] ids [OF run(5)] show ?thesis
    by (intro exI [of _ "last (tasks t)"] exI [of _ e]) (simp add: fresh_task_def, force)
qed

subsection \<open>tasks/claim\<close>

lemma claim_ok:
  assumes "task_claim E tid wid eta acc bid s = (Inr r, t)"
  shows "\<exists>task worker c e. get_task s tid = Some task \<and> t_state task = POSTED \<and>
    clock E (n_now s) \<le> utc_us (t_expiry task) \<and> get_worker s wid = Some worker \<and>
    self_dealing_check task worker = Inr () \<and> check_acceptance E tid wid eta acc bid = Inr () \<and>
    unclaimed s tid \<and> c_task_id c = tid \<and> c_worker_id c = wid \<and> c_accepted c \<and>
    c_claim_id c \<notin> c_claim_id ` set (claims s) \<and> claims t = claims s @ [c] \<and>
    tasks t = row_update t_task_id tid (\<lambda>t. t\<lparr>t_state := CLAIMED\<rparr>) (tasks s) \<and>
    audits t = audits s @ [e] \<and> a_event_type e = ''task_claimed'' \<and> a_actor_did e = wid \<and>
    a_claim_id e = Some (c_claim_id c) \<and> a_task_id e = Some tid \<and>
    same_but_tasks s t \<and> j_get r ''claim_id'' JNull = Inr (JStr (c_claim_id c))"
proof -
  have guard: "claim_guard tid x = Inr () \<Longrightarrow> t_state x = POSTED" for x
    by (simp add: claim_guard_def split: if_splits)
  have time: "dt_less (as_utc d) (Aware n 0) = Inr False \<Longrightarrow> n \<le> utc_us d" for d n
    using dt_less_as_utc [of d "Aware n 0"] by simp
  from assms obtain task worker where
    run: "get_task s tid = Some task" "claim_guard tid task = Inr ()"
      "dt_less (as_utc (t_expiry task)) (Aware (clock E (n_now s)) 0) = Inr False"
      "get_worker s wid = Some worker" "self_dealing_check task worker = Inr ()"
      "check_acceptance E tid wid eta acc bid = Inr ()" "unclaimed s tid"
    and t: "\<exists>c. c_task_id c = tid \<and> c_worker_id c = wid \<and> c_accepted c \<and>
      c_claim_id c \<notin> c_claim_id ` set (claims s) \<and> claims t = claims s @ [c] \<and>
      tasks t = row_update t_task_id tid (\<lambda>t. t\<lparr>t_state := CLAIMED\<rparr>) (tasks s) \<and>
      (\<exists>e. audits t = audits s @ [e] \<and> a_event_type e = ''task_claimed'' \<and> a_actor_did e = wid \<and>
         a_claim_id e = Some (c_claim_id c) \<and> a_task_id e = Some tid) \<and>
      same_but_tasks s t \<and> j_get r ''claim_id'' JNull = Inr (JStr (c_claim_id c))"
    unfolding task_claim_def
    by (auto simp: add_ok audit_append_ok same_but_tasks_def set_task_def unclaimed_def)
  from t run guard [OF run(2)] time [OF run(3)] show ?thesis by blast
qed


subsection \<open>tasks/attest\<close>

text \<open>The evidence loop writes attestations and draws UUIDs, nothing else.\<close>

definition same_but_evidence :: "db \<Rightarrow> db \<Rightarrow> bool" where
  "same_but_evidence s t \<longleftrightarrow> workers t = workers s \<and> tasks t = tasks s \<and> claims t = claims s \<and>
     sessions t = sessions s \<and> audits t = audits s \<and> subscriptions t = subscriptions s \<and> n_now t = n_now s"

lemma keeps_evidence:
  "keeps (same_but_evidence s0) (mapS (attest_one E reg cid wid rd tp) evs)"
proof -
  have ops: "keeps (same_but_evidence s0) (uuid_str E)" "keeps (same_but_evidence s0) (add_attestation a)" for a
    by (auto simp: keeps_def same_but_evidence_def access_defs row_add_def)
  have "keeps (same_but_evidence s0) (attest_one E reg cid wid rd tp ev)" for ev
    unfolding attest_one_def store_attestation_def
    by (intro keeps_bindS keeps_lift) (auto split: sum.splits intro!: keeps_bindS ops)
  then show ?thesis by (intro keeps_mapS)
qed

text \<open>What the worker's signature over one piece of evidence covers.\<close>

definition evidence_signed :: "env \<Rightarrow> string \<Rightarrow> wcp_claim \<Rightarrow> json \<Rightarrow> bool" where
  "evidence_signed E cid c ev \<longleftrightarrow>
     (\<exists>rd mode kind ph ca sig. did_resolve (c_worker_id c) = Inr rd \<and>
        j_get ev ''mode'' JNull = Inr mode \<and> j_get ev ''kind'' JNull = Inr kind \<and>
        j_get ev ''payload_hash'' JNull = Inr ph \<and> j_get ev ''collected_at'' JNull = Inr ca \<and>
        j_get ev ''sig'' (JStr []) = Inr (JStr sig) \<and>
        did_verify E rd (canon E (evidence_json mode kind ph (c_worker_id c) cid ca)) sig = Inr ())"

lemma as_str_Inr [simp]: "as_str j = Inr s \<longleftrightarrow> j = JStr s"
  by (cases j) auto

lemma attest_one_pass:
  assumes "attest_one E reg cid (c_worker_id c) rd tp ev s = (Inr (m, out), t)" "vo_decision out = PASS"
    and "did_resolve (c_worker_id c) = Inr rd"
  shows "evidence_signed E cid c ev \<and> j_get ev ''mode'' JNull = Inr m \<and>
    (\<exists>kind payload. j_get ev ''kind'' JNull = Inr kind \<and> j_get ev ''payload'' (JDict []) = Inr payload \<and>
       verify_single E reg m kind payload tp = Inr out)"
proof -
  from assms(1) obtain mode kind payload ph ca sig where
    get: "j_get ev ''mode'' JNull = Inr mode" "j_get ev ''kind'' JNull = Inr kind"
      "j_get ev ''payload'' (JDict []) = Inr payload" "j_get ev ''payload_hash'' JNull = Inr ph"
      "j_get ev ''collected_at'' JNull = Inr ca" "j_get ev ''sig'' (JStr []) = Inr (JStr sig)"
    and run: "(case did_verify E rd (canon E (evidence_json mode kind ph (c_worker_id c) cid ca)) sig of
         Inl exc \<Rightarrow> ret (py_or mode (JStr ''?''), fail_outcome [''signature: '' @ exc_message exc])
       | Inr _ \<Rightarrow>
           bindS (lift (verify_single E reg mode kind payload tp)) (\<lambda>outc.
           bindS (store_attestation E cid (c_worker_id c) ev mode kind payload sig outc) (\<lambda>_.
           ret (mode, outc)))) s = (Inr (m, out), t)"
    unfolding attest_one_def by auto
  from run assms(2) have ver: "did_verify E rd (canon E (evidence_json mode kind ph (c_worker_id c) cid ca)) sig = Inr ()"
    by (auto split: sum.splits)
  with run have "m = mode" "verify_single E reg mode kind payload tp = Inr out" by auto
  with get ver assms(3) show ?thesis unfolding evidence_signed_def by auto
qed

definition next_state :: "verifier_decision \<Rightarrow> int \<Rightarrow> int \<Rightarrow> task_state" where
  "next_state d n m =
     (case d of PASS \<Rightarrow> COMPLETED | REVIEW \<Rightarrow> ATTESTING | FAIL \<Rightarrow> if n < m then RECHECKING else VOIDED)"

definition attest_events :: "verifier_decision \<Rightarrow> int \<Rightarrow> int \<Rightarrow> string list" where
  "attest_events d n m =
     ''attestation_attempt'' #
     (case d of PASS \<Rightarrow> [''task_completed''] | REVIEW \<Rightarrow> []
      | FAIL \<Rightarrow> if n < m then [''recheck_requested''] else [''task_voided''])"

lemma attest_route_ok:
  assumes "attest_route E cid task acct n (max 0 (m - n)) agg s = (Inr u, t)"
    and "get_task s (t_task_id task) = Some t0" "t_state t0 = ATTESTING"
  shows "get_task t (t_task_id task) = Some (t0\<lparr>t_state := next_state (vo_decision agg) n m\<rparr>) \<and>
    (\<forall>k. k \<noteq> t_task_id task \<longrightarrow> get_task t k = get_task s k) \<and>
    (\<exists>es. audits t = audits s @ es \<and> ''attestation_attempt'' # map a_event_type es = attest_events (vo_decision agg) n m) \<and>
    claims t = claims s \<and> workers t = workers s"
proof (cases "vo_decision agg")
  case FAIL
  with assms show ?thesis
    by (auto simp: attest_route_def audit_append_ok set_state_def set_task_def row_update_get next_state_def
        attest_events_def split: if_splits)
next
  case REVIEW
  with assms show ?thesis by (auto simp: attest_route_def next_state_def attest_events_def)
next
  case PASS
  with assms show ?thesis
    by (auto simp: attest_route_def audit_append_ok set_state_def set_task_def row_update_get next_state_def
        attest_events_def)
qed

text \<open>Everything a successful call to \<open>tasks/attest\<close> computed and wrote.\<close>

definition attest_result ::
  "env \<Rightarrow> registry \<Rightarrow> string \<Rightarrow> json list \<Rightarrow> wcp_claim \<Rightarrow> wcp_task \<Rightarrow> int \<Rightarrow> (json \<times> outcome) list \<Rightarrow> outcome \<Rightarrow>
   db \<Rightarrow> db \<Rightarrow> bool" where
  "attest_result E reg cid evs c task m outs agg s t \<longleftrightarrow>
     (\<exists>req tp rd. holds_rows cid c task s \<and> t_state task \<in> {EXECUTING, SUPERVISING, RECHECKING} \<and>
        max_attempts_of task = Inr m \<and> did_resolve (c_worker_id c) = Inr rd \<and>
        j_get (t_task_json task) ''attestation_requirement'' (JDict []) = Inr req \<and>
        j_get (t_task_json task) ''descriptor_payload'' (JDict []) = Inr tp \<and>
        list_all2 (\<lambda>ev out. \<exists>u v. attest_one E reg cid (c_worker_id c) rd tp ev u = (Inr out, v)) evs outs \<and>
        evaluate_threshold E req outs = Inr agg) \<and>
     (let n = t_attestation_attempts_used task + 1 in
        get_task t (t_task_id task) =
          Some (task\<lparr>t_attestation_attempts_used := n, t_state := next_state (vo_decision agg) n m\<rparr>) \<and>
        (\<exists>es. audits t = audits s @ es \<and> map a_event_type es = attest_events (vo_decision agg) n m)) \<and>
     (\<forall>k. k \<noteq> t_task_id task \<longrightarrow> get_task t k = get_task s k) \<and>
     claims t = claims s \<and> workers t = workers s"

lemma attest_ok:
  assumes "task_attest E reg cid evs s = (Inr r, t)"
  shows "\<exists>c task m outs agg. attest_result E reg cid evs c task m outs agg s t \<and>
    j_get r ''verifier_decision'' JNull = Inr (JStr (verifier_decision_value (vo_decision agg)))"
proof -
  from assms obtain c task req tp m rd outs agg acct u v where
    start: "holds_rows cid c task s" "attest_guard task = Inr ()"
      "j_get (t_task_json task) ''attestation_requirement'' (JDict []) = Inr req"
      "max_attempts_of task = Inr m" "did_resolve (c_worker_id c) = Inr rd"
      "j_get (t_task_json task) ''descriptor_payload'' (JDict []) = Inr tp"
    and loop: "mapS (attest_one E reg cid (c_worker_id c) rd tp) evs s = (Inr outs, u)"
    and agg: "evaluate_threshold E req outs = Inr agg"
    and r: "j_get r ''verifier_decision'' JNull = Inr (JStr (verifier_decision_value (vo_decision agg)))"
    and route: "attest_route E cid task acct (t_attestation_attempts_used task + 1)
        (max 0 (m - (t_attestation_attempts_used task + 1))) agg v = (Inr (), t)"
    and ex: "\<exists>e. audits v = audits u @ [e] \<and> a_event_type e = ''attestation_attempt''"
    and v: "tasks v = row_update t_task_id (t_task_id task) (\<lambda>t. t\<lparr>t_attestation_attempts_used :=
         t_attestation_attempts_used task + 1, t_state := ATTESTING\<rparr>) (tasks u)"
      "claims v = claims u" "workers v = workers u"
    unfolding task_attest_def Let_def
    by (fastforce simp: claim_and_task_ok audit_append_ok set_task_def db_flush_def split: if_splits)
  from ex obtain e where e: "audits v = audits u @ [e]" "a_event_type e = ''attestation_attempt''" by blast
  let ?n = "t_attestation_attempts_used task + 1"
  let ?t0 = "task\<lparr>t_attestation_attempts_used := ?n, t_state := ATTESTING\<rparr>"
  have u: "same_but_evidence s u"
    by (rule keeps_Inr [OF keeps_evidence loop]) (simp add: same_but_evidence_def)
  from start(2) have st: "t_state task \<in> {EXECUTING, SUPERVISING, RECHECKING}"
    by (auto simp: attest_guard_def split: if_splits)
  have rows: "get_task v k = (if k = t_task_id task then Some ?t0 else get_task s k)" for k
    using start(1) u v(1) by (auto simp: holds_rows_def same_but_evidence_def row_update_get)
  from attest_route_ok [OF route, of ?t0] rows obtain es where
    fin: "get_task t (t_task_id task) = Some (?t0\<lparr>t_state := next_state (vo_decision agg) ?n m\<rparr>)"
      "\<forall>k. k \<noteq> t_task_id task \<longrightarrow> get_task t k = get_task s k"
      "audits t = audits v @ es" "''attestation_attempt'' # map a_event_type es = attest_events (vo_decision agg) ?n m"
      "claims t = claims v" "workers t = workers v"
    by auto
  from fin(3,4) e u have "\<exists>es. audits t = audits s @ es \<and> map a_event_type es = attest_events (vo_decision agg) ?n m"
    by (intro exI [of _ "e # es"]) (simp add: same_but_evidence_def)
  moreover have "?t0\<lparr>t_state := x\<rparr> = task\<lparr>t_attestation_attempts_used := ?n, t_state := x\<rparr>" for x
    by simp
  moreover have "claims t = claims s" "workers t = workers s"
    using fin(5,6) v(2,3) u by (simp_all add: same_but_evidence_def)
  ultimately have "attest_result E reg cid evs c task m outs agg s t"
    unfolding attest_result_def Let_def
    using start st mapS_list_all2 [OF loop] agg fin(1,2) by auto
  with r show ?thesis by blast
qed

text \<open>A piece of evidence the claim's worker signed and the verifier of its mode passed.\<close>

definition accepted_piece :: "env \<Rightarrow> registry \<Rightarrow> string \<Rightarrow> wcp_claim \<Rightarrow> json \<Rightarrow> json \<Rightarrow> json \<Rightarrow> bool" where
  "accepted_piece E reg cid c tp mode ev \<longleftrightarrow> evidence_signed E cid c ev \<and> j_get ev ''mode'' JNull = Inr mode \<and>
     (\<exists>kind payload out. j_get ev ''kind'' JNull = Inr kind \<and> j_get ev ''payload'' (JDict []) = Inr payload \<and>
        verify_single E reg mode kind payload tp = Inr out \<and> vo_decision out = PASS)"

lemma passing_piece_accepted:
  assumes "list_all2 (\<lambda>ev out. \<exists>u v. attest_one E reg cid (c_worker_id c) rd tp ev u = (Inr out, v)) evs outs"
    and "did_resolve (c_worker_id c) = Inr rd" "p \<in> set outs" "vo_decision (snd p) = PASS"
  shows "\<exists>ev \<in> set evs. accepted_piece E reg cid c tp (fst p) ev"
proof -
  from assms(3) obtain i where i: "i < length outs" "outs ! i = p" by (auto simp: in_set_conv_nth)
  with assms(1) obtain u v where "attest_one E reg cid (c_worker_id c) rd tp (evs ! i) u = (Inr (fst p, snd p), v)" "evs ! i \<in> set evs"
    by (auto simp: list_all2_conv_all_nth)
  with attest_one_pass [OF this(1) assms(4,2)] show ?thesis
    using assms(4) unfolding accepted_piece_def by blast
qed

end
