(* ===== verification/Sample_Run.thy ===== *)
theory Sample_Run
  imports Router Task_Results
begin

text \<open>
  One complete run in the sample environment, request by request over HTTP: a worker publishes
  its capabilities (\<open>run1\<close>), an agent posts a task (\<open>run2\<close>), the worker claims it (\<open>run3\<close>),
  opens execution (\<open>run4\<close>) and submits evidence that completes it (\<open>run5\<close>). The states are the
  concrete inputs at which theorems with hypotheses are applied.
\<close>


definition rpc_request :: "string \<Rightarrow> params \<Rightarrow> params" where
  "rpc_request m p = [(''jsonrpc'', JStr ''2.0''), (''id'', JInt 1), (''method'', JStr m), (''params'', JDict p)]"

lemma http_call:
  assumes "map_of (methods E) m = Some h" "p \<noteq> []" "h p s = (Inr r, t)" "list_all attestation_storable (attestations t)"
  shows "serve E (Http (rpc_request m p)) s = t"
  using assms by (simp add: http_rpc_def rpc_request_def arg_def dispatch_def db_commit_def db_flush_def py_or_def)

lemma http_call_reachable:
  "map_of (methods E) m = Some h \<Longrightarrow> p \<noteq> [] \<Longrightarrow> h p s = (Inr r, t) \<Longrightarrow> list_all attestation_storable (attestations t) \<Longrightarrow>
     reachable E s \<Longrightarrow> reachable E t"
  using http_call reachable.step by metis

subsection \<open>The parties and the task\<close>

definition agent_did :: string where "agent_did = did_string (sample_key (CHR ''a''))"
definition worker_did :: string where "worker_did = did_string (sample_key (CHR ''w''))"

definition sample_task :: params where
  "sample_task = [(''task_id'', JStr ''T''), (''posted_by'', JStr agent_did), (''descriptor_type'', JStr ''cleaning''),
     (''max_attestation_attempts'', JInt 2),
     (''attestation_requirement'', JDict [(''modes'', JList [JStr ''sensor-witness'']), (''threshold'', JStr ''all'')])]"

lemma dids_resolve [simp]:
  "did_resolve agent_did = Inr \<lparr>r_did = agent_did, r_public_key = sample_key (CHR ''a''), r_path = None\<rparr>"
  "did_resolve worker_did = Inr \<lparr>r_did = worker_did, r_public_key = sample_key (CHR ''w''), r_path = None\<rparr>"
  by (simp_all add: agent_did_def worker_did_def did_resolve_from_pubkey)

lemma dids_nonempty [simp]: "agent_did \<noteq> []" "worker_did \<noteq> []" "agent_did \<noteq> ''owner''"
  by (simp_all add: agent_did_def worker_did_def did_string_def)

subsection \<open>The requests\<close>

lemmas run_defs = Let_def bindS_def bindE_def access_defs row_add_def of_opt_def raise_if_def audit_append_run

definition run1 :: db where
  "run1 = snd (upsert_capabilities sample_env worker_did (JDict sample_caps) ''owner'' 3600 empty_db)"

lemma run1: "\<exists>r. upsert_capabilities sample_env worker_did (JDict sample_caps) ''owner'' 3600 empty_db = (Inr r, run1)"
  using sample_upsert [of "''owner''" empty_db] by (auto simp: run1_def worker_did_def)

lemma run1_tables: "workers run1 = [\<lparr>w_worker_id = worker_did, w_principal_id = ''owner'', w_worker_class = HUMAN,
   w_capabilities_json = JDict sample_caps, w_revision = 1, w_ttl_seconds = 3600, w_as_of = Aware 0 0, w_created_at = Aware 1000000 0\<rparr>]"
  "tasks run1 = []" "claims run1 = []" "audits run1 = []" "sessions run1 = []" "attestations run1 = []" "n_now run1 = 2" "n_uuid run1 = 0"
  "subscriptions run1 = []"
  by (simp_all add: run1_def upsert_capabilities_def resolve_or_value_error_def sample_caps_def empty_db_def
   worker_class_of_def enum_of_def run_defs)

lemma run1_reachable: "reachable sample_env run1"
proof -
  obtain r where "upsert_capabilities sample_env worker_did (JDict sample_caps) ''owner'' 3600 empty_db = (Inr r, run1)"
    using run1 by blast
  then have "rpc_capabilities_upsert sample_env [(''worker_id'', JStr worker_did), (''capabilities'', JDict sample_caps),
      (''principal_id'', JStr ''owner'')] empty_db = (Inr r, run1)"
    by (simp add: rpc_capabilities_upsert_def check_kwargs_def str_arg_def arg_def)
  then show ?thesis
    by (rule http_call_reachable [rotated 2, of _ _ _ _ _ _ "''capabilities/upsert''"])
     (simp_all add: methods_def run1_tables reachable.start)
qed

lemma expiry_dt: "parse_iso sample_env ''a100000000'' = Inr (Aware 100000000 0)" by (simp add: parse_iso_def replace_Z_def sample_read_def read_int_def py_strip_def py_space_def digit_char_def)

lemma sample_checks: "post_checks sample_env DEFAULT_REGISTRY sample_task = Inr ()"
  by (simp add: sample_task_def post_checks_def reject_legacy_def legacy_fields_def validate_attestation_requirement_def py_or_def out_of_scope_def)



lemma sample_eligible: "workers s = workers run1 \<Longrightarrow> count_eligible (JDict sample_task) s = Inr 0"
  by (simp add: count_eligible_def sample_task_def class_filter_of_def capability_query_of_def task_venue_def py_or_def
     matching_workers_def worker_matches_def run1_tables methods_ok_def sample_caps_def required_block_def
     get_set_def py_set_def required_matches_def andE_def set_sub_def del: bindE_Inr)

definition run2 :: db where
  "run2 = snd (task_post sample_env DEFAULT_REGISTRY sample_task ''a100000000'' [] run1)"

lemma run2_step: "\<exists>r. task_post sample_env DEFAULT_REGISTRY sample_task ''a100000000'' [] run1 = (Inr r, run2)"
  unfolding run2_def
  by (simp add: task_post_def sample_checks, simp add: sample_task_def Let_def expiry_dt run1_tables resolve_or_value_error_def
   access_defs row_add_def audit_append_run py_or_def bindS_def sample_eligible [unfolded sample_task_def])

lemma run2_tables: "workers run2 = workers run1"
  "tasks run2 = [\<lparr>t_task_id = ''T'', t_posted_by = agent_did, t_descriptor_type = ''cleaning'', t_task_json = JDict sample_task,
    t_expiry = Aware 100000000 0, t_state = POSTED, t_attestation_attempts_used = 0, t_posted_at = Aware 2000000 0\<rparr>]"
   "claims run2 = []" "sessions run2 = []" "attestations run2 = []" "map a_entry_id (audits run2) = [uuid4 sample_env 0]" "n_now run2 = 4" "n_uuid run2 = 1"
  unfolding run2_def
  by (simp_all add: task_post_def sample_checks, simp_all add: sample_task_def Let_def expiry_dt run1_tables resolve_or_value_error_def
   access_defs row_add_def audit_append_run py_or_def bindS_def sample_eligible [unfolded sample_task_def])

definition sample_acceptance :: params where
  "sample_acceptance = [(''sig'', JStr (wire_sig (ed25519_sign sample_env (sample_key (CHR ''w''))
      (canon sample_env (acceptance_json ''T'' worker_did ''a100000000'' None (JStr ''h'') (JStr ''s'')))))),
    (''payload_hash'', JStr ''h''), (''signed_at'', JStr ''s'')]"

lemma wire_sig_nonempty [simp]: "wire_sig x \<noteq> []" by (simp add: wire_sig_def sig_prefix_def)

lemma sample_accepted: "check_acceptance sample_env ''T'' worker_did ''a100000000'' (JDict sample_acceptance) None = Inr ()"
  by (simp add: check_acceptance_def sample_acceptance_def unauthenticated_def did_verify_wire [THEN iffD2])

definition run3 :: db where
  "run3 = snd (task_claim sample_env ''T'' worker_did ''a100000000'' (JDict sample_acceptance) None run2)"

lemma run2_ids: "a_entry_id ` set (audits run2) = {CHR ''u'' # show_nat 0}"
  using arg_cong [OF run2_tables(6), of set] by simp

lemma run3_step: "\<exists>r. task_claim sample_env ''T'' worker_did ''a100000000'' (JDict sample_acceptance) None run2 = (Inr r, run3)"
  unfolding run3_def
  by (simp add: task_claim_def sample_accepted run2_tables run1_tables claim_guard_def self_dealing_check_def expiry_dt
   access_defs row_add_def audit_append_run bindS_def Let_def run2_ids row_update_def)

definition claim1 :: string where "claim1 = uuid4 sample_env 1"

lemma run3_tables: "workers run3 = workers run1"
  "tasks run3 = [\<lparr>t_task_id = ''T'', t_posted_by = agent_did, t_descriptor_type = ''cleaning'', t_task_json = JDict sample_task,
    t_expiry = Aware 100000000 0, t_state = CLAIMED, t_attestation_attempts_used = 0, t_posted_at = Aware 2000000 0\<rparr>]"
   "claims run3 = [\<lparr>c_claim_id = claim1, c_task_id = ''T'', c_worker_id = worker_did, c_bid_amount = None,
      c_eta = Aware 100000000 0, c_acceptance_attestation_json = JDict sample_acceptance, c_accepted = True,
      c_claimed_at = Aware 6000000 0, c_last_heartbeat_at = Some (Aware 5000000 0)\<rparr>]"
   "sessions run3 = []" "attestations run3 = []" "a_entry_id ` set (audits run3) = {uuid4 sample_env 0, uuid4 sample_env 2}" "n_now run3 = 8" "n_uuid run3 = 3"
  unfolding run3_def
  by (auto simp: task_claim_def sample_accepted run2_tables run1_tables claim_guard_def self_dealing_check_def expiry_dt
   access_defs row_add_def audit_append_run bindS_def Let_def run2_ids row_update_def numeral_2_eq_2 claim1_def)

definition run4 :: db where "run4 = snd (execute_open sample_env claim1 run3)"

lemmas open_run = execute_open_def claim_and_task_def run3_tables set_state_def
   access_defs row_add_def audit_append_run bindS_def Let_def row_update_def

lemma run4_step: "\<exists>r. execute_open sample_env claim1 run3 = (Inr r, run4)"
  unfolding run4_def
  by (simp add: open_run)

lemma run4_tables: 
  "tasks run4 = [\<lparr>t_task_id = ''T'', t_posted_by = agent_did, t_descriptor_type = ''cleaning'', t_task_json = JDict sample_task,
    t_expiry = Aware 100000000 0, t_state = EXECUTING, t_attestation_attempts_used = 0, t_posted_at = Aware 2000000 0\<rparr>]"
   "claims run4 = claims run3"
   "attestations run4 = []" "a_entry_id ` set (audits run4) = {uuid4 sample_env 0, uuid4 sample_env 2, uuid4 sample_env 4}" "n_now run4 = 10" "n_uuid run4 = 5"
  unfolding run4_def
  by (auto simp: open_run)

definition sample_evidence :: json where
  "sample_evidence = JDict [(''mode'', JStr ''sensor-witness''), (''kind'', JStr ''weight_delta''),
     (''payload'', JDict [(''before_kg'', JInt 4), (''after_kg'', JInt 3)]), (''payload_hash'', JStr ''h''),
     (''collected_at'', JStr ''a100000000''),
     (''sig'', JStr (wire_sig (ed25519_sign sample_env (sample_key (CHR ''w''))
       (canon sample_env (evidence_json (JStr ''sensor-witness'') (JStr ''weight_delta'') (JStr ''h'') worker_did claim1 (JStr ''a100000000''))))))]"

lemma sample_evidence_ok:
  assumes "attestations s = []"
  shows "\<exists>a. attest_one sample_env DEFAULT_REGISTRY claim1 worker_did
     \<lparr>r_did = worker_did, r_public_key = sample_key (CHR ''w''), r_path = None\<rparr> (JDict []) sample_evidence s =
     (Inr (JStr ''sensor-witness'', pass_outcome), s\<lparr>n_uuid := Suc (n_uuid s), attestations := [a]\<rparr>) \<and>
     attestation_storable a"
  using assms
  by (simp add: attest_one_def sample_evidence_def did_verify_wire [THEN iffD2] sample_weight_ok
      store_attestation_def attestation_mode_of_def enum_of_def expiry_dt access_defs row_add_def bindS_def
      del: ex_simps) (intro exI conjI, rule refl, simp add: attestation_storable_def)

definition run5 :: db where "run5 = snd (task_attest sample_env DEFAULT_REGISTRY claim1 [sample_evidence] run4)"

lemma run5: "(\<exists>r. task_attest sample_env DEFAULT_REGISTRY claim1 [sample_evidence] run4 = (Inr r, run5)) \<and>
   tasks run5 = [\<lparr>t_task_id = ''T'', t_posted_by = agent_did, t_descriptor_type = ''cleaning'', t_task_json = JDict sample_task,
    t_expiry = Aware 100000000 0, t_state = COMPLETED, t_attestation_attempts_used = 1, t_posted_at = Aware 2000000 0\<rparr>] \<and>
   list_all attestation_storable (attestations run5)"
proof -
  obtain a where a: "attest_one sample_env DEFAULT_REGISTRY claim1 worker_did
     \<lparr>r_did = worker_did, r_public_key = sample_key (CHR ''w''), r_path = None\<rparr> (JDict []) sample_evidence run4 =
     (Inr (JStr ''sensor-witness'', pass_outcome), run4\<lparr>n_uuid := Suc (n_uuid run4), attestations := [a]\<rparr>)" "attestation_storable a"
    using sample_evidence_ok [OF run4_tables(3)] by blast
  show ?thesis unfolding run5_def
    by (simp add: task_attest_def claim_and_task_def run4_tables run3_tables attest_guard_def Let_def bindS_def a
     access_defs audit_append_run row_add_def row_update_def attest_route_def set_state_def max_attempts_of_def sample_task_def py_or_def
     evaluate_threshold_def threshold_all_def py_set_def passing_modes_def set_sub_def count_decision_def)
qed

lemma run2_reachable: "reachable sample_env run2"
proof -
  obtain r where "task_post sample_env DEFAULT_REGISTRY sample_task ''a100000000'' [] run1 = (Inr r, run2)"
    using run2_step by blast
  then have "rpc_tasks_post sample_env DEFAULT_REGISTRY [(''task'', JDict sample_task), (''expiry'', JStr ''a100000000'')] run1 =
      (Inr r, run2)"
    by (simp add: rpc_tasks_post_def check_kwargs_def str_arg_def arg_def)
  then show ?thesis
    by (rule http_call_reachable [rotated 2, of _ _ _ _ _ _ "''tasks/post''"])
      (simp_all add: methods_def run2_tables run1_reachable)
qed

lemma run3_reachable: "reachable sample_env run3"
proof -
  obtain r where "task_claim sample_env ''T'' worker_did ''a100000000'' (JDict sample_acceptance) None run2 = (Inr r, run3)"
    using run3_step by blast
  then have "rpc_tasks_claim sample_env [(''task_id'', JStr ''T''), (''worker_id'', JStr worker_did),
      (''eta'', JStr ''a100000000''), (''acceptance_attestation'', JDict sample_acceptance)] run2 = (Inr r, run3)"
    by (simp add: rpc_tasks_claim_def check_kwargs_def str_arg_def arg_def)
  then show ?thesis
    by (rule http_call_reachable [rotated 2, of _ _ _ _ _ _ "''tasks/claim''"])
      (simp_all add: methods_def run3_tables run2_reachable)
qed

lemma run4_reachable: "reachable sample_env run4"
proof -
  obtain r where "execute_open sample_env claim1 run3 = (Inr r, run4)"
    using run4_step by blast
  then have "rpc_tasks_execute_open sample_env [(''claim_id'', JStr claim1)] run3 = (Inr r, run4)"
    by (simp add: rpc_tasks_execute_open_def check_kwargs_def str_arg_def arg_def)
  then show ?thesis
    by (rule http_call_reachable [rotated 2, of _ _ _ _ _ _ "''tasks/execute''"])
      (simp_all add: methods_def run4_tables run3_reachable)
qed

lemma run5_reachable: "reachable sample_env run5"
proof -
  obtain r where "task_attest sample_env DEFAULT_REGISTRY claim1 [sample_evidence] run4 = (Inr r, run5)"
    using run5 by blast
  then have "rpc_tasks_attest sample_env DEFAULT_REGISTRY [(''claim_id'', JStr claim1),
      (''attestations'', JList [sample_evidence])] run4 = (Inr r, run5)"
    by (simp add: rpc_tasks_attest_def check_kwargs_def str_arg_def arg_def)
  then show ?thesis
    by (rule http_call_reachable [rotated 2, of _ _ _ _ _ _ "''tasks/attest''"])
      (simp_all add: methods_def run5 run4_reachable)
qed

lemmas sample_runs = run1_reachable run2_reachable run3_reachable run4_reachable run5_reachable
end
