(* ===== verification/Sdk_Interop.thy ===== *)
theory Sdk_Interop
  imports Sdk Sample_Run
begin

text \<open>
  The Python SDK against the coordinator: both sides' DID and signature routines agree, the calls
  a \<open>WCPSession\<close> builds reach the handlers with the arguments meant, replies are correlated with
  their calls, an honest worker driven by the SDK completes its task, and tasks made by
  \<open>make_task_descriptor\<close> are admitted.
\<close>

subsection \<open>Identities agree with the resolver\<close>

lemma sdk_b58 [simp]: "sdk_b58encode = b58encode" "sdk_b58decode = b58decode"
  by (auto simp: fun_eq_iff sdk_b58encode_def b58encode_def sdk_b58decode_def b58decode_def Let_def)

lemma sdk_did [simp]: "sdk_did_from_pubkey = did_from_pubkey"
  by (auto simp: fun_eq_iff sdk_did_from_pubkey_def did_from_pubkey_def did_string_def)

lemma sign_wire: "identity_sign E i p = wire_sig (ed25519_sign E (i_key i) (canon E p))"
  "identity_sign_bytes E i b = wire_sig (ed25519_sign E (i_key i) b)"
  by (simp_all add: identity_sign_def identity_sign_bytes_def wire_sig_def sig_prefix_def)

lemma identity_ok:
  assumes "identity_from_sk E sk = Inr i"
  shows "i_did i = did_string (ed25519_pub E sk) \<and> i_key i = sk \<and>
    did_resolve (i_did i) = Inr \<lparr>r_did = i_did i, r_public_key = ed25519_pub E sk, r_path = None\<rparr>"
  using assms did_resolve_from_pubkey [of "ed25519_pub E sk"]
  by (auto simp: identity_from_sk_def did_from_pubkey_def Let_def split: if_splits)

lemma identity_accepted:
  assumes "identity_from_sk E sk = Inr i" "sig_correct E" "did_resolve (i_did i) = Inr r"
  shows "did_verify E r (canon E p) (identity_sign E i p) = Inr ()"
  using identity_ok [OF assms(1)] assms(2,3) by (simp add: sign_wire did_verify_wire sig_correct_def)

lemma split_max_nonempty: "split_max n c s \<noteq> []"
  by (cases n) (auto split: list.splits)

lemma starts_wcp:
  assumes "startswith did ''did:wcp:''"
  shows "startswith did ''did:'' \<and> (\<exists>p ps. split_max 3 (CHR '':'') did = ''did'' # ''wcp'' # p # ps)"
proof -
  from assms obtain r where r: "did = ''did:wcp:'' @ r" by (auto simp: startswith_iff)
  have "split_max (Suc (Suc (Suc 0))) (CHR '':'') (''did'' @ CHR '':'' # (''wcp'' @ CHR '':'' # r)) =
      ''did'' # ''wcp'' # split_max (Suc 0) (CHR '':'') r"
    by (subst split_max_cut, simp, subst split_max_cut, simp, simp del: split_max.simps)
  with split_max_nonempty [of "Suc 0" "CHR '':''" r] r show ?thesis
    by (cases "split_max (Suc 0) (CHR '':'') r") (auto simp: numeral_3_eq_3 startswith_def simp del: split_max.simps)
qed

text \<open>
  The SDK's signature check and the coordinator's agree: on a DID whose method is wcp, a message
  and a signature, verify_signature of the SDK returns exactly when the coordinator resolves
  the DID and its verify returns.
\<close>

theorem signature_checks_agree:
  assumes "startswith did ''did:wcp:''"
  shows "sdk_verify_signature E did payload sig = Inr () \<longleftrightarrow>
    (\<exists>r. did_resolve did = Inr r \<and> did_verify E r payload sig = Inr ())"
proof -
  from starts_wcp [OF assms] obtain p ps where r: "startswith did ''did:''"
      "split_max 3 (CHR '':'') did = ''did'' # ''wcp'' # p # ps"
    by blast
  have "pubkey_from_did did = Inr pk \<longleftrightarrow> (\<exists>x. did_resolve did = Inr x \<and> r_public_key x = pk)" for pk
    using assms r
    by (cases "b58decode p") (auto simp: pubkey_from_did_def did_resolve_def Let_def simp del: split_max.simps)
  then show ?thesis
    by (auto simp: sdk_verify_signature_def did_verify_ok sig_prefix_def split: option.splits if_splits)
qed

theorem signature_checks_agree_witness:
  "sdk_verify_signature sample_env worker_did ''hi'' (wire_sig (sample_key (CHR ''w'') @ ''hi'')) = Inr ()"
proof -
  have "startswith worker_did ''did:wcp:''"
    by (simp add: worker_did_def did_string_def startswith_def)
  from signature_checks_agree [OF this, of sample_env "''hi''" "wire_sig (sample_key (CHR ''w'') @ ''hi'')"]
  show ?thesis by (simp add: did_verify_wire)
qed

subsection \<open>What the SDK signs, the coordinator accepts\<close>

lemma opt_str_roundtrip [simp]: "to_opt_str (opt_str x) = Inr x"
  by (cases x) (simp_all add: opt_str_def)

lemma sdk_acceptance_ok:
  assumes "identity_from_sk E sk = Inr i" "sig_correct E"
    and "sha256_hex E (canon E (JDict [(''task_id'', JStr tid)])) \<noteq> []" "isoformat E now \<noteq> []"
  shows "check_acceptance E tid (i_did i) eta (JDict (sdk_acceptance E i now tid eta bid)) bid = Inr ()"
proof -
  obtain r where r: "did_resolve (i_did i) = Inr r" using identity_ok [OF assms(1)] by blast
  have "identity_sign E i p \<noteq> []" for p by (simp add: identity_sign_def)
  with assms(3,4) r identity_accepted [OF assms(1,2) r] show ?thesis
    by (simp add: check_acceptance_def sdk_acceptance_def Let_def unauthenticated_def acceptance_json_def)
qed

lemma sdk_claim_call:
  "rpc_tasks_claim E (snd (sdk_claim E i now tid eta bid)) =
     task_claim E tid (i_did i) eta (JDict (sdk_acceptance E i now tid eta bid)) bid"
  by (simp add: fun_eq_iff sdk_claim_def rpc_tasks_claim_def check_kwargs_def str_arg_def arg_def)

lemma sdk_event_call:
  "rpc_tasks_execute_event E (snd (emit_event E i now cid et pl)) =
     execute_event E cid et (isoformat E now) (JDict pl)
       (identity_sign E i (event_json cid et (isoformat E now) (JDict pl)))"
  by (simp add: fun_eq_iff emit_event_def rpc_tasks_execute_event_def check_kwargs_def str_arg_def arg_def Let_def event_json_def)

lemma sdk_open_call: "rpc_tasks_execute_open E (snd (sdk_execute_open cid)) = execute_open E cid"
  by (simp add: fun_eq_iff sdk_execute_open_def rpc_tasks_execute_open_def check_kwargs_def str_arg_def arg_def)

lemma sdk_attest_call:
  "rpc_tasks_attest E reg (snd (sdk_attest cid evs ca)) = task_attest E reg cid (map (JDict \<circ> evidence_to_dict) evs)"
  by (simp add: fun_eq_iff sdk_attest_def rpc_tasks_attest_def check_kwargs_def str_arg_def arg_def Let_def split: option.splits)

lemma sdk_post_call:
  "rpc_tasks_post E reg (snd (sdk_post td expiry sv)) = task_post E reg (task_to_dict td) expiry []"
  by (simp add: fun_eq_iff sdk_post_def rpc_tasks_post_def check_kwargs_def str_arg_def arg_def Let_def split: option.splits)


text \<open>
  The SDK's publish_capabilities never publishes: it calls capabilities/list with the argument
  capabilities, which that method does not take, so the coordinator raises TypeError, answers
  Internal error and changes nothing, whatever the descriptor is.
\<close>

theorem publish_capabilities_fails:
  "(case publish_capabilities E i now d of (m, p) \<Rightarrow> dispatch E (JStr m) (JDict p) s) = (Raised TypeError, s) \<and>
   ws_message E (Some (JDict (fst (client_call (fst (publish_capabilities E i now d))
      (snd (publish_capabilities E i now d)) c)))) s =
     (Send (error_body (JInt (rc_next_id c)) INTERNAL_ERROR ''Internal error: TypeError: ''), s)"
proof -
  have "dispatch E (JStr (fst (publish_capabilities E i now d))) (JDict (snd (publish_capabilities E i now d))) s =
      (Raised TypeError, s)"
    by (simp add: publish_capabilities_def dispatch_def methods_def rpc_capabilities_list_def check_kwargs_def py_or_def)
  moreover have "db_rollback s s = s" by (simp add: db_rollback_def)
  ultimately show ?thesis
    by (simp add: ws_message_def client_call_def arg_def py_or_def Let_def split_def publish_capabilities_def)
qed

subsection \<open>Calls and replies\<close>

definition client_inv :: "rpc_client \<Rightarrow> bool" where
  "client_inv c \<longleftrightarrow> (\<forall>i \<in> set (rc_pending c). i < rc_next_id c)"

lemma client_reads:
  assumes "client_inv c"
  shows "reader_step (Some (result_body (JInt (rc_next_id c)) r)) (snd (client_call m p c)) =
      (Inr (Some (rc_next_id c, Resolved r)), c\<lparr>rc_next_id := rc_next_id c + 1\<rparr>)"
    and "reader_step (Some (error_body (JInt (rc_next_id c)) code msg)) (snd (client_call m p c)) =
      (Inr (Some (rc_next_id c, Failed (JInt code) (JStr msg) JNull)), c\<lparr>rc_next_id := rc_next_id c + 1\<rparr>)"
proof -
  have new: "filter (\<lambda>j. j \<noteq> rc_next_id c) (rc_pending c @ [rc_next_id c]) = rc_pending c"
    using assms by (auto simp: client_inv_def intro: filter_True)
  show "reader_step (Some (result_body (JInt (rc_next_id c)) r)) (snd (client_call m p c)) =
      (Inr (Some (rc_next_id c, Resolved r)), c\<lparr>rc_next_id := rc_next_id c + 1\<rparr>)"
    "reader_step (Some (error_body (JInt (rc_next_id c)) code msg)) (snd (client_call m p c)) =
      (Inr (Some (rc_next_id c, Failed (JInt code) (JStr msg) JNull)), c\<lparr>rc_next_id := rc_next_id c + 1\<rparr>)"
    using new by (simp_all add: reader_step_def result_body_def client_call_def)
qed

lemma client_inv_next: "client_inv c \<Longrightarrow> client_inv (c\<lparr>rc_next_id := rc_next_id c + 1\<rparr>)"
  by (auto simp: client_inv_def)

lemma ws_client_call:
  "ws_message E (Some (JDict (fst (client_call m p c)))) s =
     (case dispatch E (JStr m) (JDict p) s of (out, t) \<Rightarrow>
        (case out of
           Result r \<Rightarrow>
             if fst (db_commit s t) then (Send (result_body (JInt (rc_next_id c)) r), snd (db_commit s t))
             else (Send (error_body (JInt (rc_next_id c)) INTERNAL_ERROR ''Internal error: IntegrityError: ''), snd (db_commit s t))
         | RpcError code msg \<Rightarrow> (Send (error_body (JInt (rc_next_id c)) code msg), db_rollback s t)
         | Raised e \<Rightarrow> (Send (error_body (JInt (rc_next_id c)) INTERNAL_ERROR
             (''Internal error: '' @ exc_name e @ '': '' @ exc_message e)), db_rollback s t)))"
proof -
  let ?req = "fst (client_call m p c)"
  have ids: "arg ''id'' ?req = JInt (rc_next_id c)" "arg ''method'' ?req = JStr m" 
    and par: "py_or (arg ''params'' ?req) (JDict []) = JDict p"
    by (simp_all add: client_call_def arg_def py_or_def)
  show ?thesis unfolding ws_message_def 
    by (simp only: option.case json.case Let_def ids par) (auto split: prod.splits rpc_outcome.splits)
qed



subsection \<open>Fresh identifiers\<close>

text \<open>No UUID still to be drawn is in use: what \<open>uuid4\<close> is relied on for.\<close>

definition ids_fresh :: "env \<Rightarrow> db \<Rightarrow> bool" where
  "ids_fresh E s \<longleftrightarrow> (\<forall>n \<ge> n_uuid s. uuid4 E n \<notin> c_claim_id ` set (claims s) \<and> uuid4 E n \<notin> s_session_id ` set (sessions s) \<and>
     uuid4 E n \<notin> e_attestation_id ` set (attestations s) \<and> uuid4 E n \<notin> a_entry_id ` set (audits s))"

lemma claim_enabled:
  assumes "get_task s tid = Some task" "t_state task = POSTED" "clock E (n_now s) \<le> utc_us (t_expiry task)"
    and "get_worker s wid = Some w" "self_dealing_check task w = Inr ()"
    and "check_acceptance E tid wid eta acc bid = Inr ()" "unclaimed s tid" "parse_iso E eta = Inr d"
    and fresh: "ids_fresh E s" "inj (uuid4 E)"
  shows "\<exists>r t. task_claim E tid wid eta acc bid s = (Inr r, t) \<and> ids_fresh E t \<and> attestations t = attestations s"
proof -
  have "dt_less (as_utc (t_expiry task)) (Aware (clock E (n_now s)) 0) = Inr False"
    using assms(3) dt_less_as_utc [of "t_expiry task" "Aware (clock E (n_now s)) 0"] by simp
  moreover have "\<not> list_ex (\<lambda>c. c_task_id c = tid \<and> c_accepted c) (claims s)"
    using assms(7) by (simp add: unclaimed_def)
  moreover have "uuid4 E (n_uuid s) \<notin> c_claim_id ` set (claims s)" "uuid4 E (Suc (n_uuid s)) \<notin> a_entry_id ` set (audits s)"
    using fresh(1) by (auto simp: ids_fresh_def)
  ultimately show ?thesis
    using assms
    by (simp add: task_claim_def claim_guard_def bindS_def access_defs row_add_def audit_append_run Let_def)
      (auto simp: ids_fresh_def inj_eq)
qed

lemma open_enabled:
  assumes "holds_rows cid c task s" "t_state task \<in> {CLAIMED, SUPERVISING}" "ids_fresh E s" "inj (uuid4 E)"
  shows "\<exists>r t. execute_open E cid s = (Inr r, t) \<and> ids_fresh E t \<and> attestations t = attestations s \<and>
    holds_rows cid c (task\<lparr>t_state := EXECUTING\<rparr>) t"
proof -
  have "uuid4 E (n_uuid s) \<notin> s_session_id ` set (sessions s)" "uuid4 E (Suc (n_uuid s)) \<notin> a_entry_id ` set (audits s)"
    using assms(3) by (auto simp: ids_fresh_def)
  moreover have "claim_and_task cid s = (Inr (c, task), s)" using assms(1) by (simp add: claim_and_task_ok)
  moreover have "raise_if (t_state task \<notin> {CLAIMED, SUPERVISING}) e = Inr ()" for e using assms(2) by simp
  moreover define u where "u = s\<lparr>n_uuid := Suc (n_uuid s), n_now := Suc (n_now s),
      sessions := sessions s @ [\<lparr>s_session_id = uuid4 E (n_uuid s), s_claim_id = cid,
        s_opened_at = Aware (clock E (n_now s)) 0, s_closed_at = None, s_events_count = 0\<rparr>],
      tasks := row_update t_task_id (t_task_id task) (\<lambda>t. t\<lparr>t_state := EXECUTING\<rparr>) (tasks s)\<rparr>"
  moreover define e where "e = new_entry E ''execution_started'' (c_worker_id c)
      (JDict [(''claim_id'', JStr cid), (''session_id'', JStr (uuid4 E (n_uuid s)))]) (Some cid) (Some (t_task_id task)) u"
  moreover define t where "t = u\<lparr>n_now := Suc (n_now u), n_uuid := Suc (n_uuid u), audits := audits u @ [e]\<rparr>"
  ultimately have "\<exists>r. execute_open E cid s = (Inr r, t)"
    by (simp add: execute_open_def bindS_def access_defs row_add_def audit_append_run Let_def set_state_def del: bindS_Inr insert_iff)
  moreover have "ids_fresh E t" using assms(3,4) by (auto simp: ids_fresh_def inj_eq t_def u_def e_def)
  moreover have "holds_rows cid c (task\<lparr>t_state := EXECUTING\<rparr>) t" "attestations t = attestations s"
    using assms(1) by (simp_all add: holds_rows_def t_def u_def row_update_get)
  ultimately show ?thesis by blast
qed

lemma attest_enabled:
  assumes rows: "holds_rows cid c task s" "t_state task \<in> {EXECUTING, SUPERVISING, RECHECKING}"
    and json: "t_task_json task = JDict tj" "max_attempts_of task = Inr m" "did_resolve (c_worker_id c) = Inr rd"
    and loop: "mapS (attest_one E reg cid (c_worker_id c) rd
        (case map_of tj ''descriptor_payload'' of Some v \<Rightarrow> v | None \<Rightarrow> JDict [])) evs s = (Inr outs, u)"
    and agg: "evaluate_threshold E (case map_of tj ''attestation_requirement'' of Some v \<Rightarrow> v | None \<Rightarrow> JDict []) outs = Inr agg"
    and u: "list_all attestation_storable (attestations u)" "ids_fresh E u" "inj (uuid4 E)"
  shows "\<exists>r t. task_attest E reg cid evs s = (Inr r, t) \<and>
    j_get r ''verifier_decision'' JNull = Inr (JStr (verifier_decision_value (vo_decision agg))) \<and> attestations t = attestations u"
proof -
  have g: "attest_guard task = Inr ()" using rows(2) by (auto simp: attest_guard_def)
  have "uuid4 E (n_uuid u) \<notin> a_entry_id ` set (audits u)" "uuid4 E (Suc (n_uuid u)) \<notin> a_entry_id ` set (audits u)"
    using u(2) by (auto simp: ids_fresh_def)
  moreover have "uuid4 E (Suc n) \<noteq> uuid4 E n" for n using u(3) by (simp add: inj_eq)
  ultimately show ?thesis
    using rows json loop agg u(1) g
    by (cases "vo_decision agg")
      (simp_all add: task_attest_def claim_and_task_ok [THEN iffD2] bindS_def access_defs row_add_def audit_append_run Let_def
        set_state_def attest_route_def)
qed

lemma event_enabled:
  assumes rows: "holds_rows cid c task s" "t_state task = EXECUTING" "did_resolve (c_worker_id c) = Inr rd"
    and sig: "did_verify E rd (canon E (event_json cid et ts (JDict pl))) sig = Inr ()"
    and iso: "et = ''heartbeat'' \<Longrightarrow> parse_iso E ts = Inr d"
    and fresh: "ids_fresh E s" "inj (uuid4 E)"
  shows "\<exists>v t c'. execute_event E cid et ts (JDict pl) sig s = (Inr v, t) \<and> c_worker_id c' = c_worker_id c \<and>
    holds_rows cid c' task t \<and> ids_fresh E t \<and> attestations t = attestations s"
proof -
  have ct: "claim_and_task cid s = (Inr (c, task), s)" using rows(1) by (simp add: claim_and_task_ok)
  have no: "uuid4 E (n_uuid s) \<notin> a_entry_id ` set (audits s)" using fresh(1) by (auto simp: ids_fresh_def)
  define u where "u = (if et = ''heartbeat'' then
      s\<lparr>claims := row_update c_claim_id cid (\<lambda>c. c\<lparr>c_last_heartbeat_at := Some d\<rparr>) (claims s)\<rparr> else s)"
  define c' where "c' = (if et = ''heartbeat'' then c\<lparr>c_last_heartbeat_at := Some d\<rparr> else c)"
  define e where "e = new_entry E et (c_worker_id c) (JDict pl) (Some cid) (Some (t_task_id task)) u"
  define t where "t = u\<lparr>n_now := Suc (n_now u), n_uuid := Suc (n_uuid u), audits := audits u @ [e]\<rparr>"
  have "\<exists>v. execute_event E cid et ts (JDict pl) sig s = (Inr v, t)"
    using ct no rows(2,3) sig iso
    by (cases "et = ''heartbeat''")
      (simp_all add: execute_event_def bindS_def access_defs row_add_def audit_append_run signature_value_error_def
        t_def e_def u_def Let_def del: bindS_Inr)
  moreover have "holds_rows cid c' task t"
    using rows(1) by (auto simp: holds_rows_def t_def u_def c'_def row_update_get)
  moreover have "ids_fresh E t" "attestations t = attestations s"
  proof -
    have keys: "c_claim_id ` set (claims u) = c_claim_id ` set (claims s)" "sessions u = sessions s" "attestations u = attestations s"
        "audits u = audits s" "n_uuid u = n_uuid s"
      by (simp_all add: u_def row_update_keys flip: set_map)
    show "attestations t = attestations s" by (simp add: t_def keys)
    show "ids_fresh E t" using fresh by (auto simp: ids_fresh_def inj_eq t_def e_def keys)
  qed
  moreover have "c_worker_id c' = c_worker_id c" by (simp add: c'_def)
  ultimately show ?thesis by blast
qed

lemma supervise_enabled:
  assumes "holds_rows cid c task s" "t_state task = EXECUTING" "ids_fresh E s" "inj (uuid4 E)"
  shows "\<exists>v t. task_supervise E cid reason snap urg s = (Inr v, t) \<and> ids_fresh E t \<and> attestations t = attestations s \<and>
    holds_rows cid c (task\<lparr>t_state := SUPERVISING\<rparr>) t"
proof -
  have ct: "claim_and_task cid s = (Inr (c, task), s)" using assms(1) by (simp add: claim_and_task_ok)
  have no: "uuid4 E (n_uuid s) \<notin> a_entry_id ` set (audits s)" "uuid4 E (Suc (n_uuid s)) \<notin> a_entry_id ` set (audits s)"
    using assms(3) by (auto simp: ids_fresh_def)
  define u where "u = s\<lparr>tasks := row_update t_task_id (t_task_id task) (\<lambda>t. t\<lparr>t_state := SUPERVISING\<rparr>) (tasks s),
      n_uuid := Suc (n_uuid s)\<rparr>"
  define e where "e = new_entry E ''supervision_handoff'' (c_worker_id c)
      (JDict [(''claim_id'', JStr cid), (''handoff_reason'', JStr reason), (''urgency'', JStr urg),
        (''new_state'', JStr ''supervising'')]) (Some cid) (Some (t_task_id task)) u"
  define t where "t = u\<lparr>n_now := Suc (n_now u), n_uuid := Suc (n_uuid u), audits := audits u @ [e]\<rparr>"
  have "\<exists>v. task_supervise E cid reason snap urg s = (Inr v, t)"
    using ct no assms(2)
    by (simp add: task_supervise_def bindS_def access_defs audit_append_run Let_def set_state_def t_def u_def e_def del: bindS_Inr)
  moreover have "ids_fresh E t" using assms(3,4) by (auto simp: ids_fresh_def inj_eq t_def u_def e_def)
  moreover have "holds_rows cid c (task\<lparr>t_state := SUPERVISING\<rparr>) t" "attestations t = attestations s"
    using assms(1) by (simp_all add: holds_rows_def t_def u_def row_update_get)
  ultimately show ?thesis by blast
qed

subsection \<open>The evidence loop on SDK evidence\<close>

type_synonym work = "attestation_mode \<times> string \<times> params"

definition work_evidence :: "env \<Rightarrow> sdk_identity \<Rightarrow> datetime \<Rightarrow> string \<Rightarrow> work \<Rightarrow> attestation_evidence" where
  "work_evidence E i now cid w = (case w of (mode, kind, payload) \<Rightarrow> build_evidence E i now cid mode kind payload None)"

lemma sdk_evidence_stored:
  assumes id: "identity_from_sk E sk = Inr i" "sig_correct E" "did_resolve (i_did i) = Inr rd"
    and iso: "parse_iso E (isoformat E now) = Inr d"
    and ver: "verify_single E reg (JStr (attestation_mode_value mode)) (JStr kind) (JDict payload) tp = Inr out"
    and fresh: "ids_fresh E s" "inj (uuid4 E)" and stored: "list_all attestation_storable (attestations s)"
  shows "\<exists>t. attest_one E reg cid (i_did i) rd tp (JDict (evidence_to_dict (work_evidence E i now cid (mode, kind, payload)))) s =
      (Inr (JStr (attestation_mode_value mode), out), t) \<and> ids_fresh E t \<and> list_all attestation_storable (attestations t)"
proof -
  have sig: "did_verify E rd (canon E (JDict [(''mode'', JStr (attestation_mode_value mode)), (''kind'', JStr kind),
      (''payload_hash'', JStr h), (''worker_id'', JStr (i_did i)), (''claim_id'', JStr cid), (''collected_at'', JStr c)]))
      (identity_sign E i (JDict [(''mode'', JStr (attestation_mode_value mode)), (''kind'', JStr kind),
      (''payload_hash'', JStr h), (''worker_id'', JStr (i_did i)), (''claim_id'', JStr cid), (''collected_at'', JStr c)])) = Inr ()" for h c
    by (rule identity_accepted [OF id])
  have "uuid4 E (n_uuid s) \<notin> e_attestation_id ` set (attestations s)" using fresh(1) by (simp add: ids_fresh_def)
  with ver iso stored sig show ?thesis
    by (simp add: attest_one_def work_evidence_def build_evidence_def Let_def evidence_to_dict_def evidence_json_def or_empty_def
        store_attestation_def bindS_def access_defs row_add_def attestation_storable_def del: bindS_Inr)
      (use fresh in \<open>auto simp: ids_fresh_def inj_eq\<close>)
qed

lemma sdk_evidence_loop:
  assumes id: "identity_from_sk E sk = Inr i" "sig_correct E" "did_resolve (i_did i) = Inr rd"
    and iso: "parse_iso E (isoformat E now) = Inr d" and inj: "inj (uuid4 E)"
    and ver: "\<forall>(mode, kind, payload) \<in> set ws.
      verify_single E reg (JStr (attestation_mode_value mode)) (JStr kind) (JDict payload) tp = Inr (outc (mode, kind, payload))"
    and fresh: "ids_fresh E s" "list_all attestation_storable (attestations s)"
  shows "\<exists>t. mapS (attest_one E reg cid (i_did i) rd tp) (map (JDict \<circ> evidence_to_dict \<circ> work_evidence E i now cid) ws) s =
      (Inr (map (\<lambda>w. (JStr (attestation_mode_value (fst w)), outc w)) ws), t) \<and>
      ids_fresh E t \<and> list_all attestation_storable (attestations t)"
  using ver fresh
proof (induction ws arbitrary: s)
  case (Cons w ws)
  obtain mode kind payload where w: "w = (mode, kind, payload)" by (cases w)
  from Cons.prems(1) have v: "verify_single E reg (JStr (attestation_mode_value mode)) (JStr kind) (JDict payload) tp = Inr (outc w)"
    by (auto simp: w)
  from sdk_evidence_stored [OF id iso v Cons.prems(2) inj Cons.prems(3), of cid] obtain t where
    t: "attest_one E reg cid (i_did i) rd tp (JDict (evidence_to_dict (work_evidence E i now cid w))) s =
        (Inr (JStr (attestation_mode_value mode), outc w), t)" "ids_fresh E t" "list_all attestation_storable (attestations t)"
    unfolding w by blast
  from Cons.prems(1) have "\<forall>(mode, kind, payload) \<in> set ws.
      verify_single E reg (JStr (attestation_mode_value mode)) (JStr kind) (JDict payload) tp = Inr (outc (mode, kind, payload))"
    by simp
  from Cons.IH [OF this t(2,3)] obtain u where
    u: "mapS (attest_one E reg cid (i_did i) rd tp) (map (JDict \<circ> evidence_to_dict \<circ> work_evidence E i now cid) ws) t =
        (Inr (map (\<lambda>w. (JStr (attestation_mode_value (fst w)), outc w)) ws), u)"
      "ids_fresh E u" "list_all attestation_storable (attestations u)"
    by blast
  from t(1) u show ?case by (simp add: bindS_def w o_def del: bindS_Inr)
qed simp


lemma decision_value_inject: "verifier_decision_value a = verifier_decision_value b \<longleftrightarrow> a = b"
  by (cases a; cases b) simp_all

lemma attest_decision:
  assumes "task_attest E reg cid evs s = (Inr r, t)" "holds_rows cid c task s"
    and "j_get r ''verifier_decision'' JNull = Inr (JStr (verifier_decision_value d))"
  shows "\<exists>m t'. t_task_id t' = t_task_id task \<and> holds_rows cid c t' t \<and>
    t_state t' = next_state d (t_attestation_attempts_used task + 1) m \<and> max_attempts_of task = Inr m"
proof -
  from attest_ok [OF assms(1)] assms(3) obtain c' task' m outs agg where
    "attest_result E reg cid evs c' task' m outs agg s t" "vo_decision agg = d"
    by (auto simp: decision_value_inject)
  moreover from this(1) assms(2) have "task' = task" "c' = c" "max_attempts_of task = Inr m"
    by (auto simp: attest_result_def holds_rows_def)
  ultimately have "holds_rows cid c (task\<lparr>t_attestation_attempts_used := t_attestation_attempts_used task + 1,
      t_state := next_state d (t_attestation_attempts_used task + 1) m\<rparr>) t" (is "holds_rows cid c ?t t")
    by (auto simp: attest_result_def Let_def holds_rows_def)
  with \<open>max_attempts_of task = Inr m\<close> show ?thesis by (intro exI [of _ m] exI [of _ ?t]) simp
qed

subsection \<open>An honest worker finishes\<close>

definition rpc :: "env \<Rightarrow> rpc_call \<Rightarrow> db \<Rightarrow> rpc_outcome \<times> db" where
  "rpc E c s = dispatch E (JStr (fst c)) (JDict (snd c)) s"

lemma rpc_ok:
  assumes "map_of (methods E) (fst c) = Some h" "snd c \<noteq> []" "h (snd c) s = (Inr r, t)"
  shows "rpc E c s = (Result r, t)"
  using assms by (simp add: rpc_def dispatch_def py_or_def)

lemma claimed_rows:
  assumes "task_claim E tid wid eta acc bid s = (Inr r, t)" "get_task s tid = Some task"
  shows "\<exists>c. c_worker_id c = wid \<and> holds_rows (c_claim_id c) c (task\<lparr>t_state := CLAIMED\<rparr>) t \<and>
    j_get r ''claim_id'' JNull = Inr (JStr (c_claim_id c))"
proof -
  from claim_ok [OF assms(1)] assms(2) obtain c where
    c: "c_task_id c = tid" "c_worker_id c = wid" "c_claim_id c \<notin> c_claim_id ` set (claims s)"
      "claims t = claims s @ [c]" "tasks t = row_update t_task_id tid (\<lambda>t. t\<lparr>t_state := CLAIMED\<rparr>) (tasks s)"
      "j_get r ''claim_id'' JNull = Inr (JStr (c_claim_id c))"
    by auto
  have "t_task_id task = tid" using row_get_Some [OF assms(2)] by simp
  moreover have "get_claim t (c_claim_id c) = Some c"
    using c(3,4) by (simp add: row_get_append row_get_None [THEN iffD2])
  ultimately have "holds_rows (c_claim_id c) c (task\<lparr>t_state := CLAIMED\<rparr>) t"
    using c(1,5) assms(2) by (simp add: holds_rows_def row_update_get)
  with c(2,6) show ?thesis by blast
qed

lemma sdk_rpc_claim:
  "task_claim E tid (i_did i) eta (JDict (sdk_acceptance E i now tid eta bid)) bid s = (Inr r, t) \<Longrightarrow>
   rpc E (sdk_claim E i now tid eta bid) s = (Result r, t)"
  by (rule rpc_ok [of _ _ "rpc_tasks_claim E"]) (simp_all add: sdk_claim_call, simp_all add: sdk_claim_def methods_def)

lemma sdk_rpc_open:
  "execute_open E cid s = (Inr r, t) \<Longrightarrow> rpc E (sdk_execute_open cid) s = (Result r, t)"
  by (rule rpc_ok [of _ _ "rpc_tasks_execute_open E"]) (simp_all add: sdk_open_call, simp_all add: sdk_execute_open_def methods_def)

lemma sdk_rpc_attest:
  "task_attest E DEFAULT_REGISTRY cid (map (JDict \<circ> evidence_to_dict) evs) s = (Inr r, t) \<Longrightarrow>
   rpc E (sdk_attest cid evs None) s = (Result r, t)"
  by (rule rpc_ok [of _ _ "rpc_tasks_attest E DEFAULT_REGISTRY"])
    (simp_all add: sdk_attest_call, simp_all add: sdk_attest_def methods_def)

text \<open>
  Liveness for an honest SDK worker: let a task be posted, unexpired and unclaimed, the worker
  registered under its DID and not dealing with itself, the UUIDs still to come unused, and
  let the evidence the worker collects (mode, kind, payload) be such that the coordinator's
  verifiers return verdicts that make the task's threshold pass. Then the SDK's three calls,
  claim, execute_open on the claim id returned, attest with the pieces build_evidence made,
  all return results, and the task is completed.
\<close>

theorem honest_sdk_worker_completes:
  assumes id: "identity_from_sk E sk = Inr i" "sig_correct E" "inj (uuid4 E)" "ids_fresh E s"
    and iso: "parse_iso E eta = Inr d" "\<forall>x. isoformat E x \<noteq> []" "parse_iso E (isoformat E now) = Inr d'"
    and hash: "\<forall>b. b \<noteq> [] \<longrightarrow> sha256_hex E b \<noteq> []" "float_repr_ok (float_repr E)"
    and task: "get_task s tid = Some task" "t_state task = POSTED" "clock E (n_now s) \<le> utc_us (t_expiry task)"
      "unclaimed s tid" "t_task_json task = JDict tj" "max_attempts_of task = Inr m"
    and worker: "get_worker s (i_did i) = Some w" "self_dealing_check task w = Inr ()"
    and stored: "list_all attestation_storable (attestations s)"
    and work: "\<forall>(mode, kind, payload) \<in> set ws. verify_single E DEFAULT_REGISTRY (JStr (attestation_mode_value mode)) (JStr kind)
        (JDict payload) (case map_of tj ''descriptor_payload'' of Some v \<Rightarrow> v | None \<Rightarrow> JDict []) = Inr (outc (mode, kind, payload))"
    and agg: "evaluate_threshold E (case map_of tj ''attestation_requirement'' of Some v \<Rightarrow> v | None \<Rightarrow> JDict [])
        (map (\<lambda>w. (JStr (attestation_mode_value (fst w)), outc w)) ws) = Inr agg" "vo_decision agg = PASS"
  shows "\<exists>r1 s1 cid r2 s2 r3 s3 t.
    rpc E (sdk_claim E i now tid eta bid) s = (Result r1, s1) \<and> j_get r1 ''claim_id'' JNull = Inr (JStr cid) \<and>
    rpc E (sdk_execute_open cid) s1 = (Result r2, s2) \<and>
    rpc E (sdk_attest cid (map (work_evidence E i now cid) ws) None) s2 = (Result r3, s3) \<and>
    get_task s3 tid = Some t \<and> t_state t = COMPLETED"
proof -
  obtain rd where rd: "did_resolve (i_did i) = Inr rd" using identity_ok [OF id(1)] by blast
  have "sha256_hex E (canon E (JDict [(''task_id'', JStr tid)])) \<noteq> []"
    using hash print_json_nonempty by (simp add: canonical_json_def)
  then have acc: "check_acceptance E tid (i_did i) eta (JDict (sdk_acceptance E i now tid eta bid)) bid = Inr ()"
    using sdk_acceptance_ok [OF id(1,2)] iso(2) by blast
  from claim_enabled [OF task(1-3) worker acc task(4) iso(1) id(4,3)] obtain r1 s1 where
    s1: "task_claim E tid (i_did i) eta (JDict (sdk_acceptance E i now tid eta bid)) bid s = (Inr r1, s1)" "ids_fresh E s1"
      "attestations s1 = attestations s"
    by blast
  from claimed_rows [OF s1(1) task(1)] obtain c where c: "c_worker_id c = i_did i"
      "holds_rows (c_claim_id c) c (task\<lparr>t_state := CLAIMED\<rparr>) s1" "j_get r1 ''claim_id'' JNull = Inr (JStr (c_claim_id c))"
    by blast
  let ?cid = "c_claim_id c"
  from open_enabled [OF c(2) _ s1(2) id(3)] obtain r2 s2 where
    s2: "execute_open E ?cid s1 = (Inr r2, s2)" "ids_fresh E s2" "attestations s2 = attestations s1"
      "holds_rows ?cid c (task\<lparr>t_state := EXECUTING\<rparr>) s2"
    by auto
  from sdk_evidence_loop [OF id(1,2) rd iso(3) id(3) work s2(2), of ?cid] stored s1(3) s2(3) obtain u where
    u: "mapS (attest_one E DEFAULT_REGISTRY ?cid (i_did i) rd
        (case map_of tj ''descriptor_payload'' of Some v \<Rightarrow> v | None \<Rightarrow> JDict []))
        (map (JDict \<circ> evidence_to_dict \<circ> work_evidence E i now ?cid) ws) s2 =
        (Inr (map (\<lambda>w. (JStr (attestation_mode_value (fst w)), outc w)) ws), u)"
      "ids_fresh E u" "list_all attestation_storable (attestations u)"
    by auto
  have "\<exists>r3 s3. task_attest E DEFAULT_REGISTRY ?cid (map (JDict \<circ> evidence_to_dict \<circ> work_evidence E i now ?cid) ws) s2 =
      (Inr r3, s3) \<and> j_get r3 ''verifier_decision'' JNull = Inr (JStr (verifier_decision_value (vo_decision agg))) \<and>
      attestations s3 = attestations u"
    by (rule attest_enabled [OF s2(4) _ _ _ _ u(1) [folded c(1)] agg(1) u(3,2) id(3)])
      (use task(5,6) rd c(1) in \<open>simp_all add: max_attempts_of_def\<close>)
  then obtain r3 s3 where s3: "task_attest E DEFAULT_REGISTRY ?cid
      (map (JDict \<circ> evidence_to_dict \<circ> work_evidence E i now ?cid) ws) s2 = (Inr r3, s3)"
      "j_get r3 ''verifier_decision'' JNull = Inr (JStr (verifier_decision_value (vo_decision agg)))"
    by blast
  note fin = attest_decision [OF s3(1) s2(4), of "vo_decision agg"]
  have tid: "t_task_id task = tid" using row_get_Some [OF task(1)] by simp
  show ?thesis
    using sdk_rpc_claim [OF s1(1)] c(3) sdk_rpc_open [OF s2(1)] sdk_rpc_attest [of _ ?cid "map (work_evidence E i now ?cid) ws"]
      s3(1) fin s3(2) agg(2) tid
    by (auto simp: next_state_def o_assoc holds_rows_def)
qed


definition sdk_worker :: sdk_identity where
  "sdk_worker = \<lparr>i_did = worker_did, i_public_key_b64url = urlsafe_b64nopad (sample_key (CHR ''w'')),
     i_key = sample_key (CHR ''w'')\<rparr>"

lemma sdk_worker_identity: "identity_from_sk sample_env (sample_key (CHR ''w'')) = Inr sdk_worker"
  by (simp add: identity_from_sk_def did_from_pubkey_def sdk_worker_def worker_did_def Let_def)

lemma run2_fresh: "ids_fresh sample_env run2"
  by (simp add: ids_fresh_def run2_tables run2_ids)

lemma show_five: "show_int 5 = ''5''"
proof -
  have "char_of (53 :: nat) = CHR ''5''" by code_simp
  then show ?thesis by (simp add: show_int_def show_nat.simps digit_def)
qed

lemma sample_now: "parse_iso sample_env (CHR ''a'' # show_int 5) = Inr (Aware 5 0)"
  by (simp add: show_five parse_iso_def replace_Z_def sample_read_def read_int_def py_strip_def py_space_def digit_char_def)

theorem honest_sdk_worker_completes_witness:
  "\<exists>r1 s1 cid r2 s2 r3 s3 t.
    rpc sample_env (sdk_claim sample_env sdk_worker (Aware 5 0) ''T'' ''a100000000'' None) run2 = (Result r1, s1) \<and>
    j_get r1 ''claim_id'' JNull = Inr (JStr cid) \<and> rpc sample_env (sdk_execute_open cid) s1 = (Result r2, s2) \<and>
    rpc sample_env (sdk_attest cid (map (work_evidence sample_env sdk_worker (Aware 5 0) cid)
      [(SENSOR_WITNESS, ''weight_delta'', [(''before_kg'', JInt 4), (''after_kg'', JInt 3)])]) None) s2 = (Result r3, s3) \<and>
    get_task s3 ''T'' = Some t \<and> t_state t = COMPLETED"
proof (rule honest_sdk_worker_completes [OF sdk_worker_identity _ _ run2_fresh expiry_dt, where outc = "\<lambda>_. pass_outcome" and agg = pass_outcome
      and task = "hd (tasks run2)" and tj = sample_task and m = 2 and w = "hd (workers run2)" and d' = "Aware 5 0"])
  show "parse_iso sample_env (isoformat sample_env (Aware 5 0)) = Inr (Aware 5 0)" by (simp add: sample_now)
  show "\<forall>x. isoformat sample_env x \<noteq> []" by (simp, rule allI, case_tac x; simp)
  show "max_attempts_of (hd (tasks run2)) = Inr 2"
    by (simp add: run2_tables max_attempts_of_def sample_task_def py_or_def)
  show "evaluate_threshold sample_env (case map_of sample_task ''attestation_requirement'' of Some v \<Rightarrow> v | None \<Rightarrow> JDict [])
      (map (\<lambda>w. (JStr (attestation_mode_value (fst w)), pass_outcome))
        [(SENSOR_WITNESS, ''weight_delta'', [(''before_kg'', JInt 4), (''after_kg'', JInt 3)])]) = Inr pass_outcome"
    by (simp add: sample_task_def evaluate_threshold_def threshold_all_def py_or_def py_set_def passing_modes_def set_sub_def count_decision_def)
qed (simp_all add: run2_tables run1_tables sdk_worker_def self_dealing_check_def unclaimed_def sample_weight_ok sample_task_def)

subsection \<open>Tasks made by the SDK are admitted\<close>

lemma validate_kinds_ok:
  assumes "\<forall>k \<in> set ks. \<exists>rs. map_of reg m = Some rs \<and> k \<in> set rs"
  shows "validate_kinds E reg (JDict [(''mode'', JStr m), (''kinds'', JList (map JStr ks))]) = Inr ()"
  using assms by (auto simp: validate_kinds_def registry_get_def kind_in_def forE_Inr py_or_def)

text \<open>
  A task built with make_task_descriptor passes every check of tasks/post when it names at least
  one mode, M is at most N, each kind asked for is registered for its mode, and the
  descriptor type is none of the four refused classes.
\<close>

theorem sdk_task_admitted:
  assumes "modes \<noteq> []" "m \<le> n"
    and "\<forall>mode \<in> set modes. \<forall>k \<in> set (case map_of kinds (attestation_mode_value mode) of Some ks \<Rightarrow> ks | None \<Rightarrow> []).
      \<exists>rs. map_of reg (attestation_mode_value mode) = Some rs \<and> k \<in> set rs"
    and "dtype \<notin> {''medical'', ''defense'', ''minor_involving'', ''hazmat_above_consumer''}"
  shows "post_checks E reg (task_to_dict (make_task_descriptor u by dtype payload modes kinds m n cls tid tw ma acct)) = Inr ()"
proof -
  let ?td = "make_task_descriptor u by dtype payload modes kinds m n cls tid tw ma acct"
  let ?req = "requirement_to_dict (td_attestation_requirement ?td)"
  have fields: "map_of (task_to_dict ?td) ''attestation_requirement'' = Some (JDict ?req)"
      "map_of (task_to_dict ?td) ''descriptor_type'' = Some (JStr dtype)"
      "map_of (task_to_dict ?td) ''x-subcontract-allowed'' = Some (JBool False)"
      "''settlement'' \<notin> fst ` set (task_to_dict ?td)"
    by (auto simp: task_to_dict_def make_task_descriptor_def Let_def split: option.splits)
  have "reject_legacy (JDict ?req) = Inr ()"
    by (simp add: reject_legacy_def legacy_fields_def requirement_to_dict_def)
  moreover have "validate_attestation_requirement E reg (JDict ?req) = Inr ()"
    using assms(1-3) by (auto simp: validate_attestation_requirement_def requirement_to_dict_def make_task_descriptor_def Let_def
        forE_Inr py_or_def intro!: validate_kinds_ok)
  moreover have "\<not> eq_in (JStr dtype) out_of_scope"
    using assms(4) by (simp add: out_of_scope_def)
  ultimately show ?thesis by (simp add: post_checks_def fields)
qed

theorem sdk_task_admitted_witness:
  "post_checks sample_env DEFAULT_REGISTRY (task_to_dict (make_task_descriptor ''u'' agent_did ''cleaning'' []
     [SENSOR_WITNESS] [(''sensor-witness'', [''weight_delta''])] 1 1 None None None 1 None)) = Inr ()"
  by (rule sdk_task_admitted) (auto simp: DEFAULT_REGISTRY_def)

end
