(* ===== verification/Multibase.thy ===== *)
theory Multibase
  imports Did_Resolver
begin

text \<open>
  \<open>wcp_sdk/preview/multibase_identifier.py\<close> (RFC 0031): identifiers with a multibase prefix
  beside the legacy raw base58 ones. The encodings of the standard library are modelled as it runs
  them (\<open>base64.b32encode\<close> and \<open>b32decode\<close>, \<open>bytes.hex\<close> and \<open>bytes.fromhex\<close>, \<open>str.upper\<close> and
  \<open>str.lower\<close>); the preview warning each function emits is output only. Of the messages the
  standard library attaches to its errors only the fixed part is kept.
\<close>

subsection \<open>Base32\<close>

definition B32 :: string where
  "B32 = ''ABCDEFGHIJKLMNOPQRSTUVWXYZ234567''"

text \<open>The eight characters of a group of five bytes, read as one number.\<close>

definition b32_quantum :: "nat \<Rightarrow> string" where
  "b32_quantum c = map (\<lambda>i. B32 ! (c div 32 ^ i mod 32)) (rev [0..<8])"

text \<open>How many characters carry bits when the last group has \<open>k\<close> bytes.\<close>

definition b32_kept :: "nat \<Rightarrow> nat" where
  "b32_kept k = (if k = 1 then 2 else if k = 2 then 4 else if k = 3 then 5 else if k = 4 then 7 else 8)"

fun b32encode :: "bytes \<Rightarrow> string" where
  "b32encode (a # b # c # d # e # bs) = b32_quantum (from_bytes [a, b, c, d, e]) @ b32encode bs"
| "b32encode [] = []"
| "b32encode bs =
     (let k = length bs
      in take (b32_kept k) (b32_quantum (from_bytes (bs @ replicate (5 - k) (CHR 0x00)))) @
         replicate (8 - b32_kept k) (CHR ''=''))"

fun b32_acc :: "nat \<Rightarrow> string \<Rightarrow> nat res" where
  "b32_acc acc [] = Inr acc"
| "b32_acc acc (c # s) =
     (case index_of B32 c of
        None \<Rightarrow> Inl (ValueError ''Non-base32 digit found'')
      | Some v \<Rightarrow> b32_acc (acc * 32 + v) s)"

text \<open>The loop over quanta of eight characters: the bytes decoded and the last accumulator.\<close>

function b32_loop :: "nat \<Rightarrow> string \<Rightarrow> (bytes \<times> nat) res" where
  "b32_loop acc0 s =
     (if s = [] then Inr ([], acc0)
      else
        bindE (b32_acc 0 (take 8 s)) (\<lambda>acc.
        bindE (b32_loop acc (drop 8 s)) (\<lambda>(rest, last). Inr (to_bytes 5 acc @ rest, last))))"
  by pat_completeness auto
termination
  by (relation "measure (\<lambda>(_, s). length s)") auto

declare b32_loop.simps [simp del]

definition b32decode :: "string \<Rightarrow> bytes res" where
  "b32decode s =
     (if \<not> ascii s then Inl (ValueError ''string argument should contain only ASCII characters'')
      else if length s mod 8 \<noteq> 0 then Inl (ValueError ''Incorrect padding'')
      else
        let stripped = rstrip_eq s; padchars = length s - length stripped in
        bindE (b32_loop 0 stripped) (\<lambda>(decoded, acc).
          if padchars \<notin> {0, 1, 3, 4, 6} then Inl (ValueError ''Incorrect padding'')
          else if padchars \<noteq> 0 \<and> decoded \<noteq> [] then
            Inr (take (length decoded - 5) decoded @
                 take ((43 - 5 * padchars) div 8) (to_bytes 5 (acc * 32 ^ padchars)))
          else Inr decoded))"

text \<open>
  Upper and lower case on the characters a string here has (code points below 256):
  a sharp s becomes two capitals, micro and y with diaeresis leave this range and are
  kept, being no ASCII either way.
\<close>

definition upper_char :: "char \<Rightarrow> string" where
  "upper_char c =
     (let n = of_char c :: nat in
      if 97 \<le> n \<and> n \<le> 122 \<or> 224 \<le> n \<and> n \<le> 254 \<and> n \<noteq> 247 then [char_of (n - 32)]
      else if n = 223 then ''SS'' else [c])"

definition py_upper :: "string \<Rightarrow> string" where
  "py_upper s = concat (map upper_char s)"

definition lower_char :: "char \<Rightarrow> char" where
  "lower_char c =
     (let n = of_char c :: nat in
      if 65 \<le> n \<and> n \<le> 90 \<or> 192 \<le> n \<and> n \<le> 222 \<and> n \<noteq> 215 then char_of (n + 32) else c)"

definition py_lower :: "string \<Rightarrow> string" where
  "py_lower s = map lower_char s"

subsection \<open>Hexadecimal\<close>

definition hex_string :: "bytes \<Rightarrow> string" where
  "hex_string b = concat (map (\<lambda>c. [hex_digit (of_char c div 16), hex_digit (of_char c mod 16)]) b)"

definition hex_val :: "char \<Rightarrow> nat option" where
  "hex_val c =
     (let n = of_char c :: nat in
      if 48 \<le> n \<and> n \<le> 57 then Some (n - 48) else if 97 \<le> n \<and> n \<le> 102 then Some (n - 87)
      else if 65 \<le> n \<and> n \<le> 70 then Some (n - 55) else None)"

definition hex_space :: "char \<Rightarrow> bool" where
  "hex_space c \<longleftrightarrow> (let n = of_char c :: nat in n = 32 \<or> 9 \<le> n \<and> n \<le> 13)"

definition hex_error :: py_exc where
  "hex_error = ValueError ''non-hexadecimal number found in fromhex() arg''"

text \<open>\<open>bytes.fromhex\<close>: ASCII white space is skipped between two bytes.\<close>

fun fromhex :: "string \<Rightarrow> bytes res" where
  "fromhex [] = Inr []"
| "fromhex [c] = (if hex_space c then Inr [] else Inl hex_error)"
| "fromhex (c # d # s) =
     (if hex_space c then fromhex (d # s)
      else case (hex_val c, hex_val d) of
        (Some t, Some u) \<Rightarrow> bindE (fromhex s) (\<lambda>r. Inr (char_of (16 * t + u) # r))
      | _ \<Rightarrow> Inl hex_error)"

subsection \<open>The module\<close>

fun b58btc_value :: "nat \<Rightarrow> string \<Rightarrow> nat res" where
  "b58btc_value n [] = Inr n"
| "b58btc_value n (c # s) =
     (case index_of B58 c of
        None \<Rightarrow> Inl (ValueError (''invalid base58btc character: '' @ repr_str [c]))
      | Some i \<Rightarrow> b58btc_value (n * 58 + i) s)"

definition b58btc_encode :: "bytes \<Rightarrow> string" where
  "b58btc_encode data =
     (if data = [] then []
      else
        let pad = lead_count (CHR 0x00) data; n = from_bytes data
        in replicate pad (CHR ''1'') @ b58_loop n [])"

definition b58btc_decode :: "string \<Rightarrow> bytes res" where
  "b58btc_decode s =
     (if s = [] then Inr []
      else
        let pad = lead_count (CHR ''1'') s in
        bindE (b58btc_value 0 s) (\<lambda>n.
          let payload = (if n > 0 then to_bytes ((bit_length n + 7) div 8) n else [])
          in Inr (replicate pad (CHR 0x00) @ payload)))"

definition KNOWN_PREFIXES :: string where
  "KNOWN_PREFIXES = ''zubf''"

definition mb_encode :: "bytes \<Rightarrow> string \<Rightarrow> string res" where
  "mb_encode pubkey_bytes encoding =
     (if encoding = ''base58btc'' then Inr (''did:wcp:z'' @ b58btc_encode pubkey_bytes)
      else if encoding = ''base64url'' then Inr (''did:wcp:u'' @ urlsafe_b64nopad pubkey_bytes)
      else if encoding = ''base32'' then Inr (''did:wcp:b'' @ py_lower (rstrip_eq (b32encode pubkey_bytes)))
      else if encoding = ''hex'' then Inr (''did:wcp:f'' @ hex_string pubkey_bytes)
      else Inl (ValueError (''unsupported encoding '' @ repr_str encoding @
        ''; supported: base58btc, base64url, base32, hex'')))"

definition mb_decode :: "string \<Rightarrow> bytes res" where
  "mb_decode identifier =
     (if \<not> startswith identifier ''did:wcp:'' then
        Inl (ValueError (''not a did:wcp identifier: '' @ repr_str identifier))
      else case drop_prefix ''did:wcp:'' identifier of
        [] \<Rightarrow> Inl (ValueError ''empty did:wcp identifier body'')
      | p # payload \<Rightarrow>
          if p = CHR ''z'' then b58btc_decode payload
          else if p = CHR ''u'' then
            (case urlsafe_b64decode (payload @ replicate ((4 - length payload mod 4) mod 4) (CHR ''='')) of
               None \<Rightarrow> Inl (ValueError ''Incorrect padding'') | Some b \<Rightarrow> Inr b)
          else if p = CHR ''b'' then
            (let up = py_upper payload in b32decode (up @ replicate ((8 - length up mod 8) mod 8) (CHR ''='')))
          else if p = CHR ''f'' then fromhex payload
          else b58btc_decode (p # payload))"

definition is_multibase :: "string \<Rightarrow> bool res" where
  "is_multibase identifier =
     (if \<not> startswith identifier ''did:wcp:'' then
        Inl (ValueError (''not a did:wcp identifier: '' @ repr_str identifier))
      else let payload = drop_prefix ''did:wcp:'' identifier
        in Inr (payload \<noteq> [] \<and> hd payload \<in> set KNOWN_PREFIXES))"

definition canonicalize :: "string \<Rightarrow> string res" where
  "canonicalize identifier =
     bindE (mb_decode identifier) (\<lambda>raw. Inr (''did:wcp:z'' @ b58btc_encode raw))"

definition encoding_used :: "string \<Rightarrow> string res" where
  "encoding_used identifier =
     (if \<not> startswith identifier ''did:wcp:'' then
        Inl (ValueError (''not a did:wcp identifier: '' @ repr_str identifier))
      else case drop_prefix ''did:wcp:'' identifier of
        [] \<Rightarrow> Inl (ValueError ''empty did:wcp identifier body'')
      | p # _ \<Rightarrow>
          Inr (if p = CHR ''z'' then ''base58btc'' else if p = CHR ''u'' then ''base64url''
               else if p = CHR ''b'' then ''base32'' else if p = CHR ''f'' then ''hex'' else ''legacy''))"

subsection \<open>Base58btc is the resolver's base58\<close>

lemma b58btc_value_eq: "b58btc_value n s = Inr m \<longleftrightarrow> b58_value n s = Inr m"
  by (induction s arbitrary: n) (auto split: option.splits)

lemma b58btc_encode_eq [simp]: "b58btc_encode = b58encode"
  by (auto simp: fun_eq_iff b58btc_encode_def b58encode_def Let_def from_bytes_def b58_loop.simps lead_count_def)

lemma b58btc_decode_eq: "b58btc_decode s = Inr b \<longleftrightarrow> b58decode s = Inr b"
  by (cases "b58_value 0 s"; cases "b58btc_value 0 s")
    (auto simp: b58btc_decode_def b58decode_def Let_def lead_count_def dest: b58btc_value_eq [THEN iffD1] b58btc_value_eq [THEN iffD2])


subsection \<open>Reading back what was encoded\<close>

lemma hex_val_digit: "n < 16 \<Longrightarrow> hex_val (hex_digit n) = Some n \<and> \<not> hex_space (hex_digit n)"
  by (auto simp: hex_val_def hex_digit_def hex_space_def Let_def)

lemma fromhex_string: "fromhex (hex_string b) = Inr b"
proof (induction b)
  case (Cons c b)
  have "of_char c div 16 < (16 :: nat)" "of_char c mod 16 < (16 :: nat)"
    using nat_of_char_less_256 [of c] by linarith+
  moreover have "char_of (16 * (of_char c div 16) + of_char c mod 16 :: nat) = c" by (simp add: mult.commute)
  ultimately show ?case using Cons by (simp add: hex_string_def hex_val_digit)
qed (simp add: hex_string_def)

lemma B32_length [simp]: "length B32 = 32"
  by (simp add: B32_def)

lemma B32_index [simp]: "i < 32 \<Longrightarrow> index_of B32 (B32 ! i) = Some i"
  by (rule index_of_nth) (simp_all add: B32_def)

lemma B32_chars:
  assumes "c \<in> set B32"
  shows "c \<noteq> CHR ''='' \<and> (of_char c :: nat) < 128 \<and> upper_char (lower_char c) = [c]"
proof -
  have "\<forall>c \<in> set B32. c \<noteq> CHR ''='' \<and> (of_char c :: nat) < 128 \<and> upper_char (lower_char c) = [c]"
    by code_simp
  with assms show ?thesis by blast
qed

lemma upper_lower: "set s \<subseteq> set B32 \<Longrightarrow> py_upper (py_lower s) = s"
  by (induction s) (simp_all add: py_upper_def py_lower_def B32_chars)

text \<open>The quintets from position \<open>p\<close> up are the number without its low bits.\<close>

lemma b32_acc_quintets:
  assumes "p \<le> k"
  shows "b32_acc acc (map (\<lambda>i. B32 ! (c div 32 ^ i mod 32)) (rev [p..<k])) =
    Inr (acc * 32 ^ (k - p) + c mod 32 ^ k div 32 ^ p)"
  using assms
proof (induction "k - p" arbitrary: k acc)
  case 0
  then show ?case by simp
next
  case (Suc n)
  then obtain j where k: "k = Suc j" "p \<le> j" "n = j - p" by (cases k) auto
  have "c mod 32 ^ Suc j = 32 ^ j * (c div 32 ^ j mod 32) + c mod 32 ^ j"
    using mod_mult2_eq [of c "32 ^ j" 32] by (simp add: mult.commute)
  also have "\<dots> div 32 ^ p = 32 ^ (j - p) * (c div 32 ^ j mod 32) + c mod 32 ^ j div 32 ^ p"
  proof -
    have "(32 :: nat) ^ j = 32 ^ p * 32 ^ (j - p)" using k(2) by (simp add: power_add [symmetric])
    then show ?thesis by (simp add: mult.assoc div_mult_self4 add.commute)
  qed
  finally show ?case using Suc(1) [OF k(3,2)] k by (simp add: algebra_simps Suc_diff_le)
qed

lemma b32_group:
  assumes "length bs = 5" "p \<le> 7" "32 ^ p dvd from_bytes bs"
  shows "\<exists>acc. b32_acc 0 (take (8 - p) (b32_quantum (from_bytes bs))) = Inr acc \<and> to_bytes 5 (acc * 32 ^ p) = bs"
proof -
  let ?c = "from_bytes bs"
  have "take (8 - p) (b32_quantum ?c) = map (\<lambda>i. B32 ! (?c div 32 ^ i mod 32)) (rev [p..<8])"
  proof -
    have "[0..<8] = [0..<p] @ [p..<8]" using assms(2) upt_add_eq_append [of 0 p "8 - p"] by simp
    then show ?thesis by (simp add: b32_quantum_def take_map)
  qed
  moreover have "?c < 32 ^ 8" using from_bytes_less [of bs] assms(1) by simp
  ultimately have "b32_acc 0 (take (8 - p) (b32_quantum ?c)) = Inr (?c div 32 ^ p)"
    using b32_acc_quintets [of p 8 0 ?c] assms(2) by simp
  with assms(1,3) show ?thesis by (simp add: to_bytes_from_bytes)
qed

lemma quantum_chars: "length (b32_quantum c) = 8 \<and> set (b32_quantum c) \<subseteq> set B32"
  by (auto simp: b32_quantum_def intro!: nth_mem)

text \<open>What \<open>b32decode\<close> makes of the bytes decoded, the last accumulator and the padding.\<close>

definition b32_finish :: "nat \<Rightarrow> bytes \<times> nat \<Rightarrow> bytes" where
  "b32_finish pad r = (case r of (decoded, acc) \<Rightarrow>
     if pad \<noteq> 0 \<and> decoded \<noteq> [] then
       take (length decoded - 5) decoded @ take ((43 - 5 * pad) div 8) (to_bytes 5 (acc * 32 ^ pad))
     else decoded)"

definition b32_split :: "bytes \<Rightarrow> string \<Rightarrow> nat \<Rightarrow> bool" where
  "b32_split b body pad \<longleftrightarrow> b32encode b = body @ replicate pad (CHR ''='') \<and> set body \<subseteq> set B32 \<and>
     pad \<in> {0, 1, 3, 4, 6} \<and> (length body + pad) mod 8 = 0 \<and>
     (\<forall>acc0. \<exists>dec acc. b32_loop acc0 body = Inr (dec, acc) \<and> b32_finish pad (dec, acc) = b \<and>
        (dec = [] \<longrightarrow> pad = 0) \<and> (dec = [] \<or> 5 \<le> length dec))"

lemma b32_split_partial:
  assumes "length bs = k" "k \<in> {1, 2, 3, 4}"
  shows "\<exists>body pad. b32_split bs body pad"
proof -
  define p where "p = 8 - b32_kept k"
  define z where "z = bs @ replicate (5 - k) (CHR 0x00)"
  let ?body = "take (8 - p) (b32_quantum (from_bytes z))"
  have p: "p \<in> {1, 3, 4, 6}" "8 - p = b32_kept k" "(43 - 5 * p) div 8 = k" "5 * p \<le> 8 * (5 - k)" "p \<le> 7"
    using assms(2) by (auto simp: p_def b32_kept_def)
  have len: "length z = 5" using assms by (auto simp: z_def)
  have "(32 :: nat) ^ p dvd 256 ^ (5 - k)"
    using le_imp_power_dvd [OF p(4), of "2 :: nat"] by (simp add: power_mult)
  then have "32 ^ p dvd from_bytes z" by (simp add: z_def from_bytes_zeros)
  from b32_group [OF len p(5) this] obtain acc where acc: "b32_acc 0 ?body = Inr acc" "to_bytes 5 (acc * 32 ^ p) = z" by blast
  have body: "length ?body = 8 - p" "set ?body \<subseteq> set B32" "?body \<noteq> []"
    using quantum_chars [of "from_bytes z"] p(5) set_take_subset [of "8 - p" "b32_quantum (from_bytes z)"] by auto
  have enc: "b32encode bs = ?body @ replicate p (CHR ''='')"
    using assms by (auto simp: length_Suc_conv z_def p_def b32_kept_def numeral_2_eq_2 numeral_3_eq_3 numeral_eq_Suc)
  have loop: "b32_loop acc0 ?body = Inr (to_bytes 5 acc, acc)" for acc0
  proof -
    have "take 8 ?body = ?body" "drop 8 ?body = []" using body(1) by simp_all
    then show ?thesis using acc(1) body(3) by (simp add: b32_loop.simps [of acc0 ?body] b32_loop.simps [of _ "[]"])
  qed
  have five: "length (to_bytes 5 acc) = 5" by (rule to_bytes_length)
  have "b32_finish p (to_bytes 5 acc, acc) = bs"
    using acc(2) five p(1,3) assms(1) by (auto simp: b32_finish_def z_def)
  then have "b32_split bs ?body p"
    unfolding b32_split_def using enc body(2) loop p(1,5) five body(1) by (intro conjI allI) (simp, simp, blast, simp, auto)
  then show ?thesis by blast
qed

lemma b32_finish_append:
  assumes "length g = 5" "dec = [] \<longrightarrow> pad = 0" "dec = [] \<or> 5 \<le> length dec"
  shows "b32_finish pad (g @ dec, n) = g @ b32_finish pad (dec, n)"
  using assms by (auto simp: b32_finish_def)

lemma b32_split_ex: "\<exists>body pad. b32_split b body pad"
proof (induction b rule: b32encode.induct)
  case (1 a b c d e bs)
  let ?g = "[a, b, c, d, e]"
  from 1 obtain body pad where s: "b32_split bs body pad" by blast
  let ?q = "b32_quantum (from_bytes ?g)"
  from b32_group [of ?g 0] quantum_chars [of "from_bytes ?g"] obtain acc where
    acc: "b32_acc 0 ?q = Inr acc" "to_bytes 5 acc = ?g" and q: "length ?q = 8" "set ?q \<subseteq> set B32"
    by auto
  have loop: "b32_loop acc0 (?q @ body) = bindE (b32_loop acc body) (\<lambda>(rest, last). Inr (?g @ rest, last))" for acc0
    using acc q by (subst b32_loop.simps) auto
  from s obtain dec n where "b32_loop acc body = Inr (dec, n)" "b32_finish pad (dec, n) = bs"
      "dec = [] \<longrightarrow> pad = 0" "dec = [] \<or> 5 \<le> length dec"
    unfolding b32_split_def by metis
  then have "b32_loop acc0 (?q @ body) = Inr (?g @ dec, n) \<and> b32_finish pad (?g @ dec, n) = ?g @ bs \<and> 5 \<le> length (?g @ dec)" for acc0
    using loop b32_finish_append [of ?g dec pad n] by simp
  then have "\<forall>acc0. \<exists>dec n. b32_loop acc0 (?q @ body) = Inr (dec, n) \<and> b32_finish pad (dec, n) = a # b # c # d # e # bs \<and>
      (dec = [] \<longrightarrow> pad = 0) \<and> (dec = [] \<or> 5 \<le> length dec)"
    by (metis append_Cons append_Nil list.distinct(1))
  with s q have "b32_split (a # b # c # d # e # bs) (?q @ body) pad" by (simp add: b32_split_def add.assoc)
  then show ?case by blast
next
  case 2
  have "b32_split [] [] 0" by (simp add: b32_split_def b32_loop.simps b32_finish_def)
  then show ?case by blast
qed (rule b32_split_partial [OF refl]; simp)+

lemma b32_roundtrip:
  assumes "s = rstrip_eq (b32encode b)"
  shows "set s \<subseteq> set B32 \<and> b32decode (s @ replicate ((8 - length s mod 8) mod 8) (CHR ''='')) = Inr b"
proof -
  obtain body pad where sp: "b32_split b body pad" using b32_split_ex by blast
  have noeq: "rstrip_eq (body @ replicate k (CHR ''='')) = body" for k
    using sp by (intro rstrip_eq_pad) (auto simp: b32_split_def dest: B32_chars)
  then have s: "s = body" using sp assms by (simp add: b32_split_def)
  have pad: "(8 - length s mod 8) mod 8 = pad"
  proof -
    have less: "pad < 8" "length s mod 8 < 8" using sp by (auto simp: b32_split_def)
    have "(length s mod 8 + pad) mod 8 = 0" using sp s by (simp add: b32_split_def mod_add_left_eq)
    then obtain q where q: "length s mod 8 + pad = 8 * q" by (auto elim: dvdE)
    with less have "q = 0 \<or> q = 1" by linarith
    with q less show ?thesis by auto
  qed
  have asc: "ascii (body @ replicate pad (CHR ''=''))"
    using sp by (auto simp: b32_split_def ascii_def list_all_iff dest: B32_chars)
  have side: "set body \<subseteq> set B32" "pad \<in> {0, 1, 3, 4, 6}" "(length body + pad) mod 8 = 0"
    using sp by (simp_all add: b32_split_def)
  from sp obtain dec acc where d: "b32_loop 0 body = Inr (dec, acc)" "b32_finish pad (dec, acc) = b"
    unfolding b32_split_def by metis
  have "b32decode (body @ replicate pad (CHR ''='')) = Inr (b32_finish pad (dec, acc))"
    using side(2,3) by (simp add: b32decode_def asc noeq d(1) b32_finish_def del: insert_iff)
  then show ?thesis using side(1) d(2) pad s by simp
qed

subsection \<open>Properties\<close>

lemma drop_did [simp]: "drop_prefix ''did:wcp:'' (CHR ''d'' # CHR ''i'' # CHR ''d'' # CHR '':'' # CHR ''w'' # CHR ''c'' # CHR ''p'' # CHR '':'' # s) = s"
    "startswith (CHR ''d'' # CHR ''i'' # CHR ''d'' # CHR '':'' # CHR ''w'' # CHR ''c'' # CHR ''p'' # CHR '':'' # s) ''did:wcp:''"
  by (simp_all add: drop_prefix_def startswith_def)

lemma decode_z: "mb_decode (''did:wcp:z'' @ s) = b58btc_decode s"
  by (simp add: mb_decode_def)

text \<open>
  C38: Whatever encoding is chosen, decoding an encoded identifier gives back the key bytes;
  an encoding that is none of the four is refused.
\<close>

theorem multibase_roundtrip:
  "(case mb_encode b encoding of
      Inr did \<Rightarrow> encoding \<in> {''base58btc'', ''base64url'', ''base32'', ''hex''} \<and> mb_decode did = Inr b \<and>
        is_multibase did = Inr True \<and> encoding_used did = Inr encoding
    | Inl e \<Rightarrow> encoding \<notin> {''base58btc'', ''base64url'', ''base32'', ''hex''})"
proof -
  have "b32decode (py_upper (py_lower (rstrip_eq (b32encode b))) @
      replicate ((8 - length (py_upper (py_lower (rstrip_eq (b32encode b)))) mod 8) mod 8) (CHR ''='')) = Inr b"
    using b32_roundtrip [OF refl, of b] by (simp add: upper_lower)
  moreover have "b58btc_decode (b58encode b) = Inr b" by (simp add: b58btc_decode_eq b58decode_encode)
  ultimately show ?thesis
    using b64_roundtrip_exact [of b] fromhex_string [of b]
    by (auto simp: mb_encode_def mb_decode_def is_multibase_def encoding_used_def KNOWN_PREFIXES_def Let_def)
qed

text \<open>
  Canonical identifiers: canonicalizing keeps the key bytes, gives a base58btc identifier
  and does nothing to one that is canonical; two identifiers get the same canonical form
  exactly when they decode to the same bytes.
\<close>

theorem canonicalize_spec:
  assumes "canonicalize x = Inr c" "canonicalize y = Inr d"
  shows "canonicalize c = Inr c \<and> encoding_used c = Inr ''base58btc'' \<and> mb_decode c = mb_decode x \<and>
    (c = d \<longleftrightarrow> mb_decode x = mb_decode y)"
proof -
  obtain a b where ab: "mb_decode x = Inr a" "c = ''did:wcp:z'' @ b58encode a" "mb_decode y = Inr b" "d = ''did:wcp:z'' @ b58encode b"
    using assms by (auto simp: canonicalize_def)
  have "mb_decode (''did:wcp:z'' @ b58encode r) = Inr r" for r
    by (simp only: decode_z) (simp add: b58btc_decode_eq b58decode_encode)
  with ab show ?thesis
    using b58.enc_inject [of a b] by (auto simp: canonicalize_def encoding_used_def)
qed

theorem canonicalize_spec_witness:
  "canonicalize ''did:wcp:f61'' = Inr ''did:wcp:z2g'' \<and> canonicalize ''did:wcp:z2g'' = Inr ''did:wcp:z2g''"
proof -
  have c: "char_of (97 :: nat) = CHR ''a''" by code_simp
  have "canonicalize ''did:wcp:f61'' = Inr ''did:wcp:z2g''"
    using c by (simp add: canonicalize_def mb_decode_def hex_val_def hex_space_def b58encode_def from_bytes_def b58_loop.simps B58_def lead_count_def)
  with canonicalize_spec [OF this this] show ?thesis by simp
qed

subsection \<open>Legacy identifiers\<close>

text \<open>
  A legacy identifier (raw base58) is read back when its first character is no multibase
  prefix; when it starts with z it is taken for a multibase one and never decodes to the key
  it was made from.
\<close>

theorem legacy_identifiers:
  assumes "b58encode pk = p # s"
  shows "(p \<notin> set KNOWN_PREFIXES \<longrightarrow> mb_decode (did_string pk) = Inr pk) \<and>
    (p = CHR ''z'' \<longrightarrow> mb_decode (did_string pk) \<noteq> Inr pk)"
proof -
  have dec: "b58decode (p # s) = Inr pk" using b58decode_encode [of pk] assms by simp
  have "b58decode s \<noteq> Inr pk" if "p = CHR ''z''"
  proof
    assume "b58decode s = Inr pk"
    then have "b58_value 0 s = Inr (from_bytes pk)" by (rule from_bytes_decode)
    moreover have "b58_value 0 (p # s) = Inr (from_bytes pk)" using dec by (rule from_bytes_decode)
    moreover have "index_of B58 (CHR ''z'') = Some 57" by (simp add: B58_def)
    ultimately show False using b58_value_shift [of 0 57 s] that by simp
  qed
  with dec show ?thesis
    using assms by (auto simp: did_string_def mb_decode_def KNOWN_PREFIXES_def b58btc_decode_eq)
qed

lemma b58_loop_power: "0 < d \<Longrightarrow> d < 58 \<Longrightarrow> b58_loop (d * 58 ^ k) out = B58 ! d # replicate k (CHR ''1'') @ out"
proof (induction k arbitrary: out)
  case 0
  then show ?case by (simp add: b58_loop.simps [of d] b58_loop.simps [of 0])
next
  case (Suc k)
  have "b58_loop (d * 58 ^ Suc k) out = b58_loop (d * 58 ^ k) (CHR ''1'' # out)"
    using Suc.prems by (subst b58_loop.simps) (simp add: B58_zero mult.left_commute [of d 58])
  with Suc show ?case by (simp add: replicate_app_Cons_same)
qed

text \<open>A 32-byte key whose legacy identifier starts with z.\<close>

definition z_key :: bytes where
  "z_key =
    [CHR 0x0E, CHR 0x9A, CHR 0x1B, CHR 0x2A, CHR 0x80, CHR 0x7B, CHR 0xB1, CHR 0xBB, CHR 0x70, CHR 0x08,
     CHR 0xCF, CHR 0x96, CHR 0x97, CHR 0xD3, CHR 0x72, CHR 0x01, CHR 0x47, CHR 0xBA, CHR 0x89, CHR 0x72,
     CHR 0x63, CHR 0x30, CHR 0x38, CHR 0xDA, CHR 0xEF, CHR 0x11, CHR 0x84, CHR 0x00, CHR 0x00, CHR 0x00,
     CHR 0x00, CHR 0x00]"

theorem legacy_identifiers_witness:
  "length z_key = 32 \<and> mb_decode (did_string z_key) \<noteq> Inr z_key"
proof -
  have "from_bytes z_key = 6604661821141582192843379438906680969448987955971109998571100408275793870848"
    by (simp add: z_key_def from_bytes_def undigits_def)
  also have "\<dots> = 57 * 58 ^ 42" by simp
  finally have "b58encode z_key = CHR ''z'' # replicate 42 (CHR ''1'')"
    using b58_loop_power [of 57 42 "[]"] by (simp add: b58encode_def lead_count_def z_key_def [symmetric])
      (simp add: z_key_def B58_def)
  from legacy_identifiers [OF this] show ?thesis by (simp add: z_key_def)
qed

end
