(* ===== verification/External_Trust.thy ===== *)
theory External_Trust
  imports Rpc_Dispatch
begin

text \<open>
  \<open>wcp_sdk/preview/external_trust_root.py\<close> (RFC 0034): trust roots outside \<open>did:wcp\<close>, their
  process-wide registry and the dispatch of evidence to them. The preview verifies no
  signature: what it accepts is characterised below, and so is every exception it lets
  out. The clock reading is an argument. Ages are microseconds; the comparison with the
  limit and the rounding in the message are those of the float \<open>total_seconds()\<close> for ages
  below five hundred years, where microseconds are exact enough.
\<close>

record verification_result =
  vr_accepted :: bool
  vr_reason :: string
  vr_signer_identifier :: json
  vr_signer_trust_anchor_ref :: "string option"
  vr_payload_age_us :: "int option"

definition vr_default :: "bool \<Rightarrow> string \<Rightarrow> verification_result" where
  "vr_default accepted reason =
     \<lparr>vr_accepted = accepted, vr_reason = reason, vr_signer_identifier = JNull,
      vr_signer_trust_anchor_ref = None, vr_payload_age_us = None\<rparr>"

record trust_root_base =
  tr_root_identifier :: string
  tr_signature_algorithm :: string
  tr_max_payload_age_seconds :: int
  tr_max_trust_anchor_age_seconds :: int

text \<open>The three subclasses; \<open>cached_jwks\<close> is \<open>None\<close> until a deployment fills it.\<close>

datatype trust_root =
    JWKSTrustRoot trust_root_base (jwks_url: string) (freshness_field: string) (cached_jwks: "json option")
  | X509ChainTrustRoot trust_root_base (trust_store_pem: string)
  | DIDResolutionTrustRoot trust_root_base (did_method: string) (resolver_url: "string option")

definition new_jwks_root :: "string \<Rightarrow> string \<Rightarrow> string \<Rightarrow> string \<Rightarrow> int \<Rightarrow> int \<Rightarrow> trust_root" where
  "new_jwks_root root_identifier url alg field max_payload max_anchor =
     JWKSTrustRoot \<lparr>tr_root_identifier = root_identifier, tr_signature_algorithm = alg,
       tr_max_payload_age_seconds = max_payload, tr_max_trust_anchor_age_seconds = max_anchor\<rparr> url field None"

definition new_x509_root :: "string \<Rightarrow> string \<Rightarrow> string \<Rightarrow> int \<Rightarrow> trust_root" where
  "new_x509_root root_identifier pem alg max_payload =
     X509ChainTrustRoot \<lparr>tr_root_identifier = root_identifier, tr_signature_algorithm = alg,
       tr_max_payload_age_seconds = max_payload, tr_max_trust_anchor_age_seconds = 86400\<rparr> pem"

definition new_did_root :: "string \<Rightarrow> string \<Rightarrow> string option \<Rightarrow> string \<Rightarrow> int \<Rightarrow> trust_root" where
  "new_did_root root_identifier meth resolver alg max_payload =
     DIDResolutionTrustRoot \<lparr>tr_root_identifier = root_identifier, tr_signature_algorithm = alg,
       tr_max_payload_age_seconds = max_payload, tr_max_trust_anchor_age_seconds = 86400\<rparr> meth resolver"

definition dict_field :: "params \<Rightarrow> string \<Rightarrow> json" where
  "dict_field d k = (case map_of d k of Some v \<Rightarrow> v | None \<Rightarrow> JNull)"

text \<open>\<open>(datetime.now(timezone.utc) - ts)\<close>: subtracting a naive time raises.\<close>

fun age_us :: "int \<Rightarrow> datetime \<Rightarrow> int res" where
  "age_us now (Aware t _) = Inr (now - t)"
| "age_us now (Naive _) = Inl TypeError"

text \<open>The format \<open>.0f\<close> of the seconds: to the nearest integer, halves to even.\<close>

definition seconds_fixed0 :: "int \<Rightarrow> string" where
  "seconds_fixed0 us =
     (let q = us div 1000000; r = us mod 1000000;
          n = (if 500000 < r \<or> r = 500000 \<and> odd q then q + 1 else q)
      in if us < 0 \<and> n = 0 then ''-0'' else show_int n)"

text \<open>
  \<open>JWKSTrustRoot.verify\<close>. The handler around the freshness check catches \<open>ValueError\<close> and
  \<open>AttributeError\<close> only.
\<close>

definition jwks_verify :: "env \<Rightarrow> int \<Rightarrow> trust_root_base \<Rightarrow> string \<Rightarrow> string \<Rightarrow> json option \<Rightarrow> params \<Rightarrow> verification_result res" where
  "jwks_verify E now b url ff cached payload =
     (case cached of
        None \<Rightarrow> Inr (vr_default False (''preview: JWKS not cached. Production deployments fetch from '' @ url @
                  '' and verify the signature.''))
      | Some _ \<Rightarrow>
          let kid = dict_field payload ''kid''; ts_str = dict_field payload ff in
          if \<not> truthy ts_str then Inr (vr_default False (''missing freshness field: '' @ ff))
          else
            case bindE (as_str ts_str) (\<lambda>s. bindE (parse_iso E s) (age_us now)) of
              Inl (ValueError m) \<Rightarrow> Inr (vr_default False (''freshness parse error: '' @ m))
            | Inl AttributeError \<Rightarrow> Inr (vr_default False (''freshness parse error: '' @ exc_message AttributeError))
            | Inl e \<Rightarrow> Inl e
            | Inr age \<Rightarrow>
                if tr_max_payload_age_seconds b * 1000000 < age then
                  Inr ((vr_default False (''payload too old: '' @ seconds_fixed0 age @ ''s > '' @
                    show_int (tr_max_payload_age_seconds b) @ ''s''))\<lparr>vr_payload_age_us := Some age\<rparr>)
                else
                  Inr \<lparr>vr_accepted = True,
                       vr_reason = ''preview: structural validation passed; signature verification stubbed'',
                       vr_signer_identifier = kid, vr_signer_trust_anchor_ref = Some url,
                       vr_payload_age_us = Some age\<rparr>)"

definition x509_verify :: "trust_root_base \<Rightarrow> params \<Rightarrow> verification_result res" where
  "x509_verify b payload =
     Inr ((vr_default False (''preview: X.509 chain verification stubbed. Production '' @
       ''deployments verify leaf-to-root chain and signature.''))
         \<lparr>vr_signer_identifier := dict_field payload ''certificate_serial'',
          vr_signer_trust_anchor_ref := Some (''x509:'' @ tr_root_identifier b)\<rparr>)"

definition did_root_verify :: "env \<Rightarrow> string \<Rightarrow> params \<Rightarrow> verification_result res" where
  "did_root_verify E meth payload =
     (let signer_did = dict_field payload ''signer_did'' in
      bindE (if \<not> truthy signer_did then Inr True
             else bindE (as_str signer_did) (\<lambda>s. Inr (\<not> startswith s (''did:'' @ meth @ '':'')))) (\<lambda>bad.
      if bad then
        Inr (vr_default False (''signer_did missing or not a did:'' @ meth @ '': '' @ py_repr (float_repr E) signer_did))
      else
        Inr ((vr_default False (''preview: did:'' @ meth @ '' resolution stubbed. Production '' @
          ''deployments resolve the DID and verify the signature.''))
            \<lparr>vr_signer_identifier := signer_did, vr_signer_trust_anchor_ref := Some (''did:'' @ meth)\<rparr>)))"

fun root_verify :: "env \<Rightarrow> int \<Rightarrow> trust_root \<Rightarrow> params \<Rightarrow> verification_result res" where
  "root_verify E now (JWKSTrustRoot b url ff cached) payload = jwks_verify E now b url ff cached payload"
| "root_verify E now (X509ChainTrustRoot b pem) payload = x509_verify b payload"
| "root_verify E now (DIDResolutionTrustRoot b meth resolver) payload = did_root_verify E meth payload"

subsection \<open>The registry\<close>

type_synonym root_registry = "(string \<times> trust_root) list"

definition register_trust_root :: "string \<Rightarrow> trust_root \<Rightarrow> root_registry \<Rightarrow> root_registry" where
  "register_trust_root root_identifier root_instance reg = dict_set root_identifier root_instance reg"

definition unregister_trust_root :: "string \<Rightarrow> root_registry \<Rightarrow> root_registry" where
  "unregister_trust_root root_identifier reg = filter (\<lambda>e. fst e \<noteq> root_identifier) reg"

definition get_trust_root :: "string \<Rightarrow> root_registry \<Rightarrow> trust_root option" where
  "get_trust_root root_identifier reg = map_of reg root_identifier"

definition list_registered_roots :: "root_registry \<Rightarrow> string list" where
  "list_registered_roots reg = sort (map fst reg)"

definition verify_external_evidence :: "env \<Rightarrow> int \<Rightarrow> root_registry \<Rightarrow> string \<Rightarrow> params \<Rightarrow> verification_result res" where
  "verify_external_evidence E now reg evidence_kind payload =
     (let p = ''external-trust-root.'' in
      if \<not> startswith evidence_kind p then
        Inr (vr_default False (''not an external-trust-root evidence kind: '' @ repr_str evidence_kind))
      else
        let root_id = drop_prefix p evidence_kind in
        case map_of reg root_id of
          None \<Rightarrow> Inr (vr_default False (''no trust root registered for '' @ repr_str root_id))
        | Some rt \<Rightarrow> root_verify E now rt payload)"

subsection \<open>Properties\<close>

lemma map_of_filter_key: "map_of (filter (\<lambda>e. fst e \<noteq> k') xs) k = (if k = k' then None else map_of xs k)"
  by (induction xs) auto

lemma registry_lookup [simp]:
  "get_trust_root k (register_trust_root k' r reg) = (if k = k' then Some r else get_trust_root k reg)"
  "get_trust_root k (unregister_trust_root k' reg) = (if k = k' then None else get_trust_root k reg)"
  by (simp_all add: get_trust_root_def register_trust_root_def unregister_trust_root_def map_of_dict_set map_of_filter_key)

lemma listed_roots: "sorted (list_registered_roots reg) \<and> (k \<in> set (list_registered_roots reg) \<longleftrightarrow> get_trust_root k reg \<noteq> None)"
  by (force simp: list_registered_roots_def get_trust_root_def map_of_eq_None_iff)

lemma freshness_cases:
  obtains (time) ts d where "v = JStr ts" "parse_iso E ts = Inr d"
  | (caught) e where "bindE (as_str v) (\<lambda>s. bindE (parse_iso E s) (age_us now)) = Inl e"
      "e = AttributeError \<or> (\<exists>m. e = ValueError m)" "\<And>ts. v = JStr ts \<Longrightarrow> \<exists>e. parse_iso E ts = Inl e"
proof (cases v)
  case (JStr ts)
  show ?thesis
  proof (cases "parse_iso E ts")
    case (Inl e)
    then have "\<exists>m. e = ValueError m" by (auto simp: parse_iso_def of_opt_def split: option.splits)
    with JStr Inl caught show ?thesis by auto
  qed (use JStr time in blast)
qed (use caught [of AttributeError] in auto)

lemma jwks_accepts:
  "(\<exists>r. jwks_verify E now b url ff cached payload = Inr r \<and> vr_accepted r) \<longleftrightarrow>
     cached \<noteq> None \<and> (\<exists>ts t z. ts \<noteq> [] \<and> map_of payload ff = Some (JStr ts) \<and> parse_iso E ts = Inr (Aware t z) \<and>
       now - t \<le> tr_max_payload_age_seconds b * 1000000)"
proof (cases rule: freshness_cases [where v = "dict_field payload ff" and E = E and now = now])
  case (time ts d)
  then show ?thesis
    by (cases d) (auto simp: jwks_verify_def dict_field_def vr_default_def split: option.splits)
next
  case (caught e)
  then show ?thesis
    by (auto simp: jwks_verify_def dict_field_def vr_default_def split: option.splits)
qed

lemma jwks_raises:
  "jwks_verify E now b url ff cached payload = Inl e \<longleftrightarrow>
     cached \<noteq> None \<and> e = TypeError \<and>
     (\<exists>ts t. ts \<noteq> [] \<and> map_of payload ff = Some (JStr ts) \<and> parse_iso E ts = Inr (Naive t))"
proof (cases rule: freshness_cases [where v = "dict_field payload ff" and E = E and now = now])
  case (time ts d)
  then show ?thesis
    by (cases d) (auto simp: jwks_verify_def dict_field_def split: option.splits)
next
  case (caught e)
  then show ?thesis
    by (auto simp: jwks_verify_def dict_field_def split: option.splits)
qed

lemma others_refuse: "x509_verify b payload = Inr r \<Longrightarrow> \<not> vr_accepted r" "did_root_verify E m payload = Inr r \<Longrightarrow> \<not> vr_accepted r"
  by (auto simp: x509_verify_def did_root_verify_def vr_default_def Let_def split: if_splits)

lemma did_root_raises:
  "did_root_verify E m payload = Inl e \<longleftrightarrow>
     e = AttributeError \<and> truthy (dict_field payload ''signer_did'') \<and> \<not> is_str (dict_field payload ''signer_did'')"
  by (cases "dict_field payload ''signer_did''") (auto simp: did_root_verify_def Let_def)

lemma root_accepts:
  "(\<exists>r. root_verify E now rt payload = Inr r \<and> vr_accepted r) \<longleftrightarrow>
     (\<exists>b url ff keys ts t z. rt = JWKSTrustRoot b url ff (Some keys) \<and> map_of payload ff = Some (JStr ts) \<and> ts \<noteq> [] \<and>
        parse_iso E ts = Inr (Aware t z) \<and> now - t \<le> tr_max_payload_age_seconds b * 1000000)"
  by (cases rt) (auto simp: jwks_accepts dest: others_refuse)

lemma root_raises:
  "root_verify E now rt payload = Inl e \<longleftrightarrow>
     (\<exists>b url ff keys ts t. e = TypeError \<and> rt = JWKSTrustRoot b url ff (Some keys) \<and> ts \<noteq> [] \<and>
        map_of payload ff = Some (JStr ts) \<and> parse_iso E ts = Inr (Naive t)) \<or>
     (\<exists>b m res. e = AttributeError \<and> rt = DIDResolutionTrustRoot b m res \<and>
        truthy (dict_field payload ''signer_did'') \<and> \<not> is_str (dict_field payload ''signer_did''))"
  by (cases rt) (auto simp: jwks_raises did_root_raises x509_verify_def)

lemma dispatch_cases:
  obtains (found) rid rt where "kind = ''external-trust-root.'' @ rid" "map_of reg rid = Some rt"
      "verify_external_evidence E now reg kind payload = root_verify E now rt payload"
  | (missing) reason where "verify_external_evidence E now reg kind payload = Inr (vr_default False reason)"
      "\<And>rid. kind = ''external-trust-root.'' @ rid \<Longrightarrow> map_of reg rid = None"
proof (cases "startswith kind ''external-trust-root.''")
  case True
  then obtain rid where k: "kind = ''external-trust-root.'' @ rid" by (auto simp: startswith_iff)
  have "drop_prefix ''external-trust-root.'' kind = rid" unfolding k drop_prefix_def by simp
  with True k show ?thesis
    by (cases "map_of reg rid") (auto simp: verify_external_evidence_def intro: that)
qed (auto simp: verify_external_evidence_def startswith_iff intro: that)

text \<open>
  External evidence is accepted exactly when its kind names a registered JWKS root with keys
  cached and its freshness field is a time with a zone no older than the root allows. No
  signature is looked at, times in the future count as fresh, and X.509 and DID roots
  accept nothing.
\<close>

theorem external_acceptance:
  "(\<exists>r. verify_external_evidence E now reg kind payload = Inr r \<and> vr_accepted r) \<longleftrightarrow>
   (\<exists>rid b url ff keys ts t z. kind = ''external-trust-root.'' @ rid \<and>
      get_trust_root rid reg = Some (JWKSTrustRoot b url ff (Some keys)) \<and>
      map_of payload ff = Some (JStr ts) \<and> ts \<noteq> [] \<and> parse_iso E ts = Inr (Aware t z) \<and>
      now - t \<le> tr_max_payload_age_seconds b * 1000000)"
proof (cases rule: dispatch_cases [where kind = kind and reg = reg and E = E and now = now and payload = payload])
  case (found rid rt)
  then show ?thesis by (simp add: get_trust_root_def root_accepts)
next
  case (missing reason)
  then show ?thesis by (auto simp: get_trust_root_def vr_default_def simp del: append.simps)
qed

text \<open>
  The exceptions that leave verify_external_evidence: TypeError exactly when a JWKS root with
  keys meets a freshness time without a zone, AttributeError exactly when a DID root meets a
  signer_did that is neither empty nor a string, and no other.
\<close>

theorem external_exceptions:
  "verify_external_evidence E now reg kind payload = Inl e \<longleftrightarrow>
   (\<exists>rid rt. kind = ''external-trust-root.'' @ rid \<and> get_trust_root rid reg = Some rt \<and>
     ((\<exists>b url ff keys ts t. e = TypeError \<and> rt = JWKSTrustRoot b url ff (Some keys) \<and> ts \<noteq> [] \<and>
         map_of payload ff = Some (JStr ts) \<and> parse_iso E ts = Inr (Naive t)) \<or>
      (\<exists>b m res. e = AttributeError \<and> rt = DIDResolutionTrustRoot b m res \<and>
         truthy (dict_field payload ''signer_did'') \<and> \<not> is_str (dict_field payload ''signer_did''))))"
proof (cases rule: dispatch_cases [where kind = kind and reg = reg and E = E and now = now and payload = payload])
  case (found rid rt)
  then show ?thesis by (simp add: get_trust_root_def root_raises)
next
  case (missing reason)
  then show ?thesis by (auto simp: get_trust_root_def vr_default_def simp del: append.simps)
qed

end
