(* ===== verification/Public_Registry.thy ===== *)
theory Public_Registry
  imports Sample_Env
begin

text \<open>
  \<open>infrastructure/public-registry/app/\<close>: the public registry of coordinators. \<open>schemas.py\<close> gives the
  descriptor and its validators, \<open>verify.py\<close> the signature check, \<open>models.py\<close> the table, \<open>main.py\<close> the
  endpoints and \<open>prober.py\<close> the liveness sweep.

  PyNaCl and pydantic are parameters of the record \<open>registry_env\<close>: whether PyNaCl is installed, its
  verification (\<open>Inr True\<close> returns, \<open>Inr False\<close> is \<open>BadSignatureError\<close>, \<open>Inl e\<close> anything else it raises), and
  how a datetime and a float are written to JSON. The columns \<open>created_at\<close> and \<open>updated_at\<close>, which the database server
  fills, the length limits of the string columns and the HTML page are not modelled.
\<close>

record registry_env =
  has_nacl :: bool
  nacl_verify :: "bytes \<Rightarrow> bytes \<Rightarrow> bytes \<Rightarrow> bool res"
  dump_datetime :: "datetime \<Rightarrow> string"
  float_text :: "rat \<Rightarrow> string"

subsection \<open>Descriptors\<close>

record coordinator_descriptor =
  co_schema_version :: string
  co_did :: string
  co_endpoint :: string
  co_operator :: string
  co_operator_country :: string
  co_operator_legal_form :: "string option"
  co_jurisdictions_served :: "string list"
  co_descriptor_types_accepted :: "string list"
  co_worker_classes_accepted :: "string list"
  co_conformance_level :: int
  co_conformance_attestation_url :: "string option"
  co_settlement_currencies :: "string list"
  co_federation_peers :: "string list"
  co_public_key_multibase :: string
  co_signed_at :: datetime
  co_signature :: string

text \<open>The pattern \<open>p$\<close> of Python's \<open>re\<close>: the end of the string, or before a final newline.\<close>

definition at_end :: "(string \<Rightarrow> bool) \<Rightarrow> string \<Rightarrow> bool" where
  "at_end p s \<longleftrightarrow> p s \<or> s \<noteq> [] \<and> last s = CHR 0x0A \<and> p (butlast s)"

definition upper_char_AZ :: "char \<Rightarrow> bool" where
  "upper_char_AZ c \<longleftrightarrow> (let n = of_char c :: nat in 65 \<le> n \<and> n \<le> 90)"

definition did_char :: "char \<Rightarrow> bool" where
  "did_char c \<longleftrightarrow> (let n = of_char c :: nat in 65 \<le> n \<and> n \<le> 90 \<or> 97 \<le> n \<and> n \<le> 122 \<or> 48 \<le> n \<and> n \<le> 57) \<or>
     c \<in> set ''._-''"

definition did_re :: "string \<Rightarrow> bool" where
  "did_re v \<longleftrightarrow> at_end (\<lambda>s. startswith s ''did:wcp:'' \<and> drop_prefix ''did:wcp:'' s \<noteq> [] \<and>
     list_all did_char (drop_prefix ''did:wcp:'' s)) v"

definition country_re :: "string \<Rightarrow> bool" where
  "country_re v \<longleftrightarrow> at_end (\<lambda>s. length s = 2 \<and> list_all upper_char_AZ s) v"

definition jurisdiction_re :: "string \<Rightarrow> bool" where
  "jurisdiction_re v \<longleftrightarrow> at_end (\<lambda>s. 2 \<le> length s \<and> list_all upper_char_AZ (take 2 s) \<and>
     (length s = 2 \<or> s ! 2 = CHR ''-'' \<and> 4 \<le> length s \<and> length s \<le> 6 \<and>
        list_all (\<lambda>c. upper_char_AZ c \<or> digit_char c) (drop 3 s))) v"

definition currency_re :: "string \<Rightarrow> bool" where
  "currency_re v \<longleftrightarrow> at_end (\<lambda>s. length s = 3 \<and> list_all upper_char_AZ s) v"

definition ws_re :: "string \<Rightarrow> bool" where
  "ws_re v \<longleftrightarrow> startswith v ''ws://'' \<or> startswith v ''wss://''"

text \<open>All field validators pass.\<close>

definition descriptor_valid :: "coordinator_descriptor \<Rightarrow> bool" where
  "descriptor_valid d \<longleftrightarrow>
     did_re (co_did d) \<and> ws_re (co_endpoint d) \<and> country_re (co_operator_country d) \<and>
     co_jurisdictions_served d \<noteq> [] \<and> list_all jurisdiction_re (co_jurisdictions_served d) \<and>
     co_conformance_level d \<in> {1, 2, 3} \<and> list_all currency_re (co_settlement_currencies d) \<and>
     list_all did_re (co_federation_peers d) \<and>
     list_all (\<lambda>c. c \<in> {''human'', ''autonomous_robot'', ''teleoperated_system'', ''hybrid_human_robot''})
       (co_worker_classes_accepted d)"

definition opt_json :: "string option \<Rightarrow> json" where
  "opt_json x = (case x of None \<Rightarrow> JNull | Some s \<Rightarrow> JStr s)"

text \<open>\<open>descriptor.model_dump(mode="json")\<close>\<close>

definition model_dump :: "registry_env \<Rightarrow> coordinator_descriptor \<Rightarrow> (string \<times> json) list" where
  "model_dump N d =
     [(''schema_version'', JStr (co_schema_version d)), (''did'', JStr (co_did d)),
      (''endpoint'', JStr (co_endpoint d)), (''operator'', JStr (co_operator d)),
      (''operator_country'', JStr (co_operator_country d)),
      (''operator_legal_form'', opt_json (co_operator_legal_form d)),
      (''jurisdictions_served'', JList (map JStr (co_jurisdictions_served d))),
      (''descriptor_types_accepted'', JList (map JStr (co_descriptor_types_accepted d))),
      (''worker_classes_accepted'', JList (map JStr (co_worker_classes_accepted d))),
      (''conformance_level'', JInt (co_conformance_level d)),
      (''conformance_attestation_url'', opt_json (co_conformance_attestation_url d)),
      (''settlement_currencies'', JList (map JStr (co_settlement_currencies d))),
      (''federation_peers'', JList (map JStr (co_federation_peers d))),
      (''public_key_multibase'', JStr (co_public_key_multibase d)),
      (''signed_at'', JStr (dump_datetime N (co_signed_at d))), (''signature'', JStr (co_signature d))]"

subsection \<open>The signature check\<close>

text \<open>\<open>json.dumps\<close> with \<open>ensure_ascii=False\<close>, encoded as UTF-8.\<close>

definition raw_char :: "char \<Rightarrow> bytes" where
  "raw_char c =
     (let n = of_char c :: nat in
      if n < 127 then esc_char c else if n = 127 then [c] else [char_of (192 + n div 64), char_of (128 + n mod 64)])"

definition raw_string :: "string \<Rightarrow> bytes" where
  "raw_string s = [CHR 0x22] @ concat (map raw_char s) @ [CHR 0x22]"

fun join_commas :: "bytes list \<Rightarrow> bytes" where
  "join_commas [] = []"
| "join_commas [x] = x"
| "join_commas (x # y # ys) = x @ '','' @ join_commas (y # ys)"

fun dumps_raw :: "(rat \<Rightarrow> string) \<Rightarrow> json \<Rightarrow> bytes" where
  "dumps_raw fr JNull = ''null''"
| "dumps_raw fr (JBool b) = (if b then ''true'' else ''false'')"
| "dumps_raw fr (JInt i) = show_int i"
| "dumps_raw fr (JFloat r) = fr r"
| "dumps_raw fr (JStr s) = raw_string s"
| "dumps_raw fr (JList xs) = ''['' @ join_commas (map (dumps_raw fr) xs) @ '']''"
| "dumps_raw fr (JDict d) = ''{'' @ join_commas (map (\<lambda>(k, v). raw_string k @ '':'' @ dumps_raw fr v) d) @ ''}''"

definition canonicalise_for_signing :: "registry_env \<Rightarrow> (string \<times> json) list \<Rightarrow> bytes" where
  "canonicalise_for_signing N descriptor =
     dumps_raw (float_text N) (sort_json (JDict (filter (\<lambda>(k, v). k \<noteq> ''signature'') descriptor)))"

text \<open>The messages of the two \<open>ValueError\<close>s are only logged.\<close>

definition decode_multibase_pubkey :: "string \<Rightarrow> bytes res" where
  "decode_multibase_pubkey multibase =
     (if \<not> startswith multibase ''z'' then
        Inl (ValueError ''only base58btc multibase supported in preview'')
      else
        bindE (b58_value 0 (drop_prefix ''z'' multibase)) (\<lambda>n.
          Inr (if n \<noteq> 0 then to_bytes ((bit_length n + 7) div 8) n else [])))"

text \<open>On a descriptor as \<open>model_dump\<close> makes it both fields are strings.\<close>

definition str_field :: "string \<Rightarrow> (string \<times> json) list \<Rightarrow> string" where
  "str_field k d = (case map_of d k of Some (JStr s) \<Rightarrow> s | _ \<Rightarrow> [])"

definition verify_descriptor_signature :: "registry_env \<Rightarrow> (string \<times> json) list \<Rightarrow> bool res" where
  "verify_descriptor_signature N descriptor =
     (if \<not> has_nacl N then Inr True
      else case decode_multibase_pubkey (str_field ''public_key_multibase'' descriptor) of
        Inl _ \<Rightarrow> Inr False
      | Inr pubkey_bytes \<Rightarrow>
          if length pubkey_bytes \<noteq> 32 then Inr False
          else
            let canonical = canonicalise_for_signing N descriptor in
            case urlsafe_b64decode (str_field ''signature'' descriptor @ ''=='') of
              None \<Rightarrow> Inr False
            | Some sig \<Rightarrow> nacl_verify N pubkey_bytes canonical sig)"

subsection \<open>The table and the endpoints\<close>

record coordinator_row =
  cr_did :: string
  cr_endpoint :: string
  cr_operator :: string
  cr_operator_country :: string
  cr_conformance_level :: int
  cr_descriptor_json :: "(string \<times> json) list"
  cr_public_key_multibase :: string
  cr_signed_at :: datetime
  cr_last_seen_alive_at :: "datetime option"

type_synonym coordinators = "coordinator_row list"

datatype registry_response = Created coordinator_descriptor | NoContent | HttpError int string | Crashed py_exc

definition fresh_row :: "registry_env \<Rightarrow> coordinator_descriptor \<Rightarrow> coordinator_row" where
  "fresh_row N d =
     \<lparr>cr_did = co_did d, cr_endpoint = co_endpoint d, cr_operator = co_operator d,
      cr_operator_country = co_operator_country d, cr_conformance_level = co_conformance_level d,
      cr_descriptor_json = model_dump N d, cr_public_key_multibase = co_public_key_multibase d,
      cr_signed_at = co_signed_at d, cr_last_seen_alive_at = None\<rparr>"

definition update_row :: "registry_env \<Rightarrow> coordinator_descriptor \<Rightarrow> coordinator_row \<Rightarrow> coordinator_row" where
  "update_row N d r =
     r\<lparr>cr_endpoint := co_endpoint d, cr_operator := co_operator d, cr_operator_country := co_operator_country d,
       cr_conformance_level := co_conformance_level d, cr_descriptor_json := model_dump N d,
       cr_signed_at := co_signed_at d\<rparr>"

definition sig_failed :: registry_response where
  "sig_failed = HttpError 400 ''signature verification failed''"

definition register_coordinator ::
  "registry_env \<Rightarrow> coordinator_descriptor \<Rightarrow> coordinators \<Rightarrow> registry_response \<times> coordinators" where
  "register_coordinator N d s =
     (if \<not> descriptor_valid d then (HttpError 422 [], s)
      else case verify_descriptor_signature N (model_dump N d) of
        Inl e \<Rightarrow> (Crashed e, s)
      | Inr ok \<Rightarrow>
          if \<not> ok then (sig_failed, s)
          else case row_get cr_did s (co_did d) of
            None \<Rightarrow> (Created d, s @ [fresh_row N d])
          | Some existing \<Rightarrow>
              if cr_public_key_multibase existing \<noteq> co_public_key_multibase d then
                (HttpError 400 (''public_key_multibase change on update is forbidden; '' @
                   ''delete the entry and re-register''), s)
              else (Created d, row_update cr_did (co_did d) (update_row N d) s))"

definition delete_coordinator ::
  "registry_env \<Rightarrow> string \<Rightarrow> coordinator_descriptor \<Rightarrow> coordinators \<Rightarrow> registry_response \<times> coordinators" where
  "delete_coordinator N did d s =
     (if \<not> descriptor_valid d then (HttpError 422 [], s)
      else if co_did d \<noteq> did then (HttpError 400 ''path DID does not match descriptor DID'', s)
      else case verify_descriptor_signature N (model_dump N d) of
        Inl e \<Rightarrow> (Crashed e, s)
      | Inr ok \<Rightarrow>
          if \<not> ok then (sig_failed, s)
          else case row_get cr_did s did of
            None \<Rightarrow> (HttpError 404 ''coordinator not found'', s)
          | Some r \<Rightarrow>
              if cr_public_key_multibase r \<noteq> co_public_key_multibase d then
                (HttpError 400 ''public_key_multibase mismatch with stored descriptor'', s)
              else (NoContent, filter (\<lambda>x. cr_did x \<noteq> did) s))"

text \<open>The read endpoints return the stored descriptors.\<close>

definition str_list :: "string \<Rightarrow> (string \<times> json) list \<Rightarrow> string list" where
  "str_list k d = (case map_of d k of Some (JList xs) \<Rightarrow> map str_of xs | _ \<Rightarrow> [])"

definition list_coordinators ::
  "string option \<Rightarrow> string option \<Rightarrow> string option \<Rightarrow> int \<Rightarrow> coordinators \<Rightarrow> (string \<times> json) list list" where
  "list_coordinators country descriptor_type worker_class min_conformance s =
     map cr_descriptor_json (filter (\<lambda>r.
       \<not> cr_conformance_level r < min_conformance \<and>
       (case country of None \<Rightarrow> True | Some c \<Rightarrow> cr_operator_country r = c) \<and>
       (case descriptor_type of None \<Rightarrow> True
        | Some t \<Rightarrow> t \<in> set (str_list ''descriptor_types_accepted'' (cr_descriptor_json r))) \<and>
       (case worker_class of None \<Rightarrow> True
        | Some w \<Rightarrow> w \<in> set (str_list ''worker_classes_accepted'' (cr_descriptor_json r)))) s)"

definition get_coordinator :: "string \<Rightarrow> coordinators \<Rightarrow> (string \<times> json) list option" where
  "get_coordinator did s = map_option cr_descriptor_json (row_get cr_did s did)"

text \<open>One pass of the prober: \<open>alive\<close> says which endpoints answered.\<close>

definition probe_pass :: "(string \<Rightarrow> bool) \<Rightarrow> datetime \<Rightarrow> coordinators \<Rightarrow> coordinators" where
  "probe_pass alive now s =
     map (\<lambda>r. if alive (cr_endpoint r) then r\<lparr>cr_last_seen_alive_at := Some now\<rparr> else r) s"

datatype registry_event = Register coordinator_descriptor | Delete string coordinator_descriptor | Probe "string \<Rightarrow> bool" datetime

fun registry_step :: "registry_env \<Rightarrow> registry_event \<Rightarrow> coordinators \<Rightarrow> coordinators" where
  "registry_step N (Register d) s = snd (register_coordinator N d s)"
| "registry_step N (Delete did d) s = snd (delete_coordinator N did d s)"
| "registry_step N (Probe alive now) s = probe_pass alive now s"

inductive registered :: "registry_env \<Rightarrow> coordinators \<Rightarrow> bool" for N where
  empty: "registered N []"
| step: "registered N s \<Longrightarrow> registered N (registry_step N ev s)"

subsection \<open>Invariants of the table\<close>

text \<open>
  What every stored row is: the trace of a valid descriptor that the signature check let through. Without PyNaCl
  the check lets everything through.
\<close>

definition row_of :: "registry_env \<Rightarrow> coordinator_descriptor \<Rightarrow> coordinator_row \<Rightarrow> bool" where
  "row_of N d r \<longleftrightarrow> (\<exists>seen. r = (fresh_row N d)\<lparr>cr_last_seen_alive_at := seen\<rparr>)"

definition accepted_descriptor :: "registry_env \<Rightarrow> coordinator_descriptor \<Rightarrow> bool" where
  "accepted_descriptor N d \<longleftrightarrow> descriptor_valid d \<and> verify_descriptor_signature N (model_dump N d) = Inr True"

definition registry_inv :: "registry_env \<Rightarrow> coordinators \<Rightarrow> bool" where
  "registry_inv N s \<longleftrightarrow> distinct (map cr_did s) \<and> (\<forall>r \<in> set s. \<exists>d. accepted_descriptor N d \<and> row_of N d r)"

lemma row_of_fresh: "row_of N d (fresh_row N d)"
  unfolding row_of_def by (rule exI [of _ None]) (simp add: fresh_row_def)

lemma row_of_update:
  assumes "cr_did r = co_did d" "cr_public_key_multibase r = co_public_key_multibase d"
  shows "row_of N d (update_row N d r)"
  unfolding row_of_def
  by (rule exI [of _ "cr_last_seen_alive_at r"]) (simp add: fresh_row_def update_row_def assms)

lemma register_cases:
  "register_coordinator N d s = (Created d, s @ [fresh_row N d]) \<and> accepted_descriptor N d \<and> row_get cr_did s (co_did d) = None \<or>
   (\<exists>r. register_coordinator N d s = (Created d, row_update cr_did (co_did d) (update_row N d) s) \<and> accepted_descriptor N d \<and>
      row_get cr_did s (co_did d) = Some r \<and> cr_public_key_multibase r = co_public_key_multibase d) \<or>
   snd (register_coordinator N d s) = s \<and> (\<forall>d'. fst (register_coordinator N d s) \<noteq> Created d')"
  by (auto simp: register_coordinator_def accepted_descriptor_def sig_failed_def split: sum.splits option.splits)

lemma delete_cases:
  "(\<exists>r. delete_coordinator N did d s = (NoContent, filter (\<lambda>x. cr_did x \<noteq> did) s) \<and> accepted_descriptor N d \<and> co_did d = did \<and>
      row_get cr_did s did = Some r \<and> cr_public_key_multibase r = co_public_key_multibase d) \<or>
   snd (delete_coordinator N did d s) = s \<and> fst (delete_coordinator N did d s) \<noteq> NoContent"
  by (auto simp: delete_coordinator_def accepted_descriptor_def sig_failed_def split: sum.splits option.splits)

lemma row_get_filter: "row_get key (filter (\<lambda>x. key x \<noteq> k') s) k = (if k = k' then None else row_get key s k)"
  by (induction s) auto

lemma update_row_key [simp]: "cr_did (update_row N d r) = cr_did r" "cr_public_key_multibase (update_row N d r) = cr_public_key_multibase r"
  by (simp_all add: update_row_def)

lemma registry_inv_register:
  assumes "registry_inv N s"
  shows "registry_inv N (snd (register_coordinator N d s))"
  using register_cases [of N d s]
proof (elim disjE exE conjE)
  assume "register_coordinator N d s = (Created d, s @ [fresh_row N d])" "accepted_descriptor N d" "row_get cr_did s (co_did d) = None"
  with assms row_of_fresh show ?thesis
    by (auto simp: registry_inv_def row_get_None) (auto simp: fresh_row_def)
next
  fix r
  assume run: "register_coordinator N d s = (Created d, row_update cr_did (co_did d) (update_row N d) s)" and acc: "accepted_descriptor N d"
    and r: "row_get cr_did s (co_did d) = Some r" "cr_public_key_multibase r = co_public_key_multibase d"
  have dist: "distinct (map cr_did s)" using assms by (simp add: registry_inv_def)
  have "\<exists>d. accepted_descriptor N d \<and> row_of N d x" if "x \<in> set (row_update cr_did (co_did d) (update_row N d) s)" for x
    using row_update_mem [OF dist r(1) that] row_of_update [of r d N] row_get_Some [OF r(1)] r(2) acc assms
    by (auto simp: registry_inv_def)
  with dist run show ?thesis by (simp add: registry_inv_def row_update_keys)
qed (use assms in simp)

lemma registry_inv_delete: "registry_inv N s \<Longrightarrow> registry_inv N (snd (delete_coordinator N did d s))"
  using delete_cases [of N did d s] by (auto simp: registry_inv_def distinct_map_filter)

lemma registry_inv_probe:
  assumes "registry_inv N s"
  shows "registry_inv N (probe_pass alive now s)"
proof -
  have keys: "map cr_did (probe_pass alive now s) = map cr_did s" by (simp add: probe_pass_def)
  have "\<exists>d. accepted_descriptor N d \<and> row_of N d x" if "x \<in> set (probe_pass alive now s)" for x
  proof -
    from that obtain r where r: "r \<in> set s" "x = (if alive (cr_endpoint r) then r\<lparr>cr_last_seen_alive_at := Some now\<rparr> else r)"
      by (auto simp: probe_pass_def)
    with assms obtain d where "accepted_descriptor N d" "row_of N d r" by (auto simp: registry_inv_def)
    moreover from this(2) have "row_of N d x" by (auto simp: r(2) row_of_def)
    ultimately show ?thesis by blast
  qed
  with assms keys show ?thesis by (simp add: registry_inv_def)
qed

lemma registered_inv: "registered N s \<Longrightarrow> registry_inv N s"
proof (induction rule: registered.induct)
  case (step s ev)
  then show ?case
    by (cases ev) (simp_all add: registry_inv_register registry_inv_delete registry_inv_probe)
qed (simp add: registry_inv_def)

subsection \<open>A registry in use\<close>

lemma decode_multibase_key:
  assumes "pk \<noteq> []" "hd pk \<noteq> CHR 0x00"
  shows "decode_multibase_pubkey (CHR ''z'' # b58encode pk) = Inr pk"
proof -
  have dig: "digits 256 (from_bytes pk) = map of_char pk"
    unfolding from_bytes_def using assms by (intro digits_undigits) (auto simp: hd_map)
  have "hd (map of_char pk) \<noteq> (0 :: nat)" using assms by (simp add: hd_map del: neq0_conv)
  then have "0 < from_bytes pk" using assms(1) undigits_pos [of 256 "map of_char pk"] by (simp add: from_bytes_def)
  with to_bytes_minimal [of "from_bytes pk"] dig from_bytes_decode [OF b58decode_encode, of pk] show ?thesis
    by (simp add: decode_multibase_pubkey_def startswith_def drop_prefix_def comp_def)
qed

definition sample_registry :: registry_env where
  "sample_registry = \<lparr>has_nacl = True, nacl_verify = (\<lambda>pk d sig. Inr (sig = pk @ d)), dump_datetime = sample_iso, float_text = sample_float\<rparr>"

definition unsigned_descriptor :: coordinator_descriptor where
  "unsigned_descriptor = \<lparr>co_schema_version = ''wcp/0.2'', co_did = ''did:wcp:c'', co_endpoint = ''wss://c'', co_operator = ''op'',
     co_operator_country = ''SG'', co_operator_legal_form = None, co_jurisdictions_served = [''SG''],
     co_descriptor_types_accepted = [''cleaning''], co_worker_classes_accepted = [''human''], co_conformance_level = 2,
     co_conformance_attestation_url = None, co_settlement_currencies = [], co_federation_peers = [],
     co_public_key_multibase = CHR ''z'' # b58encode (sample_key (CHR ''c'')), co_signed_at = Aware 1 0, co_signature = []\<rparr>"

definition sample_descriptor :: coordinator_descriptor where
  "sample_descriptor = unsigned_descriptor\<lparr>co_signature := urlsafe_b64nopad (sample_key (CHR ''c'') @
     canonicalise_for_signing sample_registry (model_dump sample_registry unsigned_descriptor))\<rparr>"

lemma canonical_unsigned:
  "canonicalise_for_signing N (model_dump N (d\<lparr>co_signature := x\<rparr>)) = canonicalise_for_signing N (model_dump N d)"
  by (simp add: canonicalise_for_signing_def model_dump_def)

lemma sample_accepted_descriptor: "accepted_descriptor sample_registry sample_descriptor"
proof -
  have fields: "str_field ''public_key_multibase'' (model_dump sample_registry sample_descriptor) = CHR ''z'' # b58encode (sample_key (CHR ''c''))"
    "str_field ''signature'' (model_dump sample_registry sample_descriptor) = co_signature sample_descriptor"
    by (simp_all add: str_field_def model_dump_def sample_descriptor_def unsigned_descriptor_def)
  have key: "decode_multibase_pubkey (CHR ''z'' # b58encode (sample_key (CHR ''c''))) = Inr (sample_key (CHR ''c''))"
    by (rule decode_multibase_key) (simp_all add: sample_key_def)
  have sig: "urlsafe_b64decode (co_signature sample_descriptor @ ''=='') =
      Some (sample_key (CHR ''c'') @ canonicalise_for_signing sample_registry (model_dump sample_registry sample_descriptor))"
    by (simp add: sample_descriptor_def canonical_unsigned b64_roundtrip_two)
  have "verify_descriptor_signature sample_registry (model_dump sample_registry sample_descriptor) = Inr True"
    by (simp add: verify_descriptor_signature_def fields key sig sample_registry_def [THEN arg_cong, of has_nacl]
        sample_registry_def [THEN arg_cong, of nacl_verify])
  moreover have "descriptor_valid sample_descriptor"
    by (simp add: descriptor_valid_def sample_descriptor_def unsigned_descriptor_def did_re_def ws_re_def country_re_def
        jurisdiction_re_def at_end_def startswith_def drop_prefix_def did_char_def upper_char_AZ_def)
  ultimately show ?thesis by (simp add: accepted_descriptor_def)
qed

definition sample_rows :: coordinators where
  "sample_rows = [fresh_row sample_registry sample_descriptor]"

lemma sample_registered: "registered sample_registry sample_rows"
proof -
  have "registry_step sample_registry (Register sample_descriptor) [] = sample_rows"
    using sample_accepted_descriptor by (simp add: register_coordinator_def accepted_descriptor_def sample_rows_def)
  with registered.step [OF registered.empty, of sample_registry "Register sample_descriptor"] show ?thesis by simp
qed

subsection \<open>Properties\<close>

lemma dump_fields:
  "str_field ''public_key_multibase'' (model_dump N d) = co_public_key_multibase d"
  "str_field ''signature'' (model_dump N d) = co_signature d"
  "map_of (model_dump N d) ''public_key_multibase'' = Some (JStr (co_public_key_multibase d))"
  by (simp_all add: str_field_def model_dump_def)

text \<open>With PyNaCl an accepted descriptor is signed under its own key; without it none is checked.\<close>

lemma accepted_signed:
  assumes "accepted_descriptor N d" "has_nacl N"
  shows "\<exists>pk sig. decode_multibase_pubkey (co_public_key_multibase d) = Inr pk \<and> length pk = 32 \<and>
    urlsafe_b64decode (co_signature d @ ''=='') = Some sig \<and>
    nacl_verify N pk (canonicalise_for_signing N (model_dump N d)) sig = Inr True"
  using assms by (auto simp: accepted_descriptor_def verify_descriptor_signature_def dump_fields Let_def
      split: sum.splits if_splits option.splits)

lemma unchecked_without_nacl: "\<not> has_nacl N \<Longrightarrow> accepted_descriptor N d \<longleftrightarrow> descriptor_valid d"
  by (simp add: accepted_descriptor_def verify_descriptor_signature_def)

text \<open>The descriptor a row shows names the row's key.\<close>

lemma shown_key:
  assumes "registered N s" "row_get cr_did s did = Some r"
  shows "map_of (cr_descriptor_json r) ''public_key_multibase'' = Some (JStr (cr_public_key_multibase r))"
  using registered_inv [OF assms(1)] row_get_Some [OF assms(2)]
  by (auto simp: registry_inv_def row_of_def fresh_row_def dump_fields)

text \<open>
  The descriptor the registry shows is all a deletion asks for: the body of a GET, sent back as
  the body of a DELETE, removes the entry, whoever sends it. A signature does not say what it was made for.
\<close>

lemma shown_descriptor_deletes:
  assumes "registered N s" "row_get cr_did s did = Some r"
  shows "\<exists>d. get_coordinator did s = Some (model_dump N d) \<and> delete_coordinator N did d s = (NoContent, filter (\<lambda>x. cr_did x \<noteq> did) s)"
proof -
  from registered_inv [OF assms(1)] row_get_Some [OF assms(2)] obtain d where
    "accepted_descriptor N d" "row_of N d r" "cr_did r = did" by (auto simp: registry_inv_def)
  with assms(2) show ?thesis
    by (intro exI [of _ d]) (auto simp: get_coordinator_def delete_coordinator_def accepted_descriptor_def row_of_def fresh_row_def)
qed

text \<open>
  C39: Every row of the registry is backed by a signature: after any sequence of registrations,
  deletions and probes, the DIDs are distinct, and each row shows a valid descriptor that,
  with PyNaCl installed, is signed under the 32-byte key its own multibase field decodes to;
  the row's columns are the descriptor's.
\<close>

theorem rows_are_signed:
  assumes "registered N s" "has_nacl N" "r \<in> set s"
  shows "distinct (map cr_did s) \<and> (\<exists>d pk sig. descriptor_valid d \<and> cr_did r = co_did d \<and> cr_descriptor_json r = model_dump N d \<and>
    cr_public_key_multibase r = co_public_key_multibase d \<and> cr_conformance_level r = co_conformance_level d \<and>
    decode_multibase_pubkey (cr_public_key_multibase r) = Inr pk \<and> length pk = 32 \<and>
    urlsafe_b64decode (co_signature d @ ''=='') = Some sig \<and>
    nacl_verify N pk (canonicalise_for_signing N (model_dump N d)) sig = Inr True)"
proof -
  from registered_inv [OF assms(1)] assms(3) obtain d where
    d: "distinct (map cr_did s)" "accepted_descriptor N d" "row_of N d r"
    by (auto simp: registry_inv_def)
  with accepted_signed [OF d(2) assms(2)] show ?thesis by (auto simp: row_of_def accepted_descriptor_def fresh_row_def)
qed

theorem rows_are_signed_witness:
  "\<exists>pk. decode_multibase_pubkey (cr_public_key_multibase (hd sample_rows)) = Inr pk \<and> length pk = 32"
  using rows_are_signed [OF sample_registered, of "hd sample_rows"]
  by (auto simp: sample_rows_def sample_registry_def [THEN arg_cong, of has_nacl])

text \<open>
  C40: With PyNaCl installed the key of an entry is pinned: whatever request comes, the entry stays with
  its public key, and the descriptor it shows names that same key, or it is gone because of a deletion whose
  descriptor names the same DID and carries the same key, 32 bytes under which it is signed.
\<close>

theorem key_is_pinned:
  assumes "registered N s" "has_nacl N" "row_get cr_did s did = Some r"
  shows "(\<exists>r'. row_get cr_did (registry_step N ev s) did = Some r' \<and> cr_public_key_multibase r' = cr_public_key_multibase r \<and>
      map_of (cr_descriptor_json r') ''public_key_multibase'' = Some (JStr (cr_public_key_multibase r))) \<or>
    row_get cr_did (registry_step N ev s) did = None \<and>
    (\<exists>d pk sig. ev = Delete did d \<and> co_did d = did \<and> co_public_key_multibase d = cr_public_key_multibase r \<and>
      decode_multibase_pubkey (cr_public_key_multibase r) = Inr pk \<and> length pk = 32 \<and>
      urlsafe_b64decode (co_signature d @ ''=='') = Some sig \<and>
      nacl_verify N pk (canonicalise_for_signing N (model_dump N d)) sig = Inr True)"
proof -
  have shown: "map_of (cr_descriptor_json r') ''public_key_multibase'' = Some (JStr (cr_public_key_multibase r'))"
    if "row_get cr_did (registry_step N ev s) did = Some r'" for r'
    using shown_key [OF registered.step [OF assms(1)] that] .
  have "(\<exists>r'. row_get cr_did (registry_step N ev s) did = Some r' \<and> cr_public_key_multibase r' = cr_public_key_multibase r) \<or>
    row_get cr_did (registry_step N ev s) did = None \<and>
    (\<exists>d. ev = Delete did d \<and> accepted_descriptor N d \<and> co_did d = did \<and> co_public_key_multibase d = cr_public_key_multibase r)"
  proof (cases ev)
    case (Register d)
    show ?thesis
      using register_cases [of N d s] assms(3)
      by (auto simp: Register row_get_append row_update_get)
  next
    case (Delete did' d)
    show ?thesis
      using delete_cases [of N did' d s] assms(3) by (cases "did = did'") (auto simp: Delete row_get_filter)
  next
    case (Probe alive now)
    have "row_get cr_did (probe_pass alive now s) did =
        map_option (\<lambda>r. if alive (cr_endpoint r) then r\<lparr>cr_last_seen_alive_at := Some now\<rparr> else r) (row_get cr_did s did)"
      by (induction s) (auto simp: probe_pass_def)
    with assms(3) show ?thesis by (auto simp: Probe)
  qed
  with shown accepted_signed [OF _ assms(2)] show ?thesis by fastforce
qed

text \<open>A registration under another key leaves the entry and the descriptor it shows as they were.\<close>

theorem key_is_pinned_witness:
  "\<exists>r'. row_get cr_did (registry_step sample_registry (Register (unsigned_descriptor\<lparr>co_public_key_multibase := ''z''\<rparr>)) sample_rows) ''did:wcp:c'' =
       Some r' \<and> map_of (cr_descriptor_json r') ''public_key_multibase'' = Some (JStr (CHR ''z'' # b58encode (sample_key (CHR ''c''))))"
proof -
  have "row_get cr_did sample_rows ''did:wcp:c'' = Some (fresh_row sample_registry sample_descriptor)"
    "cr_public_key_multibase (fresh_row sample_registry sample_descriptor) = CHR ''z'' # b58encode (sample_key (CHR ''c''))"
    by (simp_all add: sample_rows_def fresh_row_def sample_descriptor_def unsigned_descriptor_def)
  with key_is_pinned [OF sample_registered _ this(1), of "Register (unsigned_descriptor\<lparr>co_public_key_multibase := ''z''\<rparr>)"]
  show ?thesis by (auto simp: sample_registry_def [THEN arg_cong, of has_nacl])
qed

text \<open>
  A coordinator whose public key starts with a zero byte can never register under the multibase
  form of its key: the decoder drops leading zeros, the key comes out shorter than 32 bytes
  and the registration is refused, whatever its signature.
\<close>

theorem zero_led_key_refused:
  assumes "has_nacl N" "length pk = 32" "hd pk = CHR 0x00" "co_public_key_multibase d = CHR ''z'' # b58encode pk" "descriptor_valid d"
  shows "register_coordinator N d s = (HttpError 400 ''signature verification failed'', s)"
proof -
  have "b58_value 0 (b58encode pk) = Inr (from_bytes pk)" using from_bytes_decode [OF b58decode_encode] .
  then have dec: "decode_multibase_pubkey (co_public_key_multibase d) =
      Inr (if from_bytes pk \<noteq> 0 then to_bytes ((bit_length (from_bytes pk) + 7) div 8) (from_bytes pk) else [])"
    by (simp add: assms(4) decode_multibase_pubkey_def startswith_def drop_prefix_def)
  obtain rest where pk: "pk = CHR 0x00 # rest" using assms(2,3) by (cases pk) auto
  have "from_bytes pk = from_bytes rest"
    using undigits_replicate_0 [of 256 1 "map of_char rest"] by (simp add: pk from_bytes_def)
  also have "\<dots> < 256 ^ 31" using from_bytes_less [of rest] assms(2) by (simp add: pk)
  finally have "from_bytes pk < 256 ^ 31" .
  then have "length (digits 256 (from_bytes pk)) \<le> 31" by (rule digits_length [rotated]) simp
  with to_bytes_minimal [of "from_bytes pk"] have "length (if from_bytes pk \<noteq> 0 then
      to_bytes ((bit_length (from_bytes pk) + 7) div 8) (from_bytes pk) else []) \<noteq> 32"
    by auto
  moreover have "str_field ''public_key_multibase'' (model_dump N d) = co_public_key_multibase d"
    by (simp add: str_field_def model_dump_def)
  ultimately have "verify_descriptor_signature N (model_dump N d) = Inr False"
    using dec assms(1) by (simp add: verify_descriptor_signature_def)
  with assms(5) show ?thesis by (simp add: register_coordinator_def sig_failed_def)
qed

theorem zero_led_key_refused_witness:
  "register_coordinator sample_registry
     (sample_descriptor\<lparr>co_public_key_multibase := CHR ''z'' # b58encode (CHR 0x00 # replicate 31 (CHR ''k''))\<rparr>) [] =
   (HttpError 400 ''signature verification failed'', [])"
proof (rule zero_led_key_refused)
  show "has_nacl sample_registry" by (simp add: sample_registry_def)
  show "descriptor_valid (sample_descriptor\<lparr>co_public_key_multibase := CHR ''z'' # b58encode (CHR 0x00 # replicate 31 (CHR ''k''))\<rparr>)"
    using sample_accepted_descriptor by (simp add: accepted_descriptor_def descriptor_valid_def)
qed simp_all

end
