(* ===== verification/Robot_Worker.thy ===== *)
theory Robot_Worker
  imports Sdk
begin

text \<open>
  \<open>wcp_worker/\<close>: the robot worker plugin. Its identity (\<open>identity.py\<close>), the collector of evidence
  (\<open>attestation_collector.py\<close>), its JSON-RPC client (\<open>rpc_client.py\<close>), the executor that drives a
  claimed task (\<open>task_executor.py\<close>), the navigation adapter (\<open>nav_adapter.py\<close>), the capability
  publisher, the supervision bridge and the active phase of the node (\<open>plugin.py\<close>).

  The executor runs against the coordinator's WebSocket endpoint, which is part of the state:
  each call is a message served by \<open>ws_message\<close> and answered through the reader. The
  heartbeat loop runs beside the executor. Its beats reach the coordinator between the
  executor's own calls in an order the event loop decides, so the state carries a schedule,
  the number of beats that get in before each call, and the theorems hold for every one.

  The robot's clock is a function from the number of earlier readings to microseconds since
  the epoch. ROS 2 is not part of the program: what a navigation goal ends in is an argument.
\<close>

subsection \<open>Identity\<close>

record worker_identity =
  wi_did :: string
  wi_pubkey_bytes :: bytes
  wi_key :: bytes

definition worker_b58encode :: "bytes \<Rightarrow> string" where
  "worker_b58encode b =
     (let out = b58_loop (from_bytes b) []; pad = length b - length (dropWhile (\<lambda>c. c = CHR 0x00) b)
      in replicate pad (CHR ''1'') @ out)"

definition worker_identity_of :: "env \<Rightarrow> bytes \<Rightarrow> worker_identity" where
  "worker_identity_of E sk =
     (let pub = ed25519_pub E sk
      in \<lparr>wi_did = ''did:wcp:'' @ worker_b58encode pub, wi_pubkey_bytes = pub, wi_key = sk\<rparr>)"

text \<open>
  The key file is absent or holds raw bytes; a new key is the argument \<open>generated\<close>. Reading a
  private key of another length than 32 raises \<open>ValueError\<close>.
\<close>

definition load_or_generate :: "env \<Rightarrow> bytes \<Rightarrow> bytes option \<Rightarrow> worker_identity res \<times> bytes option" where
  "load_or_generate E generated key_file =
     (case key_file of
        Some raw \<Rightarrow>
          (if length raw \<noteq> 32 then Inl (ValueError ''An Ed25519 private key is 32 bytes long'')
           else Inr (worker_identity_of E raw), key_file)
      | None \<Rightarrow> (Inr (worker_identity_of E generated), Some generated))"

definition public_key_b64url :: "worker_identity \<Rightarrow> string" where
  "public_key_b64url i = urlsafe_b64nopad (wi_pubkey_bytes i)"

definition worker_sign :: "env \<Rightarrow> worker_identity \<Rightarrow> json \<Rightarrow> string" where
  "worker_sign E i payload = ''ed25519:'' @ urlsafe_b64nopad (ed25519_sign E (wi_key i) (canon E payload))"

subsection \<open>Evidence\<close>

definition wrap_evidence ::
  "env \<Rightarrow> worker_identity \<Rightarrow> datetime \<Rightarrow> string \<Rightarrow> string \<Rightarrow> params \<Rightarrow> string \<Rightarrow> params" where
  "wrap_evidence E i now mode kind payload claim_id =
     (let collected_at = isoformat E now;
          payload_hash = sha256_hex E (canon E (JDict payload));
          canonical = JDict [(''mode'', JStr mode), (''kind'', JStr kind), (''payload_hash'', JStr payload_hash),
            (''worker_id'', JStr (wi_did i)), (''claim_id'', JStr claim_id), (''collected_at'', JStr collected_at)];
          sig = worker_sign E i canonical
      in [(''schema_version'', JStr ''wcp/0.1''), (''mode'', JStr mode), (''kind'', JStr kind),
          (''payload'', JDict payload), (''payload_hash'', JStr payload_hash), (''sig'', JStr sig),
          (''worker_id'', JStr (wi_did i)), (''claim_id'', JStr claim_id), (''collected_at'', JStr collected_at)])"

definition indoor_pose_track :: "env \<Rightarrow> worker_identity \<Rightarrow> datetime \<Rightarrow> string \<Rightarrow> json list \<Rightarrow> params" where
  "indoor_pose_track E i now claim_id track =
     wrap_evidence E i now ''sensor-witness'' ''indoor_pose_track'' [(''track'', JList track)] claim_id"

definition signed_sensor_recording :: "env \<Rightarrow> worker_identity \<Rightarrow> datetime \<Rightarrow> string \<Rightarrow> bytes \<Rightarrow> int \<Rightarrow> params" where
  "signed_sensor_recording E i now claim_id recording_bytes duration_seconds =
     wrap_evidence E i now ''sensor-witness'' ''signed_sensor_recording''
       [(''recording_hash'', JStr (sha256_hex E recording_bytes)), (''duration_seconds'', JInt duration_seconds)] claim_id"

definition photo_with_exif :: "env \<Rightarrow> worker_identity \<Rightarrow> datetime \<Rightarrow> string \<Rightarrow> bytes \<Rightarrow> params \<Rightarrow> params" where
  "photo_with_exif E i now claim_id photo_bytes exif =
     wrap_evidence E i now ''sensor-witness'' ''photo_with_exif''
       [(''photo_hash'', JStr (sha256_hex E photo_bytes)), (''exif'', JDict exif)] claim_id"

definition pose_bounded_presence_proof ::
  "env \<Rightarrow> worker_identity \<Rightarrow> datetime \<Rightarrow> string \<Rightarrow> datetime \<Rightarrow> datetime \<Rightarrow> json \<Rightarrow> params" where
  "pose_bounded_presence_proof E i now claim_id check_in_at check_out_at region =
     wrap_evidence E i now ''cryptographic-presence'' ''pose_bounded_presence_proof''
       [(''check_in_at'', JStr (isoformat E check_in_at)), (''check_out_at'', JStr (isoformat E check_out_at)),
        (''region'', region)] claim_id"

definition customer_signature :: "env \<Rightarrow> worker_identity \<Rightarrow> datetime \<Rightarrow> string \<Rightarrow> string \<Rightarrow> bytes \<Rightarrow> params" where
  "customer_signature E i now claim_id signed_text signature_image_bytes =
     wrap_evidence E i now ''third-party-witness'' ''customer_signature''
       [(''signed_text'', JStr signed_text), (''signature_image_hash'', JStr (sha256_hex E signature_image_bytes))] claim_id"

subsection \<open>Calls to the coordinator\<close>

text \<open>
  What a coroutine of the plugin can end in besides returning: the error reply of a call, a
  task type the executor does not have, an exception of Python's own, or a future that is
  never resolved.
\<close>

datatype robot_exc = WcpRpcError json json json | NotImplementedError json | Python py_exc | NeverResolved

record robot =
  ro_client :: rpc_client
  ro_coordinator :: db
  ro_now :: nat
  ro_schedule :: "nat list"

type_synonym 'a robot_run = "robot \<Rightarrow> (robot_exc + 'a) \<times> robot"

definition bindR :: "'a robot_run \<Rightarrow> ('a \<Rightarrow> 'b robot_run) \<Rightarrow> 'b robot_run" where
  "bindR m f r = (case m r of (Inl e, t) \<Rightarrow> (Inl e, t) | (Inr x, t) \<Rightarrow> f x t)"

definition retR :: "'a \<Rightarrow> 'a robot_run" where
  "retR x r = (Inr x, r)"

definition liftR :: "'a res \<Rightarrow> 'a robot_run" where
  "liftR m r = (case m of Inl e \<Rightarrow> (Inl (Python e), r) | Inr x \<Rightarrow> (Inr x, r))"

text \<open>\<open>datetime.now(timezone.utc)\<close> on the robot.\<close>

definition robot_now :: "(nat \<Rightarrow> int) \<Rightarrow> datetime robot_run" where
  "robot_now C r = (Inr (Aware (C (ro_now r)) 0), r\<lparr>ro_now := Suc (ro_now r)\<rparr>)"

text \<open>
  \<open>call\<close> and the turn of \<open>_reader_loop\<close> that answers it. The plugin's client is the SDK's, less
  the connecting on demand.
\<close>

definition robot_call :: "env \<Rightarrow> rpc_call \<Rightarrow> json robot_run" where
  "robot_call E c r =
     (let (req, c1) = client_call (fst c) (snd c) (ro_client r);
          (answer, s) = ws_message E (Some (JDict req)) (ro_coordinator r)
      in case answer of
           Close \<Rightarrow> (Inl NeverResolved, r\<lparr>ro_client := c1, ro_coordinator := s\<rparr>)
         | Send data \<Rightarrow>
             (case reader_step (Some data) c1 of
                (Inr (Some (i, reply)), c2) \<Rightarrow>
                  (if i = rc_next_id (ro_client r) then
                     (case reply of Resolved v \<Rightarrow> Inr v | Failed code msg dat \<Rightarrow> Inl (WcpRpcError code msg dat))
                   else Inl NeverResolved,
                   r\<lparr>ro_client := c2, ro_coordinator := s\<rparr>)
              | (_, c2) \<Rightarrow> (Inl NeverResolved, r\<lparr>ro_client := c2, ro_coordinator := s\<rparr>)))"

subsection \<open>The executor\<close>

text \<open>\<open>_emit_event\<close>, less the sending.\<close>

definition event_call :: "env \<Rightarrow> worker_identity \<Rightarrow> datetime \<Rightarrow> string \<Rightarrow> string \<Rightarrow> params \<Rightarrow> rpc_call" where
  "event_call E i now claim_id event_type payload =
     (let ts = isoformat E now;
          sig = worker_sign E i (JDict [(''claim_id'', JStr claim_id), (''event_type'', JStr event_type),
            (''timestamp'', JStr ts), (''payload'', JDict payload)])
      in (''tasks/execute.event'',
          [(''claim_id'', JStr claim_id), (''event_type'', JStr event_type), (''timestamp'', JStr ts),
           (''payload'', JDict payload), (''sig'', JStr sig)]))"

text \<open>One turn of \<open>_heartbeat_loop\<close>; a failed beat is logged.\<close>

definition beat :: "env \<Rightarrow> (nat \<Rightarrow> int) \<Rightarrow> worker_identity \<Rightarrow> string \<Rightarrow> robot \<Rightarrow> robot" where
  "beat E C i claim_id r =
     snd (bindR (robot_now C) (\<lambda>ts.
       robot_call E (event_call E i ts claim_id ''heartbeat'' [(''claim_id'', JStr claim_id)])) r)"

text \<open>The beats that get in before the executor's next call.\<close>

definition beats_now :: "(robot \<Rightarrow> robot) \<Rightarrow> robot \<Rightarrow> robot" where
  "beats_now B r =
     (case ro_schedule r of
        [] \<Rightarrow> r
      | k # ks \<Rightarrow> (B ^^ k) (r\<lparr>ro_schedule := ks\<rparr>))"

definition await_call :: "env \<Rightarrow> (nat \<Rightarrow> int) \<Rightarrow> worker_identity \<Rightarrow> string \<Rightarrow> rpc_call \<Rightarrow> json robot_run" where
  "await_call E C i claim_id c r = robot_call E c (beats_now (beat E C i claim_id) r)"

definition robot_emit_event ::
  "env \<Rightarrow> (nat \<Rightarrow> int) \<Rightarrow> worker_identity \<Rightarrow> string \<Rightarrow> string \<Rightarrow> params \<Rightarrow> unit robot_run" where
  "robot_emit_event E C i claim_id event_type payload =
     bindR (robot_now C) (\<lambda>ts.
     bindR (await_call E C i claim_id (event_call E i ts claim_id event_type payload)) (\<lambda>_. retR ()))"

text \<open>
  What \<open>navigate_to_pose\<close> gets from Nav2: no action client (the simulation), or whether the
  goal was accepted and the status of its result.
\<close>

datatype nav_answer = NoActionClient | Goal bool int

fun navigate_to_pose :: "nav_answer \<Rightarrow> bool" where
  "navigate_to_pose NoActionClient = True"
| "navigate_to_pose (Goal accepted status) = (if \<not> accepted then False else status = 4)"

definition pose_of :: "json \<Rightarrow> string \<Rightarrow> json res" where
  "pose_of payload place =
     bindE (j_get payload place (JDict [])) (\<lambda>p. j_get p ''pose'' (JList [JFloat 0, JFloat 0, JFloat 0]))"

definition track_sample :: "env \<Rightarrow> (nat \<Rightarrow> int) \<Rightarrow> json \<Rightarrow> json robot_run" where
  "track_sample E C pose =
     bindR (robot_now C) (\<lambda>t.
     bindR (liftR (j_nth pose 0)) (\<lambda>x.
     bindR (liftR (j_nth pose 1)) (\<lambda>y.
     retR (JDict [(''t'', JStr (isoformat E t)), (''x'', x), (''y'', y)]))))"

definition run_transport ::
  "env \<Rightarrow> (nat \<Rightarrow> int) \<Rightarrow> worker_identity \<Rightarrow> nav_answer \<Rightarrow> string \<Rightarrow> json \<Rightarrow> params list robot_run" where
  "run_transport E C i nav claim_id payload =
     bindR (liftR (pose_of payload ''pickup'')) (\<lambda>pickup.
     bindR (liftR (pose_of payload ''dropoff'')) (\<lambda>dropoff.
     bindR (robot_emit_event E C i claim_id ''picked_up'' [(''pose'', pickup)]) (\<lambda>_.
     bindR (track_sample E C pickup) (\<lambda>start.
     bindR (liftR (bindE (j_nth dropoff 0) (\<lambda>x. bindE (j_nth dropoff 1) (\<lambda>y. Inr (x, y))))) (\<lambda>_.
     bindR (if \<not> navigate_to_pose nav then
              robot_emit_event E C i claim_id ''nav_failed'' [(''target'', dropoff)]
            else retR ()) (\<lambda>_.
     bindR (track_sample E C dropoff) (\<lambda>arrival.
     bindR (robot_emit_event E C i claim_id ''arrived_at_dropoff'' [(''pose'', dropoff)]) (\<lambda>_.
     bindR (robot_now C) (\<lambda>now.
     retR [indoor_pose_track E i now claim_id [start, arrival]])))))))))"

text \<open>
  Adding minutes to a time; outside the years 1 to 9999 Python raises \<open>OverflowError\<close>, which
  the executor swallows.
\<close>

definition datetime_us :: "int \<Rightarrow> bool" where
  "datetime_us t \<longleftrightarrow> - 62135596800000000 \<le> t \<and> t \<le> 253402300799999999"

definition check_out_time :: "int \<Rightarrow> int \<Rightarrow> int" where
  "check_out_time check_in duration_minutes =
     (if datetime_us (check_in + duration_minutes * 60000000) then check_in + duration_minutes * 60000000
      else check_in)"

definition run_scheduled_presence ::
  "env \<Rightarrow> (nat \<Rightarrow> int) \<Rightarrow> worker_identity \<Rightarrow> string \<Rightarrow> json \<Rightarrow> params list robot_run" where
  "run_scheduled_presence E C i claim_id payload =
     bindR (liftR (bindE (j_get payload ''duration_minutes'' (JInt 1)) py_int)) (\<lambda>duration_minutes.
     bindR (robot_now C) (\<lambda>check_in.
     let check_out = Aware (check_out_time (utc_us check_in) duration_minutes) 0 in
     bindR (liftR (j_get payload ''region'' (JDict [(''polygon'', JList
       [JList [JInt 0, JInt 0], JList [JInt 10, JInt 0], JList [JInt 10, JInt 10], JList [JInt 0, JInt 10]])]))) (\<lambda>region.
     bindR (robot_now C) (\<lambda>now.
     retR [pose_bounded_presence_proof E i now claim_id check_in check_out region]))))"

definition run_observe ::
  "env \<Rightarrow> (nat \<Rightarrow> int) \<Rightarrow> worker_identity \<Rightarrow> string \<Rightarrow> json \<Rightarrow> params list robot_run" where
  "run_observe E C i claim_id payload =
     bindR (liftR (bindE (j_get payload ''duration_seconds'' (JInt 30)) py_int)) (\<lambda>duration_seconds.
     bindR (robot_now C) (\<lambda>now.
     retR [signed_sensor_recording E i now claim_id ''stub-recording'' duration_seconds]))"

text \<open>
  \<open>execute\<close>. The heartbeat loop starts after the first call and is cancelled when the coroutine
  ends, so beats get in before every later call and while the reply to the last one is
  awaited.
\<close>

definition robot_execute ::
  "env \<Rightarrow> (nat \<Rightarrow> int) \<Rightarrow> worker_identity \<Rightarrow> nav_answer \<Rightarrow> string \<Rightarrow> params \<Rightarrow> json robot_run" where
  "robot_execute E C i nav claim_id task =
     bindR (robot_call E (''tasks/execute'', [(''claim_id'', JStr claim_id)])) (\<lambda>_.
     let descriptor_type = arg ''descriptor_type'' task;
         payload = (case map_of task ''descriptor_payload'' of Some v \<Rightarrow> v | None \<Rightarrow> JDict [])
     in
     bindR (if descriptor_type = JStr ''transport'' then run_transport E C i nav claim_id payload
            else if descriptor_type = JStr ''scheduled_presence'' then run_scheduled_presence E C i claim_id payload
            else if descriptor_type = JStr ''observe_and_report'' then run_observe E C i claim_id payload
            else (\<lambda>r. (Inl (NotImplementedError descriptor_type), r))) (\<lambda>evidence.
     bindR (await_call E C i claim_id (''tasks/attest'',
       [(''claim_id'', JStr claim_id), (''attestations'', JList (map JDict evidence))])) (\<lambda>decision r.
     (Inr decision, beats_now (beat E C i claim_id) r))))"

subsection \<open>Capabilities, supervision, the active node\<close>

record publisher =
  p_principal_id :: string
  p_venue_id :: string
  p_map_id :: string
  p_kinematics :: params
  p_payload_specs :: params
  p_end_effectors :: "json list"
  p_environment :: params

definition build_descriptor :: "env \<Rightarrow> worker_identity \<Rightarrow> datetime \<Rightarrow> publisher \<Rightarrow> params" where
  "build_descriptor E i now p =
     [(''schema_version'', JStr ''wcp/0.1''), (''worker_id'', JStr (wi_did i)),
      (''principal_id'', JStr (p_principal_id p)), (''class'', JStr ''autonomous_robot''),
      (''required'', JDict
         [(''current_location'', JDict [(''venue_id'', JStr (p_venue_id p)), (''map_id'', JStr (p_map_id p))]),
          (''available_windows'', JList [JDict [(''rrule'', JStr ''FREQ=DAILY''), (''timezone'', JStr ''Asia/Singapore'')]]),
          (''attestation_methods_supported'', JList [JStr ''sensor-witness'', JStr ''third-party-witness'',
             JStr ''cryptographic-presence'']),
          (''certifications'', JList []),
          (''policy_windows'', JList [JDict [(''type'', JStr ''geographic''), (''scope'', JStr ''Singapore'')]]),
          (''attestation_keys'', JList [JDict [(''kty'', JStr ''OKP''), (''crv'', JStr ''Ed25519''),
             (''x'', JStr (public_key_b64url i))]]),
          (''as_of'', JStr (isoformat E now))]),
      (''class_extension'', JDict
         [(''kinematics'', JDict (p_kinematics p)), (''payload'', JDict (p_payload_specs p)),
          (''end_effectors'', JList (p_end_effectors p)), (''environment'', JDict (p_environment p))])]"

definition robot_publish :: "env \<Rightarrow> (nat \<Rightarrow> int) \<Rightarrow> worker_identity \<Rightarrow> publisher \<Rightarrow> unit robot_run" where
  "robot_publish E C i p =
     bindR (robot_now C) (\<lambda>now.
     bindR (robot_call E (''capabilities/list'',
       [(''worker_id'', JStr (wi_did i)), (''capabilities'', JDict (build_descriptor E i now p))])) (\<lambda>_. retR ()))"

definition request_supervisor ::
  "env \<Rightarrow> (nat \<Rightarrow> int) \<Rightarrow> worker_identity \<Rightarrow> string \<Rightarrow> string \<Rightarrow> string \<Rightarrow> params \<Rightarrow> json robot_run" where
  "request_supervisor E C i claim_id handoff_reason urgency state_snapshot =
     bindR (robot_now C) (\<lambda>ts.
     let signed = [(''claim_id'', JStr claim_id), (''state_snapshot'', JDict state_snapshot),
           (''snapshot_at'', JStr (isoformat E ts))];
         signed = dict_set ''sig'' (JStr (worker_sign E i (JDict signed))) signed
     in robot_call E (''tasks/supervise'',
          [(''claim_id'', JStr claim_id), (''handoff_reason'', JStr handoff_reason),
           (''state_snapshot'', JDict signed), (''urgency'', JStr urgency)]))"

text \<open>
  \<open>_run_active\<close> once connected, with the parameters of the node: it publishes and then idles for
  ever. The answer says whether it idles. The float literals are the doubles they denote: 1.4,
  0.6, 0.4 and 0.3.
\<close>

definition node_publisher :: "string \<Rightarrow> string \<Rightarrow> string \<Rightarrow> publisher" where
  "node_publisher principal_id venue_id map_id =
     \<lparr>p_principal_id = principal_id, p_venue_id = venue_id, p_map_id = map_id,
      p_kinematics = [(''locomotion'', JStr ''wheeled''), (''max_speed_mps'', JFloat (3152519739159347 / 2 ^ 51)),
        (''footprint_m'', JList [JFloat (5404319552844595 / 2 ^ 53), JFloat (3602879701896397 / 2 ^ 53)])],
      p_payload_specs = [(''max_kg'', JInt 5), (''max_dim_m'', JList [JFloat (3602879701896397 / 2 ^ 53), JFloat (3602879701896397 / 2 ^ 53), JFloat (5404319552844595 / 2 ^ 54)])],
      p_end_effectors = [JDict [(''class'', JStr ''tray''), (''rated_for'', JList [JStr ''solid_under_5kg''])]],
      p_environment = [(''indoor'', JBool True), (''ip_rating'', JStr ''IP54''),
        (''operating_temp_c'', JList [JInt 5, JInt 40])]\<rparr>"

definition run_active ::
  "env \<Rightarrow> (nat \<Rightarrow> int) \<Rightarrow> worker_identity \<Rightarrow> string \<Rightarrow> string \<Rightarrow> string \<Rightarrow> robot \<Rightarrow> bool \<times> robot" where
  "run_active E C i principal_id venue_id map_id r =
     (case robot_publish E C i (node_publisher principal_id venue_id map_id) r of
        (Inl _, t) \<Rightarrow> (False, t)
      | (Inr _, t) \<Rightarrow> (True, t))"

end
