(* ===== verification/Robot_Interop.thy ===== *)
theory Robot_Interop
  imports Robot_Worker Sdk_Interop
begin

text \<open>
  The robot worker against the coordinator: its signatures and its evidence are accepted, a run
  of the executor ends in the coordinator's decision under every schedule of heartbeats, and
  what the executor, the presence proof and the active phase do in the cases the code handles
  badly.
\<close>

subsection \<open>Calls\<close>


lemma robot_call_Result:
  assumes "client_inv (ro_client r)" "dispatch E (JStr (fst c)) (JDict (snd c)) (ro_coordinator r) = (Result v, t)" "fst (db_flush t) = Inr ()"
  shows "robot_call E c r = (Inr v, r\<lparr>ro_client := (ro_client r)\<lparr>rc_next_id := rc_next_id (ro_client r) + 1\<rparr>, ro_coordinator := t\<rparr>)"
  using assms client_reads(1) [OF assms(1), of v "fst c" "snd c"] ws_client_call [of E "fst c" "snd c" "ro_client r" "ro_coordinator r"]
  by (simp add: robot_call_def split_def db_commit_def)

lemma robot_call_RpcError:
  assumes "client_inv (ro_client r)" "dispatch E (JStr (fst c)) (JDict (snd c)) (ro_coordinator r) = (RpcError code msg, t)"
  shows "robot_call E c r = (Inl (WcpRpcError (JInt code) (JStr msg) JNull),
    r\<lparr>ro_client := (ro_client r)\<lparr>rc_next_id := rc_next_id (ro_client r) + 1\<rparr>, ro_coordinator := db_rollback (ro_coordinator r) t\<rparr>)"
  using assms client_reads(2) [OF assms(1), of code msg "fst c" "snd c"] ws_client_call [of E "fst c" "snd c" "ro_client r" "ro_coordinator r"]
  by (simp add: robot_call_def split_def)

lemma robot_call_Raised:
  assumes "client_inv (ro_client r)" "dispatch E (JStr (fst c)) (JDict (snd c)) (ro_coordinator r) = (Raised e, t)"
  shows "robot_call E c r = (Inl (WcpRpcError (JInt INTERNAL_ERROR)
      (JStr (''Internal error: '' @ exc_name e @ '': '' @ exc_message e)) JNull),
    r\<lparr>ro_client := (ro_client r)\<lparr>rc_next_id := rc_next_id (ro_client r) + 1\<rparr>, ro_coordinator := db_rollback (ro_coordinator r) t\<rparr>)"
  using assms client_reads(2) [OF assms(1), of _ _ "fst c" "snd c"] ws_client_call [of E "fst c" "snd c" "ro_client r" "ro_coordinator r"]
  by (simp add: robot_call_def split_def)


subsection \<open>Identity\<close>

lemma worker_b58: "worker_b58encode = b58encode"
proof -
  have "length b - length (dropWhile (\<lambda>c. c = CHR 0x00) b) = lead_count (CHR 0x00) b" for b
    by (induction b) (auto simp: lead_count_def Suc_diff_le length_dropWhile_le)
  then show ?thesis by (auto simp: fun_eq_iff worker_b58encode_def b58encode_def Let_def)
qed

lemma worker_identity_ok:
  assumes "length (ed25519_pub E sk) = 32"
  shows "did_resolve (wi_did (worker_identity_of E sk)) =
    Inr \<lparr>r_did = wi_did (worker_identity_of E sk), r_public_key = ed25519_pub E sk, r_path = None\<rparr>"
  using assms did_resolve_from_pubkey [of "ed25519_pub E sk"]
  by (simp add: worker_identity_of_def Let_def worker_b58 did_from_pubkey_def did_string_def)

lemma worker_sign_accepted:
  assumes "sig_correct E" "length (ed25519_pub E sk) = 32" "did_resolve (wi_did (worker_identity_of E sk)) = Inr rd"
  shows "did_verify E rd (canon E p) (worker_sign E (worker_identity_of E sk) p) = Inr ()"
proof -
  have "worker_sign E (worker_identity_of E sk) p = wire_sig (ed25519_sign E sk (canon E p))"
    by (simp add: worker_sign_def wire_sig_def sig_prefix_def worker_identity_of_def Let_def)
  with assms worker_identity_ok [OF assms(2)] show ?thesis by (auto simp: did_verify_wire sig_correct_def)
qed

subsection \<open>Heartbeats and events while a task executes\<close>

text \<open>The robot's client is in order and the coordinator holds its claim on the task.\<close>

definition robot_ready :: "env \<Rightarrow> worker_identity \<Rightarrow> string \<Rightarrow> wcp_task \<Rightarrow> robot \<Rightarrow> bool" where
  "robot_ready E i cid task r \<longleftrightarrow> client_inv (ro_client r) \<and> ids_fresh E (ro_coordinator r) \<and>
     list_all attestation_storable (attestations (ro_coordinator r)) \<and>
     (\<exists>c. c_worker_id c = wi_did i \<and> holds_rows cid c task (ro_coordinator r))"

lemma robot_ready_local [simp]:
  "robot_ready E i cid task (r\<lparr>ro_now := n\<rparr>) = robot_ready E i cid task r"
  "robot_ready E i cid task (r\<lparr>ro_schedule := k\<rparr>) = robot_ready E i cid task r"
  by (simp_all add: robot_ready_def)

text \<open>What the robot's environment is relied on for.\<close>

definition robot_env :: "env \<Rightarrow> (nat \<Rightarrow> int) \<Rightarrow> bytes \<Rightarrow> bool" where
  "robot_env E C sk \<longleftrightarrow> sig_correct E \<and> inj (uuid4 E) \<and> length (ed25519_pub E sk) = 32 \<and> (\<forall>n. datetime_us (C n)) \<and>
     (\<forall>t. datetime_us t \<longrightarrow> parse_iso E (isoformat E (Aware t 0)) = Inr (Aware t 0))"

lemma event_dispatch:
  "dispatch E (JStr (fst (event_call E i now cid et pl))) (JDict (snd (event_call E i now cid et pl))) s =
     (case execute_event E cid et (isoformat E now) (JDict pl)
        (worker_sign E i (event_json cid et (isoformat E now) (JDict pl))) s of
        (Inr v, t) \<Rightarrow> (Result v, t)
      | (Inl e, t) \<Rightarrow> (map_exception e, t))"
  by (simp add: event_call_def Let_def dispatch_def methods_def py_or_def rpc_tasks_execute_event_def check_kwargs_def str_arg_def
      arg_def event_json_def split: prod.splits sum.splits)


lemma robot_event:
  assumes env: "robot_env E C sk" "i = worker_identity_of E sk" "now = Aware n 0" "datetime_us n"
    and r: "robot_ready E i cid task r" "t_state task = EXECUTING"
  shows "\<exists>v r'. robot_call E (event_call E i now cid et pl) r = (Inr v, r') \<and> robot_ready E i cid task r' \<and>
    ro_now r' = ro_now r"
proof -
  from r(1) obtain c where c: "c_worker_id c = wi_did i" "holds_rows cid c task (ro_coordinator r)"
    by (auto simp: robot_ready_def)
  from env obtain rd where rd: "did_resolve (c_worker_id c) = Inr rd"
    using worker_identity_ok [of E sk] c(1) by (auto simp: robot_env_def)
  have sig: "did_verify E rd (canon E p) (worker_sign E i p) = Inr ()" for p
    using worker_sign_accepted [of E sk] env rd c(1) by (auto simp: robot_env_def)
  have iso: "parse_iso E (isoformat E now) = Inr now" using env by (simp add: robot_env_def)
  have f: "ids_fresh E (ro_coordinator r)" "inj (uuid4 E)" using r(1) env(1) by (simp_all add: robot_ready_def robot_env_def)
  from event_enabled [OF c(2) r(2) rd sig iso f, of et pl] obtain v t c' where
    t: "execute_event E cid et (isoformat E now) (JDict pl) (worker_sign E i (event_json cid et (isoformat E now) (JDict pl)))
        (ro_coordinator r) = (Inr v, t)"
      "c_worker_id c' = c_worker_id c" "holds_rows cid c' task t" "ids_fresh E t" "attestations t = attestations (ro_coordinator r)"
    by blast
  have "fst (db_flush t) = Inr ()" using r(1) t(5) by (simp add: robot_ready_def db_flush_def)
  with robot_call_Result [of r E "event_call E i now cid et pl" v t] r(1) t(1)
  have "robot_call E (event_call E i now cid et pl) r = (Inr v, r\<lparr>ro_client :=
      (ro_client r)\<lparr>rc_next_id := rc_next_id (ro_client r) + 1\<rparr>, ro_coordinator := t\<rparr>)"
    by (simp add: event_dispatch robot_ready_def)
  then show ?thesis using r(1) t c(1) client_inv_next by (auto simp: robot_ready_def)
qed

lemma beat_keeps_ready:
  assumes "robot_env E C sk" "i = worker_identity_of E sk" "robot_ready E i cid task r" "t_state task = EXECUTING"
  shows "robot_ready E i cid task (beat E C i cid r)"
  using robot_event [OF assms(1,2) refl, of "C (ro_now r)" cid task "r\<lparr>ro_now := Suc (ro_now r)\<rparr>" "''heartbeat''"
      "[(''claim_id'', JStr cid)]"] assms(1,3,4)
  by (auto simp: beat_def bindR_def robot_now_def robot_env_def)

lemma beats_keep:
  assumes "\<And>r. P r \<Longrightarrow> P (B r)" "\<And>r k. P (r\<lparr>ro_schedule := k\<rparr>) = P r" "P r"
  shows "P (beats_now B r)"
proof -
  have "P r \<Longrightarrow> P ((B ^^ n) r)" for n r by (induction n) (simp_all add: assms(1))
  then show ?thesis using assms(2,3) by (simp add: beats_now_def split: list.splits)
qed

lemma beats_keep_ready:
  assumes "robot_env E C sk" "i = worker_identity_of E sk" "t_state task = EXECUTING" "robot_ready E i cid task r"
  shows "robot_ready E i cid task (beats_now (beat E C i cid) r)"
  by (rule beats_keep [of "robot_ready E i cid task"]) (use assms beat_keeps_ready in auto)

lemma robot_emits:
  assumes "robot_env E C sk" "i = worker_identity_of E sk" "t_state task = EXECUTING" "robot_ready E i cid task r"
  shows "\<exists>r'. robot_emit_event E C i cid et pl r = (Inr (), r') \<and> robot_ready E i cid task r'"
proof -
  let ?r = "beats_now (beat E C i cid) (r\<lparr>ro_now := Suc (ro_now r)\<rparr>)"
  have "robot_ready E i cid task ?r" using beats_keep_ready [OF assms(1-3)] assms(4) by simp
  from robot_event [OF assms(1,2) refl _ this assms(3), of "C (ro_now r)" et pl] assms(1) show ?thesis
    by (auto simp: robot_env_def robot_emit_event_def await_call_def bindR_def robot_now_def retR_def)
qed

text \<open>A beat that comes after the task has left execution changes nothing at the coordinator.\<close>

lemma late_beat:
  assumes "holds_rows cid c task (ro_coordinator r)" "t_state task \<noteq> EXECUTING" "client_inv (ro_client r)"
  shows "ro_coordinator (beat E C i cid r) = ro_coordinator r \<and> client_inv (ro_client (beat E C i cid r))"
proof -
  let ?e = "TaskStateInvalid (''cannot accept execute event in state '' @ task_state_value (t_state task))"
  have "claim_and_task cid (ro_coordinator r) = (Inr (c, task), ro_coordinator r)" using assms(1) by (simp add: claim_and_task_ok)
  then have "execute_event E cid et ts pl sig (ro_coordinator r) = (Inl ?e, ro_coordinator r)" for et ts pl sig
    using assms(2) by (simp add: execute_event_def bindS_def)
  then have d: "dispatch E (JStr (fst (event_call E i now cid et pl))) (JDict (snd (event_call E i now cid et pl))) (ro_coordinator r) =
      (map_exception ?e, ro_coordinator r)" for now et pl
    by (simp add: event_dispatch)
  let ?c = "event_call E i (Aware (C (ro_now r)) 0) cid ''heartbeat'' [(''claim_id'', JStr cid)]"
  obtain code msg where "map_exception ?e = RpcError code msg" by simp
  with d have "dispatch E (JStr (fst ?c)) (JDict (snd ?c)) (ro_coordinator r) = (RpcError code msg, ro_coordinator r)" by simp
  with robot_call_RpcError [of "r\<lparr>ro_now := Suc (ro_now r)\<rparr>" E ?c code msg] assms(3) client_inv_next
  show ?thesis by (simp add: beat_def bindR_def robot_now_def db_rollback_def)
qed


lemma late_beats:
  assumes "holds_rows cid c task (ro_coordinator r)" "t_state task \<noteq> EXECUTING" "client_inv (ro_client r)"
  shows "ro_coordinator (beats_now (beat E C i cid) r) = ro_coordinator r"
proof -
  let ?P = "\<lambda>x. ro_coordinator x = ro_coordinator r \<and> client_inv (ro_client x)"
  have "?P (beats_now (beat E C i cid) r)"
    by (rule beats_keep [of ?P]) (use late_beat [of cid c task] assms in auto)
  then show ?thesis by simp
qed

lemma opens:
  assumes "robot_env E C sk" "robot_ready E i cid task r" "t_state task \<in> {CLAIMED, SUPERVISING}"
  shows "\<exists>v r'. robot_call E (''tasks/execute'', [(''claim_id'', JStr cid)]) r = (Inr v, r') \<and>
    robot_ready E i cid (task\<lparr>t_state := EXECUTING\<rparr>) r'"
proof -
  from assms(2) obtain c where c: "c_worker_id c = wi_did i" "holds_rows cid c task (ro_coordinator r)"
    and f: "ids_fresh E (ro_coordinator r)" by (auto simp: robot_ready_def)
  from open_enabled [OF c(2) assms(3) f] assms(1) obtain v t where
    t: "execute_open E cid (ro_coordinator r) = (Inr v, t)" "ids_fresh E t"
      "attestations t = attestations (ro_coordinator r)" "holds_rows cid c (task\<lparr>t_state := EXECUTING\<rparr>) t"
    by (auto simp: robot_env_def)
  have "dispatch E (JStr ''tasks/execute'') (JDict [(''claim_id'', JStr cid)]) (ro_coordinator r) = (Result v, t)"
    using t(1) by (simp add: dispatch_def methods_def py_or_def rpc_tasks_execute_open_def check_kwargs_def str_arg_def arg_def)
  with robot_call_Result [of r E "(''tasks/execute'', [(''claim_id'', JStr cid)])" v t] t assms(2) c client_inv_next
  show ?thesis by (auto simp: robot_ready_def db_flush_def)
qed

subsection \<open>Evidence\<close>

text \<open>One piece of evidence the collector wrapped, given to the coordinator.\<close>

lemma wrapped_stored:
  assumes env: "robot_env E C sk" "i = worker_identity_of E sk" "did_resolve (wi_did i) = Inr rd" 
    and ver: "verify_single E reg (JStr (attestation_mode_value mode)) (JStr kind) (JDict payload) tp = Inr out"
    and fresh: "ids_fresh E s" "datetime_us n" and stored: "list_all attestation_storable (attestations s)"
  shows "\<exists>t. attest_one E reg cid (wi_did i) rd tp
      (JDict (wrap_evidence E i (Aware n 0) (attestation_mode_value mode) kind payload cid)) s =
      (Inr (JStr (attestation_mode_value mode), out), t) \<and> ids_fresh E t \<and> list_all attestation_storable (attestations t)"
proof -
  have sig: "did_verify E rd (canon E p) (worker_sign E i p) = Inr ()" for p
    using worker_sign_accepted [of E sk] env by (auto simp: robot_env_def)
  have iso: "parse_iso E (isoformat E (Aware n 0)) = Inr (Aware n 0)" and inj: "inj (uuid4 E)"
    using env(1) fresh(2) by (simp_all add: robot_env_def)
  have "uuid4 E (n_uuid s) \<notin> e_attestation_id ` set (attestations s)" using fresh(1) by (simp add: ids_fresh_def)
  with ver iso stored sig show ?thesis
    by (simp add: attest_one_def wrap_evidence_def Let_def evidence_json_def
        store_attestation_def bindS_def access_defs row_add_def attestation_storable_def del: bindS_Inr)
      (use fresh inj in \<open>auto simp: ids_fresh_def inj_eq\<close>)
qed


text \<open>The task's own parameters of the verification.\<close>

definition task_req :: "params \<Rightarrow> json" where
  "task_req tj = (case map_of tj ''attestation_requirement'' of Some v \<Rightarrow> v | None \<Rightarrow> JDict [])"

definition task_payload :: "params \<Rightarrow> json" where
  "task_payload tj = (case map_of tj ''descriptor_payload'' of Some v \<Rightarrow> v | None \<Rightarrow> JDict [])"

definition robot_done :: "string \<Rightarrow> string \<Rightarrow> task_state \<Rightarrow> robot \<Rightarrow> bool" where
  "robot_done tid cid st r \<longleftrightarrow> client_inv (ro_client r) \<and>
     (\<exists>c t. holds_rows cid c t (ro_coordinator r) \<and> t_task_id t = tid \<and> t_state t = st)"

text \<open>From the verdicts of the evidence loop to the decision of \<open>tasks/attest\<close>.\<close>

lemma calls_attest:
  assumes env: "robot_env E C sk" "i = worker_identity_of E sk" "did_resolve (wi_did i) = Inr rd"
    and r: "robot_ready E i cid task r" "t_state task = EXECUTING"
    and json: "t_task_json task = JDict tj" "max_attempts_of task = Inr m"
    and loop: "mapS (attest_one E DEFAULT_REGISTRY cid (wi_did i) rd (task_payload tj)) evs (ro_coordinator r) = (Inr outs, u)"
      "ids_fresh E u" "list_all attestation_storable (attestations u)"
    and agg: "evaluate_threshold E (task_req tj) outs = Inr agg"
    and call: "call = (''tasks/attest'', [(''claim_id'', JStr cid), (''attestations'', JList evs)])"
  shows "\<exists>v r'. robot_call E call r = (Inr v, r') \<and>
    j_get v ''verifier_decision'' JNull = Inr (JStr (verifier_decision_value (vo_decision agg))) \<and>
    robot_done (t_task_id task) cid (next_state (vo_decision agg) (t_attestation_attempts_used task + 1) m) r'"
proof -
  let ?s = "ro_coordinator r"
  from r(1) obtain c where c: "c_worker_id c = wi_did i" "holds_rows cid c task ?s" and cl: "client_inv (ro_client r)"
    by (auto simp: robot_ready_def)
  have inj: "inj (uuid4 E)" using env(1) by (simp add: robot_env_def)
  note loop' = loop(1) [folded c(1), unfolded task_payload_def]
  from attest_enabled [OF c(2) _ json _ loop' agg [unfolded task_req_def] loop(3,2) inj] r(2) env(3) c(1)
  obtain v t where t: "task_attest E DEFAULT_REGISTRY cid evs ?s = (Inr v, t)"
      "j_get v ''verifier_decision'' JNull = Inr (JStr (verifier_decision_value (vo_decision agg)))" "attestations t = attestations u"
    by auto
  have "dispatch E (JStr (fst call)) (JDict (snd call)) ?s = (Result v, t)"
    using t(1) call by (simp add: dispatch_def methods_def py_or_def rpc_tasks_attest_def check_kwargs_def str_arg_def arg_def)
  with robot_call_Result [OF cl, of E call v t] t(3) loop(3)
  have "robot_call E call r = (Inr v, r\<lparr>ro_client := (ro_client r)\<lparr>rc_next_id := rc_next_id (ro_client r) + 1\<rparr>, ro_coordinator := t\<rparr>)"
    by (simp add: db_flush_def)
  moreover from attest_decision [OF t(1) c(2) t(2)] json(2) obtain t' where
    "t_task_id t' = t_task_id task" "holds_rows cid c t' t"
    "t_state t' = next_state (vo_decision agg) (t_attestation_attempts_used task + 1) m" by auto
  ultimately show ?thesis using t(2) client_inv_next [OF cl] unfolding robot_done_def by (simp, blast)
qed

lemma robot_attests:
  assumes env: "robot_env E C sk" "i = worker_identity_of E sk" 
    and r: "robot_ready E i cid task r" "t_state task = EXECUTING"
    and json: "t_task_json task = JDict tj" "max_attempts_of task = Inr m"
    and ver: "verify_single E DEFAULT_REGISTRY (JStr (attestation_mode_value mode)) (JStr kind) (JDict payload) (task_payload tj) = Inr out"
    and agg: "evaluate_threshold E (task_req tj) [(JStr (attestation_mode_value mode), out)] = Inr agg"
    and n: "datetime_us n"
    and c: "call = (''tasks/attest'', [(''claim_id'', JStr cid), (''attestations'', JList (map JDict
      [wrap_evidence E i (Aware n 0) (attestation_mode_value mode) kind payload cid]))])"
  shows "\<exists>v r'. robot_call E call r = (Inr v, r') \<and>
    j_get v ''verifier_decision'' JNull = Inr (JStr (verifier_decision_value (vo_decision agg))) \<and>
    robot_done (t_task_id task) cid (next_state (vo_decision agg) (t_attestation_attempts_used task + 1) m) r'"
proof -
  from env obtain rd where rd: "did_resolve (wi_did i) = Inr rd"
    using worker_identity_ok [of E sk] by (auto simp: robot_env_def)
  from wrapped_stored [OF env rd ver _ n, of "ro_coordinator r" cid] r(1) obtain u where
    u: "mapS (attest_one E DEFAULT_REGISTRY cid (wi_did i) rd (task_payload tj))
        (map JDict [wrap_evidence E i (Aware n 0) (attestation_mode_value mode) kind payload cid]) (ro_coordinator r) =
        (Inr [(JStr (attestation_mode_value mode), out)], u)" "ids_fresh E u" "list_all attestation_storable (attestations u)"
    by (auto simp: robot_ready_def bindS_def)
  from calls_attest [OF env rd r json u agg c] show ?thesis .
qed

subsection \<open>The transport run\<close>

lemma bindR_simps [simp]:
  "bindR (retR x) f r = f x r"
  "bindR (liftR (Inr y)) g r = g y r"
  "bindR (liftR (Inl e)) g r = (Inl (Python e), r)"
  "bindR (robot_now C) h r = h (Aware (C (ro_now r)) 0) (r\<lparr>ro_now := Suc (ro_now r)\<rparr>)"
  by (simp_all add: bindR_def retR_def liftR_def robot_now_def)

definition good_pose :: "json \<Rightarrow> bool" where
  "good_pose p \<longleftrightarrow> (\<exists>x y. j_nth p 0 = Inr x \<and> j_nth p 1 = Inr y)"

lemma track_sample_run:
  assumes "good_pose p"
  shows "\<exists>x y. j_nth p 0 = Inr x \<and> j_nth p 1 = Inr y \<and> (\<forall>r. track_sample E C p r =
    (Inr (JDict [(''t'', JStr (isoformat E (Aware (C (ro_now r)) 0))), (''x'', x), (''y'', y)]), r\<lparr>ro_now := Suc (ro_now r)\<rparr>))"
  using assms by (auto simp: good_pose_def track_sample_def retR_def)

definition track_point :: "json \<Rightarrow> bool" where
  "track_point j \<longleftrightarrow> (\<exists>t x y. j = JDict [(''t'', JStr t), (''x'', x), (''y'', y)])"

lemma track_passes:
  assumes "track_point a" "track_point b"
  shows "verify_single E DEFAULT_REGISTRY (JStr ''sensor-witness'') (JStr ''indoor_pose_track'') (JDict [(''track'', JList [a, b])]) tp =
    Inr pass_outcome"
  using assms dispatch_mode_value [of SENSOR_WITNESS]
  by (auto simp: track_point_def verify_single_def DEFAULT_REGISTRY_def registry_get_def kind_in_def sensor_witness_def
      need_fields_def)

lemma transport_runs:
  assumes env: "robot_env E C sk" "i = worker_identity_of E sk" "t_state task = EXECUTING"
    and pose: "pose_of payload ''pickup'' = Inr p" "pose_of payload ''dropoff'' = Inr q" "good_pose p" "good_pose q"
    and r: "robot_ready E i cid task r"
  shows "\<exists>a b n r'. datetime_us n \<and> run_transport E C i nav cid payload r = (Inr [indoor_pose_track E i (Aware n 0) cid [a, b]], r') \<and>
    track_point a \<and> track_point b \<and> robot_ready E i cid task r'"
proof -
  note emits = robot_emits [OF env, of cid]
  note sa = track_sample_run [OF pose(3), of E C] and sb = track_sample_run [OF pose(4), of E C]
  from emits [OF r, of "''picked_up''" "[(''pose'', p)]"] obtain r1 where
    r1: "robot_emit_event E C i cid ''picked_up'' [(''pose'', p)] r = (Inr (), r1)" "robot_ready E i cid task r1" by blast
  from sa obtain a r2 where r2: "track_sample E C p r1 = (Inr a, r2)" "track_point a" "robot_ready E i cid task r2"
    using r1(2) by (auto simp: track_point_def)
  obtain r3 where r3: "(if \<not> navigate_to_pose nav then robot_emit_event E C i cid ''nav_failed'' [(''target'', q)] else retR ()) r2 =
      (Inr (), r3)" "robot_ready E i cid task r3"
    using emits [OF r2(3), of "''nav_failed''" "[(''target'', q)]"] r2(3) by (cases "navigate_to_pose nav") (auto simp: retR_def)
  from sb obtain b r4 where r4: "track_sample E C q r3 = (Inr b, r4)" "track_point b" "robot_ready E i cid task r4"
    using r3(2) by (auto simp: track_point_def)
  from emits [OF r4(3), of "''arrived_at_dropoff''" "[(''pose'', q)]"] obtain r5 where
    r5: "robot_emit_event E C i cid ''arrived_at_dropoff'' [(''pose'', q)] r4 = (Inr (), r5)" "robot_ready E i cid task r5" by blast
  from sb obtain x y where "j_nth q 0 = Inr x" "j_nth q 1 = Inr y" by blast
  then have "run_transport E C i nav cid payload r =
      (Inr [indoor_pose_track E i (Aware (C (ro_now r5)) 0) cid [a, b]], r5\<lparr>ro_now := Suc (ro_now r5)\<rparr>)"
    unfolding run_transport_def pose
    using r3(1)
    by (cases "navigate_to_pose nav")
      (simp_all add: bindR_def liftR_def robot_now_def retR_def r1(1) r2(1) r4(1) r5(1) del: bindR_simps)
  with r2(2) r4(2) r5(2) env(1) show ?thesis by (auto simp: robot_env_def)
qed


subsection \<open>A run of the executor\<close>

text \<open>From the evidence a run of the executor collected to the coordinator's decision.\<close>

lemma execute_decides:
  assumes env: "robot_env E C sk" "i = worker_identity_of E sk"
    and r: "robot_ready E i cid task r" "t_state task \<in> {CLAIMED, SUPERVISING}"
    and json: "t_task_json task = JDict tj" "max_attempts_of task = Inr m"
    and run: "\<And>r. robot_ready E i cid (task\<lparr>t_state := EXECUTING\<rparr>) r \<Longrightarrow> \<exists>n payload r'. datetime_us n \<and>
      (if arg ''descriptor_type'' tj = JStr ''transport'' then run_transport E C i nav cid (task_payload tj)
       else if arg ''descriptor_type'' tj = JStr ''scheduled_presence'' then run_scheduled_presence E C i cid (task_payload tj)
       else if arg ''descriptor_type'' tj = JStr ''observe_and_report'' then run_observe E C i cid (task_payload tj)
       else (\<lambda>r. (Inl (NotImplementedError (arg ''descriptor_type'' tj)), r))) r =
        (Inr [wrap_evidence E i (Aware n 0) (attestation_mode_value mode) kind payload cid], r') \<and>
      verify_single E DEFAULT_REGISTRY (JStr (attestation_mode_value mode)) (JStr kind) (JDict payload) (task_payload tj) = Inr out \<and>
      robot_ready E i cid (task\<lparr>t_state := EXECUTING\<rparr>) r'"
    and agg: "evaluate_threshold E (task_req tj) [(JStr (attestation_mode_value mode), out)] = Inr agg"
  shows "\<exists>v r' t. robot_execute E C i nav cid tj r = (Inr v, r') \<and>
    j_get v ''verifier_decision'' JNull = Inr (JStr (verifier_decision_value (vo_decision agg))) \<and>
    get_task (ro_coordinator r') (t_task_id task) = Some t \<and> t_state t = next_state (vo_decision agg) (t_attestation_attempts_used task + 1) m"
proof -
  let ?task = "task\<lparr>t_state := EXECUTING\<rparr>"
  from opens [OF env(1) r] obtain v1 r1 where
    r1: "robot_call E (''tasks/execute'', [(''claim_id'', JStr cid)]) r = (Inr v1, r1)" "robot_ready E i cid ?task r1" by blast
  from run [OF r1(2)] obtain n payload r2 where n: "datetime_us n" and
    r2: "(if arg ''descriptor_type'' tj = JStr ''transport'' then run_transport E C i nav cid (task_payload tj)
       else if arg ''descriptor_type'' tj = JStr ''scheduled_presence'' then run_scheduled_presence E C i cid (task_payload tj)
       else if arg ''descriptor_type'' tj = JStr ''observe_and_report'' then run_observe E C i cid (task_payload tj)
       else (\<lambda>r. (Inl (NotImplementedError (arg ''descriptor_type'' tj)), r))) r1 =
        (Inr [wrap_evidence E i (Aware n 0) (attestation_mode_value mode) kind payload cid], r2)"
      "verify_single E DEFAULT_REGISTRY (JStr (attestation_mode_value mode)) (JStr kind) (JDict payload) (task_payload tj) = Inr out"
      "robot_ready E i cid ?task r2" by blast
  let ?call = "(''tasks/attest'', [(''claim_id'', JStr cid), (''attestations'', JList (map JDict
      [wrap_evidence E i (Aware n 0) (attestation_mode_value mode) kind payload cid]))])"
  have "robot_ready E i cid ?task (beats_now (beat E C i cid) r2)" using beats_keep_ready [OF env _ r2(3)] by simp
  from robot_attests [OF env this _ _ _ r2(2) agg n refl, of m] json obtain v r3 where
    r3: "await_call E C i cid ?call r2 = (Inr v, r3)"
      "j_get v ''verifier_decision'' JNull = Inr (JStr (verifier_decision_value (vo_decision agg)))"
      "robot_done (t_task_id task) cid (next_state (vo_decision agg) (t_attestation_attempts_used task + 1) m) r3"
    by (auto simp: await_call_def max_attempts_of_def)
  from r3(3) obtain c t where t: "holds_rows cid c t (ro_coordinator r3)" "t_task_id t = t_task_id task"
      "t_state t = next_state (vo_decision agg) (t_attestation_attempts_used task + 1) m" "client_inv (ro_client r3)"
    by (auto simp: robot_done_def)
  have "t_state t \<noteq> EXECUTING" using t(3) by (simp add: next_state_def split: verifier_decision.splits)
  from late_beats [OF t(1) this t(4)] have "ro_coordinator (beats_now (beat E C i cid) r3) = ro_coordinator r3" .
  moreover have "robot_execute E C i nav cid tj r = (Inr v, beats_now (beat E C i cid) r3)"
    unfolding robot_execute_def Let_def task_payload_def [symmetric]
    by (simp only: bindR_def r1(1) r2(1) r3(1) prod.case sum.case)
  ultimately show ?thesis using r3(2) t(1,2,3) by (auto simp: holds_rows_def)
qed

text \<open>
  C33: A transport task a robot executes is completed whatever the navigation ended in: let the
  robot hold the claim, the poses of the task be readable and the task's threshold pass on one
  sensor-witness verdict. Then for every answer of the navigation stack, a rejected or failed
  goal included, and every schedule of heartbeats between the executor's calls, execute returns
  the decision pass and the task is completed, beats after the end changing nothing.
\<close>

theorem robot_transport_completes:
  assumes "robot_env E C sk" "i = worker_identity_of E sk"
    and "robot_ready E i cid task r" "t_state task \<in> {CLAIMED, SUPERVISING}"
    and "t_task_json task = JDict tj" "max_attempts_of task = Inr m" "map_of tj ''descriptor_type'' = Some (JStr ''transport'')"
    and "pose_of (task_payload tj) ''pickup'' = Inr p" "pose_of (task_payload tj) ''dropoff'' = Inr q" "good_pose p" "good_pose q"
    and "evaluate_threshold E (task_req tj) [(JStr ''sensor-witness'', pass_outcome)] = Inr agg" "vo_decision agg = PASS"
  shows "\<exists>v r' t. robot_execute E C i nav cid tj r = (Inr v, r') \<and>
    j_get v ''verifier_decision'' JNull = Inr (JStr ''pass'') \<and>
    get_task (ro_coordinator r') (t_task_id task) = Some t \<and> t_state t = COMPLETED"
proof -
  have "arg ''descriptor_type'' tj = JStr ''transport''" using assms(7) by (simp add: arg_def)
  moreover have "\<exists>n payload r'. datetime_us n \<and> run_transport E C i nav cid (task_payload tj) x =
        (Inr [wrap_evidence E i (Aware n 0) (attestation_mode_value SENSOR_WITNESS) ''indoor_pose_track'' payload cid], r') \<and>
      verify_single E DEFAULT_REGISTRY (JStr (attestation_mode_value SENSOR_WITNESS)) (JStr ''indoor_pose_track'') (JDict payload)
        (task_payload tj) = Inr pass_outcome \<and> robot_ready E i cid (task\<lparr>t_state := EXECUTING\<rparr>) r'"
    if "robot_ready E i cid (task\<lparr>t_state := EXECUTING\<rparr>) x" for x
    using transport_runs [OF assms(1,2) _ assms(8-11) that, of nav]
    by (simp add: indoor_pose_track_def) (metis track_passes)
  ultimately show ?thesis
    using execute_decides [OF assms(1-6), of nav SENSOR_WITNESS "''indoor_pose_track''" pass_outcome agg] assms(12,13)
    by (auto simp: next_state_def)
qed


subsection \<open>Scheduled presence\<close>

definition presence_verdict :: "int \<Rightarrow> int \<Rightarrow> outcome" where
  "presence_verdict start k =
     (if 0 < k \<and> datetime_us (start + k * 60000000) then pass_outcome
      else fail_outcome [''check_out_at must be strictly after check_in_at''])"

lemma presence_verified:
  assumes "robot_env E C sk" "datetime_us n" "map_of d ''duration_minutes'' = Some (JInt k)"
  shows "verify_single E DEFAULT_REGISTRY (JStr ''cryptographic-presence'') (JStr ''pose_bounded_presence_proof'')
      (JDict [(''check_in_at'', JStr (isoformat E (Aware n 0))),
         (''check_out_at'', JStr (isoformat E (Aware (check_out_time n k) 0))), (''region'', region)]) (JDict d) =
    Inr (presence_verdict n k)"
proof -
  have "datetime_us (check_out_time n k)" using assms(2) by (simp add: check_out_time_def)
  then have iso: "parse_iso E (isoformat E (Aware n 0)) = Inr (Aware n 0)"
      "parse_iso E (isoformat E (Aware (check_out_time n k) 0)) = Inr (Aware (check_out_time n k) 0)"
    using assms(1,2) by (simp_all add: robot_env_def)
  have late: "check_out_time n k \<le> n \<longleftrightarrow> \<not> (0 < k \<and> datetime_us (n + k * 60000000))"
    by (simp add: check_out_time_def linorder_not_less [symmetric] zero_less_mult_iff)
  have "duration_check E (Aware n 0) (Aware (check_out_time n k) 0) (JInt k) = Inr pass_outcome"
    if "0 < k" "datetime_us (n + k * 60000000)"
  proof -
    have "k * 60000000 \<le> 253402300799999999 + 62135596800000000"
      using that(2) assms(2) by (simp add: datetime_us_def)
    then have "\<bar>k\<bar> < 10 ^ 12" using that(1) by simp
    moreover have "(10 :: int) ^ 12 \<le> 2 ^ 1024 - 2 ^ 970" by simp
    ultimately have "\<not> 2 ^ 1024 - 2 ^ 970 \<le> \<bar>k\<bar>" by linarith
    then have "int_to_float k = Inr (of_int k)" unfolding int_to_float_def by (rule if_not_P)
    moreover have "of_int (k * 60000000) / 60000000 = (of_int k :: rat)" by simp
    ultimately show ?thesis using that by (simp add: duration_check_def check_out_time_def)
  qed
  then show ?thesis
    using iso late assms(3) dispatch_mode_value [of CRYPTOGRAPHIC_PRESENCE]
    by (simp add: verify_single_def DEFAULT_REGISTRY_def registry_get_def kind_in_def cryptographic_presence_def need_fields_def
        catch_value_error_def presence_verdict_def)
qed

lemma presence_runs:
  assumes "map_of d ''duration_minutes'' = Some (JInt k)"
  shows "\<exists>region. run_scheduled_presence E C i cid (JDict d) r =
    (Inr [pose_bounded_presence_proof E i (Aware (C (Suc (ro_now r))) 0) cid (Aware (C (ro_now r)) 0)
       (Aware (check_out_time (C (ro_now r)) k) 0) region], r\<lparr>ro_now := Suc (Suc (ro_now r))\<rparr>)"
  using assms by (simp add: run_scheduled_presence_def Let_def retR_def) blast


text \<open>
  The presence proof of a robot, given to the coordinator's verifier with the task's own
  payload, passes exactly when the declared duration is positive and its end is a date Python
  can represent; otherwise the swallowed overflow, or the sign, makes it fail. No time has to
  pass between check-in and check-out.
\<close>

theorem robot_presence_verdict:
  assumes "robot_env E C sk" "map_of d ''duration_minutes'' = Some (JInt k)"
  shows "\<exists>piece payload r'. run_scheduled_presence E C (worker_identity_of E sk) cid (JDict d) r = (Inr [piece], r') \<and>
    map_of piece ''payload'' = Some payload \<and>
    verify_single E DEFAULT_REGISTRY (JStr ''cryptographic-presence'') (JStr ''pose_bounded_presence_proof'') payload (JDict d) =
      Inr (if 0 < k \<and> datetime_us (C (ro_now r) + k * 60000000) then pass_outcome
           else fail_outcome [''check_out_at must be strictly after check_in_at''])"
proof -
  have "datetime_us (C (ro_now r))" using assms(1) by (simp add: robot_env_def)
  from presence_verified [OF assms(1) this assms(2)] presence_runs [OF assms(2), of E C "worker_identity_of E sk" cid r]
  show ?thesis by (auto simp: pose_bounded_presence_proof_def wrap_evidence_def Let_def presence_verdict_def)
qed

subsection \<open>Where the plugin stops\<close>

text \<open>
  A task type the executor does not have is noticed only after tasks/execute: the executor
  raises NotImplementedError and the task stays executing at the coordinator, with no evidence
  and no abort sent.
\<close>

theorem robot_unsupported_left_executing:
  assumes "robot_env E C sk" "robot_ready E i cid task r" "t_state task \<in> {CLAIMED, SUPERVISING}"
    and "arg ''descriptor_type'' tj \<notin> {JStr ''transport'', JStr ''scheduled_presence'', JStr ''observe_and_report''}"
  shows "\<exists>r' t. robot_execute E C i nav cid tj r = (Inl (NotImplementedError (arg ''descriptor_type'' tj)), r') \<and>
    get_task (ro_coordinator r') (t_task_id task) = Some t \<and> t_state t = EXECUTING"
proof -
  from opens [OF assms(1-3)] obtain v1 r1 where
    r1: "robot_call E (''tasks/execute'', [(''claim_id'', JStr cid)]) r = (Inr v1, r1)" "robot_ready E i cid (task\<lparr>t_state := EXECUTING\<rparr>) r1"
    by blast
  from r1(2) obtain c where "holds_rows cid c (task\<lparr>t_state := EXECUTING\<rparr>) (ro_coordinator r1)" by (auto simp: robot_ready_def)
  moreover have "robot_execute E C i nav cid tj r = (Inl (NotImplementedError (arg ''descriptor_type'' tj)), r1)"
    using assms(4) by (simp add: robot_execute_def bindR_def r1(1) Let_def)
  ultimately show ?thesis by (auto simp: holds_rows_def)
qed

text \<open>The active phase ends with the error of its first call: the node never idles as an active worker.\<close>

lemma robot_never_active:
  assumes "client_inv (ro_client r)"
  shows "\<exists>r'. run_active E C i p v m r = (False, r') \<and> ro_coordinator r' = ro_coordinator r"
proof -
  let ?c = "(''capabilities/list'', [(''worker_id'', JStr (wi_did i)),
      (''capabilities'', JDict (build_descriptor E i (Aware (C (ro_now r)) 0) (node_publisher p v m)))])"
  have "dispatch E (JStr (fst ?c)) (JDict (snd ?c)) (ro_coordinator r) = (Raised TypeError, ro_coordinator r)"
    by (simp add: dispatch_def methods_def rpc_capabilities_list_def check_kwargs_def py_or_def)
  with robot_call_Raised [of "r\<lparr>ro_now := Suc (ro_now r)\<rparr>" E ?c TypeError "ro_coordinator r"] assms show ?thesis
    by (simp add: run_active_def robot_publish_def bindR_def [of "robot_call E c" for c] db_rollback_def)
qed

text \<open>The identity survives a restart.\<close>

lemma identity_persists:
  assumes "length generated = 32" "load_or_generate E generated file = (Inr i, file')"
  shows "load_or_generate E generated' file' = (Inr i, file')"
  using assms by (auto simp: load_or_generate_def split: option.splits if_splits)

text \<open>Asking for a supervisor leaves the robot ready to execute again.\<close>

lemma handoff_ready:
  assumes "robot_env E C sk" "i = worker_identity_of E sk" "robot_ready E i cid task r" "t_state task = EXECUTING"
  shows "\<exists>v r'. request_supervisor E C i cid reason urg snap r = (Inr v, r') \<and>
    robot_ready E i cid (task\<lparr>t_state := SUPERVISING\<rparr>) r'"
proof -
  from assms(3) obtain c where c: "c_worker_id c = wi_did i" "holds_rows cid c task (ro_coordinator r)"
    and f: "ids_fresh E (ro_coordinator r)" by (auto simp: robot_ready_def)
  let ?signed = "[(''claim_id'', JStr cid), (''state_snapshot'', JDict snap), (''snapshot_at'', JStr (isoformat E (Aware (C (ro_now r)) 0)))]"
  let ?snap = "JDict (dict_set ''sig'' (JStr (worker_sign E i (JDict ?signed))) ?signed)"
  let ?call = "(''tasks/supervise'', [(''claim_id'', JStr cid), (''handoff_reason'', JStr reason),
      (''state_snapshot'', ?snap), (''urgency'', JStr urg)])"
  from supervise_enabled [OF c(2) assms(4) f, of reason ?snap urg] assms(1) obtain v t where
    t: "task_supervise E cid reason ?snap urg (ro_coordinator r) = (Inr v, t)" "ids_fresh E t"
      "attestations t = attestations (ro_coordinator r)" "holds_rows cid c (task\<lparr>t_state := SUPERVISING\<rparr>) t"
    by (auto simp: robot_env_def)
  have "dispatch E (JStr (fst ?call)) (JDict (snd ?call)) (ro_coordinator r) = (Result v, t)"
    using t(1) by (simp add: dispatch_def methods_def py_or_def rpc_tasks_supervise_def check_kwargs_def str_arg_def arg_def)
  with robot_call_Result [of "r\<lparr>ro_now := Suc (ro_now r)\<rparr>" E ?call v t] t assms(3) c client_inv_next
  show ?thesis by (auto simp: robot_ready_def db_flush_def request_supervisor_def Let_def)
qed

subsection \<open>A concrete robot\<close>

definition robot_task_json :: "string \<Rightarrow> params" where
  "robot_task_json dtype = [(''descriptor_type'', JStr dtype), (''max_attestation_attempts'', JInt 2),
     (''descriptor_payload'', JDict [(''duration_minutes'', JInt 30), (''dropoff'', JDict [(''pose'', JList [JInt 3, JInt 4])])]),
     (''attestation_requirement'', JDict [(''modes'', JList [JStr ''sensor-witness'']), (''threshold'', JStr ''all'')])]"

definition robot_task :: "string \<Rightarrow> wcp_task" where
  "robot_task dtype = \<lparr>t_task_id = ''T'', t_posted_by = agent_did, t_descriptor_type = dtype,
     t_task_json = JDict (robot_task_json dtype), t_expiry = Aware 0 0, t_state = CLAIMED,
     t_attestation_attempts_used = 0, t_posted_at = Aware 0 0\<rparr>"

definition robot_claim :: wcp_claim where
  "robot_claim = \<lparr>c_claim_id = ''c'', c_task_id = ''T'', c_worker_id = wi_did (worker_identity_of sample_env (sample_key (CHR ''w''))),
     c_bid_amount = None, c_eta = Aware 0 0, c_acceptance_attestation_json = JNull, c_accepted = True, c_claimed_at = Aware 0 0,
     c_last_heartbeat_at = None\<rparr>"

definition sample_robot :: "string \<Rightarrow> robot" where
  "sample_robot dtype = \<lparr>ro_client = new_client,
     ro_coordinator = empty_db\<lparr>tasks := [robot_task dtype], claims := [robot_claim]\<rparr>, ro_now = 0, ro_schedule = [1, 0, 2]\<rparr>"

lemma sample_robot_env: "robot_env sample_env (\<lambda>n. 0) (sample_key (CHR ''w''))"
  using sample_time by (simp add: robot_env_def datetime_us_def)

lemma sample_robot_ready:
  "robot_ready sample_env (worker_identity_of sample_env (sample_key (CHR ''w''))) ''c'' (robot_task dtype) (sample_robot dtype)"
  by (auto simp: robot_ready_def sample_robot_def client_inv_def new_client_def ids_fresh_def empty_db_def robot_claim_def
      holds_rows_def robot_task_def)

theorem robot_transport_completes_witness:
  "\<exists>v r' t. robot_execute sample_env (\<lambda>n. 0) (worker_identity_of sample_env (sample_key (CHR ''w''))) (Goal False 6) ''c''
     (robot_task_json ''transport'') (sample_robot ''transport'') = (Inr v, r') \<and>
     j_get v ''verifier_decision'' JNull = Inr (JStr ''pass'') \<and>
     get_task (ro_coordinator r') (t_task_id (robot_task ''transport'')) = Some t \<and> t_state t = COMPLETED"
proof (rule robot_transport_completes [OF sample_robot_env refl sample_robot_ready, where m = 2 and agg = pass_outcome
      and p = "JList [JFloat 0, JFloat 0, JFloat 0]" and q = "JList [JInt 3, JInt 4]"])
  show "evaluate_threshold sample_env (task_req (robot_task_json ''transport'')) [(JStr ''sensor-witness'', pass_outcome)] = Inr pass_outcome"
    by (simp add: task_req_def robot_task_json_def evaluate_threshold_def threshold_all_def py_or_def py_set_def
        passing_modes_def set_sub_def count_decision_def)
qed (simp_all add: robot_task_def robot_task_json_def max_attempts_of_def py_or_def task_payload_def pose_of_def good_pose_def)

theorem robot_presence_verdict_witness:
  "\<exists>piece payload r'. run_scheduled_presence sample_env (\<lambda>n. 0) (worker_identity_of sample_env (sample_key (CHR ''w''))) ''c''
     (JDict [(''duration_minutes'', JInt 30)]) (sample_robot ''x'') = (Inr [piece], r') \<and>
     map_of piece ''payload'' = Some payload \<and>
     verify_single sample_env DEFAULT_REGISTRY (JStr ''cryptographic-presence'') (JStr ''pose_bounded_presence_proof'') payload
       (JDict [(''duration_minutes'', JInt 30)]) = Inr pass_outcome"
  using robot_presence_verdict [OF sample_robot_env, of "[(''duration_minutes'', JInt 30)]" 30 "''c''" "sample_robot ''x''"]
  by (simp add: datetime_us_def)

theorem robot_unsupported_left_executing_witness:
  "\<exists>r' t. robot_execute sample_env (\<lambda>n. 0) (worker_identity_of sample_env (sample_key (CHR ''w''))) NoActionClient ''c''
     (robot_task_json ''inspect'') (sample_robot ''inspect'') = (Inl (NotImplementedError (JStr ''inspect'')), r') \<and>
     get_task (ro_coordinator r') (t_task_id (robot_task ''inspect'')) = Some t \<and> t_state t = EXECUTING"
  using robot_unsupported_left_executing [OF sample_robot_env sample_robot_ready [of "''inspect''"], of "robot_task_json ''inspect''" NoActionClient]
  by (simp add: robot_task_def robot_task_json_def arg_def)

end
