(* ===== verification/Conformance.thy ===== *)
theory Conformance
  imports Sdk
begin

text \<open>
  \<open>conformance/runner-python/wcp_conformance/\<close>: the runner of the conformance suite (\<open>runner.py\<close>)
  and the exit code of its command (\<open>cli.py\<close>). It fills the templates of a test bundle,
  generators of signed payloads included, calls the implementation under test and compares
  the replies with what the case expects.

  The implementation under test is an argument: a function that takes a method, its params
  and the target's state and gives the reply and the next state. The runner's own clock and
  UUID source are readings of its environment \<open>E\<close>, counted in its state. The three
  identities are kept apart from the JSON values of the context; a template that asks for
  the entry \<open>_identities\<close> itself is outside the model, and so are the durations of a report.
\<close>

subsection \<open>Cases and reports\<close>

record test_case =
  tc_id :: json
  tc_description :: json
  tc_level :: int
  tc_method :: json
  tc_params_template :: json
  tc_expected :: params
  tc_setup_fixtures :: "json list"
  tc_setup_steps :: "json list"

definition case_from_dict :: "json \<Rightarrow> test_case res" where
  "case_from_dict d =
     bindE (j_item d ''id'') (\<lambda>i.
     bindE (j_get d ''description'' (JStr [])) (\<lambda>description.
     bindE (bindE (j_item d ''level'') py_int) (\<lambda>level.
     bindE (j_item d ''method'') (\<lambda>m.
     bindE (j_get d ''params_template'' (JDict [])) (\<lambda>template.
     bindE (bindE (j_get d ''expected'' (JDict [])) to_dict) (\<lambda>expected.
     bindE (bindE (j_get d ''setup_fixtures'' (JList [])) py_iter) (\<lambda>fixtures.
     bindE (bindE (j_get d ''setup_steps'' (JList [])) py_iter) (\<lambda>steps.
     Inr \<lparr>tc_id = i, tc_description = description, tc_level = level, tc_method = m, tc_params_template = template,
          tc_expected = expected, tc_setup_fixtures = fixtures, tc_setup_steps = steps\<rparr>))))))))"

record test_result =
  tr_id :: json
  tr_level :: int
  tr_passed :: bool
  tr_reason :: "string option"
  tr_response :: json
  tr_error :: json

record conformance_report =
  cr_target_url :: string
  cr_schema_version :: string
  cr_level_requested :: int
  cr_level_passed :: int
  cr_timestamp :: string
  cr_suite_version :: string
  cr_results :: "test_result list"

definition report_total :: "conformance_report \<Rightarrow> nat" where
  "report_total r = length (cr_results r)"

definition passed_count :: "conformance_report \<Rightarrow> nat" where
  "passed_count r = length (filter tr_passed (cr_results r))"

subsection \<open>The state of a run\<close>

record 's runner =
  rn_target :: 's
  rn_uuid :: nat
  rn_now :: nat

type_synonym 's target = "json \<Rightarrow> json \<Rightarrow> 's \<Rightarrow> reply \<times> 's"
type_synonym identities = "(string \<times> sdk_identity) list"

definition runner_uuid :: "env \<Rightarrow> ('s runner, string) py" where
  "runner_uuid E = bindS (gets rn_uuid) (\<lambda>n. bindS (modify (\<lambda>r. r\<lparr>rn_uuid := Suc n\<rparr>)) (\<lambda>_. ret (uuid4 E n)))"

definition runner_now :: "env \<Rightarrow> ('s runner, datetime) py" where
  "runner_now E = bindS (gets rn_now) (\<lambda>n. bindS (modify (\<lambda>r. r\<lparr>rn_now := Suc n\<rparr>)) (\<lambda>_. ret (Aware (clock E n) 0)))"

text \<open>\<open>rpc.call\<close> of the SDK client, which sends \<open>params or {}\<close>.\<close>

definition target_call :: "'s target \<Rightarrow> json \<Rightarrow> json \<Rightarrow> ('s runner, reply) py" where
  "target_call call m p r =
     (case call m (py_or p (JDict [])) (rn_target r) of (v, t) \<Rightarrow> (Inr v, r\<lparr>rn_target := t\<rparr>))"

subsection \<open>Generators of signed payloads\<close>

definition lookup_identity :: "env \<Rightarrow> identities \<Rightarrow> json \<Rightarrow> sdk_identity res" where
  "lookup_identity E ids name =
     (if \<not> hashable name then Inl TypeError
      else case (case name of JStr n \<Rightarrow> map_of ids n | _ \<Rightarrow> None) of
        Some i \<Rightarrow> Inr i
      | None \<Rightarrow> Inl (ValueError (''unknown identity '' @ py_repr (float_repr E) name @ ''; available: '' @
          py_repr (float_repr E) (JList (map JStr (sort (map fst ids)))))))"

definition zero_hash :: string where
  "zero_hash = replicate 64 (CHR ''0'')"

text \<open>\<open>spec.get(k) or datetime.now(timezone.utc).isoformat()\<close>\<close>

definition time_or_now :: "env \<Rightarrow> json \<Rightarrow> string \<Rightarrow> ('s runner, json) py" where
  "time_or_now E spec k =
     bindS (lift (j_get spec k JNull)) (\<lambda>v.
     if truthy v then ret v else bindS (runner_now E) (\<lambda>t. ret (JStr (isoformat E t))))"

definition make_signed_acceptance :: "env \<Rightarrow> identities \<Rightarrow> json \<Rightarrow> ('s runner, json) py" where
  "make_signed_acceptance E ids spec =
     bindS (lift (j_get spec ''worker'' (JStr ''worker''))) (\<lambda>name.
     bindS (lift (lookup_identity E ids name)) (\<lambda>i.
     bindS (lift (j_item spec ''task_id'')) (\<lambda>task_id.
     bindS (lift (j_get spec ''eta'' (JStr ''2026-06-01T10:00:00Z''))) (\<lambda>eta.
     bindS (lift (j_get spec ''bid'' JNull)) (\<lambda>bid.
     bindS (time_or_now E spec ''signed_at'') (\<lambda>signed_at.
     let canonical = JDict [(''task_id'', task_id), (''worker_id'', JStr (i_did i)), (''eta'', eta), (''bid'', bid),
           (''payload_hash'', JStr zero_hash), (''signed_at'', signed_at)]
     in ret (JDict [(''sig'', JStr (identity_sign E i canonical)), (''alg'', JStr ''Ed25519''),
          (''payload_hash'', JStr zero_hash), (''signed_at'', signed_at)])))))))"

definition make_signed_evidence :: "env \<Rightarrow> identities \<Rightarrow> json \<Rightarrow> ('s runner, json) py" where
  "make_signed_evidence E ids spec =
     bindS (lift (j_get spec ''worker'' (JStr ''worker''))) (\<lambda>name.
     bindS (lift (lookup_identity E ids name)) (\<lambda>i.
     bindS (lift (j_item spec ''claim_id'')) (\<lambda>claim_id.
     bindS (lift (j_item spec ''mode'')) (\<lambda>mode.
     bindS (lift (j_item spec ''kind'')) (\<lambda>kind.
     bindS (lift (j_get spec ''payload'' (JDict []))) (\<lambda>payload.
     bindS (time_or_now E spec ''collected_at'') (\<lambda>collected_at.
     let canonical = JDict [(''mode'', mode), (''kind'', kind), (''payload_hash'', JStr zero_hash),
           (''worker_id'', JStr (i_did i)), (''claim_id'', claim_id), (''collected_at'', collected_at)]
     in ret (JDict [(''schema_version'', JStr ''wcp/0.1''), (''mode'', mode), (''kind'', kind), (''payload'', payload),
          (''payload_hash'', JStr zero_hash), (''sig'', JStr (identity_sign E i canonical)),
          (''worker_id'', JStr (i_did i)), (''claim_id'', claim_id), (''collected_at'', collected_at)]))))))))"

definition make_capability :: "env \<Rightarrow> identities \<Rightarrow> params \<Rightarrow> json \<Rightarrow> ('s runner, json) py" where
  "make_capability E ids ctx spec =
     bindS (lift (j_get spec ''worker'' (JStr ''worker''))) (\<lambda>name.
     bindS (lift (lookup_identity E ids name)) (\<lambda>i.
     bindS (lift (j_get spec ''principal_id'' JNull)) (\<lambda>pid.
     let principal_did = py_or pid (py_or (arg ''agent_did'' ctx) (JStr (i_did i))) in
     bindS (lift (j_get spec ''class'' (JStr ''human''))) (\<lambda>worker_class.
     bindS (lift (j_get spec ''attestation_methods_supported'' (JList [JStr ''sensor-witness'', JStr ''third-party-witness'',
       JStr ''cryptographic-presence'', JStr ''owner-sign-off'']))) (\<lambda>modes.
     bindS (lift (j_get spec ''descriptor_types_supported'' JNull)) (\<lambda>dtypes.
     bindS (lift (j_get spec ''certifications'' (JList []))) (\<lambda>certs.
     bindS (lift (j_get spec ''venue_id'' (JStr ''v1''))) (\<lambda>venue_id.
     bindS (runner_now E) (\<lambda>now.
     let required =
           [(''current_location'', JDict [(''venue_id'', venue_id), (''map_id'', JStr ''m1'')]),
            (''available_windows'', JList [JDict [(''rrule'', JStr ''FREQ=DAILY;BYHOUR=0-23''), (''timezone'', JStr ''UTC'')]]),
            (''attestation_methods_supported'', modes), (''certifications'', certs),
            (''policy_windows'', JList [JDict [(''type'', JStr ''geographic''), (''scope'', JStr ''global'')]]),
            (''attestation_keys'', JList [JDict [(''kty'', JStr ''OKP''), (''crv'', JStr ''Ed25519''),
               (''x'', JStr (i_public_key_b64url i))]]),
            (''as_of'', JStr (isoformat E now))];
         required = (if dtypes = JNull then required else dict_set ''descriptor_types_supported'' dtypes required)
     in
     bindS (lift (j_get spec ''class_extension'' (JDict []))) (\<lambda>ext.
     ret (JDict [(''schema_version'', JStr ''wcp/0.2''), (''worker_id'', JStr (i_did i)), (''principal_id'', principal_did),
       (''class'', worker_class), (''required'', JDict required), (''class_extension'', ext)])))))))))))"

subsection \<open>Templates\<close>

text \<open>\<open>s.find(pat)\<close>\<close>

fun py_find :: "string \<Rightarrow> string \<Rightarrow> nat option" where
  "py_find pat [] = (if pat = [] then Some 0 else None)"
| "py_find pat (c # s) = (if startswith (c # s) pat then Some 0 else map_option Suc (py_find pat s))"

text \<open>A \<open>{{uuid}}\<close> inside a longer string: each is replaced by a new UUID.\<close>

function expand_uuid :: "(nat \<Rightarrow> string) \<Rightarrow> nat \<Rightarrow> string \<Rightarrow> string \<times> nat" where
  "expand_uuid U n s =
     (case py_find ''{{uuid}}'' s of
        None \<Rightarrow> (s, n)
      | Some j \<Rightarrow> (case expand_uuid U (Suc n) (drop (j + 8) s) of (rest, m) \<Rightarrow> (take j s @ U n @ rest, m)))"
  by pat_completeness auto
termination
proof (relation "measure (\<lambda>(U, n, s). length s)")
  fix s :: string and j assume "py_find ''{{uuid}}'' s = Some j"
  then have "s \<noteq> []" by auto
  then show "((U, Suc n, drop (j + 8) s), (U, n, s)) \<in> measure (\<lambda>(U, n, s). length s)" for U :: "nat \<Rightarrow> string" and n
    by simp
qed simp

declare expand_uuid.simps [simp del]

definition endswith :: "string \<Rightarrow> string \<Rightarrow> bool" where
  "endswith s p \<longleftrightarrow> p = [] \<or> (length p \<le> length s \<and> drop (length s - length p) s = p)"

text \<open>The tolerant dotted access: nested dicts under the first segment; \<open>JNull\<close> where it stops.\<close>

fun dotted :: "json \<Rightarrow> string list \<Rightarrow> json" where
  "dotted cur [] = cur"
| "dotted (JDict d) (p # ps) = (case map_of d p of Some v \<Rightarrow> dotted v ps | None \<Rightarrow> JNull)"
| "dotted _ (p # ps) = JNull"

definition walk_string :: "env \<Rightarrow> params \<Rightarrow> string \<Rightarrow> ('s runner, json) py" where
  "walk_string E ctx node =
     (if startswith node ''{{'' \<and> endswith node ''}}'' then
        let key = py_strip (take (length node - 4) (drop 2 node)) in
        if key = ''uuid'' then bindS (runner_uuid E) (\<lambda>u. ret (JStr u))
        else case map_of ctx key of
          Some v \<Rightarrow> ret v
        | None \<Rightarrow>
            if CHR ''.'' \<in> set key then
              let parts = split_max (length key) (CHR ''.'') key;
                  cur = dotted (arg (hd parts) ctx) (tl parts)
              in ret (if cur \<noteq> JNull then cur else JStr node)
            else ret (JStr node)
      else if py_find ''{{uuid}}'' node \<noteq> None then
        bindS (gets rn_uuid) (\<lambda>n.
        case expand_uuid (uuid4 E) n node of (s, m) \<Rightarrow>
          bindS (modify (\<lambda>r. r\<lparr>rn_uuid := m\<rparr>)) (\<lambda>_. ret (JStr s)))
      else ret (JStr node))"

text \<open>
  \<open>walk\<close> inside \<open>_materialize_params\<close>. \<open>walk_item\<close> walks the value of one key, the argument of a
  generator.
\<close>

fun walk :: "env \<Rightarrow> identities \<Rightarrow> params \<Rightarrow> json \<Rightarrow> ('s runner, json) py"
and walk_item :: "env \<Rightarrow> identities \<Rightarrow> params \<Rightarrow> string \<Rightarrow> params \<Rightarrow> ('s runner, json) py"
and walk_dict :: "env \<Rightarrow> identities \<Rightarrow> params \<Rightarrow> params \<Rightarrow> ('s runner, params) py"
and walk_list :: "env \<Rightarrow> identities \<Rightarrow> params \<Rightarrow> json list \<Rightarrow> ('s runner, json list) py"
where
  "walk E ids ctx (JDict d) =
     (if ''_make_acceptance'' \<in> fst ` set d then
        bindS (walk_item E ids ctx ''_make_acceptance'' d) (make_signed_acceptance E ids)
      else if ''_make_evidence'' \<in> fst ` set d then
        bindS (walk_item E ids ctx ''_make_evidence'' d) (make_signed_evidence E ids)
      else if ''_make_capability'' \<in> fst ` set d then
        bindS (walk_item E ids ctx ''_make_capability'' d) (make_capability E ids ctx)
      else bindS (walk_dict E ids ctx d) (\<lambda>d'. ret (JDict d')))"
| "walk E ids ctx (JStr s) = walk_string E ctx s"
| "walk E ids ctx (JList xs) = bindS (walk_list E ids ctx xs) (\<lambda>ys. ret (JList ys))"
| "walk E ids ctx JNull = ret JNull"
| "walk E ids ctx (JBool b) = ret (JBool b)"
| "walk E ids ctx (JInt i) = ret (JInt i)"
| "walk E ids ctx (JFloat x) = ret (JFloat x)"
| "walk_item E ids ctx k [] = raise (KeyError k)"
| "walk_item E ids ctx k ((k', v) # d) = (if k' = k then walk E ids ctx v else walk_item E ids ctx k d)"
| "walk_dict E ids ctx [] = ret []"
| "walk_dict E ids ctx ((k, v) # d) =
     bindS (walk E ids ctx v) (\<lambda>v'. bindS (walk_dict E ids ctx d) (\<lambda>d'. ret ((k, v') # d')))"
| "walk_list E ids ctx [] = ret []"
| "walk_list E ids ctx (x # xs) =
     bindS (walk E ids ctx x) (\<lambda>y. bindS (walk_list E ids ctx xs) (\<lambda>ys. ret (y # ys)))"

subsection \<open>Expectations\<close>

type_synonym verdict = "bool \<times> string option"

definition accept :: verdict where
  "accept = (True, None)"

definition refuse :: "string \<Rightarrow> verdict" where
  "refuse reason = (False, Some reason)"

text \<open>\<open>k in c\<close> for any value \<open>k\<close>.\<close>

fun j_contains :: "json \<Rightarrow> json \<Rightarrow> bool res" where
  "j_contains k (JDict d) =
     (if \<not> hashable k then Inl TypeError else Inr (case k of JStr s \<Rightarrow> s \<in> fst ` set d | _ \<Rightarrow> False))"
| "j_contains k (JList ys) = Inr (eq_in k ys)"
| "j_contains k (JStr s) = (case k of JStr x \<Rightarrow> Inr (sublist x s) | _ \<Rightarrow> Inl TypeError)"
| "j_contains k _ = Inl TypeError"

fun first_absent :: "json list \<Rightarrow> json \<Rightarrow> json option res" where
  "first_absent [] r = Inr None"
| "first_absent (k # ks) r = bindE (j_contains k r) (\<lambda>b. if b then first_absent ks r else Inr (Some k))"

fun carries_continuation :: "json list \<Rightarrow> bool res" where
  "carries_continuation [] = Inr False"
| "carries_continuation (e # es) =
     bindE (j_get e ''event_type'' JNull) (\<lambda>t.
     if py_eq t (JStr ''task_posted'') then
       bindE (j_get e ''payload'' JNull) (\<lambda>p.
       bindE (j_get (py_or p (JDict [])) ''continuation_of'' JNull) (\<lambda>c.
       if truthy c then Inr True else carries_continuation es))
     else carries_continuation es)"

definition deferred_validators :: "string list" where
  "deferred_validators = [''audit_chain_entry_field_preserved'', ''matching_invariant'', ''resolves_prior_claim_id'',
     ''both_chains_carry_continuation_of'', ''federation_uses_only_existing_rpcs'',
     ''agent_class_preserved_on_both_chains'', ''no_matching_branch_on_agent_class'']"

definition check_property_holds :: "env \<Rightarrow> params \<Rightarrow> json \<Rightarrow> verdict res" where
  "check_property_holds E expected result =
     (let fr = float_repr E; prop = arg ''expected_property'' expected in
      if prop = JStr ''verifier_decision_identical_across_attempts'' then
        bindE (j_get result ''attempt_verifier_decisions'' JNull) (\<lambda>ds.
        let decisions = py_or ds (JList []) in
        bindE (py_iter decisions) (\<lambda>xs.
        if length xs < 2 then Inr (refuse (''need >=2 attempts, saw '' @ show_nat (length xs)))
        else bindE (j_nth decisions 0) (\<lambda>d0.
          if list_all (\<lambda>d. py_eq d d0) xs then Inr accept
          else Inr (refuse (''decisions varied: '' @ py_str fr decisions)))))
      else if prop = JStr ''attestation_attempt_entries_match_attempt_count'' then
        bindE (j_get result ''attestation_attempts'' JNull) (\<lambda>attempt_count.
        bindE (j_get result ''event_types'' JNull) (\<lambda>ev.
        bindE (py_iter (py_or ev (JList []))) (\<lambda>event_types.
        let n = length (filter (\<lambda>t. py_eq t (JStr ''attestation_attempt'')) event_types) in
        if py_eq attempt_count (JInt (int n)) \<and> n > 0 then Inr accept
        else Inr (refuse (''attempt entries='' @ show_nat n @ '', attestation_attempts='' @ py_str fr attempt_count)))))
      else Inr (refuse (''unknown property: '' @ py_repr fr prop)))"

text \<open>
  \<open>_check_expected\<close> on the result and the error of the reply. \<open>matches_payload\<close> is the comparison two
  of the criteria make.
\<close>

definition matches_payload :: "env \<Rightarrow> params \<Rightarrow> json \<Rightarrow> string \<Rightarrow> string \<Rightarrow> string \<Rightarrow> verdict res" where
  "matches_payload E expected result entry want_key k =
     bindE (j_get (py_or result (JDict [])) entry JNull) (\<lambda>p.
     bindE (j_get (py_or p (JDict [])) k JNull) (\<lambda>got.
     let want = arg want_key expected in
     if \<not> py_eq want got then
       Inr (refuse (k @ '': want '' @ py_repr (float_repr E) want @ '', got '' @ py_repr (float_repr E) got))
     else Inr accept))"

definition check_expected :: "env \<Rightarrow> params \<Rightarrow> json \<Rightarrow> json \<Rightarrow> verdict res" where
  "check_expected E expected result error =
     (let fr = float_repr E;
          has = (\<lambda>k. k \<in> fst ` set expected);
          got_code = (\<lambda>pre f. bindE (j_get error ''code'' JNull) (\<lambda>c. Inr (refuse (pre @ f c))))
      in
      if has ''error_code'' then
        bindE (j_get (py_or error (JDict [])) ''code'' JNull) (\<lambda>code.
        if \<not> py_eq code (arg ''error_code'' expected) then
          Inr (refuse (''expected error code '' @ py_str fr (arg ''error_code'' expected) @ '', got '' @ py_repr fr code))
        else Inr accept)
      else if has ''result_keys'' then
        if truthy error then
          bindE (j_get error ''code'' JNull) (\<lambda>c.
          bindE (j_get error ''message'' JNull) (\<lambda>m.
          Inr (refuse (''expected success with keys, got error code '' @ py_str fr c @ '': '' @ py_str fr m))))
        else
          bindE (py_iter (arg ''result_keys'' expected)) (\<lambda>keys.
          bindE (first_absent keys (py_or result (JDict []))) (\<lambda>miss.
          case miss of Some k \<Rightarrow> Inr (refuse (''missing result key: '' @ py_repr fr k)) | None \<Rightarrow> Inr accept))
      else if has ''exact_result'' then
        Inr (if \<not> py_eq result (arg ''exact_result'' expected) then refuse ''result mismatch'' else accept)
      else if has ''verifier_decision'' then
        bindE (j_get (py_or result (JDict [])) ''verifier_decision'' JNull) (\<lambda>actual.
        if \<not> py_eq actual (arg ''verifier_decision'' expected) then
          Inr (refuse (''expected verifier_decision='' @ py_repr fr (arg ''verifier_decision'' expected) @
            '', got '' @ py_repr fr actual))
        else Inr accept)
      else if has ''accepts_post'' then
        if truthy (arg ''accepts_post'' expected) \<and> truthy error then got_code ''expected accept, got error '' (py_str fr)
        else if \<not> truthy (arg ''accepts_post'' expected) \<and> \<not> truthy error then Inr (refuse ''expected refusal, got accept'')
        else Inr accept
      else if has ''audit_entries_contain'' then
        if truthy error then got_code ''expected audit observe success, got error '' (py_str fr)
        else
          bindE (j_get (py_or result (JDict [])) ''event_types'' JNull) (\<lambda>ev.
          bindE (py_set (py_or ev (JList []))) (\<lambda>event_types.
          bindE (py_iter (arg ''audit_entries_contain'' expected)) (\<lambda>wanted.
          bindE (filterE (\<lambda>t. if hashable t then Inr (\<not> eq_in t event_types) else Inl TypeError) wanted) (\<lambda>missing.
          Inr (if missing \<noteq> [] then refuse (''audit chain missing event types: '' @ py_repr fr (JList missing)) else accept)))))
      else if has ''property_holds'' then
        if truthy error then got_code ''expected audit observe success, got error '' (py_str fr)
        else check_property_holds E expected (py_or result (JDict []))
      else if has ''task_completed_accounting_ref_matches'' then
        matches_payload E expected result ''task_completed_payload'' ''expected_accounting_ref'' ''accounting_ref''
      else if has ''task_voided_attempts_used_matches'' then
        matches_payload E expected result ''task_voided_payload'' ''expected_attempts_used'' ''attempts_used''
      else if has ''audit_chain_entry_carries_continuation_of'' then
        bindE (j_get (py_or result (JDict [])) ''entries'' JNull) (\<lambda>es.
        bindE (py_iter (py_or es (JList []))) (\<lambda>entries.
        bindE (carries_continuation entries) (\<lambda>b.
        Inr (if b then accept else refuse ''no task_posted entry carries continuation_of''))))
      else
        let deferred_hits = filter has (sort deferred_validators) in
        Inr (if deferred_hits \<noteq> [] then
               refuse (''REQUIRES_FIXTURE: runner does not yet evaluate '' @ comma_join deferred_hits)
             else refuse ''no expected criterion defined''))"

subsection \<open>Running cases\<close>

fun dict_items :: "json \<Rightarrow> params res" where
  "dict_items (JDict d) = Inr d"
| "dict_items _ = Inl AttributeError"

text \<open>The setup steps of a case: \<open>Inl\<close> is the early return of a failed result, \<open>Inr\<close> the context after them.\<close>

fun run_setup ::
  "env \<Rightarrow> 's target \<Rightarrow> identities \<Rightarrow> test_case \<Rightarrow> nat \<Rightarrow> json list \<Rightarrow> params \<Rightarrow> ('s runner, test_result + params) py" where
  "run_setup E call ids c idx [] ctx = ret (Inr ctx)"
| "run_setup E call ids c idx (step # steps) ctx =
     bindS (lift (j_get step ''method'' JNull)) (\<lambda>m.
     bindS (lift (j_get step ''params'' (JDict []))) (\<lambda>template.
     bindS (walk E ids ctx template) (\<lambda>p.
     bindS (lift (j_get step ''save_as'' (JStr (''step'' @ show_nat idx)))) (\<lambda>save_as.
     bindS (target_call call m p) (\<lambda>reply.
     case reply of
       Failed code msg dat \<Rightarrow>
         bindS (lift (j_get step ''ignore_error'' JNull)) (\<lambda>ignore.
         if truthy ignore then run_setup E call ids c (Suc idx) steps ctx
         else ret (Inl \<lparr>tr_id = tc_id c, tr_level = tc_level c, tr_passed = False,
           tr_reason = Some (''setup step '' @ py_repr (float_repr E) save_as @ '' failed: '' @ py_str (float_repr E) code @
             '' '' @ py_str (float_repr E) msg),
           tr_response = JNull, tr_error = JDict [(''code'', code), (''message'', msg)]\<rparr>))
     | Resolved v \<Rightarrow>
         bindS (lift (dict_items (py_or v (JDict [])))) (\<lambda>items.
         run_setup E call ids c (Suc idx) steps
           (foldl (\<lambda>cx (k, x). dict_set (''step.'' @ py_str (float_repr E) save_as @ ''.'' @ k) x cx) ctx items)))))))"

definition run_case :: "env \<Rightarrow> 's target \<Rightarrow> identities \<Rightarrow> params \<Rightarrow> test_case \<Rightarrow> ('s runner, test_result) py" where
  "run_case E call ids ctx c =
     bindS (run_setup E call ids c 0 (tc_setup_steps c) ctx) (\<lambda>setup.
     case setup of
       Inl failed \<Rightarrow> ret failed
     | Inr case_ctx \<Rightarrow>
         bindS (walk E ids case_ctx (tc_params_template c)) (\<lambda>p.
         bindS (target_call call (tc_method c) p) (\<lambda>reply.
         let result = (case reply of Resolved v \<Rightarrow> v | Failed _ _ _ \<Rightarrow> JNull);
             error = (case reply of Resolved _ \<Rightarrow> JNull
               | Failed code msg dat \<Rightarrow> JDict [(''code'', code), (''message'', msg), (''data'', dat)])
         in
         bindS (lift (check_expected E (tc_expected c) result error)) (\<lambda>(outcome_ok, reason).
         ret \<lparr>tr_id = tc_id c, tr_level = tc_level c, tr_passed = outcome_ok,
              tr_reason = (if outcome_ok then None else reason), tr_response = result, tr_error = error\<rparr>))))"

definition run_context :: "sdk_identity \<Rightarrow> sdk_identity \<Rightarrow> sdk_identity \<Rightarrow> string \<Rightarrow> string \<Rightarrow> params" where
  "run_context worker agent self_worker u now =
     [(''worker_did'', JStr (i_did worker)), (''worker_pubkey_b64'', JStr (i_public_key_b64url worker)),
      (''agent_did'', JStr (i_did agent)), (''self_worker_did'', JStr (i_did self_worker)),
      (''self_worker_pubkey_b64'', JStr (i_public_key_b64url self_worker)), (''uuid'', JStr u),
      (''schema_version'', JStr ''wcp/0.2''), (''now_iso'', JStr now)]"

definition bundle_cases :: "json \<Rightarrow> test_case list res" where
  "bundle_cases bundle = bindE (bindE (j_get bundle ''cases'' (JList [])) py_iter) (mapE case_from_dict)"

definition run_level ::
  "env \<Rightarrow> 's target \<Rightarrow> string \<Rightarrow> sdk_identity \<Rightarrow> sdk_identity \<Rightarrow> sdk_identity \<Rightarrow> int \<Rightarrow> json \<Rightarrow>
   ('s runner, conformance_report) py" where
  "run_level E call url worker agent self_worker level bundle =
     bindS (lift (bundle_cases bundle)) (\<lambda>cases.
     bindS (runner_uuid E) (\<lambda>u.
     bindS (runner_now E) (\<lambda>now.
     bindS (runner_now E) (\<lambda>stamp.
     let ids = [(''worker'', worker), (''agent'', agent), (''self_worker'', self_worker)];
         ctx = run_context worker agent self_worker u (isoformat E now)
     in
     bindS (mapS (run_case E call ids ctx) (filter (\<lambda>c. \<not> tc_level c > level) cases)) (\<lambda>results.
     let report = \<lparr>cr_target_url = url, cr_schema_version = ''wcp/0.2'', cr_level_requested = level, cr_level_passed = 0,
           cr_timestamp = isoformat E stamp, cr_suite_version = ''1.0.0rc1'', cr_results = results\<rparr>
     in ret (report\<lparr>cr_level_passed := (if passed_count report = report_total report then level else 0)\<rparr>))))))"

text \<open>The exit code of the command; \<open>None\<close> is a bundle file that does not exist.\<close>

definition cli_exit :: "int \<Rightarrow> conformance_report option \<Rightarrow> int" where
  "cli_exit level report =
     (if level \<notin> {1, 2, 3} then 2
      else case report of
        None \<Rightarrow> 2
      | Some r \<Rightarrow> if cr_level_passed r = level then 0 else 1)"

end
