(* ===== verification/Conformance_Interop.thy ===== *)
theory Conformance_Interop
  imports Conformance Sdk_Interop
begin

text \<open>
  What a report of the conformance runner says: which cases a report covers and when a level is
  passed, what a passed case says of the implementation under test, and that the payloads the
  runner signs are the ones a coordinator accepts.
\<close>

subsection \<open>Results of cases\<close>

lemma target_call_ok [simp]:
  "target_call call m p r = (Inr v, t) \<longleftrightarrow>
     (\<exists>s. call m (py_or p (JDict [])) (rn_target r) = (v, s) \<and> t = r\<lparr>rn_target := s\<rparr>)"
  by (auto simp: target_call_def split: prod.splits)

lemma setup_failure:
  "run_setup E call ids c idx steps ctx r = (Inr (Inl res), t) \<Longrightarrow>
     tr_id res = tc_id c \<and> tr_level res = tc_level c \<and> \<not> tr_passed res"
proof (induction steps arbitrary: idx ctx r)
  case (Cons step steps)
  from Cons.prems show ?case
    apply clarsimp
    subgoal for m template p u save_as reply
      by (cases reply) (auto split: if_split_asm dest: Cons.IH)
    done
qed simp

text \<open>How a case is answered: by a failed setup step, or by the verdict on the reply to its own call.\<close>

definition reply_result :: "reply \<Rightarrow> json" where
  "reply_result reply = (case reply of Resolved v \<Rightarrow> v | Failed _ _ _ \<Rightarrow> JNull)"

definition reply_error :: "reply \<Rightarrow> json" where
  "reply_error reply = (case reply of Resolved _ \<Rightarrow> JNull
     | Failed code msg dat \<Rightarrow> JDict [(''code'', code), (''message'', msg), (''data'', dat)])"

lemma run_case_cases:
  assumes "run_case E call ids ctx c r = (Inr res, t)"
  shows "tr_id res = tc_id c \<and> tr_level res = tc_level c \<and> (tr_passed res \<longrightarrow>
    (\<exists>p s reply reason. call (tc_method c) (py_or p (JDict [])) s = (reply, rn_target t) \<and>
       check_expected E (tc_expected c) (reply_result reply) (reply_error reply) = Inr (True, reason)))"
proof -
  from assms obtain x u where x: "run_setup E call ids c 0 (tc_setup_steps c) ctx r = (Inr x, u)"
    and fin: "(case x of Inl failed \<Rightarrow> ret failed
     | Inr case_ctx \<Rightarrow>
         bindS (walk E ids case_ctx (tc_params_template c)) (\<lambda>p.
         bindS (target_call call (tc_method c) p) (\<lambda>reply.
         bindS (lift (check_expected E (tc_expected c) (reply_result reply) (reply_error reply))) (\<lambda>(outcome_ok, reason).
         ret \<lparr>tr_id = tc_id c, tr_level = tc_level c, tr_passed = outcome_ok,
              tr_reason = (if outcome_ok then None else reason), tr_response = reply_result reply, tr_error = reply_error reply\<rparr>)))) u =
      (Inr res, t)"
    unfolding run_case_def Let_def reply_result_def reply_error_def by auto
  show ?thesis
  proof (cases x)
    case (Inl failed)
    with x fin setup_failure show ?thesis by fastforce
  next
    case (Inr case_ctx)
    from fin obtain p reply s ok reason where
      "call (tc_method c) (py_or p (JDict [])) s = (reply, rn_target t)"
      "check_expected E (tc_expected c) (reply_result reply) (reply_error reply) = Inr (ok, reason)"
      "tr_id res = tc_id c" "tr_level res = tc_level c" "tr_passed res = ok"
      unfolding Inr by auto
    then show ?thesis by metis
  qed
qed


text \<open>
  C36: A report of run_level covers exactly the cases of the bundle whose level is at most the one
  requested, in their order; the level counts as passed when every one of them passed, and
  the command exits with 0 exactly then (for the levels 1 to 3).
\<close>

theorem level_report_spec:
  assumes "run_level E call url worker agent self_worker level bundle r = (Inr rep, t)"
  shows "\<exists>cases. bundle_cases bundle = Inr cases \<and>
    map tr_id (cr_results rep) = map tc_id (filter (\<lambda>c. tc_level c \<le> level) cases) \<and>
    cr_level_passed rep = (if list_all tr_passed (cr_results rep) then level else 0) \<and>
    (cli_exit level (Some rep) = 0 \<longleftrightarrow> level \<in> {1, 2, 3} \<and> list_all tr_passed (cr_results rep))"
proof -
  have count: "length (filter tr_passed xs) = length xs \<longleftrightarrow> list_all tr_passed xs" for xs
    by (metis filter_True filter_id_conv length_filter_less less_irrefl list_all_iff)
  from assms obtain cases ids ctx results u v where
    c: "bundle_cases bundle = Inr cases"
    and run: "mapS (run_case E call ids ctx) (filter (\<lambda>c. \<not> tc_level c > level) cases) u = (Inr results, v)"
    and rep: "cr_results rep = results"
      "cr_level_passed rep = (if length (filter tr_passed results) = length results then level else 0)"
    unfolding run_level_def Let_def by (auto simp: passed_count_def report_total_def)
  from mapS_list_all2 [OF run] have "list_all2 (\<lambda>c res. tr_id res = tc_id c) (filter (\<lambda>c. tc_level c \<le> level) cases) results"
    unfolding not_less by (rule list_all2_mono) (use run_case_cases in blast)
  then have "map tr_id results = map tc_id (filter (\<lambda>c. tc_level c \<le> level) cases)"
    by (simp add: list_all2_conv_all_nth list_eq_iff_nth_eq)
  with c rep count show ?thesis by (auto simp: cli_exit_def)
qed

text \<open>Templates without placeholders and generators are left as they are, and nothing is drawn for them.\<close>

fun plain :: "json \<Rightarrow> bool" where
  "plain (JDict d) \<longleftrightarrow> (\<forall>k \<in> fst ` set d. k \<notin> {''_make_acceptance'', ''_make_evidence'', ''_make_capability''}) \<and>
     (\<forall>v \<in> snd ` set d. plain v)"
| "plain (JList xs) \<longleftrightarrow> (\<forall>x \<in> set xs. plain x)"
| "plain (JStr s) \<longleftrightarrow> \<not> (startswith s ''{{'' \<and> endswith s ''}}'') \<and> py_find ''{{uuid}}'' s = None"
| "plain _ \<longleftrightarrow> True"

lemma walk_plain:
  "plain j \<Longrightarrow> walk E ids ctx j r = (Inr j, r)"
  "(\<forall>v \<in> snd ` set d. plain v) \<Longrightarrow> k \<in> fst ` set d \<Longrightarrow> walk_item E ids ctx k d r = (Inr (the (map_of d k)), r)"
  "(\<forall>v \<in> snd ` set d. plain v) \<Longrightarrow> walk_dict E ids ctx d r = (Inr d, r)"
  "(\<forall>x \<in> set xs. plain x) \<Longrightarrow> walk_list E ids ctx xs r = (Inr xs, r)"
proof (induction E ids ctx j and E ids ctx k d and E ids ctx d and E ids ctx xs arbitrary: r and r and r and r
    rule: walk_walk_item_walk_dict_walk_list.induct)
  case (1 E ids ctx d)
  then show ?case by (auto simp: bindS_def ret_def)
qed (auto simp: walk_string_def bindS_def ret_def)

subsection \<open>A coordinator under test\<close>

text \<open>The reference coordinator as a target: a WebSocket message and its reply.\<close>

fun reply_of :: "json \<Rightarrow> reply" where
  "reply_of (JDict d) =
     (case map_of d ''error'' of
        Some (JDict e) \<Rightarrow> Failed (arg ''code'' e) (arg ''message'' e) (arg ''data'' e)
      | _ \<Rightarrow> Resolved (arg ''result'' d))"
| "reply_of j = Resolved j"

definition coordinator_target :: "env \<Rightarrow> db target" where
  "coordinator_target E m p s =
     (case ws_message E (Some (JDict [(''jsonrpc'', JStr ''2.0''), (''id'', JInt 1), (''method'', m), (''params'', p)])) s of
        (Send data, t) \<Rightarrow> (reply_of data, t)
      | (Close, t) \<Rightarrow> (Resolved JNull, t))"

lemma coordinator_target_run:
  "coordinator_target E m (py_or p (JDict [])) s =
     (case dispatch E m (py_or p (JDict [])) s of (out, t) \<Rightarrow>
        (case out of
           Result r \<Rightarrow> if fst (db_commit s t) then (Resolved r, snd (db_commit s t))
             else (Failed (JInt INTERNAL_ERROR) (JStr ''Internal error: IntegrityError: '') JNull, snd (db_commit s t))
         | RpcError code msg \<Rightarrow> (Failed (JInt code) (JStr msg) JNull, db_rollback s t)
         | Raised e \<Rightarrow> (Failed (JInt INTERNAL_ERROR) (JStr (''Internal error: '' @ exc_name e @ '': '' @ exc_message e)) JNull,
             db_rollback s t)))"
proof -
  have "py_or (py_or p (JDict [])) (JDict []) = py_or p (JDict [])" by (simp add: py_or_def)
  then show ?thesis
    by (auto simp: coordinator_target_def ws_message_def arg_def Let_def result_body_def split: prod.splits rpc_outcome.splits)
qed

lemma error_code_expected:
  assumes "check_expected E expected result error = Inr (True, reason)" "map_of expected ''error_code'' = Some j"
  shows "\<exists>code. j_get (py_or error (JDict [])) ''code'' JNull = Inr code \<and> py_eq code j"
proof -
  have "''error_code'' \<in> fst ` set expected" using assms(2) by (metis domI dom_map_of_conv_image_fst)
  with assms show ?thesis
    by (auto simp: check_expected_def Let_def arg_def refuse_def split: if_splits)
qed

text \<open>
  C37: A case that expects an error code other than the internal one and passes against the
  reference coordinator is a proof about it: after the setup steps some call of the case's
  method was refused by the dispatcher with exactly that code, and left the tables alone.
\<close>

theorem error_code_certified:
  assumes "run_case E (coordinator_target E') ids ctx c r = (Inr res, t)" "tr_passed res"
    and "map_of (tc_expected c) ''error_code'' = Some (JInt code)" "code \<noteq> INTERNAL_ERROR"
  shows "\<exists>p s u msg. dispatch E' (tc_method c) p s = (RpcError code msg, u) \<and> rn_target t = db_rollback s u"
proof -
  from run_case_cases [OF assms(1)] assms(2) obtain p s reply reason where
    call: "coordinator_target E' (tc_method c) (py_or p (JDict [])) s = (reply, rn_target t)"
    and ok: "check_expected E (tc_expected c) (reply_result reply) (reply_error reply) = Inr (True, reason)"
    by blast
  from error_code_expected [OF ok assms(3)] have "\<exists>msg dat. reply = Failed (JInt code) msg dat \<or>
      (\<exists>x. reply = Failed x msg dat \<and> py_eq x (JInt code))"
    by (cases reply) (auto simp: reply_error_def py_or_def py_eq_def)
  with call assms(4) obtain u msg where
    "dispatch E' (tc_method c) (py_or p (JDict [])) s = (RpcError code msg, u)" "rn_target t = db_rollback s u"
    by (auto simp: coordinator_target_run py_eq_def split: prod.splits rpc_outcome.splits if_splits)
  then show ?thesis by blast
qed


subsection \<open>The payloads the runner signs\<close>

text \<open>The params of \<open>tasks/claim\<close> as the bundles of levels 2 and 3 write them.\<close>

definition suite_eta :: string where
  "suite_eta = ''2026-06-01T10:00:00Z''"

definition suite_claim :: json where
  "suite_claim = JDict [(''task_id'', JStr ''{{step.post.task_id}}''), (''worker_id'', JStr ''{{worker_did}}''),
     (''eta'', JStr suite_eta),
     (''acceptance_attestation'', JDict [(''_make_acceptance'', JDict
        [(''task_id'', JStr ''{{step.post.task_id}}''), (''worker'', JStr ''worker'')])])]"

lemma walk_strings:
  "map_of ctx ''step.post.task_id'' = Some v \<Longrightarrow> walk_string E ctx ''{{step.post.task_id}}'' r = (Inr v, r)"
  "map_of ctx ''worker_did'' = Some w \<Longrightarrow> walk_string E ctx ''{{worker_did}}'' r = (Inr w, r)"
  "walk_string E ctx ''worker'' r = (Inr (JStr ''worker''), r)"
  "walk_string E ctx suite_eta r = (Inr (JStr suite_eta), r)"
  by (simp_all add: walk_string_def startswith_def endswith_def py_strip_def py_space_def Let_def suite_eta_def ret_def)

lemma acceptance_made:
  assumes "map_of ids ''worker'' = Some i"
  shows "\<exists>signed_at r'. make_signed_acceptance E ids (JDict [(''task_id'', JStr tid), (''worker'', JStr ''worker'')]) r =
    (Inr (JDict [(''sig'', JStr (identity_sign E i (acceptance_json tid (i_did i) suite_eta None (JStr zero_hash) (JStr signed_at)))),
       (''alg'', JStr ''Ed25519''), (''payload_hash'', JStr zero_hash), (''signed_at'', JStr signed_at)]), r') \<and>
    signed_at = isoformat E (Aware (clock E (rn_now r)) 0) \<and> rn_target r' = rn_target r"
  using assms
  by (simp add: make_signed_acceptance_def lookup_identity_def time_or_now_def runner_now_def acceptance_json_def opt_str_def
      suite_eta_def Let_def ret_def gets_def modify_def bindS_def lift_def)

text \<open>
  The claim of the conformance bundles is accepted: filled in by the runner for a task the
  bundle posted, with the runner's worker registered, the template of tasks/claim becomes
  params that the coordinator answers with a claim, signature check included.
\<close>

theorem runner_claim_accepted:
  assumes id: "identity_from_sk E sk = Inr i" "sig_correct E" "inj (uuid4 E)" "ids_fresh E (rn_target r)"
    and iso: "parse_iso E suite_eta = Inr d" "\<forall>x. isoformat E x \<noteq> []"
    and ctx: "map_of ids ''worker'' = Some i" "map_of ctx ''step.post.task_id'' = Some (JStr tid)"
      "map_of ctx ''worker_did'' = Some (JStr (i_did i))"
    and task: "get_task (rn_target r) tid = Some task" "t_state task = POSTED"
      "clock E (n_now (rn_target r)) \<le> utc_us (t_expiry task)" "unclaimed (rn_target r) tid"
    and worker: "get_worker (rn_target r) (i_did i) = Some w" "self_dealing_check task w = Inr ()"
  shows "\<exists>p r' v s. walk E ids ctx suite_claim r = (Inr p, r') \<and> rn_target r' = rn_target r \<and>
    dispatch E (JStr ''tasks/claim'') p (rn_target r') = (Result v, s)"
proof -
  let ?spec = "JDict [(''task_id'', JStr tid), (''worker'', JStr ''worker'')]"
  from acceptance_made [OF ctx(1), of E tid r] obtain sa r' acc where
    acc: "make_signed_acceptance E ids ?spec r = (Inr (JDict acc), r')" "rn_target r' = rn_target r"
      "acc = [(''sig'', JStr (identity_sign E i (acceptance_json tid (i_did i) suite_eta None (JStr zero_hash) (JStr sa)))),
       (''alg'', JStr ''Ed25519''), (''payload_hash'', JStr zero_hash), (''signed_at'', JStr sa)]" "sa \<noteq> []"
    using iso(2) by blast
  let ?p = "[(''task_id'', JStr tid), (''worker_id'', JStr (i_did i)), (''eta'', JStr suite_eta),
      (''acceptance_attestation'', JDict acc)]"
  have walked: "walk E ids ctx suite_claim r = (Inr (JDict ?p), r')"
    using acc(1)
    by (simp add: suite_claim_def bindS_def walk_strings(1) [OF ctx(2)] walk_strings(2) [OF ctx(3)] walk_strings(3,4) ret_def
        del: bindS_Inr)
  obtain rd where rd: "did_resolve (i_did i) = Inr rd" using identity_ok [OF id(1)] by blast
  have "identity_sign E i x \<noteq> []" for x by (simp add: identity_sign_def)
  then have "check_acceptance E tid (i_did i) suite_eta (JDict acc) None = Inr ()"
    using identity_accepted [OF id(1,2) rd] rd acc(3,4)
    by (simp add: check_acceptance_def unauthenticated_def zero_hash_def)
  from claim_enabled [OF task(1-3) worker this task(4) iso(1) id(4,3)] obtain v s where
    "task_claim E tid (i_did i) suite_eta (JDict acc) None (rn_target r) = (Inr v, s)" by blast
  then have "dispatch E (JStr ''tasks/claim'') (JDict ?p) (rn_target r) = (Result v, s)"
    by (simp add: dispatch_def methods_def py_or_def rpc_tasks_claim_def check_kwargs_def str_arg_def arg_def)
  with walked acc(2) show ?thesis by auto
qed


subsection \<open>Concrete runs\<close>

definition suite_env :: env where
  "suite_env = sample_env\<lparr>fromisoformat := (\<lambda>s. Some (Aware 0 0))\<rparr>"

definition refused_case :: json where
  "refused_case = JDict [(''id'', JStr ''L1-1''), (''level'', JInt 1), (''method'', JStr ''no/such''),
     (''expected'', JDict [(''error_code'', JInt METHOD_NOT_FOUND)])]"

definition refused_bundle :: json where
  "refused_bundle = JDict [(''cases'', JList [refused_case, JDict [(''id'', JStr ''L3-1''), (''level'', JInt 3), (''method'', JStr ''x'')]])]"

definition sample_runner :: "db \<Rightarrow> db runner" where
  "sample_runner s = \<lparr>rn_target = s, rn_uuid = 0, rn_now = 0\<rparr>"

definition refused_test :: test_case where
  "refused_test = \<lparr>tc_id = JStr ''L1-1'', tc_description = JStr [], tc_level = 1, tc_method = JStr ''no/such'',
     tc_params_template = JDict [], tc_expected = [(''error_code'', JInt METHOD_NOT_FOUND)], tc_setup_fixtures = [],
     tc_setup_steps = []\<rparr>"

lemma refused_cases: "\<exists>c. bundle_cases refused_bundle = Inr [refused_test, c] \<and> tc_level c = 3"
  by (simp add: bundle_cases_def refused_bundle_def case_from_dict_def refused_case_def refused_test_def)

lemma refused_run:
  "\<exists>res t. run_case sample_env (coordinator_target sample_env) ids ctx refused_test \<lparr>rn_target = empty_db, rn_uuid = a, rn_now = b\<rparr> =
     (Inr res, t) \<and> tr_passed res"
  by (simp add: refused_test_def run_case_def bindS_def ret_def target_call_def lift_def
      coordinator_target_def ws_message_def dispatch_def methods_def arg_def py_or_def Let_def check_expected_def accept_def
      del: bindS_Inr)

theorem error_code_certified_witness:
  "\<exists>p s u msg. dispatch sample_env (tc_method refused_test) p s = (RpcError METHOD_NOT_FOUND msg, u)"
proof -
  obtain res t where r: "run_case sample_env (coordinator_target sample_env) [] [] refused_test
      \<lparr>rn_target = empty_db, rn_uuid = 0, rn_now = 0\<rparr> = (Inr res, t)" "tr_passed res"
    using refused_run by blast
  have "map_of (tc_expected refused_test) ''error_code'' = Some (JInt METHOD_NOT_FOUND)" "METHOD_NOT_FOUND \<noteq> INTERNAL_ERROR"
    by (simp_all add: refused_test_def METHOD_NOT_FOUND_def INTERNAL_ERROR_def)
  from error_code_certified [OF r this] show ?thesis by blast
qed

theorem level_report_spec_witness:
  "\<exists>rep t. run_level sample_env (coordinator_target sample_env) ''ws://c'' sdk_worker sdk_worker sdk_worker 1 refused_bundle
      (sample_runner empty_db) = (Inr rep, t) \<and> map tr_id (cr_results rep) = [JStr ''L1-1''] \<and> cli_exit 1 (Some rep) = 0"
proof -
  obtain c where c: "bundle_cases refused_bundle = Inr [refused_test, c]" "tc_level c = 3" using refused_cases by blast
  let ?ids = "[(''worker'', sdk_worker), (''agent'', sdk_worker), (''self_worker'', sdk_worker)]"
  let ?ctx = "run_context sdk_worker sdk_worker sdk_worker (uuid4 sample_env 0) (isoformat sample_env (Aware (clock sample_env 0) 0))"
  obtain res t where r: "run_case sample_env (coordinator_target sample_env) ?ids ?ctx refused_test
      \<lparr>rn_target = empty_db, rn_uuid = Suc 0, rn_now = Suc (Suc 0)\<rparr> = (Inr res, t)" "tr_passed res"
    using refused_run by blast
  have "\<exists>rep. run_level sample_env (coordinator_target sample_env) ''ws://c'' sdk_worker sdk_worker sdk_worker 1 refused_bundle
      (sample_runner empty_db) = (Inr rep, t) \<and> cr_results rep = [res]"
    using c r(1) by (simp add: run_level_def runner_uuid_def runner_now_def sample_runner_def bindS_def ret_def gets_def modify_def
        lift_def Let_def refused_test_def del: bindS_Inr sample_simps)
  then obtain rep where rep: "run_level sample_env (coordinator_target sample_env) ''ws://c'' sdk_worker sdk_worker sdk_worker 1
      refused_bundle (sample_runner empty_db) = (Inr rep, t)" "cr_results rep = [res]" by blast
  from level_report_spec [OF rep(1)] c r(2) rep show ?thesis by (auto simp: refused_test_def)
qed

theorem runner_claim_accepted_witness:
  "\<exists>p r' v s. walk suite_env [(''worker'', sdk_worker)] [(''step.post.task_id'', JStr ''T''), (''worker_did'', JStr worker_did)]
      suite_claim (sample_runner run2) = (Inr p, r') \<and> rn_target r' = rn_target (sample_runner run2) \<and>
      dispatch suite_env (JStr ''tasks/claim'') p (rn_target r') = (Result v, s)"
proof (rule runner_claim_accepted [where sk = "sample_key (CHR ''w'')" and i = sdk_worker and tid = "''T''" and d = "Aware 0 0"
      and task = "hd (tasks run2)" and w = "hd (workers run2)"])
  show "identity_from_sk suite_env (sample_key (CHR ''w'')) = Inr sdk_worker"
    using sdk_worker_identity by (simp add: suite_env_def identity_from_sk_def)
  show "ids_fresh suite_env (rn_target (sample_runner run2))"
    using run2_fresh by (simp add: suite_env_def sample_runner_def ids_fresh_def)
  show "\<forall>x. isoformat suite_env x \<noteq> []" by (simp add: suite_env_def, rule allI, case_tac x; simp)
qed (simp_all add: suite_env_def sig_correct_def sample_runner_def run2_tables run1_tables sdk_worker_def self_dealing_check_def
    unclaimed_def parse_iso_def inj_def)

end
