(* ===== verification/Sdk_V2.thy ===== *)
theory Sdk_V2
  imports Robot_Worker "HOL-Library.AList"
begin

text \<open>
  \<open>wcp_sdk/v2/\<close>: the decorator-style \<open>Worker\<close> (\<open>worker.py\<close>), the \<open>Agent\<close> (\<open>agent.py\<close>), the \<open>RobotAgent\<close>
  (\<open>robot_agent.py\<close>) and the registration index \<open>Coordinator\<close> (\<open>coordinator.py\<close>).

  The functions a user registers are arguments: a handler takes the task and may raise, an
  attestation builder takes the claim id and the task and gives a dict or raises. A worker
  process is the state \<open>robot\<close> of the robot worker: its client, the coordinator at the other
  end, its clock and the schedule of the heartbeats the session sends beside it.
\<close>

subsection \<open>Worker\<close>

record v2_capability =
  vc_descriptor_types :: "string list"
  vc_certifications :: "json list"
  vc_attestation_methods_supported :: "string list"
  vc_class_extension :: params
  vc_current_location :: params
  vc_available_windows :: "json list"
  vc_policy_windows :: "json list"

definition default_capability :: v2_capability where
  "default_capability =
     \<lparr>vc_descriptor_types = [], vc_certifications = [],
      vc_attestation_methods_supported = [''sensor-witness'', ''third-party-witness'', ''cryptographic-presence'', ''owner-sign-off''],
      vc_class_extension = [], vc_current_location = [(''venue_id'', JStr ''venue-a''), (''map_id'', JStr ''map-a'')],
      vc_available_windows = [JDict [(''rrule'', JStr ''FREQ=DAILY''), (''timezone'', JStr ''UTC'')]], vc_policy_windows = []\<rparr>"

type_synonym handler_fn = "json \<Rightarrow> unit res"
type_synonym attest_fn = "string \<Rightarrow> json \<Rightarrow> json res"

record v2_worker =
  vw_identity :: sdk_identity
  vw_worker_class :: worker_class
  vw_principal_id :: string
  vw_capability :: v2_capability
  vw_handlers :: "(string \<times> handler_fn) list"
  vw_attesters :: "(attestation_mode \<times> attest_fn) list"

definition new_v2_worker :: "sdk_identity \<Rightarrow> worker_class \<Rightarrow> string \<Rightarrow> v2_worker" where
  "new_v2_worker i cls principal_id =
     \<lparr>vw_identity = i, vw_worker_class = cls, vw_principal_id = principal_id, vw_capability = default_capability,
      vw_handlers = [], vw_attesters = []\<rparr>"

text \<open>\<open>x or default\<close> for an optional sequence.\<close>

definition or_default :: "'a list option \<Rightarrow> 'a list \<Rightarrow> 'a list" where
  "or_default x d = (case x of None \<Rightarrow> d | Some xs \<Rightarrow> if xs = [] then d else xs)"

definition v2_set_capability ::
  "string list \<Rightarrow> json list \<Rightarrow> string list option \<Rightarrow> params option \<Rightarrow> params option \<Rightarrow> json list option \<Rightarrow> json list option \<Rightarrow>
   v2_worker \<Rightarrow> v2_worker" where
  "v2_set_capability descriptor_types certifications methods_supported class_extension current_location available_windows
     policy_windows w =
     (let c = vw_capability w in
      w\<lparr>vw_capability :=
        \<lparr>vc_descriptor_types = descriptor_types, vc_certifications = certifications,
         vc_attestation_methods_supported = or_default methods_supported (vc_attestation_methods_supported c),
         vc_class_extension = or_default class_extension [],
         vc_current_location = or_default current_location (vc_current_location c),
         vc_available_windows = or_default available_windows (vc_available_windows c),
         vc_policy_windows = or_default policy_windows (vc_policy_windows c)\<rparr>\<rparr>)"

definition v2_handle :: "string \<Rightarrow> handler_fn \<Rightarrow> v2_worker \<Rightarrow> v2_worker" where
  "v2_handle descriptor_type fn w = w\<lparr>vw_handlers := AList.update descriptor_type fn (vw_handlers w)\<rparr>"

definition v2_attest :: "attestation_mode \<Rightarrow> attest_fn \<Rightarrow> v2_worker \<Rightarrow> v2_worker" where
  "v2_attest mode fn w = w\<lparr>vw_attesters := AList.update mode fn (vw_attesters w)\<rparr>"

definition v2_descriptor :: "v2_worker \<Rightarrow> capability_descriptor" where
  "v2_descriptor w =
     (let cap = vw_capability w; i = vw_identity w in
      \<lparr>cd_worker_id = i_did i, cd_principal_id = vw_principal_id w, cd_worker_class = vw_worker_class w,
       cd_current_location = vc_current_location cap,
       cd_attestation_methods_supported = vc_attestation_methods_supported cap,
       cd_attestation_keys = [JDict [(''kty'', JStr ''OKP''), (''crv'', JStr ''Ed25519''), (''x'', JStr (i_public_key_b64url i))]],
       cd_available_windows = vc_available_windows cap, cd_certifications = vc_certifications cap,
       cd_policy_windows = vc_policy_windows cap,
       cd_class_extension = dict_set ''wcp_sdk_v2_descriptor_types'' (JList (map JStr (vc_descriptor_types cap))) (vc_class_extension cap),
       cd_as_of = None, cd_schema_version = SCHEMA_VERSION\<rparr>)"

text \<open>\<open>_run_async\<close> once connected: the answer says whether the worker came to serve events.\<close>

definition v2_run :: "env \<Rightarrow> (nat \<Rightarrow> int) \<Rightarrow> v2_worker \<Rightarrow> bool \<Rightarrow> bool robot_run" where
  "v2_run E C w once =
     bindR (robot_now C) (\<lambda>now.
     bindR (robot_call E (publish_capabilities E (vw_identity w) now (v2_descriptor w))) (\<lambda>_.
     retR (\<not> once)))"

text \<open>\<open>stream_handler\<close>: the payload of the events that start a task.\<close>

definition v2_stream_event :: "params \<Rightarrow> json option" where
  "v2_stream_event event =
     (if arg ''event_type'' event = JStr ''task_posted_for_worker'' then
        Some (case map_of event ''payload'' of Some v \<Rightarrow> v | None \<Rightarrow> JDict [])
      else None)"

subsection \<open>One dispatched task\<close>

text \<open>A beat of the session's \<open>_heartbeat_loop\<close>.\<close>

definition session_beat :: "env \<Rightarrow> (nat \<Rightarrow> int) \<Rightarrow> sdk_identity \<Rightarrow> string \<Rightarrow> robot \<Rightarrow> robot" where
  "session_beat E C i claim_id r = snd (bindR (robot_now C) (\<lambda>ts. robot_call E (heartbeat E i ts claim_id)) r)"

fun to_str :: "json \<Rightarrow> string res" where
  "to_str (JStr s) = Inr s"
| "to_str _ = Inl AnnotationMismatch"

text \<open>
  Where the code awaits what a user's function gives, beats of the session get in; none for a
  function that is not a coroutine.
\<close>

definition awaited :: "(robot \<Rightarrow> robot) \<Rightarrow> 'a robot_run \<Rightarrow> 'a robot_run" where
  "awaited B m r = m (beats_now B r)"

definition build_piece ::
  "env \<Rightarrow> (nat \<Rightarrow> int) \<Rightarrow> sdk_identity \<Rightarrow> string \<Rightarrow> json \<Rightarrow> attestation_mode \<times> attest_fn \<Rightarrow> attestation_evidence robot_run" where
  "build_piece E C i claim_id task a =
     bindR (awaited (session_beat E C i claim_id) (liftR (snd a claim_id task))) (\<lambda>built.
     bindR (liftR (bindE (j_item built ''kind'') to_str)) (\<lambda>kind.
     bindR (liftR (bindE (j_item built ''payload'') to_dict)) (\<lambda>payload.
     bindR (robot_now C) (\<lambda>now.
     retR (build_evidence E i now claim_id (fst a) kind payload None)))))"

fun build_pieces ::
  "env \<Rightarrow> (nat \<Rightarrow> int) \<Rightarrow> sdk_identity \<Rightarrow> string \<Rightarrow> json \<Rightarrow> (attestation_mode \<times> attest_fn) list \<Rightarrow> attestation_evidence list robot_run" where
  "build_pieces E C i claim_id task [] = retR []"
| "build_pieces E C i claim_id task (a # as) =
     bindR (build_piece E C i claim_id task a) (\<lambda>e.
     bindR (build_pieces E C i claim_id task as) (\<lambda>es. retR (e # es)))"

text \<open>
  \<open>_execute_full_lifecycle\<close>: claim, open, run the handler, build the evidence, attest. The answer is
  the reply to the attestation; \<open>None\<close> when the task was ignored, the claim refused, or no
  evidence was built. The session's heartbeats start with the opening and are not cancelled
  at the end. \<open>run_claimed\<close> is the part after the claim.
\<close>

definition run_claimed ::
  "env \<Rightarrow> (nat \<Rightarrow> int) \<Rightarrow> v2_worker \<Rightarrow> handler_fn \<Rightarrow> json \<Rightarrow> string \<Rightarrow> json option robot_run" where
  "run_claimed E C w handler task claim_id =
     (let B = session_beat E C (vw_identity w) claim_id in
      bindR (robot_call E (sdk_execute_open claim_id)) (\<lambda>_.
      bindR (awaited B (liftR (handler task))) (\<lambda>_.
      bindR (build_pieces E C (vw_identity w) claim_id task (vw_attesters w)) (\<lambda>evidence.
      if evidence = [] then retR None
      else
        bindR (awaited B (robot_call E (sdk_attest claim_id evidence None))) (\<lambda>result.
        awaited B (retR (Some result)))))))"

definition full_lifecycle :: "env \<Rightarrow> (nat \<Rightarrow> int) \<Rightarrow> v2_worker \<Rightarrow> params \<Rightarrow> json option robot_run" where
  "full_lifecycle E C w disp =
     (let task_id = arg ''task_id'' disp;
          task = py_or (arg ''task'' disp) (JDict [])
      in
      bindR (liftR (j_get task ''descriptor_type'' JNull)) (\<lambda>descriptor_type.
      if \<not> hashable descriptor_type then (\<lambda>r. (Inl (Python TypeError), r))
      else case (case descriptor_type of JStr d \<Rightarrow> map_of (vw_handlers w) d | _ \<Rightarrow> None) of
        None \<Rightarrow> retR None
      | Some handler \<Rightarrow>
          bindR (robot_now C) (\<lambda>eta.
          bindR (liftR (to_str task_id)) (\<lambda>tid.
          bindR (robot_now C) (\<lambda>signed_at r.
          case robot_call E (sdk_claim E (vw_identity w) signed_at tid (isoformat E eta) None) r of
            (Inl (WcpRpcError code msg dat), t) \<Rightarrow> (Inr None, t)
          | (Inl e, t) \<Rightarrow> (Inl e, t)
          | (Inr claim, t) \<Rightarrow>
              bindR (liftR (bindE (j_item claim ''claim_id'') to_str)) (run_claimed E C w handler task) t)))))"

subsection \<open>Agent\<close>

text \<open>
  The state an agent keeps: whether it has a session, the registered task builder and the
  capability handlers with their filters. Nothing of the class calls either.
\<close>

record ('b, 'h) v2_agent =
  va_entered :: bool
  va_task_builder :: "'b option"
  va_capability_handlers :: "(params option \<times> 'h) list"

definition new_v2_agent :: "('b, 'h) v2_agent" where
  "new_v2_agent = \<lparr>va_entered = False, va_task_builder = None, va_capability_handlers = []\<rparr>"

definition v2_task_builder :: "'b \<Rightarrow> ('b, 'h) v2_agent \<Rightarrow> ('b, 'h) v2_agent" where
  "v2_task_builder fn a = a\<lparr>va_task_builder := Some fn\<rparr>"

definition on_capability :: "params option \<Rightarrow> 'h \<Rightarrow> ('b, 'h) v2_agent \<Rightarrow> ('b, 'h) v2_agent" where
  "on_capability filter_dict fn a = a\<lparr>va_capability_handlers := va_capability_handlers a @ [(filter_dict, fn)]\<rparr>"

definition agent_aenter :: "('b, 'h) v2_agent \<Rightarrow> ('b, 'h) v2_agent" where
  "agent_aenter a = a\<lparr>va_entered := True\<rparr>"

definition agent_aexit :: "('b, 'h) v2_agent \<Rightarrow> ('b, 'h) v2_agent" where
  "agent_aexit a = (if va_entered a then a\<lparr>va_entered := False\<rparr> else a)"

text \<open>
  A call of the agent, given \<open>va_entered\<close>: outside \<open>async with\<close> there is no session and it raises.
\<close>

definition need_session :: "bool \<Rightarrow> string \<Rightarrow> rpc_call \<Rightarrow> rpc_call res" where
  "need_session entered what c =
     (if entered then Inr c else Inl (RuntimeError (''Agent.'' @ what @ '' requires async with agent: ...'')))"

definition v2_post_task :: "bool \<Rightarrow> params \<Rightarrow> string \<Rightarrow> params option \<Rightarrow> rpc_call res" where
  "v2_post_task entered task expiry supervision =
     (let p = [(''task'', JDict task), (''expiry'', JStr expiry)] in
      need_session entered ''post_task''
        (''tasks/post'', case supervision of None \<Rightarrow> p | Some v \<Rightarrow> dict_set ''supervision'' (JDict v) p))"

definition discover_capabilities :: "bool \<Rightarrow> sdk_identity \<Rightarrow> params option \<Rightarrow> rpc_call res" where
  "discover_capabilities entered i filter_dict =
     need_session entered ''discover_capabilities'' (sdk_subscribe i filter_dict None)"

text \<open>The events \<open>AsyncIterableEvents\<close> queues for a task, and its queue.\<close>

definition event_for_task :: "string \<Rightarrow> json \<Rightarrow> bool res" where
  "event_for_task task_id event =
     bindE (j_get event ''payload'' JNull) (\<lambda>p.
     bindE (j_get (py_or p (JDict [])) ''task_id'' JNull) (\<lambda>t. Inr (py_eq t (JStr task_id))))"

definition queue_event :: "string \<Rightarrow> json \<Rightarrow> json list \<Rightarrow> json list res" where
  "queue_event task_id event q = bindE (event_for_task task_id event) (\<lambda>b. Inr (if b then q @ [event] else q))"

subsection \<open>RobotAgent\<close>

definition VALID_AGENT_CLASSES :: "string list" where
  "VALID_AGENT_CLASSES = [''llm_agent'', ''embodied_agent'', ''scheduled_agent'', ''human_supervisor'']"

record robot_agent =
  ra_identity :: sdk_identity
  ra_agent_class :: string

text \<open>What the tuple of classes prints as in the message is left out of it.\<close>

definition new_robot_agent :: "sdk_identity \<Rightarrow> string \<Rightarrow> robot_agent res" where
  "new_robot_agent i agent_class =
     (if agent_class \<notin> set VALID_AGENT_CLASSES then
        Inl (ValueError (''agent_class must be one of; got '' @ repr_str agent_class))
      else Inr \<lparr>ra_identity = i, ra_agent_class = agent_class\<rparr>)"

definition build_continuation ::
  "robot_agent \<Rightarrow> string \<Rightarrow> string \<Rightarrow> string \<Rightarrow> params \<Rightarrow> string list option \<Rightarrow> params option \<Rightarrow> params option \<Rightarrow> int \<Rightarrow>
   string option \<Rightarrow> params res" where
  "build_continuation a u prior_claim_id descriptor_type descriptor_payload required_evidence_kinds constraints
     attestation_requirement max_attempts accounting_ref =
     (case constraints of
        None \<Rightarrow> Inl (ValueError ''constraints is required (see TaskDescriptor schema)'')
      | Some c \<Rightarrow>
          (case attestation_requirement of
             None \<Rightarrow> Inl (ValueError ''attestation_requirement is required'')
           | Some req \<Rightarrow>
               let kinds = or_default required_evidence_kinds [];
                   descriptor =
                     [(''schema_version'', JStr ''wcp/0.2''), (''task_id'', JStr u), (''posted_by'', JStr (i_did (ra_identity a))),
                      (''descriptor_type'', JStr descriptor_type), (''descriptor_payload'', JDict descriptor_payload),
                      (''continuation_of'', JDict [(''claim_id'', JStr prior_claim_id),
                         (''required_evidence_kinds'', JList (map JStr kinds))]),
                      (''constraints'', JDict c), (''attestation_requirement'', JDict req),
                      (''max_attestation_attempts'', JInt max_attempts)]
               in Inr (case accounting_ref of None \<Rightarrow> descriptor | Some x \<Rightarrow> dict_set ''accounting_ref'' (JStr x) descriptor)))"

definition post_continuation :: "bool \<Rightarrow> string \<Rightarrow> params \<Rightarrow> string \<Rightarrow> params option \<Rightarrow> rpc_call res" where
  "post_continuation entered prior_claim_id descriptor expiry supervision =
     bindE (j_get (py_or (arg ''continuation_of'' descriptor) (JDict [])) ''claim_id'' JNull) (\<lambda>c.
     if \<not> py_eq c (JStr prior_claim_id) then
       Inl (ValueError (''descriptor.continuation_of.claim_id does not match '' @ ''prior_claim_id passed to post_continuation''))
     else v2_post_task entered descriptor expiry supervision)"

definition agent_class_declaration :: "env \<Rightarrow> datetime \<Rightarrow> robot_agent \<Rightarrow> params" where
  "agent_class_declaration E now a =
     [(''type'', JStr ''WCPAgentClass''), (''agent_class'', JStr (ra_agent_class a)), (''advertised_at'', JStr (isoformat E now))]"

subsection \<open>The registration index\<close>

record 'f v2_coordinator =
  vk_attestation_verifiers :: "(string \<times> 'f) list"
  vk_federation_trust_anchors :: "json list"

definition register_attestation_verifier :: "string \<Rightarrow> 'f \<Rightarrow> 'f v2_coordinator \<Rightarrow> 'f v2_coordinator" where
  "register_attestation_verifier mode_or_kind fn c =
     c\<lparr>vk_attestation_verifiers := AList.update mode_or_kind fn (vk_attestation_verifiers c)\<rparr>"

definition add_federation_trust_anchor :: "json \<Rightarrow> 'f v2_coordinator \<Rightarrow> 'f v2_coordinator" where
  "add_federation_trust_anchor anchor c = c\<lparr>vk_federation_trust_anchors := vk_federation_trust_anchors c @ [anchor]\<rparr>"

end
