(* ===== verification/Sdk_V2_Interop.thy ===== *)
theory Sdk_V2_Interop
  imports Sdk_V2 Robot_Interop
begin

text \<open>
  The second SDK against the coordinator. Its worker signs and beats as the robot worker does, so
  the lemmas on heartbeats and calls of \<open>Robot_Interop\<close> carry over. A dispatched task is completed
  under every schedule of heartbeats; a handler that raises leaves it executing; a continuation
  posted by a robot agent is recorded in the audit log.
\<close>

subsection \<open>The session's identity is the robot's\<close>

lemma session_identity:
  assumes "identity_from_sk E sk = Inr i"
  shows "wi_did (worker_identity_of E sk) = i_did i" "worker_sign E (worker_identity_of E sk) p = identity_sign E i p"
  using identity_ok [OF assms]
  by (simp_all add: worker_identity_of_def Let_def worker_b58 did_string_def worker_sign_def identity_sign_def)

lemma session_beat_beat:
  assumes "identity_from_sk E sk = Inr i"
  shows "session_beat E C i cid = beat E C (worker_identity_of E sk) cid"
  by (simp add: fun_eq_iff session_beat_def beat_def heartbeat_def emit_event_def event_call_def session_identity [OF assms] Let_def)

lemma j_get_item: "j_get r k JNull = Inr v \<Longrightarrow> v \<noteq> JNull \<Longrightarrow> j_item r k = Inr v"
  by (cases r) (auto split: option.splits)

text \<open>The dispatched worker is registered and free to claim the posted task.\<close>

definition v2_claimable :: "env \<Rightarrow> sdk_identity \<Rightarrow> string \<Rightarrow> wcp_task \<Rightarrow> robot \<Rightarrow> bool" where
  "v2_claimable E i tid task r \<longleftrightarrow> client_inv (ro_client r) \<and>
     (let s = ro_coordinator r in
      ids_fresh E s \<and> list_all attestation_storable (attestations s) \<and> get_task s tid = Some task \<and> t_state task = POSTED \<and>
      clock E (n_now s) \<le> utc_us (t_expiry task) \<and> unclaimed s tid \<and>
      (\<exists>w. get_worker s (i_did i) = Some w \<and> self_dealing_check task w = Inr ()))"

text \<open>What claiming relies on besides \<open>robot_env\<close>: timestamps and digests are not empty.\<close>

definition v2_env :: "env \<Rightarrow> (nat \<Rightarrow> int) \<Rightarrow> bytes \<Rightarrow> bool" where
  "v2_env E C sk \<longleftrightarrow> robot_env E C sk \<and> (\<forall>x. isoformat E x \<noteq> []) \<and> (\<forall>b. b \<noteq> [] \<longrightarrow> sha256_hex E b \<noteq> []) \<and>
     float_repr_ok (float_repr E)"

lemma v2_claims:
  assumes env: "v2_env E C sk" "identity_from_sk E sk = Inr i" and r: "v2_claimable E i tid task r" 
    and d: "datetime_us n"
  shows "\<exists>v cid r'. robot_call E (sdk_claim E i now tid (isoformat E (Aware n 0)) None) r = (Inr v, r') \<and>
    j_item v ''claim_id'' = Inr (JStr cid) \<and> robot_ready E (worker_identity_of E sk) cid (task\<lparr>t_state := CLAIMED\<rparr>) r'"
proof -
  let ?s = "ro_coordinator r" and ?eta = "isoformat E (Aware n 0)"
  let ?acc = "JDict (sdk_acceptance E i now tid ?eta None)"
  from env have E: "robot_env E C sk" "sig_correct E" "inj (uuid4 E)" "parse_iso E ?eta = Inr (Aware n 0)"
    using d by (auto simp: v2_env_def robot_env_def)
  from r obtain w where s: "client_inv (ro_client r)" "ids_fresh E ?s" "list_all attestation_storable (attestations ?s)"
      "get_task ?s tid = Some task" "t_state task = POSTED" "clock E (n_now ?s) \<le> utc_us (t_expiry task)" "unclaimed ?s tid"
      "get_worker ?s (i_did i) = Some w" "self_dealing_check task w = Inr ()"
    by (auto simp: v2_claimable_def Let_def)
  have "sha256_hex E (canon E (JDict [(''task_id'', JStr tid)])) \<noteq> []"
    using env(1) print_json_nonempty by (simp add: canonical_json_def v2_env_def)
  then have acc: "check_acceptance E tid (i_did i) ?eta ?acc None = Inr ()"
    using sdk_acceptance_ok [OF env(2) E(2)] env(1) by (simp add: v2_env_def)
  from claim_enabled [OF s(4-6,8,9) acc s(7) E(4) s(2) E(3)] obtain v t where
    t: "task_claim E tid (i_did i) ?eta ?acc None ?s = (Inr v, t)" "ids_fresh E t" "attestations t = attestations ?s" by blast
  from claimed_rows [OF t(1) s(4)] obtain c where c: "c_worker_id c = i_did i"
      "holds_rows (c_claim_id c) c (task\<lparr>t_state := CLAIMED\<rparr>) t" "j_get v ''claim_id'' JNull = Inr (JStr (c_claim_id c))"
    by blast
  from robot_call_Result [OF s(1) sdk_rpc_claim [OF t(1), unfolded rpc_def]] t(3) s(3)
  have "robot_call E (sdk_claim E i now tid ?eta None) r =
      (Inr v, r\<lparr>ro_client := (ro_client r)\<lparr>rc_next_id := rc_next_id (ro_client r) + 1\<rparr>, ro_coordinator := t\<rparr>)"
    by (simp add: db_flush_def)
  moreover have "robot_ready E (worker_identity_of E sk) (c_claim_id c) (task\<lparr>t_state := CLAIMED\<rparr>)
      (r\<lparr>ro_client := (ro_client r)\<lparr>rc_next_id := rc_next_id (ro_client r) + 1\<rparr>, ro_coordinator := t\<rparr>)"
    using c(1,2) t(2,3) s(1,3) client_inv_next session_identity(1) [OF env(2)] by (auto simp: robot_ready_def)
  ultimately show ?thesis using j_get_item [OF c(3)] by auto
qed

subsection \<open>Evidence\<close>

text \<open>What a registered builder gives for a claim: a piece the verifiers judge \<open>out\<close>.\<close>

definition built_ok :: "env \<Rightarrow> json \<Rightarrow> json \<Rightarrow> attestation_mode \<Rightarrow> outcome \<Rightarrow> json \<Rightarrow> bool" where
  "built_ok E task tp mode out b \<longleftrightarrow> (\<exists>kind payload. j_item b ''kind'' = Inr (JStr kind) \<and> j_item b ''payload'' = Inr (JDict payload) \<and>
     verify_single E DEFAULT_REGISTRY (JStr (attestation_mode_value mode)) (JStr kind) (JDict payload) tp = Inr out)"

definition attester_ok :: "env \<Rightarrow> json \<Rightarrow> json \<Rightarrow> (attestation_mode \<Rightarrow> outcome) \<Rightarrow> attestation_mode \<times> attest_fn \<Rightarrow> bool" where
  "attester_ok E task tp outc a \<longleftrightarrow> (\<forall>cid. \<exists>b. snd a cid task = Inr b \<and> built_ok E task tp (fst a) (outc (fst a)) b)"

definition piece_ok :: "env \<Rightarrow> sdk_identity \<Rightarrow> string \<Rightarrow> json \<Rightarrow> (attestation_mode \<Rightarrow> outcome) \<Rightarrow>
    attestation_mode \<times> attest_fn \<Rightarrow> attestation_evidence \<Rightarrow> bool" where
  "piece_ok E i cid tp outc a e \<longleftrightarrow> (\<exists>n kind payload. datetime_us n \<and> e = work_evidence E i (Aware n 0) cid (fst a, kind, payload) \<and>
     verify_single E DEFAULT_REGISTRY (JStr (attestation_mode_value (fst a))) (JStr kind) (JDict payload) tp = Inr (outc (fst a)))"

lemma awaited_ready:
  assumes "robot_env E C sk" "identity_from_sk E sk = Inr i"
    "robot_ready E (worker_identity_of E sk) cid (task\<lparr>t_state := EXECUTING\<rparr>) r"
  shows "\<exists>r'. robot_ready E (worker_identity_of E sk) cid (task\<lparr>t_state := EXECUTING\<rparr>) r' \<and>
    awaited (session_beat E C i cid) m r = m r'"
  using beats_keep_ready [OF assms(1) refl _ assms(3)] by (auto simp: awaited_def session_beat_beat [OF assms(2)])

lemma pieces_built:
  assumes env: "robot_env E C sk" "identity_from_sk E sk = Inr i"
    and r: "robot_ready E (worker_identity_of E sk) cid (task\<lparr>t_state := EXECUTING\<rparr>) r" and ok: "list_all (attester_ok E tj tp outc) as"
  shows "\<exists>es r'. build_pieces E C i cid tj as r = (Inr es, r') \<and> list_all2 (piece_ok E i cid tp outc) as es \<and>
    robot_ready E (worker_identity_of E sk) cid (task\<lparr>t_state := EXECUTING\<rparr>) r'"
  using r ok
proof (induction as arbitrary: r)
  case Nil then show ?case by (simp add: retR_def)
next
  case (Cons a as)
  from awaited_ready [OF env Cons.prems(1), of "liftR (snd a cid tj)"] obtain r1 where r1: "robot_ready E (worker_identity_of E sk) cid (task\<lparr>t_state := EXECUTING\<rparr>) r1"
      "awaited (session_beat E C i cid) (liftR (snd a cid tj)) r = liftR (snd a cid tj) r1" by blast
  from Cons.prems(2) obtain b kind payload where b: "snd a cid tj = Inr b" "j_item b ''kind'' = Inr (JStr kind)"
      "j_item b ''payload'' = Inr (JDict payload)"
      "verify_single E DEFAULT_REGISTRY (JStr (attestation_mode_value (fst a))) (JStr kind) (JDict payload) tp = Inr (outc (fst a))"
    by (auto simp: attester_ok_def built_ok_def) blast
  let ?e = "work_evidence E i (Aware (C (ro_now r1)) 0) cid (fst a, kind, payload)" and ?r = "r1\<lparr>ro_now := Suc (ro_now r1)\<rparr>"
  have piece: "build_piece E C i cid tj a r = (Inr ?e, ?r)"
    by (simp add: build_piece_def bindR_def r1(2) [unfolded b(1)] liftR_def b(1-3) robot_now_def retR_def work_evidence_def del: bindR_simps)
  from Cons.IH [of ?r] r1(1) Cons.prems(2) obtain es r' where
    es: "build_pieces E C i cid tj as ?r = (Inr es, r')" "list_all2 (piece_ok E i cid tp outc) as es"
      "robot_ready E (worker_identity_of E sk) cid (task\<lparr>t_state := EXECUTING\<rparr>) r'" by auto
  have "piece_ok E i cid tp outc a ?e" unfolding piece_ok_def using b(4) env(1) by (auto simp: robot_env_def)
  then show ?case using es piece by (simp add: bindR_def retR_def)
qed

lemma pieces_stored:
  assumes env: "robot_env E C sk" "identity_from_sk E sk = Inr i" "did_resolve (i_did i) = Inr rd"
    and ok: "list_all2 (piece_ok E i cid tp outc) as es" and fresh: "ids_fresh E s" "list_all attestation_storable (attestations s)"
  shows "\<exists>t. mapS (attest_one E DEFAULT_REGISTRY cid (i_did i) rd tp) (map (JDict \<circ> evidence_to_dict) es) s =
      (Inr (map (\<lambda>a. (JStr (attestation_mode_value (fst a)), outc (fst a))) as), t) \<and>
      ids_fresh E t \<and> list_all attestation_storable (attestations t)"
  using ok fresh
proof (induction as es arbitrary: s rule: list_all2_induct)
  case (Cons a as e es)
  from env(1) have E: "sig_correct E" "inj (uuid4 E)" by (simp_all add: robot_env_def)
  from Cons(1) obtain n kind payload where e: "datetime_us n" "e = work_evidence E i (Aware n 0) cid (fst a, kind, payload)"
      "verify_single E DEFAULT_REGISTRY (JStr (attestation_mode_value (fst a))) (JStr kind) (JDict payload) tp = Inr (outc (fst a))"
    by (auto simp: piece_ok_def)
  have "parse_iso E (isoformat E (Aware n 0)) = Inr (Aware n 0)" using env(1) e(1) by (simp add: robot_env_def)
  from sdk_evidence_stored [OF env(2) E(1) env(3) this e(3) Cons.prems(1) E(2) Cons.prems(2), of cid] obtain t where
    t: "attest_one E DEFAULT_REGISTRY cid (i_did i) rd tp (JDict (evidence_to_dict e)) s =
        (Inr (JStr (attestation_mode_value (fst a)), outc (fst a)), t)" "ids_fresh E t" "list_all attestation_storable (attestations t)"
    unfolding e(2) by blast
  from Cons.IH [OF t(2,3)] t(1) show ?case by (auto simp: bindS_def simp del: bindS_Inr)
qed simp

subsection \<open>A dispatched task\<close>

lemma claimed_runs:
  assumes env: "robot_env E C sk" "identity_from_sk E sk = Inr (vw_identity w)"
    and r: "robot_ready E (worker_identity_of E sk) cid task r" "t_state task = CLAIMED"
    and json: "t_task_json task = JDict tj" "max_attempts_of task = Inr m"
    and user: "handler td = Inr ()" "list_all (attester_ok E td (task_payload tj) outc) (vw_attesters w)" "vw_attesters w \<noteq> []"
    and agg: "evaluate_threshold E (task_req tj)
        (map (\<lambda>a. (JStr (attestation_mode_value (fst a)), outc (fst a))) (vw_attesters w)) = Inr agg"
  shows "\<exists>v r' t. run_claimed E C w handler td cid r = (Inr (Some v), r') \<and>
    j_get v ''verifier_decision'' JNull = Inr (JStr (verifier_decision_value (vo_decision agg))) \<and>
    get_task (ro_coordinator r') (t_task_id task) = Some t \<and> t_state t = next_state (vo_decision agg) (t_attestation_attempts_used task + 1) m"
proof -
  let ?i = "vw_identity w" and ?wi = "worker_identity_of E sk" and ?task = "task\<lparr>t_state := EXECUTING\<rparr>"
  note did = session_identity(1) [OF env(2)]
  from opens [OF env(1) r(1)] r(2) obtain v1 r1 where
    r1: "robot_call E (sdk_execute_open cid) r = (Inr v1, r1)" "robot_ready E ?wi cid ?task r1"
    by (auto simp: sdk_execute_open_def)
  from awaited_ready [OF env r1(2), of "liftR (handler td)"] obtain r2 where r2: "robot_ready E ?wi cid ?task r2"
      "awaited (session_beat E C ?i cid) (liftR (handler td)) r1 = liftR (handler td) r2" by blast
  from pieces_built [OF env r2(1) user(2)] obtain es r3 where
    r3: "build_pieces E C ?i cid td (vw_attesters w) r2 = (Inr es, r3)"
      "list_all2 (piece_ok E ?i cid (task_payload tj) outc) (vw_attesters w) es" "robot_ready E ?wi cid ?task r3"
    by auto
  have es: "es \<noteq> []" using r3(2) user(3) by auto
  from awaited_ready [OF env r3(3), of "robot_call E (sdk_attest cid es None)"] obtain r4 where r4: "robot_ready E ?wi cid ?task r4"
      "awaited (session_beat E C ?i cid) (robot_call E (sdk_attest cid es None)) r3 = robot_call E (sdk_attest cid es None) r4"
    by blast
  obtain rd where rd: "did_resolve (i_did ?i) = Inr rd" using identity_ok [OF env(2)] by blast
  from pieces_stored [OF env rd r3(2), of "ro_coordinator r4"] r4(1) obtain u where
    u: "mapS (attest_one E DEFAULT_REGISTRY cid (i_did ?i) rd (task_payload tj)) (map (JDict \<circ> evidence_to_dict) es) (ro_coordinator r4) =
      (Inr (map (\<lambda>a. (JStr (attestation_mode_value (fst a)), outc (fst a))) (vw_attesters w)), u)"
      "ids_fresh E u" "list_all attestation_storable (attestations u)"
    by (auto simp: robot_ready_def)
  have "sdk_attest cid es None = (''tasks/attest'', [(''claim_id'', JStr cid), (''attestations'', JList (map (JDict \<circ> evidence_to_dict) es))])"
    by (simp add: sdk_attest_def)
  from calls_attest [OF env(1) refl rd [folded did] r4(1) _ _ _ u [folded did] agg this, of m] json obtain v r5 where
    r5: "robot_call E (sdk_attest cid es None) r4 = (Inr v, r5)"
      "j_get v ''verifier_decision'' JNull = Inr (JStr (verifier_decision_value (vo_decision agg)))"
      "robot_done (t_task_id task) cid (next_state (vo_decision agg) (t_attestation_attempts_used task + 1) m) r5"
    by (auto simp: max_attempts_of_def)
  from r5(3) obtain c t where t: "holds_rows cid c t (ro_coordinator r5)" "t_task_id t = t_task_id task"
      "t_state t = next_state (vo_decision agg) (t_attestation_attempts_used task + 1) m" "client_inv (ro_client r5)"
    by (auto simp: robot_done_def)
  have "t_state t \<noteq> EXECUTING" using t(3) by (simp add: next_state_def split: verifier_decision.splits)
  from late_beats [OF t(1) this t(4)]
  have late: "ro_coordinator (beats_now (session_beat E C ?i cid) r5) = ro_coordinator r5" by (simp add: session_beat_beat [OF env(2)])
  have "run_claimed E C w handler td cid r = (Inr (Some v), beats_now (session_beat E C ?i cid) r5)"
    unfolding run_claimed_def Let_def
    by (simp add: bindR_def r1(1) r2(2) [unfolded user(1)] liftR_def user(1) r3(1) es r4(2) r5(1) del: bindR_simps) (simp add: awaited_def retR_def)
  with late r5(2) t(1,2,3) show ?thesis by (auto simp: holds_rows_def)
qed

lemma claimed_handler_raises:
  assumes env: "robot_env E C sk" "identity_from_sk E sk = Inr (vw_identity w)"
    and r: "robot_ready E (worker_identity_of E sk) cid task r" "t_state task = CLAIMED" and h: "handler td = Inl e"
  shows "\<exists>r'. run_claimed E C w handler td cid r = (Inl (Python e), r') \<and>
    robot_ready E (worker_identity_of E sk) cid (task\<lparr>t_state := EXECUTING\<rparr>) r'"
proof -
  let ?task = "task\<lparr>t_state := EXECUTING\<rparr>"
  from opens [OF env(1) r(1)] r(2) obtain v1 r1 where
    r1: "robot_call E (sdk_execute_open cid) r = (Inr v1, r1)" "robot_ready E (worker_identity_of E sk) cid ?task r1"
    by (auto simp: sdk_execute_open_def)
  from awaited_ready [OF env r1(2), of "liftR (handler td)"] obtain r2 where r2: "robot_ready E (worker_identity_of E sk) cid ?task r2"
      "awaited (session_beat E C (vw_identity w) cid) (liftR (handler td)) r1 = liftR (handler td) r2" by blast
  then show ?thesis unfolding run_claimed_def Let_def
    by (auto simp: bindR_def r1(1) h) (auto simp: liftR_def)
qed

definition v2_dispatch :: "params \<Rightarrow> string \<Rightarrow> params \<Rightarrow> string \<Rightarrow> bool" where
  "v2_dispatch disp tid td dtype \<longleftrightarrow> arg ''task_id'' disp = JStr tid \<and> arg ''task'' disp = JDict td \<and>
     map_of td ''descriptor_type'' = Some (JStr dtype)"

lemma lifecycle_claims:
  assumes env: "v2_env E C sk" "identity_from_sk E sk = Inr (vw_identity w)"
    and disp: "v2_dispatch disp tid td dtype" "map_of (vw_handlers w) dtype = Some handler"
    and r: "v2_claimable E (vw_identity w) tid task r"
  shows "\<exists>cid r'. full_lifecycle E C w disp r = run_claimed E C w handler (JDict td) cid r' \<and>
    robot_ready E (worker_identity_of E sk) cid (task\<lparr>t_state := CLAIMED\<rparr>) r'"
proof -
  have td: "py_or (arg ''task'' disp) (JDict []) = JDict td" "j_get (JDict td) ''descriptor_type'' JNull = Inr (JStr dtype)"
    using disp(1) by (auto simp: v2_dispatch_def py_or_def)
  let ?r = "r\<lparr>ro_now := Suc (Suc (ro_now r))\<rparr>"
  have "v2_claimable E (vw_identity w) tid task ?r" using r by (simp add: v2_claimable_def)
  from v2_claims [OF env this, of "C (ro_now r)" "Aware (C (Suc (ro_now r))) 0"] env(1) obtain v cid r' where
    "robot_call E (sdk_claim E (vw_identity w) (Aware (C (Suc (ro_now r))) 0) tid (isoformat E (Aware (C (ro_now r)) 0)) None) ?r = (Inr v, r')"
      "j_item v ''claim_id'' = Inr (JStr cid)" "robot_ready E (worker_identity_of E sk) cid (task\<lparr>t_state := CLAIMED\<rparr>) r'"
    by (auto simp: v2_env_def robot_env_def)
  moreover have "arg ''task_id'' disp = JStr tid" using disp(1) by (simp add: v2_dispatch_def)
  ultimately show ?thesis using disp(2) by (auto simp: full_lifecycle_def Let_def td simp del: j_get.simps)
qed

lemma lifecycle_decides:
  assumes "v2_env E C sk" "identity_from_sk E sk = Inr (vw_identity w)"
    and "v2_dispatch disp tid td dtype" "map_of (vw_handlers w) dtype = Some handler"
    and "v2_claimable E (vw_identity w) tid task r" "t_task_json task = JDict tj" "max_attempts_of task = Inr m"
    and "handler (JDict td) = Inr ()" "list_all (attester_ok E (JDict td) (task_payload tj) outc) (vw_attesters w)" "vw_attesters w \<noteq> []"
    and "evaluate_threshold E (task_req tj)
        (map (\<lambda>a. (JStr (attestation_mode_value (fst a)), outc (fst a))) (vw_attesters w)) = Inr agg"
  shows "\<exists>v r' t. full_lifecycle E C w disp r = (Inr (Some v), r') \<and>
    j_get v ''verifier_decision'' JNull = Inr (JStr (verifier_decision_value (vo_decision agg))) \<and>
    get_task (ro_coordinator r') tid = Some t \<and> t_state t = next_state (vo_decision agg) (t_attestation_attempts_used task + 1) m"
proof -
  from lifecycle_claims [OF assms(1-5)] obtain cid r1 where
    r1: "full_lifecycle E C w disp r = run_claimed E C w handler (JDict td) cid r1"
      "robot_ready E (worker_identity_of E sk) cid (task\<lparr>t_state := CLAIMED\<rparr>) r1" by blast
  have "get_task (ro_coordinator r) tid = Some task" using assms(5) by (simp add: v2_claimable_def Let_def)
  then have "t_task_id task = tid" by (rule row_get_Some [THEN conjunct2])
  moreover have "robot_env E C sk" using assms(1) by (simp add: v2_env_def)
  from claimed_runs [where handler = handler and td = "JDict td" and outc = outc and m = m, OF this assms(2) r1(2) _ _ _ assms(8-11)] assms(6,7) 
  have "\<exists>v r' t. run_claimed E C w handler (JDict td) cid r1 = (Inr (Some v), r') \<and>
    j_get v ''verifier_decision'' JNull = Inr (JStr (verifier_decision_value (vo_decision agg))) \<and>
    get_task (ro_coordinator r') (t_task_id task) = Some t \<and> t_state t = next_state (vo_decision agg) (t_attestation_attempts_used task + 1) m"
    by (simp add: max_attempts_of_def)
  ultimately show ?thesis by (auto simp: r1(1))
qed

text \<open>
  C18: A decorator-style worker finishes the task it is dispatched: let the task be posted, unexpired
  and unclaimed, the worker registered and not dealing with itself, a handler registered for
  the descriptor type that returns, and let the registered builders give pieces whose verdicts
  make the task's threshold pass. Then under every schedule of the session's heartbeats
  _execute_full_lifecycle claims, opens, runs the handler, attests and returns the decision
  pass, and the task is completed at the coordinator.
\<close>

theorem v2_worker_completes:
  assumes "v2_env E C sk" "identity_from_sk E sk = Inr (vw_identity w)"
    and "v2_dispatch disp tid td dtype" "map_of (vw_handlers w) dtype = Some handler"
    and "v2_claimable E (vw_identity w) tid task r" "t_task_json task = JDict tj" "max_attempts_of task = Inr m"
    and "handler (JDict td) = Inr ()" "list_all (attester_ok E (JDict td) (task_payload tj) outc) (vw_attesters w)" "vw_attesters w \<noteq> []"
    and "evaluate_threshold E (task_req tj)
        (map (\<lambda>a. (JStr (attestation_mode_value (fst a)), outc (fst a))) (vw_attesters w)) = Inr agg" "vo_decision agg = PASS"
  shows "\<exists>v r' t. full_lifecycle E C w disp r = (Inr (Some v), r') \<and>
    j_get v ''verifier_decision'' JNull = Inr (JStr ''pass'') \<and>
    get_task (ro_coordinator r') tid = Some t \<and> t_state t = COMPLETED"
  using lifecycle_decides [OF assms(1-11)] assms(12) by (auto simp: next_state_def)

text \<open>
  A handler that raises leaves its task executing for ever: the exception leaves
  _execute_full_lifecycle with nothing sent, no abort and no evidence, and the heartbeats the session goes
  on sending, however many, leave the task executing at the coordinator.
\<close>

lemma lifecycle_raises:
  assumes "v2_env E C sk" "identity_from_sk E sk = Inr (vw_identity w)"
    and "v2_dispatch disp tid td dtype" "map_of (vw_handlers w) dtype = Some handler"
    and "v2_claimable E (vw_identity w) tid task r" "handler (JDict td) = Inl e"
  shows "\<exists>cid r'. full_lifecycle E C w disp r = (Inl (Python e), r') \<and>
    (\<forall>n. \<exists>t. get_task (ro_coordinator ((session_beat E C (vw_identity w) cid ^^ n) r')) tid = Some t \<and> t_state t = EXECUTING)"
proof -
  from lifecycle_claims [OF assms(1-5)] obtain cid r1 where
    r1: "full_lifecycle E C w disp r = run_claimed E C w handler (JDict td) cid r1"
      "robot_ready E (worker_identity_of E sk) cid (task\<lparr>t_state := CLAIMED\<rparr>) r1" by blast
  have "get_task (ro_coordinator r) tid = Some task" using assms(5) by (simp add: v2_claimable_def Let_def)
  then have tid: "t_task_id task = tid" by (rule row_get_Some [THEN conjunct2])
  have env: "robot_env E C sk" using assms(1) by (simp add: v2_env_def)
  let ?ready = "robot_ready E (worker_identity_of E sk) cid (task\<lparr>t_state := EXECUTING\<rparr>)"
  from claimed_handler_raises [where handler = handler and td = "JDict td", OF env assms(2) r1(2) _ assms(6)] obtain r2 where
    r2: "run_claimed E C w handler (JDict td) cid r1 = (Inl (Python e), r2)" "?ready r2" by auto
  have "?ready ((session_beat E C (vw_identity w) cid ^^ n) r2)" for n
    by (induction n) (simp_all add: r2(2) session_beat_beat [OF assms(2)] beat_keeps_ready [OF env refl])
  then have "\<exists>t. get_task (ro_coordinator ((session_beat E C (vw_identity w) cid ^^ n) r2)) tid = Some t \<and> t_state t = EXECUTING" for n
    unfolding tid [symmetric] robot_ready_def holds_rows_def by fastforce
  then show ?thesis using r1(1) r2(1) by auto
qed

text \<open>A task without a handler is ignored: the worker makes no call.\<close>

lemma v2_unhandled_ignored:
  assumes "j_get (py_or (arg ''task'' disp) (JDict [])) ''descriptor_type'' JNull = Inr d" "hashable d"
    and "\<forall>s. d = JStr s \<longrightarrow> map_of (vw_handlers w) s = None"
  shows "full_lifecycle E C w disp r = (Inr None, r)"
  using assms by (cases d) (simp_all add: full_lifecycle_def Let_def retR_def)

text \<open>The worker never comes to serve: its first call, the publishing, fails.\<close>

lemma v2_never_serves:
  assumes "client_inv (ro_client r)"
  shows "\<exists>code msg r'. v2_run E C w once r = (Inl (WcpRpcError code msg JNull), r') \<and> ro_coordinator r' = ro_coordinator r"
proof -
  let ?c = "publish_capabilities E (vw_identity w) (Aware (C (ro_now r)) 0) (v2_descriptor w)"
  have "dispatch E (JStr (fst ?c)) (JDict (snd ?c)) (ro_coordinator r) = (Raised TypeError, ro_coordinator r)"
    by (simp add: publish_capabilities_def dispatch_def methods_def rpc_capabilities_list_def check_kwargs_def py_or_def)
  with robot_call_Raised [of "r\<lparr>ro_now := Suc (ro_now r)\<rparr>" E ?c TypeError "ro_coordinator r"] assms show ?thesis
    by (simp add: v2_run_def bindR_def [of "robot_call E c" for c] db_rollback_def)
qed

text \<open>A later registration replaces an earlier one, and leaves the others.\<close>

lemma v2_registered:
  "map_of (vw_handlers (v2_handle d fn w)) = (map_of (vw_handlers w))(d \<mapsto> fn)"
  "map_of (vw_attesters (v2_attest m g w)) = (map_of (vw_attesters w))(m \<mapsto> g)"
  "distinct (map fst (vw_attesters w)) \<Longrightarrow> distinct (map fst (vw_attesters (v2_attest m g w)))"
  by (simp_all add: v2_handle_def v2_attest_def update_conv' distinct_update)

subsection \<open>Continuations\<close>

lemma v2_post_call:
  "rpc_tasks_post E reg ([(''task'', JDict d), (''expiry'', JStr expiry)] @ x) = task_post E reg d expiry []"
  if "x = [] \<or> x = [(''supervision'', JDict sv)]"
  using that by (auto simp: fun_eq_iff rpc_tasks_post_def check_kwargs_def str_arg_def arg_def)

lemma v2_posts:
  assumes "v2_post_task True d expiry sv = Inr call" "rpc E call s = (Result v, t)"
  shows "task_post E DEFAULT_REGISTRY d expiry [] s = (Inr v, t)"
proof -
  have "call = (''tasks/post'', [(''task'', JDict d), (''expiry'', JStr expiry)] @
      (case sv of None \<Rightarrow> [] | Some x \<Rightarrow> [(''supervision'', JDict x)]))"
    using assms(1) by (auto simp: v2_post_task_def need_session_def Let_def split: option.splits)
  then have "rpc E call s = (case task_post E DEFAULT_REGISTRY d expiry [] s of (Inr v, t) \<Rightarrow> (Result v, t) | (Inl e, t) \<Rightarrow> (map_exception e, t))"
    by (cases sv) (simp_all add: rpc_def dispatch_def methods_def py_or_def v2_post_call [of "[]", simplified]
      v2_post_call [of "[x]" "y" for x y, simplified] split: prod.splits sum.splits)
  moreover have "map_exception e \<noteq> Result v" for e by (cases e) (simp_all add: map_value_error_def split: option.splits prod.splits)
  ultimately show ?thesis using assms(2) by (auto split: prod.splits sum.splits)
qed

text \<open>
  C19: A continuation is recorded: a descriptor of build_continuation passes the check of
  post_continuation for the claim it names and for no other, and when the coordinator answers
  the call with a result, one task is added, under the id drawn and posted by the agent, and
  one audit entry, whose payload carries continuation_of with that claim and the evidence kinds
  asked for.
\<close>

theorem continuation_recorded:
  assumes "build_continuation a u prior dtype payload kinds c q n acc = Inr d" "u \<noteq> []"
    and "post_continuation True prior' d expiry sv = Inr call" "rpc E call s = (Result v, t)"
  shows "prior' = prior \<and> (\<exists>row e p. tasks t = tasks s @ [row] \<and> t_task_id row = u \<and> t_posted_by row = i_did (ra_identity a) \<and>
     audits t = audits s @ [e] \<and> a_event_type e = ''task_posted'' \<and> a_actor_did e = i_did (ra_identity a) \<and>
     a_payload_json e = JDict p \<and>
     map_of p ''continuation_of'' = Some (JDict [(''claim_id'', JStr prior),
       (''required_evidence_kinds'', JList (map JStr (or_default kinds [])))]))"
proof -
  let ?ptr = "JDict [(''claim_id'', JStr prior), (''required_evidence_kinds'', JList (map JStr (or_default kinds [])))]"
  from assms(1) have d: "map_of d ''continuation_of'' = Some ?ptr" "map_of d ''task_id'' = Some (JStr u)"
      "map_of d ''posted_by'' = Some (JStr (i_did (ra_identity a)))"
    by (auto simp: build_continuation_def Let_def map_of_dict_set split: option.splits)
  from assms(3) d(1) have "prior' = prior" and call: "v2_post_task True d expiry sv = Inr call"
    by (auto simp: post_continuation_def arg_def py_or_def split: if_splits)
  moreover from post_ok [OF v2_posts [OF call assms(4)]] d(2,3) assms(2) obtain row e where
    "tasks t = tasks s @ [row]" "t_task_id row = u" "t_posted_by row = i_did (ra_identity a)" "audits t = audits s @ [e]"
      "a_event_type e = ''task_posted''" "a_actor_did e = i_did (ra_identity a)"
      "a_payload_json e = JDict (audit_payload_of u (dict_set ''task_id'' (JStr u) d) [])"
    by auto
  moreover have "map_of (audit_payload_of u (dict_set ''task_id'' (JStr u) d) []) ''continuation_of'' = Some ?ptr"
    using d(1) by (simp add: audit_payload_of_def Let_def map_of_dict_set)
  ultimately show ?thesis by blast
qed

subsection \<open>A concrete worker and a concrete continuation\<close>

definition v2_sample :: "handler_fn \<Rightarrow> v2_worker" where
  "v2_sample h = v2_attest SENSOR_WITNESS (\<lambda>cid task. Inr (JDict [(''kind'', JStr ''weight_delta''),
       (''payload'', JDict [(''before_kg'', JInt 4), (''after_kg'', JInt 3)])]))
     (v2_handle ''cleaning'' h (new_v2_worker sdk_worker HUMAN ''owner''))"

definition v2_sample_state :: robot where
  "v2_sample_state = \<lparr>ro_client = new_client, ro_coordinator = run2, ro_now = 0, ro_schedule = [1, 0, 2]\<rparr>"

definition v2_sample_dispatch :: params where
  "v2_sample_dispatch = [(''task_id'', JStr ''T''), (''task'', JDict sample_task)]"

lemma v2_sample_facts:
  "vw_identity (v2_sample h) = sdk_worker" "vw_handlers (v2_sample h) = [(''cleaning'', h)]"
  "vw_attesters (v2_sample h) = [(SENSOR_WITNESS, \<lambda>cid task. Inr (JDict [(''kind'', JStr ''weight_delta''),
       (''payload'', JDict [(''before_kg'', JInt 4), (''after_kg'', JInt 3)])]))]"
  by (simp_all add: v2_sample_def v2_attest_def v2_handle_def new_v2_worker_def)

lemma v2_sample_env: "v2_env sample_env (\<lambda>n. 0) (sample_key (CHR ''w''))"
proof -
  have "isoformat sample_env x \<noteq> []" for x by (cases x) simp_all
  then show ?thesis using sample_robot_env by (simp add: v2_env_def)
qed

lemma v2_sample_claimable: "v2_claimable sample_env sdk_worker ''T'' (hd (tasks run2)) v2_sample_state"
  by (simp add: v2_claimable_def Let_def v2_sample_state_def run2_fresh client_inv_def new_client_def run2_tables run1_tables
      sdk_worker_def self_dealing_check_def unclaimed_def)

lemma v2_sample_dispatched: "v2_dispatch v2_sample_dispatch ''T'' sample_task ''cleaning''"
  by (simp add: v2_dispatch_def v2_sample_dispatch_def arg_def sample_task_def)

theorem v2_worker_completes_witness:
  "\<exists>v r' t. full_lifecycle sample_env (\<lambda>n. 0) (v2_sample (\<lambda>_. Inr ())) v2_sample_dispatch v2_sample_state = (Inr (Some v), r') \<and>
     j_get v ''verifier_decision'' JNull = Inr (JStr ''pass'') \<and>
     get_task (ro_coordinator r') ''T'' = Some t \<and> t_state t = COMPLETED"
proof (rule v2_worker_completes [OF v2_sample_env _ v2_sample_dispatched, where handler = "\<lambda>_. Inr ()" and task = "hd (tasks run2)"
      and tj = sample_task and m = 2 and outc = "\<lambda>_. pass_outcome" and agg = pass_outcome])
  show "max_attempts_of (hd (tasks run2)) = Inr 2"
    by (simp add: run2_tables max_attempts_of_def sample_task_def py_or_def)
  show "evaluate_threshold sample_env (task_req sample_task)
      (map (\<lambda>a. (JStr (attestation_mode_value (fst a)), pass_outcome)) (vw_attesters (v2_sample (\<lambda>_. Inr ())))) = Inr pass_outcome"
    by (simp add: v2_sample_facts task_req_def sample_task_def evaluate_threshold_def threshold_all_def py_or_def py_set_def
        passing_modes_def set_sub_def count_decision_def)
  show "v2_claimable sample_env (vw_identity (v2_sample (\<lambda>_. Inr ()))) ''T'' (hd (tasks run2)) v2_sample_state"
    by (simp add: v2_sample_facts v2_sample_claimable)
  have "task_payload sample_task = JDict []" by (simp add: task_payload_def sample_task_def)
  then show "list_all (attester_ok sample_env (JDict sample_task) (task_payload sample_task) (\<lambda>_. pass_outcome))
      (vw_attesters (v2_sample (\<lambda>_. Inr ())))"
    by (simp add: v2_sample_facts attester_ok_def built_ok_def sample_weight_ok)
qed (simp_all add: v2_sample_facts sdk_worker_identity run2_tables)

definition sample_follow_up :: params where
  "sample_follow_up = [(''schema_version'', JStr ''wcp/0.2''), (''task_id'', JStr ''T2''), (''posted_by'', JStr agent_did),
     (''descriptor_type'', JStr ''cleaning''), (''descriptor_payload'', JDict []),
     (''continuation_of'', JDict [(''claim_id'', JStr ''c''), (''required_evidence_kinds'', JList [JStr ''weight_delta''])]),
     (''constraints'', JDict []),
     (''attestation_requirement'', JDict [(''modes'', JList [JStr ''sensor-witness'']), (''threshold'', JStr ''all'')]),
     (''max_attestation_attempts'', JInt 1)]"

definition sample_robot_agent :: robot_agent where
  "sample_robot_agent = \<lparr>ra_identity = \<lparr>i_did = agent_did, i_public_key_b64url = [], i_key = sample_key (CHR ''a'')\<rparr>,
     ra_agent_class = ''embodied_agent''\<rparr>"

lemma sample_follow_up_built:
  "build_continuation sample_robot_agent ''T2'' ''c'' ''cleaning'' [] (Some [''weight_delta'']) (Some [])
     (Some [(''modes'', JList [JStr ''sensor-witness'']), (''threshold'', JStr ''all'')]) 1 None = Inr sample_follow_up"
  by (simp add: build_continuation_def sample_robot_agent_def sample_follow_up_def or_default_def Let_def)

lemma sample_follow_up_posted:
  "\<exists>v t. rpc sample_env (''tasks/post'', [(''task'', JDict sample_follow_up), (''expiry'', JStr ''a100000000'')]) empty_db = (Result v, t)"
proof -
  have "post_checks sample_env DEFAULT_REGISTRY sample_follow_up = Inr ()"
    by (simp add: sample_follow_up_def post_checks_def reject_legacy_def legacy_fields_def validate_attestation_requirement_def py_or_def out_of_scope_def)
  then have "\<exists>v t. task_post sample_env DEFAULT_REGISTRY sample_follow_up ''a100000000'' [] empty_db = (Inr v, t)"
    by (simp add: task_post_def, simp add: sample_follow_up_def Let_def expiry_dt empty_db_def resolve_or_value_error_def
        access_defs row_add_def audit_append_run py_or_def bindS_def count_eligible_def class_filter_of_def capability_query_of_def
        task_venue_def matching_workers_def get_set_def py_set_def)
  then show ?thesis
    by (auto simp: rpc_def dispatch_def methods_def py_or_def v2_post_call [of "[]", simplified])
qed

theorem continuation_recorded_witness:
  "\<exists>call v t e p. post_continuation True ''c'' sample_follow_up ''a100000000'' None = Inr call \<and>
     rpc sample_env call empty_db = (Result v, t) \<and> audits t = [e] \<and> a_event_type e = ''task_posted'' \<and> a_payload_json e = JDict p \<and>
     map_of p ''continuation_of'' = Some (JDict [(''claim_id'', JStr ''c''), (''required_evidence_kinds'', JList [JStr ''weight_delta''])])"
proof -
  have call: "post_continuation True ''c'' sample_follow_up ''a100000000'' None =
      Inr (''tasks/post'', [(''task'', JDict sample_follow_up), (''expiry'', JStr ''a100000000'')])"
    by (simp add: post_continuation_def v2_post_task_def need_session_def sample_follow_up_def arg_def py_or_def)
  from sample_follow_up_posted obtain v t where run: "rpc sample_env (''tasks/post'',
      [(''task'', JDict sample_follow_up), (''expiry'', JStr ''a100000000'')]) empty_db = (Result v, t)" by blast
  from continuation_recorded [OF sample_follow_up_built _ call run] call run show ?thesis
    by (auto simp: empty_db_def or_default_def)
qed

end
