(* ===== verification/Py_Float.thy ===== *)
theory Py_Float
  imports Py_Json
begin

text \<open>
  The float arithmetic the integrations and adapters use. A finite float is the rational it
  denotes; an operation on floats is the exact one followed by rounding to the nearest double.
  The rounding, and the reading of a decimal literal, are not code of the repository: they are
  the record \<open>ieee\<close>, an argument of the definitions that need it.
\<close>

record ieee =
  rnd :: "rat \<Rightarrow> rat"
  read_float :: "string \<Rightarrow> rat option"

text \<open>\<open>round(x)\<close> of a float: to the nearest integer, ties to even.\<close>

definition py_round :: "rat \<Rightarrow> int" where
  "py_round r =
     (let f = \<lfloor>r\<rfloor>; d = r - of_int f in
      if d < 1 / 2 then f else if d > 1 / 2 then f + 1 else if even f then f else f + 1)"

lemma py_round_of_int [simp]: "py_round (of_int i) = i"
  by (simp add: py_round_def)

lemma py_round_near: "\<bar>of_int (py_round r) - r\<bar> \<le> 1 / 2"
  unfolding py_round_def Let_def using of_int_floor_le [of r] by (auto simp: abs_if) linarith+

text \<open>\<open>float(x)\<close>\<close>

fun py_float :: "ieee \<Rightarrow> json \<Rightarrow> rat res" where
  "py_float F (JFloat r) = Inr r"
| "py_float F (JInt i) = (if \<bar>i\<bar> \<ge> 2 ^ 1024 - 2 ^ 970 then Inl OverflowError else Inr (rnd F (of_int i)))"
| "py_float F (JBool b) = Inr (if b then 1 else 0)"
| "py_float F (JStr s) = of_opt (ValueError ''could not convert string to float: '') (read_float F s)"
| "py_float F _ = Inl TypeError"

text \<open>A number as the operand of float arithmetic; nothing else is one.\<close>

fun float_operand :: "ieee \<Rightarrow> json \<Rightarrow> rat res" where
  "float_operand F (JStr s) = Inl TypeError"
| "float_operand F j = py_float F j"

text \<open>
  The microseconds of \<open>timedelta(hours=h)\<close>, and with another factor of the other units. An int counts
  exactly; of a float the whole part does, and the product with its fraction is a float, the
  sum being rounded to even.
\<close>

fun timedelta_us :: "ieee \<Rightarrow> int \<Rightarrow> json \<Rightarrow> int res" where
  "timedelta_us F unit (JInt n) = Inr (n * unit)"
| "timedelta_us F unit (JBool b) = Inr (if b then unit else 0)"
| "timedelta_us F unit (JFloat r) =
     (let whole = (if 0 \<le> r then \<lfloor>r\<rfloor> else \<lceil>r\<rceil>)
      in Inr (py_round (of_int (whole * unit) + rnd F (of_int unit * (r - of_int whole)))))"
| "timedelta_us F unit _ = Inl TypeError"

text \<open>\<open>len(x)\<close>\<close>

fun py_len :: "json \<Rightarrow> nat res" where
  "py_len (JList xs) = Inr (length xs)"
| "py_len (JDict d) = Inr (length d)"
| "py_len (JStr s) = Inr (length s)"
| "py_len _ = Inl TypeError"

end
