(* ===== verification/Llm_Tools.thy ===== *)
theory Llm_Tools
  imports Sdk_V2 Sdk_Interop Py_Float
begin

text \<open>
  \<open>integrations/\<close>: the tools that let a language model drive an agent, for the Anthropic, OpenAI and
  Gemini tool-call formats and for LangChain (CrewAI and LlamaIndex reuse its \<open>_post\<close>, AutoGen the
  OpenAI dispatcher). A tool call ends in a call to the coordinator or in an answer of its own.

  The clock reading and the UUID a post draws are arguments, as are the agent's session and DID.
\<close>

datatype tool_action = Call rpc_call | Answer params

text \<open>\<open>now + timedelta\<close> in ISO format; the readings and sums have to be dates Python represents.\<close>

definition iso_after :: "env \<Rightarrow> int \<Rightarrow> int \<Rightarrow> string res" where
  "iso_after E now us = (if datetime_us (now + us) then Inr (isoformat E (Aware (now + us) 0)) else Inl OverflowError)"

definition HOUR :: int where
  "HOUR = 3600000000"

subsection \<open>Posting\<close>

text \<open>
  \<open>_post_via_tool\<close> and the three functions \<open>_post\<close>: they differ in the evidence kinds asked for and in
  the fields \<open>middle\<close> before the last two. \<open>tool_task\<close> is the dict they build.
\<close>

definition tool_task ::
  "env \<Rightarrow> string \<Rightarrow> int \<Rightarrow> string \<Rightarrow> json \<Rightarrow> json \<Rightarrow> string \<Rightarrow> json \<Rightarrow> json \<Rightarrow> int \<Rightarrow> int \<Rightarrow> json list \<Rightarrow> params \<Rightarrow> params" where
  "tool_task E did now u descriptor_type descriptor_payload latest allowed modes M N schema middle =
     [(''schema_version'', JStr ''wcp/0.2''), (''task_id'', JStr u), (''posted_by'', JStr did),
      (''descriptor_type'', descriptor_type), (''descriptor_payload'', descriptor_payload),
      (''constraints'', JDict
         [(''time_window'', JDict [(''earliest'', JStr (isoformat E (Aware now 0))), (''latest'', JStr latest)]),
          (''worker_class_filter'', JDict [(''allowed'', allowed)])]),
      (''attestation_requirement'', JDict
         [(''modes'', modes), (''threshold'', JStr ''M-of-N''), (''M'', JInt M), (''N'', JInt N),
          (''evidence_schema'', JList schema)])] @
     middle @
     [(''supervision'', JDict [(''default'', JStr ''autonomous'')]), (''x-subcontract-allowed'', JBool False)]"

definition evidence_schema_of :: "(json \<Rightarrow> json list res) \<Rightarrow> json list \<Rightarrow> json list res" where
  "evidence_schema_of kinds = mapE (\<lambda>m. bindE (kinds m) (\<lambda>ks. Inr (JDict [(''mode'', m), (''kinds'', JList ks)])))"

definition tool_post ::
  "env \<Rightarrow> ieee \<Rightarrow> (json \<Rightarrow> json list res) \<Rightarrow> (params \<Rightarrow> params) \<Rightarrow> bool \<Rightarrow> string \<Rightarrow> int \<Rightarrow> string \<Rightarrow> params \<Rightarrow> rpc_call res" where
  "tool_post E F kinds middle entered did now u args =
     bindE (j_item (JDict args) ''attestation_modes'') (\<lambda>modes.
     bindE (bindE (j_get (JDict args) ''M'' (JInt 1)) py_int) (\<lambda>M.
     bindE (py_len modes) (\<lambda>len.
     bindE (bindE (j_get (JDict args) ''N'' (JInt (max 1 (int len)))) py_int) (\<lambda>N.
     bindE (j_item (JDict args) ''descriptor_type'') (\<lambda>descriptor_type.
     bindE (j_item (JDict args) ''descriptor_payload'') (\<lambda>descriptor_payload.
     bindE (bindE (j_get (JDict args) ''time_window_hours'' (JInt 4)) (timedelta_us F HOUR)) (\<lambda>window.
     bindE (iso_after E now window) (\<lambda>latest.
     bindE (j_get (JDict args) ''worker_class_filter'' (JList [JStr ''human''])) (\<lambda>allowed.
     bindE (bindE (py_iter modes) (evidence_schema_of kinds)) (\<lambda>schema.
     bindE (iso_after E now (24 * HOUR)) (\<lambda>expiry.
     v2_post_task entered
       (tool_task E did now u descriptor_type descriptor_payload latest allowed modes M N schema (middle args))
       expiry None)))))))))))"

definition default_kinds :: "json \<Rightarrow> json list res" where
  "default_kinds mode =
     (if \<not> hashable mode then Inl TypeError
      else Inr (map JStr
        (case mode of
           JStr s \<Rightarrow>
             (if s = ''sensor-witness'' then [''gps_track'', ''signed_sensor_recording'', ''photo_with_exif'']
              else if s = ''third-party-witness'' then [''customer_signature'', ''iot_beacon_proximity'']
              else if s = ''cryptographic-presence'' then [''geofence_check_in_out'']
              else if s = ''owner-sign-off'' then [''whatsapp_business_signed_link'']
              else [])
         | _ \<Rightarrow> [])))"

definition anthropic_post ::
  "env \<Rightarrow> ieee \<Rightarrow> bool \<Rightarrow> string \<Rightarrow> int \<Rightarrow> string \<Rightarrow> params \<Rightarrow> rpc_call res" where
  "anthropic_post E F = tool_post E F default_kinds
     (\<lambda>args. [(''max_attestation_attempts'', JInt 1), (''accounting_ref'', arg ''accounting_ref'' args)])"

definition openai_post ::
  "env \<Rightarrow> ieee \<Rightarrow> bool \<Rightarrow> string \<Rightarrow> int \<Rightarrow> string \<Rightarrow> params \<Rightarrow> rpc_call res" where
  "openai_post E F = tool_post E F (\<lambda>m. Inr []) (\<lambda>args. [])"

definition langchain_post ::
  "env \<Rightarrow> ieee \<Rightarrow> bool \<Rightarrow> string \<Rightarrow> int \<Rightarrow> string \<Rightarrow> params \<Rightarrow> rpc_call res" where
  "langchain_post E F = tool_post E F (\<lambda>m. Inr []) (\<lambda>args. [])"

definition gemini_post ::
  "env \<Rightarrow> ieee \<Rightarrow> bool \<Rightarrow> string \<Rightarrow> int \<Rightarrow> string \<Rightarrow> params \<Rightarrow> rpc_call res" where
  "gemini_post E F = tool_post E F (\<lambda>m. Inr []) (\<lambda>args. [])"

subsection \<open>Dispatch\<close>

definition marker :: "params \<Rightarrow> params \<Rightarrow> params \<Rightarrow> tool_action res" where
  "marker before after args =
     bindE (j_item (JDict args) ''task_id'') (\<lambda>t. Inr (Answer (before @ [(''task_id'', t)] @ after)))"

definition anthropic_dispatch ::
  "env \<Rightarrow> ieee \<Rightarrow> bool \<Rightarrow> sdk_identity \<Rightarrow> int \<Rightarrow> string \<Rightarrow> string \<Rightarrow> params \<Rightarrow> tool_action res" where
  "anthropic_dispatch E F entered i now u tool_name tool_input =
     (if tool_name = ''wcp_discover_capabilities'' then
        bindE (discover_capabilities entered i (Some (filter (\<lambda>e. fst e \<in>
          {''worker_class_filter'', ''required_certifications'', ''location_scope''}) tool_input))) (\<lambda>c. Inr (Call c))
      else if tool_name = ''wcp_post_task'' then
        bindE (anthropic_post E F entered (i_did i) now u tool_input) (\<lambda>c. Inr (Call c))
      else if tool_name = ''wcp_subscribe_attestation'' then marker [(''subscribed'', JBool True)] [] tool_input
      else if tool_name = ''wcp_get_audit_chain'' then marker [] [(''note'', JStr ''audit-chain endpoint pending'')] tool_input
      else Inr (Answer [(''error'', JStr (''unknown tool: '' @ tool_name))]))"

text \<open>\<open>dispatch_function_call\<close> of the OpenAI and of the Gemini module.\<close>

definition function_dispatch ::
  "(bool \<Rightarrow> string \<Rightarrow> int \<Rightarrow> string \<Rightarrow> params \<Rightarrow> rpc_call res) \<Rightarrow> bool \<Rightarrow> sdk_identity \<Rightarrow> int \<Rightarrow> string \<Rightarrow> string \<Rightarrow>
   params \<Rightarrow> tool_action res" where
  "function_dispatch post entered i now u name args =
     (if name = ''wcp_discover_capabilities'' then
        bindE (discover_capabilities entered i (Some args)) (\<lambda>c. Inr (Call c))
      else if name = ''wcp_post_task'' then bindE (post entered (i_did i) now u args) (\<lambda>c. Inr (Call c))
      else if name = ''wcp_subscribe_attestation'' then marker [(''subscribed'', JBool True)] [] args
      else if name = ''wcp_get_audit_chain'' then marker [] [(''note'', JStr ''audit-chain endpoint pending'')] args
      else Inr (Answer [(''error'', JStr (''unknown function: '' @ name))]))"

definition openai_dispatch ::
  "env \<Rightarrow> ieee \<Rightarrow> bool \<Rightarrow> sdk_identity \<Rightarrow> int \<Rightarrow> string \<Rightarrow> string \<Rightarrow> params \<Rightarrow> tool_action res" where
  "openai_dispatch E F = function_dispatch (openai_post E F)"

definition gemini_dispatch ::
  "env \<Rightarrow> ieee \<Rightarrow> bool \<Rightarrow> sdk_identity \<Rightarrow> int \<Rightarrow> string \<Rightarrow> string \<Rightarrow> params \<Rightarrow> tool_action res" where
  "gemini_dispatch E F = function_dispatch (gemini_post E F)"

text \<open>
  The LangChain tools take text: \<open>loads\<close> is \<open>json.loads\<close>, \<open>None\<close> what is not JSON. The filter of \<open>discover\<close> is
  annotated as a dict.
\<close>

definition loads_dict :: "(string \<Rightarrow> json option) \<Rightarrow> string \<Rightarrow> params res" where
  "loads_dict loads s = bindE (of_opt (ValueError ''JSONDecodeError'') (loads s)) to_dict"

definition langchain_discover :: "(string \<Rightarrow> json option) \<Rightarrow> bool \<Rightarrow> sdk_identity \<Rightarrow> string \<Rightarrow> rpc_call res" where
  "langchain_discover loads entered i filter_json =
     bindE (if filter_json \<noteq> [] then loads_dict loads filter_json else Inr []) (\<lambda>f.
     discover_capabilities entered i (Some f))"

definition langchain_post_tool ::
  "env \<Rightarrow> ieee \<Rightarrow> (string \<Rightarrow> json option) \<Rightarrow> bool \<Rightarrow> sdk_identity \<Rightarrow> int \<Rightarrow> string \<Rightarrow> string \<Rightarrow> rpc_call res" where
  "langchain_post_tool E F loads entered i now u task_args_json =
     bindE (loads_dict loads task_args_json) (\<lambda>args. langchain_post E F entered (i_did i) now u args)"

subsection \<open>The tools a model is told of\<close>

definition WCP_TOOLS :: "json list" where
  "WCP_TOOLS =
     [JDict [(''name'', JStr ''wcp_discover_capabilities''), (''description'', JStr ''Discover WCP workers eligible
         for a task. Filter on worker class, certifications, location scope, attestation methods.''),
         (''input_schema'', JDict [(''type'', JStr ''object''), (''properties'', JDict [(''worker_class_filter'',
         JDict [(''type'', JStr ''array''), (''items'', JDict [(''type'', JStr ''string'')]), (''description'', JStr
         ''subset of: human, autonomous_robot, teleoperated_robot, semi_autonomous, hybrid'')]),
         (''required_certifications'', JDict [(''type'', JStr ''array''), (''items'', JDict [(''type'', JStr
         ''string'')])]), (''location_scope'', JDict [(''type'', JStr ''object'')])])])],
      JDict [(''name'', JStr ''wcp_post_task''), (''description'', JStr ''Post a WCP TaskDescriptor. v0.955:
         settlement is not a protocol concern; pass accounting_ref to correlate with an external settlement layer if
         needed.''), (''input_schema'', JDict [(''type'', JStr ''object''), (''required'', JList [JStr
         ''descriptor_type'', JStr ''descriptor_payload'', JStr ''attestation_modes'', JStr ''amount'', JStr
         ''currency'']), (''properties'', JDict [(''descriptor_type'', JDict [(''type'', JStr ''string''),
         (''description'', JStr ''transport, scheduled_presence, observe_and_report, or application-defined'')]),
         (''descriptor_payload'', JDict [(''type'', JStr ''object'')]), (''attestation_modes'', JDict [(''type'', JStr
         ''array''), (''items'', JDict [(''type'', JStr ''string'')])]), (''M'', JDict [(''type'', JStr ''integer''),
         (''default'', JInt 1)]), (''N'', JDict [(''type'', JStr ''integer''), (''default'', JInt 1)]), (''amount'',
         JDict [(''type'', JStr ''string'')]), (''currency'', JDict [(''type'', JStr ''string'')]),
         (''worker_class_filter'', JDict [(''type'', JStr ''array''), (''items'', JDict [(''type'', JStr
         ''string'')])]), (''time_window_hours'', JDict [(''type'', JStr ''number''), (''default'', JInt 4)])])])],
      JDict [(''name'', JStr ''wcp_subscribe_attestation''), (''description'', JStr ''Subscribe to attestation
         outcomes for a posted task.''), (''input_schema'', JDict [(''type'', JStr ''object''), (''required'', JList
         [JStr ''task_id'']), (''properties'', JDict [(''task_id'', JDict [(''type'', JStr ''string'')])])])],
      JDict [(''name'', JStr ''wcp_get_audit_chain''), (''description'', JStr ''Fetch the hash-linked audit chain
         entries for a task.''), (''input_schema'', JDict [(''type'', JStr ''object''), (''required'', JList [JStr
         ''task_id'']), (''properties'', JDict [(''task_id'', JDict [(''type'', JStr ''string'')])])])]]"

definition openai_function :: "string \<Rightarrow> string \<Rightarrow> json \<Rightarrow> json" where
  "openai_function name description parameters =
     JDict [(''type'', JStr ''function''),
       (''function'', JDict [(''name'', JStr name), (''description'', JStr description), (''parameters'', parameters)])]"

definition WCP_FUNCTIONS :: "json list" where
  "WCP_FUNCTIONS =
     [openai_function ''wcp_discover_capabilities'' ''Discover WCP workers eligible for a task.'' (JDict
         [(''type'', JStr ''object''), (''properties'', JDict [(''worker_class_filter'', JDict [(''type'', JStr
         ''array''), (''items'', JDict [(''type'', JStr ''string'')])]), (''required_certifications'', JDict
         [(''type'', JStr ''array''), (''items'', JDict [(''type'', JStr ''string'')])]), (''location_scope'', JDict
         [(''type'', JStr ''object'')])])]),
      openai_function ''wcp_post_task'' ''Post a WCP task descriptor with bonded escrow.'' (JDict [(''type'', JStr
         ''object''), (''required'', JList [JStr ''descriptor_type'', JStr ''descriptor_payload'', JStr
         ''attestation_modes'', JStr ''amount'', JStr ''currency'']), (''properties'', JDict [(''descriptor_type'',
         JDict [(''type'', JStr ''string'')]), (''descriptor_payload'', JDict [(''type'', JStr ''object'')]),
         (''attestation_modes'', JDict [(''type'', JStr ''array''), (''items'', JDict [(''type'', JStr
         ''string'')])]), (''M'', JDict [(''type'', JStr ''integer''), (''default'', JInt 1)]), (''N'', JDict
         [(''type'', JStr ''integer''), (''default'', JInt 1)]), (''amount'', JDict [(''type'', JStr ''string'')]),
         (''currency'', JDict [(''type'', JStr ''string'')]), (''worker_class_filter'', JDict [(''type'', JStr
         ''array''), (''items'', JDict [(''type'', JStr ''string'')])]), (''time_window_hours'', JDict [(''type'',
         JStr ''number''), (''default'', JInt 4)])])]),
      openai_function ''wcp_subscribe_attestation'' ''Subscribe to attestation outcomes for a posted task.'' (JDict
         [(''type'', JStr ''object''), (''required'', JList [JStr ''task_id'']), (''properties'', JDict [(''task_id'',
         JDict [(''type'', JStr ''string'')])])]),
      openai_function ''wcp_get_audit_chain'' ''Fetch the hash-linked audit chain entries for a task.'' (JDict
         [(''type'', JStr ''object''), (''required'', JList [JStr ''task_id'']), (''properties'', JDict [(''task_id'',
         JDict [(''type'', JStr ''string'')])])])]"

definition gemini_declaration :: "string \<Rightarrow> string \<Rightarrow> json \<Rightarrow> json" where
  "gemini_declaration name description parameters =
     JDict [(''name'', JStr name), (''description'', JStr description), (''parameters'', parameters)]"

definition WCP_FUNCTION_DECLARATIONS :: "json list" where
  "WCP_FUNCTION_DECLARATIONS =
     [gemini_declaration ''wcp_discover_capabilities'' ''Discover WCP workers eligible for a task.'' (JDict
         [(''type'', JStr ''OBJECT''), (''properties'', JDict [(''worker_class_filter'', JDict [(''type'', JStr
         ''ARRAY''), (''items'', JDict [(''type'', JStr ''STRING'')])]), (''location_scope'', JDict [(''type'', JStr
         ''OBJECT'')])])]),
      gemini_declaration ''wcp_post_task'' ''Post a WCP task descriptor with bonded escrow.'' (JDict [(''type'',
         JStr ''OBJECT''), (''properties'', JDict [(''descriptor_type'', JDict [(''type'', JStr ''STRING'')]),
         (''descriptor_payload'', JDict [(''type'', JStr ''OBJECT'')]), (''attestation_modes'', JDict [(''type'', JStr
         ''ARRAY''), (''items'', JDict [(''type'', JStr ''STRING'')])]), (''M'', JDict [(''type'', JStr
         ''INTEGER'')]), (''N'', JDict [(''type'', JStr ''INTEGER'')]), (''amount'', JDict [(''type'', JStr
         ''STRING'')]), (''currency'', JDict [(''type'', JStr ''STRING'')]), (''worker_class_filter'', JDict
         [(''type'', JStr ''ARRAY''), (''items'', JDict [(''type'', JStr ''STRING'')])]), (''time_window_hours'',
         JDict [(''type'', JStr ''NUMBER'')])]), (''required'', JList [JStr ''descriptor_type'', JStr
         ''descriptor_payload'', JStr ''attestation_modes'', JStr ''amount'', JStr ''currency''])]),
      gemini_declaration ''wcp_subscribe_attestation'' ''Subscribe to attestation outcomes for a posted task.''
         (JDict [(''type'', JStr ''OBJECT''), (''properties'', JDict [(''task_id'', JDict [(''type'', JStr
         ''STRING'')])]), (''required'', JList [JStr ''task_id''])]),
      gemini_declaration ''wcp_get_audit_chain'' ''Fetch the hash-linked audit chain entries for a task.'' (JDict
         [(''type'', JStr ''OBJECT''), (''properties'', JDict [(''task_id'', JDict [(''type'', JStr ''STRING'')])]),
         (''required'', JList [JStr ''task_id''])])]"

section \<open>What the tools post\<close>

lemma v2_post_Inr: "v2_post_task entered task expiry None = Inr c \<longleftrightarrow>
    entered \<and> c = (''tasks/post'', [(''task'', JDict task), (''expiry'', JStr expiry)])"
  by (auto simp: v2_post_task_def need_session_def)

lemma tool_posted:
  assumes "tool_post E F kinds middle entered did now u args = Inr call"
    and "map_of args ''attestation_modes'' = Some (JList ms)"
  shows "\<exists>expiry latest allowed payload schema M N d.
    call = (''tasks/post'', [(''task'', JDict (tool_task E did now u d payload latest allowed (JList ms) M N schema (middle args))),
      (''expiry'', JStr expiry)]) \<and>
    bindE (j_get (JDict args) ''M'' (JInt 1)) py_int = Inr M \<and>
    bindE (j_get (JDict args) ''N'' (JInt (max 1 (int (length ms))))) py_int = Inr N \<and>
    map_of args ''descriptor_type'' = Some d \<and> evidence_schema_of kinds ms = Inr schema"
proof -
  have item: "j_item (JDict args) k = Inr v \<longleftrightarrow> map_of args k = Some v" for k v by (auto simp: of_opt_def split: option.splits)
  from assms show ?thesis
    unfolding tool_post_def
    by (simp only: bindE_Inr item v2_post_Inr) (clarsimp simp del: j_get.simps simp: bindE_Inr, blast)
qed

lemma kinds_checked:
  assumes "evidence_schema_of kinds (map JStr ms) = Inr schema"
    and "\<And>m ks. m \<in> set ms \<Longrightarrow> kinds (JStr m) = Inr ks \<Longrightarrow> \<exists>ss. ks = map JStr ss \<and>
      (\<forall>k \<in> set ss. \<exists>rs. map_of DEFAULT_REGISTRY m = Some rs \<and> k \<in> set rs)"
  shows "forE (validate_kinds E DEFAULT_REGISTRY) schema = Inr ()"
  using assms
proof (induction ms arbitrary: schema)
  case (Cons m ms)
  from Cons.prems(1) obtain ks rest where ks: "kinds (JStr m) = Inr ks" "schema = JDict [(''mode'', JStr m), (''kinds'', JList ks)] # rest"
      "evidence_schema_of kinds (map JStr ms) = Inr rest"
    by (auto simp: evidence_schema_of_def bindE_Inr)
  from Cons.prems(2) [OF _ ks(1)] obtain ss where "ks = map JStr ss" "\<forall>k \<in> set ss. \<exists>rs. map_of DEFAULT_REGISTRY m = Some rs \<and> k \<in> set rs"
    by auto
  then have "validate_kinds E DEFAULT_REGISTRY (JDict [(''mode'', JStr m), (''kinds'', JList ks)]) = Inr ()"
    by (simp add: validate_kinds_ok)
  with Cons.IH [OF ks(3)] Cons.prems(2) show ?case by (simp add: ks(2))
qed (simp add: evidence_schema_of_def)

lemma default_kinds_registered:
  "default_kinds (JStr m) = Inr ks \<Longrightarrow> \<exists>ss. ks = map JStr ss \<and> (\<forall>k \<in> set ss. \<exists>rs. map_of DEFAULT_REGISTRY m = Some rs \<and> k \<in> set rs)"
  by (rule exI [of _ "map (\<lambda>j. case j of JStr s \<Rightarrow> s) ks"]) (auto simp: default_kinds_def DEFAULT_REGISTRY_def split: if_splits)

lemma tool_task_checked:
  assumes "forE (validate_kinds E DEFAULT_REGISTRY) schema = Inr ()" "ms \<noteq> []"
    and "''settlement'' \<notin> fst ` set middle" "map_of middle ''x-subcontract-allowed'' = None"
  shows "post_checks E DEFAULT_REGISTRY (tool_task E did now u (JStr d) payload latest allowed (JList ms) M N schema middle) = Inr () \<longleftrightarrow>
    M \<le> N \<and> d \<notin> {''medical'', ''defense'', ''minor_involving'', ''hazmat_above_consumer''}"
proof -
  let ?t = "tool_task E did now u (JStr d) payload latest allowed (JList ms) M N schema middle"
  let ?req = "[(''modes'', JList ms), (''threshold'', JStr ''M-of-N''), (''M'', JInt M), (''N'', JInt N), (''evidence_schema'', JList schema)]"
  have fields: "map_of ?t ''attestation_requirement'' = Some (JDict ?req)" "map_of ?t ''descriptor_type'' = Some (JStr d)"
      "map_of ?t ''x-subcontract-allowed'' = Some (JBool False)" "''settlement'' \<notin> fst ` set ?t"
    using assms(3,4) by (auto simp: tool_task_def map_add_def)
  have "reject_legacy (JDict ?req) = Inr ()" by (simp add: reject_legacy_def legacy_fields_def)
  moreover have "validate_attestation_requirement E DEFAULT_REGISTRY (JDict ?req) = Inr () \<longleftrightarrow> M \<le> N"
    using assms(1,2) by (cases schema) (auto simp: validate_attestation_requirement_def raise_if_def py_or_def)
  moreover have "eq_in (JStr d) out_of_scope \<longleftrightarrow> d \<in> {''medical'', ''defense'', ''minor_involving'', ''hazmat_above_consumer''}"
    by (simp add: out_of_scope_def)
  ultimately show ?thesis
    by (simp add: post_checks_def fields raise_if_def del: insert_iff)
qed


text \<open>
  C20: The tasks a language model posts through the tools are admitted exactly when the declared
  counts and the type allow it: for each of the four integrations, a post call with
  attestation modes and a descriptor type given as strings builds one tasks/post call, and its
  task passes every check of tasks/post exactly when M is at most N, each read from the
  arguments or defaulted to 1 and to the number of modes, and the type is none of the refused
  classes. No registered kind has to be known to the model.
\<close>

theorem tool_task_admitted:
  assumes "post \<in> {anthropic_post E F, openai_post E F, langchain_post E F, gemini_post E F}"
    and "post entered did now u args = Inr call"
    and "map_of args ''attestation_modes'' = Some (JList (map JStr ms))" "ms \<noteq> []" "map_of args ''descriptor_type'' = Some (JStr d)"
  shows "\<exists>task expiry M N. call = (''tasks/post'', [(''task'', JDict task), (''expiry'', JStr expiry)]) \<and>
    py_int (case map_of args ''M'' of None \<Rightarrow> JInt 1 | Some v \<Rightarrow> v) = Inr M \<and>
    py_int (case map_of args ''N'' of None \<Rightarrow> JInt (int (length ms)) | Some v \<Rightarrow> v) = Inr N \<and>
    (post_checks E DEFAULT_REGISTRY task = Inr () \<longleftrightarrow>
       M \<le> N \<and> d \<notin> {''medical'', ''defense'', ''minor_involving'', ''hazmat_above_consumer''})"
proof -
  from assms(1) obtain kinds middle where post: "post = tool_post E F kinds middle"
    and k: "kinds = default_kinds \<or> kinds = (\<lambda>m. Inr [])"
    and m: "''settlement'' \<notin> fst ` set (middle args)" "map_of (middle args) ''x-subcontract-allowed'' = None"
    by (auto simp: anthropic_post_def openai_post_def langchain_post_def gemini_post_def)
  from tool_posted [OF assms(2) [unfolded post] assms(3)] assms(5) obtain expiry latest allowed payload schema M N where
    call: "call = (''tasks/post'', [(''task'', JDict (tool_task E did now u (JStr d) payload latest allowed (JList (map JStr ms)) M N schema (middle args))),
      (''expiry'', JStr expiry)])"
    and MN: "bindE (j_get (JDict args) ''M'' (JInt 1)) py_int = Inr M"
      "bindE (j_get (JDict args) ''N'' (JInt (max 1 (int (length (map JStr ms)))))) py_int = Inr N"
    and schema: "evidence_schema_of kinds (map JStr ms) = Inr schema"
    by auto
  have "forE (validate_kinds E DEFAULT_REGISTRY) schema = Inr ()"
    by (rule kinds_checked [OF schema]) (use k default_kinds_registered in auto)
  note checked = tool_task_checked [OF this _ m, of "map JStr ms"]
  have "max 1 (int (length (map JStr ms))) = int (length ms)" using assms(4) by (cases ms) simp_all
  with MN checked assms(4) show ?thesis by (simp add: call)
qed

definition sample_ieee :: ieee where
  "sample_ieee = \<lparr>rnd = (\<lambda>x. x), read_float = (\<lambda>s. None)\<rparr>"

definition sample_tool_args :: params where
  "sample_tool_args = [(''descriptor_type'', JStr ''cleaning''), (''descriptor_payload'', JDict []),
     (''attestation_modes'', JList [JStr ''sensor-witness'', JStr ''owner-sign-off''])]"

lemma sample_tool_call: "\<exists>call. anthropic_post sample_env sample_ieee True agent_did 0 ''T'' sample_tool_args = Inr call"
  by (simp add: anthropic_post_def tool_post_def sample_tool_args_def HOUR_def iso_after_def datetime_us_def evidence_schema_of_def
      default_kinds_def v2_post_Inr)

theorem tool_task_admitted_witness:
  "\<exists>task expiry. anthropic_post sample_env sample_ieee True agent_did 0 ''T'' sample_tool_args =
       Inr (''tasks/post'', [(''task'', JDict task), (''expiry'', JStr expiry)]) \<and>
     post_checks sample_env DEFAULT_REGISTRY task = Inr ()"
proof -
  from sample_tool_call obtain call where c: "anthropic_post sample_env sample_ieee True agent_did 0 ''T'' sample_tool_args = Inr call" by blast
  from tool_task_admitted [of "anthropic_post sample_env sample_ieee" sample_env sample_ieee, OF _ c, of "[''sensor-witness'', ''owner-sign-off'']"] c
  show ?thesis by (auto simp: sample_tool_args_def)
qed

text \<open>
  The tools a language model is told of are the ones the dispatchers have branches for. A call with
  another name is answered with an error and reaches no coordinator.
\<close>

definition declared_names :: "string set" where
  "declared_names = {''wcp_discover_capabilities'', ''wcp_post_task'', ''wcp_subscribe_attestation'', ''wcp_get_audit_chain''}"

lemma declared_tools:
  "map (\<lambda>t. j_item t ''name'') WCP_TOOLS = map (\<lambda>t. bindE (j_item t ''function'') (\<lambda>f. j_item f ''name'')) WCP_FUNCTIONS"
  "map (\<lambda>t. j_item t ''name'') WCP_FUNCTION_DECLARATIONS = map (\<lambda>t. j_item t ''name'') WCP_TOOLS"
  "set (map (\<lambda>t. j_item t ''name'') WCP_TOOLS) = (Inr \<circ> JStr) ` declared_names"
  by (simp_all add: WCP_TOOLS_def WCP_FUNCTIONS_def WCP_FUNCTION_DECLARATIONS_def openai_function_def gemini_declaration_def
      declared_names_def of_opt_def)

lemma declared_tools_dispatched:
  assumes "disp \<in> {anthropic_dispatch E F, openai_dispatch E F, gemini_dispatch E F}"
  shows "(\<exists>e. disp entered i now u name args = Inr (Answer [(''error'', e)])) \<longleftrightarrow> name \<notin> declared_names"
  using assms
  by (auto simp: declared_names_def anthropic_dispatch_def openai_dispatch_def gemini_dispatch_def function_dispatch_def marker_def of_opt_def
      split: option.splits)

end
