(* ===== verification/Mqtt_Adapters.thy ===== *)
theory Mqtt_Adapters
  imports Sdk_V2 Multibase Py_Float
begin

text \<open>
  The two adapters that speak MQTT: \<open>examples/adapters/mqtt-iot/\<close>, a fleet of sensors behind a topic map,
  and \<open>examples/adapters/vda5050-warehouse-amr/\<close>, a transport robot of a VDA 5050 fleet. Each is a worker
  of the second SDK with handlers of its own and a coroutine that reads the broker's messages.

  What the broker is told is recorded in the state. The messages that arrive while a handler
  waits are an argument of the handler. The JSON and UTF-8 readers of Python are the record
  \<open>codecs\<close>. An exception ends the reading coroutine, whose task nobody awaits.
\<close>

datatype loads_result = Loaded json | NotJson | NotText

record codecs =
  json_loads :: "bytes \<Rightarrow> loads_result"
  json_dumps :: "json \<Rightarrow> bytes"
  utf8_decode :: "bytes \<Rightarrow> string option"

subsection \<open>Capability descriptors\<close>

text \<open>What the five modules \<open>capability.py\<close> have in common.\<close>

definition attestation_key_entry_of :: "string \<Rightarrow> string \<Rightarrow> string \<Rightarrow> string \<Rightarrow> json" where
  "attestation_key_entry_of worker_did key_id pubkey trust_class =
     JDict [(''key_id'', JStr key_id), (''did'', JStr worker_did), (''public_key_multibase'', JStr pubkey),
       (''algorithm'', JStr ''Ed25519''), (''trust_class'', JStr trust_class)]"

definition adapter_descriptor ::
  "string \<Rightarrow> string \<Rightarrow> string \<Rightarrow> string \<Rightarrow> string \<Rightarrow> string list \<Rightarrow> params \<Rightarrow> string list \<Rightarrow> params \<Rightarrow> params" where
  "adapter_descriptor worker_did coord_did key_id pubkey trust_class types extension kinds connectivity =
     [(''schema_version'', JStr ''wcp/0.2''), (''did'', JStr worker_did), (''worker_class'', JStr ''autonomous_robot''),
      (''coordinator_did'', JStr coord_did), (''descriptor_types_supported'', JList (map JStr types)),
      (''class_extension'', JDict extension),
      (''attestation_keys'', JList [attestation_key_entry_of worker_did key_id pubkey trust_class]),
      (''attestation_kinds_produced'', JList (map JStr kinds))] @ connectivity"

text \<open>\<open>d.get(key, []) or []\<close>, iterated.\<close>

definition rows_of :: "params \<Rightarrow> string \<Rightarrow> json list res" where
  "rows_of d key = py_iter (py_or (case map_of d key of Some v \<Rightarrow> v | None \<Rightarrow> JList []) (JList []))"

definition name_of :: "json \<Rightarrow> json res" where
  "name_of row = j_item row ''name''"

subsection \<open>MQTT topic filters\<close>

text \<open>\<open>s.split(c)\<close>\<close>

fun py_split :: "char \<Rightarrow> string \<Rightarrow> string list" where
  "py_split c [] = [[]]"
| "py_split c (x # xs) =
     (if x = c then [] # py_split c xs
      else case py_split c xs of [] \<Rightarrow> [[x]] | p # ps \<Rightarrow> (x # p) # ps)"

text \<open>The loop over the tokens of the filter, with \<open>i\<close> the next level of the topic.\<close>

fun filter_loop :: "string list \<Rightarrow> string list \<Rightarrow> nat \<Rightarrow> bool" where
  "filter_loop mt [] i = (i = length mt)"
| "filter_loop mt (tok # sf) i =
     (if tok = ''#'' then True
      else if i \<ge> length mt then False
      else if tok = ''+'' \<or> tok = mt ! i then filter_loop mt sf (i + 1)
      else False)"

definition matches_topic_filter :: "string \<Rightarrow> string \<Rightarrow> bool" where
  "matches_topic_filter mqtt_topic sub_filter =
     (if sub_filter = mqtt_topic then True
      else filter_loop (py_split (CHR ''/'') mqtt_topic) (py_split (CHR ''/'') sub_filter) 0)"

subsection \<open>The sensor fleet\<close>

definition topic_map_to_class_extension :: "params \<Rightarrow> params res" where
  "topic_map_to_class_extension topic_map =
     bindE (rows_of topic_map ''sensor_streams'') (\<lambda>streams.
     bindE (rows_of topic_map ''command_topics'') (\<lambda>cmds.
     bindE (mapE (\<lambda>s.
         bindE (name_of s) (\<lambda>n.
         bindE (j_get s ''payload_schema'' JNull) (\<lambda>p.
         bindE (j_get s ''rate_hz_approx'' JNull) (\<lambda>r.
         Inr (JDict [(''name'', n), (''payload_schema'', p), (''rate_hz_approx'', r)]))))) streams) (\<lambda>stream_rows.
     bindE (mapE name_of cmds) (\<lambda>cmd_names.
     Inr [(''platform'', JStr ''iot_sensor_fleet''), (''protocol'', JStr ''mqtt_v5''),
       (''device_class'', (case map_of topic_map ''device_class'' of Some v \<Rightarrow> v | None \<Rightarrow> JStr ''generic'')),
       (''device_count'', arg ''device_count'' topic_map), (''sensor_stream_count'', JInt (int (length streams))),
       (''sensor_streams'', JList stream_rows), (''command_topics_supported'', JList cmd_names)]))))"

definition mqtt_capability_descriptor ::
  "string \<Rightarrow> string \<Rightarrow> string \<Rightarrow> string \<Rightarrow> params \<Rightarrow> string \<Rightarrow> params res" where
  "mqtt_capability_descriptor worker_did coord_did key_id pubkey topic_map trust_class =
     bindE (topic_map_to_class_extension topic_map) (\<lambda>ext.
     Inr (adapter_descriptor worker_did coord_did key_id pubkey trust_class
       [''sensor_read_window'', ''sensor_trigger_capture''] ext [''mqtt_sensor_window'', ''mqtt_capture_manifest'']
       [(''connectivity_profile'', JStr ''continuous'')]))"

record mqtt_window =
  mw_claim_id :: string
  mw_streams :: "json list"
  mw_samples :: "json list"
  mw_end_at :: int

record mqtt_bridge =
  mb_worker :: v2_worker
  mb_reads :: "(string \<times> mqtt_window) list"
  mb_stream_index :: "(string \<times> json) list"
  mb_command_index :: "(string \<times> json) list"
  mb_subscribed :: "string list"
  mb_published :: "(string \<times> bytes) list"
  mb_consuming :: bool

text \<open>\<open>{row["name"]: row for row in rows}\<close>\<close>

fun index_by_name :: "(string \<times> json) list \<Rightarrow> json list \<Rightarrow> (string \<times> json) list res" where
  "index_by_name d [] = Inr d"
| "index_by_name d (row # rows) =
     bindE (bindE (name_of row) to_str) (\<lambda>n. index_by_name (dict_set n row d) rows)"

definition new_mqtt_bridge :: "sdk_identity \<Rightarrow> params \<Rightarrow> mqtt_bridge res" where
  "new_mqtt_bridge i topic_map =
     bindE (bindE (rows_of topic_map ''sensor_streams'') (index_by_name [])) (\<lambda>streams.
     bindE (bindE (rows_of topic_map ''command_topics'') (index_by_name [])) (\<lambda>cmds.
     bindE (topic_map_to_class_extension topic_map) (\<lambda>ext.
     Inr \<lparr>mb_worker = v2_set_capability [''sensor_read_window'', ''sensor_trigger_capture''] [] None (Some ext) None None None
            (new_v2_worker i AUTONOMOUS_ROBOT ''did:wcp:example-principal''),
          mb_reads = [], mb_stream_index = streams, mb_command_index = cmds, mb_subscribed = [], mb_published = [],
          mb_consuming = True\<rparr>)))"

text \<open>
  \<open>_decode_payload\<close>. Text that is no JSON gives \<open>None\<close>; bytes that are no text raise
  \<open>UnicodeDecodeError\<close>, which the branch for JSON does not catch.
\<close>

definition decode_payload :: "codecs \<Rightarrow> ieee \<Rightarrow> bytes \<Rightarrow> json \<Rightarrow> json res" where
  "decode_payload K F payload schema =
     (let text = (\<lambda>f. case utf8_decode K payload of None \<Rightarrow> Inr JNull | Some s \<Rightarrow> Inr (f s)) in
      if schema = JStr ''json'' then
        (case json_loads K payload of Loaded v \<Rightarrow> Inr v | NotJson \<Rightarrow> Inr JNull | NotText \<Rightarrow> Inl (ValueError ''UnicodeDecodeError''))
      else if schema = JStr ''scalar_float'' then
        text (\<lambda>s. case py_float F (JStr s) of Inl _ \<Rightarrow> JNull | Inr r \<Rightarrow> JFloat r)
      else if schema = JStr ''scalar_int'' then
        text (\<lambda>s. case py_int (JStr s) of Inl _ \<Rightarrow> JNull | Inr n \<Rightarrow> JInt n)
      else if schema = JStr ''scalar_bool'' then
        text (\<lambda>s. JBool (py_lower (py_strip s) \<in> {''1'', ''true'', ''yes'', ''on''}))
      else if schema = JStr ''scalar_string'' then text JStr
      else if schema = JStr ''trigger'' then Inr (JStr ''fired'')
      else Inr (JStr (hex_string payload)))"

text \<open>\<open>consume_messages\<close>: one message, read at the time \<open>now\<close>.\<close>

definition add_sample :: "string \<Rightarrow> int \<Rightarrow> json \<Rightarrow> mqtt_window \<Rightarrow> mqtt_window" where
  "add_sample s_name now sample r =
     (if eq_in (JStr s_name) (mw_streams r) \<and> now \<le> mw_end_at r then r\<lparr>mw_samples := mw_samples r @ [sample]\<rparr> else r)"

definition consume_stream ::
  "env \<Rightarrow> codecs \<Rightarrow> ieee \<Rightarrow> int \<Rightarrow> string \<Rightarrow> bytes \<Rightarrow> string \<times> json \<Rightarrow> (mqtt_bridge, unit) py" where
  "consume_stream E K F now topic payload s =
     bindS (lift (bindE (j_item (snd s) ''topic'') to_str)) (\<lambda>flt.
     if \<not> matches_topic_filter topic flt then ret ()
     else
       bindS (lift (bindE (j_get (snd s) ''payload_schema'' JNull) (decode_payload K F payload))) (\<lambda>value.
       let sample = JDict [(''t'', JStr (isoformat E (Aware now 0))), (''stream'', JStr (fst s)), (''topic'', JStr topic),
             (''value'', value)]
       in modify (\<lambda>b. b\<lparr>mb_reads := map (\<lambda>(k, r). (k, add_sample (fst s) now sample r)) (mb_reads b)\<rparr>)))"

type_synonym mqtt_message = "int \<times> string \<times> bytes"

definition consume_message :: "env \<Rightarrow> codecs \<Rightarrow> ieee \<Rightarrow> mqtt_message \<Rightarrow> mqtt_bridge \<Rightarrow> mqtt_bridge" where
  "consume_message E K F m b =
     (case m of (now, topic, payload) \<Rightarrow>
      if \<not> mb_consuming b then b
      else case forS (consume_stream E K F now topic payload) (mb_stream_index b) b of
        (Inl _, t) \<Rightarrow> t\<lparr>mb_consuming := False\<rparr>
      | (Inr _, t) \<Rightarrow> t)"

text \<open>The handlers; \<open>arrivals\<close> are the messages read while the window is open.\<close>

definition task_claim_id :: "json \<Rightarrow> string res" where
  "task_claim_id task = bindE (j_item task ''claim_id'') to_str"

definition subscribe_stream :: "json \<Rightarrow> (mqtt_bridge, unit) py" where
  "subscribe_stream s =
     bindS (lift (raise_if (\<not> hashable s) TypeError)) (\<lambda>_.
     bindS (gets mb_stream_index) (\<lambda>idx.
     case (case s of JStr n \<Rightarrow> map_of idx n | _ \<Rightarrow> None) of
       None \<Rightarrow> ret ()
     | Some sdef \<Rightarrow>
         bindS (lift (bindE (j_item sdef ''topic'') to_str)) (\<lambda>topic.
         modify (\<lambda>b. b\<lparr>mb_subscribed := mb_subscribed b @ [topic]\<rparr>))))"

definition mqtt_read_window ::
  "env \<Rightarrow> codecs \<Rightarrow> ieee \<Rightarrow> int \<Rightarrow> mqtt_message list \<Rightarrow> json \<Rightarrow> (mqtt_bridge, json) py" where
  "mqtt_read_window E K F now arrivals task =
     bindS (lift (task_claim_id task)) (\<lambda>claim_id.
     bindS (lift (j_get task ''descriptor_payload'' (JDict []))) (\<lambda>payload.
     bindS (lift (bindE (j_get payload ''streams'' (JList [])) py_iter)) (\<lambda>streams.
     bindS (lift (bindE (j_get payload ''window_seconds'' (JInt 60)) (py_float F))) (\<lambda>window_s.
     bindS (lift (timedelta_us F 1000000 (JFloat window_s))) (\<lambda>us.
     bindS (lift (raise_if (\<not> datetime_us (now + us)) OverflowError)) (\<lambda>_.
     bindS (modify (\<lambda>b. b\<lparr>mb_reads := dict_set claim_id \<lparr>mw_claim_id = claim_id, mw_streams = streams, mw_samples = [],
         mw_end_at = now + us\<rparr> (mb_reads b)\<rparr>)) (\<lambda>_.
     bindS (forS subscribe_stream streams) (\<lambda>_.
     bindS (modify (fold (consume_message E K F) arrivals)) (\<lambda>_.
     bindS (gets (\<lambda>b. case map_of (mb_reads b) claim_id of None \<Rightarrow> 0 | Some r \<Rightarrow> length (mw_samples r))) (\<lambda>n.
     ret (JDict [(''window_seconds'', JFloat window_s), (''sample_count'', JInt (int n))])))))))))))"

definition mqtt_trigger :: "env \<Rightarrow> codecs \<Rightarrow> int \<Rightarrow> json \<Rightarrow> (mqtt_bridge, json) py" where
  "mqtt_trigger E K now task =
     bindS (lift (j_get task ''descriptor_payload'' (JDict []))) (\<lambda>payload.
     bindS (lift (j_item payload ''command'')) (\<lambda>cmd_name.
     bindS (lift (raise_if (\<not> hashable cmd_name) TypeError)) (\<lambda>_.
     bindS (gets mb_command_index) (\<lambda>idx.
     case (case cmd_name of JStr n \<Rightarrow> map_of idx n | _ \<Rightarrow> None) of
       None \<Rightarrow> lift (Inl (KeyError (''command '' @ py_repr (float_repr E) cmd_name @ '' not in topic map'')))
     | Some cdef \<Rightarrow>
         bindS (lift (j_get payload ''body'' (JDict []))) (\<lambda>body.
         bindS (lift (bindE (j_item cdef ''topic'') to_str)) (\<lambda>topic.
         bindS (modify (\<lambda>b. b\<lparr>mb_published := mb_published b @ [(topic, json_dumps K body)]\<rparr>)) (\<lambda>_.
         ret (JDict [(''published'', JStr topic), (''at'', JStr (isoformat E (Aware now 0)))])))))))) "

definition mqtt_attest :: "mqtt_bridge \<Rightarrow> string \<Rightarrow> json" where
  "mqtt_attest b claim_id =
     JDict [(''kind'', JStr ''mqtt_sensor_window''),
       (''payload'', case map_of (mb_reads b) claim_id of
          None \<Rightarrow> JDict [(''samples'', JList [])]
        | Some r \<Rightarrow> JDict [(''streams'', JList (mw_streams r)), (''samples'', JList (mw_samples r))])]"

subsection \<open>The transport robot\<close>

text \<open>A missing or empty block of the factsheet adds nothing.\<close>

definition copy_fields :: "json \<Rightarrow> (string \<times> string) list \<Rightarrow> params res" where
  "copy_fields src = mapE (\<lambda>(k, name). bindE (j_get src name JNull) (\<lambda>v. Inr (k, v)))"

definition factsheet_to_class_extension :: "params \<Rightarrow> params res" where
  "factsheet_to_class_extension factsheet =
     (let block = (\<lambda>k. case map_of factsheet k of Some v \<Rightarrow> v | None \<Rightarrow> JDict []);
          ts = block ''typeSpecification''; pp = block ''physicalParameters''; ls = block ''loadSpecification''
      in
      bindE (if truthy ts then copy_fields ts
          [(''agv_class'', ''agvClass''), (''agv_kinematic'', ''agvKinematic''), (''max_load_mass_kg'', ''maxLoadMass''),
           (''localization_types'', ''localizationTypes''), (''navigation_types'', ''navigationTypes'')] else Inr []) (\<lambda>a.
      bindE (if truthy pp then copy_fields pp
          [(''speed_min_mps'', ''speedMin''), (''speed_max_mps'', ''speedMax''), (''acceleration_max_mps2'', ''accelerationMax''),
           (''deceleration_max_mps2'', ''decelerationMax''), (''height_min_m'', ''heightMin''), (''height_max_m'', ''heightMax''),
           (''width_m'', ''width''), (''length_m'', ''length'')] else Inr []) (\<lambda>b.
      bindE (if truthy ls then
          bindE (copy_fields ls [(''load_positions'', ''loadPositions'')]) (\<lambda>x.
          bindE (bindE (j_get ls ''loadSets'' (JList [])) py_iter) (\<lambda>sets.
          bindE (mapE (\<lambda>s. bindE (copy_fields s [(''name'', ''setName''), (''load_type'', ''loadType''), (''max_weight_kg'', ''maxWeight'')])
            (\<lambda>d. Inr (JDict d))) sets) (\<lambda>y.
          Inr (x @ [(''load_sets'', JList y)])))) else Inr []) (\<lambda>c.
      Inr ([(''platform'', JStr ''ground_amr''), (''vda5050_version'', JStr ''2.0.0'')] @ a @ b @ c)))))"

definition vda_capability_descriptor ::
  "string \<Rightarrow> string \<Rightarrow> string \<Rightarrow> string \<Rightarrow> params \<Rightarrow> string \<Rightarrow> params res" where
  "vda_capability_descriptor worker_did coord_did key_id pubkey factsheet trust_class =
     bindE (factsheet_to_class_extension factsheet) (\<lambda>ext.
     Inr (adapter_descriptor worker_did coord_did key_id pubkey trust_class [''transport'', ''pickup_dropoff''] ext
       [''indoor_pose_track'', ''weight_delta'', ''iot_beacon_proximity'', ''vda5050_order_log'']
       [(''connectivity_profile'', JStr ''continuous'')]))"

record order_state =
  os_claim_id :: string
  os_order_id :: string
  os_order_update_id :: int
  os_state_log :: "json list"
  os_last_position :: json
  os_completed :: bool

text \<open>The first eight hex digits of the two UUIDs are \<open>u1\<close> and \<open>u2\<close>.\<close>

definition vda_node :: "json \<Rightarrow> int \<Rightarrow> string \<Rightarrow> string \<Rightarrow> json list \<Rightarrow> json" where
  "vda_node node_id sequence_id action_id action_type parameters =
     JDict [(''nodeId'', node_id), (''sequenceId'', JInt sequence_id), (''released'', JBool True), (''nodePosition'', JNull),
       (''actions'', JList [JDict [(''actionId'', JStr action_id), (''actionType'', JStr action_type),
          (''blockingType'', JStr ''HARD''), (''actionParameters'', JList parameters)]])]"

definition wcp_transport_to_vda5050_order ::
  "env \<Rightarrow> int \<Rightarrow> string \<Rightarrow> string \<Rightarrow> json \<Rightarrow> string \<Rightarrow> int \<Rightarrow> json res" where
  "wcp_transport_to_vda5050_order E now u1 u2 descriptor_payload order_id order_update_id =
     bindE (j_item descriptor_payload ''pickup'') (\<lambda>pickup.
     bindE (j_item descriptor_payload ''dropoff'') (\<lambda>dropoff.
     bindE (j_get descriptor_payload ''load_type'' (JStr ''PALLET_EUR1'')) (\<lambda>load_type.
     Inr (JDict
       [(''headerId'', JInt 0), (''timestamp'', JStr (isoformat E (Aware now 0))), (''version'', JStr ''2.0.0''),
        (''manufacturer'', JStr ''wcp-vda5050-bridge''), (''serialNumber'', JStr ''bridge''), (''orderId'', JStr order_id),
        (''orderUpdateId'', JInt order_update_id),
        (''nodes'', JList
           [vda_node pickup 0 (''pick-'' @ u1) ''pick'' [JDict [(''key'', JStr ''loadType''), (''value'', load_type)]],
            vda_node dropoff 2 (''drop-'' @ u2) ''drop'' []]),
        (''edges'', JList [JDict
           [(''edgeId'', JStr (''e-'' @ py_str (float_repr E) pickup @ ''-'' @ py_str (float_repr E) dropoff)),
            (''sequenceId'', JInt 1), (''released'', JBool True), (''startNodeId'', pickup), (''endNodeId'', dropoff),
            (''actions'', JList [])]])]))))"

definition state_sample :: "json \<Rightarrow> json res" where
  "state_sample s =
     bindE (j_get s ''agvPosition'' JNull) (\<lambda>p.
     let agv_pos = py_or p (JDict []) in
     bindE (j_get s ''timestamp'' JNull) (\<lambda>t.
     bindE (j_get agv_pos ''x'' JNull) (\<lambda>x.
     bindE (j_get agv_pos ''y'' JNull) (\<lambda>y.
     bindE (j_get agv_pos ''theta'' JNull) (\<lambda>theta.
     bindE (j_get agv_pos ''mapId'' JNull) (\<lambda>map_id.
     bindE (j_get s ''lastNodeId'' JNull) (\<lambda>node.
     Inr (JDict [(''t'', t), (''x'', x), (''y'', y), (''theta'', theta), (''map_id'', map_id), (''last_node_id'', node)]))))))))"

definition vda5050_state_to_attestation_payload :: "json list \<Rightarrow> json res" where
  "vda5050_state_to_attestation_payload state_log =
     bindE (mapE state_sample state_log) (\<lambda>samples.
     Inr (JDict [(''kind'', JStr ''indoor_pose_track''),
       (''payload'', JDict [(''track'', JList samples), (''sample_count'', JInt (int (length samples)))])]))"

record vda_config =
  vf_interface_name :: string
  vf_major_version :: string
  vf_manufacturer :: string
  vf_serial_number :: string

definition vda_topic :: "vda_config \<Rightarrow> string \<Rightarrow> string" where
  "vda_topic c leaf =
     vf_interface_name c @ ''/'' @ vf_major_version c @ ''/'' @ vf_manufacturer c @ ''/'' @ vf_serial_number c @ ''/'' @ leaf"

record vda_bridge =
  vb_worker :: v2_worker
  vb_orders :: "(string \<times> order_state) list"
  vb_published :: "(string \<times> bytes) list"
  vb_watching :: bool

definition new_vda_bridge :: "sdk_identity \<Rightarrow> params \<Rightarrow> vda_bridge res" where
  "new_vda_bridge i factsheet =
     bindE (factsheet_to_class_extension factsheet) (\<lambda>ext.
     Inr \<lparr>vb_worker = v2_set_capability [''transport'', ''pickup_dropoff''] [] None (Some ext) None None None
            (new_v2_worker i AUTONOMOUS_ROBOT ''did:wcp:example-principal''),
          vb_orders = [], vb_published = [], vb_watching = True\<rparr>)"

text \<open>\<open>watch_state_topic\<close>: one message. It goes to the first order with its id.\<close>

definition log_state :: "json \<Rightarrow> order_state \<Rightarrow> order_state res" where
  "log_state msg o1 =
     bindE (j_get msg ''nodeStates'' JNull) (\<lambda>nodes.
     bindE (j_get msg ''edgeStates'' JNull) (\<lambda>edges.
     Inr (o1\<lparr>os_state_log := os_state_log o1 @ [msg],
            os_completed := os_completed o1 \<or> (\<not> truthy nodes \<and> \<not> truthy edges)\<rparr>)))"

fun route_state :: "json \<Rightarrow> json \<Rightarrow> (string \<times> order_state) list \<Rightarrow> (string \<times> order_state) list res" where
  "route_state order_id msg [] = Inr []"
| "route_state order_id msg ((k, o1) # os) =
     (if py_eq (JStr (os_order_id o1)) order_id then bindE (log_state msg o1) (\<lambda>o2. Inr ((k, o2) # os))
      else bindE (route_state order_id msg os) (\<lambda>os'. Inr ((k, o1) # os')))"

definition watch_state :: "codecs \<Rightarrow> vda_config \<Rightarrow> string \<times> bytes \<Rightarrow> vda_bridge \<Rightarrow> vda_bridge" where
  "watch_state K c m b =
     (case m of (topic, payload) \<Rightarrow>
      if \<not> vb_watching b \<or> topic \<noteq> vda_topic c ''state'' then b
      else case json_loads K payload of
        NotJson \<Rightarrow> b
      | NotText \<Rightarrow> b\<lparr>vb_watching := False\<rparr>
      | Loaded msg \<Rightarrow>
          (case bindE (j_get msg ''orderId'' JNull) (\<lambda>order_id. route_state order_id msg (vb_orders b)) of
             Inl _ \<Rightarrow> b\<lparr>vb_watching := False\<rparr>
           | Inr os \<Rightarrow> b\<lparr>vb_orders := os\<rparr>))"

text \<open>The handler; \<open>arrivals\<close> are the messages read until the order completes or the hour is over.\<close>

definition vda_execute ::
  "env \<Rightarrow> codecs \<Rightarrow> vda_config \<Rightarrow> int \<Rightarrow> int \<Rightarrow> string \<Rightarrow> string \<Rightarrow> (string \<times> bytes) list \<Rightarrow> json \<Rightarrow> (vda_bridge, json) py" where
  "vda_execute E K c now finished u1 u2 arrivals task =
     bindS (lift (task_claim_id task)) (\<lambda>claim_id.
     let order_id = ''wcp-'' @ claim_id in
     bindS (lift (bindE (j_get task ''descriptor_payload'' (JDict [])) (\<lambda>p.
       wcp_transport_to_vda5050_order E now u1 u2 p order_id 0))) (\<lambda>order.
     bindS (modify (\<lambda>b. b\<lparr>vb_orders := dict_set claim_id \<lparr>os_claim_id = claim_id, os_order_id = order_id, os_order_update_id = 0,
         os_state_log = [], os_last_position = JNull, os_completed = False\<rparr> (vb_orders b)\<rparr>)) (\<lambda>_.
     bindS (modify (\<lambda>b. b\<lparr>vb_published := vb_published b @ [(vda_topic c ''order'', json_dumps K order)]\<rparr>)) (\<lambda>_.
     bindS (modify (fold (watch_state K c) arrivals)) (\<lambda>_.
     bindS (gets (\<lambda>b. map_of (vb_orders b) claim_id)) (\<lambda>st.
     case st of
       Some o1 \<Rightarrow>
         if os_completed o1 then
           ret (JDict [(''vda5050_order_id'', JStr order_id), (''completed_at'', JStr (isoformat E (Aware finished 0))),
             (''state_samples'', JInt (int (length (os_state_log o1))))])
         else lift (Inl TimeoutError)
     | None \<Rightarrow> lift (Inl TimeoutError)))))))"

definition vda_attest :: "vda_bridge \<Rightarrow> string \<Rightarrow> json res" where
  "vda_attest b claim_id =
     (case map_of (vb_orders b) claim_id of
        None \<Rightarrow> Inr (JDict [(''kind'', JStr ''indoor_pose_track''), (''payload'', JDict [(''track'', JList [])])])
      | Some o1 \<Rightarrow> vda5050_state_to_attestation_payload (os_state_log o1))"

end
