(* ===== verification/Device_Adapters.thy ===== *)
theory Device_Adapters
  imports Mqtt_Adapters
begin

text \<open>
  The adapters that drive a device directly: \<open>examples/adapters/modbus-plc-gateway/\<close>, a PLC behind a
  register map, \<open>examples/adapters/mavlink-drone/\<close>, a drone that flies a mission,
  \<open>examples/adapters/ros1-compat/\<close>, a ROS 1 robot, and \<open>examples/adapters/vendor-robot-bridge-template/\<close>, the
  template for robots of other vendors. What the device answers is an argument; what it is told
  is recorded in the state.
\<close>

subsection \<open>The PLC gateway\<close>

fun find_entry :: "json \<Rightarrow> json list \<Rightarrow> json option res" where
  "find_entry name [] = Inr None"
| "find_entry name (entry # entries) =
     bindE (name_of entry) (\<lambda>n. if py_eq n name then Inr (Some entry) else find_entry name entries)"

fun find_kind :: "params \<Rightarrow> json \<Rightarrow> string list \<Rightarrow> (string \<times> json) option res" where
  "find_kind rm name [] = Inr None"
| "find_kind rm name (kind # kinds) =
     bindE (rows_of rm kind) (\<lambda>entries.
     bindE (find_entry name entries) (\<lambda>found.
     case found of Some entry \<Rightarrow> Inr (Some (kind, entry)) | None \<Rightarrow> find_kind rm name kinds))"

definition lookup_register :: "env \<Rightarrow> params \<Rightarrow> json \<Rightarrow> (string \<times> json) res" where
  "lookup_register E rm name =
     bindE (find_kind rm name [''holding_registers'', ''input_registers'', ''coils''])
       (of_opt (KeyError (''signal '' @ py_repr (float_repr E) name @ '' not defined in register map'')))"

fun writable_names :: "json list \<Rightarrow> json list res" where
  "writable_names [] = Inr []"
| "writable_names (r # rs) =
     bindE (j_get r ''writable'' JNull) (\<lambda>w.
     bindE (if truthy w then bindE (name_of r) (\<lambda>n. Inr [n]) else Inr []) (\<lambda>xs.
     bindE (writable_names rs) (\<lambda>ys. Inr (xs @ ys))))"

definition register_map_to_class_extension :: "params \<Rightarrow> params res" where
  "register_map_to_class_extension rm =
     bindE (rows_of rm ''input_registers'') (\<lambda>inputs.
     bindE (rows_of rm ''holding_registers'') (\<lambda>holdings.
     bindE (rows_of rm ''coils'') (\<lambda>coils.
     bindE (bindE (mapE name_of (inputs @ holdings)) py_sorted) (\<lambda>readable.
     bindE (bindE (writable_names holdings) (\<lambda>a. bindE (writable_names coils) (\<lambda>b. py_sorted (a @ b)))) (\<lambda>writable.
     bindE (to_dict (case map_of rm ''commands'' of Some v \<Rightarrow> v | None \<Rightarrow> JDict [])) (\<lambda>commands.
     Inr [(''platform'', JStr ''industrial_io''), (''protocol'', JStr ''modbus_tcp''),
       (''device_class'', (case map_of rm ''device_class'' of Some v \<Rightarrow> v | None \<Rightarrow> JStr ''generic'')),
       (''modbus_unit_id'', (case map_of rm ''modbus_unit_id'' of Some v \<Rightarrow> v | None \<Rightarrow> JInt 1)),
       (''input_register_count'', JInt (int (length inputs))), (''holding_register_count'', JInt (int (length holdings))),
       (''coil_count'', JInt (int (length coils))), (''named_signals_read'', JList readable), (''named_signals_write'', JList writable),
       (''commands_supported'', JList (map JStr (sort (map fst commands))))]))))))"

definition modbus_capability_descriptor ::
  "string \<Rightarrow> string \<Rightarrow> string \<Rightarrow> string \<Rightarrow> params \<Rightarrow> string \<Rightarrow> params res" where
  "modbus_capability_descriptor worker_did coord_did key_id pubkey rm trust_class =
     bindE (register_map_to_class_extension rm) (\<lambda>ext.
     Inr (adapter_descriptor worker_did coord_did key_id pubkey trust_class [''plc_command'', ''plc_read_window''] ext
       [''plc_register_read_window'', ''plc_command_acknowledgement''] [(''connectivity_profile'', JStr ''continuous'')]))"

text \<open>
  The PLC: what its registers and coils hold, as a function of the number of calls it has
  answered. The gateway's clock counts its own readings.
\<close>

record plc =
  plc_holding :: "int \<Rightarrow> int"
  plc_input :: "int \<Rightarrow> int"
  plc_coil :: "int \<Rightarrow> bool"

datatype plc_write = WriteRegister int int | WriteCoil int bool

record modbus_gateway =
  mg_reads :: "(string \<times> json list \<times> json list) list"
  mg_commands :: "(string \<times> json) list"
  mg_writes :: "plc_write list"
  mg_calls :: nat
  mg_now :: nat

definition new_modbus_gateway :: modbus_gateway where
  "new_modbus_gateway = \<lparr>mg_reads = [], mg_commands = [], mg_writes = [], mg_calls = 0, mg_now = 0\<rparr>"

text \<open>\<open>n * scale\<close> for an int \<open>n\<close>: sequences are repeated.\<close>

fun scale_value :: "ieee \<Rightarrow> int \<Rightarrow> json \<Rightarrow> json res" where
  "scale_value F n (JInt k) = Inr (JInt (n * k))"
| "scale_value F n (JBool b) = Inr (JInt (if b then n else 0))"
| "scale_value F n (JFloat r) = bindE (py_float F (JInt n)) (\<lambda>x. Inr (JFloat (rnd F (x * r))))"
| "scale_value F n (JStr s) = Inr (JStr (concat (replicate (nat n) s)))"
| "scale_value F n (JList xs) = Inr (JList (concat (replicate (nat n) xs)))"
| "scale_value F n _ = Inl TypeError"

fun to_address :: "json \<Rightarrow> int res" where
  "to_address (JInt n) = Inr n"
| "to_address _ = Inl AnnotationMismatch"

definition device_call :: "(nat \<Rightarrow> plc) \<Rightarrow> (plc \<Rightarrow> 'a) \<Rightarrow> (modbus_gateway, 'a) py" where
  "device_call D f g = (Inr (f (D (mg_calls g))), g\<lparr>mg_calls := Suc (mg_calls g)\<rparr>)"

definition read_signal :: "env \<Rightarrow> ieee \<Rightarrow> (nat \<Rightarrow> plc) \<Rightarrow> params \<Rightarrow> json \<Rightarrow> (modbus_gateway, json) py" where
  "read_signal E F D rm name =
     bindS (lift (lookup_register E rm name)) (\<lambda>(kind, entry).
     bindS (lift (bindE (j_item entry ''address'') to_address)) (\<lambda>a.
     if kind = ''coils'' then bindS (device_call D (\<lambda>p. plc_coil p a)) (\<lambda>v. ret (JBool v))
     else
       bindS (device_call D (\<lambda>p. if kind = ''holding_registers'' then plc_holding p a else plc_input p a)) (\<lambda>v.
       lift (bindE (j_get entry ''scale'' (JFloat 1)) (scale_value F v)))))"

definition plc_tell :: "plc_write \<Rightarrow> (modbus_gateway, unit) py" where
  "plc_tell w = modify (\<lambda>g. g\<lparr>mg_writes := mg_writes g @ [w], mg_calls := Suc (mg_calls g)\<rparr>)"

definition write_signal :: "env \<Rightarrow> ieee \<Rightarrow> params \<Rightarrow> json \<Rightarrow> json \<Rightarrow> (modbus_gateway, unit) py" where
  "write_signal E F rm name value =
     bindS (lift (lookup_register E rm name)) (\<lambda>(kind, entry).
     bindS (lift (j_get entry ''writable'' JNull)) (\<lambda>w.
     bindS (lift (raise_if (\<not> truthy w) (PermissionError (''signal '' @ py_repr (float_repr E) name @ '' is not writable'')))) (\<lambda>_.
     if kind = ''holding_registers'' then
       bindS (lift (j_get entry ''scale'' (JFloat 1))) (\<lambda>scale.
       bindS (lift (py_float F value)) (\<lambda>x.
       bindS (lift (float_operand F scale)) (\<lambda>s.
       bindS (lift (raise_if (s = 0) ZeroDivisionError)) (\<lambda>_.
       bindS (lift (bindE (j_item entry ''address'') to_address)) (\<lambda>a.
       plc_tell (WriteRegister a (py_round (rnd F (x / s)))))))))
     else if kind = ''coils'' then
       bindS (lift (bindE (j_item entry ''address'') to_address)) (\<lambda>a. plc_tell (WriteCoil a (truthy value)))
     else lift (Inl (AssertionError (''writes not supported on kind '' @ repr_str kind))))))"

text \<open>\<open>gw.register_map.get("commands", {}).get(cmd_name)\<close>; a command that is absent and one that is \<open>None\<close> are the same.\<close>

definition command_def :: "env \<Rightarrow> params \<Rightarrow> json \<Rightarrow> json res" where
  "command_def E rm cmd_name =
     bindE (raise_if (\<not> hashable cmd_name) TypeError) (\<lambda>_.
     bindE (case cmd_name of
              JStr n \<Rightarrow> j_get (case map_of rm ''commands'' of Some v \<Rightarrow> v | None \<Rightarrow> JDict []) n JNull
            | _ \<Rightarrow> Inr JNull) (\<lambda>d.
     bindE (raise_if (d = JNull) (KeyError (''command '' @ py_repr (float_repr E) cmd_name @ '' not defined''))) (\<lambda>_. Inr d)))"

definition command_target :: "env \<Rightarrow> json \<Rightarrow> json \<Rightarrow> json \<Rightarrow> (json \<times> json) res" where
  "command_target E cmd_name cmd_def payload =
     bindE (py_in ''register'' cmd_def) (\<lambda>r.
     if r then
       bindE (j_item cmd_def ''register'') (\<lambda>target.
       bindE (j_get cmd_def ''value'' JNull) (\<lambda>d.
       bindE (j_get payload ''value'' d) (\<lambda>value. Inr (target, value))))
     else
       bindE (py_in ''coil'' cmd_def) (\<lambda>c.
       if c then
         bindE (j_item cmd_def ''coil'') (\<lambda>target.
         bindE (j_get payload ''value'' JNull) (\<lambda>d.
         bindE (j_get cmd_def ''value'' d) (\<lambda>value. Inr (target, value))))
       else Inl (KeyError (''command '' @ py_repr (float_repr E) cmd_name @ '' has no target''))))"

definition gateway_now :: "(nat \<Rightarrow> int) \<Rightarrow> (modbus_gateway, int) py" where
  "gateway_now C g = (Inr (C (mg_now g)), g\<lparr>mg_now := Suc (mg_now g)\<rparr>)"

definition plc_command :: "env \<Rightarrow> ieee \<Rightarrow> (nat \<Rightarrow> int) \<Rightarrow> params \<Rightarrow> json \<Rightarrow> (modbus_gateway, json) py" where
  "plc_command E F C rm task =
     bindS (lift (task_claim_id task)) (\<lambda>claim_id.
     bindS (lift (j_get task ''descriptor_payload'' (JDict []))) (\<lambda>payload.
     bindS (lift (j_item payload ''command'')) (\<lambda>cmd_name.
     bindS (lift (command_def E rm cmd_name)) (\<lambda>cmd_def.
     bindS (lift (command_target E cmd_name cmd_def payload)) (\<lambda>(target, value).
     bindS (write_signal E F rm target value) (\<lambda>_.
     bindS (gateway_now C) (\<lambda>now.
     let ack = JDict [(''command'', cmd_name), (''target'', target), (''value'', value), (''ack_at'', JStr (isoformat E (Aware now 0)))] in
     bindS (modify (\<lambda>g. g\<lparr>mg_commands := dict_set claim_id ack (mg_commands g)\<rparr>)) (\<lambda>_. ret ack))))))))"

fun sample_signals ::
  "env \<Rightarrow> ieee \<Rightarrow> (nat \<Rightarrow> plc) \<Rightarrow> params \<Rightarrow> json list \<Rightarrow> params \<Rightarrow> (modbus_gateway, params) py" where
  "sample_signals E F D rm [] sample = ret sample"
| "sample_signals E F D rm (s # ss) sample =
     bindS (read_signal E F D rm s) (\<lambda>v.
     bindS (lift (to_str s)) (\<lambda>k. sample_signals E F D rm ss (dict_set k v sample)))"

definition take_sample ::
  "env \<Rightarrow> ieee \<Rightarrow> (nat \<Rightarrow> plc) \<Rightarrow> (nat \<Rightarrow> int) \<Rightarrow> params \<Rightarrow> json list \<Rightarrow> (modbus_gateway, params) py" where
  "take_sample E F D C rm signals =
     bindS (gateway_now C) (\<lambda>t. sample_signals E F D rm signals [(''t'', JStr (isoformat E (Aware t 0)))])"

definition keep_sample :: "string \<Rightarrow> params \<Rightarrow> modbus_gateway \<Rightarrow> modbus_gateway" where
  "keep_sample claim_id sample g =
     g\<lparr>mg_reads := map (\<lambda>(k, sigs, samples). if k = claim_id then (k, sigs, samples @ [JDict sample]) else (k, sigs, samples)) (mg_reads g)\<rparr>"

text \<open>The loop of the read window; it may not return, so its value is an option.\<close>

partial_function (option) read_loop ::
  "env \<Rightarrow> ieee \<Rightarrow> (nat \<Rightarrow> plc) \<Rightarrow> (nat \<Rightarrow> int) \<Rightarrow> params \<Rightarrow> json list \<Rightarrow> int \<Rightarrow> string \<Rightarrow> modbus_gateway \<Rightarrow>
   (unit res \<times> modbus_gateway) option" where
  "read_loop E F D C rm signals end_at claim_id g =
     (if \<not> C (mg_now g) < end_at then Some (Inr (), g\<lparr>mg_now := Suc (mg_now g)\<rparr>)
      else case take_sample E F D C rm signals (g\<lparr>mg_now := Suc (mg_now g)\<rparr>) of
        (Inl e, g') \<Rightarrow> Some (Inl e, g')
      | (Inr sample, g') \<Rightarrow> read_loop E F D C rm signals end_at claim_id (keep_sample claim_id sample g'))"

definition open_window ::
  "ieee \<Rightarrow> (nat \<Rightarrow> int) \<Rightarrow> json \<Rightarrow> (modbus_gateway, string \<times> json list \<times> rat \<times> int) py" where
  "open_window F C task =
     bindS (lift (task_claim_id task)) (\<lambda>claim_id.
     bindS (lift (j_get task ''descriptor_payload'' (JDict []))) (\<lambda>payload.
     bindS (lift (bindE (j_get payload ''signals'' (JList [])) py_iter)) (\<lambda>signals.
     bindS (lift (bindE (j_get payload ''window_seconds'' (JInt 60)) (py_float F))) (\<lambda>window_s.
     bindS (lift (bindE (j_get payload ''interval_seconds'' (JInt 1)) (py_float F))) (\<lambda>interval_s.
     bindS (modify (\<lambda>g. g\<lparr>mg_reads := dict_set claim_id (signals, []) (mg_reads g)\<rparr>)) (\<lambda>_.
     bindS (gateway_now C) (\<lambda>now.
     bindS (lift (timedelta_us F 1000000 (JFloat window_s))) (\<lambda>us.
     bindS (lift (raise_if (\<not> datetime_us (now + us)) OverflowError)) (\<lambda>_.
     ret (claim_id, signals, window_s, now + us))))))))))"

definition plc_read_window ::
  "env \<Rightarrow> ieee \<Rightarrow> (nat \<Rightarrow> plc) \<Rightarrow> (nat \<Rightarrow> int) \<Rightarrow> params \<Rightarrow> json \<Rightarrow> modbus_gateway \<Rightarrow> (json res \<times> modbus_gateway) option" where
  "plc_read_window E F D C rm task g =
     (case open_window F C task g of
        (Inl e, g1) \<Rightarrow> Some (Inl e, g1)
      | (Inr (claim_id, signals, window_s, end_at), g1) \<Rightarrow>
          (case read_loop E F D C rm signals end_at claim_id g1 of
             None \<Rightarrow> None
           | Some (Inl e, g2) \<Rightarrow> Some (Inl e, g2)
           | Some (Inr _, g2) \<Rightarrow>
               Some (Inr (JDict [(''window_seconds'', JFloat window_s), (''sample_count'',
                 JInt (int (case map_of (mg_reads g2) claim_id of None \<Rightarrow> 0 | Some (_, xs) \<Rightarrow> length xs)))]), g2)))"

definition modbus_attest :: "modbus_gateway \<Rightarrow> string \<Rightarrow> json" where
  "modbus_attest g claim_id =
     (case map_of (mg_reads g) claim_id of
        Some (signals, samples) \<Rightarrow>
          JDict [(''kind'', JStr ''plc_register_read_window''),
            (''payload'', JDict [(''signals'', JList signals), (''samples'', JList samples)])]
      | None \<Rightarrow>
          (case map_of (mg_commands g) claim_id of
             Some ack \<Rightarrow> JDict [(''kind'', JStr ''plc_command_acknowledgement''), (''payload'', ack)]
           | None \<Rightarrow> JDict [(''kind'', JStr ''plc_register_read_window''), (''payload'', JDict [(''samples'', JList [])])]))"

subsection \<open>The drone\<close>

definition mavlink_type_to_wcp_class_extension ::
  "string \<Rightarrow> int \<Rightarrow> rat \<Rightarrow> rat \<Rightarrow> rat \<Rightarrow> string list \<Rightarrow> params" where
  "mavlink_type_to_wcp_class_extension mav_type battery_capacity_mah max_payload_kg max_endurance_minutes max_range_km sensors =
     [(''platform'', JStr ''aerial''), (''mav_type'', JStr mav_type), (''battery_capacity_mah'', JInt battery_capacity_mah),
      (''max_payload_kg'', JFloat max_payload_kg), (''max_endurance_minutes'', JFloat max_endurance_minutes),
      (''max_range_km'', JFloat max_range_km), (''sensors'', JList (map JStr sensors)), (''autopilot'', JStr ''mavlink-2.0''),
      (''gnss_fix_required'', JBool True)]"

definition mavlink_capability_descriptor ::
  "string \<Rightarrow> string \<Rightarrow> string \<Rightarrow> string \<Rightarrow> string \<Rightarrow> int \<Rightarrow> rat \<Rightarrow> rat \<Rightarrow> rat \<Rightarrow> string list \<Rightarrow> string \<Rightarrow> params" where
  "mavlink_capability_descriptor worker_did coord_did key_id pubkey mav_type mah payload_kg endurance range_km sensors trust_class =
     adapter_descriptor worker_did coord_did key_id pubkey trust_class
       [''aerial_inspection'', ''aerial_survey'', ''aerial_delivery_lite'']
       (mavlink_type_to_wcp_class_extension mav_type mah payload_kg endurance range_km sensors)
       [''geo_track'', ''barometric_altitude_profile'', ''image_capture_manifest'', ''thermal_capture_manifest'']
       [(''connectivity_profile'', JStr ''intermittent''), (''max_offline_duration_seconds'', JInt 900),
        (''buffer_capacity_audit_entries'', JInt 2048)]"

text \<open>\<open>int(x * 1e7)\<close> and \<open>x / d\<close>\<close>

definition degrees_e7 :: "ieee \<Rightarrow> json \<Rightarrow> json res" where
  "degrees_e7 F j = bindE (float_operand F j) (\<lambda>x. bindE (py_int (JFloat (rnd F (x * 10000000)))) (\<lambda>n. Inr (JInt n)))"

definition float_div :: "ieee \<Rightarrow> json \<Rightarrow> rat \<Rightarrow> json res" where
  "float_div F j d = bindE (float_operand F j) (\<lambda>x. Inr (JFloat (rnd F (x / d))))"

definition mission_item :: "nat \<Rightarrow> int \<Rightarrow> int \<Rightarrow> json \<Rightarrow> json \<Rightarrow> json \<Rightarrow> json" where
  "mission_item sq command current x y z =
     JDict [(''seq'', JInt (int sq)), (''frame'', JInt 3), (''command'', JInt command), (''current'', JInt current),
       (''autocontinue'', JInt 1), (''x'', x), (''y'', y), (''z'', z)]"

fun waypoint_items :: "ieee \<Rightarrow> nat \<Rightarrow> json list \<Rightarrow> json list res" where
  "waypoint_items F sq [] = Inr []"
| "waypoint_items F sq (wp # wps) =
     bindE (bindE (j_item wp ''lat_deg'') (degrees_e7 F)) (\<lambda>x.
     bindE (bindE (j_item wp ''lon_deg'') (degrees_e7 F)) (\<lambda>y.
     bindE (j_item wp ''alt_m_agl'') (\<lambda>z.
     bindE (waypoint_items F (Suc sq) wps) (\<lambda>items. Inr (mission_item sq 16 0 x y z # items)))))"

definition descriptor_to_mavlink_mission :: "ieee \<Rightarrow> json \<Rightarrow> json list res" where
  "descriptor_to_mavlink_mission F descriptor_payload =
     bindE (j_get descriptor_payload ''takeoff_alt_m_agl'' (JInt 20)) (\<lambda>alt.
     bindE (bindE (j_get descriptor_payload ''waypoints'' (JList [])) py_iter) (\<lambda>wps.
     bindE (waypoint_items F 1 wps) (\<lambda>items.
     bindE (j_get descriptor_payload ''landing_lat_lon'' JNull) (\<lambda>land_ll.
     bindE (if truthy land_ll then
              bindE (bindE (j_nth land_ll 0) (degrees_e7 F)) (\<lambda>x.
              bindE (bindE (j_nth land_ll 1) (degrees_e7 F)) (\<lambda>y.
              Inr [mission_item (1 + length wps) 21 0 x y (JInt 0)]))
            else Inr []) (\<lambda>landing.
     Inr (mission_item 0 22 1 (JInt 0) (JInt 0) alt # items @ landing))))))"

text \<open>\<open>_GeoTrackBuffer.append\<close> at the time \<open>now\<close>.\<close>

definition geo_sample :: "env \<Rightarrow> ieee \<Rightarrow> int \<Rightarrow> json \<Rightarrow> json res" where
  "geo_sample E F now msg =
     (let scaled = (\<lambda>k d. bindE (j_item msg k) (\<lambda>v. float_div F v d)) in
      bindE (scaled ''lat'' 10000000) (\<lambda>lat. bindE (scaled ''lon'' 10000000) (\<lambda>lon. bindE (scaled ''alt'' 1000) (\<lambda>alt.
      bindE (scaled ''vx'' 100) (\<lambda>vx. bindE (scaled ''vy'' 100) (\<lambda>vy. bindE (scaled ''vz'' 100) (\<lambda>vz.
      bindE (scaled ''hdg'' 100) (\<lambda>hdg.
      Inr (JDict [(''t'', JStr (isoformat E (Aware now 0))), (''lat_deg'', lat), (''lon_deg'', lon), (''alt_m_msl'', alt),
        (''vx_mps'', vx), (''vy_mps'', vy), (''vz_mps'', vz), (''hdg_deg'', hdg)]))))))))) "

datatype mav_command = UploadMission "json list" | Arm | StartAuto

record mavlink_bridge =
  mv_geo_buffers :: "(string \<times> json list) list"
  mv_sent :: "mav_command list"

text \<open>
  The vehicle: \<open>dev\<close> says whether it takes a command, \<open>outcome\<close> how the mission ends, and \<open>positions\<close> are
  the messages streamed until then.
\<close>

definition mav_tell :: "(mav_command \<Rightarrow> unit res) \<Rightarrow> mav_command \<Rightarrow> (mavlink_bridge, unit) py" where
  "mav_tell dev c = bindS (modify (\<lambda>b. b\<lparr>mv_sent := mv_sent b @ [c]\<rparr>)) (\<lambda>_. lift (dev c))"

definition buffer_position :: "env \<Rightarrow> ieee \<Rightarrow> string \<Rightarrow> int \<times> json \<Rightarrow> (mavlink_bridge, unit) py" where
  "buffer_position E F claim_id m =
     bindS (lift (geo_sample E F (fst m) (snd m))) (\<lambda>s.
     modify (\<lambda>b. b\<lparr>mv_geo_buffers := map (\<lambda>(k, xs). if k = claim_id then (k, xs @ [s]) else (k, xs)) (mv_geo_buffers b)\<rparr>))"

definition mavlink_fly ::
  "env \<Rightarrow> ieee \<Rightarrow> (mav_command \<Rightarrow> unit res) \<Rightarrow> (int \<times> json) list \<Rightarrow> unit res \<Rightarrow> int \<Rightarrow> json \<Rightarrow> (mavlink_bridge, json) py" where
  "mavlink_fly E F dev positions outcome finished task =
     bindS (lift (task_claim_id task)) (\<lambda>claim_id.
     bindS (lift (j_get task ''descriptor_payload'' (JDict []))) (\<lambda>payload.
     bindS (lift (descriptor_to_mavlink_mission F payload)) (\<lambda>mission.
     bindS (modify (\<lambda>b. b\<lparr>mv_geo_buffers := dict_set claim_id [] (mv_geo_buffers b)\<rparr>)) (\<lambda>_.
     bindS (mav_tell dev (UploadMission mission)) (\<lambda>_.
     bindS (mav_tell dev Arm) (\<lambda>_.
     bindS (mav_tell dev StartAuto) (\<lambda>_.
     bindS (forS (buffer_position E F claim_id) positions) (\<lambda>_.
     bindS (lift outcome) (\<lambda>_.
     bindS (gets (\<lambda>b. case map_of (mv_geo_buffers b) claim_id of None \<Rightarrow> 0 | Some xs \<Rightarrow> length xs)) (\<lambda>n.
     ret (JDict [(''mission_completed_at'', JStr (isoformat E (Aware finished 0))), (''sample_count'', JInt (int n))])))))))))))"

definition mavlink_attest :: "mavlink_bridge \<Rightarrow> string \<Rightarrow> json" where
  "mavlink_attest b claim_id =
     JDict [(''kind'', JStr ''geo_track''),
       (''payload'', case map_of (mv_geo_buffers b) claim_id of
          None \<Rightarrow> JDict [(''track'', JList [])]
        | Some xs \<Rightarrow> JDict [(''sample_count'', JInt (int (length xs))), (''track'', JList xs)])]"

subsection \<open>The ROS 1 robot\<close>

text \<open>\<open>profile.get(key, {}) or {}\<close>\<close>

definition profile_map :: "params \<Rightarrow> string \<Rightarrow> params res" where
  "profile_map profile key = to_dict (py_or (arg key profile) (JDict []))"

definition ros1_profile_to_class_extension :: "params \<Rightarrow> params res" where
  "ros1_profile_to_class_extension profile =
     bindE (rows_of profile ''topic_map'') (\<lambda>topics.
     bindE (mapE (\<lambda>t. bindE (name_of t) (\<lambda>n. bindE (j_get t ''msg_type'' JNull) (\<lambda>m.
       Inr (JDict [(''name'', n), (''msg_type'', m)])))) topics) (\<lambda>subs.
     bindE (profile_map profile ''service_map'') (\<lambda>services.
     bindE (profile_map profile ''action_map'') (\<lambda>actions.
     Inr [(''platform'', JStr ''ros1_robot''), (''ros_distro'', JStr ''noetic''), (''bridge'', JStr ''ros1_bridge''),
       (''robot_class'', (case map_of profile ''robot_class'' of Some v \<Rightarrow> v | None \<Rightarrow> JStr ''generic'')),
       (''urdf_base_link'', arg ''urdf_base_link'' profile), (''footprint_m'', arg ''footprint_m'' profile),
       (''topic_subscriptions'', JList subs), (''services_available'', JList (map JStr (sort (map fst services)))),
       (''actions_available'', JList (map JStr (sort (map fst actions))))]))))"

definition ros1_descriptor_types :: "params \<Rightarrow> params \<Rightarrow> string list" where
  "ros1_descriptor_types actions services =
     (let ks = sort (remdups (map fst actions @ map fst services)) in if ks = [] then [''ros1_generic_task''] else ks)"

definition ros1_capability_descriptor ::
  "string \<Rightarrow> string \<Rightarrow> string \<Rightarrow> string \<Rightarrow> params \<Rightarrow> string \<Rightarrow> params res" where
  "ros1_capability_descriptor worker_did coord_did key_id pubkey profile trust_class =
     bindE (profile_map profile ''action_map'') (\<lambda>actions.
     bindE (profile_map profile ''service_map'') (\<lambda>services.
     bindE (ros1_profile_to_class_extension profile) (\<lambda>ext.
     Inr (adapter_descriptor worker_did coord_did key_id pubkey trust_class (ros1_descriptor_types actions services) ext
       [''ros1_topic_sample_log'', ''ros1_action_result'', ''ros1_service_call_result'']
       [(''connectivity_profile'', JStr ''continuous'')]))))"

record topic_log =
  tl_topic :: json
  tl_msg_type :: json
  tl_samples :: "json list"

record action_result =
  ac_action :: string
  ac_result :: json
  ac_started_at :: string
  ac_finished_at :: string

record ros1_bridge =
  rb_action_results :: "(string \<times> action_result) list"
  rb_topic_logs :: "(string \<times> topic_log) list"

text \<open>
  The handlers of an action and of a service the profile names; \<open>answer\<close> is what ROS gives for the
  three values sent, \<open>progress\<close> what the progress topic carries until then.
\<close>

definition ros1_execute_action ::
  "env \<Rightarrow> (json \<Rightarrow> json \<Rightarrow> json \<Rightarrow> json res) \<Rightarrow> (int \<times> json) list \<Rightarrow> int \<Rightarrow> int \<Rightarrow> string \<Rightarrow> json \<Rightarrow> json \<Rightarrow> (ros1_bridge, json) py" where
  "ros1_execute_action E answer progress started finished a d task =
     bindS (lift (task_claim_id task)) (\<lambda>claim_id.
     bindS (lift (j_get d ''progress_topic'' JNull)) (\<lambda>topic.
     bindS (if truthy topic then
              bindS (lift (j_get d ''progress_msg_type'' (JStr ''unknown''))) (\<lambda>msg_type.
              modify (\<lambda>b. b\<lparr>rb_topic_logs := dict_set claim_id \<lparr>tl_topic = topic, tl_msg_type = msg_type,
                tl_samples = map (\<lambda>(t, m). JDict [(''t'', JStr (isoformat E (Aware t 0))), (''msg'', m)]) progress\<rparr> (rb_topic_logs b)\<rparr>))
            else ret ()) (\<lambda>_.
     bindS (lift (bindE (j_item d ''action'') (\<lambda>act. bindE (j_item d ''action_type'') (\<lambda>ty.
       bindE (j_get task ''descriptor_payload'' (JDict [])) (\<lambda>goal. answer act ty goal))))) (\<lambda>result.
     bindS (modify (\<lambda>b. b\<lparr>rb_action_results := dict_set claim_id \<lparr>ac_action = a, ac_result = result,
       ac_started_at = isoformat E (Aware started 0), ac_finished_at = isoformat E (Aware finished 0)\<rparr> (rb_action_results b)\<rparr>)) (\<lambda>_.
     bindS (lift (j_get result ''status'' (JStr ''succeeded''))) (\<lambda>status.
     ret (JDict [(''action'', JStr a), (''started_at'', JStr (isoformat E (Aware started 0))),
       (''finished_at'', JStr (isoformat E (Aware finished 0))), (''result_summary'', status)])))))))"

definition ros1_execute_service ::
  "env \<Rightarrow> (json \<Rightarrow> json \<Rightarrow> json \<Rightarrow> json res) \<Rightarrow> int \<Rightarrow> int \<Rightarrow> string \<Rightarrow> json \<Rightarrow> json \<Rightarrow> (ros1_bridge, json) py" where
  "ros1_execute_service E answer started finished n d task =
     bindS (lift (task_claim_id task)) (\<lambda>claim_id.
     bindS (lift (bindE (j_item d ''service'') (\<lambda>svc. bindE (j_item d ''srv_type'') (\<lambda>ty.
       bindE (j_get task ''descriptor_payload'' (JDict [])) (\<lambda>req. answer svc ty req))))) (\<lambda>response.
     bindS (modify (\<lambda>b. b\<lparr>rb_action_results := dict_set claim_id \<lparr>ac_action = n, ac_result = response,
       ac_started_at = isoformat E (Aware started 0), ac_finished_at = isoformat E (Aware finished 0)\<rparr> (rb_action_results b)\<rparr>)) (\<lambda>_.
     bindS (lift (bindE (py_iter response) py_sorted)) (\<lambda>keys.
     ret (JDict [(''service'', JStr n), (''response_summary_keys'', JList keys)])))))"

definition ros1_attest :: "params \<Rightarrow> ros1_bridge \<Rightarrow> string \<Rightarrow> json res" where
  "ros1_attest profile b claim_id =
     (let result = (case map_of (rb_action_results b) claim_id of
            Some res \<Rightarrow>
              bindE (profile_map profile ''action_map'') (\<lambda>actions.
              Inr (JDict [(''kind'', JStr (if ac_action res \<in> fst ` set actions then ''ros1_action_result'' else ''ros1_service_call_result'')),
                (''payload'', JDict [(''name'', JStr (ac_action res)), (''started_at'', JStr (ac_started_at res)),
                   (''finished_at'', JStr (ac_finished_at res)), (''result'', ac_result res)])]))
          | None \<Rightarrow> Inr (JDict [(''kind'', JStr ''ros1_action_result''), (''payload'', JDict [(''result'', JNull)])]))
      in case map_of (rb_topic_logs b) claim_id of
           None \<Rightarrow> result
         | Some l \<Rightarrow>
             if tl_samples l = [] then result
             else Inr (JDict [(''kind'', JStr ''ros1_topic_sample_log''),
               (''payload'', JDict [(''topic'', tl_topic l), (''msg_type'', tl_msg_type l), (''samples'', JList (tl_samples l))])]))"

subsection \<open>The template for other vendors\<close>

definition vendor_info_to_class_extension :: "params \<Rightarrow> params" where
  "vendor_info_to_class_extension info =
     (let get = (\<lambda>k d. case map_of info k of Some v \<Rightarrow> v | None \<Rightarrow> d) in
      [(''platform'', JStr ''vendor_specific''), (''vendor'', get ''vendor'' (JStr ''unknown'')), (''model'', get ''model'' (JStr ''unknown'')),
       (''serial'', get ''serial'' JNull), (''dof'', get ''dof'' JNull), (''max_payload_kg'', get ''max_payload_kg'' JNull),
       (''sensors'', get ''sensors'' (JList [])), (''operations_supported'', get ''operations_supported'' (JList []))])"

definition vendor_capability_descriptor ::
  "string \<Rightarrow> string \<Rightarrow> string \<Rightarrow> string \<Rightarrow> params \<Rightarrow> string list \<Rightarrow> string list \<Rightarrow> string \<Rightarrow> string \<Rightarrow> params" where
  "vendor_capability_descriptor worker_did coord_did key_id pubkey info descriptor_types attestation_kinds trust_class connectivity =
     adapter_descriptor worker_did coord_did key_id pubkey trust_class descriptor_types (vendor_info_to_class_extension info)
       attestation_kinds [(''connectivity_profile'', JStr connectivity)]"

record vendor_run =
  vr_claim_id :: string
  vr_descriptor_type :: string
  vr_started_at :: string
  vr_finished_at :: string
  vr_result :: json
  vr_telemetry :: "json list"

record vendor_bridge =
  vn_worker :: v2_worker
  vn_runs :: "(string \<times> vendor_run) list"

definition VENDOR_DESCRIPTOR_TYPES :: "string list" where
  "VENDOR_DESCRIPTOR_TYPES = [''vendor_generic_task'']"

definition VENDOR_ATTESTATION_KINDS :: "string list" where
  "VENDOR_ATTESTATION_KINDS = [''vendor_motion_telemetry'']"

definition new_vendor_bridge :: "sdk_identity \<Rightarrow> string list \<Rightarrow> vendor_bridge" where
  "new_vendor_bridge i descriptor_types =
     \<lparr>vn_worker = v2_set_capability descriptor_types [] None (Some (vendor_info_to_class_extension [])) None None None
        (new_v2_worker i AUTONOMOUS_ROBOT ''did:wcp:example-principal''), vn_runs = []\<rparr>"

definition set_run :: "string \<Rightarrow> (vendor_run \<Rightarrow> vendor_run) \<Rightarrow> (vendor_bridge, unit) py" where
  "set_run claim_id f = modify (\<lambda>b. b\<lparr>vn_runs := map (\<lambda>(k, r). (k, if k = claim_id then f r else r)) (vn_runs b)\<rparr>)"

text \<open>
  The handler of the descriptor type \<open>dt\<close>. The vendor's SDK: \<open>stream\<close> says whether the telemetry stream opens,
  \<open>motion\<close> what the motion ends in, and \<open>telemetry\<close> are the messages collected until then.
\<close>

definition vendor_execute ::
  "env \<Rightarrow> unit res \<Rightarrow> (string \<Rightarrow> json \<Rightarrow> json res) \<Rightarrow> (int \<times> json) list \<Rightarrow> int \<Rightarrow> int \<Rightarrow> string \<Rightarrow> json \<Rightarrow> (vendor_bridge, json) py" where
  "vendor_execute E stream motion telemetry started finished dt task =
     (let iso = (\<lambda>t. isoformat E (Aware t 0)) in
      bindS (lift (task_claim_id task)) (\<lambda>claim_id.
      bindS (modify (\<lambda>b. b\<lparr>vn_runs := dict_set claim_id \<lparr>vr_claim_id = claim_id, vr_descriptor_type = dt, vr_started_at = iso started,
        vr_finished_at = [], vr_result = JNull, vr_telemetry = []\<rparr> (vn_runs b)\<rparr>)) (\<lambda>_.
      bindS (lift stream) (\<lambda>_.
      bindS (lift (j_get task ''descriptor_payload'' (JDict []))) (\<lambda>params.
      bindS (set_run claim_id (\<lambda>r. r\<lparr>vr_telemetry := map (\<lambda>(t, m). JDict [(''t'', JStr (iso t)), (''msg'', m)]) telemetry\<rparr>)) (\<lambda>_.
      bindS (lift (motion dt params)) (\<lambda>result.
      bindS (set_run claim_id (\<lambda>r. r\<lparr>vr_result := result, vr_finished_at := iso finished\<rparr>)) (\<lambda>_.
      bindS (lift (j_get result ''status'' (JStr ''ok''))) (\<lambda>status.
      ret (JDict [(''started_at'', JStr (iso started)), (''finished_at'', JStr (iso finished)), (''result_summary'', status)]))))))))))"

definition vendor_attest :: "string list \<Rightarrow> vendor_bridge \<Rightarrow> string \<Rightarrow> json res" where
  "vendor_attest attestation_kinds b claim_id =
     (case attestation_kinds of
        [] \<Rightarrow> Inl IndexError
      | kind # _ \<Rightarrow> Inr (JDict [(''kind'', JStr kind), (''payload'', JDict
          (case map_of (vn_runs b) claim_id of
             None \<Rightarrow> [(''telemetry'', JList [])]
           | Some run \<Rightarrow> [(''started_at'', JStr (vr_started_at run)), (''finished_at'', JStr (vr_finished_at run)),
               (''telemetry_samples'', JInt (int (length (vr_telemetry run)))), (''telemetry'', JList (vr_telemetry run)),
               (''result'', vr_result run)]))]))"

end
