(* ===== verification/Adapters_Interop.thy ===== *)
theory Adapters_Interop
  imports Device_Adapters Sdk_V2_Interop Llm_Tools
begin

text \<open>
  The adapters: the MQTT topic filter against its specification, what the read windows hold, what
  the PLC gateway writes and that its loop ends, what the coordinator's verifiers say of the
  evidence, and what becomes of a task dispatched to an adapter by its worker.
\<close>

subsection \<open>Topic filters\<close>

text \<open>A filter level matches a topic level that is equal to it, or any if it is \<open>+\<close>.\<close>

definition levels_match :: "string list \<Rightarrow> string list \<Rightarrow> bool" where
  "levels_match = list_all2 (\<lambda>f t. f = ''+'' \<or> f = t)"

lemma levels_match_refl: "levels_match ts ts"
  by (simp add: levels_match_def list_all2_same)

lemma filter_loop_spec:
  "i \<le> length mt \<Longrightarrow> filter_loop mt sf i \<longleftrightarrow>
     (if ''#'' \<in> set sf then levels_match (takeWhile (\<lambda>f. f \<noteq> ''#'') sf) (take (length (takeWhile (\<lambda>f. f \<noteq> ''#'') sf)) (drop i mt))
      else levels_match sf (drop i mt))"
proof (induction sf arbitrary: i)
  case (Cons tok sf)
  show ?case
  proof (cases "i < length mt")
    case True
    then have "drop i mt = mt ! i # drop (Suc i) mt" by (rule Cons_nth_drop_Suc [symmetric])
    with Cons.IH [of "Suc i"] True show ?thesis by (simp add: levels_match_def)
  next
    case False
    with Cons.prems show ?thesis by (simp add: levels_match_def)
  qed
qed (auto simp: levels_match_def)

text \<open>
  The topic filter of the MQTT bridge, split at slashes: a filter without a hash
  matches the topics of the same length whose levels equal its own where it has no plus; with
  a hash the levels before it have to match the beginning of the topic. The shortcut for equal
  strings changes nothing, and an index past the topic is never read.
\<close>

theorem topic_filter_spec:
  "matches_topic_filter topic flt \<longleftrightarrow>
    (let fs = py_split (CHR ''/'') flt; ts = py_split (CHR ''/'') topic; h = takeWhile (\<lambda>f. f \<noteq> ''#'') fs in
     if ''#'' \<in> set fs then list_all2 (\<lambda>f t. f = ''+'' \<or> f = t) h (take (length h) ts)
     else list_all2 (\<lambda>f t. f = ''+'' \<or> f = t) fs ts)"
proof (cases "flt = topic")
  case True
  let ?ts = "py_split (CHR ''/'') topic"
  have "take (length (takeWhile (\<lambda>f. f \<noteq> ''#'') ?ts)) ?ts = takeWhile (\<lambda>f. f \<noteq> ''#'') ?ts"
    by (rule takeWhile_eq_take [symmetric])
  then show ?thesis using True levels_match_refl by (simp add: matches_topic_filter_def levels_match_def Let_def)
next
  case False
  then show ?thesis
    using filter_loop_spec [of 0 "py_split (CHR ''/'') topic"] by (simp add: matches_topic_filter_def levels_match_def Let_def)
qed

subsection \<open>Read windows of the sensor fleet\<close>

text \<open>Every sample of a window names a stream the task asked for and was read before its end.\<close>

definition window_ok :: "env \<Rightarrow> mqtt_window \<Rightarrow> bool" where
  "window_ok E r \<longleftrightarrow> (\<forall>s \<in> set (mw_samples r). \<exists>t n topic v. s = JDict [(''t'', JStr (isoformat E (Aware t 0))), (''stream'', JStr n),
     (''topic'', JStr topic), (''value'', v)] \<and> eq_in (JStr n) (mw_streams r) \<and> t \<le> mw_end_at r)"

definition windows_ok :: "env \<Rightarrow> mqtt_bridge \<Rightarrow> bool" where
  "windows_ok E b \<longleftrightarrow> (\<forall>(k, r) \<in> set (mb_reads b). window_ok E r)"

lemma add_sample_ok:
  "window_ok E r \<Longrightarrow> window_ok E (add_sample n t (JDict [(''t'', JStr (isoformat E (Aware t 0))), (''stream'', JStr n),
     (''topic'', JStr topic), (''value'', v)]) r)"
  by (auto simp: add_sample_def window_ok_def)

lemma consume_stream_keeps: "keeps (windows_ok E) (consume_stream E K F now topic payload s)"
  unfolding consume_stream_def Let_def
  by (intro keeps_bindS keeps_lift) (auto intro!: keeps_bindS keeps_modify add_sample_ok simp: windows_ok_def)

lemma consume_message_keeps: "windows_ok E b \<Longrightarrow> windows_ok E (consume_message E K F m b)"
proof -
  have "keeps (windows_ok E) (forS (consume_stream E K F (fst m) (fst (snd m)) (snd (snd m))) (mb_stream_index b))"
    by (intro keeps_forS consume_stream_keeps)
  from keepsD [OF this, of b] show "windows_ok E b \<Longrightarrow> windows_ok E (consume_message E K F m b)"
    by (auto simp: consume_message_def windows_ok_def split: prod.splits sum.splits)
qed

lemma dict_set_elems: "(k, r) \<in> set (dict_set c x d) \<Longrightarrow> r = x \<or> (k, r) \<in> set d"
  by (induction d) (auto split: if_splits)

lemma read_window_keeps: "keeps (windows_ok E) (mqtt_read_window E K F now arrivals task)"
proof -
  have "windows_ok E b \<Longrightarrow> windows_ok E (fold (consume_message E K F) ms b)" for ms b
    by (induction ms arbitrary: b) (simp_all add: consume_message_keeps)
  moreover have "keeps (windows_ok E) (subscribe_stream s)" for s
    unfolding subscribe_stream_def
    by (auto intro!: keeps_bindS keeps_modify simp: windows_ok_def split: option.splits)
  moreover have "windows_ok E b \<Longrightarrow> mw_samples x = [] \<Longrightarrow> windows_ok E (b\<lparr>mb_reads := dict_set c x (mb_reads b)\<rparr>)" for b c x
    by (auto simp: windows_ok_def window_ok_def dest!: dict_set_elems)
  ultimately show ?thesis
    unfolding mqtt_read_window_def by (intro keeps_bindS keeps_lift keeps_gets keeps_ret keeps_forS keeps_modify) simp_all
qed

subsection \<open>Evidence\<close>

lemma unregistered_fails:
  assumes "kind \<notin> set [''gps_track'', ''indoor_pose_track'', ''manipulator_pose_track'', ''weight_delta'',
         ''photo_with_exif'', ''signed_sensor_recording'', ''coverage_map'',
         ''gps_stamped_checkpoint_coverage'', ''thermal_image_capture_manifest'']"
  shows "\<exists>out. verify_single E DEFAULT_REGISTRY (JStr ''sensor-witness'') (JStr kind) payload tp = Inr out \<and> vo_decision out = FAIL"
  using assms dispatch_mode_value [of SENSOR_WITNESS]
  by (simp add: verify_single_def registry_get_def kind_in_def DEFAULT_REGISTRY_def fail_outcome_def)

lemma state_sample_fields: "state_sample s = Inr j \<Longrightarrow> \<exists>t x y d. j = JDict ((''t'', t) # (''x'', x) # (''y'', y) # d)"
  by (auto simp: state_sample_def Let_def)

lemma state_track_passes:
  assumes "mapE state_sample slog = Inr samples"
  shows "check_track samples = Inr pass_outcome"
  using assms
proof (induction slog arbitrary: samples)
  case (Cons s slog)
  then obtain j rest where "state_sample s = Inr j" "mapE state_sample slog = Inr rest" "samples = j # rest" by auto
  with Cons.IH state_sample_fields [of s j] show ?case by (auto simp: need_fields_def)
qed simp


text \<open>The kinds of evidence the adapters name, none of them known to the coordinator.\<close>

definition adapter_kinds :: "string set" where
  "adapter_kinds = {''mqtt_sensor_window'', ''plc_register_read_window'', ''plc_command_acknowledgement'', ''geo_track'',
     ''ros1_topic_sample_log'', ''ros1_action_result'', ''ros1_service_call_result''}"

definition adapter_piece :: "json \<Rightarrow> bool" where
  "adapter_piece j \<longleftrightarrow> (\<exists>k p. j = JDict [(''kind'', JStr k), (''payload'', p)] \<and> k \<in> adapter_kinds)"

lemma adapter_pieceI: "k \<in> adapter_kinds \<Longrightarrow> adapter_piece (JDict [(''kind'', JStr k), (''payload'', p)])"
  by (simp add: adapter_piece_def)

lemma adapter_pieces:
  "adapter_piece (mqtt_attest b cid)" "adapter_piece (modbus_attest g cid)" "adapter_piece (mavlink_attest v cid)"
  by (simp_all add: mqtt_attest_def modbus_attest_def mavlink_attest_def adapter_pieceI adapter_kinds_def split: option.split prod.split)

text \<open>The kind the vendor template comes with is unknown to the coordinator as well.\<close>

lemma vendor_piece_fails:
  assumes "vendor_attest VENDOR_ATTESTATION_KINDS b cid = Inr piece"
  shows "\<exists>payload out. piece = JDict [(''kind'', JStr ''vendor_motion_telemetry''), (''payload'', payload)] \<and>
    verify_single E DEFAULT_REGISTRY (JStr ''sensor-witness'') (JStr ''vendor_motion_telemetry'') payload tp = Inr out \<and> vo_decision out = FAIL"
proof -
  from assms obtain payload where "piece = JDict [(''kind'', JStr ''vendor_motion_telemetry''), (''payload'', payload)]"
    by (auto simp: vendor_attest_def VENDOR_ATTESTATION_KINDS_def)
  moreover obtain out where "verify_single E DEFAULT_REGISTRY (JStr ''sensor-witness'') (JStr ''vendor_motion_telemetry'') payload tp = Inr out"
      "vo_decision out = FAIL"
    using unregistered_fails [of "''vendor_motion_telemetry''" E payload tp] by auto
  ultimately show ?thesis by blast
qed

lemma ros1_piece: "ros1_attest profile rb cid = Inr r \<Longrightarrow> adapter_piece r"
  by (auto simp: ros1_attest_def Let_def adapter_kinds_def intro!: adapter_pieceI split: option.splits if_split_asm)

lemma adapter_piece_fails:
  assumes "adapter_piece piece"
  shows "\<exists>kind payload out. j_item piece ''kind'' = Inr (JStr kind) \<and> j_item piece ''payload'' = Inr payload \<and>
    verify_single E DEFAULT_REGISTRY (JStr ''sensor-witness'') (JStr kind) payload tp = Inr out \<and> vo_decision out = FAIL"
proof -
  from assms obtain k p where k: "piece = JDict [(''kind'', JStr k), (''payload'', p)]" "k \<in> adapter_kinds"
    by (auto simp: adapter_piece_def)
  have "\<exists>out. verify_single E DEFAULT_REGISTRY (JStr ''sensor-witness'') (JStr k) p tp = Inr out \<and> vo_decision out = FAIL"
    by (rule unregistered_fails) (use k(2) in \<open>auto simp: adapter_kinds_def\<close>)
  then show ?thesis by (auto simp: k(1))
qed

lemma vda_piece:
  assumes "vda_attest vb cid = Inr piece"
  shows "\<exists>samples rest. piece = JDict [(''kind'', JStr ''indoor_pose_track''), (''payload'', JDict ((''track'', JList samples) # rest))] \<and>
    check_track samples = Inr pass_outcome \<and> (samples = [] \<longleftrightarrow> \<not> (\<exists>o1. map_of (vb_orders vb) cid = Some o1 \<and> os_state_log o1 \<noteq> []))"
proof (cases "map_of (vb_orders vb) cid")
  case None
  then show ?thesis using assms by (auto simp: vda_attest_def)
next
  case (Some o1)
  with assms obtain samples where s: "mapE state_sample (os_state_log o1) = Inr samples"
      "piece = JDict [(''kind'', JStr ''indoor_pose_track''), (''payload'', JDict [(''track'', JList samples),
        (''sample_count'', JInt (int (length samples)))])]"
    by (auto simp: vda_attest_def vda5050_state_to_attestation_payload_def)
  moreover have "samples = [] \<longleftrightarrow> os_state_log o1 = []" using s(1) by (cases "os_state_log o1") auto
  ultimately show ?thesis using Some state_track_passes [OF s(1)] by auto
qed

text \<open>
  C21: What the coordinator's verifiers say of the adapters' evidence. Every piece of the sensor fleet,
  the PLC gateway, the drone and the ROS 1 robot is judged fail, whatever they recorded,
  because its kind is not registered; the track of the transport robot passes exactly when at
  least one state message was logged for the claim, with or without a position in it.
\<close>

theorem adapter_evidence_verdict:
  "(\<forall>piece. piece \<in> {mqtt_attest b cid, modbus_attest g cid, mavlink_attest v cid} \<or> ros1_attest profile rb cid = Inr piece \<longrightarrow>
     (\<exists>kind payload out. j_item piece ''kind'' = Inr (JStr kind) \<and> j_item piece ''payload'' = Inr payload \<and>
       verify_single E DEFAULT_REGISTRY (JStr ''sensor-witness'') (JStr kind) payload tp = Inr out \<and> vo_decision out = FAIL)) \<and>
   (\<forall>piece. vda_attest vb cid = Inr piece \<longrightarrow>
     (\<exists>payload out. j_item piece ''kind'' = Inr (JStr ''indoor_pose_track'') \<and> j_item piece ''payload'' = Inr payload \<and>
       verify_single E DEFAULT_REGISTRY (JStr ''sensor-witness'') (JStr ''indoor_pose_track'') payload tp = Inr out \<and>
       (vo_decision out = PASS \<longleftrightarrow> (\<exists>o1. map_of (vb_orders vb) cid = Some o1 \<and> os_state_log o1 \<noteq> []))))"
proof (intro conjI allI impI)
  fix piece
  assume "piece \<in> {mqtt_attest b cid, modbus_attest g cid, mavlink_attest v cid} \<or> ros1_attest profile rb cid = Inr piece"
  then have "adapter_piece piece" using adapter_pieces ros1_piece by (elim disjE insertE emptyE) simp_all
  then show "\<exists>kind payload out. j_item piece ''kind'' = Inr (JStr kind) \<and> j_item piece ''payload'' = Inr payload \<and>
       verify_single E DEFAULT_REGISTRY (JStr ''sensor-witness'') (JStr kind) payload tp = Inr out \<and> vo_decision out = FAIL"
    by (rule adapter_piece_fails)
next
  fix piece
  assume "vda_attest vb cid = Inr piece"
  from vda_piece [OF this] obtain samples rest where piece: "piece = JDict [(''kind'', JStr ''indoor_pose_track''),
      (''payload'', JDict ((''track'', JList samples) # rest))]" "check_track samples = Inr pass_outcome"
    and e: "samples = [] \<longleftrightarrow> \<not> (\<exists>o1. map_of (vb_orders vb) cid = Some o1 \<and> os_state_log o1 \<noteq> [])" by blast
  have "verify_single E DEFAULT_REGISTRY (JStr ''sensor-witness'') (JStr ''indoor_pose_track'') (JDict ((''track'', JList samples) # rest)) tp =
      Inr (if samples = [] then fail_outcome [''empty or missing track''] else pass_outcome)"
    using piece(2) dispatch_mode_value [of SENSOR_WITNESS]
    by (simp add: verify_single_def DEFAULT_REGISTRY_def registry_get_def kind_in_def sensor_witness_def split: list.splits del: check_track.simps) blast
  then show "\<exists>payload out. j_item piece ''kind'' = Inr (JStr ''indoor_pose_track'') \<and> j_item piece ''payload'' = Inr payload \<and>
       verify_single E DEFAULT_REGISTRY (JStr ''sensor-witness'') (JStr ''indoor_pose_track'') payload tp = Inr out \<and>
       (vo_decision out = PASS \<longleftrightarrow> (\<exists>o1. map_of (vb_orders vb) cid = Some o1 \<and> os_state_log o1 \<noteq> []))"
    using e by (auto simp: piece(1) fail_outcome_def pass_outcome_def)
qed

subsection \<open>The PLC\<close>

lemma find_entry_in: "find_entry name es = Inr (Some e) \<Longrightarrow> e \<in> set es \<and> (\<exists>n. name_of e = Inr n \<and> py_eq n name)"
  by (induction es) (auto split: if_splits)

lemma find_kind_in:
  "find_kind rm name ks = Inr (Some (k, e)) \<Longrightarrow> k \<in> set ks \<and> (\<exists>rows. rows_of rm k = Inr rows \<and> e \<in> set rows) \<and>
    (\<exists>n. name_of e = Inr n \<and> py_eq n name)"
  by (induction ks) (auto split: option.splits dest: find_entry_in)

text \<open>What one write does: nothing, or one write to a declared, writable signal.\<close>

definition guarded_write :: "params \<Rightarrow> json \<Rightarrow> json \<Rightarrow> plc_write \<Rightarrow> bool" where
  "guarded_write rm target value w \<longleftrightarrow> (\<exists>kind entry rows n wr a. rows_of rm kind = Inr rows \<and> entry \<in> set rows \<and>
     name_of entry = Inr n \<and> py_eq n target \<and> j_get entry ''writable'' JNull = Inr wr \<and> truthy wr \<and>
     j_item entry ''address'' = Inr (JInt a) \<and>
     (kind = ''holding_registers'' \<and> (\<exists>v. w = WriteRegister a v) \<or> kind = ''coils'' \<and> w = WriteCoil a (truthy value)))"

lemma to_address_Inr [simp]: "to_address x = Inr a \<longleftrightarrow> x = JInt a"
  by (cases x) auto

lemma write_guarded:
  assumes "write_signal E F rm target value g = (r, g')"
  shows "mg_writes g' = mg_writes g \<or> (\<exists>w. mg_writes g' = mg_writes g @ [w] \<and> guarded_write rm target value w)"
proof (cases "lookup_register E rm target")
  case (Inr ke)
  obtain kind entry where ke: "ke = (kind, entry)" by fastforce
  from Inr obtain rows n where "rows_of rm kind = Inr rows" "entry \<in> set rows" "name_of entry = Inr n" "py_eq n target"
    unfolding ke lookup_register_def by (auto dest!: find_kind_in simp del: find_kind.simps)
  then show ?thesis
    using assms Inr unfolding ke write_signal_def plc_tell_def guarded_write_def
    by (auto simp: bindS_def lift_def modify_def ret_def split: sum.splits if_splits prod.splits) blast+
next
  case (Inl e)
  then show ?thesis using assms by (auto simp: write_signal_def bindS_def lift_def)
qed


text \<open>
  C22: A command writes at most once, and only to a signal that the register map lists under the
  command's target, marks writable and keeps in a holding register or a coil, at its address.
  A fixed value in the definition of a command on a coil cannot be overridden by the task.
\<close>

theorem plc_writes_guarded:
  assumes "plc_command E F C rm task g = (r, g')" "mg_writes g' \<noteq> mg_writes g"
  shows "\<exists>payload cmd d target value w. j_get task ''descriptor_payload'' (JDict []) = Inr payload \<and> j_item payload ''command'' = Inr cmd \<and>
    command_def E rm cmd = Inr d \<and> command_target E cmd d payload = Inr (target, value) \<and>
    mg_writes g' = mg_writes g @ [w] \<and>
    (\<exists>kind entry rows n wr a. rows_of rm kind = Inr rows \<and> entry \<in> set rows \<and> name_of entry = Inr n \<and> py_eq n target \<and>
       j_get entry ''writable'' JNull = Inr wr \<and> truthy wr \<and> j_item entry ''address'' = Inr (JInt a) \<and>
       (kind = ''holding_registers'' \<and> (\<exists>v. w = WriteRegister a v) \<or> kind = ''coils'' \<and> w = WriteCoil a (truthy value))) \<and>
    (\<forall>c u. d = JDict c \<and> map_of c ''register'' = None \<and> map_of c ''value'' = Some u \<longrightarrow> value = u)"
proof -
  from assms obtain payload cmd d target v g1 r1 where
    run: "j_get task ''descriptor_payload'' (JDict []) = Inr payload" "j_item payload ''command'' = Inr cmd"
      "command_def E rm cmd = Inr d" "command_target E cmd d payload = Inr (target, v)"
      "write_signal E F rm target v g = (r1, g1)" "mg_writes g' = mg_writes g1"
    unfolding plc_command_def
    by (auto simp: bindS_def lift_def modify_def ret_def gateway_now_def Let_def split: sum.splits prod.splits)
  from write_guarded [OF run(5)] run(6) assms(2) obtain w where w: "mg_writes g' = mg_writes g @ [w]" "guarded_write rm target v w"
    by auto
  have "u = v" if "d = JDict c" "map_of c ''register'' = None" "map_of c ''value'' = Some u" for c u
    using run(4) that by (auto simp: command_target_def map_of_eq_None_iff split: if_splits)
  with run w show ?thesis unfolding guarded_write_def by blast
qed

subsection \<open>The read window ends\<close>

lemma read_signal_clock: "read_signal E F D rm s g = (r, g') \<Longrightarrow> mg_now g' = mg_now g"
  by (auto simp: read_signal_def bindS_def lift_def device_call_def ret_def split: sum.splits prod.splits if_splits)

lemma sample_signals_clock: "sample_signals E F D rm ss x g = (r, g') \<Longrightarrow> mg_now g' = mg_now g"
proof (induction ss arbitrary: x g)
  case (Cons s ss)
  obtain v g1 where "read_signal E F D rm s g = (v, g1)" by fastforce
  with Cons read_signal_clock [OF this] show ?case
    by (auto simp: bindS_def lift_def split: sum.splits)
qed (simp add: ret_def)

lemma read_loop_ends:
  assumes "end_at \<le> C (mg_now g + 2 * k)"
  shows "\<exists>y. read_loop E F D C rm ss end_at cid g = Some y"
  using assms
proof (induction k arbitrary: g)
  case 0
  then show ?case by (subst read_loop.simps) simp
next
  case (Suc k)
  let ?g = "g\<lparr>mg_now := Suc (mg_now g)\<rparr>"
  show ?case
  proof (cases "C (mg_now g) < end_at")
    case True
    obtain r g1 where t: "take_sample E F D C rm ss ?g = (r, g1)" by fastforce
    then have "mg_now g1 = mg_now g + 2"
      by (auto simp: take_sample_def bindS_def gateway_now_def dest: sample_signals_clock)
    then have "\<exists>y. read_loop E F D C rm ss end_at cid (keep_sample cid x g1) = Some y" for x
      using Suc.IH [of "keep_sample cid x g1"] Suc.prems by (simp add: keep_sample_def)
    with True t show ?thesis by (subst read_loop.simps) (cases r; simp)
  qed (subst read_loop.simps, simp)
qed

text \<open>
  A read window ends: if the clock passes every bound and stays there, the loop that samples the
  PLC returns, whatever signals are asked for and whatever the device answers.
\<close>

theorem plc_window_ends:
  assumes "\<forall>t. \<exists>k. \<forall>n \<ge> k. t \<le> C n"
  shows "\<exists>y. plc_read_window E F D C rm task g = Some y"
proof -
  have "\<exists>y. read_loop E F D C rm ss end_at cid h = Some y" for ss end_at cid h
  proof -
    from assms obtain k where "\<forall>n \<ge> k. end_at \<le> C n" by blast
    then have "end_at \<le> C (mg_now h + 2 * k)" by simp
    then show ?thesis by (rule read_loop_ends)
  qed
  moreover obtain o1 g1 where "open_window F C task g = (o1, g1)" by fastforce
  ultimately show ?thesis
    by (cases o1) (auto simp: plc_read_window_def split: option.splits sum.splits)
qed

subsection \<open>Missions\<close>

lemma waypoint_seqs: "waypoint_items F k wps = Inr items \<Longrightarrow>
    length items = length wps \<and> map (\<lambda>i. j_item i ''seq'') items = map (\<lambda>n. Inr (JInt (int n))) [k..<k + length items]"
proof (induction wps arbitrary: k items)
  case (Cons wp wps)
  then obtain x y z rest where r: "waypoint_items F (Suc k) wps = Inr rest" "items = mission_item k 16 0 x y z # rest"
    by (auto simp del: j_item.simps)
  from Cons.IH [OF r(1)] show ?case by (simp add: r(2) mission_item_def upt_conv_Cons del: upt_Suc)
qed simp

text \<open>The items of a mission are numbered from 0 without gaps, and the first is the takeoff.\<close>

lemma mission_in_sequence:
  assumes "descriptor_to_mavlink_mission F payload = Inr items"
  shows "map (\<lambda>i. j_item i ''seq'') items = map (\<lambda>n. Inr (JInt (int n))) [0..<length items] \<and>
    j_item (hd items) ''command'' = Inr (JInt 22)"
proof -
  from assms obtain alt wps ws landing where i: "items = mission_item 0 22 1 (JInt 0) (JInt 0) alt # ws @ landing"
      "waypoint_items F 1 wps = Inr ws" "landing = [] \<or> (\<exists>x y. landing = [mission_item (1 + length wps) 21 0 x y (JInt 0)])"
    unfolding descriptor_to_mavlink_mission_def by (clarsimp simp del: j_get.simps split: if_splits) blast+
  have "map (\<lambda>i. j_item i ''seq'') (ws @ landing) = map (\<lambda>n. Inr (JInt (int n))) [1..<1 + length (ws @ landing)]"
    using waypoint_seqs [OF i(2)] i(3) by (auto simp: mission_item_def)
  then show ?thesis by (simp add: i(1) mission_item_def upt_conv_Cons del: upt_Suc map_append length_append)
qed


subsection \<open>The adapters under their worker\<close>

text \<open>A handler as its worker sees it: it returns or it raises.\<close>

definition as_handler :: "(json \<Rightarrow> ('s, json) py) \<Rightarrow> 's \<Rightarrow> handler_fn" where
  "as_handler h s task = (case fst (h task s) of Inl e \<Rightarrow> Inl e | Inr _ \<Rightarrow> Inr ())"

text \<open>The read window of the PLC gateway may run on: on a clock that passes every bound it ends.\<close>

definition as_window_handler :: "(json \<Rightarrow> 's \<Rightarrow> ('a res \<times> 's) option) \<Rightarrow> 's \<Rightarrow> handler_fn" where
  "as_window_handler h s task = (case h task s of Some (Inl e, _) \<Rightarrow> Inl e | _ \<Rightarrow> Inr ())"

inductive adapter_handler :: "handler_fn \<Rightarrow> bool" where
  mqtt: "adapter_handler (as_handler (mqtt_read_window E K F now arrivals) b)"
| vda: "adapter_handler (as_handler (vda_execute E K c now finished u1 u2 arrivals) vb)"
| plc: "adapter_handler (as_handler (plc_command E F C rm) g)"
| plc_window: "\<forall>t. \<exists>k. \<forall>n \<ge> k. t \<le> C n \<Longrightarrow> adapter_handler (as_window_handler (plc_read_window E F D C rm) g)"
| drone: "adapter_handler (as_handler (mavlink_fly E F dev positions outcome finished) v)"
| action: "adapter_handler (as_handler (ros1_execute_action E answer progress started finished a d) rb)"
| service: "adapter_handler (as_handler (ros1_execute_service E answer started finished a d) rb)"
| vendor: "adapter_handler (as_handler (vendor_execute E stream motion telemetry started finished dt) nb)"

lemma no_claim_id: "map_of td ''claim_id'' = None \<Longrightarrow> task_claim_id (JDict td) = Inl (KeyError ''claim_id'')"
  by (simp add: task_claim_id_def)

lemma window_handler_raises:
  assumes "map_of td ''claim_id'' = None"
  shows "plc_read_window E F D C rm (JDict td) g = Some (Inl (KeyError ''claim_id''), g)"
  by (simp add: plc_read_window_def open_window_def no_claim_id [OF assms] bindS_def lift_def)

lemma adapter_handler_raises:
  assumes "adapter_handler h" "map_of td ''claim_id'' = None"
  shows "h (JDict td) = Inl (KeyError ''claim_id'')"
  using assms(1)
  by cases (simp_all add: as_handler_def as_window_handler_def mqtt_read_window_def vda_execute_def plc_command_def mavlink_fly_def
      ros1_execute_action_def ros1_execute_service_def vendor_execute_def window_handler_raises [OF assms(2)] no_claim_id [OF assms(2)]
      bindS_def lift_def Let_def)

text \<open>
  C23: A task dispatched to an adapter is left executing: every handler of the five adapters and of the template for
  vendors, the trigger of the sensor fleet apart, reads the claim id out of the task, where the worker that
  calls it does not put it. So for a task without such a field the handler raises KeyError,
  and the task, claimed and opened, stays executing at the coordinator under any number of
  further heartbeats.
\<close>

theorem adapter_task_left_executing:
  assumes "v2_env E C sk" "identity_from_sk E sk = Inr (vw_identity w)"
    and "v2_dispatch disp tid td dtype" "map_of (vw_handlers w) dtype = Some handler"
    and "v2_claimable E (vw_identity w) tid task r"
    and "adapter_handler handler" "map_of td ''claim_id'' = None"
  shows "\<exists>cid r'. full_lifecycle E C w disp r = (Inl (Python (KeyError ''claim_id'')), r') \<and>
    (\<forall>n. \<exists>t. get_task (ro_coordinator ((session_beat E C (vw_identity w) cid ^^ n) r')) tid = Some t \<and> t_state t = EXECUTING)"
  using lifecycle_raises [OF assms(1-5) adapter_handler_raises [OF assms(6,7)]] .

subsection \<open>Concrete adapters\<close>

definition sample_mqtt_bridge :: mqtt_bridge where
  "sample_mqtt_bridge = \<lparr>mb_worker = new_v2_worker sdk_worker AUTONOMOUS_ROBOT ''owner'', mb_reads = [], mb_stream_index = [],
     mb_command_index = [], mb_subscribed = [], mb_published = [], mb_consuming = True\<rparr>"

definition sample_register_map :: params where
  "sample_register_map = [(''coils'', JList [JDict [(''name'', JStr ''valve''), (''address'', JInt 7), (''writable'', JBool True)]]),
     (''commands'', JDict [(''close'', JDict [(''coil'', JStr ''valve''), (''value'', JBool False)])])]"

definition sample_close :: json where
  "sample_close = JDict [(''claim_id'', JStr ''c''), (''descriptor_payload'', JDict [(''command'', JStr ''close''), (''value'', JBool True)])]"

theorem adapter_task_left_executing_witness:
  "\<exists>cid r'. full_lifecycle sample_env (\<lambda>n. 0) (v2_sample (as_handler (plc_command sample_env sample_ieee (\<lambda>n. 0) []) new_modbus_gateway))
       v2_sample_dispatch v2_sample_state = (Inl (Python (KeyError ''claim_id'')), r') \<and>
     (\<forall>n. \<exists>t. get_task (ro_coordinator ((session_beat sample_env (\<lambda>n. 0) sdk_worker cid ^^ n) r')) ''T'' = Some t \<and> t_state t = EXECUTING)"
  using adapter_task_left_executing [OF v2_sample_env _ v2_sample_dispatched _ _ adapter_handler.plc,
      of "v2_sample (as_handler (plc_command sample_env sample_ieee (\<lambda>n. 0) []) new_modbus_gateway)" sample_env sample_ieee "\<lambda>n. 0" "[]"
        new_modbus_gateway "hd (tasks run2)" v2_sample_state]
  by (simp add: v2_sample_facts sdk_worker_identity v2_sample_claimable sample_task_def)

theorem adapter_evidence_verdict_witness:
  "\<exists>out. verify_single sample_env DEFAULT_REGISTRY (JStr ''sensor-witness'') (JStr ''geo_track'')
     (JDict [(''track'', JList [])]) (JDict []) = Inr out \<and> vo_decision out = FAIL"
  using adapter_evidence_verdict [THEN conjunct1, rule_format, of "mavlink_attest \<lparr>mv_geo_buffers = [], mv_sent = []\<rparr> ''c''"
      sample_mqtt_bridge "''c''" new_modbus_gateway "\<lparr>mv_geo_buffers = [], mv_sent = []\<rparr>"]
  by (simp add: mavlink_attest_def)

theorem plc_writes_guarded_witness:
  "\<exists>r g'. plc_command sample_env sample_ieee (\<lambda>n. 0) sample_register_map sample_close new_modbus_gateway = (r, g') \<and>
     mg_writes g' = [WriteCoil 7 False]"
proof -
  obtain r g' where run: "plc_command sample_env sample_ieee (\<lambda>n. 0) sample_register_map sample_close new_modbus_gateway = (r, g')" by fastforce
  then have w: "mg_writes g' = [WriteCoil 7 False]"
    by (simp add: plc_command_def sample_close_def sample_register_map_def task_claim_id_def command_def_def command_target_def
        write_signal_def lookup_register_def rows_of_def name_of_def py_or_def plc_tell_def gateway_now_def new_modbus_gateway_def
        bindS_def lift_def modify_def ret_def Let_def raise_if_def) auto
  from plc_writes_guarded [OF run] w run show ?thesis by (auto simp: new_modbus_gateway_def)
qed

theorem plc_window_ends_witness:
  "\<exists>y. plc_read_window sample_env sample_ieee (\<lambda>n. \<lparr>plc_holding = (\<lambda>a. 0), plc_input = (\<lambda>a. 0), plc_coil = (\<lambda>a. False)\<rparr>) (\<lambda>n. int n) sample_register_map sample_close new_modbus_gateway = Some y"
proof (rule plc_window_ends)
  show "\<forall>t. \<exists>k. \<forall>n \<ge> k. t \<le> int n" by (metis nat_le_iff)
qed

end
