(* ===== verification/Federation_Transport.thy ===== *)
theory Federation_Transport
  imports Federation_Audit Multibase
begin

text \<open>
  \<open>HttpChainFetcher\<close> of \<open>wcp_coordinator/federation/transport.py\<close>: the address of a peer's audit endpoint,
  derived from the WebSocket address in its trust anchor, and the reading of the reply. The
  connection is an argument; the parts of \<open>urllib.parse.urlparse\<close> the code uses are written out.
\<close>

subsection \<open>urlparse\<close>

definition scheme_chars :: "char set" where
  "scheme_chars = set ''abcdefghijklmnopqrstuvwxyzABCDEFGHIJKLMNOPQRSTUVWXYZ0123456789+-.''"

definition ascii_letters :: "char set" where
  "ascii_letters = set ''abcdefghijklmnopqrstuvwxyzABCDEFGHIJKLMNOPQRSTUVWXYZ''"

text \<open>Leading control characters and spaces go, tabs and line ends go everywhere.\<close>

definition url_clean :: "string \<Rightarrow> string" where
  "url_clean url =
     filter (\<lambda>c. c \<notin> {CHR 0x09, CHR 0x0A, CHR 0x0D}) (dropWhile (\<lambda>c. of_char c \<le> (0x20 :: nat)) url)"

definition split_scheme :: "string \<Rightarrow> string \<times> string" where
  "split_scheme url =
     (let pre = takeWhile (\<lambda>c. c \<noteq> CHR '':'') url; post = dropWhile (\<lambda>c. c \<noteq> CHR '':'') url in
      if post \<noteq> [] \<and> pre \<noteq> [] \<and> hd pre \<in> ascii_letters \<and> set pre \<subseteq> scheme_chars
      then (py_lower pre, tl post) else ([], url))"

definition netloc_end :: "char \<Rightarrow> bool" where
  "netloc_end c \<longleftrightarrow> c \<in> {CHR ''/'', CHR ''?'', CHR ''#''}"

definition split_netloc :: "string \<Rightarrow> string \<times> string" where
  "split_netloc url =
     (if startswith url ''//'' then
        (takeWhile (\<lambda>c. \<not> netloc_end c) (drop 2 url), dropWhile (\<lambda>c. \<not> netloc_end c) (drop 2 url))
      else ([], url))"

definition before :: "char \<Rightarrow> string \<Rightarrow> string" where
  "before c s = takeWhile (\<lambda>x. x \<noteq> c) s"

text \<open>\<open>_splitparams\<close>: a semicolon in the last segment of the path ends it.\<close>

definition split_params :: "string \<Rightarrow> string" where
  "split_params path =
     (let leaf = rev (takeWhile (\<lambda>c. c \<noteq> CHR ''/'') (rev path)) in
      take (length path - length leaf) path @ before (CHR '';'') leaf)"

definition uses_params :: "string set" where
  "uses_params = {'''', ''ftp'', ''hdl'', ''prospero'', ''http'', ''https'', ''shttp'', ''rtsp'', ''rtsps'', ''rtspu'',
     ''sip'', ''sips'', ''mms'', ''sftp'', ''tel''}"

text \<open>Scheme, host and path. \<open>bracketed\<close> tells whether a host with both brackets is an address.\<close>

definition urlparse :: "(string \<Rightarrow> bool) \<Rightarrow> string \<Rightarrow> (string \<times> string \<times> string) res" where
  "urlparse bracketed url =
     (let (scheme, rest) = split_scheme (url_clean url);
          (netloc, tail) = split_netloc rest;
          open = CHR ''['' \<in> set netloc; close = CHR '']'' \<in> set netloc;
          path = before (CHR ''?'') (before (CHR ''#'') tail)
      in if open \<noteq> close then Inl (ValueError ''Invalid IPv6 URL'')
         else if open \<and> \<not> bracketed netloc then Inl (ValueError ''Invalid IPv6 URL'')
         else Inr (scheme, netloc, if scheme \<in> uses_params then split_params path else path))"

subsection \<open>HttpChainFetcher\<close>

definition to_http :: "(string \<Rightarrow> bool) \<Rightarrow> string \<Rightarrow> string res" where
  "to_http bracketed url =
     bindE (urlparse bracketed url) (\<lambda>(p_scheme, p_netloc, p_path).
     let scheme = (if p_scheme = ''ws'' then ''http'' else if p_scheme = ''wss'' then ''https'' else p_scheme);
         netloc = (if p_netloc \<noteq> [] then p_netloc else p_path)
     in Inr (scheme @ ''://'' @ netloc))"

text \<open>\<open>urlopen\<close> is the connection: it gives the parsed body or fails. An empty or missing list is \<open>[]\<close>.\<close>

definition fetch_sync :: "(string \<Rightarrow> json res) \<Rightarrow> string \<Rightarrow> json list res" where
  "fetch_sync urlopen url =
     bindE (urlopen url) fetched_entries"

definition http_chain_fetcher :: "(string \<Rightarrow> bool) \<Rightarrow> (string \<Rightarrow> json res) \<Rightarrow> chain_fetcher" where
  "http_chain_fetcher bracketed urlopen peer_url claim_id =
     bindE (to_http bracketed peer_url) (\<lambda>base.
     fetch_sync urlopen (base @ ''/wcp/federation/audit_chain/'' @ claim_id))"

subsection \<open>Addresses of coordinators\<close>

definition host_char :: "char \<Rightarrow> bool" where
  "host_char c \<longleftrightarrow> \<not> netloc_end c \<and> c \<notin> {CHR ''['', CHR '']'', CHR 0x09, CHR 0x0A, CHR 0x0D}"

lemma host_kept: "list_all host_char host \<Longrightarrow> filter (\<lambda>c. c \<notin> {CHR 0x09, CHR 0x0A, CHR 0x0D}) host = host"
  by (induction host) (auto simp: host_char_def)

lemma takeWhile_host:
  assumes "list_all host_char host" "path = [] \<or> netloc_end (hd path)"
  shows "takeWhile (\<lambda>c. \<not> netloc_end c) (host @ path) = host"
  using assms by (induction host) (auto simp: host_char_def takeWhile_eq_Nil_iff)

text \<open>
  A WebSocket address, with any path, query or fragment behind the host, becomes the HTTP
  address of the same host; so does one without a path.
\<close>

lemma to_http_ws:
  assumes "(s, h) \<in> {(''ws'', ''http''), (''wss'', ''https'')}" "list_all host_char host" "host \<noteq> []"
    and "path = [] \<or> netloc_end (hd path)"
  shows "to_http br (s @ ''://'' @ host @ path) = Inr (h @ ''://'' @ host)"
proof -
  let ?keep = "filter (\<lambda>c. c \<notin> {CHR 0x09, CHR 0x0A, CHR 0x0D})"
  have s: "set s \<subseteq> scheme_chars" "hd s \<in> ascii_letters" "s \<noteq> []" "CHR '':'' \<notin> set s" "py_lower s = s"
    and clean: "?keep s = s" "\<not> of_char (hd s) \<le> (0x20 :: nat)"
    using assms(1) by (auto simp: scheme_chars_def ascii_letters_def py_lower_def lower_char_def)
  have "?keep path = [] \<or> netloc_end (hd (?keep path))"
    using assms(4) by (cases path) (auto simp: netloc_end_def)
  note t = takeWhile_host [OF assms(2) this]
  have "dropWhile (\<lambda>c. of_char c \<le> (0x20 :: nat)) (s @ xs) = s @ xs" for xs using s(3) clean(2) by (cases s) auto
  then have u: "url_clean (s @ ''://'' @ host @ path) = s @ CHR '':'' # ''//'' @ host @ ?keep path"
    using clean(1) host_kept [OF assms(2)] by (simp add: url_clean_def)
  have w: "takeWhile (\<lambda>c. c \<noteq> CHR '':'') (s @ CHR '':'' # xs) = s" "dropWhile (\<lambda>c. c \<noteq> CHR '':'') (s @ CHR '':'' # xs) = CHR '':'' # xs" for xs
    using s(4) by (auto simp: takeWhile_append dropWhile_append)
  have "split_scheme (s @ CHR '':'' # ''//'' @ host @ ?keep path) = (s, ''//'' @ host @ ?keep path)"
    unfolding split_scheme_def w Let_def using s by simp
  moreover obtain rest where "split_netloc (''//'' @ host @ ?keep path) = (host, rest)"
    using t by (simp add: split_netloc_def startswith_def)
  moreover have "CHR ''['' \<notin> set host" "CHR '']'' \<notin> set host" using assms(2) by (auto simp: list_all_iff host_char_def)
  ultimately obtain p where "urlparse br (s @ ''://'' @ host @ path) = Inr (s, host, p)"
    unfolding urlparse_def u by (simp add: Let_def)
  with assms(1,3) show ?thesis by (auto simp: to_http_def)
qed

end
