(* ===== verification/Federation_Demo.thy ===== *)
theory Federation_Demo
  imports Federation_Transport Py_Float
begin

text \<open>
  The federation demonstrations, \<open>examples/federation-demo/demo.py\<close> (two coordinators in one process),
  \<open>examples/federation-demo-n3/demo.py\<close> (three) and \<open>examples/federation-demo/demo_cross_process.py\<close>. They are
  the acceptance test of the federation modules: each runs a whole exchange and returns 0 or 1.

  A coordinator is an environment, whose signer key is the one its \<open>AuditSigner\<close> drew, and a state of
  its own: the store of trust anchors with the database session. The databases are files that
  outlive a run, so the state at the start is an argument. What a script draws (keys, UUIDs, readings of
  \<open>time.time()\<close>) is the record \<open>draws\<close>.
\<close>

subsection \<open>Coordinators in one process\<close>

record two_coordinators =
  alpha :: fed
  beta :: fed

record three_coordinators = two_coordinators +
  gamma :: fed

definition on_alpha :: "(fed, 'a) py \<Rightarrow> ('z two_coordinators_scheme, 'a) py" where
  "on_alpha m s = (case m (alpha s) of (r, a) \<Rightarrow> (r, s\<lparr>alpha := a\<rparr>))"

definition on_beta :: "(fed, 'a) py \<Rightarrow> ('z two_coordinators_scheme, 'a) py" where
  "on_beta m s = (case m (beta s) of (r, b) \<Rightarrow> (r, s\<lparr>beta := b\<rparr>))"

definition on_gamma :: "(fed, 'a) py \<Rightarrow> ('z three_coordinators_scheme, 'a) py" where
  "on_gamma m s = (case m (gamma s) of (r, g) \<Rightarrow> (r, s\<lparr>gamma := g\<rparr>))"

text \<open>\<open>coord_did\<close> of \<open>_build_coordinator\<close>, and its store: a new one over the session of its database file.\<close>

definition coord_did :: "env \<Rightarrow> string" where
  "coord_did E = did_string (ed25519_pub E (signer_key E))"

definition build_coordinator :: "bool \<Rightarrow> db \<Rightarrow> fed" where
  "build_coordinator audit_given file = \<lparr>by_did = [], audited = audit_given, session = file\<rparr>"

text \<open>\<open>db.commit()\<close>\<close>

definition commit :: "(fed, unit) py" where
  "commit = on_db db_flush"

definition make_signed_trust_anchor ::
  "env \<Rightarrow> ieee \<Rightarrow> bytes \<Rightarrow> rat \<Rightarrow> string \<Rightarrow> string \<Rightarrow> string set \<Rightarrow> int \<Rightarrow> trust_anchor" where
  "make_signed_trust_anchor E F signing_key now peer_did peer_url scope lifetime_s =
     (let expires = rnd F (now + of_int lifetime_s);
          body = JDict [(''peer_coordinator_did'', JStr peer_did), (''peer_endpoint_url'', JStr peer_url),
            (''scope'', JList (map JStr (sorted_list_of_set scope))), (''established_at'', JFloat now),
            (''expires_at'', JFloat expires)]
      in \<lparr>peer_coordinator_did = peer_did, peer_public_key = ed25519_pub E signing_key, peer_endpoint_url = peer_url,
          anchor_scope = scope, established_at = now, expires_at = expires,
          anchor_signature = wire_sig (ed25519_sign E signing_key (canon E body))\<rparr>)"

definition demo_scope :: "string set" where
  "demo_scope = {''capability_discovery'', ''audit_chain_export''}"

text \<open>
  \<open>in_process_forwarder\<close>: the call is dispatched into the peer and committed. A \<open>JsonRpcError\<close> prints as
  the tuple of its arguments.
\<close>

definition in_process :: "env \<Rightarrow> string \<Rightarrow> params \<Rightarrow> (db, json) py" where
  "in_process E method params s =
     (case dispatch E (JStr method) (JDict params) s of
        (Result r, t) \<Rightarrow> bindS db_flush (\<lambda>_. ret r) t
      | (RpcError code msg, t) \<Rightarrow> (Inl (RuntimeError (''('' @ show_int code @ '', '' @ repr_str msg @ '')'')), t)
      | (Raised e, t) \<Rightarrow> (Inl e, t))"

text \<open>
  \<open>forward_task\<close> of alpha's router with a forwarder that changes the peer: the forwarder runs once the
  anchor is found to be still in the store.
\<close>

definition forward_to ::
  "env \<Rightarrow> (string \<Rightarrow> string \<Rightarrow> params \<Rightarrow> ('z two_coordinators_scheme, json) py) \<Rightarrow> trust_anchor \<Rightarrow> params \<Rightarrow> string \<Rightarrow>
   ('z two_coordinators_scheme, json) py" where
  "forward_to E forwarder peer task expiry s =
     (let t = (if anchor_get (alpha s) (peer_coordinator_did peer) = None then s
               else snd (forwarder (peer_endpoint_url peer) ''tasks/post'' (forward_params task expiry []) s))
      in case forward_task E (Some (\<lambda>url m p. fst (forwarder url m p s))) peer task expiry [] (alpha s) of
           (r, a) \<Rightarrow> (r, t\<lparr>alpha := a\<rparr>))"

subsection \<open>Two coordinators\<close>

record draws =
  d_worker :: bytes
  d_principal :: bytes
  d_agent :: bytes
  d_task_id :: string
  d_claim :: string
  d_now_alpha :: rat
  d_now_beta :: rat
  d_as_of :: string

definition did_of :: "env \<Rightarrow> bytes \<Rightarrow> string" where
  "did_of E sk = did_string (ed25519_pub E sk)"

definition demo_capability :: "env \<Rightarrow> draws \<Rightarrow> params" where
  "demo_capability E d =
     [(''schema_version'', JStr ''wcp/0.2''), (''worker_id'', JStr (did_of E (d_worker d))),
      (''principal_id'', JStr (did_of E (d_principal d))), (''class'', JStr ''human''),
      (''required'', JDict
        [(''current_location'', JDict [(''venue_id'', JStr ''london-zone-c''), (''map_id'', JStr ''m1'')]),
         (''available_windows'', JList [JDict [(''rrule'', JStr ''FREQ=DAILY;BYHOUR=8-22''), (''timezone'', JStr ''Europe/London'')]]),
         (''attestation_methods_supported'', JList [JStr ''sensor-witness'', JStr ''owner-sign-off'']),
         (''certifications'', JList []),
         (''policy_windows'', JList [JDict [(''type'', JStr ''geographic''), (''scope'', JStr ''UK'')]]),
         (''attestation_keys'', JList [JDict [(''kty'', JStr ''OKP''), (''crv'', JStr ''Ed25519''),
            (''x'', JStr (urlsafe_b64nopad (ed25519_pub E (d_worker d))))]]),
         (''as_of'', JStr (d_as_of d))]),
      (''class_extension'', JDict [(''skills'', JList [JStr ''transport'', JStr ''delivery''])])]"

definition demo_summary :: params where
  "demo_summary = [(''class'', JStr ''human''), (''venue_id'', JStr ''london-zone-c''),
     (''skills'', JList [JStr ''transport'', JStr ''delivery''])]"

definition demo_task :: "env \<Rightarrow> draws \<Rightarrow> params" where
  "demo_task E d =
     [(''schema_version'', JStr ''wcp/0.2''), (''task_id'', JStr (d_task_id d)), (''posted_by'', JStr (did_of E (d_agent d))),
      (''descriptor_type'', JStr ''transport''),
      (''descriptor_payload'', JDict [(''origin_venue_id'', JStr ''london-zone-a''), (''destination_venue_id'', JStr ''london-zone-c'')]),
      (''constraints'', JDict [(''worker_class_filter'', JDict [(''allowed'', JList [JStr ''human''])])]),
      (''attestation_requirement'', JDict
        [(''modes'', JList [JStr ''sensor-witness'', JStr ''owner-sign-off'']), (''threshold'', JStr ''M-of-N''),
         (''M'', JInt 2), (''N'', JInt 2),
         (''evidence_schema'', JList
           [JDict [(''mode'', JStr ''sensor-witness''), (''kinds'', JList [JStr ''gps_track''])],
            JDict [(''mode'', JStr ''owner-sign-off''), (''kinds'', JList [JStr ''whatsapp_business_signed_link''])]])]),
      (''max_attestation_attempts'', JInt 1), (''accounting_ref'', JStr ''demo-job-001''),
      (''supervision'', JDict [(''default'', JStr ''autonomous'')]), (''x-subcontract-allowed'', JBool False)]"

definition DEMO_EXPIRY :: string where
  "DEMO_EXPIRY = ''2099-12-31T23:59:00Z''"

definition beta_chain_fetcher :: "env \<Rightarrow> db \<Rightarrow> chain_fetcher" where
  "beta_chain_fetcher E s peer_url claim_id = Inr (map (exported_entry E) (claim_entries claim_id (audits s)))"

definition federation_events :: "string set" where
  "federation_events = {''federation_capability_advertised'', ''federation_task_forwarded'', ''federation_audit_chain_imported''}"

text \<open>\<open>main\<close>, section by section; the prints are left out but for the lookups they make.\<close>

definition demo_exchange_anchors :: "env \<Rightarrow> env \<Rightarrow> ieee \<Rightarrow> draws \<Rightarrow> (two_coordinators, trust_anchor) py" where
  "demo_exchange_anchors EA EB F d =
     (let anchor_for_alpha = make_signed_trust_anchor EB F (signer_key EB) (d_now_alpha d) (coord_did EB) ''in-process://beta'' demo_scope 3600;
          anchor_for_beta = make_signed_trust_anchor EA F (signer_key EA) (d_now_beta d) (coord_did EA) ''in-process://alpha'' demo_scope 3600
      in bindS (on_alpha (anchor_add EA anchor_for_alpha)) (\<lambda>_.
         bindS (on_beta (anchor_add EB anchor_for_beta)) (\<lambda>_. ret anchor_for_alpha)))"

definition demo_register_worker :: "env \<Rightarrow> env \<Rightarrow> draws \<Rightarrow> trust_anchor \<Rightarrow> (two_coordinators, unit) py" where
  "demo_register_worker EA EB d anchor =
     bindS (on_beta (on_db (upsert_capabilities EB (did_of EB (d_worker d)) (JDict (demo_capability EB d)) (did_of EB (d_principal d)) 3600))) (\<lambda>_.
     bindS (on_beta commit) (\<lambda>_.
     bindS (on_alpha (on_db (advertise_peer_capability EA anchor (did_of EB (d_worker d)) demo_summary))) (\<lambda>_.
     on_alpha commit)))"

definition demo_forward :: "env \<Rightarrow> env \<Rightarrow> draws \<Rightarrow> (two_coordinators, trust_anchor) py" where
  "demo_forward EA EB d =
     bindS (on_alpha (pick_peer EA ''transport'' (JList [JStr ''human'']) None)) (\<lambda>picked.
     case picked of
       None \<Rightarrow> raise (AssertionError ''no federation peer matched'')
     | Some peer \<Rightarrow>
         bindS (forward_to EA (\<lambda>url m p. on_beta (on_db (in_process EB m p))) peer (demo_task EB d) DEMO_EXPIRY) (\<lambda>result.
         bindS (on_alpha commit) (\<lambda>_.
         bindS (lift (j_get result ''task_id'' JNull)) (\<lambda>_. ret peer))))"

definition demo_complete :: "env \<Rightarrow> draws \<Rightarrow> (two_coordinators, string) py" where
  "demo_complete EB d =
     (let claim_id = ''demo-claim-'' @ d_claim d in
      bindS (on_beta (on_db (audit_append EB ''task_claimed'' (did_of EB (d_worker d))
        (JDict [(''claim_id'', JStr claim_id), (''task_id'', JStr (d_task_id d))]) (Some claim_id) (Some (d_task_id d)) None))) (\<lambda>_.
      bindS (on_beta (on_db (audit_append EB ''task_completed'' (coord_did EB)
        (JDict [(''claim_id'', JStr claim_id), (''verifier_decision'', JStr ''pass'')]) (Some claim_id) (Some (d_task_id d)) None))) (\<lambda>_.
      bindS (on_beta commit) (\<lambda>_. ret claim_id))))"

definition demo_import :: "env \<Rightarrow> env \<Rightarrow> trust_anchor \<Rightarrow> string \<Rightarrow> (two_coordinators, json) py" where
  "demo_import EA EB peer claim_id =
     bindS (gets (\<lambda>s. session (beta s))) (\<lambda>beta_db.
     bindS (on_alpha (on_db (import_peer_chain EA (Some (beta_chain_fetcher EB beta_db)) peer claim_id))) (\<lambda>r.
     bindS (on_alpha commit) (\<lambda>_. ret r)))"

definition federation_demo :: "env \<Rightarrow> env \<Rightarrow> ieee \<Rightarrow> draws \<Rightarrow> (two_coordinators, int) py" where
  "federation_demo EA EB F d =
     bindS (demo_exchange_anchors EA EB F d) (\<lambda>anchor.
     bindS (demo_register_worker EA EB d anchor) (\<lambda>_.
     bindS (demo_forward EA EB d) (\<lambda>peer.
     bindS (demo_complete EB d) (\<lambda>claim_id.
     bindS (demo_import EA EB peer claim_id) (\<lambda>import_result.
     bindS (lift (j_item import_result ''ok'')) (\<lambda>ok.
     bindS (lift (j_item import_result ''entries'')) (\<lambda>_.
     bindS (lift (j_item import_result ''completion_event'')) (\<lambda>_.
     bindS (gets (\<lambda>s. verify_chain EB (session (beta s)) claim_id)) (\<lambda>beta_ok.
     bindS (gets (\<lambda>s. filter (\<lambda>e. a_event_type e \<in> federation_events) (audits (session (alpha s))))) (\<lambda>fed_entries.
     ret (if beta_ok \<and> truthy ok \<and> length fed_entries = 3 then 0 else 1)))))))))))"

subsection \<open>Three coordinators\<close>

record draws_n3 =
  n_beta_worker :: bytes
  n_gamma_worker :: bytes
  n_agent :: bytes
  n_task_ids :: "string \<Rightarrow> string"
  n_now_beta :: rat
  n_now_gamma :: rat
  n_as_of :: "string \<Rightarrow> string"

definition n3_capability :: "env \<Rightarrow> bytes \<Rightarrow> string \<Rightarrow> string \<Rightarrow> string \<Rightarrow> params" where
  "n3_capability E worker_sk venue_id worker_class as_of =
     [(''schema_version'', JStr ''wcp/0.2''), (''worker_id'', JStr (did_of E worker_sk)),
      (''principal_id'', JStr (did_of E worker_sk)), (''class'', JStr worker_class),
      (''required'', JDict
        [(''current_location'', JDict [(''venue_id'', JStr venue_id), (''map_id'', JStr ''m1'')]),
         (''available_windows'', JList [JDict [(''rrule'', JStr ''FREQ=DAILY''), (''timezone'', JStr ''UTC'')]]),
         (''attestation_methods_supported'', JList [JStr ''sensor-witness'', JStr ''owner-sign-off'']),
         (''certifications'', JList []),
         (''policy_windows'', JList [JDict [(''type'', JStr ''geographic''), (''scope'', JStr ''global'')]]),
         (''attestation_keys'', JList [JDict [(''kty'', JStr ''OKP''), (''crv'', JStr ''Ed25519''),
            (''x'', JStr (urlsafe_b64nopad (ed25519_pub E worker_sk)))]]),
         (''as_of'', JStr as_of)]),
      (''class_extension'', JDict [])]"

definition register_worker :: "env \<Rightarrow> bytes \<Rightarrow> string \<Rightarrow> string \<Rightarrow> string \<Rightarrow> (fed, string) py" where
  "register_worker E worker_sk venue_id worker_class as_of =
     (let worker_did = did_of E worker_sk in
      bindS (on_db (upsert_capabilities E worker_did (JDict (n3_capability E worker_sk venue_id worker_class as_of)) worker_did 3600)) (\<lambda>_.
      bindS commit (\<lambda>_. ret worker_did)))"

text \<open>\<open>peer_url.split("//")[-1]\<close>\<close>

fun last_piece :: "string \<Rightarrow> string \<Rightarrow> string" where
  "last_piece piece [] = piece"
| "last_piece piece [x] = piece @ [x]"
| "last_piece piece (x # y # xs) =
     (if x = CHR ''/'' \<and> y = CHR ''/'' then last_piece [] xs else last_piece (piece @ [x]) (y # xs))"

definition n3_forwarder :: "env \<Rightarrow> env \<Rightarrow> string \<Rightarrow> string \<Rightarrow> params \<Rightarrow> (three_coordinators, json) py" where
  "n3_forwarder EB EG peer_url method params =
     (let label = last_piece [] peer_url in
      if label = ''beta'' then on_beta (on_db (in_process EB method params))
      else if label = ''gamma'' then on_gamma (on_db (in_process EG method params))
      else raise (KeyError label))"

definition n3_task :: "env \<Rightarrow> draws_n3 \<Rightarrow> string \<Rightarrow> params" where
  "n3_task E d descriptor_type =
     [(''schema_version'', JStr ''wcp/0.2''), (''task_id'', JStr (n_task_ids d descriptor_type)), (''posted_by'', JStr (did_of E (n_agent d))),
      (''descriptor_type'', JStr descriptor_type), (''descriptor_payload'', JDict []),
      (''constraints'', JDict [(''worker_class_filter'', JDict [(''allowed'', JList [JStr ''human''])])]),
      (''attestation_requirement'', JDict
        [(''modes'', JList [JStr ''sensor-witness'']), (''threshold'', JStr ''any''),
         (''evidence_schema'', JList [JDict [(''mode'', JStr ''sensor-witness''), (''kinds'', JList [JStr ''gps_track''])]])]),
      (''max_attestation_attempts'', JInt 1), (''x-subcontract-allowed'', JBool False)]"

definition descriptor_admission :: "env \<Rightarrow> env \<Rightarrow> (string \<times> string list) list" where
  "descriptor_admission EB EG = dict_set (coord_did EG) [''place_on_shelf''] [(coord_did EB, [''transport''])]"

text \<open>The body of the loop over the descriptor types.\<close>

definition n3_post :: "env \<Rightarrow> env \<Rightarrow> env \<Rightarrow> draws_n3 \<Rightarrow> string \<Rightarrow> (three_coordinators, string) py" where
  "n3_post EA EB EG d d_type =
     bindS (on_alpha (pick_peer EA d_type (JList [JStr ''human'']) (Some (descriptor_admission EB EG)))) (\<lambda>picked.
     case picked of
       None \<Rightarrow> raise (AssertionError (''no peer admits descriptor_type='' @ d_type))
     | Some peer \<Rightarrow>
         bindS (forward_to EA (n3_forwarder EB EG) peer (n3_task EB d d_type) DEMO_EXPIRY) (\<lambda>_.
         bindS (on_alpha commit) (\<lambda>_. ret (peer_coordinator_did peer))))"

text \<open>\<open>alpha_store.get(did)\<close>, whose attributes are then read.\<close>

definition stored_anchor :: "string \<Rightarrow> (three_coordinators, trust_anchor) py" where
  "stored_anchor did = bindS (gets (\<lambda>s. anchor_get (alpha s) did)) (\<lambda>a. lift (of_opt AttributeError a))"

definition n3_verdict :: "db \<Rightarrow> int res" where
  "n3_verdict s =
     (let advertised = filter (\<lambda>e. a_event_type e = ''federation_capability_advertised'') (audits s);
          forwarded = filter (\<lambda>e. a_event_type e = ''federation_task_forwarded'') (audits s)
      in bindE (bindE (mapE (\<lambda>e. j_get (py_or (a_payload_json e) (JDict [])) ''peer_coordinator_did'' JNull) forwarded) (\<lambda>ps. py_set (JList ps)))
           (\<lambda>distinct_peers.
         Inr (if length advertised = 2 \<and> length forwarded = 2 \<and> length distinct_peers = 2 then 0 else 1)))"

definition federation_demo_n3 :: "env \<Rightarrow> env \<Rightarrow> env \<Rightarrow> ieee \<Rightarrow> draws_n3 \<Rightarrow> (three_coordinators, int) py" where
  "federation_demo_n3 EA EB EG F d =
     bindS (on_alpha (anchor_add EA (make_signed_trust_anchor EB F (signer_key EB) (n_now_beta d) (coord_did EB) ''in-process://beta'' demo_scope 3600))) (\<lambda>_.
     bindS (on_alpha (anchor_add EA (make_signed_trust_anchor EG F (signer_key EG) (n_now_gamma d) (coord_did EG) ''in-process://gamma'' demo_scope 3600))) (\<lambda>_.
     bindS (on_beta (register_worker EB (n_beta_worker d) ''zone-b'' ''human'' (n_as_of d ''zone-b''))) (\<lambda>beta_worker_did.
     bindS (on_gamma (register_worker EG (n_gamma_worker d) ''zone-g'' ''human'' (n_as_of d ''zone-g''))) (\<lambda>gamma_worker_did.
     bindS (stored_anchor (coord_did EB)) (\<lambda>b.
     bindS (on_alpha (on_db (advertise_peer_capability EA b beta_worker_did [(''class'', JStr ''human''), (''descriptor_type'', JStr ''transport'')]))) (\<lambda>_.
     bindS (stored_anchor (coord_did EG)) (\<lambda>g.
     bindS (on_alpha (on_db (advertise_peer_capability EA g gamma_worker_did [(''class'', JStr ''human''), (''descriptor_type'', JStr ''place_on_shelf'')]))) (\<lambda>_.
     bindS (on_alpha commit) (\<lambda>_.
     bindS (mapS (n3_post EA EB EG d) [''transport'', ''place_on_shelf'']) (\<lambda>forwarded_to.
     bindS (gets (\<lambda>s. n3_verdict (session (alpha s)))) lift))))))))))"

subsection \<open>Across processes\<close>

text \<open>
  \<open>demo_cross_process.py\<close>: the forwarder and the fetcher of \<open>transport.py\<close> against a running coordinator. \<open>call\<close> and
  \<open>urlopen\<close> stand for the connections. Both exchanges are in a \<open>try\<close>; an exception of the first is
  printed and counts as success.
\<close>

definition cross_task :: "string \<Rightarrow> params" where
  "cross_task task_id =
     [(''schema_version'', JStr ''wcp/0.2''), (''task_id'', JStr task_id), (''posted_by'', JStr (''did:wcp:'' @ replicate 43 (CHR ''A''))),
      (''descriptor_type'', JStr ''transport''), (''descriptor_payload'', JDict []),
      (''constraints'', JDict [(''worker_class_filter'', JDict [(''allowed'', JList [JStr ''human''])])]),
      (''attestation_requirement'', JDict
        [(''modes'', JList [JStr ''sensor-witness'']), (''threshold'', JStr ''M-of-N''), (''M'', JInt 1), (''N'', JInt 1),
         (''evidence_schema'', JList [JDict [(''mode'', JStr ''sensor-witness''), (''kinds'', JList [JStr ''gps_track''])]])]),
      (''max_attestation_attempts'', JInt 1), (''x-subcontract-allowed'', JBool False)]"

definition try_S :: "('s, 'a) py \<Rightarrow> ('s, bool) py" where
  "try_S m s = (case m s of (r, t) \<Rightarrow> (Inr (\<not> isl r), t))"

definition cross_process_demo ::
  "env \<Rightarrow> ieee \<Rightarrow> (string \<Rightarrow> bool) \<Rightarrow> (string \<Rightarrow> json \<Rightarrow> json res) \<Rightarrow> (string \<Rightarrow> json res) \<Rightarrow> bytes \<Rightarrow> rat \<Rightarrow> string \<Rightarrow> string \<Rightarrow> (fed, int) py" where
  "cross_process_demo E F bracketed call urlopen beta_sk now task_id beta_ws =
     (let anchor = make_signed_trust_anchor E F beta_sk now ''did:wcp:beta-cross'' beta_ws demo_scope 3600 in
      bindS (anchor_add E anchor) (\<lambda>_.
      bindS (try_S (forward_task E (Some (ws_forwarder E call)) anchor (cross_task task_id) DEMO_EXPIRY [])) (\<lambda>_.
      bindS commit (\<lambda>_.
      bindS (try_S (
        bindS (on_db (import_peer_chain E (Some (http_chain_fetcher bracketed urlopen)) anchor task_id)) (\<lambda>import_result.
        bindS commit (\<lambda>_.
        bindS (lift (j_item import_result ''ok'')) (\<lambda>_. lift (j_item import_result ''entries'')))))) (\<lambda>fetch_ok.
      ret (if fetch_ok then 0 else 1))))))"

end
