(* ===== verification/Federation_Demo_Interop.thy ===== *)
theory Federation_Demo_Interop
  imports Federation_Demo
begin

text \<open>
  What the three federation demonstrations return. Alpha's steps are followed through the
  operations of the federation modules, with what each keeps of its store, its log and its
  clock; of a peer it is enough that it logs nothing for the claim the demo makes up.
\<close>

subsection \<open>What the demonstrations rest on\<close>

text \<open>Coordinators of one process differ in their key, their readings of the clock and their UUIDs.\<close>

definition same_process :: "env \<Rightarrow> env \<Rightarrow> bool" where
  "same_process E E' \<longleftrightarrow> sha256_hex E' = sha256_hex E \<and> ed25519_sign E' = ed25519_sign E \<and> ed25519_pub E' = ed25519_pub E \<and>
     ed25519_verify E' = ed25519_verify E \<and> fromisoformat E' = fromisoformat E \<and> isoformat E' = isoformat E \<and>
     float_repr E' = float_repr E \<and> float_fixed1 E' = float_fixed1 E"

definition log_fresh :: "env \<Rightarrow> db \<Rightarrow> bool" where
  "log_fresh E s \<longleftrightarrow> (\<forall>n \<ge> n_uuid s. uuid4 E n \<notin> a_entry_id ` set (audits s))"

definition storable :: "db \<Rightarrow> bool" where
  "storable s \<longleftrightarrow> list_all attestation_storable (attestations s)"

lemma append_fresh:
  assumes "log_fresh E s" "inj (uuid4 E)"
  shows "\<exists>r t. audit_append E et ac pl ci ti None s = (Inr r, t) \<and>
    t = s\<lparr>n_now := Suc (n_now s), n_uuid := Suc (n_uuid s), audits := audits s @ [new_entry E et ac pl ci ti s]\<rparr> \<and> log_fresh E t"
  using assms by (auto simp: audit_append_run Let_def log_fresh_def inj_eq)

lemma commit_storable: "storable (session x) \<Longrightarrow> commit x = (Inr (), x)"
  by (simp add: commit_def on_db_run db_flush_def storable_def)

definition now_s :: "env \<Rightarrow> nat \<Rightarrow> rat" where
  "now_s E n = of_int (clock E n) / 1000000"

lemma made_anchor_verifies:
  assumes "same_process E E'" "sig_correct E" "length (ed25519_pub E sk) = 32"
  shows "verify_signature E (make_signed_trust_anchor E' F sk now did url sc life)"
proof -
  from assms show ?thesis
    by (intro self_signed_verifies)
      (simp_all add: same_process_def make_signed_trust_anchor_def Let_def signed_body_def signed_json_def)
qed

subsection \<open>Alpha's side\<close>

text \<open>What alpha's steps keep: the store, fresh ids, and how often the clock was read.\<close>

definition alpha_ok :: "env \<Rightarrow> (string \<times> trust_anchor) list \<Rightarrow> nat \<Rightarrow> wcp_audit list \<Rightarrow> fed \<Rightarrow> bool" where
  "alpha_ok E store n lg x \<longleftrightarrow> by_did x = store \<and> n_now (session x) = n \<and> log_fresh E (session x) \<and> storable (session x) \<and>
     audits (session x) = lg"

lemma alpha_append:
  assumes "alpha_ok E store n lg x" "inj (uuid4 E)"
  shows "\<exists>r y e. on_db (audit_append E et ac pl ci ti None) x = (Inr r, y) \<and> alpha_ok E store (Suc n) (lg @ [e]) y \<and>
    a_event_type e = et \<and> a_payload_json e = pl \<and> a_actor_did e = ac \<and> a_task_id e = ti \<and> a_claim_id e = ci"
proof -
  from assms(1) have x: "by_did x = store" "n_now (session x) = n" "log_fresh E (session x)" "storable (session x)"
      "audits (session x) = lg" by (simp_all add: alpha_ok_def)
  from append_fresh [OF x(3) assms(2), of et ac pl ci ti] obtain r t where
    "audit_append E et ac pl ci ti None (session x) = (Inr r, t)" "log_fresh E t"
    "t = (session x)\<lparr>n_now := Suc n, n_uuid := Suc (n_uuid (session x)), audits := lg @ [new_entry E et ac pl ci ti (session x)]\<rparr>"
    using x by auto
  with x show ?thesis
    by (intro exI [of _ r] exI [of _ "x\<lparr>session := t\<rparr>"] exI [of _ "new_entry E et ac pl ci ti (session x)"])
      (simp add: on_db_run alpha_ok_def storable_def)
qed

lemma alpha_allows:
  assumes "alpha_ok E store n lg x" "c \<in> anchor_scope a" "now_s E n < expires_at a"
  shows "\<exists>y. on_db (allows E c a) x = (Inr True, y) \<and> alpha_ok E store (Suc n) lg y"
  using assms by (auto simp: on_db_run allows_def time_now_def bindS_def is_expired_def now_s_def alpha_ok_def log_fresh_def storable_def)

lemma on_db_bindS: "on_db (bindS m f) = bindS (on_db m) (\<lambda>v. on_db (f v))"
  by (rule ext) (simp add: on_db_def bindS_def split: prod.splits sum.splits)

lemma on_db_pure: "on_db (ret v) = ret v" "on_db (lift r) = lift r"
  by (rule ext, simp add: on_db_def ret_def lift_def)+

lemma alpha_add:
  assumes "alpha_ok E store n lg x" "verify_signature E a" "now_s E n < expires_at a"
  shows "\<exists>y. anchor_add E a x = (Inr (), y) \<and> alpha_ok E (dict_set (peer_coordinator_did a) a store) (Suc n) lg y"
  using assms by (auto simp: anchor_add_run Let_def now_s_def alpha_ok_def log_fresh_def storable_def)

lemma alpha_advertise:
  assumes "alpha_ok E store n lg x" "inj (uuid4 E)" "''capability_discovery'' \<in> anchor_scope a" "now_s E n < expires_at a"
  shows "\<exists>y e. on_db (advertise_peer_capability E a w summary) x = (Inr (), y) \<and> alpha_ok E store (Suc (Suc n)) (lg @ [e]) y \<and>
    a_event_type e = ''federation_capability_advertised''"
proof -
  from alpha_allows [OF assms(1,3,4)] obtain y where y: "on_db (allows E ''capability_discovery'' a) x = (Inr True, y)"
      "alpha_ok E store (Suc n) lg y" by blast
  with alpha_append [OF y(2) assms(2), of "''federation_capability_advertised''" "peer_coordinator_did a"
      "JDict [(''peer_coordinator_did'', JStr (peer_coordinator_did a)), (''peer_worker_id'', JStr w), (''capability_summary'', JDict summary)]"
      None None]
  show ?thesis by (auto simp: advertise_peer_capability_def on_db_bindS bindS_def on_db_pure)
qed

lemma alpha_filter:
  assumes "alpha_ok E store n lg x" "\<forall>a \<in> set as. c \<in> anchor_scope a \<and> (\<forall>m < n + length as. now_s E m < expires_at a)"
  shows "\<exists>y. filterS (\<lambda>a. on_db (allows E c a)) as x = (Inr as, y) \<and> alpha_ok E store (n + length as) lg y"
  using assms
proof (induction as arbitrary: n x)
  case (Cons a as)
  then obtain y where y: "on_db (allows E c a) x = (Inr True, y)" "alpha_ok E store (Suc n) lg y"
    using alpha_allows [of E store n lg x c a] by auto
  from Cons.IH [OF y(2)] Cons.prems(2) obtain z where
    "filterS (\<lambda>a. on_db (allows E c a)) as y = (Inr as, z)" "alpha_ok E store (Suc n + length as) lg z" by auto
  with y(1) show ?case by (simp add: bindS_def)
qed simp

lemma alpha_pick:
  assumes "alpha_ok E store n lg x"
    and "\<forall>(k, a) \<in> set store. ''capability_discovery'' \<in> anchor_scope a \<and> (\<forall>m < n + length store. now_s E m < expires_at a)"
  shows "\<exists>y. pick_peer E dt wcf al x = (Inr (find (peer_accepts al dt) (map snd store)), y) \<and> alpha_ok E store (n + length store) lg y"
proof -
  from assms(1) have "anchor_all x = map snd store" by (simp add: alpha_ok_def anchor_all_def)
  with alpha_filter [OF assms(1), of "map snd store" "''capability_discovery''"] assms(2)
  show ?thesis by (fastforce simp: pick_peer_def anchors_for_class_def bindS_def)
qed

lemma alpha_forward:
  assumes "alpha_ok E store n lg x" "inj (uuid4 E)" "map_of store (peer_coordinator_did peer) = Some b"
    and "map_of task ''task_id'' = Some (JStr tid)"
  shows "\<exists>y e. forward_task E (Some send) peer task expiry [] x =
      (Inr (fst (forward_result (send (peer_endpoint_url peer) ''tasks/post'' (forward_params task expiry [])))), y) \<and>
    alpha_ok E store (Suc n) (lg @ [e]) y \<and> a_event_type e = ''federation_task_forwarded'' \<and>
    (\<exists>p. a_payload_json e = JDict p \<and> map_of p ''peer_coordinator_did'' = Some (JStr (peer_coordinator_did peer)) \<and>
      map_of p ''task_id'' = Some (JStr tid) \<and> map_of p ''status'' = Some (JStr (snd (forward_result (send (peer_endpoint_url peer) ''tasks/post'' (forward_params task expiry []))))))"
proof -
  let ?answer = "send (peer_endpoint_url peer) ''tasks/post'' (forward_params task expiry [])"
  obtain r st where fr: "forward_result ?answer = (r, st)" by fastforce
  from assms(1,3) have "anchor_get x (peer_coordinator_did peer) = Some b" by (simp add: alpha_ok_def anchor_get_def)
  moreover from alpha_append [OF assms(1,2), of "''federation_task_forwarded''" "peer_coordinator_did peer" "JDict [(''peer_coordinator_did'', JStr (peer_coordinator_did peer)),
      (''peer_endpoint_url'', JStr (peer_endpoint_url peer)), (''task_id'', JStr tid), (''status'', JStr st), (''peer_response'', r)]" None "Some tid"]
  obtain a y e where e: "on_db (audit_append E ''federation_task_forwarded'' (peer_coordinator_did peer)
        (JDict [(''peer_coordinator_did'', JStr (peer_coordinator_did peer)), (''peer_endpoint_url'', JStr (peer_endpoint_url peer)),
          (''task_id'', JStr tid), (''status'', JStr st), (''peer_response'', r)]) None (Some tid) None) x = (Inr a, y)"
      "alpha_ok E store (Suc n) (lg @ [e]) y" "a_event_type e = ''federation_task_forwarded''"
      "a_payload_json e = JDict [(''peer_coordinator_did'', JStr (peer_coordinator_did peer)), (''peer_endpoint_url'', JStr (peer_endpoint_url peer)),
          (''task_id'', JStr tid), (''status'', JStr st), (''peer_response'', r)]"
    by blast
  ultimately show ?thesis using fr assms(4)
    by (intro exI [of _ y] exI [of _ e]) (simp add: forward_task_def bindS_def)
qed

lemma alpha_import:
  assumes "alpha_ok E store n lg x" "inj (uuid4 E)" "''audit_chain_export'' \<in> anchor_scope peer" "now_s E n < expires_at peer"
    and "fetch (peer_endpoint_url peer) cid = Inr es" "verify_chain_segment E es = Inr ok"
    and "(if es \<noteq> [] then j_item (last es) ''this_hash'' else Inr JNull) = Inr th" "first_completion (rev es) = Inr ce"
  shows "\<exists>y e. on_db (import_peer_chain E (Some fetch) peer cid) x =
      (Inr (JDict [(''ok'', JBool ok), (''entries'', JInt (int (length es))), (''terminal_hash'', th), (''completion_event'', ce)]), y) \<and>
    alpha_ok E store (Suc (Suc n)) (lg @ [e]) y \<and> a_event_type e = ''federation_audit_chain_imported'' \<and>
    a_payload_json e = JDict [(''peer_coordinator_did'', JStr (peer_coordinator_did peer)), (''claim_id'', JStr cid), (''entries'', JInt (int (length es))),
      (''terminal_hash'', th), (''completion_event'', ce), (''ok'', JBool ok)]"
proof -
  from alpha_allows [OF assms(1,3,4)] obtain y where y: "on_db (allows E ''audit_chain_export'' peer) x = (Inr True, y)"
      "alpha_ok E store (Suc n) lg y" by blast
  with alpha_append [OF y(2) assms(2), of "''federation_audit_chain_imported''" "peer_coordinator_did peer"
      "JDict [(''peer_coordinator_did'', JStr (peer_coordinator_did peer)), (''claim_id'', JStr cid), (''entries'', JInt (int (length es))),
        (''terminal_hash'', th), (''completion_event'', ce), (''ok'', JBool ok)]" "Some cid" None] assms(5-8)
  show ?thesis by (auto simp: import_peer_chain_def on_db_bindS bindS_def on_db_pure)
qed

subsection \<open>Beta's side\<close>

text \<open>What registering a worker and dispatching a tasks/post keep of a peer: nothing is logged for the claim.\<close>

definition beta_ok :: "env \<Rightarrow> string \<Rightarrow> db \<Rightarrow> bool" where
  "beta_ok E cid s \<longleftrightarrow> log_fresh E s \<and> storable s \<and> (\<forall>e \<in> set (audits s). a_claim_id e \<noteq> Some cid)"

lemma beta_ok_cong: "beta_ok E cid s \<Longrightarrow> audits t = audits s \<Longrightarrow> n_uuid s \<le> n_uuid t \<Longrightarrow> attestations t = attestations s \<Longrightarrow> beta_ok E cid t"
  by (auto simp: beta_ok_def log_fresh_def storable_def)

lemma keeps_beta_append:
  assumes "inj (uuid4 E)" "ci \<noteq> Some cid"
  shows "keeps (beta_ok E cid) (audit_append E et ac pl ci ti None)"
  using assms by (auto simp: keeps_def audit_append_run Let_def beta_ok_def log_fresh_def storable_def inj_eq)

lemma keeps_beta_basic:
  "keeps (beta_ok E cid) (utcnow E)" "keeps (beta_ok E cid) (uuid_str E)" "keeps (beta_ok E cid) (add_task t)"
  "keeps (beta_ok E cid) (add_worker w)" "keeps (beta_ok E cid) (set_worker k f)" "keeps (beta_ok E cid) db_flush"
  by (auto intro!: keepsI elim!: beta_ok_cong simp: access_defs row_add_def)

lemma keeps_beta_post: "inj (uuid4 E) \<Longrightarrow> keeps (beta_ok E cid) (task_post E reg task expiry info)"
  unfolding task_post_def Let_def
  by (intro keeps_bindS keeps_beta_basic keeps_beta_append keeps_lift keeps_gets keeps_ret) (auto intro!: keeps_bindS keeps_beta_basic)

lemma keeps_beta_upsert: "keeps (beta_ok E cid) (upsert_capabilities E wid caps pid ttl)"
  unfolding upsert_capabilities_def
  by (intro keeps_bindS keeps_lift keeps_gets) (auto split: option.splits intro!: keeps_bindS keeps_beta_basic)

lemma keeps_beta_in_process: "inj (uuid4 E) \<Longrightarrow> beta_ok E cid s \<Longrightarrow> beta_ok E cid (snd (in_process E ''tasks/post'' p s))"
proof -
  assume "inj (uuid4 E)" "beta_ok E cid s"
  then have "beta_ok E cid (snd (rpc_tasks_post E DEFAULT_REGISTRY q s))" for q
    using keepsD [of "beta_ok E cid" "rpc_tasks_post E DEFAULT_REGISTRY q" s] keeps_beta_post
    by (simp add: rpc_tasks_post_def keeps_bindS keeps_lift)
  then have "beta_ok E cid t" if "rpc_tasks_post E DEFAULT_REGISTRY q s = (r, t)" for q r t
    using that by (metis snd_conv)
  with \<open>beta_ok E cid s\<close> show ?thesis
    by (auto simp: in_process_def dispatch_def methods_def Let_def bindS_def db_flush_def
        split: prod.splits sum.splits json.splits rpc_outcome.splits)
qed

lemma segment_same: "same_process E E' \<Longrightarrow> segment_from E' p es = segment_from E p es"
  by (induction es arbitrary: p) (auto simp: same_process_def bindE_def split: sum.splits)

text \<open>The two entries written for a claim that has none are its whole chain, here and in the peer's copy.\<close>

lemma claim_completed:
  assumes "beta_ok E cid s" "cid \<noteq> []" "inj (uuid4 E)" "strict_mono (clock E)" "sig_correct E" "hash_nonempty E"
    and "e1 = new_entry E et1 ac1 (JDict p1) (Some cid) ti s"
    and "s1 = s\<lparr>n_now := Suc (n_now s), n_uuid := Suc (n_uuid s), audits := audits s @ [e1]\<rparr>"
    and "e2 = new_entry E et2 ac2 (JDict p2) (Some cid) ti s1" "audits t = audits s1 @ [e2]"
  shows "claim_entries cid (audits t) = [e1, e2] \<and> verify_chain E t cid \<and>
    verify_chain_segment E (map (exported_entry E) [e1, e2]) = Inr True"
proof -
  let ?f = "filter (\<lambda>e. a_claim_id e = Some cid)"
  from assms(1) have none: "?f (audits s) = []" by (auto simp: beta_ok_def filter_empty_conv)
  have lt: "clock E (n_now s) < clock E (Suc (n_now s))" using assms(4) by (simp add: strict_mono_less)
  have "claim_entries cid (audits s) = []" "claim_entries cid (audits s1) = [e1]"
    using none assms(7,8) by (simp_all add: claim_entries_def)
  then have prev: "a_prev_hash e1 = None" "a_prev_hash e2 = Some (a_this_hash e1)"
    using assms(2,7,9) by (simp_all add: new_entry_def Let_def or_empty_def latest_hash_for_claim_def)
  have two: "claim_entries cid (audits t) = [e1, e2]"
    using none lt assms(7-10) by (simp add: claim_entries_def)
  have ok: "entry_ok E e1" "entry_ok E e2" using assms(5,7,9) by (simp_all add: new_entry_ok)
  then have "entry_bound E e1" "entry_bound E e2" using assms(7,9) by (simp_all add: entry_ok_def entry_bound_def)
  with prev have "chain_from a_prev_hash a_this_hash (entry_bound E) None [e1, e2]" by simp
  from exported_segment [OF assms(6) _ this] have "verify_chain_segment E (map (exported_entry E) [e1, e2]) = Inr True"
    by (simp add: verify_segment_chain)
  moreover have "verify_chain E t cid" using two ok prev by (simp add: verify_chain_def)
  ultimately show ?thesis using two by simp
qed

subsection \<open>Two coordinators: the outcome\<close>

text \<open>The conditions of a run from the databases \<open>a\<close> and \<open>b\<close>.\<close>

definition demo_conditions :: "env \<Rightarrow> env \<Rightarrow> ieee \<Rightarrow> draws \<Rightarrow> db \<Rightarrow> db \<Rightarrow> bool" where
  "demo_conditions EA EB F d a b \<longleftrightarrow>
     same_process EA EB \<and> sig_correct EA \<and> hash_nonempty EA \<and> inj (uuid4 EA) \<and> inj (uuid4 EB) \<and>
     strict_mono (clock EA) \<and> strict_mono (clock EB) \<and>
     length (ed25519_pub EA (signer_key EA)) = 32 \<and> length (ed25519_pub EA (signer_key EB)) = 32 \<and>
     length (ed25519_pub EA (d_worker d)) = 32 \<and>
     log_fresh EA a \<and> storable a \<and> beta_ok EB (''demo-claim-'' @ d_claim d) b \<and>
     now_s EA (n_now a + 5) < rnd F (d_now_alpha d + 3600) \<and> now_s EB (n_now b) < rnd F (d_now_beta d + 3600)"

lemma now_s_mono: "strict_mono (clock E) \<Longrightarrow> m \<le> n \<Longrightarrow> now_s E m \<le> now_s E n"
  by (simp add: now_s_def strict_mono_less_eq divide_right_mono)

lemma made_anchor_simps [simp]:
  "peer_coordinator_did (make_signed_trust_anchor E F sk now did url sc life) = did"
  "peer_endpoint_url (make_signed_trust_anchor E F sk now did url sc life) = url"
  "anchor_scope (make_signed_trust_anchor E F sk now did url sc life) = sc"
  "expires_at (make_signed_trust_anchor E F sk now did url sc life) = rnd F (now + of_int life)"
  by (simp_all add: make_signed_trust_anchor_def Let_def)

lemma demo_scopes [simp]: "''capability_discovery'' \<in> demo_scope" "''audit_chain_export'' \<in> demo_scope"
  by (simp_all add: demo_scope_def)

lemma on_side_run:
  "m (alpha s) = (r, a) \<Longrightarrow> on_alpha m s = (r, s\<lparr>alpha := a\<rparr>)"
  "m (beta s) = (r, b) \<Longrightarrow> on_beta m s = (r, s\<lparr>beta := b\<rparr>)"
  by (simp_all add: on_alpha_def on_beta_def)

lemma beta_ok_add:
  assumes "beta_ok E cid (session x)" "verify_signature E a" "now_s E (n_now (session x)) < expires_at a"
  shows "\<exists>y. anchor_add E a x = (Inr (), y) \<and> beta_ok E cid (session y)"
  using assms by (auto simp: anchor_add_run Let_def now_s_def elim!: beta_ok_cong)

lemma beta_registers:
  assumes "beta_ok E cid (session x)" "length (ed25519_pub E sk) = 32" "map_of caps ''schema_version'' = Some (JStr ''wcp/0.2'')"
    and "map_of caps ''class'' = Some (JStr ''human'')"
  shows "\<exists>r y. on_db (upsert_capabilities E (did_of E sk) (JDict caps) pid ttl) x = (Inr r, y) \<and> beta_ok E cid (session y)"
proof -
  from upsert_succeeds [OF did_resolve_from_pubkey [OF assms(2)] assms(3), of HUMAN E pid ttl "session x"] assms(4)
  obtain r t where t: "upsert_capabilities E (did_of E sk) (JDict caps) pid ttl (session x) = (Inr r, t)"
    by (auto simp: did_of_def)
  with keepsD [OF keeps_beta_upsert assms(1), of "did_of E sk" "JDict caps" pid ttl] show ?thesis by (simp add: on_db_run)
qed

lemma in_process_dict: "in_process E ''tasks/post'' p s = (Inr r, t) \<Longrightarrow> \<exists>d. r = JDict d"
proof -
  have "\<exists>d. r = JDict d" if "rpc_tasks_post E DEFAULT_REGISTRY q s = (Inr r, u)" for q u
    using that by (auto simp: rpc_tasks_post_def task_post_def Let_def split: if_splits)
  moreover assume "in_process E ''tasks/post'' p s = (Inr r, t)"
  moreover have "map_exception e \<noteq> Result v" for e v
    by (cases e) (auto simp: map_value_error_def split: option.splits)
  ultimately show ?thesis
    by (auto simp: in_process_def dispatch_def methods_def Let_def bindS_def db_flush_def
        split: prod.splits sum.splits json.splits rpc_outcome.splits if_splits)
qed

abbreviation demo_anchor :: "env \<Rightarrow> ieee \<Rightarrow> draws \<Rightarrow> trust_anchor" where
  "demo_anchor EB F d \<equiv>
     make_signed_trust_anchor EB F (signer_key EB) (d_now_alpha d) (coord_did EB) ''in-process://beta'' demo_scope 3600"

abbreviation demo_store :: "env \<Rightarrow> ieee \<Rightarrow> draws \<Rightarrow> (string \<times> trust_anchor) list" where
  "demo_store EB F d \<equiv> [(coord_did EB, demo_anchor EB F d)]"

abbreviation demo_claim :: "draws \<Rightarrow> string" where
  "demo_claim d \<equiv> ''demo-claim-'' @ d_claim d"

abbreviation demo_call :: "env \<Rightarrow> draws \<Rightarrow> params" where
  "demo_call EB d \<equiv> [(''task'', JDict (demo_task EB d)), (''expiry'', JStr DEMO_EXPIRY)]"

lemma demo_unexpired:
  assumes "demo_conditions EA EB F d a b" "k \<le> n_now a + 5"
  shows "now_s EA k < expires_at (demo_anchor EB F d)"
  using assms now_s_mono [of EA k "n_now a + 5"] by (simp add: demo_conditions_def)

lemma demo_exchanged:
  assumes c: "demo_conditions EA EB F d a b"
    and s: "s = \<lparr>alpha = build_coordinator False a, beta = build_coordinator False b\<rparr>"
  shows "\<exists>x y. demo_exchange_anchors EA EB F d s = (Inr (demo_anchor EB F d), \<lparr>alpha = x, beta = y\<rparr>) \<and>
    alpha_ok EA (demo_store EB F d) (Suc (n_now a)) (audits a) x \<and> beta_ok EB (demo_claim d) (session y) \<and>
    workers (session y) = workers b \<and> tasks (session y) = tasks b \<and> n_now b \<le> n_now (session y)"
proof -
  let ?A = "make_signed_trust_anchor EA F (signer_key EA) (d_now_beta d) (coord_did EA) ''in-process://alpha'' demo_scope 3600"
  from c have same: "same_process EA EB" "same_process EB EA" and pub: "ed25519_pub EB = ed25519_pub EA"
      and sig: "sig_correct EA" "sig_correct EB"
    by (auto simp: demo_conditions_def same_process_def sig_correct_def)
  from c have v: "verify_signature EA (demo_anchor EB F d)"
    by (intro made_anchor_verifies [OF same(1) sig(1)]) (simp add: demo_conditions_def)
  from c have w: "verify_signature EB ?A"
    by (intro made_anchor_verifies [OF same(2) sig(2)]) (simp add: demo_conditions_def pub)
  have "alpha_ok EA [] (n_now a) (audits a) (alpha s)"
    using c s by (simp add: alpha_ok_def build_coordinator_def demo_conditions_def)
  from alpha_add [OF this v] demo_unexpired [OF c, of "n_now a"] obtain x where
    x: "anchor_add EA (demo_anchor EB F d) (alpha s) = (Inr (), x)" "alpha_ok EA (demo_store EB F d) (Suc (n_now a)) (audits a) x"
    by auto
  from c have y: "beta_ok EB (demo_claim d) (session (beta s))" "now_s EB (n_now (session (beta s))) < expires_at ?A"
      "session (beta s) = b"
    using s by (simp_all add: build_coordinator_def demo_conditions_def)
  from beta_ok_add [OF y(1) w y(2)] w y(2,3) obtain y1 where
    "anchor_add EB ?A (beta s) = (Inr (), y1)" "beta_ok EB (demo_claim d) (session y1)" "workers (session y1) = workers b"
      "tasks (session y1) = tasks b" "n_now b \<le> n_now (session y1)"
    by (auto simp: anchor_add_run Let_def now_s_def)
  with x s show ?thesis
    by (intro exI [of _ x] exI [of _ y1]) (simp add: demo_exchange_anchors_def Let_def bindS_def on_side_run)
qed

lemma demo_capability_fields:
  "map_of (demo_capability E d) ''schema_version'' = Some (JStr ''wcp/0.2'')" "map_of (demo_capability E d) ''class'' = Some (JStr ''human'')"
  by (simp_all add: demo_capability_def)

lemma demo_registered:
  assumes c: "demo_conditions EA EB F d a b" and k: "k \<le> n_now a + 5"
    and x: "alpha_ok EA (demo_store EB F d) k lg x" and y: "beta_ok EB (demo_claim d) (session y)"
  shows "\<exists>x' r t e. demo_register_worker EA EB d (demo_anchor EB F d) \<lparr>alpha = x, beta = y\<rparr> = (Inr (), \<lparr>alpha = x', beta = y\<lparr>session := t\<rparr>\<rparr>) \<and>
    alpha_ok EA (demo_store EB F d) (Suc (Suc k)) (lg @ [e]) x' \<and> a_event_type e = ''federation_capability_advertised'' \<and>
    upsert_capabilities EB (did_of EB (d_worker d)) (JDict (demo_capability EB d)) (did_of EB (d_principal d)) 3600 (session y) = (Inr r, t) \<and>
    beta_ok EB (demo_claim d) t"
proof -
  from c have "length (ed25519_pub EB (d_worker d)) = 32" by (simp add: demo_conditions_def same_process_def)
  then obtain r y' where y': "on_db (upsert_capabilities EB (did_of EB (d_worker d)) (JDict (demo_capability EB d)) (did_of EB (d_principal d)) 3600) y = (Inr r, y')"
      "beta_ok EB (demo_claim d) (session y')"
    using beta_registers [OF y _ demo_capability_fields] by blast
  then obtain t where t: "upsert_capabilities EB (did_of EB (d_worker d)) (JDict (demo_capability EB d)) (did_of EB (d_principal d)) 3600 (session y) = (Inr r, t)"
      "y' = y\<lparr>session := t\<rparr>"
    by (metis on_db_run fst_conv snd_conv prod.exhaust_sel)
  from c have "inj (uuid4 EA)" by (simp add: demo_conditions_def)
  from alpha_advertise [OF x this _ demo_unexpired [OF c k], of "did_of EB (d_worker d)" demo_summary] obtain x' e where
    x': "on_db (advertise_peer_capability EA (demo_anchor EB F d) (did_of EB (d_worker d)) demo_summary) x = (Inr (), x')"
      "alpha_ok EA (demo_store EB F d) (Suc (Suc k)) (lg @ [e]) x'" "a_event_type e = ''federation_capability_advertised''"
    by auto
  have "commit x' = (Inr (), x')" "commit y' = (Inr (), y')"
    using x'(2) y'(2) by (auto intro!: commit_storable simp: alpha_ok_def beta_ok_def)
  with x' y' t show ?thesis
    by (intro exI [of _ x'] exI [of _ r] exI [of _ t] exI [of _ e]) (simp add: demo_register_worker_def bindS_def on_side_run)
qed

lemma demo_task_id: "map_of (demo_task E d) ''task_id'' = Some (JStr (d_task_id d))"
  by (simp add: demo_task_def)

lemma demo_forwarded:
  assumes c: "demo_conditions EA EB F d a b" and k: "k \<le> n_now a + 5"
    and x: "alpha_ok EA (demo_store EB F d) k lg x" and y: "beta_ok EB (demo_claim d) (session y)"
    and r: "in_process EB ''tasks/post'' (demo_call EB d) (session y) = (r, t)"
  shows "\<exists>x' e p. demo_forward EA EB d \<lparr>alpha = x, beta = y\<rparr> = (Inr (demo_anchor EB F d), \<lparr>alpha = x', beta = y\<lparr>session := t\<rparr>\<rparr>) \<and>
    alpha_ok EA (demo_store EB F d) (Suc (Suc k)) (lg @ [e]) x' \<and> a_event_type e = ''federation_task_forwarded'' \<and>
    a_payload_json e = JDict p \<and> map_of p ''status'' = Some (JStr (snd (forward_result r)))"
proof -
  define fwd :: "string \<Rightarrow> string \<Rightarrow> params \<Rightarrow> (two_coordinators, json) py" where "fwd = (\<lambda>url m p. on_beta (on_db (in_process EB m p)))"
  have call: "fwd url ''tasks/post'' (demo_call EB d) \<lparr>alpha = z, beta = y\<rparr> = (r, \<lparr>alpha = z, beta = y\<lparr>session := t\<rparr>\<rparr>)" for url z
    using r by (simp add: fwd_def on_beta_def on_db_run)
  have params: "forward_params (demo_task EB d) DEMO_EXPIRY [] = demo_call EB d" by (simp add: forward_params_def)
  have "now_s EA m < expires_at (demo_anchor EB F d)" if "m < k + 1" for m
    using demo_unexpired [OF c, of m] that k by simp
  with alpha_pick [OF x, of "''transport''" "JList [JStr ''human'']" None] obtain x1 where
    x1: "pick_peer EA ''transport'' (JList [JStr ''human'']) None x = (Inr (Some (demo_anchor EB F d)), x1)"
      "alpha_ok EA (demo_store EB F d) (Suc k) lg x1"
    by (auto simp: peer_accepts_def)
  from c have "inj (uuid4 EA)" by (simp add: demo_conditions_def)
  from alpha_forward [OF x1(2) this _ demo_task_id [of EB d], of "demo_anchor EB F d" "demo_anchor EB F d"
      "\<lambda>url m p. fst (fwd url m p \<lparr>alpha = x1, beta = y\<rparr>)" DEMO_EXPIRY]
  obtain x2 e p where x2: "forward_task EA (Some (\<lambda>url m p. fst (fwd url m p \<lparr>alpha = x1, beta = y\<rparr>))) (demo_anchor EB F d) (demo_task EB d) DEMO_EXPIRY [] x1 =
      (Inr (fst (forward_result r)), x2)"
      "alpha_ok EA (demo_store EB F d) (Suc (Suc k)) (lg @ [e]) x2" "a_event_type e = ''federation_task_forwarded''"
      "a_payload_json e = JDict p" "map_of p ''status'' = Some (JStr (snd (forward_result r)))"
    unfolding params call by auto
  have found: "anchor_get x1 (coord_did EB) \<noteq> None" using x1(2) by (simp add: alpha_ok_def anchor_get_def)
  obtain v where v: "j_get (fst (forward_result r)) ''task_id'' JNull = Inr v"
    using in_process_dict [of EB "demo_call EB d" "session y"] r by (cases r) (auto simp: forward_result_def)
  have "commit x2 = (Inr (), x2)" using x2(2) by (auto intro!: commit_storable simp: alpha_ok_def)
  moreover from x2(1) found have "forward_to EA fwd (demo_anchor EB F d) (demo_task EB d) DEMO_EXPIRY \<lparr>alpha = x1, beta = y\<rparr> =
      (Inr (fst (forward_result r)), \<lparr>alpha = x2, beta = y\<lparr>session := t\<rparr>\<rparr>)"
    by (auto simp: forward_to_def params call)
  ultimately show ?thesis using x1(1) x2 v
    unfolding demo_forward_def fwd_def [symmetric]
    by (intro exI [of _ x2] exI [of _ e] exI [of _ p]) (simp add: bindS_def on_side_run)
qed

text \<open>What the claim's chain at beta tells: the worker claimed the task, and beta called it completed.\<close>

definition demo_story :: "env \<Rightarrow> draws \<Rightarrow> (string \<times> string \<times> string option) list" where
  "demo_story EB d =
     [(''task_claimed'', did_of EB (d_worker d), Some (d_task_id d)), (''task_completed'', coord_did EB, Some (d_task_id d))]"

lemma demo_completed:
  assumes c: "demo_conditions EA EB F d a b" and y: "beta_ok EB (demo_claim d) (session y)"
  shows "\<exists>t e1 e2. demo_complete EB d \<lparr>alpha = x, beta = y\<rparr> = (Inr (demo_claim d), \<lparr>alpha = x, beta = y\<lparr>session := t\<rparr>\<rparr>) \<and>
    claim_entries (demo_claim d) (audits t) = [e1, e2] \<and> verify_chain EB t (demo_claim d) \<and>
    verify_chain_segment EA (map (exported_entry EB) [e1, e2]) = Inr True \<and>
    map (\<lambda>e. (a_event_type e, a_actor_did e, a_task_id e)) [e1, e2] = demo_story EB d \<and> tasks t = tasks (session y)"
proof -
  let ?p1 = "[(''claim_id'', JStr (demo_claim d)), (''task_id'', JStr (d_task_id d))]"
  let ?p2 = "[(''claim_id'', JStr (demo_claim d)), (''verifier_decision'', JStr ''pass'')]"
  define e1 where "e1 = new_entry EB ''task_claimed'' (did_of EB (d_worker d)) (JDict ?p1) (Some (demo_claim d)) (Some (d_task_id d)) (session y)"
  define s1 where "s1 = (session y)\<lparr>n_now := Suc (n_now (session y)), n_uuid := Suc (n_uuid (session y)), audits := audits (session y) @ [e1]\<rparr>"
  define e2 where "e2 = new_entry EB ''task_completed'' (coord_did EB) (JDict ?p2) (Some (demo_claim d)) (Some (d_task_id d)) s1"
  define t where "t = s1\<lparr>n_now := Suc (n_now s1), n_uuid := Suc (n_uuid s1), audits := audits s1 @ [e2]\<rparr>"
  from c have same: "same_process EA EB" and E: "inj (uuid4 EB)" "strict_mono (clock EB)" "sig_correct EB" "hash_nonempty EB"
    by (auto simp: demo_conditions_def same_process_def sig_correct_def hash_nonempty_def)
  have done1: "claim_entries (demo_claim d) (audits t) = [e1, e2] \<and> verify_chain EB t (demo_claim d) \<and>
      verify_chain_segment EB (map (exported_entry EB) [e1, e2]) = Inr True"
    by (rule claim_completed [OF y _ E e1_def s1_def e2_def]) (simp_all add: t_def)
  from y have f: "log_fresh EB (session y)" "storable (session y)" by (simp_all add: beta_ok_def)
  from append_fresh [OF f(1) E(1)] obtain r1 where
    a1: "audit_append EB ''task_claimed'' (did_of EB (d_worker d)) (JDict ?p1) (Some (demo_claim d)) (Some (d_task_id d)) None (session y) = (Inr r1, s1)"
      "log_fresh EB s1"
    unfolding s1_def e1_def by blast
  from append_fresh [OF a1(2) E(1)] obtain r2 where
    a2: "audit_append EB ''task_completed'' (coord_did EB) (JDict ?p2) (Some (demo_claim d)) (Some (d_task_id d)) None s1 = (Inr r2, t)"
    unfolding t_def e2_def by blast
  have "commit (y\<lparr>session := t\<rparr>) = (Inr (), y\<lparr>session := t\<rparr>)"
    using f(2) by (intro commit_storable) (simp add: t_def s1_def storable_def)
  with a1 a2 have "demo_complete EB d \<lparr>alpha = x, beta = y\<rparr> = (Inr (demo_claim d), \<lparr>alpha = x, beta = y\<lparr>session := t\<rparr>\<rparr>)"
    by (simp add: demo_complete_def Let_def bindS_def on_beta_def on_db_run)
  moreover have "verify_chain_segment EA es = verify_chain_segment EB es" for es
    using segment_same [OF same] by (simp add: verify_chain_segment_def)
  moreover have "map (\<lambda>e. (a_event_type e, a_actor_did e, a_task_id e)) [e1, e2] = demo_story EB d" "tasks t = tasks (session y)"
    by (simp_all add: demo_story_def e1_def e2_def t_def s1_def)
  ultimately show ?thesis using done1 by (intro exI [of _ t] exI [of _ e1] exI [of _ e2]) simp
qed

text \<open>What alpha records of the import.\<close>

definition demo_import_record :: "env \<Rightarrow> string \<Rightarrow> wcp_audit \<Rightarrow> (string \<times> json) list" where
  "demo_import_record EB cid last_entry =
     [(''peer_coordinator_did'', JStr (coord_did EB)), (''claim_id'', JStr cid), (''entries'', JInt 2),
      (''terminal_hash'', JStr (a_this_hash last_entry)), (''completion_event'', JStr ''task_completed''), (''ok'', JBool True)]"

lemma demo_imported:
  assumes c: "demo_conditions EA EB F d a b" and k: "k \<le> n_now a + 5"
    and x: "alpha_ok EA (demo_store EB F d) k lg x" and y: "claim_entries (demo_claim d) (audits (session y)) = [e1, e2]"
    and v: "verify_chain_segment EA (map (exported_entry EB) [e1, e2]) = Inr True" "a_event_type e2 = ''task_completed''"
  shows "\<exists>x' e th. demo_import EA EB (demo_anchor EB F d) (demo_claim d) \<lparr>alpha = x, beta = y\<rparr> =
      (Inr (JDict [(''ok'', JBool True), (''entries'', JInt 2), (''terminal_hash'', th), (''completion_event'', JStr ''task_completed'')]),
       \<lparr>alpha = x', beta = y\<rparr>) \<and>
    audits (session x') = lg @ [e] \<and> a_event_type e = ''federation_audit_chain_imported'' \<and>
    a_payload_json e = JDict (demo_import_record EB (demo_claim d) e2)"
proof -
  let ?es = "map (exported_entry EB) [e1, e2]"
  let ?fetch = "beta_chain_fetcher EB (session y)"
  have fetch: "?fetch (peer_endpoint_url (demo_anchor EB F d)) (demo_claim d) = Inr ?es" using y by (simp add: beta_chain_fetcher_def)
  have ce: "first_completion (rev ?es) = Inr (JStr ''task_completed'')"
    using completed_last [of "[e1, e2]" EB] v(2) by simp
  have th: "(if ?es \<noteq> [] then j_item (last ?es) ''this_hash'' else Inr JNull) = Inr (JStr (a_this_hash e2))"
    by (simp add: exported_entry_def)
  from c have "inj (uuid4 EA)" by (simp add: demo_conditions_def)
  from alpha_import [OF x this _ demo_unexpired [OF c k], of ?fetch, OF _ fetch v(1) th ce] obtain x' e where
    x': "on_db (import_peer_chain EA (Some ?fetch) (demo_anchor EB F d) (demo_claim d)) x =
        (Inr (JDict [(''ok'', JBool True), (''entries'', JInt 2), (''terminal_hash'', JStr (a_this_hash e2)), (''completion_event'', JStr ''task_completed'')]), x')"
      "alpha_ok EA (demo_store EB F d) (Suc (Suc k)) (lg @ [e]) x'" "a_event_type e = ''federation_audit_chain_imported''"
      "a_payload_json e = JDict (demo_import_record EB (demo_claim d) e2)"
    by (auto simp: demo_import_record_def)
  have "commit x' = (Inr (), x')" using x'(2) by (auto intro!: commit_storable simp: alpha_ok_def)
  with x' show ?thesis
    by (intro exI [of _ x'] exI [of _ e] exI [of _ "JStr (a_this_hash e2)"]) (simp add: demo_import_def bindS_def on_side_run alpha_ok_def)
qed


text \<open>With no other worker at beta the forwarded task is accepted, and the demo's worker is eligible for it.\<close>

lemma demo_eligible:
  assumes "workers s = [w]" "w_capabilities_json w = JDict (demo_capability E d)" "w_worker_class w = HUMAN"
  shows "count_eligible (JDict (demo_task E d)) s = Inr 1"
  using assms by (simp add: count_eligible_def demo_task_def demo_capability_def class_filter_of_def capability_query_of_def
     matching_workers_def task_venue_def py_or_def Let_def worker_matches_def required_block_def
     bind_classes_def class_in_def get_set_def required_matches_def methods_ok_def descs_ok_def certs_ok_def venue_ok_def andE_def
     py_set_def eq_in_def py_eq_def set_sub_def)

lemma count_eligible_cong:
  assumes "workers t = workers s"
  shows "count_eligible task t = count_eligible task s"
  unfolding count_eligible_def matching_workers_def assms ..

lemma post_succeeds:
  assumes "post_checks E reg task = Inr ()" "map_of task ''task_id'' = Some (JStr tid)" "tid \<noteq> []"
    and "map_of task ''posted_by'' = Some (JStr did)" "did_resolve did = Inr rd" "parse_iso E expiry = Inr x"
    and "map_of task ''descriptor_type'' = Some (JStr dt)" "dt \<noteq> []"
    and "tid \<notin> t_task_id ` set (tasks s)" "log_fresh E s" "count_eligible (JDict task) s = Inr n"
  shows "\<exists>ts t row. task_post E reg task expiry info s =
      (Inr (JDict [(''task_id'', JStr tid), (''eligible_workers_count'', JInt n), (''posted_at'', JStr ts)]), t) \<and>
    tasks t = tasks s @ [row] \<and> t_task_id row = tid \<and> t_state row = POSTED \<and> t_descriptor_type row = dt \<and> attestations t = attestations s"
proof -
  have "did \<noteq> []" using assms(5) by (auto simp: did_resolve_def startswith_def)
  moreover have "uuid4 E (n_uuid s) \<notin> a_entry_id ` set (audits s)" using assms(10) by (simp add: log_fresh_def)
  moreover have "count_eligible (JDict task) (s\<lparr>tasks := ts, n_now := k, n_uuid := m, audits := as\<rparr>) = Inr n" for k ts m as
    using assms(11) count_eligible_cong [of "s\<lparr>tasks := ts, n_now := k, n_uuid := m, audits := as\<rparr>" s] by simp
  ultimately show ?thesis using assms(1-9)
    by (simp add: task_post_def bindS_def Let_def dict_set_same resolve_or_value_error_def raise_if_def access_defs row_add_def
        audit_append_run py_or_def)
qed

lemma in_process_post:
  assumes "task_post E DEFAULT_REGISTRY task expiry [] s = (Inr r, t)" "storable t"
  shows "in_process E ''tasks/post'' [(''task'', JDict task), (''expiry'', JStr expiry)] s = (Inr r, t)"
  using assms by (simp add: in_process_def dispatch_def methods_def Let_def py_or_def rpc_tasks_post_def check_kwargs_def raise_if_def
      str_arg_def arg_def bindS_def db_flush_def storable_def)

lemma upsert_first:
  assumes "upsert_capabilities E wid (JDict caps) pid ttl s = (Inr r, t)" "workers s = []" "map_of caps ''class'' = Some (JStr ''human'')"
  shows "\<exists>w. workers t = [w] \<and> w_capabilities_json w = JDict caps \<and> w_worker_class w = HUMAN \<and> tasks t = tasks s"
  using assms worker_class_of_value [of E HUMAN] by (auto simp: upsert_capabilities_def utcnow_def add_worker_def row_add_def)

definition demo_first_run :: "env \<Rightarrow> draws \<Rightarrow> db \<Rightarrow> bool" where
  "demo_first_run E d b \<longleftrightarrow> workers b = [] \<and> length (ed25519_pub E (d_agent d)) = 32 \<and> d_task_id d \<noteq> [] \<and>
     d_task_id d \<notin> t_task_id ` set (tasks b) \<and> (\<exists>x. parse_iso E DEMO_EXPIRY = Inr x)"

lemma demo_post_checks: "post_checks E DEFAULT_REGISTRY (demo_task E d) = Inr ()"
  by (simp add: post_checks_def demo_task_def raise_if_def reject_legacy_def legacy_fields_def validate_attestation_requirement_def
      py_or_def out_of_scope_def eq_in_def py_eq_def validate_kinds_def registry_get_def kind_in_def DEFAULT_REGISTRY_def)

lemma demo_accepted:
  assumes first: "demo_first_run E d b" and s: "workers s = workers b" "tasks s = tasks b"
    and up: "upsert_capabilities E (did_of E (d_worker d)) (JDict (demo_capability E d)) pid 3600 s = (Inr r, t)"
    and t: "log_fresh E t" "storable t"
  shows "\<exists>v u row. in_process E ''tasks/post'' (demo_call E d) t = (Inr v, u) \<and> j_get v ''eligible_workers_count'' JNull = Inr (JInt 1) \<and>
    tasks u = tasks b @ [row] \<and> t_task_id row = d_task_id d \<and> t_state row = POSTED"
proof -
  from upsert_first [OF up _ demo_capability_fields(2)] first s obtain w where
    w: "workers t = [w]" "w_capabilities_json w = JDict (demo_capability E d)" "w_worker_class w = HUMAN" "tasks t = tasks b"
    by (auto simp: demo_first_run_def)
  have task: "map_of (demo_task E d) ''posted_by'' = Some (JStr (did_of E (d_agent d)))"
      "map_of (demo_task E d) ''descriptor_type'' = Some (JStr ''transport'')"
    by (simp_all add: demo_task_def)
  from first obtain rd x where "did_resolve (did_of E (d_agent d)) = Inr rd" "parse_iso E DEMO_EXPIRY = Inr x"
    using did_resolve_from_pubkey by (auto simp: demo_first_run_def did_of_def)
  note res = this
  from first w(4) have id: "d_task_id d \<noteq> []" "d_task_id d \<notin> t_task_id ` set (tasks t)" by (simp_all add: demo_first_run_def)
  obtain ts u row where u: "task_post E DEFAULT_REGISTRY (demo_task E d) DEMO_EXPIRY [] t =
        (Inr (JDict [(''task_id'', JStr (d_task_id d)), (''eligible_workers_count'', JInt 1), (''posted_at'', JStr ts)]), u)"
      "tasks u = tasks t @ [row]" "t_task_id row = d_task_id d" "t_state row = POSTED" "attestations u = attestations t"
    using post_succeeds [OF demo_post_checks demo_task_id id(1) task(1) res task(2) _ id(2) t(1) demo_eligible [OF w(1-3)], of "[]"] by blast
  from t(2) u(5) have "storable u" by (simp add: storable_def)
  from in_process_post [OF u(1) this] u(2-4) w(4) show ?thesis by simp
qed
text \<open>
  C29: The acceptance test of the federation modules, run on two coordinators of one process from any
  two databases without entries for the new claim: it returns 0 if alpha's log has no federation entry yet,
  and 1 if it has one, so that it passes on a new database file and fails when it is run again.
  Whatever beta answers to the forwarded task, alpha's log grows by exactly the three federation
  entries. The claim's chain at beta verifies and has two entries, the worker's claim of the task and beta's completion of it;
  alpha records that it imported these two, ending in the hash of the second, as a completion. On a first run beta accepts
  the task, which then is still in state posted: the chain alpha imports tells a completion
  that the state machine of beta never made.
\<close>

theorem federation_demo_outcome:
  assumes "demo_conditions EA EB F d a b"
  shows "\<exists>x y e1 e2 e3. federation_demo EA EB F d \<lparr>alpha = build_coordinator False a, beta = build_coordinator False b\<rparr> =
      (Inr (if \<exists>e \<in> set (audits a). a_event_type e \<in> federation_events then 1 else 0), \<lparr>alpha = x, beta = y\<rparr>) \<and>
    audits (session x) = audits a @ [e1, e2, e3] \<and>
    map a_event_type [e1, e2, e3] =
      [''federation_capability_advertised'', ''federation_task_forwarded'', ''federation_audit_chain_imported''] \<and>
    verify_chain EB (session y) (''demo-claim-'' @ d_claim d) \<and>
    (\<exists>f1 f2. claim_entries (''demo-claim-'' @ d_claim d) (audits (session y)) = [f1, f2] \<and>
       map (\<lambda>e. (a_event_type e, a_actor_did e, a_task_id e)) [f1, f2] =
         [(''task_claimed'', did_of EB (d_worker d), Some (d_task_id d)), (''task_completed'', coord_did EB, Some (d_task_id d))] \<and>
       a_payload_json e3 = JDict
         [(''peer_coordinator_did'', JStr (coord_did EB)), (''claim_id'', JStr (''demo-claim-'' @ d_claim d)), (''entries'', JInt 2),
          (''terminal_hash'', JStr (a_this_hash f2)), (''completion_event'', JStr ''task_completed''), (''ok'', JBool True)]) \<and>
    (demo_first_run EB d b \<longrightarrow> ((\<exists>p. a_payload_json e2 = JDict p \<and> map_of p ''status'' = Some (JStr ''accepted'')) \<and>
       (\<exists>row. tasks (session y) = tasks b @ [row] \<and> t_task_id row = d_task_id d \<and> t_state row = POSTED)))"
proof -
  from demo_exchanged [OF assms refl] obtain x1 y1 where
    1: "demo_exchange_anchors EA EB F d \<lparr>alpha = build_coordinator False a, beta = build_coordinator False b\<rparr> =
        (Inr (demo_anchor EB F d), \<lparr>alpha = x1, beta = y1\<rparr>)"
      "alpha_ok EA (demo_store EB F d) (Suc (n_now a)) (audits a) x1" "beta_ok EB (demo_claim d) (session y1)"
      "workers (session y1) = workers b" "tasks (session y1) = tasks b" by blast
  from demo_registered [OF assms _ 1(2,3)] obtain x2 r2 t2 e1 where
    2: "demo_register_worker EA EB d (demo_anchor EB F d) \<lparr>alpha = x1, beta = y1\<rparr> = (Inr (), \<lparr>alpha = x2, beta = y1\<lparr>session := t2\<rparr>\<rparr>)"
      "alpha_ok EA (demo_store EB F d) (Suc (Suc (Suc (n_now a)))) (audits a @ [e1]) x2" "a_event_type e1 = ''federation_capability_advertised''"
      "beta_ok EB (demo_claim d) (session (y1\<lparr>session := t2\<rparr>))"
      "upsert_capabilities EB (did_of EB (d_worker d)) (JDict (demo_capability EB d)) (did_of EB (d_principal d)) 3600 (session y1) = (Inr r2, t2)" by auto
  obtain r t3 where r: "in_process EB ''tasks/post'' (demo_call EB d) (session (y1\<lparr>session := t2\<rparr>)) = (r, t3)" by fastforce
  from demo_forwarded [OF assms _ 2(2,4) r] obtain x3 e2 p where
    3: "demo_forward EA EB d \<lparr>alpha = x2, beta = y1\<lparr>session := t2\<rparr>\<rparr> = (Inr (demo_anchor EB F d), \<lparr>alpha = x3, beta = y1\<lparr>session := t3\<rparr>\<rparr>)"
      "alpha_ok EA (demo_store EB F d) (Suc (Suc (Suc (Suc (Suc (n_now a)))))) ((audits a @ [e1]) @ [e2]) x3" "a_event_type e2 = ''federation_task_forwarded''"
      "a_payload_json e2 = JDict p" "map_of p ''status'' = Some (JStr (snd (forward_result r)))"
    by auto
  from assms keeps_beta_in_process [of EB "demo_claim d" t2 "demo_call EB d"] 2(4) r
  have "beta_ok EB (demo_claim d) (session (y1\<lparr>session := t3\<rparr>))" by (simp add: demo_conditions_def)
  from demo_completed [OF assms this, of x3] obtain t4 f1 f2 where
    4: "demo_complete EB d \<lparr>alpha = x3, beta = y1\<lparr>session := t3\<rparr>\<rparr> = (Inr (demo_claim d), \<lparr>alpha = x3, beta = y1\<lparr>session := t4\<rparr>\<rparr>)"
      "claim_entries (demo_claim d) (audits (session (y1\<lparr>session := t4\<rparr>))) = [f1, f2]" "verify_chain EB t4 (demo_claim d)"
      "verify_chain_segment EA (map (exported_entry EB) [f1, f2]) = Inr True" "tasks t4 = tasks t3"
      "map (\<lambda>e. (a_event_type e, a_actor_did e, a_task_id e)) [f1, f2] = demo_story EB d"
    by auto
  from 4(6) have "a_event_type f2 = ''task_completed''" by (simp add: demo_story_def)
  from demo_imported [OF assms _ 3(2) 4(2,4) this] obtain x5 e3 th where
    5: "demo_import EA EB (demo_anchor EB F d) (demo_claim d) \<lparr>alpha = x3, beta = y1\<lparr>session := t4\<rparr>\<rparr> =
      (Inr (JDict [(''ok'', JBool True), (''entries'', JInt 2), (''terminal_hash'', th), (''completion_event'', JStr ''task_completed'')]),
       \<lparr>alpha = x5, beta = y1\<lparr>session := t4\<rparr>\<rparr>)"
      "audits (session x5) = audits a @ [e1, e2, e3]" "a_event_type e3 = ''federation_audit_chain_imported''"
      "a_payload_json e3 = JDict (demo_import_record EB (demo_claim d) f2)"
    by auto
  let ?P = "\<lambda>e. a_event_type e \<in> federation_events"
  have "length (filter ?P (audits (session x5))) = 3 \<longleftrightarrow> \<not> (\<exists>e \<in> set (audits a). ?P e)"
    using 2(3) 3(3) 5(2,3) by (simp add: federation_events_def filter_empty_conv)
  with 1(1) 2(1) 3(1) 4(1,3) 5(1) have run: "federation_demo EA EB F d \<lparr>alpha = build_coordinator False a, beta = build_coordinator False b\<rparr> =
      (Inr (if \<exists>e \<in> set (audits a). ?P e then 1 else 0), \<lparr>alpha = x5, beta = y1\<lparr>session := t4\<rparr>\<rparr>)"
    by (simp add: federation_demo_def bindS_def)
  have first: "map_of p ''status'' = Some (JStr ''accepted'') \<and> (\<exists>row. tasks t4 = tasks b @ [row] \<and> t_task_id row = d_task_id d \<and> t_state row = POSTED)"
    if "demo_first_run EB d b"
    using demo_accepted [OF that 1(4,5) 2(5)] 2(4) 3(5) r 4(5) by (auto simp: beta_ok_def forward_result_def)
  have entries: "audits (session x5) = audits a @ [e1, e2, e3]" "map a_event_type [e1, e2, e3] =
      [''federation_capability_advertised'', ''federation_task_forwarded'', ''federation_audit_chain_imported'']"
    using 2(3) 3(3) 5(2,3) by simp_all
  have beta: "verify_chain EB (session (y1\<lparr>session := t4\<rparr>)) (demo_claim d)" "tasks (session (y1\<lparr>session := t4\<rparr>)) = tasks t4"
    using 4(3) by simp_all
  show ?thesis
  proof (intro exI conjI)
    show "demo_first_run EB d b \<longrightarrow> (\<exists>p. a_payload_json e2 = JDict p \<and> map_of p ''status'' = Some (JStr ''accepted'')) \<and>
       (\<exists>row. tasks (session (y1\<lparr>session := t4\<rparr>)) = tasks b @ [row] \<and> t_task_id row = d_task_id d \<and> t_state row = POSTED)"
      unfolding beta(2) using first 3(4) by blast
  qed (rule run entries beta(1) 4(2) 4(6) [unfolded demo_story_def] 5(4) [unfolded demo_import_record_def])+
qed

subsection \<open>Three coordinators: the outcome\<close>

definition n3_conditions :: "env \<Rightarrow> env \<Rightarrow> env \<Rightarrow> ieee \<Rightarrow> draws_n3 \<Rightarrow> db \<Rightarrow> db \<Rightarrow> db \<Rightarrow> bool" where
  "n3_conditions EA EB EG F d a b g \<longleftrightarrow>
     same_process EA EB \<and> same_process EA EG \<and> sig_correct EA \<and> inj (uuid4 EA) \<and> strict_mono (clock EA) \<and>
     length (ed25519_pub EA (signer_key EB)) = 32 \<and> length (ed25519_pub EA (signer_key EG)) = 32 \<and>
     ed25519_pub EA (signer_key EB) \<noteq> ed25519_pub EA (signer_key EG) \<and>
     length (ed25519_pub EA (n_beta_worker d)) = 32 \<and> length (ed25519_pub EA (n_gamma_worker d)) = 32 \<and>
     log_fresh EA a \<and> storable a \<and> storable b \<and> storable g \<and>
     now_s EA (n_now a + 12) < rnd F (n_now_beta d + 3600) \<and> now_s EA (n_now a + 12) < rnd F (n_now_gamma d + 3600)"

abbreviation n3_beta_anchor :: "env \<Rightarrow> ieee \<Rightarrow> draws_n3 \<Rightarrow> trust_anchor" where
  "n3_beta_anchor EB F d \<equiv>
     make_signed_trust_anchor EB F (signer_key EB) (n_now_beta d) (coord_did EB) ''in-process://beta'' demo_scope 3600"

abbreviation n3_gamma_anchor :: "env \<Rightarrow> ieee \<Rightarrow> draws_n3 \<Rightarrow> trust_anchor" where
  "n3_gamma_anchor EG F d \<equiv>
     make_signed_trust_anchor EG F (signer_key EG) (n_now_gamma d) (coord_did EG) ''in-process://gamma'' demo_scope 3600"

abbreviation n3_store :: "env \<Rightarrow> env \<Rightarrow> ieee \<Rightarrow> draws_n3 \<Rightarrow> (string \<times> trust_anchor) list" where
  "n3_store EB EG F d \<equiv> [(coord_did EB, n3_beta_anchor EB F d), (coord_did EG, n3_gamma_anchor EG F d)]"

lemma n3_unexpired:
  assumes "n3_conditions EA EB EG F d a b g" "k \<le> n_now a + 12"
  shows "now_s EA k < expires_at (n3_beta_anchor EB F d)" "now_s EA k < expires_at (n3_gamma_anchor EG F d)"
  using assms now_s_mono [of EA k "n_now a + 12"] by (simp_all add: n3_conditions_def)

lemma n3_dids_differ:
  assumes "n3_conditions EA EB EG F d a b g"
  shows "coord_did EB \<noteq> coord_did EG"
proof
  assume "coord_did EB = coord_did EG"
  with assms have "did_resolve (did_string (ed25519_pub EA (signer_key EB))) = did_resolve (did_string (ed25519_pub EA (signer_key EG)))"
    by (simp add: coord_did_def n3_conditions_def same_process_def)
  with assms show False by (simp add: n3_conditions_def did_resolve_from_pubkey)
qed

lemma upsert_keeps_log:
  assumes "P = storable \<or> P = log_fresh E'"
  shows "keeps P (upsert_capabilities E wid caps pid ttl)"
proof -
  have "keeps P (utcnow E)" "keeps P (add_worker w)" "keeps P (set_worker k f)" for w k f
    using assms by (auto simp: keeps_def access_defs row_add_def storable_def log_fresh_def)
  then show ?thesis unfolding upsert_capabilities_def
    by (intro keeps_bindS keeps_lift keeps_gets) (auto split: option.splits intro!: keeps_bindS)
qed

lemma register_worker_runs:
  assumes "storable (session x)" "length (ed25519_pub E sk) = 32"
  shows "\<exists>t r. register_worker E sk venue ''human'' as_of x = (Inr (did_of E sk), x\<lparr>session := t\<rparr>) \<and> storable t \<and>
    upsert_capabilities E (did_of E sk) (JDict (n3_capability E sk venue ''human'' as_of)) (did_of E sk) 3600 (session x) = (Inr r, t)"
proof -
  let ?c = "n3_capability E sk venue ''human'' as_of"
  from upsert_succeeds [OF did_resolve_from_pubkey [OF assms(2)], of ?c HUMAN E "did_of E sk" 3600 "session x"]
  obtain r t where t: "upsert_capabilities E (did_of E sk) (JDict ?c) (did_of E sk) 3600 (session x) = (Inr r, t)"
    by (auto simp: did_of_def n3_capability_def)
  from keeps_Inr [OF upsert_keeps_log [of storable] t assms(1)] have "storable t" by simp
  with t commit_storable [of "x\<lparr>session := t\<rparr>"] show ?thesis
    by (intro exI [of _ t] exI [of _ r]) (simp add: register_worker_def Let_def bindS_def on_db_run)
qed

lemma forward_to_alpha:
  fixes fwd peer task expiry s
  defines "answer \<equiv> fwd (peer_endpoint_url peer) ''tasks/post'' (forward_params task expiry []) s"
  assumes "alpha_ok E store n lg (alpha s)" "inj (uuid4 E)" "map_of store (peer_coordinator_did peer) = Some b"
    and "map_of task ''task_id'' = Some (JStr tid)"
  shows "\<exists>r x e p. forward_to E fwd peer task expiry s = (Inr r, (snd answer)\<lparr>alpha := x\<rparr>) \<and> alpha_ok E store (Suc n) (lg @ [e]) x \<and>
    a_event_type e = ''federation_task_forwarded'' \<and> a_payload_json e = JDict p \<and>
    map_of p ''peer_coordinator_did'' = Some (JStr (peer_coordinator_did peer)) \<and> map_of p ''task_id'' = Some (JStr tid) \<and>
    map_of p ''status'' = Some (JStr (snd (forward_result (fst answer))))"
proof -
  from alpha_forward [OF assms(2-), of "\<lambda>url m p. fst (fwd url m p s)" expiry] obtain r y e p where
    y: "forward_task E (Some (\<lambda>url m p. fst (fwd url m p s))) peer task expiry [] (alpha s) = (Inr r, y)"
      "alpha_ok E store (Suc n) (lg @ [e]) y" "a_event_type e = ''federation_task_forwarded''"
      "a_payload_json e = JDict p" "map_of p ''peer_coordinator_did'' = Some (JStr (peer_coordinator_did peer))"
      "map_of p ''task_id'' = Some (JStr tid)" "map_of p ''status'' = Some (JStr (snd (forward_result (fst answer))))"
    unfolding answer_def by blast
  moreover have "anchor_get (alpha s) (peer_coordinator_did peer) \<noteq> None" using assms(2,4) by (simp add: alpha_ok_def anchor_get_def)
  ultimately have "forward_to E fwd peer task expiry s = (Inr r, (snd answer)\<lparr>alpha := y\<rparr>)"
    by (auto simp: forward_to_def answer_def)
  with y show ?thesis by blast
qed

lemma n3_task_id: "map_of (n3_task E d t) ''task_id'' = Some (JStr (n_task_ids d t))"
  by (simp add: n3_task_def)

abbreviation n3_call :: "env \<Rightarrow> draws_n3 \<Rightarrow> string \<Rightarrow> params" where
  "n3_call EB d ty \<equiv> [(''task'', JDict (n3_task EB d ty)), (''expiry'', JStr DEMO_EXPIRY)]"

text \<open>The peer a task of each type is for.\<close>

lemma n3_peer:
  assumes "n3_conditions EA EB EG F d a b g"
    and "(ty, peer) \<in> {(''transport'', n3_beta_anchor EB F d), (''place_on_shelf'', n3_gamma_anchor EG F d)}"
  shows "find (peer_accepts (Some (descriptor_admission EB EG)) ty) (map snd (n3_store EB EG F d)) = Some peer \<and>
    map_of (n3_store EB EG F d) (peer_coordinator_did peer) = Some peer"
  using assms(2) n3_dids_differ [OF assms(1)] by (auto simp: peer_accepts_def descriptor_admission_def)

lemma n3_posted:
  assumes c: "n3_conditions EA EB EG F d a b g" and k: "k \<le> n_now a + 10"
    and x: "alpha_ok EA (n3_store EB EG F d) k lg (alpha s)"
    and t: "(ty, peer) \<in> {(''transport'', n3_beta_anchor EB F d), (''place_on_shelf'', n3_gamma_anchor EG F d)}"
  shows "\<exists>x' e p. n3_post EA EB EG d ty s =
      (Inr (peer_coordinator_did peer), (snd (n3_forwarder EB EG (peer_endpoint_url peer) ''tasks/post'' (n3_call EB d ty) s))\<lparr>alpha := x'\<rparr>) \<and>
    alpha_ok EA (n3_store EB EG F d) (k + 3) (lg @ [e]) x' \<and>
    a_event_type e = ''federation_task_forwarded'' \<and> a_payload_json e = JDict p \<and>
    map_of p ''peer_coordinator_did'' = Some (JStr (peer_coordinator_did peer)) \<and> map_of p ''task_id'' = Some (JStr (n_task_ids d ty)) \<and>
    map_of p ''status'' = Some (JStr (snd (forward_result (fst (n3_forwarder EB EG (peer_endpoint_url peer) ''tasks/post'' (n3_call EB d ty) s)))))"
proof -
  have "\<forall>(k', an) \<in> set (n3_store EB EG F d). ''capability_discovery'' \<in> anchor_scope an \<and> (\<forall>m < k + length (n3_store EB EG F d). now_s EA m < expires_at an)"
    using n3_unexpired [OF c] k by auto
  from alpha_pick [OF x this, of ty "JList [JStr ''human'']" "Some (descriptor_admission EB EG)"] obtain x1 where
    x1: "pick_peer EA ty (JList [JStr ''human'']) (Some (descriptor_admission EB EG)) (alpha s) =
        (Inr (find (peer_accepts (Some (descriptor_admission EB EG)) ty) (map snd (n3_store EB EG F d))), x1)"
      "alpha_ok EA (n3_store EB EG F d) (k + 2) lg x1" by auto
  have peer: "find (peer_accepts (Some (descriptor_admission EB EG)) ty) (map snd (n3_store EB EG F d)) = Some peer"
      "map_of (n3_store EB EG F d) (peer_coordinator_did peer) = Some peer"
    using n3_peer [OF c t] by simp_all
  from c have inj: "inj (uuid4 EA)" by (simp add: n3_conditions_def)
  have same: "n3_forwarder EB EG url m q (s\<lparr>alpha := x1\<rparr>) = map_prod id (\<lambda>u. u\<lparr>alpha := x1\<rparr>) (n3_forwarder EB EG url m q s)" for url m q
    by (simp add: n3_forwarder_def Let_def on_beta_def on_gamma_def raise_def split: prod.splits)
  have "alpha_ok EA (n3_store EB EG F d) (k + 2) lg (alpha (s\<lparr>alpha := x1\<rparr>))" using x1(2) by simp
  from forward_to_alpha [OF this inj peer(2) n3_task_id [of EB d ty], of "n3_forwarder EB EG" DEMO_EXPIRY]
  obtain r x2 e p where
    u: "forward_to EA (n3_forwarder EB EG) peer (n3_task EB d ty) DEMO_EXPIRY (s\<lparr>alpha := x1\<rparr>) =
        (Inr r, (snd (n3_forwarder EB EG (peer_endpoint_url peer) ''tasks/post'' (n3_call EB d ty) s))\<lparr>alpha := x2\<rparr>)"
      "alpha_ok EA (n3_store EB EG F d) (k + 3) (lg @ [e]) x2" "a_event_type e = ''federation_task_forwarded''"
      "a_payload_json e = JDict p" "map_of p ''peer_coordinator_did'' = Some (JStr (peer_coordinator_did peer))"
      "map_of p ''task_id'' = Some (JStr (n_task_ids d ty))"
      "map_of p ''status'' = Some (JStr (snd (forward_result (fst (n3_forwarder EB EG (peer_endpoint_url peer) ''tasks/post'' (n3_call EB d ty) s)))))"
    by (auto simp: numeral_3_eq_3 same forward_params_def)
  have "commit x2 = (Inr (), x2)" using u(2) by (auto intro!: commit_storable simp: alpha_ok_def)
  with x1(1) peer u show ?thesis
    by (intro exI [of _ x2] exI [of _ e] exI [of _ p]) (simp add: n3_post_def bindS_def on_side_run)
qed

lemma n3_delivered:
  "n3_forwarder EB EG ''in-process://beta'' m q s =
     map_prod id (\<lambda>t. s\<lparr>beta := (beta s)\<lparr>session := t\<rparr>\<rparr>) (in_process EB m q (session (beta s)))"
  "n3_forwarder EB EG ''in-process://gamma'' m q s =
     map_prod id (\<lambda>t. s\<lparr>gamma := (gamma s)\<lparr>session := t\<rparr>\<rparr>) (in_process EG m q (session (gamma s)))"
  by (simp_all add: n3_forwarder_def on_beta_def on_gamma_def on_db_def split: prod.split)

text \<open>A peer that has no other worker and no task of that id accepts it.\<close>

definition n3_first_run :: "env \<Rightarrow> draws_n3 \<Rightarrow> string \<Rightarrow> db \<Rightarrow> bool" where
  "n3_first_run E d ty b \<longleftrightarrow> workers b = [] \<and> log_fresh E b \<and> length (ed25519_pub E (n_agent d)) = 32 \<and> n_task_ids d ty \<noteq> [] \<and>
     n_task_ids d ty \<notin> t_task_id ` set (tasks b) \<and> (\<exists>x. parse_iso E DEMO_EXPIRY = Inr x)"

lemma n3_eligible:
  assumes "ty \<in> {''transport'', ''place_on_shelf''}"
    and "workers s = [w]" "w_capabilities_json w = JDict (n3_capability E sk venue ''human'' as_of)" "w_worker_class w = HUMAN"
  shows "count_eligible (JDict (n3_task E' d ty)) s = Inr 1"
proof -
  from assms(1) have "ty \<noteq> []" by auto
  with assms(2-4) show ?thesis by (simp add: count_eligible_def n3_task_def n3_capability_def class_filter_of_def capability_query_of_def
     matching_workers_def task_venue_def py_or_def Let_def worker_matches_def required_block_def
     bind_classes_def class_in_def get_set_def required_matches_def methods_ok_def descs_ok_def certs_ok_def venue_ok_def andE_def
     py_set_def eq_in_def py_eq_def set_sub_def)
qed

lemma n3_post_checks: "ty \<in> {''transport'', ''place_on_shelf''} \<Longrightarrow> post_checks E DEFAULT_REGISTRY (n3_task E' d ty) = Inr ()"
  by (auto simp: post_checks_def n3_task_def raise_if_def reject_legacy_def legacy_fields_def validate_attestation_requirement_def
      py_or_def out_of_scope_def eq_in_def py_eq_def validate_kinds_def registry_get_def kind_in_def DEFAULT_REGISTRY_def)

lemma n3_accepted:
  assumes first: "n3_first_run E d ty b" and same: "ed25519_pub E = ed25519_pub E'" and ty: "ty \<in> {''transport'', ''place_on_shelf''}"
    and up: "upsert_capabilities E wid (JDict (n3_capability E sk venue ''human'' as_of)) pid 3600 b = (Inr r, t)" "storable t"
  shows "\<exists>v u row. in_process E ''tasks/post'' (n3_call E' d ty) t = (Inr v, u) \<and> tasks u = tasks b @ [row] \<and>
    t_task_id row = n_task_ids d ty \<and> t_descriptor_type row = ty \<and> t_state row = POSTED"
proof -
  have "map_of (n3_capability E sk venue ''human'' as_of) ''class'' = Some (JStr ''human'')" by (simp add: n3_capability_def)
  from upsert_first [OF up(1) _ this] first obtain w where
    w: "workers t = [w]" "w_capabilities_json w = JDict (n3_capability E sk venue ''human'' as_of)" "w_worker_class w = HUMAN" "tasks t = tasks b"
    by (auto simp: n3_first_run_def)
  have task: "map_of (n3_task E' d ty) ''posted_by'' = Some (JStr (did_of E' (n_agent d)))" "map_of (n3_task E' d ty) ''descriptor_type'' = Some (JStr ty)"
    by (simp_all add: n3_task_def)
  from first same obtain rd x where res: "did_resolve (did_of E' (n_agent d)) = Inr rd" "parse_iso E DEMO_EXPIRY = Inr x"
    using did_resolve_from_pubkey by (auto simp: n3_first_run_def did_of_def)
  from first w(4) have id: "n_task_ids d ty \<noteq> []" "n_task_ids d ty \<notin> t_task_id ` set (tasks t)" by (simp_all add: n3_first_run_def)
  have "log_fresh E t" using keeps_Inr [OF upsert_keeps_log [of "log_fresh E" E] up(1)] first by (simp add: n3_first_run_def)
  from post_succeeds [OF n3_post_checks [OF ty] n3_task_id id(1) task(1) res task(2) _ id(2) this n3_eligible [OF ty w(1-3)], of "[]"] ty
  obtain ts u row where u: "task_post E DEFAULT_REGISTRY (n3_task E' d ty) DEMO_EXPIRY [] t =
        (Inr (JDict [(''task_id'', JStr (n_task_ids d ty)), (''eligible_workers_count'', JInt 1), (''posted_at'', JStr ts)]), u)"
      "tasks u = tasks t @ [row]" "t_task_id row = n_task_ids d ty" "t_state row = POSTED" "t_descriptor_type row = ty" "attestations u = attestations t"
    by auto
  from up(2) u(6) have "storable u" by (simp add: storable_def)
  from in_process_post [OF u(1) this] u(2-5) w(4) show ?thesis by simp
qed

lemma n3_verdict_pass:
  assumes "\<forall>e \<in> set lg. a_event_type e \<notin> {''federation_capability_advertised'', ''federation_task_forwarded''}"
    and "audits s = lg @ [e1, e2, f1, f2]" "a_event_type e1 = ''federation_capability_advertised''" "a_event_type e2 = ''federation_capability_advertised''"
    and f: "a_event_type f1 = ''federation_task_forwarded''" "a_event_type f2 = ''federation_task_forwarded''"
    and "a_payload_json f1 = JDict p1" "map_of p1 ''peer_coordinator_did'' = Some (JStr d1)"
    and "a_payload_json f2 = JDict p2" "map_of p2 ''peer_coordinator_did'' = Some (JStr d2)" "d1 \<noteq> d2"
  shows "n3_verdict s = Inr 0"
proof -
  have none: "filter (\<lambda>e. a_event_type e = ''federation_capability_advertised'') lg = []" "filter (\<lambda>e. a_event_type e = ''federation_task_forwarded'') lg = []"
    using assms(1) by (auto simp: filter_empty_conv)
  have "py_or (JDict p1) (JDict []) = JDict p1" "py_or (JDict p2) (JDict []) = JDict p2" using assms(8,10) by (auto simp: py_or_def)
  with none assms(2-) show ?thesis by (simp add: n3_verdict_def Let_def py_set_def eq_in_def py_eq_def)
qed

text \<open>Alpha's steps before the first task: two anchors, two records of the peers' workers.\<close>

lemma n3_prepared:
  assumes c: "n3_conditions EA EB EG F d a b g"
  shows "\<exists>x1 x2 x3 x4 e1 e2. anchor_add EA (n3_beta_anchor EB F d) (build_coordinator True a) = (Inr (), x1) \<and>
    anchor_add EA (n3_gamma_anchor EG F d) x1 = (Inr (), x2) \<and> anchor_get x2 (coord_did EB) = Some (n3_beta_anchor EB F d) \<and>
    on_db (advertise_peer_capability EA (n3_beta_anchor EB F d) wb sb) x2 = (Inr (), x3) \<and> anchor_get x3 (coord_did EG) = Some (n3_gamma_anchor EG F d) \<and>
    on_db (advertise_peer_capability EA (n3_gamma_anchor EG F d) wg sg) x3 = (Inr (), x4) \<and>
    alpha_ok EA (n3_store EB EG F d) (n_now a + 6) (audits a @ [e1, e2]) x4 \<and>
    a_event_type e1 = ''federation_capability_advertised'' \<and> a_event_type e2 = ''federation_capability_advertised''"
proof -
  let ?x = "build_coordinator True a"
  from c have E: "same_process EA EB" "same_process EA EG" "sig_correct EA" "inj (uuid4 EA)" by (simp_all add: n3_conditions_def)
  have v: "verify_signature EA (n3_beta_anchor EB F d)" "verify_signature EA (n3_gamma_anchor EG F d)"
    using c by (auto intro!: made_anchor_verifies [OF E(1,3)] made_anchor_verifies [OF E(2,3)] simp: n3_conditions_def)
  have "alpha_ok EA [] (n_now a) (audits a) ?x" using c by (simp add: alpha_ok_def build_coordinator_def n3_conditions_def)
  from alpha_add [OF this v(1)] n3_unexpired [OF c, of "n_now a"] obtain x1 where
    x1: "anchor_add EA (n3_beta_anchor EB F d) ?x = (Inr (), x1)" "alpha_ok EA [(coord_did EB, n3_beta_anchor EB F d)] (Suc (n_now a)) (audits a) x1" by auto
  from alpha_add [OF x1(2) v(2)] n3_unexpired [OF c, of "Suc (n_now a)"] n3_dids_differ [OF c] obtain x2 where
    x2: "anchor_add EA (n3_gamma_anchor EG F d) x1 = (Inr (), x2)" "alpha_ok EA (n3_store EB EG F d) (Suc (Suc (n_now a))) (audits a) x2" by auto
  from alpha_advertise [OF x2(2) E(4), of "n3_beta_anchor EB F d" wb sb] n3_unexpired(1) [OF c] obtain x3 e1 where
    x3: "on_db (advertise_peer_capability EA (n3_beta_anchor EB F d) wb sb) x2 = (Inr (), x3)"
      "alpha_ok EA (n3_store EB EG F d) (Suc (Suc (Suc (Suc (n_now a))))) (audits a @ [e1]) x3" "a_event_type e1 = ''federation_capability_advertised''" by auto
  from alpha_advertise [OF x3(2) E(4), of "n3_gamma_anchor EG F d" wg sg] n3_unexpired(2) [OF c] obtain x4 e2 where
    x4: "on_db (advertise_peer_capability EA (n3_gamma_anchor EG F d) wg sg) x3 = (Inr (), x4)"
      "alpha_ok EA (n3_store EB EG F d) (n_now a + 6) (audits a @ [e1, e2]) x4" "a_event_type e2 = ''federation_capability_advertised''"
    by (auto simp: eval_nat_numeral)
  have "anchor_get x2 (coord_did EB) = Some (n3_beta_anchor EB F d)" "anchor_get x3 (coord_did EG) = Some (n3_gamma_anchor EG F d)"
    using x2(2) x3(2) n3_dids_differ [OF c] by (auto simp: alpha_ok_def anchor_get_def)
  with x1(1) x2(1) x3(1,3) x4 show ?thesis by blast
qed

text \<open>
  C30: The three-coordinator demonstration, with alpha trusting beta and gamma, which do not know each
  other: from an alpha log without such entries it returns 0. Alpha's log grows by two records of the peers'
  workers and two of forwarded tasks, the transport task to beta and the place_on_shelf task to
  gamma, each with the answer of that peer. Delivery is as recorded: beta ends as its handler of tasks/post leaves
  it, called once with the transport task after the worker was registered, and gamma likewise with the place_on_shelf
  task. On a first run each peer accepts, and has that one task, of its type, posted.
\<close>

theorem federation_demo_n3_passes:
  assumes c: "n3_conditions EA EB EG F d a b g"
    and none: "\<forall>e \<in> set (audits a). a_event_type e \<notin> {''federation_capability_advertised'', ''federation_task_forwarded''}"
  shows "\<exists>t e1 e2 f1 f2 p1 p2 y z. federation_demo_n3 EA EB EG F d
       \<lparr>alpha = build_coordinator True a, beta = build_coordinator False b, gamma = build_coordinator False g\<rparr> = (Inr 0, t) \<and>
     audits (session (alpha t)) = audits a @ [e1, e2, f1, f2] \<and>
     register_worker EB (n_beta_worker d) ''zone-b'' ''human'' (n_as_of d ''zone-b'') (build_coordinator False b) = (Inr (did_of EB (n_beta_worker d)), y) \<and>
     register_worker EG (n_gamma_worker d) ''zone-g'' ''human'' (n_as_of d ''zone-g'') (build_coordinator False g) = (Inr (did_of EG (n_gamma_worker d)), z) \<and>
     session (beta t) = snd (in_process EB ''tasks/post'' (n3_call EB d ''transport'') (session y)) \<and>
     session (gamma t) = snd (in_process EG ''tasks/post'' (n3_call EB d ''place_on_shelf'') (session z)) \<and>
     a_payload_json f1 = JDict p1 \<and> map_of p1 ''peer_coordinator_did'' = Some (JStr (coord_did EB)) \<and>
     map_of p1 ''task_id'' = Some (JStr (n_task_ids d ''transport'')) \<and>
     map_of p1 ''status'' = Some (JStr (snd (forward_result (fst (in_process EB ''tasks/post'' (n3_call EB d ''transport'') (session y)))))) \<and>
     a_payload_json f2 = JDict p2 \<and> map_of p2 ''peer_coordinator_did'' = Some (JStr (coord_did EG)) \<and>
     map_of p2 ''task_id'' = Some (JStr (n_task_ids d ''place_on_shelf'')) \<and>
     map_of p2 ''status'' = Some (JStr (snd (forward_result (fst (in_process EG ''tasks/post'' (n3_call EB d ''place_on_shelf'') (session z)))))) \<and>
     (n3_first_run EB d ''transport'' b \<longrightarrow> map_of p1 ''status'' = Some (JStr ''accepted'') \<and>
        (\<exists>row. tasks (session (beta t)) = tasks b @ [row] \<and> t_task_id row = n_task_ids d ''transport'' \<and>
           t_descriptor_type row = ''transport'' \<and> t_state row = POSTED)) \<and>
     (n3_first_run EG d ''place_on_shelf'' g \<longrightarrow> map_of p2 ''status'' = Some (JStr ''accepted'') \<and>
        (\<exists>row. tasks (session (gamma t)) = tasks g @ [row] \<and> t_task_id row = n_task_ids d ''place_on_shelf'' \<and>
           t_descriptor_type row = ''place_on_shelf'' \<and> t_state row = POSTED))"
proof -
  let ?x = "build_coordinator True a" let ?y = "build_coordinator False b" let ?z = "build_coordinator False g"
  let ?transport = "in_process EB ''tasks/post'' (n3_call EB d ''transport'')"
  let ?place = "in_process EG ''tasks/post'' (n3_call EB d ''place_on_shelf'')"
  from c have w: "storable (session ?y)" "length (ed25519_pub EB (n_beta_worker d)) = 32" "storable (session ?z)" "length (ed25519_pub EG (n_gamma_worker d)) = 32"
    and pub: "ed25519_pub EG = ed25519_pub EB" and db: "session ?y = b" "session ?z = g"
    by (simp_all add: n3_conditions_def build_coordinator_def same_process_def)
  from register_worker_runs [OF w(1,2)] obtain t1 r1 where
    t1: "register_worker EB (n_beta_worker d) ''zone-b'' ''human'' (n_as_of d ''zone-b'') ?y = (Inr (did_of EB (n_beta_worker d)), ?y\<lparr>session := t1\<rparr>)"
    and up1: "upsert_capabilities EB (did_of EB (n_beta_worker d)) (JDict (n3_capability EB (n_beta_worker d) ''zone-b'' ''human'' (n_as_of d ''zone-b'')))
        (did_of EB (n_beta_worker d)) 3600 b = (Inr r1, t1)" "storable t1" unfolding db by blast
  from register_worker_runs [OF w(3,4)] obtain t2 r2 where
    t2: "register_worker EG (n_gamma_worker d) ''zone-g'' ''human'' (n_as_of d ''zone-g'') ?z = (Inr (did_of EG (n_gamma_worker d)), ?z\<lparr>session := t2\<rparr>)"
    and up2: "upsert_capabilities EG (did_of EG (n_gamma_worker d)) (JDict (n3_capability EG (n_gamma_worker d) ''zone-g'' ''human'' (n_as_of d ''zone-g'')))
        (did_of EG (n_gamma_worker d)) 3600 g = (Inr r2, t2)" "storable t2" unfolding db by blast
  from n3_prepared [OF c, of "did_of EB (n_beta_worker d)" "[(''class'', JStr ''human''), (''descriptor_type'', JStr ''transport'')]"
      "did_of EG (n_gamma_worker d)" "[(''class'', JStr ''human''), (''descriptor_type'', JStr ''place_on_shelf'')]"]
  obtain x1 x2 x3 x4 e1 e2 where x: "anchor_add EA (n3_beta_anchor EB F d) ?x = (Inr (), x1)" "anchor_add EA (n3_gamma_anchor EG F d) x1 = (Inr (), x2)"
      "anchor_get x2 (coord_did EB) = Some (n3_beta_anchor EB F d)" "anchor_get x3 (coord_did EG) = Some (n3_gamma_anchor EG F d)"
      "on_db (advertise_peer_capability EA (n3_beta_anchor EB F d) (did_of EB (n_beta_worker d)) [(''class'', JStr ''human''), (''descriptor_type'', JStr ''transport'')]) x2 = (Inr (), x3)"
      "on_db (advertise_peer_capability EA (n3_gamma_anchor EG F d) (did_of EG (n_gamma_worker d)) [(''class'', JStr ''human''), (''descriptor_type'', JStr ''place_on_shelf'')]) x3 = (Inr (), x4)"
    and x4: "alpha_ok EA (n3_store EB EG F d) (n_now a + 6) (audits a @ [e1, e2]) x4"
      "a_event_type e1 = ''federation_capability_advertised''" "a_event_type e2 = ''federation_capability_advertised''" by blast
  let ?s = "\<lparr>alpha = x4, beta = ?y\<lparr>session := t1\<rparr>, gamma = ?z\<lparr>session := t2\<rparr>\<rparr>"
  from n3_posted [OF c, of "n_now a + 6" "audits a @ [e1, e2]" ?s "''transport''" "n3_beta_anchor EB F d"] x4(1) obtain x5 f1 p1 where
    u1: "n3_post EA EB EG d ''transport'' ?s = (Inr (coord_did EB), \<lparr>alpha = x5, beta = ?y\<lparr>session := snd (?transport t1)\<rparr>, gamma = ?z\<lparr>session := t2\<rparr>\<rparr>)"
      "alpha_ok EA (n3_store EB EG F d) (n_now a + 9) (audits a @ [e1, e2, f1]) x5"
      "a_event_type f1 = ''federation_task_forwarded''" "a_payload_json f1 = JDict p1" "map_of p1 ''peer_coordinator_did'' = Some (JStr (coord_did EB))"
      "map_of p1 ''task_id'' = Some (JStr (n_task_ids d ''transport''))" "map_of p1 ''status'' = Some (JStr (snd (forward_result (fst (?transport t1)))))"
    by (auto simp: eval_nat_numeral n3_delivered)
  let ?u = "\<lparr>alpha = x5, beta = ?y\<lparr>session := snd (?transport t1)\<rparr>, gamma = ?z\<lparr>session := t2\<rparr>\<rparr>"
  from n3_posted [OF c, of "n_now a + 9" "audits a @ [e1, e2, f1]" ?u "''place_on_shelf''" "n3_gamma_anchor EG F d"] u1(2) obtain x6 f2 p2 where
    u2: "n3_post EA EB EG d ''place_on_shelf'' ?u =
        (Inr (coord_did EG), \<lparr>alpha = x6, beta = ?y\<lparr>session := snd (?transport t1)\<rparr>, gamma = ?z\<lparr>session := snd (?place t2)\<rparr>\<rparr>)"
      "audits (session x6) = audits a @ [e1, e2, f1, f2]"
      "a_event_type f2 = ''federation_task_forwarded''" "a_payload_json f2 = JDict p2" "map_of p2 ''peer_coordinator_did'' = Some (JStr (coord_did EG))"
      "map_of p2 ''task_id'' = Some (JStr (n_task_ids d ''place_on_shelf''))" "map_of p2 ''status'' = Some (JStr (snd (forward_result (fst (?place t2)))))"
    by (auto simp: alpha_ok_def n3_delivered)
  let ?t = "\<lparr>alpha = x6, beta = ?y\<lparr>session := snd (?transport t1)\<rparr>, gamma = ?z\<lparr>session := snd (?place t2)\<rparr>\<rparr>"
  have "commit x4 = (Inr (), x4)" using x4(1) by (auto intro!: commit_storable simp: alpha_ok_def)
  moreover from n3_verdict_pass [OF none u2(2) x4(2,3) u1(3) u2(3) u1(4,5) u2(4,5) n3_dids_differ [OF c]]
  have "n3_verdict (session x6) = Inr 0" .
  ultimately have run: "federation_demo_n3 EA EB EG F d \<lparr>alpha = ?x, beta = ?y, gamma = ?z\<rparr> = (Inr 0, ?t)"
    using x t1 t2 u1(1) u2(1)
    by (simp add: federation_demo_n3_def bindS_def on_side_run on_gamma_def stored_anchor_def)
  have first1: "map_of p1 ''status'' = Some (JStr ''accepted'') \<and> (\<exists>row. tasks (snd (?transport t1)) = tasks b @ [row] \<and>
      t_task_id row = n_task_ids d ''transport'' \<and> t_descriptor_type row = ''transport'' \<and> t_state row = POSTED)" if "n3_first_run EB d ''transport'' b"
    using n3_accepted [OF that refl _ up1] u1(7) by (auto simp: forward_result_def)
  have first2: "map_of p2 ''status'' = Some (JStr ''accepted'') \<and> (\<exists>row. tasks (snd (?place t2)) = tasks g @ [row] \<and>
      t_task_id row = n_task_ids d ''place_on_shelf'' \<and> t_descriptor_type row = ''place_on_shelf'' \<and> t_state row = POSTED)"
    if "n3_first_run EG d ''place_on_shelf'' g"
    using n3_accepted [OF that pub _ up2] u2(7) by (auto simp: forward_result_def)
  show ?thesis
    by (rule exI [of _ ?t], rule exI [of _ e1], rule exI [of _ e2], rule exI [of _ f1], rule exI [of _ f2], rule exI [of _ p1], rule exI [of _ p2],
        rule exI [of _ "?y\<lparr>session := t1\<rparr>"], rule exI [of _ "?z\<lparr>session := t2\<rparr>"])
      (intro conjI impI, use run t1 t2 u1 u2 first1 first2 in simp_all)
qed

subsection \<open>Across processes: the outcome\<close>

text \<open>A fetched list the import can read: no entry raises, and the last one has a \<open>this_hash\<close>.\<close>

definition importable :: "env \<Rightarrow> json list \<Rightarrow> bool" where
  "importable E es \<longleftrightarrow> (\<exists>ok. verify_chain_segment E es = Inr ok) \<and> (\<exists>ce. first_completion (rev es) = Inr ce) \<and>
     (\<exists>th. (if es \<noteq> [] then j_item (last es) ''this_hash'' else Inr JNull) = Inr th)"

lemma import_reads:
  assumes "import_peer_chain E (Some f) peer cid s = (Inr r, t)" "fst (allows E ''audit_chain_export'' peer s) = Inr True"
  shows "\<exists>es. f (peer_endpoint_url peer) cid = Inr es \<and> importable E es"
proof -
  obtain u where u: "allows E ''audit_chain_export'' peer s = (Inr True, u)" using assms(2) by (metis prod.collapse)
  with assms(1) obtain es ok th ce where "f (peer_endpoint_url peer) cid = Inr es" "verify_chain_segment E es = Inr ok"
      "(if es \<noteq> [] then j_item (last es) ''this_hash'' else Inr JNull) = Inr th" "first_completion (rev es) = Inr ce"
    by (auto simp: import_peer_chain_def simp del: if_split)
  then show ?thesis by (simp only: importable_def) blast
qed

text \<open>
  C31: What the cross-process demonstration verifies: once its anchor is accepted, its exit code does not depend
  on the WebSocket exchange at all (the peer may refuse the task or be unreachable, whatever
  call gives), and it is 0 exactly when the HTTP fetch gives a list of entries the import can
  read, whether or not the fetched chain verifies.
\<close>

theorem cross_process_outcome:
  assumes "sig_correct E" "length (ed25519_pub E sk) = 32" "inj (uuid4 E)" "strict_mono (clock E)"
    and "log_fresh E s" "storable s" "now_s E (n_now s + 2) < rnd F (now + 3600)"
  shows "\<exists>t. cross_process_demo E F br call urlopen sk now tid ws (build_coordinator False s) =
    (Inr (case http_chain_fetcher br urlopen ws tid of
            Inl e \<Rightarrow> 1
          | Inr es \<Rightarrow> if importable E es then 0 else 1), t)"
proof -
  let ?a = "make_signed_trust_anchor E F sk now ''did:wcp:beta-cross'' ws demo_scope 3600"
  let ?f = "http_chain_fetcher br urlopen"
  have exp: "now_s E k < expires_at ?a" if "k \<le> n_now s + 2" for k using that assms(4,7) now_s_mono [of E k "n_now s + 2"] by simp
  have v: "verify_signature E ?a" by (rule made_anchor_verifies [OF _ assms(1,2)]) (simp add: same_process_def)
  have "alpha_ok E [] (n_now s) (audits s) (build_coordinator False s)" using assms(5,6) by (simp add: alpha_ok_def build_coordinator_def)
  from alpha_add [OF this v] exp obtain x1 where
    x1: "anchor_add E ?a (build_coordinator False s) = (Inr (), x1)" "alpha_ok E [(''did:wcp:beta-cross'', ?a)] (Suc (n_now s)) (audits s) x1" by auto
  from alpha_forward [OF x1(2) assms(3), of ?a ?a "cross_task tid" tid "ws_forwarder E call" DEMO_EXPIRY] obtain r x2 e where
    x2: "forward_task E (Some (ws_forwarder E call)) ?a (cross_task tid) DEMO_EXPIRY [] x1 = (Inr r, x2)"
      "alpha_ok E [(''did:wcp:beta-cross'', ?a)] (Suc (Suc (n_now s))) (audits s @ [e]) x2" by (auto simp: cross_task_def)
  have ok: "commit x2 = (Inr (), x2)" using x2(2) by (auto intro!: commit_storable simp: alpha_ok_def)
  define m where "m = bindS (on_db (import_peer_chain E (Some ?f) ?a tid)) (\<lambda>import_result. bindS commit (\<lambda>_.
      bindS (lift (j_item import_result ''ok'')) (\<lambda>_. lift (j_item import_result ''entries''))))"
  have run: "cross_process_demo E F br call urlopen sk now tid ws (build_coordinator False s) = (Inr (if isl (fst (m x2)) then 1 else 0), snd (m x2))"
    using x1(1) x2(1) ok by (simp add: cross_process_demo_def m_def [symmetric] Let_def bindS_def try_S_def split: prod.splits)
  from alpha_allows [OF x2(2), of "''audit_chain_export''" ?a] exp obtain x3 where
    x3: "on_db (allows E ''audit_chain_export'' ?a) x2 = (Inr True, x3)" by auto
  show ?thesis
  proof (cases "\<exists>es. ?f ws tid = Inr es \<and> importable E es")
    case True
    then obtain es ok ce th where es: "?f ws tid = Inr es" "verify_chain_segment E es = Inr ok" "first_completion (rev es) = Inr ce"
      "(if es \<noteq> [] then j_item (last es) ''this_hash'' else Inr JNull) = Inr th" "importable E es" by (auto simp: importable_def)
    from alpha_import [OF x2(2) assms(3), of ?a ?f tid es ok th ce] es exp obtain v x4 e4 where
      x4: "on_db (import_peer_chain E (Some ?f) ?a tid) x2 = (Inr (JDict [(''ok'', JBool ok), (''entries'', JInt (int (length es))), (''terminal_hash'', th), (''completion_event'', ce)]), x4)"
        "alpha_ok E [(''did:wcp:beta-cross'', ?a)] (Suc (Suc (Suc (Suc (n_now s))))) (audits s @ [e] @ [e4]) x4" by auto
    have "commit x4 = (Inr (), x4)" using x4(2) by (auto intro!: commit_storable simp: alpha_ok_def)
    with x4(1) have "\<not> isl (fst (m x2))" by (simp add: m_def bindS_def)
    with es(1,5) run show ?thesis by simp
  next
    case False
    moreover have "fst (allows E ''audit_chain_export'' ?a (session x2)) = Inr True" using x3 by (simp add: on_db_run)
    ultimately have "isl (fst (on_db (import_peer_chain E (Some ?f) ?a tid) x2))"
      using import_reads [of E ?f ?a tid "session x2"]
      by (cases "fst (import_peer_chain E (Some ?f) ?a tid (session x2))"; cases "import_peer_chain E (Some ?f) ?a tid (session x2)")
        (auto simp: on_db_run)
    then have "isl (fst (m x2))" by (auto simp: m_def bindS_def split: sum.splits prod.splits)
    with False run show ?thesis by (cases "?f ws tid") auto
  qed
qed

subsection \<open>Concrete runs\<close>

text \<open>Coordinators with the sample environment, a reader of times that knows the demo's expiry, and keys of their own.\<close>

definition demo_env :: "char \<Rightarrow> env" where
  "demo_env c = sample_env\<lparr>signer_key := sample_key c, fromisoformat := (\<lambda>s. Some (Aware 4102444740000000 0))\<rparr>"

definition exact_floats :: ieee where
  "exact_floats = \<lparr>rnd = (\<lambda>r. r), read_float = (\<lambda>s. None)\<rparr>"

lemma demo_env_simps [simp]:
  "sha256_hex (demo_env c) = (\<lambda>b. b)" "ed25519_pub (demo_env c) = (\<lambda>sk. sk)" "ed25519_sign (demo_env c) = (\<lambda>sk d. sk @ d)"
  "ed25519_verify (demo_env c) = (\<lambda>pk d sig. sig = pk @ d)" "signer_key (demo_env c) = sample_key c"
  "clock (demo_env c) = (\<lambda>n. 1000000 * int n)" "uuid4 (demo_env c) = uuid4 sample_env" "float_repr (demo_env c) = sample_float"
  by (simp_all add: demo_env_def sample_env_def)

lemma demo_env_ok:
  "same_process (demo_env c) (demo_env c')" "sig_correct (demo_env c)" "hash_nonempty (demo_env c)"
  "strict_mono (clock (demo_env c))" "log_fresh (demo_env c) empty_db" "storable empty_db" "beta_ok (demo_env c) cid empty_db"
  by (simp_all add: same_process_def sig_correct_def hash_nonempty_def canonical_json_def print_json_nonempty strict_mono_def
      log_fresh_def storable_def beta_ok_def empty_db_def demo_env_def)

definition sample_draws :: draws where
  "sample_draws = \<lparr>d_worker = sample_key (CHR ''w''), d_principal = sample_key (CHR ''p''), d_agent = sample_key (CHR ''a''),
     d_task_id = ''T'', d_claim = ''1a2b3c4d'', d_now_alpha = 0, d_now_beta = 0, d_as_of = ''n0''\<rparr>"

theorem federation_demo_outcome_witness:
  "\<exists>x y row. federation_demo (demo_env (CHR ''A'')) (demo_env (CHR ''B'')) exact_floats sample_draws
       \<lparr>alpha = build_coordinator False empty_db, beta = build_coordinator False empty_db\<rparr> = (Inr 0, \<lparr>alpha = x, beta = y\<rparr>) \<and>
     length (audits (session x)) = 3 \<and> map a_event_type (claim_entries ''demo-claim-1a2b3c4d'' (audits (session y))) = [''task_claimed'', ''task_completed''] \<and>
     tasks (session y) = [row] \<and> t_state row = POSTED"
proof -
  have c: "demo_conditions (demo_env (CHR ''A'')) (demo_env (CHR ''B'')) exact_floats sample_draws empty_db empty_db"
    using demo_env_ok by (simp add: demo_conditions_def sample_draws_def now_s_def exact_floats_def empty_db_def)
  have first: "demo_first_run (demo_env (CHR ''B'')) sample_draws empty_db"
    by (simp add: demo_first_run_def sample_draws_def empty_db_def parse_iso_def demo_env_def of_opt_def)
  have empty: "audits empty_db = []" "tasks empty_db = []" by (simp_all add: empty_db_def)
  obtain x y e1 e2 e3 f1 f2 row where
    "federation_demo (demo_env (CHR ''A'')) (demo_env (CHR ''B'')) exact_floats sample_draws
       \<lparr>alpha = build_coordinator False empty_db, beta = build_coordinator False empty_db\<rparr> = (Inr 0, \<lparr>alpha = x, beta = y\<rparr>)"
    "audits (session x) = [e1, e2, e3]" "claim_entries (''demo-claim-'' @ d_claim sample_draws) (audits (session y)) = [f1, f2]"
    "map (\<lambda>e. (a_event_type e, a_actor_did e, a_task_id e)) [f1, f2] = demo_story (demo_env (CHR ''B'')) sample_draws"
    "tasks (session y) = [row]" "t_state row = POSTED"
    using federation_demo_outcome [OF c] first unfolding empty demo_story_def by auto
  then show ?thesis by (intro exI [of _ x] exI [of _ y] exI [of _ row]) (simp add: sample_draws_def demo_story_def)
qed

definition sample_draws_n3 :: draws_n3 where
  "sample_draws_n3 = \<lparr>n_beta_worker = sample_key (CHR ''w''), n_gamma_worker = sample_key (CHR ''v''), n_agent = sample_key (CHR ''a''),
     n_task_ids = (\<lambda>t. t), n_now_beta = 0, n_now_gamma = 0, n_as_of = (\<lambda>v. ''n0'')\<rparr>"

theorem federation_demo_n3_passes_witness:
  "\<exists>t. federation_demo_n3 (demo_env (CHR ''A'')) (demo_env (CHR ''B'')) (demo_env (CHR ''G'')) exact_floats sample_draws_n3
       \<lparr>alpha = build_coordinator True empty_db, beta = build_coordinator False empty_db, gamma = build_coordinator False empty_db\<rparr> = (Inr 0, t) \<and>
     length (audits (session (alpha t))) = 4 \<and> map t_descriptor_type (tasks (session (beta t))) = [''transport''] \<and>
     map t_descriptor_type (tasks (session (gamma t))) = [''place_on_shelf'']"
proof -
  have "n3_conditions (demo_env (CHR ''A'')) (demo_env (CHR ''B'')) (demo_env (CHR ''G'')) exact_floats sample_draws_n3 empty_db empty_db empty_db"
    using demo_env_ok by (simp add: n3_conditions_def sample_draws_n3_def now_s_def exact_floats_def empty_db_def sample_key_def)
  from federation_demo_n3_passes [OF this] obtain t e1 e2 f1 f2 where
    "federation_demo_n3 (demo_env (CHR ''A'')) (demo_env (CHR ''B'')) (demo_env (CHR ''G'')) exact_floats sample_draws_n3
       \<lparr>alpha = build_coordinator True empty_db, beta = build_coordinator False empty_db, gamma = build_coordinator False empty_db\<rparr> = (Inr 0, t)"
    and t: "audits (session (alpha t)) = audits empty_db @ [e1, e2, f1, f2]"
      "n3_first_run (demo_env (CHR ''B'')) sample_draws_n3 ''transport'' empty_db \<longrightarrow>
        (\<exists>row. tasks (session (beta t)) = tasks empty_db @ [row] \<and> t_descriptor_type row = ''transport'')"
      "n3_first_run (demo_env (CHR ''G'')) sample_draws_n3 ''place_on_shelf'' empty_db \<longrightarrow>
        (\<exists>row. tasks (session (gamma t)) = tasks empty_db @ [row] \<and> t_descriptor_type row = ''place_on_shelf'')"
    by (auto simp: empty_db_def)
  moreover have "n3_first_run (demo_env c) sample_draws_n3 ty empty_db" if "ty \<noteq> []" for c ty
    using that demo_env_ok by (simp add: n3_first_run_def sample_draws_n3_def empty_db_def parse_iso_def demo_env_def of_opt_def)
  moreover have "audits empty_db = []" "tasks empty_db = []" by (simp_all add: empty_db_def)
  ultimately show ?thesis by (intro exI [of _ t]) auto
qed

theorem cross_process_outcome_witness:
  "\<exists>t. cross_process_demo (demo_env (CHR ''A'')) exact_floats (\<lambda>_. False) (\<lambda>_ _. Inl TimeoutError) (\<lambda>_. Inr (JDict [(''entries'', JList [JDict [(''this_hash'', JNull)]])]))
     (sample_key (CHR ''B'')) 0 ''T'' ''ws://localhost:9001/wcp/ws'' (build_coordinator False empty_db) = (Inr 0, t)"
proof -
  have "to_http (\<lambda>_. False) (''ws'' @ ''://'' @ ''localhost:9001'' @ ''/wcp/ws'') = Inr (''http'' @ ''://'' @ ''localhost:9001'')"
    by (rule to_http_ws) (simp_all add: host_char_def netloc_end_def)
  then have "http_chain_fetcher (\<lambda>_. False) (\<lambda>_. Inr (JDict [(''entries'', JList [JDict [(''this_hash'', JNull)]])])) ''ws://localhost:9001/wcp/ws'' ''T'' =
      Inr [JDict [(''this_hash'', JNull)]]"
    by (simp add: http_chain_fetcher_def fetch_sync_def fetched_entries_def py_or_def)
  moreover have "importable (demo_env (CHR ''A'')) [JDict [(''this_hash'', JNull)]]"
    by (auto simp: importable_def verify_chain_segment_def py_or_def completion_kinds_def py_eq_def)
  ultimately show ?thesis
    using cross_process_outcome [of "demo_env (CHR ''A'')" "sample_key (CHR ''B'')" empty_db exact_floats 0 "\<lambda>_. False" "\<lambda>_ _. Inl TimeoutError"
        "\<lambda>_. Inr (JDict [(''entries'', JList [JDict [(''this_hash'', JNull)]])])" "''T''" "''ws://localhost:9001/wcp/ws''"] demo_env_ok
    by (simp add: now_s_def exact_floats_def empty_db_def)
qed

end
