(* ===== verification/Example_Agents.thy ===== *)
theory Example_Agents
  imports Llm_Tools
begin

text \<open>
  \<open>examples/agents/\<close>: seven pairs of an agent that posts a task and a worker of the second SDK that
  executes it, and the pair of \<open>examples/federation-demo/\<close>. An agent is the function that builds its task and the \<open>tasks/post\<close> call of its
  \<open>main\<close>; a worker is what the decorators of its file register, its handler and its evidence
  builders included. What they print is left out, and so is the delay that stands for the work.

  The readings of the clock are arguments, in microseconds; the identities are arguments because
  each process draws its own. Decimal numbers are the doubles next to them.
\<close>

subsection \<open>What the files share\<close>

text \<open>The dict every \<open>build_\<dots>\<close> function returns, up to the fields after the requirement.\<close>

definition schema_entry :: "string \<times> string list \<Rightarrow> json" where
  "schema_entry e = JDict [(''mode'', JStr (fst e)), (''kinds'', JList (map JStr (snd e)))]"

definition example_requirement :: "string list \<Rightarrow> int \<Rightarrow> int \<Rightarrow> (string \<times> string list) list \<Rightarrow> params" where
  "example_requirement modes M N schema =
     [(''modes'', JList (map JStr modes)), (''threshold'', JStr ''M-of-N''), (''M'', JInt M), (''N'', JInt N),
      (''evidence_schema'', JList (map schema_entry schema))]"

definition example_task ::
  "env \<Rightarrow> string \<Rightarrow> int \<Rightarrow> string \<Rightarrow> string \<Rightarrow> params \<Rightarrow> int \<Rightarrow> string list \<Rightarrow> params \<Rightarrow> params \<Rightarrow> params res" where
  "example_task E did now u descriptor_type payload hours allowed requirement rest =
     bindE (iso_after E now (hours * HOUR)) (\<lambda>latest.
     Inr ([(''schema_version'', JStr ''wcp/0.2''), (''task_id'', JStr u), (''posted_by'', JStr did),
           (''descriptor_type'', JStr descriptor_type), (''descriptor_payload'', JDict payload),
           (''constraints'', JDict [(''time_window'', JDict [(''earliest'', JStr (isoformat E (Aware now 0))), (''latest'', JStr latest)]),
              (''worker_class_filter'', JDict [(''allowed'', JList (map JStr allowed))])]),
           (''attestation_requirement'', JDict requirement)] @ rest))"

text \<open>\<open>main\<close>: the task is built, then the expiry is computed from a second reading of the clock.\<close>

definition example_main :: "env \<Rightarrow> params res \<Rightarrow> int \<Rightarrow> int \<Rightarrow> rpc_call res" where
  "example_main E built now hours =
     bindE built (\<lambda>task. bindE (iso_after E now (hours * HOUR)) (\<lambda>expiry. v2_post_task True task expiry None))"

text \<open>The fields a handler reads for its message, \<open>p.get(k)\<close> for each of them.\<close>

definition read_fields :: "string list \<Rightarrow> json \<Rightarrow> unit res" where
  "read_fields ks p = forE (\<lambda>k. bindE (j_get p k JNull) (\<lambda>_. Inr ())) ks"

text \<open>The SDK drops what a handler returns.\<close>

definition drop_result :: "(json \<Rightarrow> json res) \<Rightarrow> handler_fn" where
  "drop_result h task = bindE (h task) (\<lambda>_. Inr ())"

definition evidence :: "string \<Rightarrow> params \<Rightarrow> json" where
  "evidence kind payload = JDict [(''kind'', JStr kind), (''payload'', JDict payload)]"

text \<open>\<open>@worker.capability\<close> with the three arguments the files pass, on a worker of the default principal.\<close>

definition example_worker :: "sdk_identity \<Rightarrow> worker_class \<Rightarrow> string list \<Rightarrow> json list \<Rightarrow> params \<Rightarrow> v2_worker" where
  "example_worker i cls descriptor_types certifications class_extension =
     v2_set_capability descriptor_types certifications None (Some class_extension) None None None
       (new_v2_worker i cls ''did:wcp:example-principal'')"

definition recording :: "string \<Rightarrow> int \<Rightarrow> json" where
  "recording hash seconds =
     evidence ''signed_sensor_recording'' [(''recording_hash'', JStr hash), (''duration_seconds'', JInt seconds)]"

subsection \<open>logistics\<close>

definition build_pallet_move :: "env \<Rightarrow> string \<Rightarrow> int \<Rightarrow> string \<Rightarrow> string \<Rightarrow> string \<Rightarrow> string \<Rightarrow> params res" where
  "build_pallet_move E did now u payload_desc pickup dropoff =
     example_task E did now u ''transport''
       [(''pickup'', JStr pickup), (''dropoff'', JStr dropoff), (''payload_description'', JStr payload_desc),
        (''handoff_protocol'', JStr ''beacon_proximity_then_weight_zero'')]
       2 [''autonomous_robot'', ''human'']
       (example_requirement [''sensor-witness'', ''third-party-witness''] 2 2
          [(''sensor-witness'', [''indoor_pose_track'', ''weight_delta'']), (''third-party-witness'', [''iot_beacon_proximity''])])
       [(''supervision'', JDict [(''default'', JStr ''autonomous'')]), (''max_attestation_attempts'', JInt 1),
        (''accounting_ref'', JStr ''external-allocation''), (''x-subcontract-allowed'', JBool False)]"

definition logistics_main :: "env \<Rightarrow> string \<Rightarrow> int \<Rightarrow> string \<Rightarrow> int \<Rightarrow> rpc_call res" where
  "logistics_main E did now u now' =
     example_main E (build_pallet_move E did now u ''pallet-eur1 of widgets, ~620kg'' ''bay-recv-3'' ''stage-d-row-14'') now' 24"

definition move_pallet :: "env \<Rightarrow> int \<Rightarrow> json \<Rightarrow> json res" where
  "move_pallet E now task =
     bindE (j_get task ''descriptor_payload'' (JDict [])) (\<lambda>p.
     bindE (read_fields [''payload_description'', ''pickup'', ''dropoff''] p) (\<lambda>_.
     Inr (JDict [(''delivered_at'', JStr (isoformat E (Aware now 0)))])))"

definition attest_pose_and_weight :: attest_fn where
  "attest_pose_and_weight claim_id task = Inr (evidence ''indoor_pose_track''
       [(''track'', JList [JDict [(''t'', JStr ''2026-06-01T10:00:00Z''), (''x'', JFloat 0), (''y'', JFloat 0)],
          JDict [(''t'', JStr ''2026-06-01T10:02:00Z''), (''x'', JFloat 12), (''y'', JFloat 5)]])])"

definition attest_bay_beacon :: "env \<Rightarrow> int \<Rightarrow> attest_fn" where
  "attest_bay_beacon E now claim_id task = Inr (evidence ''iot_beacon_proximity''
       [(''beacon_id'', JStr ''staging-bay-3''), (''rssi'', JInt (- 42)), (''observed_at'', JStr (isoformat E (Aware now 0)))])"

definition logistics_worker :: "env \<Rightarrow> sdk_identity \<Rightarrow> int \<Rightarrow> int \<Rightarrow> v2_worker" where
  "logistics_worker E i t now =
     v2_attest THIRD_PARTY_WITNESS (attest_bay_beacon E now)
     (v2_attest SENSOR_WITNESS attest_pose_and_weight
     (v2_handle ''transport'' (drop_result (move_pallet E t))
     (example_worker i AUTONOMOUS_ROBOT [''transport'']
        [JDict [(''issuer'', JStr ''example-warehouse-cert''), (''id'', JStr ''AMR-LICENSE-2026'')]]
        [(''kinematics'', JDict [(''locomotion'', JStr ''wheeled''), (''max_speed_mps'', JFloat (3 / 2)),
           (''footprint_m'', JList [JFloat (5404319552844595 / 2 ^ 52), JFloat (3602879701896397 / 2 ^ 52)])]),
         (''payload'', JDict [(''max_kg'', JInt 800), (''max_dim_m'', JList [JFloat (5404319552844595 / 2 ^ 52),
           JFloat (3602879701896397 / 2 ^ 52), JFloat (3 / 2)])]),
         (''end_effectors'', JList [JDict [(''class'', JStr ''fork''),
           (''rated_for'', JList [JStr ''pallet_eur1'', JStr ''pallet_us48x40''])]])])))"

subsection \<open>disaster-response\<close>

definition build_zone_survey :: "env \<Rightarrow> string \<Rightarrow> int \<Rightarrow> string \<Rightarrow> string \<Rightarrow> json \<Rightarrow> params res" where
  "build_zone_survey E did now u zone_id polygon =
     example_task E did now u ''observe_and_report''
       [(''scope'', JDict [(''zone_id'', JStr zone_id), (''polygon'', polygon)]),
        (''sensor_classes'', JList [JStr ''rgb_camera'', JStr ''thermal_ir'']),
        (''sampling'', JStr ''tile sweep at 25m altitude; closeup over structural damage''),
        (''deliverable_schema'', JStr ''wcp/observation/1.0-rc1''), (''cross_attest_min_witnesses'', JInt 3)]
       4 [''autonomous_robot'', ''teleoperated_robot'', ''human'']
       (example_requirement [''sensor-witness''] 3 5 [(''sensor-witness'', [''photo_with_exif'', ''signed_sensor_recording''])])
       [(''supervision'', JDict [(''default'', JStr ''co_pilot'')]), (''max_attestation_attempts'', JInt 1),
        (''accounting_ref'', JStr ''external-allocation''), (''x-subcontract-allowed'', JBool False)]"

definition disaster_main :: "env \<Rightarrow> string \<Rightarrow> int \<Rightarrow> string \<Rightarrow> int \<Rightarrow> rpc_call res" where
  "disaster_main E did now u now' =
     example_main E (build_zone_survey E did now u ''zone-c-northeast''
       (JList [JList [JInt 0, JInt 0], JList [JInt 100, JInt 0], JList [JInt 100, JInt 80], JList [JInt 0, JInt 80]])) now' 4"

definition survey_zone :: "env \<Rightarrow> int \<Rightarrow> json \<Rightarrow> json res" where
  "survey_zone E now task =
     bindE (j_get task ''descriptor_payload'' (JDict [])) (\<lambda>p.
     bindE (j_get p ''scope'' (JDict [])) (\<lambda>zone.
     bindE (read_fields [''zone_id''] zone) (\<lambda>_.
     Inr (JDict [(''surveyed_at'', JStr (isoformat E (Aware now 0)))]))))"

definition attest_aerial_imagery :: "env \<Rightarrow> int \<Rightarrow> attest_fn" where
  "attest_aerial_imagery E now claim_id task = Inr (evidence ''photo_with_exif''
       [(''photo_hash'', JStr ''demo-aerial-rgb-hash''),
        (''exif'', JDict [(''datetime'', JStr (isoformat E (Aware now 0))), (''gps_lat'', JFloat (1452410879826985 / 2 ^ 50)),
           (''gps_lon'', JFloat (913483056449323 / 2 ^ 43))])])"

definition disaster_worker :: "env \<Rightarrow> sdk_identity \<Rightarrow> int \<Rightarrow> int \<Rightarrow> v2_worker" where
  "disaster_worker E i t now =
     v2_attest SENSOR_WITNESS (attest_aerial_imagery E now)
     (v2_handle ''observe_and_report'' (drop_result (survey_zone E t))
     (example_worker i AUTONOMOUS_ROBOT [''observe_and_report'', ''transport'']
        [JDict [(''issuer'', JStr ''example-aviation-authority''), (''id'', JStr ''EMERGENCY-OPS-2026'')]]
        [(''kinematics'', JDict [(''locomotion'', JStr ''aerial''), (''max_speed_mps'', JFloat 20),
           (''footprint_m'', JList [JFloat (5404319552844595 / 2 ^ 53), JFloat (5404319552844595 / 2 ^ 53)])]),
         (''payload'', JDict [(''max_kg'', JInt 3), (''max_dim_m'', JList [JFloat (5404319552844595 / 2 ^ 54),
           JFloat (5404319552844595 / 2 ^ 54), JFloat (3602879701896397 / 2 ^ 55)])]),
         (''environment'', JDict [(''outdoor'', JBool True), (''ip_rating'', JStr ''IP55''),
           (''operating_temp_c'', JList [JInt (- 5), JInt 45])])]))"

subsection \<open>field-research\<close>

definition build_sample_route :: "env \<Rightarrow> string \<Rightarrow> int \<Rightarrow> string \<Rightarrow> json list \<Rightarrow> params res" where
  "build_sample_route E did now u sites =
     example_task E did now u ''observe_and_report''
       [(''sites'', JList sites),
        (''sample_protocol'', JStr ''ISO-5667-style grab samples with in-situ multiparameter probe''),
        (''sensor_classes'', JList [JStr ''multiparameter_sonde'', JStr ''rgb_camera'']),
        (''deliverable_schema'', JStr ''wcp/observation/1.0-rc1'')]
       10 [''human'', ''autonomous_robot'']
       (example_requirement [''sensor-witness''] 2 2 [(''sensor-witness'', [''gps_track'', ''signed_sensor_recording''])])
       [(''supervision'', JDict [(''default'', JStr ''autonomous'')]), (''max_attestation_attempts'', JInt 1),
        (''accounting_ref'', JStr ''external-allocation''), (''x-subcontract-allowed'', JBool False)]"

definition field_main :: "env \<Rightarrow> string \<Rightarrow> int \<Rightarrow> string \<Rightarrow> int \<Rightarrow> rpc_call res" where
  "field_main E did now u now' =
     example_main E (build_sample_route E did now u
       [JDict [(''site_id'', JStr ''WS-N-001''), (''lat'', JFloat (748723438050345 / 2 ^ 49)), (''lon'', JFloat (7302164583316193 / 2 ^ 46))],
        JDict [(''site_id'', JStr ''WS-N-002''), (''lat'', JFloat (6034823500676465 / 2 ^ 52)), (''lon'', JFloat (3651434135378985 / 2 ^ 45))],
        JDict [(''site_id'', JStr ''WS-N-003''), (''lat'', JFloat (3039929748475085 / 2 ^ 51)), (''lon'', JFloat (7303571958199747 / 2 ^ 46))]])
       now' 12"

definition collect_samples :: "env \<Rightarrow> int \<Rightarrow> json \<Rightarrow> json res" where
  "collect_samples E now task =
     bindE (j_get task ''descriptor_payload'' (JDict [])) (\<lambda>p.
     bindE (j_get p ''sites'' (JList [])) (\<lambda>sites.
     bindE (py_len sites) (\<lambda>n.
     Inr (JDict [(''completed_at'', JStr (isoformat E (Aware now 0))), (''sites_visited'', JInt (int n))]))))"

definition attest_gps_and_sensor :: attest_fn where
  "attest_gps_and_sensor claim_id task = Inr (recording ''demo-sonde-recording-hash'' 600)"

definition field_worker :: "env \<Rightarrow> sdk_identity \<Rightarrow> int \<Rightarrow> v2_worker" where
  "field_worker E i t =
     v2_attest SENSOR_WITNESS attest_gps_and_sensor
     (v2_handle ''observe_and_report'' (drop_result (collect_samples E t))
     (example_worker i HUMAN [''observe_and_report'']
        [JDict [(''issuer'', JStr ''example-research-org''), (''id'', JStr ''FIELD-OPS-L3''), (''expires'', JStr ''2027-12-31'')]]
        [(''role'', JStr ''environmental_field_researcher''),
         (''carried_instruments'', JList [JStr ''multiparameter_sonde'', JStr ''GPS_handheld''])]))"

subsection \<open>healthcare-logistics\<close>

definition build_specimen_transport :: "env \<Rightarrow> string \<Rightarrow> int \<Rightarrow> string \<Rightarrow> string \<Rightarrow> string \<Rightarrow> string \<Rightarrow> params res" where
  "build_specimen_transport E did now u specimen_id pickup dropoff =
     example_task E did now u ''transport''
       [(''specimen_id'', JStr specimen_id), (''pickup'', JStr pickup), (''dropoff'', JStr dropoff),
        (''payload_description'', JStr ''ambient-stable blood-tube panel''),
        (''handoff_protocol'', JStr ''chain_of_custody_signed_at_both_endpoints''),
        (''cold_chain_requirement'', JDict [(''min_c'', JInt 2), (''max_c'', JInt 8), (''max_excursion_minutes'', JInt 5)])]
       3 [''human'', ''hybrid'', ''autonomous_robot'']
       (example_requirement [''sensor-witness'', ''owner-sign-off''] 2 2
          [(''sensor-witness'', [''signed_sensor_recording'']), (''owner-sign-off'', [''whatsapp_business_signed_link''])])
       [(''supervision'', JDict [(''default'', JStr ''autonomous'')]), (''max_attestation_attempts'', JInt 1),
        (''accounting_ref'', JStr ''external-allocation''), (''x-subcontract-allowed'', JBool False)]"

definition healthcare_main :: "env \<Rightarrow> string \<Rightarrow> int \<Rightarrow> string \<Rightarrow> int \<Rightarrow> rpc_call res" where
  "healthcare_main E did now u now' =
     example_main E (build_specimen_transport E did now u ''SPM-2026-05-23-019'' ''draw-site-N3'' ''reference-lab-central'') now' 24"

definition transport_specimen :: "env \<Rightarrow> int \<Rightarrow> json \<Rightarrow> json res" where
  "transport_specimen E now task =
     bindE (j_get task ''descriptor_payload'' (JDict [])) (\<lambda>p.
     bindE (read_fields [''pickup'', ''dropoff''] p) (\<lambda>_.
     Inr (JDict [(''delivered_at'', JStr (isoformat E (Aware now 0)))])))"

definition attest_temp_log :: attest_fn where
  "attest_temp_log claim_id task = Inr (recording ''demo-temp-log-hash'' 1800)"

definition attest_chain_of_custody :: "env \<Rightarrow> int \<Rightarrow> attest_fn" where
  "attest_chain_of_custody E now claim_id task = Inr (evidence ''whatsapp_business_signed_link''
       [(''signing_party_did'', JStr ''did:wcp:example-receiving-lab-tech''), (''signed_token'', JStr ''demo-chain-of-custody-token''),
        (''issued_at'', JStr (isoformat E (Aware now 0)))])"

definition healthcare_worker :: "env \<Rightarrow> sdk_identity \<Rightarrow> int \<Rightarrow> int \<Rightarrow> v2_worker" where
  "healthcare_worker E i t now =
     v2_attest OWNER_SIGN_OFF (attest_chain_of_custody E now)
     (v2_attest SENSOR_WITNESS attest_temp_log
     (v2_handle ''transport'' (drop_result (transport_specimen E t))
     (example_worker i HYBRID [''transport'']
        [JDict [(''issuer'', JStr ''example-health-authority''), (''id'', JStr ''COLD-CHAIN-COURIER-2026''), (''expires'', JStr ''2027-12-31'')]]
        [(''role'', JStr ''specimen_courier''), (''equipment'', JList [JStr ''cold_chain_box_2_8C'', JStr ''GPS_tracker'']),
         (''payload'', JDict [(''max_kg'', JInt 5), (''regulated_classes'', JList [JStr ''specimen'', JStr ''blood_products''])])])))"

subsection \<open>industrial-maintenance\<close>

definition build_thermal_inspection :: "env \<Rightarrow> string \<Rightarrow> int \<Rightarrow> string \<Rightarrow> string \<Rightarrow> params res" where
  "build_thermal_inspection E did now u asset_id =
     example_task E did now u ''observe_and_report''
       [(''asset_id'', JStr asset_id), (''sensor_classes'', JList [JStr ''thermal_ir'', JStr ''rgb_camera'']),
        (''scope'', JDict [(''venue_id'', JStr ''cooling-tower-3''), (''zone_id'', JStr ''deck-c'')]),
        (''sampling'', JStr ''thermal sweep then RGB closeup per bearing race''),
        (''deliverable_schema'', JStr ''wcp/observation/1.0-rc1'')]
       12 [''human'', ''autonomous_robot'', ''hybrid'']
       (example_requirement [''sensor-witness'', ''third-party-witness''] 2 2
          [(''sensor-witness'', [''signed_sensor_recording'']), (''third-party-witness'', [''customer_signature''])])
       [(''max_attestation_attempts'', JInt 2), (''accounting_ref'', JStr (''plant-ops-job-'' @ asset_id)),
        (''supervision'', JDict [(''default'', JStr ''autonomous'')]), (''x-subcontract-allowed'', JBool False)]"

definition industrial_main :: "env \<Rightarrow> string \<Rightarrow> int \<Rightarrow> string \<Rightarrow> int \<Rightarrow> rpc_call res" where
  "industrial_main E did now u now' = example_main E (build_thermal_inspection E did now u ''bearing-tower-3-deck-c'') now' 24"

definition inspect_bearing :: "env \<Rightarrow> int \<Rightarrow> json \<Rightarrow> json res" where
  "inspect_bearing E now task =
     bindE (j_get task ''descriptor_payload'' (JDict [])) (\<lambda>p.
     bindE (j_get p ''asset_id'' (JStr ''unknown'')) (\<lambda>target.
     Inr (JDict [(''inspected_at'', JStr (isoformat E (Aware now 0))), (''asset_id'', target)])))"

definition attest_thermal :: attest_fn where
  "attest_thermal claim_id task = Inr (recording ''demo-thermal-ir-hash'' 120)"

definition attest_supervisor :: attest_fn where
  "attest_supervisor claim_id task = Inr (evidence ''customer_signature''
       [(''signed_text'', JStr ''thermal inspection complete; no out-of-spec bearings''),
        (''signature_image_hash'', JStr ''demo-supervisor-sig-hash'')])"

definition industrial_worker :: "env \<Rightarrow> sdk_identity \<Rightarrow> int \<Rightarrow> v2_worker" where
  "industrial_worker E i t =
     v2_attest THIRD_PARTY_WITNESS attest_supervisor
     (v2_attest SENSOR_WITNESS attest_thermal
     (v2_handle ''observe_and_report'' (drop_result (inspect_bearing E t))
     (example_worker i HYBRID [''observe_and_report'']
        [JDict [(''issuer'', JStr ''example-industry-cert''), (''id'', JStr ''THERMAL-IR-L2''), (''expires'', JStr ''2027-12-31'')]]
        [(''role'', JStr ''bearing_inspector''), (''sensors'', JList [JStr ''thermal_ir'', JStr ''rgb''])])))"

subsection \<open>scientific-ops\<close>

definition build_calibration_task :: "env \<Rightarrow> string \<Rightarrow> int \<Rightarrow> string \<Rightarrow> string \<Rightarrow> int \<Rightarrow> params res" where
  "build_calibration_task E did now u instrument_id duration_minutes =
     example_task E did now u ''scheduled_presence''
       [(''instrument_id'', JStr instrument_id), (''duration_minutes'', JInt duration_minutes),
        (''calibration_protocol'', JStr ''quarterly-NIST-traceable'')]
       8 [''human'', ''semi_autonomous'']
       (example_requirement [''cryptographic-presence'', ''sensor-witness''] 2 2
          [(''cryptographic-presence'', [''geofence_check_in_out'']), (''sensor-witness'', [''signed_sensor_recording''])])
       [(''supervision'', JDict [(''default'', JStr ''autonomous'')]), (''max_attestation_attempts'', JInt 1),
        (''accounting_ref'', JStr ''external-allocation''), (''x-subcontract-allowed'', JBool False)]"

definition scientific_main :: "env \<Rightarrow> string \<Rightarrow> int \<Rightarrow> string \<Rightarrow> int \<Rightarrow> rpc_call res" where
  "scientific_main E did now u now' = example_main E (build_calibration_task E did now u ''spectrometer-12'' 30) now' 24"

definition calibrate :: "env \<Rightarrow> int \<Rightarrow> json \<Rightarrow> json res" where
  "calibrate E now task =
     bindE (j_get task ''descriptor_payload'' (JDict [])) (\<lambda>payload.
     bindE (j_get payload ''instrument_id'' (JStr ''unknown'')) (\<lambda>instrument_id.
     bindE (j_get payload ''duration_minutes'' (JInt 30)) (\<lambda>duration.
     Inr (JDict [(''completed_at'', JStr (isoformat E (Aware now 0))), (''instrument_id'', instrument_id)]))))"

definition attest_presence :: "env \<Rightarrow> int \<Rightarrow> attest_fn" where
  "attest_presence E now claim_id task = Inr (evidence ''geofence_check_in_out''
       [(''check_in_at'', JStr (isoformat E (Aware now 0))), (''check_out_at'', JStr (isoformat E (Aware now 0))),
        (''region'', JDict [(''polygon'', JList [JList [JInt 0, JInt 0], JList [JInt 10, JInt 0], JList [JInt 10, JInt 10],
           JList [JInt 0, JInt 10]])])])"

definition attest_instrument_log :: attest_fn where
  "attest_instrument_log claim_id task = Inr (recording ''demo-instrument-log-hash'' 1800)"

definition scientific_worker :: "env \<Rightarrow> sdk_identity \<Rightarrow> int \<Rightarrow> int \<Rightarrow> v2_worker" where
  "scientific_worker E i t now =
     v2_attest SENSOR_WITNESS attest_instrument_log
     (v2_attest CRYPTOGRAPHIC_PRESENCE (attest_presence E now)
     (v2_handle ''scheduled_presence'' (drop_result (calibrate E t))
     (example_worker i HUMAN [''scheduled_presence'']
        [JDict [(''issuer'', JStr ''example-lab-cert-body''), (''id'', JStr ''CALIB-INSTR-2026''), (''expires'', JStr ''2027-12-31'')]]
        [(''role'', JStr ''calibration_technician''), (''shift_pool'', JStr ''wet-lab'')])))"

subsection \<open>The pair of the federation demo\<close>

text \<open>
  \<open>agent_alpha.py\<close> subscribes with a filter, then posts; each call is in a \<open>try\<close> that logs whatever is
  raised. Its constraints are written in an order of their own.
\<close>

definition build_federated_transport_task :: "env \<Rightarrow> string \<Rightarrow> int \<Rightarrow> string \<Rightarrow> params res" where
  "build_federated_transport_task E did now u =
     bindE (iso_after E now (2 * HOUR)) (\<lambda>latest.
     Inr [(''schema_version'', JStr ''wcp/0.2''), (''task_id'', JStr u), (''posted_by'', JStr did),
       (''descriptor_type'', JStr ''transport''),
       (''descriptor_payload'', JDict [(''pickup_zone'', JStr ''warehouse-london-east-1''), (''delivery_zone'', JStr ''logistics-zone-c-staging''),
          (''payload_class'', JStr ''standard-pallet-eu1''), (''priority'', JStr ''routine'')]),
       (''constraints'', JDict [(''worker_class_filter'', JDict [(''allowed'', JList [JStr ''human'', JStr ''autonomous_robot''])]),
          (''policy_window_intersect'', JStr ''Europe/London''), (''federation_allowed'', JBool True),
          (''time_window'', JDict [(''earliest'', JStr (isoformat E (Aware now 0))), (''latest'', JStr latest)])]),
       (''attestation_requirement'', JDict (example_requirement [''sensor-witness''] 1 1 [(''sensor-witness'', [''gps_track''])])),
       (''max_attestation_attempts'', JInt 1), (''accounting_ref'', JStr ''federation-demo-alpha''),
       (''supervision'', JDict [(''default'', JStr ''autonomous'')]), (''x-subcontract-allowed'', JBool False)])"

definition alpha_subscribe :: "sdk_identity \<Rightarrow> rpc_call res" where
  "alpha_subscribe i =
     discover_capabilities True i (Some [(''federation'', JBool True), (''worker_class_filter'', JList [JStr ''human''])])"

definition alpha_main :: "env \<Rightarrow> string \<Rightarrow> int \<Rightarrow> string \<Rightarrow> int \<Rightarrow> rpc_call res" where
  "alpha_main E did now u now' = example_main E (build_federated_transport_task E did now u) now' 24"

definition handle_transport_task :: "json \<Rightarrow> json res" where
  "handle_transport_task task =
     bindE (j_get task ''descriptor_payload'' (JDict [])) (\<lambda>payload.
     bindE (j_get payload ''pickup_zone'' (JStr ''<unknown>'')) (\<lambda>pickup.
     bindE (j_get payload ''delivery_zone'' (JStr ''<unknown>'')) (\<lambda>delivery.
     Inr (JDict [(''status'', JStr ''completed''), (''delivery_zone'', delivery)]))))"

definition attest_completion :: attest_fn where
  "attest_completion claim_id task = Inr (evidence ''gps_track''
       [(''track'', JList
         [JDict [(''lat'', JFloat (7249022107713221 / 2 ^ 47)), (''lng'', JFloat (- 4604480259023595 / 2 ^ 55)), (''ts'', JStr ''2026-05-23T14:32:01Z'')],
          JDict [(''lat'', JFloat (7249106550206235 / 2 ^ 47)), (''lng'', JFloat (- 290482175965397 / 2 ^ 51)), (''ts'', JStr ''2026-05-23T14:32:05Z'')],
          JDict [(''lat'', JFloat (1812294229737603 / 2 ^ 45)), (''lng'', JFloat (- 1170935903116329 / 2 ^ 53)), (''ts'', JStr ''2026-05-23T14:32:08Z'')]])])"

definition beta_worker :: "sdk_identity \<Rightarrow> v2_worker" where
  "beta_worker i =
     v2_attest SENSOR_WITNESS attest_completion
     (v2_handle ''transport'' (drop_result handle_transport_task)
     (v2_set_capability [''transport''] [JDict [(''kind'', JStr ''forklift_operator_certificate''),
          (''issuing_authority'', JStr ''did:wcp:authority-uk-hse''), (''expiry'', JStr ''2027-12-31'')]] None None None None None
        (new_v2_worker i HUMAN ''did:wcp:example-principal'')))"

subsection \<open>delivery-robot-dispatcher\<close>

definition build_transport_task :: "env \<Rightarrow> string \<Rightarrow> int \<Rightarrow> string \<Rightarrow> string \<Rightarrow> string \<Rightarrow> string \<Rightarrow> params res" where
  "build_transport_task E did now u component_id src destination_workstation =
     example_task E did now u ''transport''
       [(''component_id'', JStr component_id), (''source'', JStr src), (''destination'', JStr destination_workstation),
        (''handoff_protocol'', JStr ''place_on_shelf_via_continuation'')]
       1 [''autonomous_robot'']
       (example_requirement [''sensor-witness'', ''third-party-witness''] 2 2
          [(''sensor-witness'', [''indoor_pose_track'', ''weight_delta'']), (''third-party-witness'', [''iot_beacon_proximity''])])
       [(''supervision'', JDict [(''default'', JStr ''autonomous'')])]"

definition dispatcher_main :: "env \<Rightarrow> string \<Rightarrow> int \<Rightarrow> string \<Rightarrow> int \<Rightarrow> rpc_call res" where
  "dispatcher_main E did now u now' =
     example_main E (build_transport_task E did now u ''component-bb-1042'' ''staging-bay-2'' ''workstation-7'') now' 2"

text \<open>
  \<open>_post_place_on_shelf_continuation\<close>: the call the robot's own agent makes, with the identity \<open>i\<close> and
  the task id \<open>u\<close> it draws and three readings of the clock, and then the call itself, over a
  connection of its own.
\<close>

definition place_on_shelf_call :: "env \<Rightarrow> sdk_identity \<Rightarrow> string \<Rightarrow> int \<Rightarrow> int \<Rightarrow> int \<Rightarrow> string \<Rightarrow> json \<Rightarrow> json \<Rightarrow> rpc_call res" where
  "place_on_shelf_call E i u t1 t2 t3 prior_claim_id destination component_id =
     bindE (new_robot_agent i ''embodied_agent'') (\<lambda>robot.
     bindE (iso_after E t2 (15 * 60000000)) (\<lambda>latest.
     bindE (build_continuation robot u prior_claim_id ''place_on_shelf''
         [(''component_id'', component_id), (''destination_workstation'', destination), (''shelf_orientation_deg'', JInt 0)]
         (Some [''indoor_pose_track'', ''weight_delta''])
         (Some [(''time_window'', JDict [(''earliest'', JStr (isoformat E (Aware t1 0))), (''latest'', JStr latest)]),
                (''worker_class_filter'', JDict [(''allowed'', JList [JStr ''semi_autonomous''])])])
         (Some (example_requirement [''sensor-witness'', ''owner-sign-off''] 2 2
            [(''sensor-witness'', [''manipulator_pose_track'', ''weight_delta'']), (''owner-sign-off'', [''workstation_supervisor_signoff''])]))
         1 (Some ''cost-center-line-7-manipulator-ops'')) (\<lambda>descriptor.
     bindE (iso_after E t3 HOUR) (\<lambda>expiry. post_continuation True prior_claim_id descriptor expiry None))))"

definition onboard_call :: "env \<Rightarrow> rpc_call \<Rightarrow> json robot_run" where
  "onboard_call E c r =
     (case robot_call E c (r\<lparr>ro_client := new_client\<rparr>) of (x, t) \<Rightarrow> (x, t\<lparr>ro_client := ro_client r\<rparr>))"

definition robot_us :: "(nat \<Rightarrow> int) \<Rightarrow> int robot_run" where
  "robot_us C r = (Inr (C (ro_now r)), r\<lparr>ro_now := Suc (ro_now r)\<rparr>)"

definition post_place_on_shelf ::
  "env \<Rightarrow> (nat \<Rightarrow> int) \<Rightarrow> sdk_identity \<Rightarrow> string \<Rightarrow> string \<Rightarrow> json \<Rightarrow> json \<Rightarrow> unit robot_run" where
  "post_place_on_shelf E C i u prior_claim_id destination component_id =
     bindR (robot_us C) (\<lambda>t1. bindR (robot_us C) (\<lambda>t2. bindR (robot_us C) (\<lambda>t3.
     bindR (liftR (place_on_shelf_call E i u t1 t2 t3 prior_claim_id destination component_id)) (\<lambda>c.
     bindR (onboard_call E c) (\<lambda>result.
     bindR (liftR (read_fields [''task_id''] result)) (\<lambda>_. retR ()))))))"

text \<open>
  \<open>move_component\<close>: unlike the handlers above it calls the coordinator, so it is a run of the worker's
  process and not a function of the task.
\<close>

definition move_component :: "env \<Rightarrow> (nat \<Rightarrow> int) \<Rightarrow> sdk_identity \<Rightarrow> string \<Rightarrow> json \<Rightarrow> json robot_run" where
  "move_component E C i u task =
     bindR (liftR (j_get task ''descriptor_payload'' (JDict []))) (\<lambda>p.
     let payload = py_or p (JDict []) in
     bindR (liftR (j_get task ''claim_id'' (JStr []))) (\<lambda>claim_id.
     bindR (liftR (read_fields [''component_id'', ''source'', ''destination''] payload)) (\<lambda>_.
     bindR (robot_us C) (\<lambda>delivered.
     bindR (liftR (j_get payload ''destination'' JNull)) (\<lambda>destination.
     bindR (liftR (j_get payload ''destination'' (JStr ''unknown-workstation''))) (\<lambda>workstation.
     bindR (liftR (j_get payload ''component_id'' (JStr ''unknown''))) (\<lambda>component_id.
     bindR (liftR (to_str claim_id)) (\<lambda>prior_claim_id.
     bindR (post_place_on_shelf E C i u prior_claim_id workstation component_id) (\<lambda>_.
     retR (JDict [(''delivered_at'', JStr (isoformat E (Aware delivered 0))), (''destination'', destination)]))))))))))"

definition attest_amr_pose :: attest_fn where
  "attest_amr_pose claim_id task = Inr (evidence ''indoor_pose_track''
       [(''track'', JList [JDict [(''t'', JStr ''2026-06-01T10:00:00Z''), (''x'', JFloat 0), (''y'', JFloat 0)],
          JDict [(''t'', JStr ''2026-06-01T10:02:00Z''), (''x'', JFloat 15), (''y'', JFloat 5)]]),
        (''weight_delta_kg'', JFloat (6980579422424269 / 2 ^ 49))])"

definition attest_amr_beacon :: "env \<Rightarrow> int \<Rightarrow> attest_fn" where
  "attest_amr_beacon E now claim_id task =
     bindE (j_get task ''descriptor_payload'' (JDict [])) (\<lambda>p.
     bindE (j_get (py_or p (JDict [])) ''destination'' JNull) (\<lambda>destination.
     Inr (evidence ''iot_beacon_proximity''
       [(''beacon_id'', JStr (''beacon-'' @ py_str (float_repr E) destination)), (''rssi'', JInt (- 42)),
        (''observed_at'', JStr (isoformat E (Aware now 0)))])))"

text \<open>What the robot's file registers, with the handler as an argument.\<close>

definition amr_worker :: "env \<Rightarrow> sdk_identity \<Rightarrow> handler_fn \<Rightarrow> int \<Rightarrow> v2_worker" where
  "amr_worker E i handler now =
     v2_attest THIRD_PARTY_WITNESS (attest_amr_beacon E now)
     (v2_attest SENSOR_WITNESS attest_amr_pose
     (v2_handle ''transport'' handler
     (example_worker i AUTONOMOUS_ROBOT [''transport'']
        [JDict [(''issuer'', JStr ''facility-amr-cert''), (''id'', JStr ''AMR-LICENSE-LINE-7-2026'')]]
        [(''kinematics'', JDict [(''locomotion'', JStr ''wheeled''), (''max_speed_mps'', JFloat (3 / 2)),
           (''footprint_m'', JList [JFloat (5404319552844595 / 2 ^ 52), JFloat (3602879701896397 / 2 ^ 52)])]),
         (''payload'', JDict [(''max_kg'', JInt 800), (''max_dim_m'', JList [JFloat (5404319552844595 / 2 ^ 52),
           JFloat (3602879701896397 / 2 ^ 52), JFloat (3 / 2)])]),
         (''end_effectors'', JList [JDict [(''class'', JStr ''fork''),
           (''rated_for'', JList [JStr ''component_tray'', JStr ''pallet_eur1''])]]),
         (''onboard_agent'', JDict [(''agent_class'', JStr ''embodied_agent''), (''post_continuation_supported'', JBool True)])])))"

text \<open>The stationary manipulator that is to take the continuation.\<close>

definition place_component :: "env \<Rightarrow> int \<Rightarrow> json \<Rightarrow> json res" where
  "place_component E now task =
     bindE (j_get task ''descriptor_payload'' (JDict [])) (\<lambda>p.
     bindE (j_get task ''continuation_of'' (JDict [])) (\<lambda>c.
     bindE (read_fields [''component_id'', ''destination_workstation''] (py_or p (JDict []))) (\<lambda>_.
     bindE (read_fields [''claim_id''] (py_or c (JDict []))) (\<lambda>_.
     Inr (JDict [(''placed_at'', JStr (isoformat E (Aware now 0)))])))))"

definition attest_manipulator :: attest_fn where
  "attest_manipulator claim_id task = Inr (evidence ''manipulator_pose_track''
       [(''joint_states'', JList [JDict [(''t'', JStr ''2026-06-01T10:03:00Z''), (''q'', JList (replicate 7 (JFloat 0)))],
          JDict [(''t'', JStr ''2026-06-01T10:03:15Z''), (''q'', JList [JFloat (3602879701896397 / 2 ^ 55), JFloat (1 / 2),
            JFloat (- 3602879701896397 / 2 ^ 54), JFloat (3602879701896397 / 2 ^ 52), JFloat 0,
            JFloat (5404319552844595 / 2 ^ 54), JFloat 0])]]),
        (''weight_delta_kg'', JFloat (- 6980579422424269 / 2 ^ 49))])"

definition attest_signoff :: "env \<Rightarrow> int \<Rightarrow> attest_fn" where
  "attest_signoff E now claim_id task = Inr (evidence ''workstation_supervisor_signoff''
       [(''signed_by'', JStr ''did:wcp:line-7-supervisor''), (''signed_at'', JStr (isoformat E (Aware now 0))),
        (''confirmed'', JBool True)])"

definition manipulator_worker :: "env \<Rightarrow> sdk_identity \<Rightarrow> int \<Rightarrow> int \<Rightarrow> v2_worker" where
  "manipulator_worker E i t now =
     v2_attest OWNER_SIGN_OFF (attest_signoff E now)
     (v2_attest SENSOR_WITNESS attest_manipulator
     (v2_handle ''place_on_shelf'' (drop_result (place_component E t))
     (example_worker i SEMI_AUTONOMOUS [''place_on_shelf'']
        [JDict [(''issuer'', JStr ''facility-manipulator-cert''), (''id'', JStr ''MANIP-LINE-7-2026'')]]
        [(''kinematics'', JDict [(''type'', JStr ''stationary_arm''), (''degrees_of_freedom'', JInt 7),
           (''reach_m'', JFloat (3602879701896397 / 2 ^ 51))]),
         (''payload'', JDict [(''max_kg'', JInt 50)]),
         (''end_effectors'', JList [JDict [(''class'', JStr ''gripper''),
           (''rated_for'', JList [JStr ''component_tray'', JStr ''small_box''])]]),
         (''continuation_aware'', JBool True)])))"

end
