(* ===== verification/Example_Agents_Interop.thy ===== *)
theory Example_Agents_Interop
  imports Example_Agents Sdk_V2_Interop
begin

text \<open>
  The example agents against the coordinator: each posts its task, its worker is dispatched, and
  the table \<open>example_scenarios\<close> says in which state the task ends. The robot dispatcher is apart: the
  handler of its robot posts a task of its own, and that is refused.
\<close>

subsection \<open>Posting\<close>

lemma example_task_Inr:
  "example_task E did now u d payload hours allowed req rest = Inr td \<longleftrightarrow>
    (\<exists>latest. iso_after E now (hours * HOUR) = Inr latest \<and> td =
      [(''schema_version'', JStr ''wcp/0.2''), (''task_id'', JStr u), (''posted_by'', JStr did),
       (''descriptor_type'', JStr d), (''descriptor_payload'', JDict payload),
       (''constraints'', JDict [(''time_window'', JDict [(''earliest'', JStr (isoformat E (Aware now 0))), (''latest'', JStr latest)]),
          (''worker_class_filter'', JDict [(''allowed'', JList (map JStr allowed))])]),
       (''attestation_requirement'', JDict req)] @ rest)"
  by (auto simp: example_task_def)

lemma example_main_Inr:
  "example_main E built now hours = Inr call \<longleftrightarrow>
    (\<exists>td expiry. built = Inr td \<and> iso_after E now (hours * HOUR) = Inr expiry \<and>
      call = (''tasks/post'', [(''task'', JDict td), (''expiry'', JStr expiry)]))"
  by (auto simp: example_main_def v2_post_Inr bindE_Inr)

text \<open>What the posted task and the worker have to be for a run to end in the decision \<open>d\<close> with \<open>m\<close> attempts allowed.\<close>

definition scenario_ok :: "env \<Rightarrow> params \<Rightarrow> v2_worker \<Rightarrow> string \<Rightarrow> string \<Rightarrow> verifier_decision \<Rightarrow> int \<Rightarrow> bool" where
  "scenario_ok E td w did u d m \<longleftrightarrow>
     map_of td ''task_id'' = Some (JStr u) \<and> map_of td ''posted_by'' = Some (JStr did) \<and>
     map_of td ''max_attestation_attempts'' = Some (JInt m) \<and> m \<noteq> 0 \<and> vw_attesters w \<noteq> [] \<and>
     (\<exists>dtype handler outc agg. map_of td ''descriptor_type'' = Some (JStr dtype) \<and> map_of (vw_handlers w) dtype = Some handler \<and>
        handler (JDict td) = Inr () \<and> list_all (attester_ok E (JDict td) (task_payload td) outc) (vw_attesters w) \<and>
        evaluate_threshold E (task_req td) (map (\<lambda>a. (JStr (attestation_mode_value (fst a)), outc (fst a))) (vw_attesters w)) = Inr agg \<and>
        vo_decision agg = d)"

text \<open>The coordinator after the post: the worker is registered for another principal and may claim.\<close>

definition claim_open :: "env \<Rightarrow> sdk_identity \<Rightarrow> string \<Rightarrow> string \<Rightarrow> db \<Rightarrow> bool" where
  "claim_open E i did u t \<longleftrightarrow> ids_fresh E t \<and> list_all attestation_storable (attestations t) \<and> unclaimed t u \<and>
     (\<forall>row. get_task t u = Some row \<longrightarrow> clock E (n_now t) \<le> utc_us (t_expiry row)) \<and>
     (\<exists>w. get_worker t (i_did i) = Some w \<and> w_principal_id w \<noteq> did)"

lemma posted_row:
  assumes "rpc E (''tasks/post'', [(''task'', JDict td), (''expiry'', JStr expiry)]) s = (Result v, t)"
    and "map_of td ''task_id'' = Some (JStr u)" "u \<noteq> []" "map_of td ''posted_by'' = Some (JStr did)"
  shows "\<exists>row. get_task t u = Some row \<and> t_state row = POSTED \<and> t_attestation_attempts_used row = 0 \<and>
    t_task_json row = JDict td \<and> t_posted_by row = did"
proof -
  have "v2_post_task True td expiry None = Inr (''tasks/post'', [(''task'', JDict td), (''expiry'', JStr expiry)])"
    by (simp add: v2_post_Inr)
  from post_ok [OF v2_posts [OF this assms(1)]] assms(2-4) obtain row where
    row: "fresh_task row" "u \<notin> t_task_id ` set (tasks s)" "t_task_json row = JDict (dict_set ''task_id'' (JStr u) td)"
      "did = t_posted_by row" "tasks t = tasks s @ [row]" "t_task_id row = u"
    by auto
  have "dict_set ''task_id'' (JStr u) td = td" using assms(2) by (rule dict_set_same)
  moreover have "get_task t u = Some row" using row(2,5,6) row_get_None [of t_task_id "tasks s" u] by (simp add: row_get_append)
  ultimately show ?thesis using row by (simp add: fresh_task_def)
qed

lemma scenario_runs:
  assumes env: "v2_env E C sk" "identity_from_sk E sk = Inr (vw_identity w)"
    and post: "rpc E (''tasks/post'', [(''task'', JDict td), (''expiry'', JStr expiry)]) s = (Result v, t)" "u \<noteq> []"
    and ok: "scenario_ok E td w did u d m"
    and r: "client_inv (ro_client r)" "ro_coordinator r = t" "claim_open E (vw_identity w) did u t"
    and disp: "arg ''task_id'' disp = JStr u" "arg ''task'' disp = JDict td"
  shows "\<exists>v' r' row. full_lifecycle E C w disp r = (Inr (Some v'), r') \<and>
    j_get v' ''verifier_decision'' JNull = Inr (JStr (verifier_decision_value d)) \<and>
    get_task (ro_coordinator r') u = Some row \<and> t_state row = next_state d 1 m"
proof -
  from ok obtain dtype handler outc agg where
    td: "map_of td ''task_id'' = Some (JStr u)" "map_of td ''posted_by'' = Some (JStr did)"
      "map_of td ''max_attestation_attempts'' = Some (JInt m)" "m \<noteq> 0" "vw_attesters w \<noteq> []"
      "map_of td ''descriptor_type'' = Some (JStr dtype)"
    and user: "map_of (vw_handlers w) dtype = Some handler" "handler (JDict td) = Inr ()"
      "list_all (attester_ok E (JDict td) (task_payload td) outc) (vw_attesters w)"
      "evaluate_threshold E (task_req td) (map (\<lambda>a. (JStr (attestation_mode_value (fst a)), outc (fst a))) (vw_attesters w)) = Inr agg"
      "vo_decision agg = d"
    by (auto simp: scenario_ok_def)
  from posted_row [OF post(1) td(1) post(2) td(2)] obtain row where
    row: "get_task t u = Some row" "t_state row = POSTED" "t_attestation_attempts_used row = 0" "t_task_json row = JDict td" "t_posted_by row = did"
    by blast
  have "v2_claimable E (vw_identity w) u row r"
    using r row by (auto simp: v2_claimable_def claim_open_def Let_def self_dealing_check_def)
  moreover have "v2_dispatch disp u td dtype" using disp td(6) by (simp add: v2_dispatch_def)
  moreover have "max_attempts_of row = Inr m" using row(4) td(3,4) by (simp add: max_attempts_of_def py_or_def)
  ultimately show ?thesis
    using lifecycle_decides [OF env _ user(1) _ row(4) _ user(2,3) td(5) user(4)] user(5) row(3) by auto
qed

subsection \<open>The scenarios\<close>

lemma example_worker_simps [simp]:
  "vw_identity (example_worker i cls ds cs ext) = i" "vw_handlers (example_worker i cls ds cs ext) = []"
  "vw_attesters (example_worker i cls ds cs ext) = []"
  by (simp_all add: example_worker_def v2_set_capability_def new_v2_worker_def Let_def)

text \<open>A builder whose piece is of a registered kind is judged by the verifier of its mode.\<close>

lemma attester_okI:
  assumes "\<And>cid. g cid task = Inr (evidence kind payload)"
    and "\<exists>ks. map_of DEFAULT_REGISTRY (attestation_mode_value m) = Some ks \<and> kind \<in> set ks"
    and "mode_verify m E kind (JDict payload) tp = Inr (outc m)"
  shows "attester_ok E task tp outc (m, g)"
proof -
  from assms(2,3) dispatch_mode_value [of m]
  have "verify_single E DEFAULT_REGISTRY (JStr (attestation_mode_value m)) (JStr kind) (JDict payload) tp = Inr (outc m)"
    by (auto simp: verify_single_def registry_get_def kind_in_def)
  then show ?thesis by (auto simp: attester_ok_def built_ok_def assms(1) evidence_def of_opt_def)
qed

lemma recording_attester:
  assumes "\<And>cid. g cid task = Inr (recording h n)" "outc SENSOR_WITNESS = pass_outcome"
  shows "attester_ok E task tp outc (SENSOR_WITNESS, g)"
  by (rule attester_okI, simp add: assms(1) recording_def) (simp_all add: assms(2) DEFAULT_REGISTRY_def sensor_witness_def)

lemma passing_attesters:
  fixes E :: env and task tp :: json
  defines "ok \<equiv> attester_ok E task tp (\<lambda>_. pass_outcome)"
  shows "ok (SENSOR_WITNESS, attest_pose_and_weight)" "ok (THIRD_PARTY_WITNESS, attest_bay_beacon E now)"
    "ok (SENSOR_WITNESS, attest_aerial_imagery E now)" "ok (OWNER_SIGN_OFF, attest_chain_of_custody E now)"
    "ok (THIRD_PARTY_WITNESS, attest_supervisor)"
  unfolding ok_def
  by (rule attester_okI, (simp add: attest_pose_and_weight_def attest_bay_beacon_def attest_aerial_imagery_def attest_chain_of_custody_def
        attest_supervisor_def; fail), simp add: DEFAULT_REGISTRY_def,
      simp add: sensor_witness_def third_party_witness_def owner_signoff_def need_fields_def py_strip_def py_space_def of_opt_def)+

definition presence_only :: "attestation_mode \<Rightarrow> outcome" where
  "presence_only m = (if m = CRYPTOGRAPHIC_PRESENCE then fail_outcome [''check_out_at must be strictly after check_in_at''] else pass_outcome)"

lemma presence_attester:
  assumes "v2_env E C sk" "datetime_us now"
  shows "attester_ok E task tp presence_only (CRYPTOGRAPHIC_PRESENCE, attest_presence E now)"
proof -
  have "parse_iso E (isoformat E (Aware now 0)) = Inr (Aware now 0)" using assms by (simp add: v2_env_def robot_env_def)
  then show ?thesis
    by (intro attester_okI, simp add: attest_presence_def, simp add: DEFAULT_REGISTRY_def)
      (simp add: of_opt_def cryptographic_presence_def need_fields_def catch_value_error_def presence_only_def)
qed

lemmas worker_facts = v2_attest_def v2_handle_def drop_result_def read_fields_def

lemma m_of_n_decision:
  assumes "req = example_requirement modes M N schema" "M \<le> N" "list_all (\<lambda>o'. vo_decision (snd o') \<noteq> REVIEW) outs"
  shows "\<exists>agg. evaluate_threshold E (JDict req) outs = Inr agg \<and> vo_decision agg = (if M \<le> count_decision PASS outs then PASS else FAIL)"
proof -
  have "count_decision REVIEW outs = 0" using assms(3) by (induction outs) (auto simp: count_decision_def)
  then show ?thesis using assms(1,2)
    by (auto simp: evaluate_threshold_def threshold_m_of_n_def threshold_ints_def example_requirement_def of_opt_def)
qed

lemma task_fields:
  assumes "example_task E did now u d payload hours allowed req rest = Inr td"
  shows "task_payload td = JDict payload" "task_req td = JDict req" "j_get (JDict td) ''descriptor_payload'' (JDict []) = Inr (JDict payload)"
    "map_of td ''task_id'' = Some (JStr u)" "map_of td ''posted_by'' = Some (JStr did)" "map_of td ''descriptor_type'' = Some (JStr d)"
    "k \<notin> {''schema_version'', ''task_id'', ''posted_by'', ''descriptor_type'', ''descriptor_payload'', ''constraints'', ''attestation_requirement''} \<Longrightarrow>
       map_of td k = map_of rest k"
  using assms by (auto simp: example_task_Inr task_payload_def task_req_def)

lemma scenario_okI:
  assumes "example_task E did now u dtype payload hours allowed (example_requirement modes M N schema) rest = Inr td" "M \<le> N"
    and "map_of rest ''max_attestation_attempts'' = Some (JInt m)" "m \<noteq> 0" "vw_attesters w \<noteq> []"
    and "map_of (vw_handlers w) dtype = Some (drop_result h)"
    and "\<And>j. j_get j ''descriptor_payload'' (JDict []) = Inr (JDict payload) \<Longrightarrow> \<exists>x. h j = Inr x"
    and "\<And>task. list_all (attester_ok E task (JDict payload) outc) (vw_attesters w)" "\<And>m. vo_decision (outc m) \<noteq> REVIEW"
    and "d = (if M \<le> count_decision PASS (map (\<lambda>a. (JStr (attestation_mode_value (fst a)), outc (fst a))) (vw_attesters w)) then PASS else FAIL)"
  shows "scenario_ok E td w did u d m"
proof -
  note f = task_fields [OF assms(1)]
  let ?outs = "map (\<lambda>a. (JStr (attestation_mode_value (fst a)), outc (fst a))) (vw_attesters w)"
  have "list_all (\<lambda>o'. vo_decision (snd o') \<noteq> REVIEW) ?outs" using assms(9) by (simp add: list_all_iff)
  from m_of_n_decision [OF refl assms(2) this, of E modes schema] assms(10) obtain agg where
    agg: "evaluate_threshold E (task_req td) ?outs = Inr agg" "vo_decision agg = d" by (auto simp: f(2))
  obtain x where "h (JDict td) = Inr x" using assms(7) [OF f(3)] by blast
  then have "drop_result h (JDict td) = Inr ()" by (simp add: drop_result_def)
  moreover have "map_of td ''max_attestation_attempts'' = Some (JInt m)" using assms(3) f(7) [of "''max_attestation_attempts''"] by simp
  moreover have "list_all (attester_ok E (JDict td) (task_payload td) outc) (vw_attesters w)" using assms(8) by (simp add: f(1))
  ultimately show ?thesis unfolding scenario_ok_def using assms(4-6) agg f(4-6) by blast
qed

lemma passing_scenarioI:
  assumes "example_task E did now u dtype payload hours allowed (example_requirement modes M N schema) rest = Inr td" "M \<le> N"
    and "map_of rest ''max_attestation_attempts'' = Some (JInt m)" "m \<noteq> 0" "vw_attesters w \<noteq> []"
    and "map_of (vw_handlers w) dtype = Some (drop_result h)"
    and "\<And>j. j_get j ''descriptor_payload'' (JDict []) = Inr (JDict payload) \<Longrightarrow> \<exists>x. h j = Inr x"
    and "\<And>task. list_all (attester_ok E task (JDict payload) (\<lambda>_. pass_outcome)) (vw_attesters w)"
    and "d = (if M \<le> int (length (vw_attesters w)) then PASS else FAIL)"
  shows "scenario_ok E td w did u d m"
  by (rule scenario_okI [OF assms(1-8)]) (simp_all add: assms(9) count_decision_def)

lemma logistics_ok: "build_pallet_move E did now u a b c = Inr td \<Longrightarrow> scenario_ok E td (logistics_worker E i t w) did u PASS 1"
  unfolding build_pallet_move_def
  by (erule passing_scenarioI [where h = "move_pallet E t"]) (simp_all add: logistics_worker_def v2_attest_def v2_handle_def move_pallet_def read_fields_def passing_attesters)

lemma disaster_ok: "build_zone_survey E did now u a b = Inr td \<Longrightarrow> scenario_ok E td (disaster_worker E i t w) did u FAIL 1"
  unfolding build_zone_survey_def
  by (erule passing_scenarioI [where h = "survey_zone E t"]) (simp_all add: disaster_worker_def v2_attest_def v2_handle_def survey_zone_def read_fields_def passing_attesters)

lemma field_ok: "build_sample_route E did now u a = Inr td \<Longrightarrow> scenario_ok E td (field_worker E i t) did u FAIL 1"
  unfolding build_sample_route_def
  by (erule passing_scenarioI [where h = "collect_samples E t"]) (simp_all add: field_worker_def v2_attest_def v2_handle_def collect_samples_def
      recording_attester attest_gps_and_sensor_def)

lemma healthcare_ok: "build_specimen_transport E did now u a b c = Inr td \<Longrightarrow> scenario_ok E td (healthcare_worker E i t w) did u PASS 1"
  unfolding build_specimen_transport_def
  by (erule passing_scenarioI [where h = "transport_specimen E t"]) (simp_all add: healthcare_worker_def v2_attest_def v2_handle_def transport_specimen_def read_fields_def
      passing_attesters recording_attester attest_temp_log_def)

lemma industrial_ok: "build_thermal_inspection E did now u a = Inr td \<Longrightarrow> scenario_ok E td (industrial_worker E i t) did u PASS 2"
  unfolding build_thermal_inspection_def
  by (erule passing_scenarioI [where h = "inspect_bearing E t"]) (simp_all add: industrial_worker_def v2_attest_def v2_handle_def inspect_bearing_def
      passing_attesters recording_attester attest_thermal_def)

lemma scientific_ok:
  assumes "v2_env E C sk" "datetime_us w"
  shows "build_calibration_task E did now u a b = Inr td \<Longrightarrow> scenario_ok E td (scientific_worker E i t w) did u FAIL 1"
  unfolding build_calibration_task_def
  by (erule scenario_okI [where outc = presence_only and h = "calibrate E t"]) (simp_all add: scientific_worker_def v2_attest_def v2_handle_def calibrate_def
      recording_attester attest_instrument_log_def presence_attester [OF assms] presence_only_def count_decision_def)

text \<open>The track of the federation worker has latitudes and longitudes where the verifier looks for \<open>t\<close>, \<open>x\<close> and \<open>y\<close>.\<close>

lemma track_attester:
  "attester_ok E task tp (\<lambda>_. fail_outcome [''track sample missing field: t'']) (SENSOR_WITNESS, attest_completion)"
  by (rule attester_okI, simp add: attest_completion_def, simp add: DEFAULT_REGISTRY_def) (simp add: sensor_witness_def need_fields_def)

lemma federated_ok:
  assumes "build_federated_transport_task E did now u = Inr td"
  shows "scenario_ok E td (beta_worker i) did u FAIL 1"
proof -
  let ?w = "beta_worker i" and ?out = "\<lambda>m :: attestation_mode. fail_outcome [''track sample missing field: t'']"
  have w: "vw_handlers ?w = [(''transport'', drop_result handle_transport_task)]" "vw_attesters ?w = [(SENSOR_WITNESS, attest_completion)]"
    by (simp_all add: beta_worker_def v2_attest_def v2_handle_def v2_set_capability_def new_v2_worker_def Let_def)
  from assms have td: "map_of td ''task_id'' = Some (JStr u)" "map_of td ''posted_by'' = Some (JStr did)"
      "map_of td ''max_attestation_attempts'' = Some (JInt 1)" "map_of td ''descriptor_type'' = Some (JStr ''transport'')"
      "task_req td = JDict (example_requirement [''sensor-witness''] 1 1 [(''sensor-witness'', [''gps_track''])])"
      "drop_result handle_transport_task (JDict td) = Inr ()"
    by (auto simp: build_federated_transport_task_def task_req_def drop_result_def handle_transport_task_def)
  have "\<exists>agg. evaluate_threshold E (task_req td) (map (\<lambda>a. (JStr (attestation_mode_value (fst a)), ?out (fst a))) (vw_attesters ?w)) = Inr agg \<and>
      vo_decision agg = FAIL"
    using m_of_n_decision [OF refl, of 1 1 "[(JStr ''sensor-witness'', ?out SENSOR_WITNESS)]" E "[''sensor-witness'']"]
    by (simp add: w(2) td(5) count_decision_def)
  moreover have "list_all (attester_ok E (JDict td) (task_payload td) ?out) (vw_attesters ?w)" using track_attester by (simp add: w(2))
  ultimately show ?thesis unfolding scenario_ok_def using td(1-4,6) w by fastforce
qed

text \<open>
  The seven scenarios: what the agent calls, with its reading of the clock \<open>now\<close>, the task id \<open>u\<close> and the
  later reading \<open>now'\<close>; the worker, its readings \<open>t\<close> in the handler and \<open>w\<close> in the evidence; the
  state the task ends in.
\<close>

definition example_scenarios ::
  "env \<Rightarrow> string \<Rightarrow> int \<Rightarrow> string \<Rightarrow> int \<Rightarrow> sdk_identity \<Rightarrow> int \<Rightarrow> int \<Rightarrow> (rpc_call res \<times> v2_worker \<times> task_state) list" where
  "example_scenarios E did now u now' i t w =
     [(logistics_main E did now u now', logistics_worker E i t w, COMPLETED),
      (healthcare_main E did now u now', healthcare_worker E i t w, COMPLETED),
      (industrial_main E did now u now', industrial_worker E i t, COMPLETED),
      (disaster_main E did now u now', disaster_worker E i t w, VOIDED),
      (field_main E did now u now', field_worker E i t, VOIDED),
      (scientific_main E did now u now', scientific_worker E i t w, VOIDED),
      (alpha_main E did now u now', beta_worker i, VOIDED)]"

lemma scenario_in_table:
  assumes "v2_env E C sk" "datetime_us w" "(Inr call, worker, st) \<in> set (example_scenarios E did now u now' i t w)"
  shows "\<exists>td expiry d m. call = (''tasks/post'', [(''task'', JDict td), (''expiry'', JStr expiry)]) \<and>
    scenario_ok E td worker did u d m \<and> st = next_state d 1 m \<and> vw_identity worker = i"
proof -
  have id: "vw_identity (logistics_worker E i t w) = i" "vw_identity (healthcare_worker E i t w) = i" "vw_identity (industrial_worker E i t) = i"
      "vw_identity (disaster_worker E i t w) = i" "vw_identity (field_worker E i t) = i" "vw_identity (scientific_worker E i t w) = i"
      "vw_identity (beta_worker i) = i"
    by (simp_all add: beta_worker_def v2_set_capability_def new_v2_worker_def Let_def logistics_worker_def healthcare_worker_def industrial_worker_def disaster_worker_def field_worker_def
        scientific_worker_def v2_attest_def v2_handle_def)
  note [simp] = eq_commute [of "Inr call"] example_main_Inr next_state_def id
  from assms(3) consider "logistics_main E did now u now' = Inr call" "worker = logistics_worker E i t w" "st = COMPLETED"
    | "healthcare_main E did now u now' = Inr call" "worker = healthcare_worker E i t w" "st = COMPLETED"
    | "industrial_main E did now u now' = Inr call" "worker = industrial_worker E i t" "st = COMPLETED"
    | "disaster_main E did now u now' = Inr call" "worker = disaster_worker E i t w" "st = VOIDED"
    | "field_main E did now u now' = Inr call" "worker = field_worker E i t" "st = VOIDED"
    | "scientific_main E did now u now' = Inr call" "worker = scientific_worker E i t w" "st = VOIDED"
    | "alpha_main E did now u now' = Inr call" "worker = beta_worker i" "st = VOIDED"
    unfolding example_scenarios_def by (simp only: set_simps insert_iff empty_iff prod.inject simp_thms) (metis (no_types))
  then show ?thesis
  proof cases
    case 1 then show ?thesis using logistics_ok [of E did now u] by (fastforce simp: logistics_main_def)
  next
    case 2 then show ?thesis using healthcare_ok [of E did now u] by (fastforce simp: healthcare_main_def)
  next
    case 3 then show ?thesis using industrial_ok [of E did now u] by (fastforce simp: industrial_main_def)
  next
    case 4 then show ?thesis using disaster_ok [of E did now u] by (fastforce simp: disaster_main_def)
  next
    case 5 then show ?thesis using field_ok [of E did now u] by (fastforce simp: field_main_def)
  next
    case 6 then show ?thesis using scientific_ok [OF assms(1,2), of did now u] by (fastforce simp: scientific_main_def)
  next
    case 7 then show ?thesis using federated_ok [of E did now u] by (fastforce simp: alpha_main_def)
  qed
qed

text \<open>
  C27: The example scenarios, run to their end: let the coordinator have answered the agent's call
  and let the worker of the same scenario be registered for another principal, the task
  unexpired and unclaimed. Then under every schedule of heartbeats the worker's run returns a
  decision; the pallet move, the specimen transport and the thermal inspection are completed,
  and the zone survey, the sample route, the calibration and the transport of the federation
  demo are voided: the first two ask for more passing pieces than their worker builds, the
  third checks out at the time it checks in, the last has no field the verifier looks for.
\<close>

theorem example_outcomes:
  assumes "v2_env E C sk" "identity_from_sk E sk = Inr i" "datetime_us w" "u \<noteq> []"
    and "(Inr call, worker, st) \<in> set (example_scenarios E did now u now' i t w)"
    and "rpc E call s = (Result v, s')" "claim_open E i did u s'"
    and "client_inv (ro_client r)" "ro_coordinator r = s'"
    and "arg ''task_id'' disp = JStr u" "arg ''task'' disp = arg ''task'' (snd call)"
  shows "\<exists>v' r' row. full_lifecycle E C worker disp r = (Inr (Some v'), r') \<and>
    j_get v' ''verifier_decision'' JNull = Inr (JStr (if st = COMPLETED then ''pass'' else ''fail'')) \<and>
    get_task (ro_coordinator r') u = Some row \<and> t_state row = st"
proof -
  from scenario_in_table [OF assms(1,3,5)] obtain td expiry d m where
    sc: "call = (''tasks/post'', [(''task'', JDict td), (''expiry'', JStr expiry)])" "scenario_ok E td worker did u d m"
      "st = next_state d 1 m" "vw_identity worker = i"
    by blast
  have "(if st = COMPLETED then ''pass'' else ''fail'') = verifier_decision_value d" if "d \<noteq> REVIEW"
    using sc(3) that by (cases d) (simp_all add: next_state_def)
  moreover have "d \<noteq> REVIEW" using sc(3) assms(5) by (auto simp: next_state_def example_scenarios_def)
  moreover have "arg ''task'' disp = JDict td" using assms(11) sc(1) by (simp add: arg_def)
  moreover note scenario_runs [where disp = disp and r = r, OF assms(1) assms(2) [folded sc(4)] assms(6) [unfolded sc(1)] assms(4) sc(2) assms(8,9)
      assms(7) [folded sc(4)] assms(10)]
  ultimately show ?thesis by (simp add: sc(3))
qed

lemma example_checks:
  assumes "example_task E did now u dtype payload hours allowed (example_requirement modes M N schema) rest = Inr td"
    and "modes \<noteq> []" "M \<le> N" "\<forall>(m, ks) \<in> set schema. \<forall>k \<in> set ks. \<exists>rs. map_of DEFAULT_REGISTRY m = Some rs \<and> k \<in> set rs"
    and "\<not> eq_in (JStr dtype) out_of_scope" "''settlement'' \<notin> fst ` set rest" "map_of rest ''x-subcontract-allowed'' \<noteq> Some (JBool True)"
  shows "post_checks E DEFAULT_REGISTRY td = Inr ()"
proof -
  let ?req = "JDict (example_requirement modes M N schema)"
  have "forE (validate_kinds E DEFAULT_REGISTRY) (map schema_entry schema) = Inr ()"
    unfolding forE_Inr using assms(4) by (auto simp: schema_entry_def intro!: validate_kinds_ok)
  then have "validate_attestation_requirement E DEFAULT_REGISTRY ?req = Inr ()"
    using assms(2,3) by (cases schema) (simp_all add: validate_attestation_requirement_def example_requirement_def py_or_def)
  moreover have "reject_legacy ?req = Inr ()" by (simp add: reject_legacy_def legacy_fields_def example_requirement_def)
  ultimately show ?thesis using assms(1,5-7)
    by (auto simp: example_task_Inr post_checks_def raise_if_def split: option.splits)
qed

text \<open>The tasks of all seven agents pass the checks of \<open>tasks/post\<close>.\<close>

lemma example_posts_checked:
  assumes "Inr call \<in> {logistics_main E did now u now', healthcare_main E did now u now', industrial_main E did now u now',
      disaster_main E did now u now', field_main E did now u now', scientific_main E did now u now', dispatcher_main E did now u now'}"
  shows "\<exists>td expiry. call = (''tasks/post'', [(''task'', JDict td), (''expiry'', JStr expiry)]) \<and> post_checks E DEFAULT_REGISTRY td = Inr ()"
  using assms
  by (auto simp: logistics_main_def healthcare_main_def industrial_main_def disaster_main_def field_main_def scientific_main_def
      dispatcher_main_def build_pallet_move_def build_specimen_transport_def build_thermal_inspection_def build_zone_survey_def
      build_sample_route_def build_calibration_task_def build_transport_task_def eq_commute [of "Inr call"] example_main_Inr)
    (erule example_checks; simp add: DEFAULT_REGISTRY_def out_of_scope_def)+
subsection \<open>The robot dispatcher\<close>

lemma place_on_shelf_refused:
  assumes "place_on_shelf_call E i u t1 t2 t3 prior dest part = Inr c"
  shows "\<exists>msg. rpc E c s = (RpcError INVALID_ATTESTATION_REQUIREMENT msg, s)"
proof -
  let ?req = "[(''modes'', JList [JStr ''sensor-witness'', JStr ''owner-sign-off'']), (''threshold'', JStr ''M-of-N''), (''M'', JInt 2), (''N'', JInt 2),
     (''evidence_schema'', JList [JDict [(''mode'', JStr ''sensor-witness''), (''kinds'', JList [JStr ''manipulator_pose_track'', JStr ''weight_delta''])],
       JDict [(''mode'', JStr ''owner-sign-off''), (''kinds'', JList [JStr ''workstation_supervisor_signoff''])]])]"
  from assms have "\<exists>d expiry. map_of d ''attestation_requirement'' = Some (JDict ?req) \<and> ''settlement'' \<notin> fst ` set d \<and>
      c = (''tasks/post'', [(''task'', JDict d), (''expiry'', JStr expiry)])"
    by (clarsimp simp: place_on_shelf_call_def new_robot_agent_def VALID_AGENT_CLASSES_def build_continuation_def Let_def
        example_requirement_def schema_entry_def post_continuation_def v2_post_Inr arg_def py_or_def)
  then obtain d expiry where d: "map_of d ''attestation_requirement'' = Some (JDict ?req)" "''settlement'' \<notin> fst ` set d"
    and c: "c = (''tasks/post'', [(''task'', JDict d), (''expiry'', JStr expiry)])" by blast
  have "\<exists>m. post_checks E DEFAULT_REGISTRY d = Inl (ValueError (''INVALID_ATTESTATION_REQUIREMENT: kind '' @ m))"
    using d by (simp add: post_checks_def raise_if_def reject_legacy_def legacy_fields_def validate_attestation_requirement_def py_or_def
        validate_kinds_def registry_get_def kind_in_def DEFAULT_REGISTRY_def)
  then obtain m where "task_post E DEFAULT_REGISTRY d expiry [] s = (Inl (ValueError (''INVALID_ATTESTATION_REQUIREMENT: kind '' @ m)), s)"
    by (auto simp: task_post_def bindS_def lift_def)
  moreover have "map_value_error (''INVALID_ATTESTATION_REQUIREMENT: kind '' @ m) =
      RpcError INVALID_ATTESTATION_REQUIREMENT (''INVALID_ATTESTATION_REQUIREMENT: kind '' @ m)"
    by (simp add: map_value_error_def error_prefixes_def startswith_def)
  ultimately show ?thesis
    by (simp add: c rpc_def dispatch_def methods_def py_or_def v2_post_call [of "[]", simplified])
qed

lemma onboard_refused:
  assumes "place_on_shelf_call E i u t1 t2 t3 prior dest part = Inr c"
  shows "\<exists>msg r'. onboard_call E c r = (Inl (WcpRpcError (JInt INVALID_ATTESTATION_REQUIREMENT) (JStr msg) JNull), r') \<and>
    ro_coordinator r' = ro_coordinator r"
proof -
  from place_on_shelf_refused [OF assms] obtain msg where
    "dispatch E (JStr (fst c)) (JDict (snd c)) (ro_coordinator r) = (RpcError INVALID_ATTESTATION_REQUIREMENT msg, ro_coordinator r)"
    by (auto simp: rpc_def)
  then show ?thesis
    using robot_call_RpcError [of "r\<lparr>ro_client := new_client\<rparr>" E c INVALID_ATTESTATION_REQUIREMENT msg "ro_coordinator r"]
    by (simp add: onboard_call_def db_rollback_def client_inv_def new_client_def)
qed

text \<open>Runs that leave the coordinator alone, and among them those that never return.\<close>

definition quiet :: "'a robot_run \<Rightarrow> bool" where
  "quiet m \<longleftrightarrow> (\<forall>r. ro_coordinator (snd (m r)) = ro_coordinator r)"

definition stuck :: "'a robot_run \<Rightarrow> bool" where
  "stuck m \<longleftrightarrow> (\<forall>r. \<exists>e r'. m r = (Inl e, r') \<and> ro_coordinator r' = ro_coordinator r)"

lemma quiet_basic: "quiet (liftR x)" "quiet (robot_us C)"
  by (simp_all add: quiet_def liftR_def robot_us_def split: sum.split)

lemma stuck_first:
  assumes "stuck m"
  shows "stuck (bindR m f)"
  unfolding stuck_def
proof
  fix r
  from assms obtain e r' where "m r = (Inl e, r')" "ro_coordinator r' = ro_coordinator r" unfolding stuck_def by blast
  then show "\<exists>e r'. bindR m f r = (Inl e, r') \<and> ro_coordinator r' = ro_coordinator r" by (simp add: bindR_def)
qed

lemma stuck_later:
  assumes "quiet m" "\<And>x. stuck (f x)"
  shows "stuck (bindR m f)"
  unfolding stuck_def
proof
  fix r
  have q: "ro_coordinator (snd (m r)) = ro_coordinator r" using assms(1) by (simp add: quiet_def)
  show "\<exists>e r'. bindR m f r = (Inl e, r') \<and> ro_coordinator r' = ro_coordinator r"
  proof (cases "m r")
    case (Pair y t)
    show ?thesis
    proof (cases y)
      case (Inr x)
      from assms(2) [of x] obtain e r' where "f x t = (Inl e, r')" "ro_coordinator r' = ro_coordinator t" unfolding stuck_def by blast
      then show ?thesis using q Pair Inr by (simp add: bindR_def)
    qed (use q Pair in \<open>simp add: bindR_def\<close>)
  qed
qed

lemma onboard_stuck:
  assumes "place_on_shelf_call E i u t1 t2 t3 prior dest part = Inr c"
  shows "stuck (onboard_call E c)"
  unfolding stuck_def using onboard_refused [OF assms] by blast

lemma shelf_stuck: "stuck (post_place_on_shelf E C i u prior dest part)"
proof -
  have call: "stuck (bindR (liftR (place_on_shelf_call E i u t1 t2 t3 prior dest part)) (\<lambda>c. bindR (onboard_call E c) (f c)))" for t1 t2 t3 f
  proof (cases "place_on_shelf_call E i u t1 t2 t3 prior dest part")
    case (Inr c)
    with stuck_first [OF onboard_stuck [OF Inr], of "f c"] show ?thesis by (simp add: stuck_def)
  qed (simp add: stuck_def)
  show ?thesis unfolding post_place_on_shelf_def
    by (rule stuck_later, rule quiet_basic, rule stuck_later, rule quiet_basic, rule stuck_later, rule quiet_basic, rule call)
qed

lemma shelf_error:
  assumes "\<And>n. datetime_us (C n) \<and> datetime_us (C n + HOUR)"
  shows "\<exists>msg r'. post_place_on_shelf E C i u prior dest part r = (Inl (WcpRpcError (JInt INVALID_ATTESTATION_REQUIREMENT) (JStr msg) JNull), r')"
proof -
  have "iso_after E (C n) (15 * 60000000) = Inr (isoformat E (Aware (C n + 900000000) 0))" "iso_after E (C n) HOUR = Inr (isoformat E (Aware (C n + HOUR) 0))" for n
    using assms [of n] by (simp_all add: iso_after_def datetime_us_def HOUR_def)
  then obtain c where c: "place_on_shelf_call E i u (C (ro_now r)) (C (Suc (ro_now r))) (C (Suc (Suc (ro_now r)))) prior dest part = Inr c"
    by (simp add: place_on_shelf_call_def new_robot_agent_def VALID_AGENT_CLASSES_def build_continuation_def Let_def
        post_continuation_def v2_post_task_def need_session_def arg_def py_or_def)
  from onboard_refused [OF c, of "r\<lparr>ro_now := Suc (Suc (Suc (ro_now r)))\<rparr>"] show ?thesis
    by (auto simp: post_place_on_shelf_def bindR_def robot_us_def liftR_def c)
qed

text \<open>What the manipulator would attest is worth nothing: both verdicts are fail.\<close>

lemma manipulator_fails:
  "\<exists>b b'. attest_manipulator cid task = Inr b \<and> attest_signoff E now cid task = Inr b' \<and>
    (\<forall>(mode, piece) \<in> {(SENSOR_WITNESS, b), (OWNER_SIGN_OFF, b')}. \<exists>kind payload out. j_item piece ''kind'' = Inr kind \<and> j_item piece ''payload'' = Inr payload \<and>
      verify_single E DEFAULT_REGISTRY (JStr (attestation_mode_value mode)) kind payload tp = Inr out \<and> vo_decision out = FAIL)"
  using dispatch_mode_value [of SENSOR_WITNESS] dispatch_mode_value [of OWNER_SIGN_OFF]
  by (simp add: attest_manipulator_def attest_signoff_def evidence_def of_opt_def verify_single_def registry_get_def kind_in_def
      DEFAULT_REGISTRY_def sensor_witness_def del: bindE_Inr)

text \<open>
  C28: The robot-as-agent example never hands on: whatever the task is and in whatever state the
  coordinator is, the handler of the mobile robot ends with an exception and leaves the
  coordinator as it was, because the follow-up it posts names a sign-off kind that is not
  registered; when the task is readable and the clock in range the exception is the
  coordinator's INVALID_ATTESTATION_REQUIREMENT.
\<close>

theorem robot_handover_refused:
  "\<exists>e r'. move_component E C i u task r = (Inl e, r') \<and> ro_coordinator r' = ro_coordinator r \<and>
     (\<forall>d p. task = JDict d \<and> map_of d ''claim_id'' = None \<and> map_of d ''descriptor_payload'' = Some (JDict p) \<and>
        (\<forall>n. datetime_us (C n) \<and> datetime_us (C n + HOUR)) \<longrightarrow>
      (\<exists>msg. e = WcpRpcError (JInt INVALID_ATTESTATION_REQUIREMENT) (JStr msg) JNull))"
proof -
  have "stuck (move_component E C i u task)"
    unfolding move_component_def Let_def by (rule stuck_later stuck_first shelf_stuck quiet_basic)+
  then obtain e r' where r': "move_component E C i u task r = (Inl e, r')" "ro_coordinator r' = ro_coordinator r"
    unfolding stuck_def by blast
  moreover have "\<exists>msg. e = WcpRpcError (JInt INVALID_ATTESTATION_REQUIREMENT) (JStr msg) JNull"
    if "task = JDict d" "map_of d ''claim_id'' = None" "map_of d ''descriptor_payload'' = Some (JDict p)"
      "\<forall>n. datetime_us (C n) \<and> datetime_us (C n + HOUR)" for d p
  proof -
    from that(4) have rng: "\<And>n. datetime_us (C n) \<and> datetime_us (C n + HOUR)" by blast
    have "py_or (JDict p) (JDict []) = JDict p" by (simp add: py_or_def)
    moreover have "\<exists>msg x. post_place_on_shelf E C i u []
        (case map_of p ''destination'' of None \<Rightarrow> JStr ''unknown-workstation'' | Some v \<Rightarrow> v)
        (case map_of p ''component_id'' of None \<Rightarrow> JStr ''unknown'' | Some v \<Rightarrow> v) (r\<lparr>ro_now := Suc (ro_now r)\<rparr>) =
        (Inl (WcpRpcError (JInt INVALID_ATTESTATION_REQUIREMENT) (JStr msg) JNull), x)"
      by (rule shelf_error) (rule rng)
    ultimately show ?thesis
      using r'(1) that(1-3) by (auto simp: move_component_def read_fields_def bindR_def liftR_def robot_us_def)
  qed
  ultimately show ?thesis by blast
qed

subsection \<open>A concrete run\<close>

lemma sample_iso_parse: "datetime_us n \<Longrightarrow> parse_iso sample_env (isoformat sample_env (Aware n 0)) = Inr (Aware n 0)"
  using v2_sample_env by (simp only: v2_env_def robot_env_def)

definition sample_route :: "json list \<Rightarrow> params" where
  "sample_route sites = (case build_sample_route sample_env agent_did 0 ''T'' sites of Inr td \<Rightarrow> td | Inl _ \<Rightarrow> [])"

lemma sample_route: "build_sample_route sample_env agent_did 0 ''T'' sites = Inr (sample_route sites)"
  by (simp add: sample_route_def build_sample_route_def example_task_def iso_after_def datetime_us_def HOUR_def)

lemma sample_route_fields:
  "map_of (sample_route sites) ''task_id'' = Some (JStr ''T'')" "map_of (sample_route sites) ''posted_by'' = Some (JStr agent_did)"
  "map_of (sample_route sites) ''descriptor_type'' = Some (JStr ''observe_and_report'')"
  using task_fields(4-6) [OF sample_route [unfolded build_sample_route_def]] by simp_all

lemma sample_route_eligible: "workers s = workers run1 \<Longrightarrow> count_eligible (JDict (sample_route sites)) s = Inr 0"
  by (simp add: sample_route_def build_sample_route_def example_task_def iso_after_def datetime_us_def HOUR_def example_requirement_def
     count_eligible_def class_filter_of_def capability_query_of_def task_venue_def py_or_def
     matching_workers_def worker_matches_def run1_tables methods_ok_def sample_caps_def required_block_def
     get_set_def py_set_def required_matches_def andE_def set_sub_def bind_classes_def class_in_def)

lemma sample_route_posted:
  "\<exists>v t. rpc sample_env (''tasks/post'', [(''task'', JDict (sample_route sites)), (''expiry'', JStr (isoformat sample_env (Aware (12 * HOUR) 0)))]) run1 =
     (Result v, t) \<and> claim_open sample_env sdk_worker agent_did ''T'' t"
proof -
  have "post_checks sample_env DEFAULT_REGISTRY (sample_route sites) = Inr ()"
    by (rule example_checks [OF sample_route [unfolded build_sample_route_def]]) (simp_all add: DEFAULT_REGISTRY_def out_of_scope_def)
  moreover have "parse_iso sample_env (isoformat sample_env (Aware (12 * HOUR) 0)) = Inr (Aware (12 * HOUR) 0)"
    by (rule sample_iso_parse) (simp add: HOUR_def datetime_us_def)
  ultimately show ?thesis
    by (simp add: rpc_def dispatch_def methods_def py_or_def v2_post_call [of "[]", simplified] task_post_def sample_route_fields Let_def
        dict_set_same resolve_or_value_error_def access_defs row_add_def audit_append_run bindS_def run1_tables sample_route_eligible claim_open_def ids_fresh_def
        unclaimed_def sdk_worker_def HOUR_def new_entry_def dids_nonempty(3) [symmetric])
qed

theorem example_outcomes_witness:
  "\<exists>call v t v' r' row. field_main sample_env agent_did 0 ''T'' 0 = Inr call \<and> rpc sample_env call run1 = (Result v, t) \<and>
     full_lifecycle sample_env (\<lambda>n. 0) (field_worker sample_env sdk_worker 0) [(''task_id'', JStr ''T''), (''task'', arg ''task'' (snd call))]
       \<lparr>ro_client = new_client, ro_coordinator = t, ro_now = 0, ro_schedule = [1, 0, 2]\<rparr> = (Inr (Some v'), r') \<and>
     get_task (ro_coordinator r') ''T'' = Some row \<and> t_state row = VOIDED"
proof -
  have "iso_after sample_env 0 (12 * HOUR) = Inr (isoformat sample_env (Aware (12 * HOUR) 0))"
    by (simp add: iso_after_def HOUR_def datetime_us_def)
  then obtain sites where call: "field_main sample_env agent_did 0 ''T'' 0 = Inr (''tasks/post'',
      [(''task'', JDict (sample_route sites)), (''expiry'', JStr (isoformat sample_env (Aware (12 * HOUR) 0)))])" (is "_ = Inr ?call")
    unfolding field_main_def example_main_def sample_route by (simp add: v2_post_task_def need_session_def)
  from sample_route_posted [of sites] obtain v t where t: "rpc sample_env ?call run1 = (Result v, t)"
    "claim_open sample_env sdk_worker agent_did ''T'' t" by blast
  have mem: "(Inr ?call, field_worker sample_env sdk_worker 0, VOIDED) \<in> set (example_scenarios sample_env agent_did 0 ''T'' 0 sdk_worker 0 0)"
    by (simp add: example_scenarios_def call)
  from example_outcomes [OF v2_sample_env sdk_worker_identity _ _ mem t, of "\<lparr>ro_client = new_client, ro_coordinator = t, ro_now = 0, ro_schedule = [1, 0, 2]\<rparr>"
      "[(''task_id'', JStr ''T''), (''task'', arg ''task'' (snd ?call))]"] call t
  show ?thesis by (auto simp: arg_def client_inv_def new_client_def datetime_us_def)
qed

theorem robot_handover_refused_witness:
  "\<exists>msg r'. move_component sample_env (\<lambda>n. 0) sdk_worker ''T2'' (JDict [(''descriptor_payload'', JDict [(''destination'', JStr ''workstation-7'')])])
       v2_sample_state = (Inl (WcpRpcError (JInt INVALID_ATTESTATION_REQUIREMENT) (JStr msg) JNull), r') \<and> ro_coordinator r' = run2"
  using robot_handover_refused [of sample_env "\<lambda>n. 0" sdk_worker "''T2''"
      "JDict [(''descriptor_payload'', JDict [(''destination'', JStr ''workstation-7'')])]" v2_sample_state]
  by (auto simp: datetime_us_def HOUR_def v2_sample_state_def)

end
