(* ===== verification/Scaffold.thy ===== *)
theory Scaffold
  imports Example_Agents Mqtt_Adapters "HOL-Library.List_Lexorder" "HOL-Library.Sublist"
begin

text \<open>
  \<open>wcp_cli/\<close>: what \<open>wcp init\<close> writes (\<open>commands/init.py\<close>), the programs it writes
  (\<open>templates/agent/agent.py\<close> and the fourteen \<open>templates/\<dots>/worker/worker.py\<close>) and \<open>wcp register\<close>
  (\<open>commands/register.py\<close>).

  A file system is a finite list of paths with what is there; a path is the list of its parts. The
  commands are runs over it that raise \<open>ClickException\<close> or an error of the operating system. The
  worker class and the coordinator a template is instantiated with are arguments.
\<close>

subsection \<open>The workers of the templates\<close>

text \<open>
  Thirteen templates have the same shape: a handler for the first declared type and one evidence
  builder that returns a constant.
\<close>

definition handle_primary :: "env \<Rightarrow> int \<Rightarrow> string \<Rightarrow> json \<Rightarrow> json res" where
  "handle_primary E now domain task =
     bindE (j_get task ''descriptor_payload'' (JDict [])) (\<lambda>payload.
     Inr (JDict [(''completed_at'', JStr (isoformat E (Aware now 0))), (''domain'', JStr domain)]))"

definition template_worker ::
  "env \<Rightarrow> sdk_identity \<Rightarrow> worker_class \<Rightarrow> int \<Rightarrow> string \<Rightarrow> string list \<Rightarrow> string \<Rightarrow> attestation_mode \<Rightarrow> json \<Rightarrow> v2_worker" where
  "template_worker E i cls t domain descriptor_types primary mode piece =
     v2_attest mode (\<lambda>claim_id task. Inr piece)
     (v2_handle primary (drop_result (handle_primary E t domain))
     (example_worker i cls descriptor_types [] [(''domain'', JStr domain)]))"

definition one_point :: "string \<Rightarrow> json" where
  "one_point kind = evidence kind
     [(''track'', JList [JDict [(''t'', JStr ''2026-06-01T10:00:00Z''), (''x'', JFloat 0), (''y'', JFloat 0)]])]"

definition one_photo :: json where
  "one_photo = evidence ''photo_with_exif''
     [(''photo_hash'', JStr ''demo''), (''exif'', JDict [(''datetime'', JStr ''2026-06-01T10:00:00Z'')])]"

definition agriculture_worker where
  "agriculture_worker E i cls t = template_worker E i cls t ''agriculture'' [''observe_and_report'', ''scheduled_presence'']
     ''observe_and_report'' SENSOR_WITNESS (one_point ''gps_track'')"

definition construction_worker where
  "construction_worker E i cls t = template_worker E i cls t ''construction'' [''observe_and_report'', ''scheduled_presence'']
     ''observe_and_report'' SENSOR_WITNESS one_photo"

definition disaster_template where
  "disaster_template E i cls t = template_worker E i cls t ''disaster'' [''observe_and_report'', ''transport'']
     ''observe_and_report'' SENSOR_WITNESS (one_point ''gps_track'')"

definition emergency_worker where
  "emergency_worker E i cls t = template_worker E i cls t ''emergency'' [''transport'', ''observe_and_report'']
     ''transport'' SENSOR_WITNESS (one_point ''gps_track'')"

definition healthcare_template where
  "healthcare_template E i cls t = template_worker E i cls t ''healthcare'' [''transport'', ''scheduled_presence'']
     ''transport'' SENSOR_WITNESS (one_point ''gps_track'')"

definition industrial_template where
  "industrial_template E i cls t = template_worker E i cls t ''industrial'' [''transport'', ''scheduled_presence'', ''observe_and_report'']
     ''transport'' SENSOR_WITNESS (one_point ''indoor_pose_track'')"

definition infrastructure_worker where
  "infrastructure_worker E i cls t = template_worker E i cls t ''infrastructure'' [''observe_and_report'', ''scheduled_presence'']
     ''observe_and_report'' SENSOR_WITNESS one_photo"

definition logistics_template where
  "logistics_template E i cls t = template_worker E i cls t ''logistics'' [''transport'']
     ''transport'' SENSOR_WITNESS (one_point ''indoor_pose_track'')"

definition manufacturing_worker where
  "manufacturing_worker E i cls t = template_worker E i cls t ''manufacturing'' [''transport'', ''scheduled_presence'']
     ''transport'' SENSOR_WITNESS (one_point ''indoor_pose_track'')"

definition maritime_worker where
  "maritime_worker E i cls t = template_worker E i cls t ''maritime'' [''observe_and_report'', ''transport'']
     ''observe_and_report'' SENSOR_WITNESS (recording ''demo'' 60)"

definition research_worker where
  "research_worker E i cls t = template_worker E i cls t ''research'' [''observe_and_report'', ''scheduled_presence'']
     ''observe_and_report'' SENSOR_WITNESS (one_point ''gps_track'')"

definition region_polygon :: json where
  "region_polygon = JDict [(''polygon'', JList [JList [JInt 0, JInt 0], JList [JInt 10, JInt 0], JList [JInt 10, JInt 10],
     JList [JInt 0, JInt 10]])]"

definition scientific_template where
  "scientific_template E i cls t = template_worker E i cls t ''scientific'' [''scheduled_presence'', ''observe_and_report'']
     ''scheduled_presence'' CRYPTOGRAPHIC_PRESENCE
     (evidence ''geofence_check_in_out'' [(''check_in_at'', JStr ''2026-06-01T10:00:00Z''), (''check_out_at'', JStr ''2026-06-01T10:05:00Z''),
        (''region'', region_polygon)])"

definition smart_city_worker where
  "smart_city_worker E i cls t = template_worker E i cls t ''smart-city'' [''observe_and_report'', ''scheduled_presence'']
     ''observe_and_report'' SENSOR_WITNESS (one_point ''gps_track'')"

text \<open>
  The generic template: \<open>now.replace(microsecond=0)\<close> is the last whole second. The handler awaits
  \<open>min(duration_min, 2)\<close> seconds, which is only a delay.
\<close>

definition handle_scheduled_presence :: "env \<Rightarrow> int \<Rightarrow> json \<Rightarrow> json res" where
  "handle_scheduled_presence E now task =
     bindE (j_get task ''descriptor_payload'' (JDict [])) (\<lambda>payload.
     bindE (bindE (j_get payload ''duration_minutes'' (JInt 5)) py_int) (\<lambda>duration_min.
     Inr (JDict [(''completed_at'', JStr (isoformat E (Aware now 0)))])))"

definition handle_observe :: "env \<Rightarrow> int \<Rightarrow> json \<Rightarrow> json res" where
  "handle_observe E now task =
     bindE (j_get task ''descriptor_payload'' (JDict [])) (\<lambda>payload.
     bindE (j_get payload ''scope'' (JDict [])) (\<lambda>scope.
     Inr (JDict [(''observed_at'', JStr (isoformat E (Aware now 0))), (''scope'', scope)])))"

definition generic_presence :: "env \<Rightarrow> int \<Rightarrow> attest_fn" where
  "generic_presence E now claim_id task =
     bindE (j_get task ''descriptor_payload'' (JDict [])) (\<lambda>p.
     bindE (bindE (j_get p ''duration_minutes'' (JInt 5)) py_int) (\<lambda>duration_min.
     Inr (evidence ''geofence_check_in_out''
       [(''check_in_at'', JStr (isoformat E (Aware (now - now mod 1000000) 0))), (''check_out_at'', JStr (isoformat E (Aware now 0))),
        (''region'', region_polygon)])))"

definition generic_worker :: "env \<Rightarrow> sdk_identity \<Rightarrow> worker_class \<Rightarrow> int \<Rightarrow> int \<Rightarrow> v2_worker" where
  "generic_worker E i cls t now =
     v2_attest CRYPTOGRAPHIC_PRESENCE (generic_presence E now)
     (v2_handle ''observe_and_report'' (drop_result (handle_observe E t))
     (v2_handle ''scheduled_presence'' (drop_result (handle_scheduled_presence E t))
     (example_worker i cls [''scheduled_presence'', ''observe_and_report''] [] [(''notes'', JStr ''scaffolded by `wcp init worker`'')])))"

subsection \<open>The agent of the template\<close>

definition build_demo_task :: "env \<Rightarrow> string \<Rightarrow> int \<Rightarrow> string \<Rightarrow> params res" where
  "build_demo_task E did now u =
     example_task E did now u ''scheduled_presence'' [(''duration_minutes'', JInt 5), (''location'', JStr ''zone-a'')]
       2 (map worker_class_value [HUMAN, AUTONOMOUS_ROBOT, TELEOPERATED_ROBOT, SEMI_AUTONOMOUS, HYBRID])
       (example_requirement [''cryptographic-presence''] 1 1 [(''cryptographic-presence'', [''geofence_check_in_out''])])
       [(''max_attestation_attempts'', JInt 1), (''accounting_ref'', JStr ''external-allocation''),
        (''supervision'', JDict [(''default'', JStr ''autonomous'')]), (''x-subcontract-allowed'', JBool False)]"

definition template_agent_main :: "env \<Rightarrow> string \<Rightarrow> int \<Rightarrow> string \<Rightarrow> int \<Rightarrow> rpc_call res" where
  "template_agent_main E did now u now' = example_main E (build_demo_task E did now u) now' 24"

subsection \<open>Files\<close>

datatype node = Dir | File string

type_synonym path = "string list"
type_synonym files = "(path \<times> node) list"

datatype cli_exc = ClickException string | SystemExit int | Abort | OSError string

type_synonym 'a cli = "files \<Rightarrow> (cli_exc + 'a) \<times> files"

definition bindF :: "'a cli \<Rightarrow> ('a \<Rightarrow> 'b cli) \<Rightarrow> 'b cli" where
  "bindF m f s = (case m s of (Inl e, t) \<Rightarrow> (Inl e, t) | (Inr x, t) \<Rightarrow> f x t)"

fun forF :: "('a \<Rightarrow> unit cli) \<Rightarrow> 'a list \<Rightarrow> unit cli" where
  "forF f [] s = (Inr (), s)"
| "forF f (x # xs) s = bindF (f x) (\<lambda>_. forF f xs) s"

text \<open>\<open>p.mkdir(parents=True, exist_ok=True)\<close>: every missing part is made, from the first one on.\<close>

definition mkdir_one :: "path \<Rightarrow> unit cli" where
  "mkdir_one p fs =
     (case map_of fs p of
        None \<Rightarrow> (Inr (), (p, Dir) # fs)
      | Some Dir \<Rightarrow> (Inr (), fs)
      | Some (File _) \<Rightarrow> (Inl (OSError ''file exists''), fs))"

definition mkdir_p :: "path \<Rightarrow> unit cli" where
  "mkdir_p p = forF mkdir_one (map (\<lambda>n. take n p) [1..<Suc (length p)])"

definition read_text :: "path \<Rightarrow> string cli" where
  "read_text p fs = (case map_of fs p of Some (File s) \<Rightarrow> (Inr s, fs) | _ \<Rightarrow> (Inl (OSError ''cannot read''), fs))"

definition write_text :: "path \<Rightarrow> string \<Rightarrow> unit cli" where
  "write_text p text fs =
     (case map_of fs p of Some Dir \<Rightarrow> (Inl (OSError ''is a directory''), fs) | _ \<Rightarrow> (Inr (), AList.update p (File text) fs))"

text \<open>\<open>any(p.iterdir())\<close>\<close>

definition has_children :: "path \<Rightarrow> files \<Rightarrow> bool" where
  "has_children p fs \<longleftrightarrow> list_ex (\<lambda>(q, _). q \<noteq> [] \<and> butlast q = p) fs"

text \<open>\<open>text.replace(k, v)\<close> for a \<open>k\<close> that is not empty.\<close>

function py_replace :: "string \<Rightarrow> string \<Rightarrow> string \<Rightarrow> string" where
  "py_replace k v s =
     (if s = [] then []
      else if k \<noteq> [] \<and> startswith s k then v @ py_replace k v (drop (length k) s)
      else hd s # py_replace k v (tl s))"
  by pat_completeness auto
termination by (relation "measure (\<lambda>(k, v, s). length s)") auto

declare py_replace.simps [simp del]

subsection \<open>wcp init\<close>

definition walk_template :: "path \<Rightarrow> files \<Rightarrow> path list" where
  "walk_template src fs =
     src # filter (\<lambda>p. ''__pycache__'' \<notin> set p) (sort (remdups (map fst (filter (\<lambda>(p, _). strict_prefix src p) fs))))"

definition substitute :: "(string \<times> string) list \<Rightarrow> string \<Rightarrow> string" where
  "substitute subs text = fold (\<lambda>(k, v) s. py_replace k v s) subs text"

definition scaffold_entry :: "path \<Rightarrow> path \<Rightarrow> (string \<times> string) list \<Rightarrow> path \<Rightarrow> unit cli" where
  "scaffold_entry src_root target subs entry fs =
     (let out_path = target @ drop (length src_root) entry in
      if map_of fs entry = Some Dir then mkdir_p out_path fs
      else
        bindF (read_text entry) (\<lambda>text.
        bindF (mkdir_p (butlast out_path)) (\<lambda>_.
        write_text out_path (substitute subs text))) fs)"

text \<open>
  \<open>_scaffold_from_template\<close>: \<open>source_tree\<close> and \<open>installed\<close> are the two places the templates may be in.
\<close>

definition scaffold_from_template :: "path \<Rightarrow> path \<Rightarrow> string \<Rightarrow> path \<Rightarrow> (string \<times> string) list \<Rightarrow> unit cli" where
  "scaffold_from_template source_tree installed template_name target subs fs =
     (if map_of fs target \<noteq> None \<and> (\<exists>s. map_of fs target = Some (File s)) then (Inl (OSError ''not a directory''), fs)
      else if map_of fs target \<noteq> None \<and> has_children target fs then
        (Inl (ClickException ''Target directory is not empty''), fs)
      else
        bindF (mkdir_p target) (\<lambda>_ fs1.
          let rel = ''templates'' # py_split (CHR ''/'') template_name;
              here = source_tree @ rel;
              there = installed @ rel;
              go = (\<lambda>src_root. forF (scaffold_entry src_root target subs) (walk_template src_root fs1) fs1)
          in if map_of fs1 here \<noteq> None then go here
             else if map_of fs1 there \<noteq> None then go there
             else (Inl (ClickException (''Template not found: '' @ template_name)), fs1)) fs)"

definition DOMAINS :: "string list" where
  "DOMAINS = [''industrial'', ''scientific'', ''emergency'', ''logistics'', ''agriculture'', ''healthcare'', ''infrastructure'',
     ''disaster'', ''research'', ''manufacturing'', ''smart-city'', ''maritime'', ''construction'', ''generic'']"

definition init_worker :: "path \<Rightarrow> path \<Rightarrow> string \<Rightarrow> worker_class \<Rightarrow> string \<Rightarrow> string \<Rightarrow> path \<Rightarrow> unit cli" where
  "init_worker source_tree installed name cls domain coordinator target =
     scaffold_from_template source_tree installed (domain @ ''/worker'') target
       [(''{{NAME}}'', name), (''{{CLASS}}'', worker_class_value cls), (''{{DOMAIN}}'', domain), (''{{COORDINATOR}}'', coordinator)]"

definition init_agent :: "path \<Rightarrow> path \<Rightarrow> string \<Rightarrow> string \<Rightarrow> string \<Rightarrow> path \<Rightarrow> unit cli" where
  "init_agent source_tree installed name llm coordinator target =
     scaffold_from_template source_tree installed ''agent'' target
       [(''{{NAME}}'', name), (''{{LLM}}'', llm), (''{{COORDINATOR}}'', coordinator)]"

definition init_coordinator :: "path \<Rightarrow> path \<Rightarrow> string \<Rightarrow> int \<Rightarrow> path \<Rightarrow> unit cli" where
  "init_coordinator source_tree installed name port target =
     scaffold_from_template source_tree installed ''coordinator'' target [(''{{NAME}}'', name), (''{{PORT}}'', show_int port)]"

subsection \<open>wcp register\<close>

text \<open>The line boundaries of \<open>str.splitlines\<close> below 256; a carriage return takes a newline after it along.\<close>

definition line_break :: "char \<Rightarrow> bool" where
  "line_break c \<longleftrightarrow> of_char c \<in> ({10, 11, 12, 13, 28, 29, 30, 133} :: nat set)"

fun lines_from :: "string \<Rightarrow> string \<Rightarrow> string list" where
  "lines_from cur [] = (if cur = [] then [] else [rev cur])"
| "lines_from cur (c # s) =
     (if line_break c then rev cur # lines_from [] (if c = CHR 0x0D \<and> s \<noteq> [] \<and> hd s = CHR 0x0A then tl s else s)
      else lines_from (c # cur) s)"

definition py_splitlines :: "string \<Rightarrow> string list" where
  "py_splitlines = lines_from []"

definition strip_char :: "char \<Rightarrow> string \<Rightarrow> string" where
  "strip_char c s = rev (dropWhile (\<lambda>x. x = c) (rev (dropWhile (\<lambda>x. x = c) s)))"

definition config_line :: "string \<Rightarrow> (string \<times> string) option" where
  "config_line raw =
     (let line = py_strip raw in
      if line = [] \<or> startswith line ''#'' then None
      else case split_max 1 (CHR '':'') line of
             [k, v] \<Rightarrow> Some (py_strip k, strip_char (CHR 0x27) (strip_char (CHR 0x22) (py_strip v)))
           | _ \<Rightarrow> None)"

definition read_config :: "string \<Rightarrow> (string \<times> string) list" where
  "read_config raw = fold (\<lambda>line cfg. case config_line line of None \<Rightarrow> cfg | Some (k, v) \<Rightarrow> AList.update k v cfg) (py_splitlines raw) []"

definition cfg_get :: "(string \<times> string) list \<Rightarrow> string \<Rightarrow> string \<Rightarrow> string" where
  "cfg_get cfg k d = (case map_of cfg k of Some v \<Rightarrow> v | None \<Rightarrow> d)"

definition minimal_descriptor :: "string \<Rightarrow> string \<Rightarrow> (string \<times> string) list \<Rightarrow> params" where
  "minimal_descriptor did pubkey_b64 cfg =
     [(''schema_version'', JStr ''wcp/0.2''), (''worker_id'', JStr did),
      (''principal_id'', JStr (cfg_get cfg ''principal_id'' ''did:wcp:example-principal'')),
      (''class'', JStr (cfg_get cfg ''worker_class'' ''human'')),
      (''required'', JDict
         [(''current_location'', JDict [(''venue_id'', JStr (cfg_get cfg ''venue_id'' ''venue-a'')), (''map_id'', JStr (cfg_get cfg ''map_id'' ''map-a''))]),
          (''available_windows'', JList [JDict [(''rrule'', JStr ''FREQ=DAILY''), (''timezone'', JStr (cfg_get cfg ''timezone'' ''UTC''))]]),
          (''attestation_methods_supported'', JList [JStr ''sensor-witness'', JStr ''third-party-witness'', JStr ''cryptographic-presence'', JStr ''owner-sign-off'']),
          (''certifications'', JList []), (''policy_windows'', JList []),
          (''attestation_keys'', JList [JDict [(''kty'', JStr ''OKP''), (''crv'', JStr ''Ed25519''), (''x'', JStr pubkey_b64)]]),
          (''as_of'', JStr ''2026-05-23T00:00:00Z'')]),
      (''class_extension'', JDict [])]"

text \<open>\<open>_register_async\<close> once connected, with the identity read from the key file.\<close>

definition wcp_register :: "env \<Rightarrow> sdk_identity \<Rightarrow> string \<Rightarrow> unit robot_run" where
  "wcp_register E i raw =
     bindR (robot_call E (''capabilities/list'', [(''worker_id'', JStr (i_did i)),
       (''capabilities'', JDict (minimal_descriptor (i_did i) (i_public_key_b64url i) (read_config raw)))])) (\<lambda>result.
     bindR (liftR (read_fields [''revision''] result)) (\<lambda>_. retR ()))"

end
