(* ===== verification/Scaffold_Interop.thy ===== *)
theory Scaffold_Interop
  imports Scaffold Example_Agents_Interop
begin

text \<open>
  What becomes of the scaffolded agent's task at each of the scaffolded workers, and why \<open>wcp register\<close> never registers.
\<close>

subsection \<open>The scaffolded agent and the scaffolded workers\<close>

lemma template_worker_simps [simp]:
  "vw_identity (template_worker E i cls t area ds p m b) = i"
  "vw_handlers (template_worker E i cls t area ds p m b) = [(p, drop_result (handle_primary E t area))]"
  "vw_attesters (template_worker E i cls t area ds p m b) = [(m, \<lambda>cid task. Inr b)]"
  by (simp_all add: template_worker_def v2_attest_def v2_handle_def)

lemma generic_worker_simps [simp]:
  "vw_identity (generic_worker E i cls t now) = i"
  "map_of (vw_handlers (generic_worker E i cls t now)) ''scheduled_presence'' = Some (drop_result (handle_scheduled_presence E t))"
  "vw_attesters (generic_worker E i cls t now) = [(CRYPTOGRAPHIC_PRESENCE, generic_presence E now)]"
  by (simp_all add: generic_worker_def v2_attest_def v2_handle_def)

text \<open>The templates without a handler for the type the scaffolded agent posts.\<close>

definition other_templates :: "env \<Rightarrow> sdk_identity \<Rightarrow> worker_class \<Rightarrow> int \<Rightarrow> v2_worker list" where
  "other_templates E i cls t = [agriculture_worker E i cls t, construction_worker E i cls t, disaster_template E i cls t,
     emergency_worker E i cls t, healthcare_template E i cls t, industrial_template E i cls t, infrastructure_worker E i cls t,
     logistics_template E i cls t, manufacturing_worker E i cls t, maritime_worker E i cls t, research_worker E i cls t,
     smart_city_worker E i cls t]"

lemmas other_defs = agriculture_worker_def construction_worker_def disaster_template_def emergency_worker_def healthcare_template_def
  industrial_template_def infrastructure_worker_def logistics_template_def manufacturing_worker_def maritime_worker_def
  research_worker_def smart_city_worker_def

lemma others_ignore:
  assumes "w \<in> set (other_templates E i cls t)" "arg ''task'' disp = JDict td" "map_of td ''descriptor_type'' = Some (JStr ''scheduled_presence'')"
  shows "full_lifecycle E C w disp r = (Inr None, r)"
proof (rule v2_unhandled_ignored)
  show "j_get (py_or (arg ''task'' disp) (JDict [])) ''descriptor_type'' JNull = Inr (JStr ''scheduled_presence'')"
    using assms(2,3) by (auto simp: py_or_def)
  show "\<forall>s. JStr ''scheduled_presence'' = JStr s \<longrightarrow> map_of (vw_handlers w) s = None"
    using assms(1) by (auto simp: other_templates_def other_defs)
qed simp

text \<open>The evidence of these twelve passes its verifier all the same.\<close>

lemma template_pieces:
  fixes E :: env and task tp :: json
  defines "ok \<equiv> \<lambda>b. attester_ok E task tp (\<lambda>_. pass_outcome) (SENSOR_WITNESS, \<lambda>cid task. Inr b)"
  shows "ok (one_point ''gps_track'')" "ok (one_point ''indoor_pose_track'')" "ok one_photo" "ok (recording h n)"
proof -
  show "ok (recording h n)" unfolding ok_def by (rule recording_attester) simp_all
  show "ok one_photo" unfolding ok_def one_photo_def
    by (rule attester_okI, rule refl) (simp_all add: DEFAULT_REGISTRY_def sensor_witness_def)
  show "ok (one_point ''gps_track'')" "ok (one_point ''indoor_pose_track'')" unfolding ok_def one_point_def
    by (rule attester_okI, rule refl, simp add: DEFAULT_REGISTRY_def, simp add: sensor_witness_def need_fields_def)+
qed

lemma other_evidence:
  assumes "w \<in> set (other_templates E i cls t)"
  shows "list_all (attester_ok E task tp (\<lambda>_. pass_outcome)) (vw_attesters w)"
  using assms by (auto simp: other_templates_def other_defs template_pieces)

text \<open>The two times the scientific template writes are five minutes apart.\<close>

definition template_times :: "env \<Rightarrow> bool" where
  "template_times E \<longleftrightarrow> (\<exists>n. parse_iso E ''2026-06-01T10:00:00Z'' = Inr (Aware n 0) \<and>
     parse_iso E ''2026-06-01T10:05:00Z'' = Inr (Aware (n + 300000000) 0))"

lemma demo_task_fields:
  assumes "build_demo_task E did now u = Inr td"
  shows "map_of td ''descriptor_type'' = Some (JStr ''scheduled_presence'')"
    "j_get (JDict td) ''descriptor_payload'' (JDict []) = Inr (JDict [(''duration_minutes'', JInt 5), (''location'', JStr ''zone-a'')])"
    "task_payload td = JDict [(''duration_minutes'', JInt 5), (''location'', JStr ''zone-a'')]"
    "task_req td = JDict (example_requirement [''cryptographic-presence''] 1 1 [(''cryptographic-presence'', [''geofence_check_in_out''])])"
    "map_of td ''max_attestation_attempts'' = Some (JInt 1)" "map_of td ''task_id'' = Some (JStr u)" "map_of td ''posted_by'' = Some (JStr did)"
  using task_fields(1-6) [OF assms [unfolded build_demo_task_def]]
    task_fields(7) [OF assms [unfolded build_demo_task_def], of "''max_attestation_attempts''"] by simp_all

lemma small_minutes: "int_to_float 5 = Inr 5"
proof -
  have "(5 :: int) < 2 ^ 1024 - 2 ^ 970" by simp
  then show ?thesis by (simp add: int_to_float_def)
qed

lemma scientific_template_ok:
  assumes "build_demo_task E did now u = Inr td" "template_times E"
  shows "scenario_ok E td (scientific_template E i cls t) did u PASS 1"
proof -
  have "attester_ok E task (JDict [(''duration_minutes'', JInt 5), (''location'', JStr ''zone-a'')]) (\<lambda>_. pass_outcome)
      (CRYPTOGRAPHIC_PRESENCE, \<lambda>cid task. Inr (evidence ''geofence_check_in_out'' [(''check_in_at'', JStr ''2026-06-01T10:00:00Z''),
        (''check_out_at'', JStr ''2026-06-01T10:05:00Z''), (''region'', region_polygon)]))" for task
    using assms(2)
    by (intro attester_okI) (auto simp: DEFAULT_REGISTRY_def template_times_def cryptographic_presence_def need_fields_def
        catch_value_error_def of_opt_def duration_check_def small_minutes)
  then show ?thesis
    using assms(1) unfolding build_demo_task_def
    by (elim passing_scenarioI [where h = "handle_primary E t ''scientific''"]) (simp_all add: scientific_template_def handle_primary_def)
qed

definition generic_decision :: "int \<Rightarrow> verifier_decision" where
  "generic_decision now = (if now mod 1000000 = 0 then FAIL else REVIEW)"

lemma generic_verdict:
  assumes "v2_env E C sk" "datetime_us now"
  shows "\<exists>out. verify_single E DEFAULT_REGISTRY (JStr ''cryptographic-presence'') (JStr ''geofence_check_in_out'')
      (JDict [(''check_in_at'', JStr (isoformat E (Aware (now - now mod 1000000) 0))), (''check_out_at'', JStr (isoformat E (Aware now 0))),
        (''region'', region_polygon)]) (JDict [(''duration_minutes'', JInt 5), (''location'', JStr ''zone-a'')]) = Inr out \<and>
    vo_decision out = generic_decision now"
proof -
  have m: "0 \<le> now mod 1000000" "now mod 1000000 < 1000000" by simp_all
  have "datetime_us (now - now mod 1000000)"
  proof -
    have "- 62135596800000000 \<le> now" using assms(2) by (simp add: datetime_us_def)
    then have "- 62135596800000000 div 1000000 \<le> now div 1000000" by (rule zdiv_mono1) simp
    moreover have "now - now mod 1000000 = 1000000 * (now div 1000000)" by (simp add: minus_mod_eq_mult_div)
    ultimately show ?thesis using assms(2) m by (simp add: datetime_us_def)
  qed
  then have iso: "parse_iso E (isoformat E (Aware (now - now mod 1000000) 0)) = Inr (Aware (now - now mod 1000000) 0)"
      "parse_iso E (isoformat E (Aware now 0)) = Inr (Aware now 0)"
    using assms by (simp_all add: v2_env_def robot_env_def)
  have "now \<le> now - now mod 1000000 \<longleftrightarrow> now mod 1000000 = 0" using m by linarith
  moreover have "(of_int (now mod 1000000) :: rat) < 1000000" using m(2) by (metis of_int_less_iff of_int_numeral)
  then have "(of_int (now mod 1000000) :: rat) / 60000000 + 1 / 1000000 < 9 / 2" by (simp add: field_simps)
  ultimately show ?thesis
    using dispatch_mode_value [of CRYPTOGRAPHIC_PRESENCE] iso
    by (simp add: verify_single_def registry_get_def kind_in_def DEFAULT_REGISTRY_def cryptographic_presence_def need_fields_def
        catch_value_error_def duration_check_def small_minutes generic_decision_def of_opt_def Let_def)
qed

lemma generic_template_ok:
  assumes "v2_env E C sk" "datetime_us w" "build_demo_task E did now u = Inr td"
  shows "scenario_ok E td (generic_worker E i cls t w) did u (generic_decision w) 1"
proof -
  note f = demo_task_fields [OF assms(3)]
  from generic_verdict [OF assms(1,2)] obtain out where
    out: "verify_single E DEFAULT_REGISTRY (JStr ''cryptographic-presence'') (JStr ''geofence_check_in_out'')
        (JDict [(''check_in_at'', JStr (isoformat E (Aware (w - w mod 1000000) 0))), (''check_out_at'', JStr (isoformat E (Aware w 0))),
        (''region'', region_polygon)]) (task_payload td) = Inr out" "vo_decision out = generic_decision w"
    by (auto simp: f(3))
  have piece: "generic_presence E w cid (JDict td) = Inr (evidence ''geofence_check_in_out''
       [(''check_in_at'', JStr (isoformat E (Aware (w - w mod 1000000) 0))), (''check_out_at'', JStr (isoformat E (Aware w 0))),
        (''region'', region_polygon)])" for cid
    unfolding generic_presence_def f(2) by simp
  have "attester_ok E (JDict td) (task_payload td) (\<lambda>_. out) (CRYPTOGRAPHIC_PRESENCE, generic_presence E w)"
    using out(1) by (auto simp: attester_ok_def built_ok_def piece) (auto simp: evidence_def of_opt_def)
  moreover have "\<exists>agg. evaluate_threshold E (task_req td) [(JStr ''cryptographic-presence'', out)] = Inr agg \<and> vo_decision agg = generic_decision w"
    using out(2) by (auto simp: f(4) evaluate_threshold_def threshold_m_of_n_def threshold_ints_def example_requirement_def of_opt_def
        count_decision_def generic_decision_def)
  moreover have "drop_result (handle_scheduled_presence E t) (JDict td) = Inr ()"
    unfolding drop_result_def handle_scheduled_presence_def f(2) by simp
  ultimately show ?thesis unfolding scenario_ok_def using f(1,5-7) by fastforce
qed

text \<open>
  C24: What the scaffolded workers do with the task of the scaffolded agent. Twelve of the fourteen
  ignore it, since they have no handler for the type it posts, the eight that declare the type
  included. The scientific one completes it. The generic one claims and executes it, but what it
  presents lasts less than a second where five minutes are asked for: the task is left under
  review, or voided when the worker looks at the clock on a full second.
\<close>

theorem scaffold_outcomes:
  assumes "v2_env E C sk" "identity_from_sk E sk = Inr i" "datetime_us w" "template_times E" "u \<noteq> []"
    and "template_agent_main E did now u now' = Inr call" "rpc E call s = (Result v, s')" "claim_open E i did u s'"
    and "client_inv (ro_client r)" "ro_coordinator r = s'"
    and "arg ''task_id'' disp = JStr u" "arg ''task'' disp = arg ''task'' (snd call)"
  shows "(\<forall>worker \<in> set (other_templates E i cls t). full_lifecycle E C worker disp r = (Inr None, r)) \<and>
    (\<exists>v' r' row. full_lifecycle E C (scientific_template E i cls t) disp r = (Inr (Some v'), r') \<and>
       get_task (ro_coordinator r') u = Some row \<and> t_state row = COMPLETED) \<and>
    (\<exists>v' r' row. full_lifecycle E C (generic_worker E i cls t w) disp r = (Inr (Some v'), r') \<and>
       get_task (ro_coordinator r') u = Some row \<and> t_state row = (if w mod 1000000 = 0 then VOIDED else ATTESTING))"
proof -
  from assms(6) obtain td expiry where td: "build_demo_task E did now u = Inr td"
      "call = (''tasks/post'', [(''task'', JDict td), (''expiry'', JStr expiry)])"
    by (auto simp: template_agent_main_def example_main_Inr)
  have disp: "arg ''task'' disp = JDict td" using assms(12) by (simp add: td(2) arg_def)
  note run = scenario_runs [where disp = disp and r = r, OF assms(1) _ assms(7) [unfolded td(2)] assms(5) _ assms(9,10) _ assms(11) disp]
  from run [OF _ scientific_template_ok [OF td(1) assms(4)], of i cls t] assms(2,8)
  have "\<exists>v' r' row. full_lifecycle E C (scientific_template E i cls t) disp r = (Inr (Some v'), r') \<and>
       get_task (ro_coordinator r') u = Some row \<and> t_state row = COMPLETED"
    by (auto simp: scientific_template_def next_state_def)
  moreover from run [OF _ generic_template_ok [OF assms(1,3) td(1)], of i cls t] assms(2,8)
  have "\<exists>v' r' row. full_lifecycle E C (generic_worker E i cls t w) disp r = (Inr (Some v'), r') \<and>
       get_task (ro_coordinator r') u = Some row \<and> t_state row = (if w mod 1000000 = 0 then VOIDED else ATTESTING)"
    by (auto simp: next_state_def generic_decision_def)
  ultimately show ?thesis using others_ignore [OF _ disp demo_task_fields(1) [OF td(1)]] by blast
qed

subsection \<open>A concrete scaffold\<close>

text \<open>The sample environment, told to read the two times of the template.\<close>

definition template_env :: env where
  "template_env = sample_env\<lparr>fromisoformat := (\<lambda>s. if s = ''2026-06-01T10:00:00+00:00'' then Some (Aware 0 0)
     else if s = ''2026-06-01T10:05:00+00:00'' then Some (Aware 300000000 0) else sample_read s)\<rparr>"

lemma template_env_simps [simp]:
  "sha256_hex template_env = (\<lambda>b. b)" "ed25519_pub template_env = (\<lambda>sk. sk)" "ed25519_sign template_env = (\<lambda>sk d. sk @ d)"
  "ed25519_verify template_env = (\<lambda>pk d sig. sig = pk @ d)" "signer_key template_env = signer_key sample_env"
  "clock template_env = clock sample_env" "uuid4 template_env = uuid4 sample_env" "float_repr template_env = sample_float"
  "isoformat template_env = sample_iso"
  by (simp_all add: template_env_def sample_env_def)

lemma template_env_parse: "datetime_us n \<Longrightarrow> parse_iso template_env (CHR ''a'' # show_int n) = Inr (Aware n 0)"
  using sample_iso_parse [of n] by (simp add: parse_iso_def template_env_def replace_Z_def of_opt_def)

lemma template_env_ok: "v2_env template_env (\<lambda>n. 0) (sample_key (CHR ''w''))" "template_times template_env"
proof -
  have "isoformat template_env x \<noteq> []" for x by (cases x) simp_all
  then show "v2_env template_env (\<lambda>n. 0) (sample_key (CHR ''w''))"
    using v2_sample_env template_env_parse by (simp add: v2_env_def robot_env_def sig_correct_def)
  show "template_times template_env"
    by (simp add: template_times_def parse_iso_def replace_Z_def template_env_def of_opt_def)
qed

lemma template_identity: "identity_from_sk template_env (sample_key (CHR ''w'')) = Inr sdk_worker"
  using sdk_worker_identity by (simp add: identity_from_sk_def Let_def)

definition demo_task_sample :: params where
  "demo_task_sample = (case build_demo_task template_env agent_did 0 ''T'' of Inr td \<Rightarrow> td | Inl _ \<Rightarrow> [])"

lemma demo_task_built: "build_demo_task template_env agent_did 0 ''T'' = Inr demo_task_sample"
  by (simp add: demo_task_sample_def build_demo_task_def example_task_def iso_after_def datetime_us_def HOUR_def)

lemma demo_task_eligible: "workers s = workers run1 \<Longrightarrow> count_eligible (JDict demo_task_sample) s = Inr 0"
  by (simp add: demo_task_sample_def build_demo_task_def example_task_def iso_after_def datetime_us_def HOUR_def example_requirement_def
     count_eligible_def class_filter_of_def capability_query_of_def task_venue_def py_or_def
     matching_workers_def worker_matches_def run1_tables methods_ok_def sample_caps_def required_block_def
     get_set_def py_set_def required_matches_def andE_def set_sub_def bind_classes_def class_in_def)

lemma demo_task_posted:
  "\<exists>v t. rpc template_env (''tasks/post'', [(''task'', JDict demo_task_sample), (''expiry'', JStr (CHR ''a'' # show_int (24 * HOUR)))]) run1 =
     (Result v, t) \<and> claim_open template_env sdk_worker agent_did ''T'' t"
proof -
  note f = demo_task_fields [OF demo_task_built]
  have "post_checks template_env DEFAULT_REGISTRY demo_task_sample = Inr ()"
    by (rule example_checks [OF demo_task_built [unfolded build_demo_task_def]]) (simp_all add: DEFAULT_REGISTRY_def out_of_scope_def)
  moreover have "parse_iso template_env (CHR ''a'' # show_int (24 * HOUR)) = Inr (Aware (24 * HOUR) 0)"
    by (rule template_env_parse) (simp add: HOUR_def datetime_us_def)
  ultimately show ?thesis
    by (simp add: rpc_def dispatch_def methods_def py_or_def v2_post_call [of "[]", simplified] task_post_def f Let_def
        dict_set_same resolve_or_value_error_def access_defs row_add_def audit_append_run bindS_def run1_tables demo_task_eligible claim_open_def
        ids_fresh_def unclaimed_def sdk_worker_def HOUR_def new_entry_def dids_nonempty(3) [symmetric])
qed

theorem scaffold_outcomes_witness:
  "\<exists>call v t r1 r2 row1 row2 v1 v2. template_agent_main template_env agent_did 0 ''T'' 0 = Inr call \<and> rpc template_env call run1 = (Result v, t) \<and>
     full_lifecycle template_env (\<lambda>n. 0) (scientific_template template_env sdk_worker HUMAN 0) [(''task_id'', JStr ''T''), (''task'', arg ''task'' (snd call))]
       \<lparr>ro_client = new_client, ro_coordinator = t, ro_now = 0, ro_schedule = [1, 2]\<rparr> = (Inr (Some v1), r1) \<and>
     get_task (ro_coordinator r1) ''T'' = Some row1 \<and> t_state row1 = COMPLETED \<and>
     full_lifecycle template_env (\<lambda>n. 0) (generic_worker template_env sdk_worker HUMAN 0 3500000) [(''task_id'', JStr ''T''), (''task'', arg ''task'' (snd call))]
       \<lparr>ro_client = new_client, ro_coordinator = t, ro_now = 0, ro_schedule = [1, 2]\<rparr> = (Inr (Some v2), r2) \<and>
     get_task (ro_coordinator r2) ''T'' = Some row2 \<and> t_state row2 = ATTESTING"
proof -
  let ?call = "(''tasks/post'', [(''task'', JDict demo_task_sample), (''expiry'', JStr (CHR ''a'' # show_int (24 * HOUR)))])"
  have call: "template_agent_main template_env agent_did 0 ''T'' 0 = Inr ?call"
    by (simp add: template_agent_main_def example_main_def demo_task_built iso_after_def HOUR_def datetime_us_def v2_post_task_def need_session_def)
  from demo_task_posted obtain v t where t: "rpc template_env ?call run1 = (Result v, t)" "claim_open template_env sdk_worker agent_did ''T'' t"
    by blast
  from scaffold_outcomes [OF template_env_ok(1) template_identity _ template_env_ok(2) _ call t,
      of 3500000 "\<lparr>ro_client = new_client, ro_coordinator = t, ro_now = 0, ro_schedule = [1, 2]\<rparr>"
      "[(''task_id'', JStr ''T''), (''task'', arg ''task'' (snd ?call))]" HUMAN 0] call t(1)
  show ?thesis by (auto simp: arg_def client_inv_def new_client_def datetime_us_def)
qed

subsection \<open>wcp register\<close>

text \<open>
  Whatever the configuration says, \<open>wcp register\<close> calls a method with an argument it does not take: the
  coordinator answers with an internal error and registers nobody.
\<close>

lemma register_refused:
  assumes "client_inv (ro_client r)"
  shows "\<exists>msg r'. wcp_register E i raw r = (Inl (WcpRpcError (JInt INTERNAL_ERROR) (JStr msg) JNull), r') \<and> ro_coordinator r' = ro_coordinator r"
proof -
  let ?c = "(''capabilities/list'', [(''worker_id'', JStr (i_did i)),
       (''capabilities'', JDict (minimal_descriptor (i_did i) (i_public_key_b64url i) (read_config raw)))])"
  have "dispatch E (JStr (fst ?c)) (JDict (snd ?c)) (ro_coordinator r) = (Raised TypeError, ro_coordinator r)"
    by (simp add: dispatch_def methods_def rpc_capabilities_list_def check_kwargs_def py_or_def)
  from robot_call_Raised [OF assms this] show ?thesis by (simp add: wcp_register_def bindR_def db_rollback_def)
qed

end
