(* ===== verification/Scaffold_Files.thy ===== *)
theory Scaffold_Files
  imports Scaffold
begin

text \<open>
  What \<open>wcp init\<close> does to the file system: it refuses a directory that is not empty, it copies the template
  with the placeholders replaced, and it leaves everything else as it was.
\<close>

lemma bindF_Inr: "bindF m f s = (Inr y, t) \<longleftrightarrow> (\<exists>x u. m s = (Inr x, u) \<and> f x u = (Inr y, t))"
  by (auto simp: bindF_def split: prod.splits sum.splits)

text \<open>A file system is a tree: what holds an entry is a directory.\<close>

definition file_tree :: "files \<Rightarrow> bool" where
  "file_tree fs \<longleftrightarrow> (\<forall>p q. map_of fs p \<noteq> None \<and> q \<noteq> [] \<and> strict_prefix q p \<longrightarrow> map_of fs q = Some Dir)"

subsection \<open>Making directories and writing\<close>

lemma forF_mkdir:
  "forF mkdir_one ps s = (Inr (), t) \<Longrightarrow>
    map_of t p = (if p \<in> set ps \<and> map_of s p = None then Some Dir else map_of s p) \<and> (p \<in> set ps \<longrightarrow> map_of t p = Some Dir)"
proof (induction ps arbitrary: s)
  case (Cons q ps)
  then obtain u where u: "mkdir_one q s = (Inr (), u)" "forF mkdir_one ps u = (Inr (), t)" by (auto simp: bindF_Inr)
  then have "map_of u = (map_of s)(q \<mapsto> Dir) \<and> (map_of s q = None \<or> map_of s q = Some Dir)"
    by (auto simp: mkdir_one_def fun_eq_iff split: option.splits node.splits)
  with Cons.IH [OF u(2)] show ?case by auto
qed simp

lemma made_paths: "p \<in> set (map (\<lambda>n. take n q) [1..<Suc (length q)]) \<longleftrightarrow> p \<noteq> [] \<and> prefix p q"
proof
  assume "p \<noteq> [] \<and> prefix p q"
  then have p: "p = take (length p) q" "length p \<in> set [1..<Suc (length q)]" by (auto simp: prefix_def Suc_le_eq)
  show "p \<in> set (map (\<lambda>n. take n q) [1..<Suc (length q)])" unfolding set_map using p by (rule image_eqI [where x = "length p" and f = "\<lambda>n. take n q"])
qed (auto simp: take_is_prefix)

lemma mkdir_run:
  assumes "mkdir_p q s = (Inr (), t)"
  shows "map_of t p = (if p \<noteq> [] \<and> prefix p q \<and> map_of s p = None then Some Dir else map_of s p)"
    "p \<noteq> [] \<Longrightarrow> prefix p q \<Longrightarrow> map_of t p = Some Dir"
  using forF_mkdir [OF assms [unfolded mkdir_p_def], of p] unfolding made_paths by auto

lemma write_run: "write_text p text s = (Inr (), t) \<Longrightarrow> map_of t = (map_of s)(p \<mapsto> File text) \<and> map_of s p \<noteq> Some Dir"
  by (auto simp: write_text_def update_conv' split: option.splits node.splits)

text \<open>One entry of the template: a directory is made, a file is written into its directory.\<close>

lemma entry_dir:
  assumes "scaffold_entry src target subs (src @ rel) s = (Inr (), t)" "map_of s (src @ rel) = Some Dir"
  shows "map_of t p = (if p \<noteq> [] \<and> prefix p (target @ rel) \<and> map_of s p = None then Some Dir else map_of s p)"
  using mkdir_run(1) [of "target @ rel" s t p] assms by (simp add: scaffold_entry_def Let_def)

lemma entry_file:
  assumes "scaffold_entry src target subs (src @ rel) s = (Inr (), t)" "map_of s (src @ rel) = Some (File body)"
    and "target \<noteq> []" "map_of s target = Some Dir"
  shows "rel \<noteq> []" "map_of t p = (if p = target @ rel then Some (File (substitute subs body))
      else if p \<noteq> [] \<and> strict_prefix p (target @ rel) \<and> map_of s p = None then Some Dir else map_of s p)"
proof -
  from assms(1,2) obtain u where u: "mkdir_p (butlast (target @ rel)) s = (Inr (), u)"
      "write_text (target @ rel) (substitute subs body) u = (Inr (), t)"
    by (auto simp: scaffold_entry_def bindF_Inr read_text_def Let_def)
  note w = write_run [OF u(2)] and m = mkdir_run(1) [OF u(1)]
  show ne: "rel \<noteq> []" using w m [of target] assms(4) by auto
  have "prefix p (butlast (target @ rel)) \<longleftrightarrow> strict_prefix p (target @ rel)" for p
  proof -
    from ne obtain xs x where "target @ rel = xs @ [x]" by (metis append_is_Nil_conv rev_exhaust)
    then show ?thesis by (auto simp: strict_prefix_def)
  qed
  with w m show "map_of t p = (if p = target @ rel then Some (File (substitute subs body))
      else if p \<noteq> [] \<and> strict_prefix p (target @ rel) \<and> map_of s p = None then Some Dir else map_of s p)"
    by auto
qed

subsection \<open>The loop over the template\<close>

text \<open>What belongs at a relative path of the target.\<close>

definition copied :: "(string \<times> string) list \<Rightarrow> node \<Rightarrow> node" where
  "copied subs n = (case n of Dir \<Rightarrow> Dir | File body \<Rightarrow> File (substitute subs body))"

definition mirror :: "(string \<times> string) list \<Rightarrow> path \<Rightarrow> files \<Rightarrow> path \<Rightarrow> node option" where
  "mirror subs src fs rel =
     (if ''__pycache__'' \<in> set (src @ rel) then None else map_option (copied subs) (map_of fs (src @ rel)))"

text \<open>
  Between two entries, the target once made in \<open>fs\<close>: below it lies the mirror of what has been gone through, with
  the directories on the way, and all the rest is as it was.
\<close>

definition copying :: "(string \<times> string) list \<Rightarrow> path \<Rightarrow> path \<Rightarrow> files \<Rightarrow> path set \<Rightarrow> files \<Rightarrow> bool" where
  "copying subs src target fs gone u \<longleftrightarrow>
     (\<forall>p. \<not> strict_prefix target p \<longrightarrow> map_of u p = map_of fs p) \<and>
     (\<forall>rel. rel \<noteq> [] \<longrightarrow> map_of u (target @ rel) = (if \<exists>d \<in> gone. prefix rel d then mirror subs src fs rel else None))"

lemma mirror_prefix:
  assumes "file_tree fs" "src \<noteq> []" "map_of fs (src @ r) = Some n" "''__pycache__'' \<notin> set (src @ r)" "prefix rel r"
  shows "mirror subs src fs rel = Some (if rel = r then copied subs n else Dir)"
proof -
  from assms(4,5) have "''__pycache__'' \<notin> set (src @ rel)" by (auto simp: prefix_def)
  moreover have "map_of fs (src @ rel) = Some Dir" if "rel \<noteq> r"
  proof -
    have "strict_prefix (src @ rel) (src @ r)" "src @ rel \<noteq> []" using assms(2,5) that by (auto simp: strict_prefix_def)
    with assms(1,3) show ?thesis unfolding file_tree_def by blast
  qed
  ultimately show ?thesis using assms(3) by (auto simp: mirror_def copied_def)
qed

lemma prefix_target:
  assumes "prefix p (target @ r)"
  shows "prefix p target \<or> (\<exists>rel. rel \<noteq> [] \<and> p = target @ rel \<and> prefix rel r)"
  using assms by (auto simp: prefix_append)

lemma entry_copies:
  assumes tree: "file_tree fs" "\<forall>q. q \<noteq> [] \<and> prefix q target \<longrightarrow> map_of fs q = Some Dir" and par: "src \<parallel> target"
    and s: "copying subs src target fs gone s"
    and run: "scaffold_entry src target subs (src @ r) s = (Inr (), t)"
    and r: "map_of fs (src @ r) = Some n" "r = [] \<or> ''__pycache__'' \<notin> set (src @ r)"
  shows "copying subs src target fs (insert r gone) t"
proof -
  from par have ne: "src \<noteq> []" "target \<noteq> []" by auto
  have far: "\<not> strict_prefix target (src @ r)" using par by (metis parallelE prefix_same_cases prefixI strict_prefixE)
  with s r(1) have sn: "map_of s (src @ r) = Some n" by (simp add: copying_def)
  have dirs: "map_of s q = Some Dir" if "q \<noteq> []" "prefix q target" for q
    using s tree(2) that unfolding copying_def by (metis prefix_order.less_le_not_le)
  have mir: "mirror subs src fs rel = Some (if rel = r then copied subs n else Dir)" if "prefix rel r" "rel \<noteq> []" for rel
    using mirror_prefix [OF tree(1) ne(1) r(1) _ that(1)] r(2) that by auto
  have runs: "map_of t p = (if p = target @ r \<and> n \<noteq> Dir then Some (copied subs n)
      else if p \<noteq> [] \<and> prefix p (target @ r) \<and> map_of s p = None then Some Dir else map_of s p)" for p
  proof (cases n)
    case Dir
    with entry_dir [OF run] sn show ?thesis by simp
  next
    case (File body)
    with entry_file(2) [OF run _ ne(2) dirs [OF ne(2)]] sn show ?thesis by (auto simp: copied_def strict_prefix_def)
  qed
  have full: "r \<noteq> []" if "n \<noteq> Dir" using entry_file(1) [OF run _ ne(2) dirs [OF ne(2)]] sn that by (cases n) auto
  show ?thesis unfolding copying_def
  proof (intro conjI allI impI)
    fix p assume p: "\<not> strict_prefix target p"
    then have "p = target @ r \<longrightarrow> r = []" "prefix p (target @ r) \<longrightarrow> prefix p target"
      using prefix_target [of p target r] by (auto simp: strict_prefix_def)
    with runs [of p] full dirs [of p] have "map_of t p = map_of s p" by auto
    with s p show "map_of t p = map_of fs p" by (simp add: copying_def)
  next
    fix rel :: path assume rel: "rel \<noteq> []"
    have old: "map_of s (target @ rel) = (if \<exists>d \<in> gone. prefix rel d then mirror subs src fs rel else None)"
      using s rel by (simp add: copying_def)
    show "map_of t (target @ rel) = (if \<exists>d \<in> insert r gone. prefix rel d then mirror subs src fs rel else None)"
    proof (cases "prefix rel r")
      case True
      with runs [of "target @ rel"] old mir [OF True rel] rel ne show ?thesis by (auto simp: copied_def)
    next
      case False
      with runs [of "target @ rel"] old show ?thesis by auto
    qed
  qed
qed

lemma entries_copy:
  assumes "forF (scaffold_entry src target subs) (map ((@) src) rels) s = (Inr (), t)" "copying subs src target fs gone s"
    and "file_tree fs" "\<forall>q. q \<noteq> [] \<and> prefix q target \<longrightarrow> map_of fs q = Some Dir" "src \<parallel> target"
    and "\<forall>r \<in> set rels. map_of fs (src @ r) \<noteq> None \<and> (r = [] \<or> ''__pycache__'' \<notin> set (src @ r))"
  shows "copying subs src target fs (gone \<union> set rels) t"
  using assms(1,2,6)
proof (induction rels arbitrary: s gone)
  case (Cons r rels)
  then obtain u n where u: "scaffold_entry src target subs (src @ r) s = (Inr (), u)"
      "forF (scaffold_entry src target subs) (map ((@) src) rels) u = (Inr (), t)" "map_of fs (src @ r) = Some n"
    by (auto simp: bindF_Inr)
  from entry_copies [OF assms(3-5) Cons.prems(2) u(1,3)] Cons.prems(3) have "copying subs src target fs (insert r gone) u" by simp
  from Cons.IH [OF u(2) this] Cons.prems(3) show ?case by simp
qed simp

lemma walk_rels:
  assumes "map_of fs src \<noteq> None"
  shows "\<exists>rels. walk_template src fs = map ((@) src) rels \<and> distinct rels \<and>
    set rels = {rel. map_of fs (src @ rel) \<noteq> None \<and> (rel = [] \<or> ''__pycache__'' \<notin> set (src @ rel))}"
proof -
  define xs where "xs = filter (\<lambda>p. ''__pycache__'' \<notin> set p) (sort (remdups (map fst (filter (\<lambda>(p, _). strict_prefix src p) fs))))"
  let ?f = "drop (length src)" and ?rels = "[] # map (drop (length src)) xs"
  have mem: "p \<in> set xs \<longleftrightarrow> strict_prefix src p \<and> map_of fs p \<noteq> None \<and> ''__pycache__'' \<notin> set p" for p
    by (auto simp: map_of_eq_None_iff xs_def)
  have form: "src @ ?f p = p" "?f p \<noteq> []" if "p \<in> set xs" for p
    using that mem by (auto simp: strict_prefix_def prefix_def)
  have "map ((@) src \<circ> ?f) xs = xs" by (rule map_idI) (simp only: o_apply form)
  then have "walk_template src fs = map ((@) src) ?rels" by (simp add: walk_template_def xs_def)
  moreover have "distinct ?rels"
  proof -
    have "inj_on ?f (set xs)" by (rule inj_on_inverseI [where g = "(@) src"]) (rule form)
    moreover have "[] \<notin> ?f ` set xs" using form(2) by force
    moreover have "distinct xs" by (simp add: xs_def)
    ultimately show ?thesis by (simp add: distinct_map del: drop_eq_Nil drop_eq_Nil2)
  qed
  moreover have "rel \<in> ?f ` set xs \<longleftrightarrow> rel \<noteq> [] \<and> map_of fs (src @ rel) \<noteq> None \<and> ''__pycache__'' \<notin> set (src @ rel)" for rel
  proof
    assume "rel \<in> ?f ` set xs"
    then obtain p where "p \<in> set xs" "rel = ?f p" by blast
    with form [of p] mem [of p] show "rel \<noteq> [] \<and> map_of fs (src @ rel) \<noteq> None \<and> ''__pycache__'' \<notin> set (src @ rel)"
      by (simp del: drop_eq_Nil drop_eq_Nil2)
  next
    assume "rel \<noteq> [] \<and> map_of fs (src @ rel) \<noteq> None \<and> ''__pycache__'' \<notin> set (src @ rel)"
    with mem [of "src @ rel"] have "src @ rel \<in> set xs" by (auto simp: strict_prefix_def)
    then show "rel \<in> ?f ` set xs" by (rule image_eqI [rotated]) simp
  qed
  then have "set ?rels = {rel. map_of fs (src @ rel) \<noteq> None \<and> (rel = [] \<or> ''__pycache__'' \<notin> set (src @ rel))}"
    using assms by auto
  ultimately show ?thesis by blast
qed

lemma made_tree:
  assumes "file_tree fs" "mkdir_p target fs = (Inr (), s)"
  shows "file_tree s"
proof -
  note made = mkdir_run [OF assms(2)]
  have "map_of s q = Some Dir" if p: "map_of s p \<noteq> None" "q \<noteq> []" "strict_prefix q p" for p q
  proof (cases "map_of fs p = None")
    case True
    with p made(1) [of p] have "prefix p target" by (auto split: if_splits)
    with p(2,3) made(2) show ?thesis by (meson prefix_order.less_imp_le prefix_order.trans)
  next
    case False
    with assms(1) p(2,3) have "map_of fs q = Some Dir" unfolding file_tree_def by blast
    with made(1) show ?thesis by simp
  qed
  then show ?thesis unfolding file_tree_def by blast
qed

lemma nothing_below:
  assumes "file_tree fs" "\<not> (map_of fs target \<noteq> None \<and> has_children target fs)" "target \<noteq> []" "rel \<noteq> []"
  shows "map_of fs (target @ rel) = None"
proof (rule ccontr)
  assume some: "map_of fs (target @ rel) \<noteq> None"
  obtain x xs where rel: "rel = x # xs" using assms(4) by (cases rel) auto
  have "strict_prefix target (target @ rel)" using assms(4) by (simp add: strict_prefix_def)
  with assms(1,3) some have "map_of fs target = Some Dir" unfolding file_tree_def by blast
  moreover have "map_of fs (target @ [x]) \<noteq> None"
  proof (cases "xs = []")
    case False
    then have "strict_prefix (target @ [x]) (target @ rel)" by (simp add: rel strict_prefix_def)
    with assms(1) some have "map_of fs (target @ [x]) = Some Dir" unfolding file_tree_def by blast
    then show ?thesis by simp
  qed (use some rel in simp)
  then have "(target @ [x]) \<in> fst ` set fs" by (simp add: map_of_eq_None_iff)
  then have "has_children target fs" by (force simp: has_children_def list_ex_iff)
  ultimately show False using assms(2) by simp
qed

text \<open>What leads to an entry of the walk is in the walk.\<close>

lemma rels_closed:
  assumes "file_tree fs" "map_of fs (src @ d) \<noteq> None \<and> (d = [] \<or> ''__pycache__'' \<notin> set (src @ d))" "prefix rel d" "rel \<noteq> []"
    and "src \<noteq> []"
  shows "map_of fs (src @ rel) \<noteq> None \<and> ''__pycache__'' \<notin> set (src @ rel)"
proof -
  from assms(2-4) have d: "''__pycache__'' \<notin> set (src @ d)" by auto
  from assms(2) obtain n where "map_of fs (src @ d) = Some n" by auto
  from mirror_prefix [OF assms(1,5) this d assms(3), of "[]"] show ?thesis by (auto simp: mirror_def split: if_splits)
qed

text \<open>The directory the template is read from.\<close>

definition template_root :: "path \<Rightarrow> path \<Rightarrow> string \<Rightarrow> files \<Rightarrow> path" where
  "template_root source_tree installed name fs =
     (let rel = ''templates'' # py_split (CHR ''/'') name
      in if map_of fs (source_tree @ rel) \<noteq> None then source_tree @ rel else installed @ rel)"

text \<open>
  C25: What \<open>wcp init\<close> writes, for every path of the file system. When it returns, the target had no entries.
  Below the target lies exactly the template: at each relative path a directory where the template has one, a file with the
  placeholders replaced one after the other where it has a file, and nothing where the template has nothing or
  where the path goes through __pycache__. The target and what it lies in are directories, made where they were
  missing. All other paths are as they were. The template is outside the target.
\<close>

theorem scaffold_writes:
  assumes "scaffold_from_template source_tree installed name target subs fs = (Inr (), fs')" "file_tree fs"
    and "source_tree @ ''templates'' # py_split (CHR ''/'') name \<parallel> target" "installed @ ''templates'' # py_split (CHR ''/'') name \<parallel> target"
  shows "\<not> (map_of fs target \<noteq> None \<and> has_children target fs) \<and>
    (\<forall>rel. rel \<noteq> [] \<longrightarrow> map_of fs' (target @ rel) =
      (let entry = template_root source_tree installed name fs @ rel in
       if ''__pycache__'' \<in> set entry then None
       else case map_of fs entry of
           None \<Rightarrow> None
         | Some Dir \<Rightarrow> Some Dir
         | Some (File body) \<Rightarrow> Some (File (substitute subs body)))) \<and>
    (\<forall>p. \<not> strict_prefix target p \<longrightarrow> map_of fs' p = (if p \<noteq> [] \<and> prefix p target then Some Dir else map_of fs p))"
proof -
  let ?src = "template_root source_tree installed name fs"
  from assms(1) have empty: "\<not> (map_of fs target \<noteq> None \<and> has_children target fs)"
    by (auto simp: scaffold_from_template_def split: if_splits)
  with assms(1) obtain s1 where s1: "mkdir_p target fs = (Inr (), s1)"
    by (auto simp: scaffold_from_template_def bindF_Inr split: if_splits)
  note made = mkdir_run [OF s1]
  have par: "?src \<parallel> target" using assms(3,4) by (simp add: template_root_def Let_def)
  then have ne: "target \<noteq> []" and ne_src: "?src \<noteq> []" by auto
  have same: "map_of s1 (q @ rel) = map_of fs (q @ rel)" if "q \<parallel> target" for q rel
  proof -
    have "\<not> prefix (q @ rel) target" using that by (metis parallelE prefix_order.trans prefixI)
    with made(1) show ?thesis by simp
  qed
  have src: "map_of s1 ?src \<noteq> None"
    and run: "forF (scaffold_entry ?src target subs) (walk_template ?src s1) s1 = (Inr (), fs')"
    using assms(1) empty same [OF assms(3), of "[]"] same [OF assms(4), of "[]"]
    by (auto simp: scaffold_from_template_def bindF_def s1 template_root_def Let_def split: if_splits)
  from walk_rels [OF src] obtain rels where rels: "walk_template ?src s1 = map ((@) ?src) rels"
      "set rels = {rel. map_of s1 (?src @ rel) \<noteq> None \<and> (rel = [] \<or> ''__pycache__'' \<notin> set (?src @ rel))}" by blast
  note tree = made_tree [OF assms(2) s1]
  have below: "map_of s1 (target @ rel) = None" if "rel \<noteq> []" for rel
    using nothing_below [OF assms(2) empty ne that] made(1) [of "target @ rel"] that by simp
  have "copying subs ?src target s1 {} s1" using below by (simp add: copying_def)
  from entries_copy [OF run [unfolded rels(1)] this tree _ par] made(2) rels(2)
  have done1: "copying subs ?src target s1 (set rels) fs'" by auto
  have mir: "map_of fs' (target @ rel) = mirror subs ?src fs rel" if "rel \<noteq> []" for rel
  proof -
    have eq: "mirror subs ?src s1 rel = mirror subs ?src fs rel" using same [OF par] by (simp add: mirror_def)
    have "mirror subs ?src fs rel = None" if "rel \<notin> set rels"
      using that \<open>rel \<noteq> []\<close> rels(2) same [OF par] by (auto simp: mirror_def)
    moreover have "rel \<in> set rels" if d: "d \<in> set rels" "prefix rel d" for d
    proof -
      from d(1) have "map_of s1 (?src @ d) \<noteq> None \<and> (d = [] \<or> ''__pycache__'' \<notin> set (?src @ d))" unfolding rels(2) by blast
      from rels_closed [OF tree this d(2) \<open>rel \<noteq> []\<close> ne_src] show ?thesis unfolding rels(2) by blast
    qed
    moreover have "map_of fs' (target @ rel) = (if \<exists>d \<in> set rels. prefix rel d then mirror subs ?src s1 rel else None)"
      using done1 \<open>rel \<noteq> []\<close> by (simp add: copying_def)
    ultimately show ?thesis unfolding eq by (metis prefix_order.refl)
  qed
  have out: "map_of fs' p = (if p \<noteq> [] \<and> prefix p target then Some Dir else map_of fs p)" if "\<not> strict_prefix target p" for p
    using done1 that made [of p] by (auto simp: copying_def)
  have mirror: "mirror subs ?src fs rel = (let entry = ?src @ rel in if ''__pycache__'' \<in> set entry then None
      else case map_of fs entry of None \<Rightarrow> None | Some Dir \<Rightarrow> Some Dir | Some (File body) \<Rightarrow> Some (File (substitute subs body)))" for rel
    by (simp add: mirror_def copied_def Let_def split: option.split node.split)
  show ?thesis
  proof (intro conjI allI impI)
    fix rel :: path assume "rel \<noteq> []"
    from mir [OF this] show "map_of fs' (target @ rel) = (let entry = ?src @ rel in if ''__pycache__'' \<in> set entry then None
      else case map_of fs entry of None \<Rightarrow> None | Some Dir \<Rightarrow> Some Dir | Some (File body) \<Rightarrow> Some (File (substitute subs body)))"
      unfolding mirror .
  qed (rule empty, rule out)
qed

text \<open>A directory that is not empty is refused.\<close>

lemma scaffold_refuses:
  assumes "map_of fs target = Some Dir" "has_children target fs"
  shows "scaffold_from_template source_tree installed name target subs fs = (Inl (ClickException ''Target directory is not empty''), fs)"
  using assms by (simp add: scaffold_from_template_def)

definition sample_files :: files where
  "sample_files = [([''pkg''], Dir), ([''pkg'', ''templates''], Dir), ([''pkg'', ''templates'', ''agent''], Dir),
     ([''pkg'', ''templates'', ''agent'', ''a''], File ''x{{NAME}}''), ([''pkg'', ''templates'', ''agent'', ''__pycache__''], Dir)]"

lemma sample_scaffold:
  "\<exists>fs'. init_agent [''pkg''] [''site''] ''bob'' ''openai'' ''ws'' [''bot''] sample_files = (Inr (), fs')"
  by (simp add: init_agent_def scaffold_from_template_def sample_files_def bindF_def mkdir_p_def mkdir_one_def upt_rec Let_def
      walk_template_def strict_prefix_def prefix_def scaffold_entry_def read_text_def write_text_def)

text \<open>The template's file is copied with its name put in, its compiled files are not, and there is nothing else.\<close>

theorem scaffold_writes_witness:
  "\<exists>fs'. init_agent [''pkg''] [''site''] ''bob'' ''openai'' ''ws'' [''bot''] sample_files = (Inr (), fs') \<and>
     map_of fs' [''bot'', ''a''] = Some (File ''xbob'') \<and> map_of fs' [''bot'', ''__pycache__''] = None \<and> map_of fs' [''bot'', ''b''] = None"
proof -
  obtain fs' where run: "init_agent [''pkg''] [''site''] ''bob'' ''openai'' ''ws'' [''bot''] sample_files = (Inr (), fs')"
    using sample_scaffold by blast
  let ?subs = "[(''{{NAME}}'', ''bob''), (''{{LLM}}'', ''openai''), (''{{COORDINATOR}}'', ''ws'')]"
  have src: "template_root [''pkg''] [''site''] ''agent'' sample_files = [''pkg'', ''templates'', ''agent'']"
    by (simp add: template_root_def sample_files_def)
  have tree: "file_tree sample_files"
    unfolding file_tree_def
  proof (intro allI impI)
    fix p q assume "map_of sample_files p \<noteq> None \<and> q \<noteq> [] \<and> strict_prefix q p"
    then show "map_of sample_files q = Some Dir"
      by (cases q; cases "tl q"; cases "tl (tl q)") (auto simp: sample_files_def strict_prefix_def prefix_Cons split: if_splits)
  qed
  note w = scaffold_writes [OF run [unfolded init_agent_def] tree, THEN conjunct2, THEN conjunct1, rule_format, unfolded src]
  have sub: "substitute ?subs ''x{{NAME}}'' = ''xbob''"
    by (simp add: substitute_def py_replace.simps startswith_def)
  from w [of "[''a'']"] w [of "[''__pycache__'']"] w [of "[''b'']"] sub run show ?thesis
    by (simp add: parallel_def sample_files_def)
qed

end
