(* ===== verification/Cli.thy ===== *)
theory Cli
  imports Scaffold
begin

text \<open>
  \<open>wcp_cli/\<close>: \<open>wcp dev\<close> with the processes it starts (\<open>commands/dev.py\<close>), \<open>wcp doctor\<close> (\<open>doctor.py\<close>),
  \<open>wcp test\<close> (\<open>test.py\<close>), \<open>wcp inspect\<close> (\<open>inspect_cmd.py\<close>) and the exit codes of \<open>main.py\<close>.

  What the operating system does is an argument: whether a child can be started, when it ends by itself and with
  which code, whether a child that was told to terminate does so within the five seconds it is given, which signal
  arrives when, what a command that is run to its end returns. A run is a sequence of operations; a signal arrives
  before one of them, and what it does depends on the handlers installed by then. \<open>wcp dev\<close> loops until a
  child ends or a signal arrives, so it may run for ever: its loops are partial functions, \<open>None\<close> when they do
  not return.
\<close>

subsection \<open>Child processes\<close>

datatype child_state = Running | Exited int | Terminated | Killed

record child =
  ch_args :: "string list"
  ch_state :: child_state

text \<open>The children are numbered in the order they were started; \<open>pw_now\<close> counts the operations.\<close>

record processes =
  pw_children :: "child list"
  pw_now :: nat

datatype signal = SIGINT | SIGTERM

record os =
  os_start :: "nat \<Rightarrow> cli_exc option"
  os_exits :: "nat \<Rightarrow> nat \<Rightarrow> int option"
  os_slow :: "nat \<Rightarrow> bool"
  os_signal :: "nat \<Rightarrow> signal option"

text \<open>How \<open>wcp dev\<close> ends: it returns or raises, or the process dies of a signal it has no handler for.\<close>

datatype dev_end = Ended "cli_exc + unit" | Died signal

text \<open>
  A signal without a handler: Python turns \<open>SIGINT\<close> into \<open>KeyboardInterrupt\<close>, which click turns into \<open>Abort\<close>;
  \<open>SIGTERM\<close> kills the process.
\<close>

fun unhandled :: "signal \<Rightarrow> dev_end" where
  "unhandled SIGINT = Ended (Inl Abort)"
| "unhandled SIGTERM = Died SIGTERM"

definition tick :: "processes \<Rightarrow> processes" where
  "tick w = w\<lparr>pw_now := Suc (pw_now w)\<rparr>"

definition popen :: "os \<Rightarrow> string list \<Rightarrow> processes \<Rightarrow> (cli_exc + nat) \<times> processes" where
  "popen os args w =
     (let p = length (pw_children w) in
      case os_start os p of
        Some e \<Rightarrow> (Inl e, w)
      | None \<Rightarrow> (Inr p, w\<lparr>pw_children := pw_children w @ [\<lparr>ch_args = args, ch_state = Running\<rparr>]\<rparr>))"

definition set_child :: "nat \<Rightarrow> child_state \<Rightarrow> processes \<Rightarrow> processes" where
  "set_child p st w = w\<lparr>pw_children := (pw_children w)[p := (pw_children w ! p)\<lparr>ch_state := st\<rparr>]\<rparr>"

text \<open>\<open>p.poll()\<close>: the return code of a child that has ended, of a signal its negated number.\<close>

definition poll :: "os \<Rightarrow> nat \<Rightarrow> processes \<Rightarrow> int option \<times> processes" where
  "poll os p w =
     (case ch_state (pw_children w ! p) of
        Running \<Rightarrow> (case os_exits os p (pw_now w) of None \<Rightarrow> (None, w) | Some c \<Rightarrow> (Some c, set_child p (Exited c) w))
      | Exited c \<Rightarrow> (Some c, w)
      | Terminated \<Rightarrow> (Some (- 15), w)
      | Killed \<Rightarrow> (Some (- 9), w))"

definition terminate_one :: "os \<Rightarrow> nat \<Rightarrow> processes \<Rightarrow> processes" where
  "terminate_one os p w =
     (case poll os p w of
        (Some _, v) \<Rightarrow> v
      | (None, v) \<Rightarrow> set_child p (if os_slow os p then Killed else Terminated) v)"

text \<open>
  \<open>_terminate_all\<close> on \<open>rest\<close>, to end in \<open>r\<close>. A signal with a handler starts it anew, on all of \<open>procs\<close>, inside the handler,
  which then exits with 0; what was interrupted is not resumed. Installed are the handlers of \<open>hs\<close>.
\<close>

partial_function (option) terminate_all ::
  "os \<Rightarrow> signal set \<Rightarrow> nat list \<Rightarrow> nat list \<Rightarrow> dev_end \<Rightarrow> processes \<Rightarrow> (dev_end \<times> processes) option" where
  "terminate_all os hs procs rest r w =
     (case os_signal os (pw_now w) of
        Some sig \<Rightarrow>
          if sig \<in> hs then terminate_all os hs procs procs (Ended (Inl (SystemExit 0))) (tick w) else Some (unhandled sig, tick w)
      | None \<Rightarrow>
          (case rest of
             [] \<Rightarrow> Some (r, tick w)
           | p # ps \<Rightarrow> terminate_all os hs procs ps r (tick (terminate_one os p w))))"

text \<open>\<open>_shutdown\<close>\<close>

definition shutdown :: "os \<Rightarrow> signal set \<Rightarrow> nat list \<Rightarrow> processes \<Rightarrow> (dev_end \<times> processes) option" where
  "shutdown os hs procs w = terminate_all os hs procs procs (Ended (Inl (SystemExit 0))) w"

text \<open>One operation, at which a signal may arrive; then \<open>k\<close> goes on.\<close>

definition unless_signal ::
  "os \<Rightarrow> signal set \<Rightarrow> nat list \<Rightarrow> processes \<Rightarrow> (processes \<Rightarrow> (dev_end \<times> processes) option) \<Rightarrow> (dev_end \<times> processes) option" where
  "unless_signal os hs procs w k =
     (case os_signal os (pw_now w) of
        None \<Rightarrow> k (tick w)
      | Some sig \<Rightarrow> if sig \<in> hs then shutdown os hs procs (tick w) else Some (unhandled sig, tick w))"

subsection \<open>wcp dev\<close>

definition uvicorn_args :: "int \<Rightarrow> bool \<Rightarrow> string list" where
  "uvicorn_args port no_reload =
     [''python'', ''-m'', ''uvicorn'', ''wcp_dev_runtime.coordinator_dev_app:app'', ''--port'', show_int port] @
     (if no_reload then [] else [''--reload''])"

definition child_result :: "int \<Rightarrow> cli_exc + unit" where
  "child_result c =
     (if c \<noteq> 0 then Inl (ClickException (''child exited unexpectedly with code '' @ show_int c)) else Inr ())"

text \<open>
  The loop, with the children \<open>ps\<close> still to be looked at in this round: the first one found ended decides. Both
  handlers are installed.
\<close>

partial_function (option) dev_loop :: "os \<Rightarrow> nat list \<Rightarrow> nat list \<Rightarrow> processes \<Rightarrow> (dev_end \<times> processes) option" where
  "dev_loop os procs ps w =
     (case os_signal os (pw_now w) of
        Some sig \<Rightarrow> shutdown os {SIGINT, SIGTERM} procs (tick w)
      | None \<Rightarrow>
          (case ps of
             [] \<Rightarrow> dev_loop os procs procs (tick w)
           | p # rest \<Rightarrow>
               (case poll os p w of
                  (None, v) \<Rightarrow> dev_loop os procs rest (tick v)
                | (Some c, v) \<Rightarrow> terminate_all os {SIGINT, SIGTERM} procs procs (Ended (child_result c)) (tick v))))"

definition no_program :: string where
  "no_program = ''No worker.py or agent.py in current directory. Run `wcp init worker <name>` first.''"

text \<open>
  The handlers are installed one after the other when both children are running, so that a signal before that
  finds none, or only the one of \<open>SIGINT\<close>.
\<close>

definition dev_start :: "os \<Rightarrow> nat list \<Rightarrow> string \<Rightarrow> processes \<Rightarrow> (dev_end \<times> processes) option" where
  "dev_start os procs target w =
     (case popen os [''python'', target] w of
        (Inl e, v) \<Rightarrow> Some (Ended (Inl e), v)
      | (Inr p, v) \<Rightarrow>
          unless_signal os {} (procs @ [p]) v (\<lambda>v1.
          unless_signal os {SIGINT} (procs @ [p]) v1 (\<lambda>v2.
          dev_loop os (procs @ [p]) (procs @ [p]) v2)))"

definition dev_coordinator :: "os \<Rightarrow> int \<Rightarrow> bool \<Rightarrow> bool \<Rightarrow> processes \<Rightarrow> (cli_exc + nat list) \<times> processes" where
  "dev_coordinator os port skip_coordinator no_reload w =
     (if skip_coordinator then (Inr [], w)
      else case popen os (uvicorn_args port no_reload) w of (r, v) \<Rightarrow> (map_sum id (\<lambda>p. [p]) r, v))"

text \<open>What is found in the working directory, in the order it is looked for.\<close>

definition program :: "path \<Rightarrow> files \<Rightarrow> string option" where
  "program cwd fs =
     (if map_of fs (cwd @ [''worker.py'']) \<noteq> None then Some ''worker.py''
      else if map_of fs (cwd @ [''agent.py'']) \<noteq> None then Some ''agent.py'' else None)"

definition dev_rest :: "os \<Rightarrow> path \<Rightarrow> files \<Rightarrow> nat list \<Rightarrow> processes \<Rightarrow> (dev_end \<times> processes) option" where
  "dev_rest os cwd fs procs w =
     (case program cwd fs of
        Some target \<Rightarrow> dev_start os procs target w
      | None \<Rightarrow> terminate_all os {} procs procs (Ended (Inl (ClickException no_program))) w)"

definition dev :: "os \<Rightarrow> int \<Rightarrow> bool \<Rightarrow> bool \<Rightarrow> path \<Rightarrow> files \<Rightarrow> processes \<Rightarrow> (dev_end \<times> processes) option" where
  "dev os port skip_coordinator no_reload cwd fs w =
     unless_signal os {} [] w (\<lambda>w1.
     case dev_coordinator os port skip_coordinator no_reload w1 of
       (Inl e, v) \<Rightarrow> Some (Ended (Inl e), v)
     | (Inr procs, v) \<Rightarrow> unless_signal os {} procs v (dev_rest os cwd fs procs))"

text \<open>
  \<open>subprocess.call\<close> runs a command to its end: \<open>rc\<close> gives the return code, or the error when it cannot be
  started. Beside the outcome, the commands that were run.
\<close>

type_synonym subprocess_call = "string list \<Rightarrow> cli_exc + int"

fun call_each :: "subprocess_call \<Rightarrow> string list list \<Rightarrow> (cli_exc + int list) \<times> string list list" where
  "call_each rc [] = (Inr [], [])"
| "call_each rc (c # cs) =
     (case rc c of
        Inl e \<Rightarrow> (Inl e, [c])
      | Inr k \<Rightarrow> (let (r, cmds) = call_each rc cs in (map_sum id (Cons k) r, c # cmds)))"

text \<open>\<open>_run_bundled_example\<close>: what is printed last; no return code of a command is an error.\<close>

definition run_bundled_example :: "subprocess_call \<Rightarrow> path \<Rightarrow> string \<Rightarrow> files \<Rightarrow> (cli_exc + string) \<times> string list list" where
  "run_bundled_example rc repo_root example fs =
     (let dir = repo_root @ [''examples'', example];
          has = (\<lambda>f. map_of fs (dir @ [f]) \<noteq> None);
          compose = [''docker'', ''compose'', ''-f'', ''docker-compose.yml'', ''up'', ''-d'']
      in if map_of fs dir \<noteq> Some Dir then
           (Inl (if map_of fs (repo_root @ [''examples'']) \<noteq> Some Dir then OSError ''examples'' else SystemExit 1), [])
         else
           (case call_each rc ((if has ''docker-compose.yml'' then [compose] else []) @
              (if has ''setup.sh'' then [[''setup.sh'']] else []) @ (if has ''verify.sh'' then [[''verify.sh'']] else [])) of
              (Inl e, cmds) \<Rightarrow> (Inl e, cmds)
            | (Inr ks, cmds) \<Rightarrow> (Inr (if has ''verify.sh'' \<and> last ks = 0 then ''ok'' else ''warn''), cmds)))"

definition dev_command ::
  "subprocess_call \<Rightarrow> os \<Rightarrow> path \<Rightarrow> string option \<Rightarrow> int \<Rightarrow> bool \<Rightarrow> bool \<Rightarrow> path \<Rightarrow> files \<Rightarrow> processes \<Rightarrow>
    (dev_end \<times> processes) option" where
  "dev_command rc os repo_root example port skip_coordinator no_reload cwd fs w =
     (case example of
        Some e \<Rightarrow> Some (Ended (map_sum id (\<lambda>_. ()) (fst (run_bundled_example rc repo_root e fs))), w)
      | None \<Rightarrow> dev os port skip_coordinator no_reload cwd fs w)"

subsection \<open>wcp doctor\<close>

text \<open>What importing a package ends in; only an \<open>ImportError\<close> is caught.\<close>

datatype import_result = Imported "string option" | NotFound | Broken cli_exc

definition REQUIRED_PACKAGES :: "string list" where
  "REQUIRED_PACKAGES = [''wcp_sdk'', ''click'', ''rich'', ''httpx'', ''websockets'', ''cryptography'']"

definition OPTIONAL_PACKAGES :: "string list" where
  "OPTIONAL_PACKAGES = [''fastapi'', ''uvicorn'', ''sqlalchemy'', ''wcp_conformance'']"

type_synonym doctor_row = "string \<times> string \<times> string"

definition dashed :: "string \<Rightarrow> string" where
  "dashed pkg = map (\<lambda>c. if c = CHR ''_'' then CHR ''-'' else c) pkg"

definition version_text :: "string option \<Rightarrow> string" where
  "version_text v = ''version='' @ (case v of Some s \<Rightarrow> s | None \<Rightarrow> ''(no __version__)'')"

fun check_rows :: "(string \<times> (string + string)) list \<Rightarrow> doctor_row list \<times> bool" where
  "check_rows [] = ([], True)"
| "check_rows ((label, r) # cs) =
     (let (rows, ok) = check_rows cs in
      case r of Inr s \<Rightarrow> ((label, ''ok'', s) # rows, ok) | Inl e \<Rightarrow> ((label, ''fail'', e) # rows, False))"

fun required_rows :: "(string \<Rightarrow> import_result) \<Rightarrow> string list \<Rightarrow> cli_exc + (doctor_row list \<times> bool)" where
  "required_rows imp [] = Inr ([], True)"
| "required_rows imp (pkg # ps) =
     (case imp pkg of
        Broken e \<Rightarrow> Inl e
      | Imported v \<Rightarrow> map_sum id (\<lambda>(rows, ok). ((pkg, ''ok'', version_text v) # rows, ok)) (required_rows imp ps)
      | NotFound \<Rightarrow> map_sum id (\<lambda>(rows, ok). ((pkg, ''missing'', ''pip install '' @ dashed pkg) # rows, False)) (required_rows imp ps))"

fun optional_rows :: "(string \<Rightarrow> import_result) \<Rightarrow> string list \<Rightarrow> cli_exc + doctor_row list" where
  "optional_rows imp [] = Inr []"
| "optional_rows imp (pkg # ps) =
     (case imp pkg of
        Broken e \<Rightarrow> Inl e
      | Imported v \<Rightarrow> map_sum id (\<lambda>rows. (pkg @ '' (optional)'', ''ok'', version_text v) # rows) (optional_rows imp ps)
      | NotFound \<Rightarrow> map_sum id (\<lambda>rows. (pkg @ '' (optional)'', ''missing'',
            ''required for some features; pip install '' @ dashed pkg) # rows) (optional_rows imp ps))"

text \<open>The table that is printed, if it comes to that, and how the command ends.\<close>

definition doctor ::
  "(string \<times> (string + string)) list \<Rightarrow> (string \<Rightarrow> import_result) \<Rightarrow> string option \<Rightarrow> (cli_exc + unit) \<times> doctor_row list option" where
  "doctor checks imp docker =
     (let (rows0, ok0) = check_rows checks in
      case required_rows imp REQUIRED_PACKAGES of
        Inl e \<Rightarrow> (Inl e, None)
      | Inr (rows1, ok1) \<Rightarrow>
          (case optional_rows imp OPTIONAL_PACKAGES of
             Inl e \<Rightarrow> (Inl e, None)
           | Inr rows2 \<Rightarrow>
               (if \<not> (ok0 \<and> ok1) then Inl (SystemExit 1) else Inr (),
                Some (rows0 @ rows1 @ rows2 @ [(''docker'', if docker \<noteq> None then ''ok'' else ''missing'',
                  case docker of Some d \<Rightarrow> d | None \<Rightarrow> ''required for deployments/docker-compose.yml'')]))))"

subsection \<open>The other commands and the exit code\<close>

definition exit_with :: "cli_exc + int \<Rightarrow> cli_exc + unit" where
  "exit_with r = Inl (case r of Inl e \<Rightarrow> e | Inr c \<Rightarrow> SystemExit c)"

definition wcp_test :: "subprocess_call \<Rightarrow> bool \<Rightarrow> int \<Rightarrow> string \<Rightarrow> cli_exc + unit" where
  "wcp_test rc conformance level target =
     (if conformance then
        exit_with (rc [''python'', ''-m'', ''wcp_conformance.cli'', ''--target'', target, ''--level'', show_int level])
      else Inl (SystemExit 0))"

definition show_path :: "path \<Rightarrow> string" where
  "show_path p = concat (map (\<lambda>s. ''/'' @ s) p)"

definition wcp_inspect :: "subprocess_call \<Rightarrow> path \<Rightarrow> files \<Rightarrow> int \<Rightarrow> string \<Rightarrow> cli_exc + unit" where
  "wcp_inspect rc inspector_dir fs port coordinator =
     (let serve_py = inspector_dir @ [''serve.py''] in
      if map_of fs inspector_dir = None then
        Inl (ClickException (''Inspector assets not found at '' @ show_path inspector_dir @ ''. Reinstall the wcp package.''))
      else if map_of fs serve_py = None then Inl (ClickException (''Inspector entry point missing: '' @ show_path serve_py))
      else exit_with (rc [''python'', show_path serve_py, ''--port'', show_int port, ''--coordinator'', coordinator]))"

text \<open>\<open>main\<close>: the return code, \<open>None\<close> for an exception that is not caught.\<close>

fun cli_main :: "cli_exc + unit \<Rightarrow> int option" where
  "cli_main (Inr _) = Some 0"
| "cli_main (Inl Abort) = Some 130"
| "cli_main (Inl (ClickException m)) = Some 1"
| "cli_main (Inl (SystemExit c)) = Some c"
| "cli_main (Inl (OSError m)) = None"

subsection \<open>The verdict of wcp doctor\<close>

text \<open>
  If nothing but an \<open>ImportError\<close> comes of the imports, \<open>doctor\<close> prints a row for every check and package and exits with 1
  exactly when a check raised or a required package is missing; optional ones and docker do not count.
\<close>

lemma check_rows_ok: "snd (check_rows cs) \<longleftrightarrow> (\<forall>(l, r) \<in> set cs. \<exists>s. r = Inr s)" "map fst (fst (check_rows cs)) = map fst cs"
  by (induction cs rule: check_rows.induct) (auto split: prod.splits sum.splits)

lemma required_rows_ok:
  "\<forall>p \<in> set ps. \<forall>e. imp p \<noteq> Broken e \<Longrightarrow>
    \<exists>rows. required_rows imp ps = Inr (rows, \<forall>p \<in> set ps. imp p \<noteq> NotFound) \<and> map fst rows = ps"
proof (induction ps)
  case (Cons p ps)
  then obtain rows where "required_rows imp ps = Inr (rows, \<forall>q \<in> set ps. imp q \<noteq> NotFound)" "map fst rows = ps" by auto
  with Cons.prems show ?case by (cases "imp p") auto
qed simp

lemma optional_rows_ok:
  "\<forall>p \<in> set ps. \<forall>e. imp p \<noteq> Broken e \<Longrightarrow>
    \<exists>rows. optional_rows imp ps = Inr rows \<and> map fst rows = map (\<lambda>p. p @ '' (optional)'') ps"
proof (induction ps)
  case (Cons p ps)
  then obtain rows where "optional_rows imp ps = Inr rows" "map fst rows = map (\<lambda>p. p @ '' (optional)'') ps" by auto
  with Cons.prems show ?case by (cases "imp p") auto
qed simp

lemma doctor_verdict:
  assumes "\<And>p e. p \<in> set (REQUIRED_PACKAGES @ OPTIONAL_PACKAGES) \<Longrightarrow> imp p \<noteq> Broken e"
  shows "cli_main (fst (doctor checks imp docker)) =
      Some (if (\<forall>(l, r) \<in> set checks. \<exists>s. r = Inr s) \<and> (\<forall>p \<in> set REQUIRED_PACKAGES. imp p \<noteq> NotFound) then 0 else 1)"
    "\<exists>rows. snd (doctor checks imp docker) = Some rows \<and>
      map fst rows = map fst checks @ REQUIRED_PACKAGES @ map (\<lambda>p. p @ '' (optional)'') OPTIONAL_PACKAGES @ [''docker'']"
proof -
  obtain rows0 ok0 where c: "check_rows checks = (rows0, ok0)" by fastforce
  obtain rows1 where r: "required_rows imp REQUIRED_PACKAGES = Inr (rows1, \<forall>p \<in> set REQUIRED_PACKAGES. imp p \<noteq> NotFound)"
      "map fst rows1 = REQUIRED_PACKAGES"
    using required_rows_ok [of REQUIRED_PACKAGES imp] assms by auto
  obtain rows2 where opt: "optional_rows imp OPTIONAL_PACKAGES = Inr rows2"
      "map fst rows2 = map (\<lambda>p. p @ '' (optional)'') OPTIONAL_PACKAGES"
    using optional_rows_ok [of OPTIONAL_PACKAGES imp] assms by auto
  note ok = check_rows_ok [of checks, unfolded c fst_conv snd_conv]
  show "cli_main (fst (doctor checks imp docker)) =
      Some (if (\<forall>(l, r) \<in> set checks. \<exists>s. r = Inr s) \<and> (\<forall>p \<in> set REQUIRED_PACKAGES. imp p \<noteq> NotFound) then 0 else 1)"
    unfolding ok(1) [symmetric] by (simp add: doctor_def c r(1) opt(1))
  show "\<exists>rows. snd (doctor checks imp docker) = Some rows \<and>
      map fst rows = map fst checks @ REQUIRED_PACKAGES @ map (\<lambda>p. p @ '' (optional)'') OPTIONAL_PACKAGES @ [''docker'']"
    by (simp add: doctor_def c r opt ok(2))
qed

subsection \<open>No child is left behind\<close>

lemma set_child_simps [simp]:
  "length (pw_children (set_child p st w)) = length (pw_children w)" "pw_now (set_child p st w) = pw_now w"
  by (simp_all add: set_child_def)

lemma tick_simps [simp]: "pw_children (tick w) = pw_children w" "pw_now (tick w) = Suc (pw_now w)"
  by (simp_all add: tick_def)

text \<open>A child that has ended stays as it is.\<close>

definition ended :: "processes \<Rightarrow> nat \<Rightarrow> bool" where
  "ended w p \<longleftrightarrow> p < length (pw_children w) \<and> ch_state (pw_children w ! p) \<noteq> Running"

definition later :: "processes \<Rightarrow> processes \<Rightarrow> bool" where
  "later w v \<longleftrightarrow> length (pw_children v) = length (pw_children w) \<and> (\<forall>p. ended w p \<longrightarrow> pw_children v ! p = pw_children w ! p)"

lemma later_refl: "later w w"
  by (simp add: later_def)

lemma later_trans: "later u v \<Longrightarrow> later v w \<Longrightarrow> later u w"
  by (auto simp: later_def ended_def)

lemma later_ended: "later w v \<Longrightarrow> ended w p \<Longrightarrow> ended v p"
  by (auto simp: later_def ended_def)

lemma tick_later [simp]: "later w (tick v) = later w v" "later (tick w) v = later w v" "ended (tick w) = ended w"
  by (auto simp: later_def ended_def fun_eq_iff)

lemma poll_later:
  assumes "poll os p w = (r, v)" "p < length (pw_children w)"
  shows "later w v" "r \<noteq> None \<Longrightarrow> ended v p" "pw_now v = pw_now w"
  using assms by (auto simp: poll_def later_def ended_def set_child_def nth_list_update split: child_state.splits option.splits if_splits)

lemma poll_None: "poll os p w = (None, v) \<longleftrightarrow> ch_state (pw_children w ! p) = Running \<and> os_exits os p (pw_now w) = None \<and> v = w"
  by (auto simp: poll_def split: child_state.splits option.splits)

lemma terminate_one_later:
  assumes "p < length (pw_children w)"
  shows "later w (terminate_one os p w) \<and> ended (terminate_one os p w) p"
proof -
  obtain r v where v: "poll os p w = (r, v)" by fastforce
  note pl = poll_later [OF v assms]
  show ?thesis
  proof (cases r)
    case None
    with v have "ch_state (pw_children w ! p) = Running" "v = w" by (simp_all add: poll_None)
    with v None assms show ?thesis by (auto simp: terminate_one_def later_def ended_def set_child_def nth_list_update)
  qed (use v pl in \<open>auto simp: terminate_one_def\<close>)
qed

lemma terminate_one_now [simp]: "pw_now (terminate_one os p w) = pw_now w"
  by (auto simp: terminate_one_def poll_def split: child_state.splits option.splits)

text \<open>When \<open>_terminate_all\<close> is through, all are ended, unless a signal without a handler cut it short.\<close>

lemma terminate_all_ended:
  assumes "terminate_all os hs procs rest r w = Some (r', v)"
    and "\<forall>p \<in> set procs \<union> set rest. p < length (pw_children w)" "\<forall>p \<in> set procs. p \<in> set rest \<or> ended w p"
  shows "later w v \<and> ((\<forall>p \<in> set procs. ended v p) \<and> r' \<in> {r, Ended (Inl (SystemExit 0))} \<or> (\<exists>sig. sig \<notin> hs \<and> r' = unhandled sig))"
proof -
  let ?R = "\<lambda>hs procs r w x. later w (snd x) \<and>
    ((\<forall>p \<in> set procs. ended (snd x) p) \<and> fst x \<in> {r, Ended (Inl (SystemExit 0))} \<or> (\<exists>sig. sig \<notin> hs \<and> fst x = unhandled sig))"
  let ?H = "\<lambda>procs rest w. (\<forall>p \<in> set procs \<union> set rest. p < length (pw_children w)) \<and> (\<forall>p \<in> set procs. p \<in> set rest \<or> ended w p)"
  have "?H procs rest w \<longrightarrow> ?R hs procs r w (r', v)"
  proof (rule terminate_all.raw_induct [OF _ assms(1), of "\<lambda>os hs procs rest r w x. ?H procs rest w \<longrightarrow> ?R hs procs r w x"])
    fix loop os hs procs rest r w x
    assume ih: "\<And>os hs procs rest r w x. loop os hs procs rest r w = Some x \<Longrightarrow> ?H procs rest w \<longrightarrow> ?R hs procs r w x"
      and x: "(case os_signal os (pw_now w) of
        None \<Rightarrow> (case rest of [] \<Rightarrow> Some (r, tick w) | p # ps \<Rightarrow> loop os hs procs ps r (tick (terminate_one os p w)))
      | Some sig \<Rightarrow> if sig \<in> hs then loop os hs procs procs (Ended (Inl (SystemExit 0))) (tick w) else Some (unhandled sig, tick w)) = Some x"
    show "?H procs rest w \<longrightarrow> ?R hs procs r w x"
    proof
      assume h: "?H procs rest w"
      show "?R hs procs r w x"
      proof (cases "os_signal os (pw_now w)")
        case (Some sig)
        with x ih [of os hs procs procs "Ended (Inl (SystemExit 0))" "tick w" x] h show ?thesis
          by (auto simp: later_refl split: if_splits)
      next
        case None
        show ?thesis
        proof (cases rest)
          case Nil
          with None x h show ?thesis by (auto simp: later_refl)
        next
          case (Cons p ps)
          let ?u = "tick (terminate_one os p w)"
          have u: "later w ?u" "ended ?u p" using terminate_one_later [of p w os] h Cons by simp_all
          moreover have "?H procs ps ?u" using h u Cons later_ended [OF u(1)] by (auto simp: later_def)
          moreover have "loop os hs procs ps r ?u = Some x" using None Cons x by simp
          ultimately show ?thesis using ih [of os hs procs ps r ?u x] later_trans by blast
        qed
      qed
    qed
  qed
  with assms(2,3) show ?thesis by simp
qed

lemma terminate_all_returns:
  assumes "\<forall>m \<ge> n. os_signal os m = None"
  shows "terminate_all os hs procs rest r w \<noteq> None"
proof -
  have quiet: "terminate_all os hs procs rest r w \<noteq> None" if "n \<le> pw_now w" for rest r w
    using that
  proof (induction rest arbitrary: w)
    case Nil
    with assms show ?case by (subst terminate_all.simps) simp
  next
    case (Cons p ps)
    with assms show ?case by (subst terminate_all.simps) simp
  qed
  show ?thesis
  proof (induction "n - pw_now w" arbitrary: rest r w rule: less_induct)
    case less
    show ?case
    proof (cases "n \<le> pw_now w")
      case False
      then have "terminate_all os hs procs q s (tick v) \<noteq> None" if "pw_now v = pw_now w" for q s v
        using less that by simp
      then show ?thesis by (subst terminate_all.simps) (simp split: option.split list.split)
    qed (rule quiet)
  qed
qed

text \<open>What the loop says and the children it leaves: an interrupt, or the exit of a child that ended by itself.\<close>

definition reports :: "dev_end \<Rightarrow> processes \<Rightarrow> bool" where
  "reports r v \<longleftrightarrow>
     (r = Ended (Inl (SystemExit 0)) \<or>
      (\<exists>p < length (pw_children v). \<exists>c. ch_state (pw_children v ! p) = Exited c \<and> r = Ended (child_result c)))"

lemma both_handled: "sig \<in> {SIGINT, SIGTERM}"
  by (cases sig) simp_all

lemma shutdown_ended:
  assumes "shutdown os hs procs w = Some (r, v)" "\<forall>p \<in> set procs. p < length (pw_children w)"
  shows "later w v \<and> ((\<forall>p \<in> set procs. ended v p) \<and> r = Ended (Inl (SystemExit 0)) \<or> (\<exists>sig. sig \<notin> hs \<and> r = unhandled sig))"
  using terminate_all_ended [OF assms(1) [unfolded shutdown_def]] assms(2) by auto

text \<open>When the loop returns, the children it watches have all ended, and its result says how.\<close>

lemma dev_loop_ended:
  assumes "dev_loop os procs ps w = Some (r, v)" "\<forall>p \<in> set procs \<union> set ps. p < length (pw_children w)"
    "\<forall>c \<in> set (pw_children w). ch_state c = Running"
  shows "later w v \<and> (\<forall>p \<in> set procs. ended v p) \<and> reports r v"
proof -
  let ?R = "\<lambda>procs w x. later w (snd x) \<and> (\<forall>p \<in> set procs. ended (snd x) p) \<and> reports (fst x) (snd x)"
  let ?H = "\<lambda>procs ps w. (\<forall>p \<in> set procs \<union> set ps. p < length (pw_children w)) \<and> (\<forall>c \<in> set (pw_children w). ch_state c = Running)"
  have "?H procs ps w \<longrightarrow> ?R procs w (r, v)"
  proof (rule dev_loop.raw_induct [OF _ assms(1), of "\<lambda>os procs ps w x. ?H procs ps w \<longrightarrow> ?R procs w x"])
    fix loop os procs ps w x
    assume ih: "\<And>os procs ps w x. loop os procs ps w = Some x \<Longrightarrow> ?H procs ps w \<longrightarrow> ?R procs w x"
      and x: "(case os_signal os (pw_now w) of
        None \<Rightarrow> (case ps of [] \<Rightarrow> loop os procs procs (tick w)
          | p # rest \<Rightarrow> (case poll os p w of
              (None, v) \<Rightarrow> loop os procs rest (tick v)
            | (Some c, v) \<Rightarrow> terminate_all os {SIGINT, SIGTERM} procs procs (Ended (child_result c)) (tick v)))
      | Some sig \<Rightarrow> shutdown os {SIGINT, SIGTERM} procs (tick w)) = Some x"
    show "?H procs ps w \<longrightarrow> ?R procs w x"
    proof
      assume h: "?H procs ps w"
      show "?R procs w x"
      proof (cases "os_signal os (pw_now w)")
        case (Some sig)
        with x have "shutdown os {SIGINT, SIGTERM} procs (tick w) = Some (fst x, snd x)" by simp
        from shutdown_ended [OF this] h both_handled show ?thesis by (auto simp: reports_def)
      next
        case None
        show ?thesis
        proof (cases ps)
          case Nil
          with None x ih [of os procs procs "tick w" x] h show ?thesis by simp
        next
          case (Cons p rest)
          obtain y u where u: "poll os p w = (y, u)" by fastforce
          show ?thesis
          proof (cases y)
            case None1: None
            with u have "u = w" by (simp add: poll_None)
            with None None1 Cons x u ih [of os procs rest "tick w" x] h show ?thesis by simp
          next
            case (Some c)
            have p: "p < length (pw_children w)" and run: "ch_state (pw_children w ! p) = Running" using h Cons by simp_all
            note pl = poll_later [OF u p]
            from u Some run p have st: "ch_state (pw_children u ! p) = Exited c"
              by (auto simp: poll_def set_child_def split: option.splits)
            from None Cons x u Some have "terminate_all os {SIGINT, SIGTERM} procs procs (Ended (child_result c)) (tick u) = Some (fst x, snd x)"
              by simp
            from terminate_all_ended [OF this] h pl(1) both_handled have t: "later u (snd x)" "\<forall>p \<in> set procs. ended (snd x) p"
                "fst x \<in> {Ended (child_result c), Ended (Inl (SystemExit 0))}"
              by (auto simp: later_def)
            have "ended u p" using pl(2) Some by simp
            with t(1) st have "p < length (pw_children (snd x))" "ch_state (pw_children (snd x) ! p) = Exited c"
              by (auto simp: later_def ended_def)
            with t(3) have "reports (fst x) (snd x)" by (auto simp: reports_def)
            with t pl(1) later_trans show ?thesis by blast
          qed
        qed
      qed
    qed
  qed
  with assms(2,3) show ?thesis by simp
qed

text \<open>
  The loop returns if there are finitely many signals, and there is one at or after the start of the loop or a child that has
  ended from some moment on: every round looks at the children again.
\<close>

lemma dev_loop_signal:
  assumes "\<forall>m \<ge> n. os_signal os m = None" "os_signal os k \<noteq> None" "pw_now w \<le> k"
  shows "dev_loop os procs ps w \<noteq> None"
  using assms(3)
proof (induction "k - pw_now w" arbitrary: ps w rule: less_induct)
  case less
  show ?case
  proof (cases "os_signal os (pw_now w)")
    case (Some sig)
    then show ?thesis using terminate_all_returns [OF assms(1)] by (subst dev_loop.simps) (simp add: shutdown_def)
  next
    case None
    with assms(2) less.prems have "pw_now w < k" by (metis le_neq_implies_less)
    with less.hyps have "dev_loop os procs q (tick w) \<noteq> None" for q by simp
    with None show ?thesis
      using terminate_all_returns [OF assms(1)]
      by (subst dev_loop.simps) (auto split: list.split option.split prod.split dest: poll_None [THEN iffD1])
  qed
qed

lemma dev_loop_exit:
  assumes "\<forall>m \<ge> n. os_signal os m = None" "p \<in> set procs" "\<forall>m \<ge> n. os_exits os p m \<noteq> None"
  shows "dev_loop os procs ps w \<noteq> None"
proof -
  note stops = terminate_all_returns [OF assms(1)]
  have found: "dev_loop os procs ps w \<noteq> None" if "n \<le> pw_now w" "p \<in> set ps" for ps w
    using that
  proof (induction ps arbitrary: w)
    case (Cons q ps)
    obtain y u where u: "poll os q w = (y, u)" by fastforce
    show ?case
    proof (cases y)
      case None
      with u Cons.prems assms(3) have "q \<noteq> p" "u = w" by (auto simp: poll_None)
      with None u Cons assms(1) show ?thesis by (subst dev_loop.simps) simp
    next
      case (Some c)
      with u assms(1) Cons.prems stops show ?thesis by (subst dev_loop.simps) simp
    qed
  qed simp
  have late: "dev_loop os procs ps w \<noteq> None" if "n \<le> pw_now w" for ps w
    using that
  proof (induction ps arbitrary: w)
    case Nil
    with assms(1) found [of "tick w" procs] assms(2) show ?case by (subst dev_loop.simps) simp
  next
    case (Cons q ps)
    with assms(1) stops show ?case
      by (subst dev_loop.simps) (auto split: option.split prod.split dest: poll_None [THEN iffD1])
  qed
  show ?thesis
  proof (induction "n - pw_now w" arbitrary: ps w rule: less_induct)
    case less
    show ?case
    proof (cases "n \<le> pw_now w")
      case False
      then have "dev_loop os procs q (tick w) \<noteq> None" for q using less by simp
      with stops show ?thesis
        by (subst dev_loop.simps)
          (auto simp: shutdown_def split: list.split option.split prod.split dest: poll_None [THEN iffD1])
    qed (rule late)
  qed
qed

text \<open>
  \<open>wcp dev\<close> in full, with the moments of a run: the coordinator is started at 0, the wait for it and the search for the
  program are at 1, the program is started and the two handlers are installed at 2 and 3, the loop begins at 4.
\<close>

definition stops :: "os \<Rightarrow> nat list \<Rightarrow> nat \<Rightarrow> bool" where
  "stops os procs n \<longleftrightarrow>
     (\<forall>m \<ge> n. os_signal os m = None) \<and>
     ((\<exists>m \<ge> 4. os_signal os m \<noteq> None) \<or> (\<exists>p \<in> set procs. \<forall>m \<ge> n. os_exits os p m \<noteq> None))"

definition quiet_start :: "os \<Rightarrow> bool" where
  "quiet_start os \<longleftrightarrow> (\<forall>n < 4. os_signal os n = None) \<and> (\<forall>p. os_start os p = None)"

lemma all_ended: "\<forall>p < length (pw_children v). ended v p \<Longrightarrow> \<forall>c \<in> set (pw_children v). ch_state c \<noteq> Running"
  by (auto simp: ended_def in_set_conv_nth)

lemma dev_loop_stops:
  assumes "stops os procs n" "pw_now w \<le> 4"
  shows "dev_loop os procs ps w \<noteq> None"
  using assms dev_loop_exit [of n os _ procs ps w] dev_loop_signal [of n os _ w procs ps]
  unfolding stops_def by (meson le_trans)

text \<open>The part of the run before the program is started, and the rest of it.\<close>

lemma dev_start_cases:
  assumes "procs = [0 ..< length (pw_children w)]" "\<forall>c \<in> set (pw_children w). ch_state c = Running" "pw_now w = 2"
    and "dev_start os procs target w = Some (r, v)"
  shows "(\<exists>n < 4. os_signal os n \<noteq> None) \<or>
    (\<exists>e. os_start os (length procs) = Some e \<and> r = Ended (Inl e) \<and> v = w) \<or>
    os_start os (length procs) = None \<and> (\<forall>c \<in> set (pw_children v). ch_state c \<noteq> Running) \<and> reports r v"
proof (cases "os_start os (length procs)")
  case (Some e)
  with assms show ?thesis by (auto simp: dev_start_def popen_def)
next
  case None
  show ?thesis
  proof (cases "\<exists>n < 4. os_signal os n \<noteq> None")
    case False
    then have "os_signal os 2 = None" "os_signal os 3 = None" by auto
    define u where "u = w\<lparr>pw_children := pw_children w @ [\<lparr>ch_args = [''python'', target], ch_state = Running\<rparr>]\<rparr>"
    have len: "length procs = length (pw_children w)" by (simp add: assms(1))
    with None assms(3,4) \<open>os_signal os 2 = None\<close> \<open>os_signal os 3 = None\<close>
    have l: "dev_loop os (procs @ [length procs]) (procs @ [length procs]) (tick (tick u)) = Some (r, v)"
      by (simp add: dev_start_def popen_def unless_signal_def u_def numeral_3_eq_3)
    have "later (tick (tick u)) v \<and> (\<forall>p \<in> set (procs @ [length procs]). ended v p) \<and> reports r v"
      by (rule dev_loop_ended [OF l]) (use assms(1,2) in \<open>auto simp: u_def\<close>)
    then have "length (pw_children v) = Suc (length procs)" "\<forall>p < Suc (length procs). ended v p" "reports r v"
      using len assms(1) by (auto simp: later_def u_def less_Suc_eq)
    with None all_ended [of v] show ?thesis by simp
  qed simp
qed

lemma dev_missing_cases:
  assumes "procs = [0 ..< length (pw_children w)]" "length procs \<le> 1" "pw_now w = 2"
    and "terminate_all os {} procs procs r0 w = Some (r, v)"
  shows "(\<exists>n < 4. os_signal os n \<noteq> None) \<or> (\<forall>c \<in> set (pw_children v). ch_state c \<noteq> Running) \<and> r = r0"
proof (cases "\<exists>n < 4. os_signal os n \<noteq> None")
  case False
  then have q: "os_signal os 2 = None" "os_signal os 3 = None" by auto
  consider "procs = []" "pw_children w = []" | "procs = [0]" "length (pw_children w) = 1"
    using assms(1,2) by (cases "pw_children w") auto
  then show ?thesis
  proof cases
    case 1
    with assms(3,4) q have "(r, v) = (r0, tick w)" by (subst (asm) terminate_all.simps) simp
    with 1 show ?thesis by simp
  next
    case 2
    let ?u = "tick (terminate_one os 0 w)"
    from 2 assms(3,4) q have "terminate_all os {} [0] [] r0 ?u = Some (r, v)" by (subst (asm) terminate_all.simps) simp
    with assms(3) q have "(r, v) = (r0, tick ?u)" by (subst (asm) terminate_all.simps) (simp add: numeral_3_eq_3)
    moreover have "later w ?u" "ended ?u 0" using terminate_one_later [of 0 w os] 2 by simp_all
    then have "\<forall>c \<in> set (pw_children ?u). ch_state c \<noteq> Running" using 2 all_ended [of ?u] by (auto simp: later_def)
    ultimately show ?thesis by simp
  qed
qed simp

text \<open>The children when the search for the program begins.\<close>

definition coordinator_children :: "int \<Rightarrow> bool \<Rightarrow> bool \<Rightarrow> child list" where
  "coordinator_children port skip no_reload =
     (if skip then [] else [\<lparr>ch_args = uvicorn_args port no_reload, ch_state = Running\<rparr>])"

lemma dev_coordinator_cases:
  assumes "pw_children w = []"
  shows "(\<exists>e. \<not> skip \<and> os_start os 0 = Some e \<and> dev_coordinator os port skip no_reload w = (Inl e, w)) \<or>
    (skip \<or> os_start os 0 = None) \<and> dev_coordinator os port skip no_reload w =
      (Inr [0 ..< length (coordinator_children port skip no_reload)], w\<lparr>pw_children := coordinator_children port skip no_reload\<rparr>)"
  using assms by (auto simp: dev_coordinator_def popen_def coordinator_children_def Let_def split: option.split)

lemma dev_rest_returns:
  assumes "stops os (procs @ [length procs]) n" "procs = [0 ..< length (pw_children w)]" "pw_now w = 2"
  shows "dev_rest os cwd fs procs w \<noteq> None"
proof -
  have q: "\<forall>m \<ge> n. os_signal os m = None" using assms(1) by (simp add: stops_def)
  note t = terminate_all_returns [OF q]
  have "dev_start os procs target w \<noteq> None" for target
    using dev_loop_stops [OF assms(1)] t assms(2,3)
    by (auto simp: dev_start_def popen_def Let_def unless_signal_def shutdown_def split: option.split)
  with t show ?thesis by (auto simp: dev_rest_def split: option.split)
qed

lemma dev_rest_cases:
  assumes "procs = [0 ..< length (pw_children w)]" "length procs \<le> 1" "\<forall>c \<in> set (pw_children w). ch_state c = Running"
    and "pw_now w = 2" "dev_rest os cwd fs procs w = Some (r, v)"
  shows "(\<exists>n < 4. os_signal os n \<noteq> None) \<or>
    (\<exists>e. program cwd fs \<noteq> None \<and> os_start os (length procs) = Some e \<and> r = Ended (Inl e) \<and> v = w) \<or>
    (\<forall>c \<in> set (pw_children v). ch_state c \<noteq> Running) \<and>
      (if program cwd fs = None then r = Ended (Inl (ClickException no_program)) else reports r v)"
proof (cases "program cwd fs")
  case None
  with assms(5) dev_missing_cases [OF assms(1,2,4)] show ?thesis by (auto simp: dev_rest_def)
next
  case (Some target)
  with assms(5) have "dev_start os procs target w = Some (r, v)" by (simp add: dev_rest_def)
  from dev_start_cases [OF assms(1,3,4) this] Some show ?thesis by auto
qed

text \<open>
  C26: \<open>wcp dev\<close>, started with no child. If it ends with a child still running, then a signal arrived before both of its handlers
  were installed, or the program could not be started after the coordinator was. Where neither happens it leaves
  no child running, whatever signals come later: its result is the error of a missing program, 0 on a signal, or the report of a
  child that ended by itself, code 0 as success and any other as an error with that code. And it does end, if the
  signals cease and one of them came once the loop had begun, or a child has ended from some moment on.
\<close>

theorem dev_leaves_no_child:
  assumes "pw_children w = []" "pw_now w = 0"
  shows "(\<forall>r v. dev os port skip no_reload cwd fs w = Some (r, v) \<longrightarrow>
        (\<exists>c \<in> set (pw_children v). ch_state c = Running) \<longrightarrow>
        (\<exists>n < 4. os_signal os n \<noteq> None) \<or> \<not> skip \<and> (\<exists>e. os_start os 1 = Some e \<and> r = Ended (Inl e))) \<and>
      (quiet_start os \<longrightarrow> (\<forall>r v. dev os port skip no_reload cwd fs w = Some (r, v) \<longrightarrow>
        (\<forall>c \<in> set (pw_children v). ch_state c \<noteq> Running) \<and>
        (if program cwd fs = None then r = Ended (Inl (ClickException no_program)) else reports r v))) \<and>
      (stops os (if skip then [0] else [0, 1]) n \<longrightarrow> dev os port skip no_reload cwd fs w \<noteq> None)"
proof -
  let ?cs = "coordinator_children port skip no_reload"
  let ?u = "tick ((tick w)\<lparr>pw_children := ?cs\<rparr>)"
  let ?procs = "[0 ..< length ?cs]"
  have u: "?procs = [0 ..< length (pw_children ?u)]" "length ?procs \<le> 1" "\<forall>c \<in> set (pw_children ?u). ch_state c = Running"
      "pw_now ?u = 2" "?procs @ [length ?procs] = (if skip then [0] else [0, 1])"
    using assms(2) by (simp_all add: coordinator_children_def)
  have run: "os_signal os 0 \<noteq> None \<and> dev os port skip no_reload cwd fs w = Some (unhandled (the (os_signal os 0)), tick w) \<or>
      (\<exists>e. \<not> skip \<and> os_start os 0 = Some e \<and> dev os port skip no_reload cwd fs w = Some (Ended (Inl e), tick w)) \<or>
      os_signal os 1 \<noteq> None \<and> dev os port skip no_reload cwd fs w = Some (unhandled (the (os_signal os 1)), ?u) \<or>
      dev os port skip no_reload cwd fs w = dev_rest os cwd fs ?procs ?u"
    using dev_coordinator_cases [of "tick w" skip os port no_reload] assms
    by (cases "os_signal os 0"; cases "os_signal os 1") (auto simp: dev_def unless_signal_def)
  show ?thesis
  proof (intro conjI allI impI)
    fix r v assume d: "dev os port skip no_reload cwd fs w = Some (r, v)" and c: "\<exists>c \<in> set (pw_children v). ch_state c = Running"
    from run show "(\<exists>n < 4. os_signal os n \<noteq> None) \<or> \<not> skip \<and> (\<exists>e. os_start os 1 = Some e \<and> r = Ended (Inl e))"
      using d c dev_rest_cases [OF u(1-4), of os cwd fs r v] assms(1)
      by (elim disjE) (fastforce simp: coordinator_children_def split: if_splits)+
  next
    assume q: "quiet_start os"
    fix r v assume d: "dev os port skip no_reload cwd fs w = Some (r, v)"
    from run q d have "dev_rest os cwd fs ?procs ?u = Some (r, v)" by (auto simp: quiet_start_def)
    from dev_rest_cases [OF u(1-4) this] q
    show "\<forall>c \<in> set (pw_children v). ch_state c \<noteq> Running"
      and "if program cwd fs = None then r = Ended (Inl (ClickException no_program)) else reports r v"
      by (auto simp: quiet_start_def)
  next
    assume "stops os (if skip then [0] else [0, 1]) n"
    with dev_rest_returns [OF _ u(1,4)] u(5) have "dev_rest os cwd fs ?procs ?u \<noteq> None" by simp
    with run show "dev os port skip no_reload cwd fs w \<noteq> None" by auto
  qed
qed

text \<open>
  A worker that fails at the first look: the coordinator is terminated, killed when it does not go in time, and the
  command exits with 1. And an interrupt while the command waits for the coordinator: it is left running.
\<close>

theorem dev_leaves_no_child_witness:
  "let os = \<lparr>os_start = (\<lambda>_. None), os_exits = (\<lambda>p n. if p = 1 then Some 3 else None), os_slow = (\<lambda>_. True), os_signal = (\<lambda>_. None)\<rparr>;
       start = \<lparr>pw_children = [], pw_now = 0\<rparr>;
       run = (\<lambda>os. dev os 8000 False False [''app''] [([''app'', ''worker.py''], File [])] start);
       early = run (os\<lparr>os_signal := (\<lambda>n. if n = 1 then Some SIGINT else None)\<rparr>)
   in run os \<noteq> None \<and> (\<forall>r v. run os = Some (r, v) \<longrightarrow> (\<forall>c \<in> set (pw_children v). ch_state c \<noteq> Running) \<and>
        map ch_state (pw_children v) = [Killed, Exited 3] \<and> r = Ended (child_result 3)) \<and>
      map_option (\<lambda>(r, v). (r, map ch_state (pw_children v))) early = Some (Ended (Inl Abort), [Running])"
proof -
  let ?os = "\<lparr>os_start = (\<lambda>_. None), os_exits = (\<lambda>p n. if p = 1 then Some 3 else None), os_slow = (\<lambda>_. True), os_signal = (\<lambda>_. None)\<rparr>"
  let ?w = "\<lparr>pw_children = [], pw_now = 0\<rparr>"
  let ?run = "\<lambda>os. dev os 8000 False False [''app''] [([''app'', ''worker.py''], File [])] ?w"
  have st: "stops ?os [0, 1] 0" "quiet_start ?os" by (simp_all add: stops_def quiet_start_def)
  have a: "?run ?os \<noteq> None \<and> (\<forall>r v. ?run ?os = Some (r, v) \<longrightarrow> (\<forall>c \<in> set (pw_children v). ch_state c \<noteq> Running))"
    using dev_leaves_no_child [of ?w ?os 8000 False False "[''app'']" "[([''app'', ''worker.py''], File [])]" 0] st by simp
  have b: "map ch_state (pw_children v) = [Killed, Exited 3] \<and> r = Ended (child_result 3)" if "?run ?os = Some (r, v)" for r v
    using that
    by (simp add: dev_def dev_rest_def program_def unless_signal_def dev_coordinator_def dev_start_def popen_def dev_loop.simps poll_def set_child_def
        terminate_all.simps terminate_one_def tick_def) (auto simp: child_result_def)
  have c: "map_option (\<lambda>(r, v). (r, map ch_state (pw_children v))) (?run (?os\<lparr>os_signal := (\<lambda>n. if n = 1 then Some SIGINT else None)\<rparr>))
      = Some (Ended (Inl Abort), [Running])"
    by (simp add: dev_def unless_signal_def dev_coordinator_def popen_def tick_def)
  from a b c show ?thesis unfolding Let_def by blast
qed

end
