(* ===== verification/Spec2Isabelle.thy ===== *)
theory Spec2Isabelle
  imports Federation_Audit Wcp_Lite Trust_Classes Sdk_Interop Multibase External_Trust Public_Registry Robot_Interop
    Conformance_Interop Sdk_V2_Interop Llm_Tools Adapters_Interop Federation_Demo_Interop Example_Agents_Interop
    Scaffold_Interop Scaffold_Files Cli
begin

text \<open>
  \<^bold>\<open>The Worker Context Protocol reference implementation, verified.\<close>

  The program lets an agent post a physical task, a worker (a person or a robot) claim it, execute it
  and prove it with signed evidence, while a coordinator keeps the state of every task and a
  hash-linked, signed audit log. Its Python parts and the theories that model them:

  \<^item> \<open>Wcp_Prelude\<close>, \<open>Py_Json\<close>, \<open>Codecs\<close>: the vocabulary. Python exceptions as values (\<open>'a res\<close>), stateful
    code that may raise and keeps what it wrote (\<open>('s, 'a) py\<close>), string functions, tables of rows with
    a key, JSON values with Python's truth, equality and printing, the canonical serialisation and
    its injectivity, base58 and base64 with their round trips. The contracts shared by several
    components are locales here: \<open>codec\<close>, \<open>keyed_table\<close>, \<open>hash_chain\<close>.
  \<^item> \<open>Wcp_Env\<close>, \<open>Sample_Env\<close>: what the program runs on and does not contain (clock, UUIDs, SHA-256, Ed25519,
    ISO 8601, float printing) as one record \<open>env\<close> every definition takes as an argument, and a concrete
    record at which theorems with hypotheses are applied.
  \<^item> \<open>Did_Resolver\<close> (\<open>wcp_coordinator/did_resolver.py\<close>), \<open>Wcp_Models\<close> (\<open>models.py\<close>: one record per table, the
    database as the record \<open>db\<close>), \<open>Audit_Chain\<close> (\<open>audit_chain.py\<close>), \<open>Attestation_Verifier\<close>
    (\<open>attestation_verifier/\<close>), \<open>Capabilities_Service\<close> (\<open>capabilities_service.py\<close>), \<open>Tasks_Service\<close>
    (\<open>tasks_service.py\<close>, one definition per handler), \<open>Rpc_Dispatch\<close> (\<open>rpc_dispatch.py\<close>) and \<open>Router\<close>
    (\<open>router.py\<close>): the coordinator. \<open>Router.serve\<close> is one request over HTTP or WebSocket or one heartbeat
    sweep, \<open>Router.reachable\<close> what a coordinator can reach by serving them one at a time.
  \<^item> \<open>Lifecycle\<close>: the task state machine \<open>task_step\<close> as the abstract specification, and the locale
    \<open>db_invariant\<close>: the ways handlers change the database are its assumptions, its lemmas go through
    every handler, method and transport once, and every invariant below is an interpretation
    (\<open>keys\<close>, \<open>logged\<close>, \<open>payloads\<close>, \<open>sim\<close>, \<open>attempts\<close>, \<open>claims\<close>, \<open>counters\<close>). \<open>Task_Results\<close>: what each handler did
    when it returns. \<open>Sample_Run\<close>: a whole run, computed.
  \<^item> \<open>Federation\<close>, \<open>Federation_Audit\<close> (\<open>wcp_coordinator/federation/\<close>): trust anchors and their store, task
    forwarding, capability sync, export and import of audit segments.
  \<^item> \<open>Federation_Transport\<close> (\<open>federation/transport.py\<close>), \<open>Federation_Demo\<close>, \<open>Federation_Demo_Interop\<close>
    (\<open>examples/federation-demo/\<close>, \<open>examples/federation-demo-n3/\<close>): the URLs the forwarder and the audit fetcher
    derive, with the exchange itself as an argument, and the three demonstrations of two and three
    coordinators that hand a task on, run against the modelled coordinators.
  \<^item> \<open>Sdk\<close>, \<open>Sdk_Interop\<close> (\<open>wcp_sdk_python/wcp_sdk/\<close>: \<open>identity.py\<close>, \<open>types.py\<close>, \<open>rpc_client.py\<close>, \<open>session.py\<close>): the
    client side and its composition with the coordinator.
  \<^item> \<open>Robot_Worker\<close>, \<open>Robot_Interop\<close> (\<open>wcp_worker/\<close>): the robot plugin, with its heartbeat loop interleaved with the
    executor by an arbitrary schedule, against the coordinator's WebSocket endpoint.
  \<^item> \<open>Sdk_V2\<close>, \<open>Sdk_V2_Interop\<close> (\<open>wcp_sdk/v2/\<close>): the decorator-style worker, whose registered functions are arguments of
    the model, the agent, the robot agent and the registration index; a dispatched task against the
    coordinator, beside the session's heartbeats.
  \<^item> \<open>Llm_Tools\<close> (\<open>integrations/\<close>): the tools that let a language model drive an agent, and the tasks they post.
  \<^item> \<open>Example_Agents\<close>, \<open>Example_Agents_Interop\<close> (\<open>examples/agents/\<close>): seven pairs of an agent and a worker of the
    second SDK, and the pair of \<open>examples/federation-demo/\<close>, their tasks, handlers and evidence, run against the
    coordinator.
  \<^item> \<open>Scaffold\<close>, \<open>Scaffold_Interop\<close>, \<open>Scaffold_Files\<close> (\<open>wcp_cli/\<close>: \<open>commands/init.py\<close>, \<open>register.py\<close>, \<open>templates/\<close>): the
    scaffolding commands over a file system, the agent and the fourteen workers they write, and
    these run against the coordinator.
  \<^item> \<open>Cli\<close> (\<open>commands/dev.py\<close>, \<open>doctor.py\<close>, \<open>test.py\<close>, \<open>inspect_cmd.py\<close>, \<open>main.py\<close>): the other commands over child processes
    whose starts and ends, and the signals at every moment of a run, are arguments.
  \<^item> \<open>Py_Float\<close>: the float arithmetic of the two groups above and below, with the rounding as a parameter.
  \<^item> \<open>Mqtt_Adapters\<close>, \<open>Device_Adapters\<close>, \<open>Adapters_Interop\<close> (\<open>examples/adapters/\<close>): the bridges to MQTT sensors, VDA 5050
    robots, Modbus PLCs, MAVLink drones and ROS 1, and the template for other vendors, as workers of the second SDK.
  \<^item> \<open>Conformance\<close>, \<open>Conformance_Interop\<close> (\<open>conformance/runner-python/\<close>): the conformance runner over an arbitrary
    implementation under test, and with the coordinator as that implementation.
  \<^item> \<open>Public_Registry\<close> (\<open>infrastructure/public-registry/app/\<close>): the registry of coordinators.
  \<^item> \<open>Wcp_Lite\<close>, \<open>Trust_Classes\<close>, \<open>Multibase\<close>, \<open>External_Trust\<close> (\<open>wcp_sdk/preview/\<close>): the offline buffer over a store of
    the objects it shares with its caller, key trust classes, multibase identifiers, external trust roots.

  \<^bold>\<open>What is shown.\<close> For the coordinator, over all reachable states: the audit chain of every claim
  verifies; every request moves every task only along the state machine; terminal states absorb;
  the recheck loop is bounded and ends; no task is claimed twice; completion needs evidence the
  worker signed and the verifiers passed; the last hash of a chain pins down its contents up to an
  exhibited SHA-256 collision; what a failed call leaves behind. For the verifiers: monotone
  aggregation, exact meaning of the thresholds, soundness of a pass, kinds that always fail. For
  capabilities: matching is antitone. For federation: exported chains import, terminal hashes bind, revoked peers are out,
  forwarding is recorded; what each of the three demonstrations ends with. For the SDK: replies
  meet their calls, an honest worker's three calls complete its task. For the previews: which changes
  the integrity check of a buffer finds, what a replay loses, the trust order, identifier round trips, what external evidence is accepted. For
  the public registry: where PyNaCl is installed, every row is signed under its own key and keys are pinned,
  in the table and in the descriptor shown; a shown descriptor deletes its entry; zero-led keys are refused. For the robot: a transport task is completed under every heartbeat schedule and every
  outcome of the navigation, the exact range of its presence proofs, task types it leaves
  executing. For the second SDK: a dispatched task is completed under every heartbeat schedule, a
  handler that raises leaves it executing, continuations are recorded. For the tools of the
  language models: exactly which of their tasks are admitted. For the example agents: which of
  their tasks end completed and which voided, and that the robot's follow-up task is refused. For
  the command line tool: what \<open>wcp init\<close> writes and leaves alone, what the scaffolded workers do
  with the scaffolded agent's task, that \<open>wcp register\<close> registers nobody, when \<open>wcp dev\<close> leaves a child
  running (only by a signal before its handlers are installed or a program that does not start) and when it ends, when \<open>wcp doctor\<close> fails. For the adapters: the topic filter is
  MQTT's, a PLC is written only where the map allows, its read loop ends, the coordinator fails
  the evidence of four of the five, and their handlers, the template's too, leave a dispatched task executing. For the conformance runner: what a report covers and when a level passes, what a
  passed error case says of the coordinator, that the claims it signs are accepted.

  \<^bold>\<open>How it is modelled.\<close> Strings are lists of characters below 256; the code points above are outside
  the model. Integers are unbounded as in Python; floats are rationals, printed by parameters of
  \<open>env\<close>. Loops are structural recursion or terminate by a measure; no fuel is used. Only
  the loop of \<open>wcp dev\<close> and its way of terminating children, which every further signal starts anew, may run for ever: they are
  partial functions, shown to return when the signals cease and a child has ended or a signal reached the loop. A request whose
  argument does not have the annotated JSON type gives the exception \<open>AnnotationMismatch\<close>, which stands
  for whatever the code then does. SQL's tables are lists of rows in insertion order; a constraint
  the database refuses is the exception it raises. Hypotheses on \<open>env\<close> are named: \<open>sig_correct\<close> (a
  signature verifies under its key), \<open>strict_mono (clock E)\<close> (no two timestamps are equal), \<open>inj (uuid4 E)\<close>
  and \<open>ids_fresh\<close> (UUIDs are new), \<open>float_repr_ok\<close> (floats print injectively), \<open>hash_nonempty\<close>.

  \<^bold>\<open>Not modelled.\<close> Sockets, HTTP framing, reconnect delays, files and key generation (I/O); ROS 2 and the WebRTC session (what a navigation goal
  ends in is an argument); two requests
  at once (the model serves one at a time; SQL isolation is the database's); the ASGI application
  objects and database migrations; the dev runtime and the
  inspector (drivers of the modelled interfaces with I/O of their own), the printing and argument parsing of the demonstrations and commands; the Go, Rust and TypeScript SDKs and the PWA.
\<close>

section \<open>Runs of the coordinator\<close>

lemma reachable_sim: "reachable E s \<Longrightarrow> task_sim s (serve E ev s)"
  by (intro sim.serve_keeps task_sim_refl reachable_keys)

lemma empty_invs: "log_inv E empty_db" "attempts_inv empty_db" "claims_inv empty_db"
  by (simp_all add: log_inv_def audit_inv_def attempts_inv_def claims_inv_def keys_ok_def empty_db_def)

lemma reachable_log: "reachable E s \<Longrightarrow> strict_mono (clock E) \<Longrightarrow> sig_correct E \<Longrightarrow> audit_inv E s"
  using logged.reachable_invariant [OF _ empty_invs(1)] by (simp add: log_inv_def)

lemma reachable_attempts: "reachable E s \<Longrightarrow> attempts_inv s"
  using attempts.reachable_invariant [of E s] by (simp add: empty_invs)

lemma reachable_claims: "reachable E s \<Longrightarrow> claims_inv s"
  using claims.reachable_invariant [of E s] by (simp add: empty_invs)

lemma reachable_payloads: "reachable E s \<Longrightarrow> payloads_inv s"
  using payloads.reachable_invariant [of E s] by (simp add: payloads_inv_def keys_ok_def empty_db_def)

lemma get_task_mem: "get_task s k = Some t \<Longrightarrow> t \<in> set (tasks s) \<and> t_task_id t = k"
  by (rule row_get_Some)

text \<open>
  C1: In every state a coordinator can reach by serving HTTP requests, WebSocket messages and
  heartbeat sweeps, the audit chain of every claim verifies: predecessor links, payload
  hashes, link hashes and signatures. The clock has to advance strictly between readings,
  and a signature made with a key has to verify under it.
\<close>

theorem reachable_chain_verifies:
  assumes "reachable E s" "strict_mono (clock E)" "sig_correct E" "cid \<noteq> []"
  shows "verify_chain E s cid"
  using reachable_log [OF assms(1-3)] assms(4) by (rule verify_chain_inv)

theorem reachable_chain_verifies_witness:
  "verify_chain sample_env run5 claim1"
  using reachable_chain_verifies [OF run5_reachable, of claim1] by (simp add: claim1_def)

text \<open>
  C2: Refinement of the task state machine: whatever a reachable coordinator is asked to do, over
  HTTP, over WebSocket or by a heartbeat sweep, and whether the call succeeds or fails,
  every existing task is still there afterwards and its row is related to the old one by
  steps of the state machine task_step.
\<close>

theorem serve_refines_lifecycle:
  assumes "reachable E s" "get_task s k = Some a"
  shows "\<exists>b. get_task (serve E ev s) k = Some b \<and> task_step\<^sup>*\<^sup>* a b"
  using reachable_sim [OF assms(1)] assms(2) by (simp add: task_sim_def)

theorem serve_refines_lifecycle_witness:
  "\<exists>a b. get_task run4 ''T'' = Some a \<and> get_task (serve sample_env Sweep run4) ''T'' = Some b \<and> task_step\<^sup>*\<^sup>* a b"
  using serve_refines_lifecycle [OF run4_reachable, of "''T''" _ Sweep] by (simp add: run4_tables)

text \<open>
  C3: Terminal states absorb: once a task is completed, voided or aborted, no request changes any
  field of its row.
\<close>

theorem terminal_absorbing:
  assumes "reachable E s" "get_task s k = Some t" "t_state t \<in> set terminal_states"
  shows "get_task (serve E ev s) k = Some t"
  using reachable_sim [OF assms(1), of ev] assms(2,3) task_step_irreversible
  unfolding task_sim_def by blast

theorem terminal_absorbing_witness:
  "\<exists>t. t_state t = COMPLETED \<and> get_task (serve sample_env Sweep run5) ''T'' = Some t"
  using terminal_absorbing [OF run5_reachable, of "''T''" _ Sweep]
  by (simp add: conjunct1 [OF conjunct2 [OF run5]] terminal_states_def)

text \<open>
  C4: The recheck loop is bounded: in every reachable state a task has used at most as many
  attestation attempts as its JSON allows (one if it allows fewer), it has used none
  before its first attestation, a task being rechecked still has attempts left, and a
  voided task has none.
\<close>

theorem attempts_bounded:
  assumes "reachable E s" "get_task s k = Some t" "max_attempts_of t = Inr m"
  shows "0 \<le> t_attestation_attempts_used t \<and> t_attestation_attempts_used t \<le> max 1 m \<and>
    (t_state t \<in> {POSTED, CLAIMED, EXECUTING, SUPERVISING} \<longrightarrow> t_attestation_attempts_used t = 0) \<and>
    (t_state t = RECHECKING \<longrightarrow> t_attestation_attempts_used t < m) \<and>
    (t_state t = VOIDED \<longrightarrow> m \<le> t_attestation_attempts_used t)"
proof -
  from reachable_attempts [OF assms(1)] get_task_mem [OF assms(2)] have "attempts_ok t"
    by (simp add: attempts_inv_def)
  with assms(3) show ?thesis by (auto simp: attempts_ok_def Let_def attempts_bound_def)
qed

theorem attempts_bounded_witness:
  "\<exists>t. get_task run5 ''T'' = Some t \<and> t_attestation_attempts_used t \<le> max 1 2"
  using attempts_bounded [OF run5_reachable, of "''T''" _ 2]
  by (simp add: conjunct1 [OF conjunct2 [OF run5]] max_attempts_of_def sample_task_def py_or_def)

text \<open>
  C5: No task is claimed twice: in every reachable state two claims on the same task are the same
  claim, every claim is accepted and names an existing task, and a task is in state posted
  exactly when nobody has claimed it.
\<close>

theorem single_claim:
  assumes "reachable E s" "c \<in> set (claims s)" "c' \<in> set (claims s)" "c_task_id c = c_task_id c'"
  shows "c = c' \<and> c_accepted c \<and> (\<exists>t. get_task s (c_task_id c) = Some t \<and> t_state t \<noteq> POSTED)"
proof -
  from reachable_claims [OF assms(1)] have inv: "claims_inv s" .
  then have "distinct (map c_task_id (claims s))" by (simp add: claims_inv_def)
  with assms(2-4) have "c = c'" by (metis row_get_unique option.inject)
  moreover from inv assms(2) have "c_task_id c \<in> t_task_id ` set (tasks s)" "c_accepted c"
    by (auto simp: claims_inv_def)
  moreover from this(1) obtain t where t: "get_task s (c_task_id c) = Some t"
    using row_get_None [of t_task_id "tasks s" "c_task_id c"] by (cases "get_task s (c_task_id c)") auto
  moreover from get_task_mem [OF t] inv assms(2) have "t_state t \<noteq> POSTED"
    by (auto simp: claims_inv_def has_claim_def)
  ultimately show ?thesis by blast
qed

theorem single_claim_witness:
  "\<exists>t. get_task run3 ''T'' = Some t \<and> t_state t \<noteq> POSTED"
  using single_claim [OF run3_reachable, of "hd (claims run3)" "hd (claims run3)"] by (simp add: run3_tables)

section \<open>Completion\<close>

text \<open>
  C6: Completion is earned: when a call to tasks/attest leaves the task completed, the claim's
  worker has signed at least one of the pieces submitted and the verifier of its mode has
  passed it, unless the requirement asks for M of N with M not positive; and under the
  threshold all every mode the requirement names has such a piece.
\<close>

theorem completed_by_evidence:
  assumes "task_attest E reg cid evs s = (Inr r, t)" "get_claim s cid = Some c" "get_task s (c_task_id c) = Some task"
    and "get_task t (c_task_id c) = Some task'" "t_state task' = COMPLETED"
    and "t_task_json task = JDict tj" "map_of tj ''attestation_requirement'' = Some (JDict req)"
  shows "\<exists>tp. j_get (JDict tj) ''descriptor_payload'' (JDict []) = Inr tp \<and>
    ((\<exists>m n. threshold_ints (JDict req) = Inr (m, n) \<and> m < 1) \<or>
       (\<exists>ev \<in> set evs. \<exists>mode. accepted_piece E reg cid c tp mode ev)) \<and>
    (\<forall>ms m. j_get (JDict req) ''threshold'' (JStr ''all'') = Inr (JStr ''all'') \<longrightarrow>
       map_of req ''modes'' = Some (JList (map JStr ms)) \<longrightarrow> m \<in> set ms \<longrightarrow>
       (\<exists>ev \<in> set evs. accepted_piece E reg cid c tp (JStr m) ev))"
proof -
  from attest_ok [OF assms(1)] obtain c' task0 m outs agg where
    ar: "attest_result E reg cid evs c' task0 m outs agg s t" by blast
  then have "c' = c" "t_task_id task0 = c_task_id c" and task0: "task0 = task"
    using assms(2,3) by (auto simp: attest_result_def holds_rows_def)
  from ar assms(6,7) obtain rd tp where run: "did_resolve (c_worker_id c) = Inr rd"
      "j_get (JDict tj) ''descriptor_payload'' (JDict []) = Inr tp"
      "list_all2 (\<lambda>ev out. \<exists>u v. attest_one E reg cid (c_worker_id c) rd tp ev u = (Inr out, v)) evs outs"
      "evaluate_threshold E (JDict req) outs = Inr agg"
    by (auto simp: attest_result_def \<open>c' = c\<close> task0)
  have "next_state (vo_decision agg) n m = COMPLETED \<Longrightarrow> vo_decision agg = PASS" for n
    by (auto simp: next_state_def split: verifier_decision.splits if_splits)
  then have pass: "vo_decision agg = PASS"
    using ar assms(4,5) \<open>t_task_id task0 = c_task_id c\<close> by (auto simp: attest_result_def Let_def)
  note piece = passing_piece_accepted [OF run(3,1)]
  have "(\<exists>m n. threshold_ints (JDict req) = Inr (m, n) \<and> m < 1) \<or> (\<exists>p \<in> set outs. vo_decision (snd p) = PASS)"
    using pass_needs_piece [OF run(4) pass] by force
  moreover have "\<exists>p \<in> set outs. vo_decision (snd p) = PASS \<and> fst p = JStr m"
    if "j_get (JDict req) ''threshold'' (JStr ''all'') = Inr (JStr ''all'')" "map_of req ''modes'' = Some (JList (map JStr ms))" "m \<in> set ms" for ms m
    using pass_covers_modes [OF run(4) pass that] .
  ultimately show ?thesis
    using run(2) piece by (intro exI [of _ tp]) (metis (no_types, lifting))
qed

theorem completed_by_evidence_witness:
  "\<exists>c. get_claim run4 claim1 = Some c \<and>
     accepted_piece sample_env DEFAULT_REGISTRY claim1 c (JDict []) (JStr ''sensor-witness'') sample_evidence"
proof -
  obtain r where r: "task_attest sample_env DEFAULT_REGISTRY claim1 [sample_evidence] run4 = (Inr r, run5)" using run5 by blast
  let ?c = "hd (claims run3)"
  have c: "get_claim run4 claim1 = Some ?c" "c_task_id ?c = ''T''" by (simp_all add: run4_tables run3_tables)
  have t: "get_task run4 (c_task_id ?c) = Some (hd (tasks run4))" "get_task run5 (c_task_id ?c) = Some (hd (tasks run5))"
    "t_state (hd (tasks run5)) = COMPLETED" "t_task_json (hd (tasks run4)) = JDict sample_task"
    using run5 by (simp_all add: c(2) run4_tables)
  have req: "map_of sample_task ''attestation_requirement'' =
      Some (JDict [(''modes'', JList (map JStr [''sensor-witness''])), (''threshold'', JStr ''all'')])"
    "j_get (JDict sample_task) ''descriptor_payload'' (JDict []) = Inr (JDict [])"
    by (simp_all add: sample_task_def)
  from completed_by_evidence [OF r c(1) t req(1)] req(2) have
    "\<forall>ms m. [JStr ''sensor-witness''] = map JStr ms \<longrightarrow> m \<in> set ms \<longrightarrow>
       accepted_piece sample_env DEFAULT_REGISTRY claim1 ?c (JDict []) (JStr m) sample_evidence"
    by simp
  from spec [OF this, of "[''sensor-witness'']"] c(1) show ?thesis by simp
qed

section \<open>The recheck loop ends\<close>

text \<open>A worker that keeps attesting: one batch of evidence after the other, each call answered with a result.\<close>

fun attests :: "env \<Rightarrow> string \<Rightarrow> json list list \<Rightarrow> db \<Rightarrow> bool" where
  "attests E cid [] s = True"
| "attests E cid (evs # rest) s =
     (case task_attest E DEFAULT_REGISTRY cid evs s of (Inr _, t) \<Rightarrow> attests E cid rest t | (Inl _, _) \<Rightarrow> False)"

lemma attests_bound:
  assumes "attempts_inv s" "holds_rows cid c task s" "attests E cid batches s"
  shows "t_attestation_attempts_used task + int (length batches) \<le> attempts_bound task"
  using assms
proof (induction batches arbitrary: s task)
  case Nil
  then have "task \<in> set (tasks s)" by (auto simp: holds_rows_def dest: get_task_mem)
  with Nil show ?case by (auto simp: attempts_inv_def attempts_ok_def Let_def)
next
  case (Cons evs rest)
  from Cons.prems(3) obtain r t where run: "task_attest E DEFAULT_REGISTRY cid evs s = (Inr r, t)" and rest: "attests E cid rest t"
    by (auto split: prod.splits sum.splits)
  have inv: "attempts_inv t" using attempts.keeps_attest Cons.prems(1) run by (metis keepsD snd_conv)
  from attest_ok [OF run] obtain c' task0 m outs agg where ar: "attest_result E DEFAULT_REGISTRY cid evs c' task0 m outs agg s t" by blast
  then have "task0 = task" "c' = c" using Cons.prems(2) by (auto simp: attest_result_def holds_rows_def)
  with ar have "holds_rows cid c (task\<lparr>t_attestation_attempts_used := t_attestation_attempts_used task + 1,
      t_state := next_state (vo_decision agg) (t_attestation_attempts_used task + 1) m\<rparr>) t"
    by (auto simp: attest_result_def holds_rows_def Let_def)
  from Cons.IH [OF inv this rest] show ?case by simp
qed

text \<open>
  C8: Attesting ends: from any reachable state, a worker can have at most as many calls to
  tasks/attest answered with a result as its task has attempts left (counting at least one
  attempt for a task whose JSON allows none); after that every call is refused.
\<close>

theorem attesting_ends:
  assumes "reachable E s" "get_claim s cid = Some c" "get_task s (c_task_id c) = Some task"
    and "max_attempts_of task = Inr m" "max 1 m - t_attestation_attempts_used task < int (length batches)"
  shows "\<not> attests E cid batches s"
proof
  assume run: "attests E cid batches s"
  have "holds_rows cid c task s" using assms(2,3) get_task_mem [OF assms(3)] by (simp add: holds_rows_def)
  from attests_bound [OF reachable_attempts [OF assms(1)] this run] assms(4,5) show False
    by (simp add: attempts_bound_def)
qed

theorem attesting_ends_witness:
  "\<not> attests sample_env claim1 [[], [], []] run4"
proof -
  have "get_claim run4 claim1 = Some (hd (claims run3))" "get_task run4 (c_task_id (hd (claims run3))) = Some (hd (tasks run4))"
    by (simp_all add: run4_tables run3_tables)
  moreover have "max_attempts_of (hd (tasks run4)) = Inr 2"
    by (simp add: run4_tables max_attempts_of_def sample_task_def py_or_def)
  ultimately show ?thesis
    by (rule attesting_ends [OF run4_reachable]) (simp add: run4_tables)
qed

section \<open>What the audit chain pins down\<close>

text \<open>What an entry says, apart from its identifier and its signature.\<close>

definition entry_content :: "env \<Rightarrow> wcp_audit \<Rightarrow> string \<times> string \<times> string \<times> bytes \<times> string \<times> string" where
  "entry_content E e = (a_event_type e, a_actor_did e, isoformat E (Naive (utc_us (a_timestamp e))), canon E (a_payload_json e),
     or_empty (a_claim_id e), or_empty (a_task_id e))"

text \<open>Two entries whose link bytes or payload bytes differ and hash alike.\<close>

definition hashes_collide :: "env \<Rightarrow> wcp_audit \<Rightarrow> wcp_audit \<Rightarrow> bool" where
  "hashes_collide E x y \<longleftrightarrow>
     canon E (entry_link E x) \<noteq> canon E (entry_link E y) \<and>
       sha256_hex E (canon E (entry_link E x)) = sha256_hex E (canon E (entry_link E y)) \<or>
     canon E (a_payload_json x) \<noteq> canon E (a_payload_json y) \<and>
       sha256_hex E (canon E (a_payload_json x)) = sha256_hex E (canon E (a_payload_json y))"

lemma same_link_content:
  assumes "entry_ok E x" "entry_ok E y" "entry_link E x = entry_link E y" "\<not> hashes_collide E x y"
  shows "entry_content E x = entry_content E y"
proof -
  from assms(3) have "a_payload_hash x = a_payload_hash y" by (simp add: entry_link_def link_json_def)
  with assms(1,2) have "sha256_hex E (canon E (a_payload_json x)) = sha256_hex E (canon E (a_payload_json y))"
    by (simp add: entry_ok_def)
  with assms(4) have "canon E (a_payload_json x) = canon E (a_payload_json y)" by (auto simp: hashes_collide_def)
  with assms(3) show ?thesis by (simp add: entry_content_def entry_link_def link_json_def)
qed

text \<open>
  C7: Tamper evidence: two databases in which the chain of a claim verifies, with the same number
  of entries and the same last hash, tell the same story entry by entry (event type, actor,
  time, payload, claim, task), or two of their entries are a collision of SHA-256.
\<close>

theorem audit_chain_binds:
  assumes "float_repr_ok (float_repr E)" "verify_chain E s cid" "verify_chain E t cid"
    and "length (claim_entries cid (audits s)) = length (claim_entries cid (audits t))"
    and "latest_hash_for_claim s cid = latest_hash_for_claim t cid"
  shows "map (entry_content E) (claim_entries cid (audits s)) = map (entry_content E) (claim_entries cid (audits t)) \<or>
    (\<exists>x \<in> set (claim_entries cid (audits s)). \<exists>y \<in> set (claim_entries cid (audits t)). hashes_collide E x y)"
proof (rule disjCI)
  let ?xs = "claim_entries cid (audits s)" and ?ys = "claim_entries cid (audits t)"
  assume none: "\<not> (\<exists>x \<in> set ?xs. \<exists>y \<in> set ?ys. hashes_collide E x y)"
  have latest: "latest_hash_for_claim u cid = end_hash a_this_hash None (claim_entries cid (audits u))" for u
    by (cases "claim_entries cid (audits u)" rule: rev_cases) (simp_all add: latest_hash_for_claim_def)
  have chains: "chain_from a_prev_hash a_this_hash (entry_ok E) None ?xs" "chain_from a_prev_hash a_this_hash (entry_ok E) None ?ys"
    using assms(2,3) by (simp_all add: verify_chain_def)
  have "map (entry_link E) ?xs = map (entry_link E) ?ys \<or>
      (\<exists>x \<in> set ?xs. \<exists>y \<in> set ?ys. entry_link E x \<noteq> entry_link E y \<and>
        sha256_hex E (canon E (entry_link E x)) = sha256_hex E (canon E (entry_link E y)))"
    using audit.same_end_links [OF assms(4) chains] assms(5) by (simp add: latest)
  with none entry_link_canonical [OF assms(1)] have links: "map (entry_link E) ?xs = map (entry_link E) ?ys"
    unfolding hashes_collide_def by blast
  show "map (entry_content E) ?xs = map (entry_content E) ?ys"
  proof (rule nth_equalityI)
    fix i assume "i < length (map (entry_content E) ?xs)"
    then have i: "i < length ?xs" "i < length ?ys" using assms(4) by simp_all
    with links have "entry_link E (?xs ! i) = entry_link E (?ys ! i)" by (metis nth_map)
    moreover have "entry_ok E (?xs ! i)" "entry_ok E (?ys ! i)"
      using audit.verify_good [OF chains(1)] audit.verify_good [OF chains(2)] i by simp_all
    ultimately show "map (entry_content E) ?xs ! i = map (entry_content E) ?ys ! i"
      using same_link_content none i by simp
  qed (use assms(4) in simp)
qed

definition forge_actor :: "db \<Rightarrow> db" where
  "forge_actor s = s\<lparr>audits := map (\<lambda>e. e\<lparr>a_actor_did := ''x''\<rparr>) (audits s)\<rparr>"

theorem audit_chain_binds_witness:
  "verify_chain sample_env run3 claim1 \<and> \<not> verify_chain sample_env (forge_actor run3) claim1"
proof
  let ?g = "\<lambda>e. e\<lparr>a_actor_did := ''x''\<rparr>"
  show v: "verify_chain sample_env run3 claim1"
    using reachable_log [OF run3_reachable] by (intro verify_chain_inv) (simp_all add: claim1_def)
  obtain r where "task_claim sample_env ''T'' worker_did ''a100000000'' (JDict sample_acceptance) None run2 = (Inr r, run3)"
    using run3_step by blast
  from claim_ok [OF this] have "\<exists>e. audits run3 = audits run2 @ [e] \<and> a_actor_did e = worker_did \<and> a_claim_id e = Some claim1"
    by (auto simp: run3_tables run2_tables)
  then obtain e where "audits run3 = audits run2 @ [e]" and e: "a_claim_id e = Some claim1" "a_actor_did e = worker_did"
    by blast
  then have mem: "e \<in> set (audits run3)" by simp
  have es: "claim_entries claim1 (audits (forge_actor run3)) = map ?g (claim_entries claim1 (audits run3))"
    by (simp add: claim_entries_def forge_actor_def filter_map o_def sort_key_map)
  have last: "latest_hash_for_claim (forge_actor run3) claim1 = latest_hash_for_claim run3 claim1"
    unfolding latest_hash_for_claim_def es rev_map by (simp split: list.splits)
  have no: "\<not> hashes_collide sample_env x y" for x y by (simp add: hashes_collide_def)
  show "\<not> verify_chain sample_env (forge_actor run3) claim1"
  proof
    assume "verify_chain sample_env (forge_actor run3) claim1"
    from audit_chain_binds [OF _ v this] es last no
    have "map (entry_content sample_env) (claim_entries claim1 (audits run3)) =
        map (entry_content sample_env) (map ?g (claim_entries claim1 (audits run3)))" by simp
    moreover have "e \<in> set (claim_entries claim1 (audits run3))" using e mem by (simp add: claim_entries_def)
    ultimately have "entry_content sample_env e = entry_content sample_env (?g e)" by simp
    then show False using e(2) by (simp add: entry_content_def worker_did_def did_string_def)
  qed
qed

section \<open>Failed calls\<close>

text \<open>
  C9: What a failed call leaves behind depends on the transport: over WebSocket a call that ends in
  an error restores every table; over HTTP the same call is answered with the same error and
  everything it wrote before failing is committed.
\<close>

theorem failed_call_effects:
  assumes "dispatch E (JStr m) (JDict p) s = (RpcError code msg, t)" "p \<noteq> []" "fst (db_flush t) = Inr ()"
  shows "ws_message E (Some (JDict (rpc_request m p))) s = (Send (error_body (JInt 1) code msg), db_rollback s t) \<and>
    http_rpc E (rpc_request m p) s = (Response 200 (error_body (JInt 1) code msg), t)"
  using assms
  by (simp add: ws_message_def http_rpc_def rpc_request_def arg_def py_or_def db_commit_def)

text \<open>Evidence the worker signed, whose collection time is no time.\<close>

definition untimed_evidence :: json where
  "untimed_evidence = JDict [(''mode'', JStr ''sensor-witness''), (''kind'', JStr ''weight_delta''),
     (''payload'', JDict [(''before_kg'', JInt 4), (''after_kg'', JInt 3)]), (''payload_hash'', JStr ''h''),
     (''collected_at'', JStr ''x''),
     (''sig'', JStr (wire_sig (ed25519_sign sample_env (sample_key (CHR ''w''))
       (canon sample_env (evidence_json (JStr ''sensor-witness'') (JStr ''weight_delta'') (JStr ''h'') worker_did claim1 (JStr ''x''))))))]"

lemma untimed_raises:
  "\<exists>m. attest_one sample_env DEFAULT_REGISTRY claim1 worker_did
     \<lparr>r_did = worker_did, r_public_key = sample_key (CHR ''w''), r_path = None\<rparr> (JDict []) untimed_evidence s = (Inl (ValueError m), s)"
proof -
  have "\<exists>m. parse_iso sample_env ''x'' = Inl (ValueError m)"
    by (simp add: parse_iso_def replace_Z_def sample_read_def read_int_def py_strip_def)
  then show ?thesis
  by (auto simp: attest_one_def untimed_evidence_def did_verify_wire [THEN iffD2] sample_weight_ok
      store_attestation_def attestation_mode_of_def enum_of_def access_defs bindS_def)
qed

theorem failed_call_effects_witness:
  "\<exists>code msg t. http_rpc sample_env (rpc_request ''tasks/attest'' [(''claim_id'', JStr claim1),
       (''attestations'', JList [sample_evidence, untimed_evidence])]) run4 = (Response 200 (error_body (JInt 1) code msg), t) \<and>
     attestations run4 = [] \<and> attestations t \<noteq> [] \<and> audits t = audits run4"
proof -
  let ?p = "[(''claim_id'', JStr claim1), (''attestations'', JList [sample_evidence, untimed_evidence])]"
  obtain a where a0: "attest_one sample_env DEFAULT_REGISTRY claim1 worker_did
     \<lparr>r_did = worker_did, r_public_key = sample_key (CHR ''w''), r_path = None\<rparr> (JDict []) sample_evidence run4 =
     (Inr (JStr ''sensor-witness'', pass_outcome), run4\<lparr>n_uuid := Suc (n_uuid run4), attestations := [a]\<rparr>)" "attestation_storable a"
    using sample_evidence_ok [OF run4_tables(3)] by blast
  define u where "u = run4\<lparr>n_uuid := Suc (n_uuid run4), attestations := [a]\<rparr>"
  note a = a0(1) [folded u_def]
  obtain m where m: "attest_one sample_env DEFAULT_REGISTRY claim1 worker_did
     \<lparr>r_did = worker_did, r_public_key = sample_key (CHR ''w''), r_path = None\<rparr> (JDict []) untimed_evidence u = (Inl (ValueError m), u)"
    using untimed_raises by blast
  have "task_attest sample_env DEFAULT_REGISTRY claim1 [sample_evidence, untimed_evidence] run4 = (Inl (ValueError m), u)"
    by (simp add: task_attest_def claim_and_task_def run4_tables run3_tables attest_guard_def bindS_def a m
        access_defs max_attempts_of_def sample_task_def py_or_def)
  then have run: "rpc_tasks_attest sample_env DEFAULT_REGISTRY ?p run4 = (Inl (ValueError m), u)"
    by (simp add: rpc_tasks_attest_def check_kwargs_def str_arg_def arg_def)
  obtain c where "map_value_error m = RpcError c m"
    by (cases "find (\<lambda>(p, c). startswith m p) error_prefixes") (auto simp: map_value_error_def)
  with run have "dispatch sample_env (JStr ''tasks/attest'') (JDict ?p) run4 = (RpcError c m, u)"
    by (simp add: dispatch_def methods_def py_or_def)
  from failed_call_effects [OF this] a0(2) show ?thesis
    by (auto simp: u_def db_flush_def run4_tables)
qed

section \<open>Canonical bytes\<close>

text \<open>
  C10: Canonical JSON is faithful: two dicts with distinct keys have the same canonical bytes, the
  bytes that are hashed and signed, exactly when they have the same keys with values of the
  same canonical bytes, in whatever order the keys were written.
\<close>

theorem canonical_dict_inject:
  assumes "float_repr_ok fr" "distinct (map fst a)" "distinct (map fst b)"
  shows "canonical_json fr (JDict a) = canonical_json fr (JDict b) \<longleftrightarrow>
    (\<forall>k. map_option (canonical_json fr) (map_of a k) = map_option (canonical_json fr) (map_of b k))"
proof -
  let ?s = "map (\<lambda>(k, v). (k, sort_json v))"
  have keys: "map fst (?s x) = map fst x" for x :: "(string \<times> json) list" by (simp add: split_def)
  have look: "map_of (?s x) k = map_option sort_json (map_of x k)" for x k by (induction x) auto
  have val: "map_option (canonical_json fr) x = map_option (canonical_json fr) y \<longleftrightarrow> map_option sort_json x = map_option sort_json y" for x y
    by (cases x; cases y) (simp_all add: canonical_json_eq [OF assms(1)])
  have "canonical_json fr (JDict a) = canonical_json fr (JDict b) \<longleftrightarrow> map_of (?s a) = map_of (?s b)"
    using sorted_dict_eq [of "?s a" "?s b", unfolded keys, OF assms(2,3)] by (simp add: canonical_json_eq [OF assms(1)])
  also have "\<dots> \<longleftrightarrow> (\<forall>k. map_option sort_json (map_of a k) = map_option sort_json (map_of b k))"
    by (simp add: fun_eq_iff look)
  finally show ?thesis by (simp add: val)
qed

theorem canonical_dict_inject_witness:
  "canonical_json sample_float (JDict [(''a'', JInt 1), (''b'', JNull)]) = canonical_json sample_float (JDict [(''b'', JNull), (''a'', JInt 1)]) \<and>
   canonical_json sample_float (JDict [(''a'', JInt 1)]) \<noteq> canonical_json sample_float (JDict [(''a'', JStr ''1'')])"
  using canonical_dict_inject [OF sample_float_ok, of "[(''a'', JInt 1), (''b'', JNull)]" "[(''b'', JNull), (''a'', JInt 1)]"]
    canonical_dict_inject [OF sample_float_ok, of "[(''a'', JInt 1)]" "[(''a'', JStr ''1'')]"]
  by (auto simp: canonical_json_eq)

section \<open>Federation\<close>

text \<open>
  C15: Exporter and importer agree: the audit segment a coordinator serves for a claim in any
  reachable state passes the importing peer's verify_chain_segment (the clock advances
  strictly, signatures verify, and SHA-256 never prints as the empty string).
\<close>

theorem exported_chain_imports:
  assumes "reachable E s" "strict_mono (clock E)" "sig_correct E" "hash_nonempty E" "cid \<noteq> []"
  shows "\<exists>es. j_get (federation_audit_chain E cid s) ''entries'' JNull = Inr (JList es) \<and>
    verify_chain_segment E es = Inr True"
proof -
  have "audit_inv E s" using reachable_log [OF assms(1-3)] .
  then have "chain_from a_prev_hash a_this_hash (entry_ok E) None (claim_entries cid (audits s))"
    using verify_chain_inv [OF _ assms(5)] by (simp add: verify_chain_def)
  then have "chain_from a_prev_hash a_this_hash (entry_bound E) None (claim_entries cid (audits s))"
    by (rule chain_from_weaken [rotated])
      (use reachable_payloads [OF assms(1)] in \<open>auto simp: entry_ok_def entry_bound_def payloads_inv_def claim_entries_def\<close>)
  from exported_segment [OF assms(4) _ this] show ?thesis
    by (simp add: federation_audit_chain_def verify_segment_chain)
qed

theorem exported_chain_imports_witness:
  "\<exists>es. j_get (federation_audit_chain sample_env claim1 run5) ''entries'' JNull = Inr (JList es) \<and>
    verify_chain_segment sample_env es = Inr True"
  using exported_chain_imports [OF run5_reachable, of claim1] by (simp add: claim1_def)

end
